(* ===== verification/Akamu_Prelude.thy ===== *)
theory Akamu_Prelude
  imports
    "HOL-Library.AList"
    "HOL-Library.Char_ord"
    "HOL-Library.List_Lexorder"
    "HOL-Library.Product_Lexorder"
begin

text \<open>
  Shared vocabulary of the development: the model of Rust's machine integers that the components
  use (saturating 64-bit addition), Rust's \<^verbatim>\<open>HashMap\<close> as an association list whose order stands
  for the unspecified iteration order, and the generic lemmas on these that the component
  theories share. Strings are lists of bytes (\<^typ>\<open>string\<close>), ordered lexicographically as Rust
  orders \<^verbatim>\<open>str\<close>.
\<close>

named_theorems crdt_simps \<open>unfolding rules for the replicated data types\<close>
named_theorems gen_rules \<open>bounds on local write generations\<close>
named_theorems db_defs \<open>definitions of the database operations\<close>

section \<open>Machine integers\<close>

type_synonym u64 = nat   \<comment> \<open>values below \<open>2 ^ 64\<close>, wrap-around written out\<close>
type_synonym i64 = int   \<comment> \<open>values in \<open>[- 2 ^ 63, 2 ^ 63)\<close>, saturation written out\<close>

definition i64_min :: int where
  "i64_min = - (2 ^ 63)"

definition i64_max :: int where
  "i64_max = 2 ^ 63 - 1"

definition sat_add :: "i64 \<Rightarrow> i64 \<Rightarrow> i64" where
  "sat_add a b = max i64_min (min i64_max (a + b))"

definition sat_sub :: "i64 \<Rightarrow> i64 \<Rightarrow> i64" where
  "sat_sub a b = max i64_min (min i64_max (a - b))"

lemma sat_add_mono: "a \<le> b \<Longrightarrow> sat_add a c \<le> sat_add b c"
  by (simp add: sat_add_def)

lemma sat_add_exact: "i64_min \<le> a + b \<Longrightarrow> a + b \<le> i64_max \<Longrightarrow> sat_add a b = a + b"
  by (simp add: sat_add_def)

lemma sat_add_nonneg_ge: "0 \<le> c \<Longrightarrow> a \<le> i64_max \<Longrightarrow> a \<le> sat_add a c"
  by (auto simp: sat_add_def i64_min_def i64_max_def)

lemma sat_add_less_imp_less: "0 \<le> c \<Longrightarrow> a \<le> i64_max \<Longrightarrow> sat_add a c < t \<Longrightarrow> a < t"
  using sat_add_nonneg_ge by fastforce

section \<open>Hash maps as association lists\<close>

text \<open>
  A \<^verbatim>\<open>HashMap\<close> is a list of key/value pairs with distinct keys. The order of the list is the
  iteration order, which Rust leaves unspecified: a theorem about every such list is a theorem
  about every iteration order.
\<close>

type_synonym ('k, 'v) hashmap = "('k \<times> 'v) list"

definition hm_wf :: "('k, 'v) hashmap \<Rightarrow> bool" where
  "hm_wf m \<longleftrightarrow> distinct (map fst m)"

abbreviation hm_get :: "('k, 'v) hashmap \<Rightarrow> 'k \<Rightarrow> 'v option" where
  "hm_get m k \<equiv> map_of m k"

abbreviation hm_insert :: "'k \<Rightarrow> 'v \<Rightarrow> ('k, 'v) hashmap \<Rightarrow> ('k, 'v) hashmap" where
  "hm_insert k v m \<equiv> AList.update k v m"

definition hm_retain :: "('k \<Rightarrow> 'v \<Rightarrow> bool) \<Rightarrow> ('k, 'v) hashmap \<Rightarrow> ('k, 'v) hashmap" where
  "hm_retain p m = filter (\<lambda>(k, v). p k v) m"

lemma hm_wf_Nil [simp]: "hm_wf []"
  by (simp add: hm_wf_def)

lemma hm_wf_insert [simp]: "hm_wf m \<Longrightarrow> hm_wf (hm_insert k v m)"
  by (simp add: hm_wf_def distinct_update)

lemma hm_get_insert: "hm_get (hm_insert k v m) k' = (if k' = k then Some v else hm_get m k')"
  by (simp add: update_conv')

lemma hm_retain_subset: "set (hm_retain p m) \<subseteq> set m"
  by (auto simp: hm_retain_def)

lemma hm_wf_retain [simp]: "hm_wf m \<Longrightarrow> hm_wf (hm_retain p m)"
  by (induction m) (auto simp: hm_wf_def hm_retain_def)

lemma hm_retain_Cons:
  "hm_retain p ((k, v) # m) = (if p k v then (k, v) # hm_retain p m else hm_retain p m)"
  by (simp add: hm_retain_def)

lemma hm_get_notin: "k \<notin> fst ` set m \<Longrightarrow> hm_get m k = None"
  by (simp add: map_of_eq_None_iff)

lemma hm_get_retain:
  "hm_wf m \<Longrightarrow> hm_get (hm_retain p m) k
     = (case hm_get m k of None \<Rightarrow> None | Some v \<Rightarrow> if p k v then Some v else None)"
proof (induction m)
  case Nil
  then show ?case by (simp add: hm_retain_def)
next
  case (Cons kv m)
  obtain k' v where kv: "kv = (k', v)" by fastforce
  from Cons.prems kv have notin: "k' \<notin> fst ` set m" and wf: "hm_wf m"
    by (auto simp: hm_wf_def)
  have sub: "fst ` set (hm_retain p m) \<subseteq> fst ` set m"
    using hm_retain_subset by fastforce
  have "k' \<notin> fst ` set (hm_retain p m)" using notin sub by blast
  then have none: "hm_get (hm_retain p m) k' = None" by (rule hm_get_notin)
  then show ?case
    using Cons.IH [OF wf] kv hm_get_notin [OF notin]
    by (auto simp: hm_retain_Cons split: option.splits)
qed

lemma hm_get_SomeD: "hm_get m k = Some v \<Longrightarrow> (k, v) \<in> set m"
  by (rule map_of_SomeD)

lemma hm_get_SomeI: "hm_wf m \<Longrightarrow> (k, v) \<in> set m \<Longrightarrow> hm_get m k = Some v"
  by (simp add: hm_wf_def)

lemma hm_values_update:
  "snd ` set (hm_insert k v m) \<subseteq> insert v (snd ` set m)"
  by (induction m) auto

section \<open>Maxima over lists\<close>

text \<open>Rust's \<^verbatim>\<open>iter().max().unwrap_or(0)\<close> over unsigned values.\<close>

definition max_or_zero :: "nat list \<Rightarrow> nat" where
  "max_or_zero xs = fold max xs 0"

lemma fold_max_ge: "(a::nat) \<le> fold max xs a"
  by (induction xs arbitrary: a) (auto intro: order_trans [OF max.cobounded2])

lemma fold_max_upper: "x \<in> set xs \<Longrightarrow> (x::nat) \<le> fold max xs a"
proof (induction xs arbitrary: a)
  case Nil
  then show ?case by simp
next
  case (Cons y xs)
  show ?case
  proof (cases "x = y")
    case True
    have "y \<le> max y a" by simp
    also have "\<dots> \<le> fold max xs (max y a)" by (rule fold_max_ge)
    finally show ?thesis using True by simp
  next
    case False
    then show ?thesis using Cons by simp
  qed
qed

lemma fold_max_least: "a \<le> b \<Longrightarrow> (\<And>x. x \<in> set xs \<Longrightarrow> x \<le> b) \<Longrightarrow> fold max xs (a::nat) \<le> b"
  by (induction xs arbitrary: a) auto

lemma max_or_zero_upper: "x \<in> set xs \<Longrightarrow> x \<le> max_or_zero xs"
  by (simp add: max_or_zero_def fold_max_upper)

lemma max_or_zero_le: "(\<And>x. x \<in> set xs \<Longrightarrow> x \<le> b) \<Longrightarrow> max_or_zero xs \<le> b"
  by (simp add: max_or_zero_def fold_max_least)

section \<open>Decimal text\<close>

text \<open>Rust's \<^verbatim>\<open>Display\<close> of integers.\<close>

definition digit_char :: "nat \<Rightarrow> char" where
  "digit_char n = char_of (48 + n)"

fun show_nat :: "nat \<Rightarrow> string" where
  "show_nat n = (if n < 10 then [digit_char n] else show_nat (n div 10) @ [digit_char (n mod 10)])"

declare show_nat.simps [simp del]

definition show_int :: "int \<Rightarrow> string" where
  "show_int i = (if i < 0 then CHR ''-'' # show_nat (nat (- i)) else show_nat (nat i))"

definition quoted :: "string \<Rightarrow> string" where
  "quoted s = CHR 0x27 # s @ [CHR 0x27]"

definition ascii_lower :: "char \<Rightarrow> char" where
  "ascii_lower c = (if CHR ''A'' \<le> c \<and> c \<le> CHR ''Z'' then char_of (of_char c + (32 :: nat)) else c)"

definition strip_prefix :: "string \<Rightarrow> string \<Rightarrow> string option" where
  "strip_prefix p s = (if take (length p) s = p then Some (drop (length p) s) else None)"

section \<open>Fallible steps\<close>

text \<open>\<^verbatim>\<open>?\<close> and \<^verbatim>\<open>ok_or\<close>: a step that is only made when the one before succeeded.\<close>

definition and_then :: "'e + 'a \<Rightarrow> ('a \<Rightarrow> 'e + 'b) \<Rightarrow> 'e + 'b" where
  "and_then r f = (case r of Inl e \<Rightarrow> Inl e | Inr x \<Rightarrow> f x)"

definition ok_or :: "'e \<Rightarrow> 'a option \<Rightarrow> 'e + 'a" where
  "ok_or e x = (case x of None \<Rightarrow> Inl e | Some a \<Rightarrow> Inr a)"

lemma and_then_simps [simp]: "and_then (Inl e) f = Inl e" "and_then (Inr x) f = f x"
  by (simp_all add: and_then_def)

lemma ok_or_simps [simp]: "ok_or e None = Inl e" "ok_or e (Some a) = Inr a"
  by (simp_all add: ok_or_def)

lemma and_then_Inr: "and_then r f = Inr y \<longleftrightarrow> (\<exists>x. r = Inr x \<and> f x = Inr y)"
  by (cases r) simp_all

lemma ok_or_Inr [simp]: "ok_or e x = Inr a \<longleftrightarrow> x = Some a"
  by (cases x) simp_all

end
