(* ===== verification/Gossip_Interface.thy ===== *)
theory Gossip_Interface
  imports Akamu_Prelude
begin

text \<open>
  The contract of a replicated data type, as the gossip layer relies on it: a \<^verbatim>\<open>merge\<close> (the trait
  \<^verbatim>\<open>Merge\<close> of \<^verbatim>\<open>crates/akamu-crdt/src/merge.rs\<close>) that threads the node's write-generation
  counter, a \<open>view\<close> of the replicated part of a state (everything a peer can observe, so without
  the node-local write generations), and a join on views that \<open>merge\<close> implements. What the gossip
  layer gets from it, for any order, duplication and grouping of the deliveries, is proved here
  once, inside the locale.
\<close>

section \<open>Delivering a sequence of states\<close>

text \<open>A node that receives the states \<open>ms\<close>, in this order, merges each into its own state.\<close>

fun deliver :: "(u64 \<Rightarrow> 's \<Rightarrow> 's \<Rightarrow> u64 \<times> 's) \<Rightarrow> u64 \<Rightarrow> 's \<Rightarrow> 's list \<Rightarrow> u64 \<times> 's" where
  "deliver merge g s [] = (g, s)"
| "deliver merge g s (m # ms) = (case merge g s m of (g', s') \<Rightarrow> deliver merge g' s' ms)"

section \<open>The contract and its consequences\<close>

locale gossip_crdt =
  fixes merge :: "u64 \<Rightarrow> 's \<Rightarrow> 's \<Rightarrow> u64 \<times> 's"
    and view :: "'s \<Rightarrow> 'w"
    and join :: "'w \<Rightarrow> 'w \<Rightarrow> 'w"
    and univ :: "'w \<Rightarrow> bool"
    and wf :: "'s \<Rightarrow> bool"
  assumes view_merge: "wf a \<Longrightarrow> wf b \<Longrightarrow> view (snd (merge g a b)) = join (view a) (view b)"
    and wf_merge: "wf a \<Longrightarrow> wf b \<Longrightarrow> wf (snd (merge g a b))"
    and join_assoc: "univ x \<Longrightarrow> univ y \<Longrightarrow> univ z \<Longrightarrow> join (join x y) z = join x (join y z)"
    and join_comm: "univ x \<Longrightarrow> univ y \<Longrightarrow> join x y = join y x"
    and join_idem: "univ x \<Longrightarrow> join x x = x"
    and univ_join: "univ x \<Longrightarrow> univ y \<Longrightarrow> univ (join x y)"
begin

definition below :: "'w \<Rightarrow> 'w \<Rightarrow> bool" where
  "below x y \<longleftrightarrow> join x y = y"

definition ok :: "'s \<Rightarrow> bool" where
  "ok s \<longleftrightarrow> wf s \<and> univ (view s)"

lemma okI: "wf s \<Longrightarrow> univ (view s) \<Longrightarrow> ok s"
  by (simp add: ok_def)

lemma ok_univ: "ok s \<Longrightarrow> univ (view s)"
  by (simp add: ok_def)

lemma ok_merge: "ok a \<Longrightarrow> ok b \<Longrightarrow> ok (snd (merge g a b))"
  by (simp add: ok_def view_merge wf_merge univ_join)

lemma ok_view_merge: "ok a \<Longrightarrow> ok b \<Longrightarrow> view (snd (merge g a b)) = join (view a) (view b)"
  by (simp add: ok_def view_merge)

lemma below_antisym: "univ x \<Longrightarrow> univ y \<Longrightarrow> below x y \<Longrightarrow> below y x \<Longrightarrow> x = y"
  using join_comm by (auto simp: below_def)

lemma below_trans:
  assumes "univ x" "univ y" "univ z" "below x y" "below y z"
  shows "below x z"
  using assms by (metis below_def join_assoc)

lemma below_joinL: "univ x \<Longrightarrow> univ y \<Longrightarrow> below x (join x y)"
  by (metis below_def join_assoc join_idem)

lemma below_joinR: "univ x \<Longrightarrow> univ y \<Longrightarrow> below y (join x y)"
  using below_joinL [of y x] by (simp add: join_comm)

lemma join_least:
  assumes "univ x" "univ y" "univ u" "below x u" "below y u"
  shows "below (join x y) u"
  using assms by (simp add: below_def join_assoc)

lemma deliver_Cons:
  "snd (deliver merge g s (m # ms)) = snd (deliver merge (fst (merge g s m)) (snd (merge g s m)) ms)"
  by (simp add: case_prod_beta)

lemma ok_deliver: "ok s \<Longrightarrow> (\<And>m. m \<in> set ms \<Longrightarrow> ok m) \<Longrightarrow> ok (snd (deliver merge g s ms))"
proof (induction ms arbitrary: g s)
  case (Cons m ms)
  then show ?case unfolding deliver_Cons by (simp add: ok_merge)
qed simp

lemma deliver_upper:
  assumes "ok s" and "\<And>m. m \<in> set ms \<Longrightarrow> ok m"
  shows "below (view s) (view (snd (deliver merge g s ms)))"
  using assms
proof (induction ms arbitrary: g s)
  case Nil
  then show ?case by (simp add: below_def join_idem ok_univ)
next
  case (Cons m ms)
  let ?t = "snd (merge g s m)"
  have t: "ok ?t" using Cons.prems by (simp add: ok_merge)
  have "below (view s) (view ?t)" using Cons.prems by (simp add: ok_view_merge below_joinL ok_univ)
  moreover have "below (view ?t) (view (snd (deliver merge (fst (merge g s m)) ?t ms)))"
    using Cons.IH [OF t] Cons.prems by simp
  ultimately show ?case
    unfolding deliver_Cons using t Cons.prems
    by (meson below_trans list.set_intros(2) ok_deliver ok_univ)
qed

lemma deliver_contains:
  assumes "ok s" and "\<And>m. m \<in> set ms \<Longrightarrow> ok m" and "x \<in> set ms"
  shows "below (view x) (view (snd (deliver merge g s ms)))"
  using assms
proof (induction ms arbitrary: g s)
  case (Cons m ms)
  let ?g = "fst (merge g s m)" and ?t = "snd (merge g s m)"
  have t: "ok ?t" using Cons.prems by (simp add: ok_merge)
  show ?case
  proof (cases "x = m")
    case True
    have "below (view m) (view ?t)" using Cons.prems by (simp add: ok_view_merge below_joinR ok_univ)
    moreover have "below (view ?t) (view (snd (deliver merge ?g ?t ms)))"
      using deliver_upper [OF t] Cons.prems by simp
    ultimately show ?thesis
      unfolding deliver_Cons using True t Cons.prems
      by (meson below_trans list.set_intros ok_deliver ok_univ)
  next
    case False
    then show ?thesis
      unfolding deliver_Cons using Cons.IH [OF t] Cons.prems by simp
  qed
qed simp

lemma deliver_least:
  assumes "ok s" and "\<And>m. m \<in> set ms \<Longrightarrow> ok m" and "univ u"
    and "below (view s) u" and "\<And>m. m \<in> set ms \<Longrightarrow> below (view m) u"
  shows "below (view (snd (deliver merge g s ms))) u"
  using assms
proof (induction ms arbitrary: g s)
  case (Cons m ms)
  have "ok (snd (merge g s m))" "below (view (snd (merge g s m))) u"
    using Cons.prems by (simp_all add: ok_merge ok_view_merge join_least ok_univ)
  then show ?case
    unfolding deliver_Cons using Cons by simp
qed simp

lemma deliver_mono:
  assumes s: "ok s" and t: "ok t" and st: "view s = view t"
    and ms: "\<And>m. m \<in> set ms \<Longrightarrow> ok m" and ns: "\<And>m. m \<in> set ns \<Longrightarrow> ok m"
    and sub: "set ms \<subseteq> set ns"
  shows "below (view (snd (deliver merge g s ms))) (view (snd (deliver merge h t ns)))"
proof (rule deliver_least [OF s ms])
  show "univ (view (snd (deliver merge h t ns)))" using t ns by (simp add: ok_deliver ok_univ)
  show "below (view s) (view (snd (deliver merge h t ns)))"
    unfolding st using t ns by (rule deliver_upper)
  show "below (view m) (view (snd (deliver merge h t ns)))" if "m \<in> set ms" for m
    using t ns that sub by (meson deliver_contains subsetD)
qed

text \<open>
  Strong eventual consistency: two nodes that start from the same view and receive the same set
  of states, in any order and any number of times each, end with the same view.
\<close>

lemma deliver_converges:
  assumes s: "ok s" and t: "ok t" and st: "view s = view t"
    and ms: "\<And>m. m \<in> set ms \<Longrightarrow> ok m" and same: "set ms = set ns"
  shows "view (snd (deliver merge g s ms)) = view (snd (deliver merge h t ns))"
proof -
  have ns: "\<And>m. m \<in> set ns \<Longrightarrow> ok m" using ms same by simp
  have "below (view (snd (deliver merge g s ms))) (view (snd (deliver merge h t ns)))"
    using s t st ms ns equalityD1 [OF same] by (rule deliver_mono)
  moreover have "below (view (snd (deliver merge h t ns))) (view (snd (deliver merge g s ms)))"
    using t s st [symmetric] ns ms equalityD2 [OF same] by (rule deliver_mono)
  ultimately show ?thesis
    using ok_deliver [OF s ms] ok_deliver [OF t ns] by (blast intro: below_antisym ok_univ)
qed

text \<open>Two nodes that exchange their full states end with the same view.\<close>

lemma exchange_converges:
  "ok a \<Longrightarrow> ok b \<Longrightarrow> view (snd (merge g a b)) = view (snd (merge h b a))"
  by (simp add: ok_view_merge join_comm ok_univ)

text \<open>A redelivered state changes nothing.\<close>

lemma redelivery_is_noop:
  assumes "ok a" "ok b"
  shows "view (snd (merge h (snd (merge g a b)) b)) = view (snd (merge g a b))"
  using assms by (simp add: ok_merge ok_view_merge join_assoc join_idem ok_univ)

end

section \<open>Delta gossip\<close>

text \<open>
  A replicated type with write generations sends only the entries written after a generation the
  peer has acknowledged. Its contract adds: the entries up to a generation together with the
  delta since it are the whole state.
\<close>

locale delta_crdt = gossip_crdt merge view join univ wf
  for merge :: "u64 \<Rightarrow> 's \<Rightarrow> 's \<Rightarrow> u64 \<times> 's"
    and view :: "'s \<Rightarrow> 'w"
    and join :: "'w \<Rightarrow> 'w \<Rightarrow> 'w"
    and univ :: "'w \<Rightarrow> bool"
    and wf :: "'s \<Rightarrow> bool" +
  fixes delta_since :: "'s \<Rightarrow> u64 \<Rightarrow> 's"
    and upto_gen :: "'s \<Rightarrow> u64 \<Rightarrow> 's"
  assumes view_split:
      "wf s \<Longrightarrow> univ (view s) \<Longrightarrow> join (view (upto_gen s gen)) (view (delta_since s gen)) = view s"
    and univ_upto: "wf s \<Longrightarrow> univ (view s) \<Longrightarrow> univ (view (upto_gen s gen))"
    and univ_delta: "wf s \<Longrightarrow> univ (view s) \<Longrightarrow> univ (view (delta_since s gen))"
    and wf_upto: "wf s \<Longrightarrow> wf (upto_gen s gen)"
    and wf_delta: "wf s \<Longrightarrow> wf (delta_since s gen)"
begin

lemma ok_upto: "ok s \<Longrightarrow> ok (upto_gen s gen)"
  by (simp add: ok_def univ_upto wf_upto)

lemma ok_delta: "ok s \<Longrightarrow> ok (delta_since s gen)"
  by (simp add: ok_def univ_delta wf_delta)

text \<open>
  For a peer that has already merged everything written up to \<open>gen\<close>, the delta since \<open>gen\<close>
  has the same effect as the whole state.
\<close>

lemma delta_suffices:
  assumes s: "ok s" and t: "ok t"
    and acked: "view (snd (merge h t (upto_gen s gen))) = view t"
  shows "view (snd (merge g t (delta_since s gen))) = view (snd (merge g t s))"
proof -
  let ?old = "view (upto_gen s gen)" and ?new = "view (delta_since s gen)"
  have u: "univ ?old" "univ ?new" using s by (simp_all add: ok_upto ok_delta ok_univ)
  have "join (view t) (view s) = join (view t) (join ?old ?new)"
    using view_split [of s gen] s by (simp add: ok_def)
  also have "\<dots> = join (join (view t) ?old) ?new" using u t by (simp add: join_assoc ok_univ)
  also have "\<dots> = join (view t) ?new" using acked s t by (simp add: ok_view_merge ok_upto)
  finally show ?thesis using s t by (simp add: ok_view_merge ok_delta)
qed

end

end
