(* ===== verification/Crdt_Register.thy ===== *)
theory Crdt_Register
  imports Gossip_Interface
begin

text \<open>
  The write-generation counter (\<^verbatim>\<open>crates/akamu-crdt/src/generation.rs\<close>) and the last-write-wins
  register (\<^verbatim>\<open>crates/akamu-crdt/src/lww_register.rs\<close>). The process-wide counter
  \<^verbatim>\<open>CRDT_GENERATION\<close> is passed explicitly: an operation that may draw a generation takes the
  counter and returns it with its result.
\<close>

section \<open>Write generations\<close>

text \<open>\<^verbatim>\<open>fetch_add(1) + 1\<close>: the new value of the counter, which is also the generation drawn.\<close>

definition next_gen :: "u64 \<Rightarrow> u64" where
  "next_gen g = (g + 1) mod 2 ^ 64"

lemma next_gen_Suc [gen_rules]: "g < 2 ^ 64 - 1 \<Longrightarrow> next_gen g = Suc g"
  by (simp add: next_gen_def)

section \<open>The register\<close>

record 'v lww_register =
  lww_value :: "'v option"
  lww_timestamp :: i64
  lww_node_id :: string
  lww_local_gen :: u64

definition lww_default :: "'v lww_register" where
  "lww_default = \<lparr>lww_value = None, lww_timestamp = 0, lww_node_id = '''', lww_local_gen = 0\<rparr>"

definition lww_load :: "'v option \<Rightarrow> i64 \<Rightarrow> string \<Rightarrow> u64 \<Rightarrow> 'v lww_register" where
  "lww_load v ts n gen =
     \<lparr>lww_value = v, lww_timestamp = ts, lww_node_id = n, lww_local_gen = gen\<rparr>"

definition lww_wins :: "'v lww_register \<Rightarrow> i64 \<Rightarrow> string \<Rightarrow> bool" where
  "lww_wins r ts n \<longleftrightarrow>
     ts > lww_timestamp r \<or> (ts = lww_timestamp r \<and> n > lww_node_id r)"

definition lww_set ::
  "u64 \<Rightarrow> 'v lww_register \<Rightarrow> 'v \<Rightarrow> i64 \<Rightarrow> string \<Rightarrow> u64 \<times> 'v lww_register" where
  "lww_set g r v ts n =
     (if lww_wins r ts n
      then (next_gen g, r\<lparr>lww_value := Some v, lww_timestamp := ts, lww_node_id := n,
                           lww_local_gen := next_gen g\<rparr>)
      else (g, r))"

definition lww_get :: "'v lww_register \<Rightarrow> 'v option" where
  "lww_get r = lww_value r"

definition lww_remove ::
  "u64 \<Rightarrow> 'v lww_register \<Rightarrow> i64 \<Rightarrow> string \<Rightarrow> u64 \<times> 'v lww_register" where
  "lww_remove g r ts n =
     (if lww_wins r ts n
      then (next_gen g, r\<lparr>lww_value := None, lww_timestamp := ts, lww_node_id := n,
                           lww_local_gen := next_gen g\<rparr>)
      else (g, r))"

definition lww_is_tombstone :: "'v lww_register \<Rightarrow> bool" where
  "lww_is_tombstone r \<longleftrightarrow> lww_value r = None \<and> lww_timestamp r > 0"

definition lww_delta_since :: "'v lww_register \<Rightarrow> u64 \<Rightarrow> 'v lww_register option" where
  "lww_delta_since r gen = (if lww_local_gen r > gen then Some r else None)"

definition lww_delta_range :: "'v lww_register \<Rightarrow> u64 \<Rightarrow> u64 \<Rightarrow> 'v lww_register option" where
  "lww_delta_range r since until =
     (if lww_local_gen r > since \<and> lww_local_gen r \<le> until then Some r else None)"

text \<open>\<^verbatim>\<open>Merge::merge\<close>: an unset register (no value, timestamp 0) is skipped.\<close>

definition lww_merge ::
  "u64 \<Rightarrow> 'v lww_register \<Rightarrow> 'v lww_register \<Rightarrow> u64 \<times> 'v lww_register" where
  "lww_merge g r other =
     (if lww_value other = None \<and> lww_timestamp other = 0 then (g, r)
      else (case lww_value other of
              Some v \<Rightarrow> lww_set g r v (lww_timestamp other) (lww_node_id other)
            | None \<Rightarrow> lww_remove g r (lww_timestamp other) (lww_node_id other)))"

lemmas lww_defs [crdt_simps] =
  lww_set_def lww_remove_def lww_merge_def lww_wins_def lww_get_def lww_default_def

section \<open>The replicated part of a register\<close>

text \<open>
  What peers can observe of a register is its value and its stamp. The specification of
  \<open>merge\<close> is a join on these: the greater stamp wins, an unset register loses.
\<close>

type_synonym 'v lww_view = "'v option \<times> (i64 \<times> string)"

definition lww_view :: "'v lww_register \<Rightarrow> 'v lww_view" where
  "lww_view r = (lww_value r, (lww_timestamp r, lww_node_id r))"

definition lww_unset :: "'v lww_view" where
  "lww_unset = (None, (0, ''''))"

definition lww_join :: "'v lww_view \<Rightarrow> 'v lww_view \<Rightarrow> 'v lww_view" where
  "lww_join a b =
     (if fst b = None \<and> fst (snd b) = 0 then a else if snd a < snd b then b else a)"

lemma lww_view_default [simp]: "lww_view lww_default = lww_unset"
  by (simp add: lww_view_def lww_default_def lww_unset_def)

lemma lww_view_merge: "lww_view (snd (lww_merge g r other)) = lww_join (lww_view r) (lww_view other)"
  by (auto simp: crdt_simps lww_view_def lww_join_def less_prod_def split: option.splits)

text \<open>
  The views that one history of writes can produce: the unset register, or the outcome \<open>w s\<close> of
  the write that carries the stamp \<open>s\<close> (\<open>None\<close> for a removal). A write has a positive Unix
  timestamp, and no two different writes to the same register share a stamp.
\<close>

definition lww_history :: "(i64 \<times> string \<Rightarrow> 'v option) \<Rightarrow> 'v lww_view \<Rightarrow> bool" where
  "lww_history w x \<longleftrightarrow> x = lww_unset \<or> (fst (snd x) > 0 \<and> fst x = w (snd x))"

lemma lww_history_cases:
  assumes "lww_history w x"
  obtains (unwritten) "x = lww_unset" | (written) s where "x = (w s, s)" "fst s > 0"
  using assms by (cases x) (auto simp: lww_history_def)

lemma lww_join_unset_left [simp]: "lww_history w x \<Longrightarrow> lww_join lww_unset x = x"
  by (erule lww_history_cases) (auto simp: lww_join_def lww_unset_def less_prod_def)

lemma lww_join_unset_write [simp]: "fst s > 0 \<Longrightarrow> lww_join lww_unset (v, s) = (v, s)"
  by (cases s) (simp add: lww_join_def lww_unset_def less_prod_def)

lemma lww_join_unset_right [simp]: "lww_join x lww_unset = x"
  by (simp add: lww_join_def lww_unset_def)

lemma lww_join_writes:
  "fst s > 0 \<Longrightarrow> fst t > 0 \<Longrightarrow> lww_join (w s, s) (w t, t) = (w (max s t), max s t)"
  by (auto simp: lww_join_def max_def)

lemma lww_history_write [simp]: "fst s > 0 \<Longrightarrow> lww_history w (w s, s)"
  by (simp add: lww_history_def)

lemma lww_history_unset [simp]: "lww_history w lww_unset"
  by (simp add: lww_history_def)

lemma max_stamp_pos: "fst (s :: i64 \<times> string) > 0 \<Longrightarrow> fst t > 0 \<Longrightarrow> fst (max s t) > 0"
  by (simp add: max_def)

lemma lww_history_join: "lww_history w x \<Longrightarrow> lww_history w y \<Longrightarrow> lww_history w (lww_join x y)"
  by (elim lww_history_cases) (simp_all add: lww_join_writes max_stamp_pos)

lemma lww_join_comm: "lww_history w x \<Longrightarrow> lww_history w y \<Longrightarrow> lww_join x y = lww_join y x"
  by (elim lww_history_cases) (simp_all add: lww_join_writes max.commute)

lemma lww_join_assoc:
  "lww_history w x \<Longrightarrow> lww_history w y \<Longrightarrow> lww_history w z \<Longrightarrow>
     lww_join (lww_join x y) z = lww_join x (lww_join y z)"
  by (elim lww_history_cases) (simp_all add: lww_join_writes max_stamp_pos max.assoc)

lemma lww_join_idem [simp]: "lww_join x x = x"
  by (simp add: lww_join_def)

interpretation lww: gossip_crdt lww_merge lww_view lww_join "lww_history w" "\<lambda>_. True" for w
  by unfold_locales
    (auto simp: lww_view_merge lww_join_assoc intro: lww_join_comm lww_history_join)

section \<open>Properties\<close>

text \<open>The value read after \<open>set\<close>: the write takes effect exactly when its stamp is greater.\<close>

lemma lww_get_set:
  "lww_get (snd (lww_set g r v ts n)) = (if (lww_timestamp r, lww_node_id r) < (ts, n) then Some v else lww_get r)"
  by (auto simp: crdt_simps less_prod_def)

text \<open>The stamp of a register never decreases, whatever is set, removed or merged.\<close>

lemma lww_set_stamp_mono: "snd (lww_view r) \<le> snd (lww_view (snd (lww_set g r v ts n)))"
  by (auto simp: crdt_simps lww_view_def less_eq_prod_def)

lemma lww_remove_stamp_mono: "snd (lww_view r) \<le> snd (lww_view (snd (lww_remove g r ts n)))"
  by (auto simp: crdt_simps lww_view_def less_eq_prod_def)

lemma lww_merge_stamp_mono: "snd (lww_view r) \<le> snd (lww_view (snd (lww_merge g r other)))"
  by (auto simp: lww_view_merge lww_join_def)

text \<open>
  Every operation either leaves counter and register alone, or draws a fresh generation and
  stores it: this is what makes \<open>delta_since\<close> find the changed registers.
\<close>

definition lww_fresh :: "u64 \<Rightarrow> 'v lww_register \<Rightarrow> u64 \<times> 'v lww_register \<Rightarrow> bool" where
  "lww_fresh g r res \<longleftrightarrow> res = (g, r) \<or>
     (fst res = next_gen g \<and> lww_local_gen (snd res) = next_gen g)"

lemma lww_set_fresh: "lww_fresh g r (lww_set g r v ts n)"
  by (simp add: lww_fresh_def lww_set_def)

lemma lww_remove_fresh: "lww_fresh g r (lww_remove g r ts n)"
  by (simp add: lww_fresh_def lww_remove_def)

lemma lww_merge_fresh: "lww_fresh g r (lww_merge g r other)"
  by (auto simp: lww_merge_def lww_set_fresh lww_remove_fresh lww_fresh_def split: option.split)
    (auto simp: lww_set_def lww_remove_def)

lemma lww_fresh_gen_le:
  "lww_fresh g r (g', r') \<Longrightarrow> g < 2 ^ 64 - 1 \<Longrightarrow> lww_local_gen r \<le> g \<Longrightarrow>
     g \<le> g' \<and> lww_local_gen r' \<le> g' \<and> g' \<le> Suc g \<and> (r' \<noteq> r \<longrightarrow> g < lww_local_gen r')"
  by (auto simp: lww_fresh_def next_gen_Suc)

end
