(* ===== verification/Crdt_Loop.thy ===== *)
theory Crdt_Loop
  imports Crdt_Register
begin

text \<open>
  The loop all map-like replicated types share: \<^verbatim>\<open>for (k, other_entry) in other.entries\<close>, where the
  body looks at the own entry of the same key, decides what to store there, and may draw write
  generations. The two locales state what the loop needs of its body, once for the values it
  computes and once for the generations it assigns; the map types discharge them for their own
  bodies.
\<close>

section \<open>The loop\<close>

fun merge_loop ::
  "(u64 \<Rightarrow> 'e option \<Rightarrow> 'o \<Rightarrow> u64 \<times> 'e) \<Rightarrow> u64 \<Rightarrow> ('k, 'e) hashmap \<Rightarrow> ('k, 'o) hashmap
     \<Rightarrow> u64 \<times> ('k, 'e) hashmap" where
  "merge_loop body g m [] = (g, m)"
| "merge_loop body g m ((k, other_entry) # rest) =
     (case body g (hm_get m k) other_entry of (g', e) \<Rightarrow> merge_loop body g' (hm_insert k e m) rest)"

lemma hm_wf_merge_loop: "hm_wf m \<Longrightarrow> hm_wf (snd (merge_loop body g m other))"
  by (induction body g m other rule: merge_loop.induct) (auto split: prod.splits)

lemma merge_loop_other_key:
  "k \<notin> fst ` set other \<Longrightarrow> hm_get (snd (merge_loop body g m other)) k = hm_get m k"
  by (induction body g m other rule: merge_loop.induct) (auto split: prod.splits simp: hm_get_insert)

text \<open>Each key is handled by one run of the body, on the own entry as it was before the loop.\<close>

lemma merge_loop_get:
  assumes "hm_wf other"
  shows "\<exists>h. hm_get (snd (merge_loop body g m other)) k =
           (case hm_get other k of None \<Rightarrow> hm_get m k
            | Some o' \<Rightarrow> Some (snd (body h (hm_get m k) o')))"
  using assms
proof (induction other arbitrary: g m)
  case Nil
  then show ?case by simp
next
  case (Cons ko rest)
  obtain k' o' where ko: "ko = (k', o')" by fastforce
  obtain g' e where body: "body g (hm_get m k') o' = (g', e)" by fastforce
  from Cons.prems ko have wf: "hm_wf rest" and notin: "k' \<notin> fst ` set rest"
    by (auto simp: hm_wf_def)
  show ?case
  proof (cases "k = k'")
    case True
    have "hm_get (snd (merge_loop body g m (ko # rest))) k = Some e"
      using merge_loop_other_key [OF notin, of body g' "hm_insert k' e m"]
      by (simp add: ko body True hm_get_insert)
    moreover have "e = snd (body g (hm_get m k) o')" using body True by simp
    ultimately show ?thesis using ko True by auto
  next
    case False
    obtain h where
      "hm_get (snd (merge_loop body g' (hm_insert k' e m) rest)) k =
        (case hm_get rest k of None \<Rightarrow> hm_get (hm_insert k' e m) k
         | Some o' \<Rightarrow> Some (snd (body h (hm_get (hm_insert k' e m) k) o')))"
      using Cons.IH [OF wf] by blast
    with False show ?thesis
      by (intro exI [of _ h]) (simp add: ko body hm_get_insert split: option.split)
  qed
qed

section \<open>Values: a body that implements a join\<close>

locale merge_body =
  fixes body :: "u64 \<Rightarrow> 'e option \<Rightarrow> 'e \<Rightarrow> u64 \<times> 'e"
    and eview :: "'e option \<Rightarrow> 'w"
    and ejoin :: "'w \<Rightarrow> 'w \<Rightarrow> 'w"
  assumes eview_body: "eview (Some (snd (body g own e))) = ejoin (eview own) (eview (Some e))"
    and ejoin_absent: "ejoin x (eview None) = x"
begin

lemma eview_merge_loop:
  assumes "hm_wf other"
  shows "eview (hm_get (snd (merge_loop body g m other)) k)
           = ejoin (eview (hm_get m k)) (eview (hm_get other k))"
proof -
  obtain h where "hm_get (snd (merge_loop body g m other)) k =
       (case hm_get other k of None \<Rightarrow> hm_get m k | Some e \<Rightarrow> Some (snd (body h (hm_get m k) e)))"
    using merge_loop_get [OF assms] by blast
  then show ?thesis by (auto simp: eview_body ejoin_absent split: option.splits)
qed

end

section \<open>Generations: a body that stamps what it changes\<close>

text \<open>
  \<open>gens_upto\<close>: no entry carries a generation the counter has not reached. It holds after every
  operation, and an entry whose view a loop changes carries a generation drawn in the loop.
\<close>

definition gens_upto :: "('e \<Rightarrow> u64) \<Rightarrow> u64 \<Rightarrow> ('k, 'e) hashmap \<Rightarrow> bool" where
  "gens_upto gen g m \<longleftrightarrow> (\<forall>e \<in> snd ` set m. gen e \<le> g)"

lemma gens_uptoD: "gens_upto gen g m \<Longrightarrow> hm_get m k = Some e \<Longrightarrow> gen e \<le> g"
  by (force simp: gens_upto_def dest: hm_get_SomeD)

lemma gens_upto_Nil [simp]: "gens_upto gen g []"
  by (simp add: gens_upto_def)

lemma gens_upto_insert:
  "gens_upto gen g m \<Longrightarrow> g \<le> g' \<Longrightarrow> gen e \<le> g' \<Longrightarrow> gens_upto gen g' (hm_insert k e m)"
  using hm_values_update [of k e m] by (fastforce simp: gens_upto_def)

lemma gens_upto_retain: "gens_upto gen g m \<Longrightarrow> gens_upto gen g (hm_retain p m)"
  using hm_retain_subset [of p m] by (fastforce simp: gens_upto_def)

locale stamping_body =
  fixes body :: "u64 \<Rightarrow> 'e option \<Rightarrow> 'o \<Rightarrow> u64 \<times> 'e"
    and gen :: "'e \<Rightarrow> u64"
    and eview :: "'e option \<Rightarrow> 'w"
  assumes body_counter:
      "g < 2 ^ 64 - 1 \<Longrightarrow> g \<le> fst (body g own e) \<and> fst (body g own e) \<le> Suc g"
    and body_gen:
      "g < 2 ^ 64 - 1 \<Longrightarrow> (\<And>o'. own = Some o' \<Longrightarrow> gen o' \<le> g) \<Longrightarrow>
         gen (snd (body g own e)) \<le> fst (body g own e)"
    and body_stamp:
      "g < 2 ^ 64 - 1 \<Longrightarrow> eview (Some (snd (body g own e))) \<noteq> eview own \<Longrightarrow>
         g < gen (snd (body g own e))"
begin

lemma merge_loop_counter:
  assumes "g + length other < 2 ^ 64"
  shows "g \<le> fst (merge_loop body g m other) \<and> fst (merge_loop body g m other) \<le> g + length other"
  using assms
proof (induction other arbitrary: g m)
  case (Cons ko rest)
  obtain k e where ko: "ko = (k, e)" by fastforce
  obtain g' e' where body: "body g (hm_get m k) e = (g', e')" by fastforce
  have "g \<le> g'" "g' \<le> Suc g"
    using body_counter [of g "hm_get m k" e] body Cons.prems by auto
  moreover from this have "g' + length rest < 2 ^ 64" using Cons.prems by simp
  ultimately show ?case using Cons.IH [of g' "hm_insert k e' m"] by (auto simp: ko body)
qed simp

lemma merge_loop_gens:
  assumes "gens_upto gen g m" and "g + length other < 2 ^ 64"
  shows "g \<le> fst (merge_loop body g m other)
    \<and> fst (merge_loop body g m other) \<le> g + length other
    \<and> gens_upto gen (fst (merge_loop body g m other)) (snd (merge_loop body g m other))"
  using assms
proof (induction other arbitrary: g m)
  case (Cons ko rest)
  obtain k e where ko: "ko = (k, e)" by fastforce
  obtain g' e' where body: "body g (hm_get m k) e = (g', e')" by fastforce
  have g: "g < 2 ^ 64 - 1" using Cons.prems by simp
  have "\<And>o'. hm_get m k = Some o' \<Longrightarrow> gen o' \<le> g" using Cons.prems gens_uptoD by fast
  then have b: "g \<le> g'" "g' \<le> Suc g" "gen e' \<le> g'"
    using body_counter [OF g, of "hm_get m k" e] body_gen [OF g, of "hm_get m k" e] body by auto
  have "gens_upto gen g' (hm_insert k e' m)" using Cons.prems b by (blast intro: gens_upto_insert)
  moreover have "g' + length rest < 2 ^ 64" using Cons.prems b by simp
  ultimately show ?case using Cons.IH [of g' "hm_insert k e' m"] b by (auto simp: ko body)
qed simp

lemma merge_loop_stamps:
  assumes "hm_wf other" and "g + length other < 2 ^ 64"
    and "eview (hm_get (snd (merge_loop body g m other)) k) \<noteq> eview (hm_get m k)"
  shows "\<exists>e. hm_get (snd (merge_loop body g m other)) k = Some e \<and> g < gen e"
  using assms
proof (induction other arbitrary: g m)
  case (Cons ko rest)
  obtain k' e where ko: "ko = (k', e)" by fastforce
  obtain g' e' where body: "body g (hm_get m k') e = (g', e')" by fastforce
  from Cons.prems ko have wf: "hm_wf rest" and notin: "k' \<notin> fst ` set rest"
    by (auto simp: hm_wf_def)
  have g: "g < 2 ^ 64 - 1" using Cons.prems by simp
  have g': "g \<le> g'" "g' \<le> Suc g" using body_counter [OF g, of "hm_get m k'" e] body by auto
  have step: "merge_loop body g m (ko # rest) = merge_loop body g' (hm_insert k' e' m) rest"
    by (simp add: ko body)
  show ?case
  proof (cases "k = k'")
    case True
    have "hm_get (snd (merge_loop body g m (ko # rest))) k = Some e'"
      unfolding step by (simp add: True merge_loop_other_key [OF notin] hm_get_insert)
    moreover from this have "g < gen e'"
      using Cons.prems(3) body_stamp [OF g, of "hm_get m k'" e] body True by simp
    ultimately show ?thesis by blast
  next
    case False
    have "g' + length rest < 2 ^ 64" using Cons.prems g' by simp
    then obtain e'' where "hm_get (snd (merge_loop body g' (hm_insert k' e' m) rest)) k = Some e''"
        "g' < gen e''"
      using Cons.IH [OF wf, of g' "hm_insert k' e' m"] Cons.prems(3) False
      unfolding step by (auto simp: hm_get_insert)
    then show ?thesis unfolding step using g' by auto
  qed
qed simp

end

section \<open>Forwarding: values and generations together\<close>

text \<open>
  For a body with both contracts, the entries stamped in a merge carry all it changed: a peer
  with the state from before the merge that receives only them has the merged state.
\<close>

locale forwarding_body = merge_body body eview ejoin + stamping_body body gen eview
  for body :: "u64 \<Rightarrow> 'e option \<Rightarrow> 'e \<Rightarrow> u64 \<times> 'e"
    and eview :: "'e option \<Rightarrow> 'w"
    and ejoin :: "'w \<Rightarrow> 'w \<Rightarrow> 'w"
    and gen :: "'e \<Rightarrow> u64" +
  assumes ejoin_absorb: "ejoin x (ejoin x y) = ejoin x y"
    and ejoin_same: "ejoin x x = x"
begin

lemma merge_loop_forward:
  assumes wf: "hm_wf m" "hm_wf other" and g: "g0 \<le> g" "g + length other < 2 ^ 64"
  shows "ejoin (eview (hm_get m k))
           (eview (hm_get (hm_retain (\<lambda>_ e. g0 < gen e) (snd (merge_loop body g m other))) k))
         = eview (hm_get (snd (merge_loop body g m other)) k)"
proof -
  let ?m = "snd (merge_loop body g m other)"
  have wf': "hm_wf ?m" using wf(1) by (rule hm_wf_merge_loop)
  show ?thesis
  proof (cases "eview (hm_get ?m k) = eview (hm_get m k)")
    case True
    then show ?thesis
      by (auto simp: hm_get_retain [OF wf'] ejoin_absent ejoin_same split: option.split)
  next
    case False
    then obtain e where "hm_get ?m k = Some e" "g < gen e"
      using merge_loop_stamps [OF wf(2) g(2)] by blast
    then have "hm_get (hm_retain (\<lambda>_ e. g0 < gen e) ?m) k = hm_get ?m k"
      using g(1) by (simp add: hm_get_retain [OF wf'])
    then show ?thesis using eview_merge_loop [OF wf(2), of g m k] by (simp add: ejoin_absorb)
  qed
qed

end

end
