(* ===== verification/Crdt_Lww_Map.thy ===== *)
theory Crdt_Lww_Map
  imports Crdt_Loop
begin

text \<open>
  The last-write-wins map (\<^verbatim>\<open>crates/akamu-crdt/src/lww_map.rs\<close>): one register per key, created on
  first access by \<^verbatim>\<open>entry(key).or_default()\<close>.
\<close>

type_synonym ('k, 'v) lww_map = "('k, 'v lww_register) hashmap"

section \<open>Operations\<close>

definition lww_entry :: "'v lww_register option \<Rightarrow> 'v lww_register" where
  "lww_entry own = (case own of None \<Rightarrow> lww_default | Some r \<Rightarrow> r)"

definition lww_map_set ::
  "u64 \<Rightarrow> ('k, 'v) lww_map \<Rightarrow> 'k \<Rightarrow> 'v \<Rightarrow> i64 \<Rightarrow> string \<Rightarrow> u64 \<times> ('k, 'v) lww_map \<times> u64" where
  "lww_map_set g m k v ts n =
     (case lww_set g (lww_entry (hm_get m k)) v ts n of
        (g', r) \<Rightarrow> (g', hm_insert k r m, lww_local_gen r))"

definition lww_map_get :: "('k, 'v) lww_map \<Rightarrow> 'k \<Rightarrow> 'v option" where
  "lww_map_get m k = Option.bind (hm_get m k) lww_get"

definition lww_map_remove ::
  "u64 \<Rightarrow> ('k, 'v) lww_map \<Rightarrow> 'k \<Rightarrow> i64 \<Rightarrow> string \<Rightarrow> u64 \<times> ('k, 'v) lww_map \<times> u64" where
  "lww_map_remove g m k ts n =
     (case lww_remove g (lww_entry (hm_get m k)) ts n of
        (g', r) \<Rightarrow> (g', hm_insert k r m, lww_local_gen r))"

definition lww_map_contains_key :: "('k, 'v) lww_map \<Rightarrow> 'k \<Rightarrow> bool" where
  "lww_map_contains_key m k \<longleftrightarrow> hm_get m k \<noteq> None"

definition lww_map_retain :: "('v \<Rightarrow> bool) \<Rightarrow> ('k, 'v) lww_map \<Rightarrow> ('k, 'v) lww_map" where
  "lww_map_retain f m =
     hm_retain (\<lambda>_ r. lww_is_tombstone r \<or> (case lww_get r of None \<Rightarrow> False | Some v \<Rightarrow> f v)) m"

definition lww_map_count_live :: "('k, 'v) lww_map \<Rightarrow> nat" where
  "lww_map_count_live m = length (filter (\<lambda>r. lww_get r \<noteq> None) (map snd m))"

definition lww_map_delta_since :: "('k, 'v) lww_map \<Rightarrow> u64 \<Rightarrow> ('k, 'v) lww_map" where
  "lww_map_delta_since m gen = hm_retain (\<lambda>_ r. lww_delta_since r gen \<noteq> None) m"

definition lww_map_delta_range :: "('k, 'v) lww_map \<Rightarrow> u64 \<Rightarrow> u64 \<Rightarrow> ('k, 'v) lww_map" where
  "lww_map_delta_range m since until =
     List.map_filter (\<lambda>(k, r). map_option (Pair k) (lww_delta_range r since until)) m"

definition lww_map_max_local_gen :: "('k, 'v) lww_map \<Rightarrow> u64" where
  "lww_map_max_local_gen m = max_or_zero (map (\<lambda>(_, r). lww_local_gen r) m)"

definition lww_map_load_entry ::
  "('k, 'v) lww_map \<Rightarrow> 'k \<Rightarrow> 'v lww_register \<Rightarrow> ('k, 'v) lww_map" where
  "lww_map_load_entry m k r = hm_insert k r m"

definition lww_map_purge_old_tombstones :: "i64 \<Rightarrow> ('k, 'v) lww_map \<Rightarrow> ('k, 'v) lww_map" where
  "lww_map_purge_old_tombstones cutoff m =
     hm_retain (\<lambda>_ r. \<not> lww_is_tombstone r \<or> lww_timestamp r \<ge> cutoff) m"

definition lww_map_merge_body ::
  "u64 \<Rightarrow> 'v lww_register option \<Rightarrow> 'v lww_register \<Rightarrow> u64 \<times> 'v lww_register" where
  "lww_map_merge_body g own other_reg = lww_merge g (lww_entry own) other_reg"

definition lww_map_merge ::
  "u64 \<Rightarrow> ('k, 'v) lww_map \<Rightarrow> ('k, 'v) lww_map \<Rightarrow> u64 \<times> ('k, 'v) lww_map" where
  "lww_map_merge g m other = merge_loop lww_map_merge_body g m other"

section \<open>The replicated part and the contract\<close>

text \<open>A key without a register looks to a peer like a key whose register is unset.\<close>

definition lww_oview :: "'v lww_register option \<Rightarrow> 'v lww_view" where
  "lww_oview own = lww_view (lww_entry own)"

definition lww_map_view :: "('k, 'v) lww_map \<Rightarrow> 'k \<Rightarrow> 'v lww_view" where
  "lww_map_view m k = lww_oview (hm_get m k)"

definition lww_map_join ::
  "('k \<Rightarrow> 'v lww_view) \<Rightarrow> ('k \<Rightarrow> 'v lww_view) \<Rightarrow> 'k \<Rightarrow> 'v lww_view" where
  "lww_map_join x y k = lww_join (x k) (y k)"

definition lww_map_history ::
  "('k \<Rightarrow> i64 \<times> string \<Rightarrow> 'v option) \<Rightarrow> ('k \<Rightarrow> 'v lww_view) \<Rightarrow> bool" where
  "lww_map_history w x \<longleftrightarrow> (\<forall>k. lww_history (w k) (x k))"

definition lww_map_upto :: "('k, 'v) lww_map \<Rightarrow> u64 \<Rightarrow> ('k, 'v) lww_map" where
  "lww_map_upto m gen = hm_retain (\<lambda>_ r. lww_local_gen r \<le> gen) m"

lemma lww_oview_simps [simp]:
  "lww_oview None = lww_unset" "lww_oview (Some r) = lww_view r"
  by (simp_all add: lww_oview_def lww_entry_def)

interpretation lww_values: merge_body lww_map_merge_body lww_oview lww_join
  by unfold_locales (simp_all add: lww_map_merge_body_def lww_view_merge lww_oview_def lww_entry_def)

lemma lww_map_view_merge:
  "hm_wf b \<Longrightarrow> lww_map_view (snd (lww_map_merge g a b)) = lww_map_join (lww_map_view a) (lww_map_view b)"
  by (rule ext)
    (simp add: lww_map_view_def lww_map_merge_def lww_map_join_def lww_values.eview_merge_loop)

lemma hm_wf_lww_map_merge: "hm_wf a \<Longrightarrow> hm_wf (snd (lww_map_merge g a b))"
  by (simp add: lww_map_merge_def hm_wf_merge_loop)

lemma lww_map_join_idem: "lww_map_join x x = x"
  by (simp add: fun_eq_iff lww_map_join_def)

lemma lww_map_view_cases:
  "lww_map_view m k = (case hm_get m k of None \<Rightarrow> lww_unset | Some r \<Rightarrow> lww_view r)"
  by (simp add: lww_map_view_def split: option.split)

interpretation lww_map: gossip_crdt lww_map_merge lww_map_view lww_map_join "lww_map_history w" hm_wf for w
proof unfold_locales
  fix x y z :: "'a \<Rightarrow> 'b lww_view"
  assume h: "lww_map_history w x" "lww_map_history w y"
  show "lww_map_join x y = lww_map_join y x"
    using h by (auto simp: fun_eq_iff lww_map_join_def lww_map_history_def intro: lww_join_comm)
  show "lww_map_history w (lww_map_join x y)"
    using h by (auto simp: lww_map_join_def lww_map_history_def intro: lww_history_join)
  assume "lww_map_history w z"
  with h show "lww_map_join (lww_map_join x y) z = lww_map_join x (lww_map_join y z)"
    by (auto simp: fun_eq_iff lww_map_join_def lww_map_history_def intro: lww_join_assoc)
qed (simp_all add: lww_map_view_merge hm_wf_lww_map_merge lww_map_join_idem)

lemma lww_map_view_retain:
  "hm_wf m \<Longrightarrow> lww_map_view (hm_retain p m) k =
     (case hm_get m k of None \<Rightarrow> lww_unset | Some r \<Rightarrow> if p k r then lww_view r else lww_unset)"
  by (simp add: lww_map_view_def hm_get_retain split: option.split)

lemma lww_map_delta_view:
  "hm_wf m \<Longrightarrow> lww_map_view (lww_map_delta_since m gen) k =
     (case hm_get m k of None \<Rightarrow> lww_unset
      | Some r \<Rightarrow> if lww_local_gen r > gen then lww_view r else lww_unset)"
  by (simp add: lww_map_delta_since_def lww_map_view_retain lww_delta_since_def split: option.split)

lemma lww_map_upto_view:
  "hm_wf m \<Longrightarrow> lww_map_view (lww_map_upto m gen) k =
     (case hm_get m k of None \<Rightarrow> lww_unset
      | Some r \<Rightarrow> if lww_local_gen r \<le> gen then lww_view r else lww_unset)"
  by (simp add: lww_map_upto_def lww_map_view_retain split: option.split)

lemma lww_map_history_get:
  "lww_map_history w (lww_map_view m) \<Longrightarrow> hm_get m k = Some r \<Longrightarrow> lww_history (w k) (lww_view r)"
  by (force simp: lww_map_history_def lww_map_view_def dest: spec [of _ k])

interpretation lww_map: delta_crdt lww_map_merge lww_map_view lww_map_join "lww_map_history w" hm_wf
  lww_map_delta_since lww_map_upto for w
proof unfold_locales
  fix s :: "('a, 'b) lww_map" and gen
  assume s: "hm_wf s" "lww_map_history w (lww_map_view s)"
  show "lww_map_join (lww_map_view (lww_map_upto s gen)) (lww_map_view (lww_map_delta_since s gen))
          = lww_map_view s"
    using s by (auto simp: fun_eq_iff lww_map_join_def lww_map_upto_view lww_map_delta_view
        lww_map_view_cases [of s] lww_join_unset_left [OF lww_map_history_get] split: option.split)
  show "lww_map_history w (lww_map_view (lww_map_upto s gen))"
    using s lww_map_history_get [OF s(2)]
    by (auto simp: lww_map_history_def lww_map_upto_view split: option.split)
  show "lww_map_history w (lww_map_view (lww_map_delta_since s gen))"
    using s lww_map_history_get [OF s(2)]
    by (auto simp: lww_map_history_def lww_map_delta_view split: option.split)
qed (simp_all add: lww_map_upto_def lww_map_delta_since_def)

section \<open>Generations\<close>

interpretation lww_stamps: stamping_body lww_map_merge_body lww_local_gen lww_oview
proof unfold_locales
  fix g :: u64 and own :: "'a lww_register option" and e :: "'a lww_register"
  assume g: "g < 2 ^ 64 - 1"
  let ?r = "lww_entry own" and ?res = "lww_map_merge_body g own e"
  have f: "lww_fresh g ?r ?res"
    unfolding lww_map_merge_body_def by (rule lww_merge_fresh)
  then show "g \<le> fst ?res \<and> fst ?res \<le> Suc g"
    using g by (auto simp: lww_fresh_def next_gen_Suc)
  show "g < lww_local_gen (snd ?res)" if "lww_oview (Some (snd ?res)) \<noteq> lww_oview own"
    using f that g by (auto simp: lww_fresh_def next_gen_Suc lww_oview_def lww_entry_def)
  assume "\<And>o'. own = Some o' \<Longrightarrow> lww_local_gen o' \<le> g"
  then have "lww_local_gen ?r \<le> g"
    by (auto simp: lww_entry_def lww_default_def split: option.split)
  then show "lww_local_gen (snd ?res) \<le> fst ?res"
    using f g by (auto simp: lww_fresh_def next_gen_Suc)
qed

interpretation lww_forward: forwarding_body lww_map_merge_body lww_oview lww_join lww_local_gen
  by unfold_locales (auto simp: lww_join_def)

lemma lww_map_merge_step:
  assumes "hm_wf m" "hm_wf other" "g0 \<le> g" "g + length other < 2 ^ 64" "lww_map_merge g m other = (g', m')"
  shows "g \<le> g' \<and> g' \<le> g + length other
    \<and> lww_map_join (lww_map_view m) (lww_map_view (lww_map_delta_since m' g0)) = lww_map_view m'"
  using lww_stamps.merge_loop_counter [OF assms(4), of m] lww_forward.merge_loop_forward [OF assms(1-4)]
    assms(5)
  by (auto simp: lww_map_merge_def lww_map_join_def lww_map_view_def lww_map_delta_since_def
      lww_delta_since_def)

lemma lww_map_merge_gens:
  assumes "gens_upto lww_local_gen g m" "g + length other < 2 ^ 64" "lww_map_merge g m other = (g', m')"
  shows "g \<le> g' \<and> g' \<le> g + length other \<and> gens_upto lww_local_gen g' m'"
  using lww_stamps.merge_loop_gens [OF assms(1,2)] assms(3) by (simp add: lww_map_merge_def)

section \<open>Properties\<close>

text \<open>
  A key whose value or stamp a merge changes is in the delta the node computes from the counter
  it had before the merge, with its new value: merged-in changes are forwarded.
\<close>

lemma lww_map_merge_in_delta:
  assumes "hm_wf m" "hm_wf other" "g + length other < 2 ^ 64"
    and "lww_map_view (snd (lww_map_merge g m other)) k \<noteq> lww_map_view m k"
  shows "lww_map_view (lww_map_delta_since (snd (lww_map_merge g m other)) g) k
           = lww_map_view (snd (lww_map_merge g m other)) k"
proof -
  let ?m = "snd (lww_map_merge g m other)"
  have wf: "hm_wf ?m" using assms(1) by (rule hm_wf_lww_map_merge)
  obtain r where r: "hm_get ?m k = Some r" "g < lww_local_gen r"
    using lww_stamps.merge_loop_stamps [OF assms(2,3), of m k] assms(4)
    by (auto simp: lww_map_merge_def lww_map_view_def)
  show ?thesis unfolding lww_map_delta_view [OF wf] using r by (simp add: lww_map_view_def)
qed

lemma lww_map_get_view: "lww_map_get m k = fst (lww_map_view m k)"
  by (auto simp: lww_map_get_def lww_map_view_def lww_get_def lww_view_def lww_unset_def
      split: option.split bind_split)

lemma lww_map_get_set:
  "lww_map_get (fst (snd (lww_map_set g m k v ts n))) k' =
     (if k' = k \<and> snd (lww_map_view m k) < (ts, n) then Some v else lww_map_get m k')"
  by (auto simp: lww_map_get_def lww_map_set_def lww_map_view_def lww_oview_def lww_view_def
      lww_entry_def crdt_simps hm_get_insert less_prod_def split: option.splits prod.splits if_splits)

text \<open>Purging removes no live value and no tombstone younger than the cutoff.\<close>

lemma lww_map_purge_get:
  "hm_wf m \<Longrightarrow> lww_map_get (lww_map_purge_old_tombstones cutoff m) k = lww_map_get m k"
  by (auto simp: lww_map_get_def lww_map_purge_old_tombstones_def hm_get_retain lww_get_def
      lww_is_tombstone_def split: option.split)

lemma lww_map_max_local_gen_upto:
  "gens_upto lww_local_gen (lww_map_max_local_gen m) m"
  by (force simp: gens_upto_def lww_map_max_local_gen_def intro: max_or_zero_upper)

end
