(* ===== verification/Crdt_Or_Map.thy ===== *)
theory Crdt_Or_Map
  imports Crdt_Loop
begin

text \<open>
  The observed-remove map (\<^verbatim>\<open>crates/akamu-crdt/src/or_map.rs\<close>): entries with an added-at
  timestamp and a tombstone flag; on merge a tombstone wins over a live entry and a later live
  entry over an earlier one.
\<close>

record 'v or_entry =
  or_value :: 'v
  or_added_at :: i64
  or_tombstone :: bool
  or_tombstone_at :: "i64 option"
  or_local_gen :: u64

type_synonym ('k, 'v) or_map = "('k, 'v or_entry) hashmap"

section \<open>Operations\<close>

text \<open>\<^verbatim>\<open>or_insert_with\<close>: only an absent key gets a new entry; a present one is left alone.\<close>

definition or_insert :: "u64 \<Rightarrow> ('k, 'v) or_map \<Rightarrow> 'k \<Rightarrow> 'v \<Rightarrow> i64 \<Rightarrow> u64 \<times> ('k, 'v) or_map" where
  "or_insert g m k v ts =
     (case hm_get m k of
        Some _ \<Rightarrow> (g, m)
      | None \<Rightarrow> (next_gen g, hm_insert k \<lparr>or_value = v, or_added_at = ts, or_tombstone = False,
                    or_tombstone_at = None, or_local_gen = next_gen g\<rparr> m))"

text \<open>The parameter \<open>d\<close> is \<^verbatim>\<open>V::default()\<close>, stored under a tombstone for an unknown key.\<close>

definition or_remove ::
  "'v \<Rightarrow> u64 \<Rightarrow> ('k, 'v) or_map \<Rightarrow> 'k \<Rightarrow> i64 \<Rightarrow> u64 \<times> ('k, 'v) or_map \<times> u64" where
  "or_remove d g m k ts =
     (let e = (case hm_get m k of
                 Some e \<Rightarrow> e
               | None \<Rightarrow> \<lparr>or_value = d, or_added_at = ts, or_tombstone = False,
                           or_tombstone_at = None, or_local_gen = 0\<rparr>)
      in if \<not> or_tombstone e \<or> or_tombstone_at e = None
         then (next_gen g,
               hm_insert k (e\<lparr>or_tombstone := True, or_tombstone_at := Some ts,
                              or_local_gen := next_gen g\<rparr>) m,
               next_gen g)
         else (g, hm_insert k e m, or_local_gen e))"

definition or_get :: "('k, 'v) or_map \<Rightarrow> 'k \<Rightarrow> 'v option" where
  "or_get m k = (case hm_get m k of
                   None \<Rightarrow> None
                 | Some e \<Rightarrow> if \<not> or_tombstone e then Some (or_value e) else None)"

definition or_upsert ::
  "u64 \<Rightarrow> ('k, 'v) or_map \<Rightarrow> 'k \<Rightarrow> 'v \<Rightarrow> i64 \<Rightarrow> u64 \<times> ('k, 'v) or_map \<times> u64" where
  "or_upsert g m k v ts =
     (next_gen g,
      hm_insert k \<lparr>or_value = v, or_added_at = ts, or_tombstone = False,
                   or_tombstone_at = None, or_local_gen = next_gen g\<rparr> m,
      next_gen g)"

definition or_load_entry ::
  "('k, 'v) or_map \<Rightarrow> 'k \<Rightarrow> 'v \<Rightarrow> i64 \<Rightarrow> bool \<Rightarrow> i64 option \<Rightarrow> u64 \<Rightarrow> ('k, 'v) or_map" where
  "or_load_entry m k v added tomb tomb_at gen =
     hm_insert k \<lparr>or_value = v, or_added_at = added, or_tombstone = tomb,
                  or_tombstone_at = tomb_at, or_local_gen = gen\<rparr> m"

definition or_live_values :: "('k, 'v) or_map \<Rightarrow> ('k \<times> 'v) list" where
  "or_live_values m = map (\<lambda>(k, e). (k, or_value e)) (filter (\<lambda>(_, e). \<not> or_tombstone e) m)"

definition or_tombstoned_values :: "('k, 'v) or_map \<Rightarrow> ('k \<times> 'v) list" where
  "or_tombstoned_values m = map (\<lambda>(k, e). (k, or_value e)) (filter (\<lambda>(_, e). or_tombstone e) m)"

definition or_count_live :: "('k, 'v) or_map \<Rightarrow> nat" where
  "or_count_live m = length (filter (\<lambda>e. \<not> or_tombstone e) (map snd m))"

definition or_retain :: "('k \<Rightarrow> 'v \<Rightarrow> bool) \<Rightarrow> ('k, 'v) or_map \<Rightarrow> ('k, 'v) or_map" where
  "or_retain f m = hm_retain (\<lambda>k e. or_tombstone e \<or> f k (or_value e)) m"

definition or_delta_since :: "('k, 'v) or_map \<Rightarrow> u64 \<Rightarrow> ('k, 'v) or_map" where
  "or_delta_since m gen = hm_retain (\<lambda>_ e. or_local_gen e > gen) m"

definition or_delta_range :: "('k, 'v) or_map \<Rightarrow> u64 \<Rightarrow> u64 \<Rightarrow> ('k, 'v) or_map" where
  "or_delta_range m since until =
     hm_retain (\<lambda>_ e. or_local_gen e > since \<and> or_local_gen e \<le> until) m"

definition or_purge_old_tombstones :: "i64 \<Rightarrow> ('k, 'v) or_map \<Rightarrow> ('k, 'v) or_map" where
  "or_purge_old_tombstones cutoff m =
     hm_retain (\<lambda>_ e. \<not> or_tombstone e \<or>
       (case or_tombstone_at e of None \<Rightarrow> False | Some t \<Rightarrow> t \<ge> cutoff)) m"

definition or_max_local_gen :: "('k, 'v) or_map \<Rightarrow> u64" where
  "or_max_local_gen m = max_or_zero (map (\<lambda>(_, e). or_local_gen e) m)"

definition or_merge_body ::
  "u64 \<Rightarrow> 'v or_entry option \<Rightarrow> 'v or_entry \<Rightarrow> u64 \<times> 'v or_entry" where
  "or_merge_body g own other_entry =
     (case own of
        None \<Rightarrow> (next_gen g, other_entry\<lparr>or_local_gen := next_gen g\<rparr>)
      | Some self_entry \<Rightarrow>
          if or_tombstone other_entry \<and> \<not> or_tombstone self_entry
          then (next_gen g, self_entry\<lparr>or_tombstone := True,
                  or_tombstone_at := or_tombstone_at other_entry, or_local_gen := next_gen g\<rparr>)
          else if \<not> or_tombstone other_entry \<and> \<not> or_tombstone self_entry
               \<and> or_added_at other_entry > or_added_at self_entry
          then (next_gen g, other_entry\<lparr>or_local_gen := next_gen g\<rparr>)
          else (g, self_entry))"

definition or_merge :: "u64 \<Rightarrow> ('k, 'v) or_map \<Rightarrow> ('k, 'v) or_map \<Rightarrow> u64 \<times> ('k, 'v) or_map" where
  "or_merge g m other = merge_loop or_merge_body g m other"

section \<open>The replicated part and the contract\<close>

datatype 'v or_view = OrAbsent | OrLive i64 'v | OrDead

fun or_oview :: "'v or_entry option \<Rightarrow> 'v or_view" where
  "or_oview None = OrAbsent"
| "or_oview (Some e) = (if or_tombstone e then OrDead else OrLive (or_added_at e) (or_value e))"

fun or_vjoin :: "'v or_view \<Rightarrow> 'v or_view \<Rightarrow> 'v or_view" where
  "or_vjoin x OrAbsent = x"
| "or_vjoin OrAbsent y = y"
| "or_vjoin OrDead y = OrDead"
| "or_vjoin x OrDead = OrDead"
| "or_vjoin (OrLive s v) (OrLive t w) = (if t > s then OrLive t w else OrLive s v)"

definition or_map_view :: "('k, 'v) or_map \<Rightarrow> 'k \<Rightarrow> 'v or_view" where
  "or_map_view m k = or_oview (hm_get m k)"

definition or_map_join :: "('k \<Rightarrow> 'v or_view) \<Rightarrow> ('k \<Rightarrow> 'v or_view) \<Rightarrow> 'k \<Rightarrow> 'v or_view" where
  "or_map_join x y k = or_vjoin (x k) (y k)"

text \<open>
  The views one history of writes can produce: the live value of a key is determined by its
  added-at second. Two different values written to one key in the same second are outside it.
\<close>

fun or_history :: "(i64 \<Rightarrow> 'v) \<Rightarrow> 'v or_view \<Rightarrow> bool" where
  "or_history w (OrLive t v) = (v = w t)"
| "or_history w _ = True"

definition or_map_history :: "('k \<Rightarrow> i64 \<Rightarrow> 'v) \<Rightarrow> ('k \<Rightarrow> 'v or_view) \<Rightarrow> bool" where
  "or_map_history w x \<longleftrightarrow> (\<forall>k. or_history (w k) (x k))"

definition or_map_upto :: "('k, 'v) or_map \<Rightarrow> u64 \<Rightarrow> ('k, 'v) or_map" where
  "or_map_upto m gen = hm_retain (\<lambda>_ e. or_local_gen e \<le> gen) m"

lemma or_vjoin_absent_left [simp]: "or_vjoin OrAbsent y = y"
  by (cases y) auto

lemma or_vjoin_dead [simp]: "or_vjoin OrDead y = OrDead" "or_vjoin x OrDead = OrDead"
  by (cases y; simp) (cases x; simp)

lemma or_vjoin_comm: "or_history w x \<Longrightarrow> or_history w y \<Longrightarrow> or_vjoin x y = or_vjoin y x"
  by (cases x; cases y) auto

lemma or_vjoin_assoc: "or_vjoin (or_vjoin x y) z = or_vjoin x (or_vjoin y z)"
  by (cases x; cases y; cases z) auto

lemma or_vjoin_idem [simp]: "or_vjoin x x = x"
  by (cases x) auto

lemma or_history_join: "or_history w x \<Longrightarrow> or_history w y \<Longrightarrow> or_history w (or_vjoin x y)"
  by (cases x; cases y) auto

interpretation or_values: merge_body or_merge_body or_oview or_vjoin
proof unfold_locales
  fix g and own :: "'a or_entry option" and e
  show "or_oview (Some (snd (or_merge_body g own e))) = or_vjoin (or_oview own) (or_oview (Some e))"
    by (cases own) (auto simp: or_merge_body_def)
qed simp

lemma or_map_view_merge:
  "hm_wf b \<Longrightarrow> or_map_view (snd (or_merge g a b)) = or_map_join (or_map_view a) (or_map_view b)"
  by (rule ext) (simp add: or_map_view_def or_merge_def or_map_join_def or_values.eview_merge_loop)

lemma hm_wf_or_merge: "hm_wf a \<Longrightarrow> hm_wf (snd (or_merge g a b))"
  by (simp add: or_merge_def hm_wf_merge_loop)

lemma or_map_join_idem: "or_map_join x x = x"
  by (simp add: fun_eq_iff or_map_join_def)

lemma or_map_join_assoc: "or_map_join (or_map_join x y) z = or_map_join x (or_map_join y z)"
  by (simp add: fun_eq_iff or_map_join_def or_vjoin_assoc)

interpretation or_map: gossip_crdt or_merge or_map_view or_map_join "or_map_history w" hm_wf for w
proof unfold_locales
  fix x y :: "'a \<Rightarrow> 'b or_view"
  assume h: "or_map_history w x" "or_map_history w y"
  show "or_map_join x y = or_map_join y x"
    using h by (auto simp: fun_eq_iff or_map_join_def or_map_history_def intro: or_vjoin_comm)
  show "or_map_history w (or_map_join x y)"
    using h by (auto simp: or_map_join_def or_map_history_def intro: or_history_join)
qed (simp_all add: or_map_view_merge hm_wf_or_merge or_map_join_idem or_map_join_assoc)

lemma or_map_view_retain:
  "hm_wf m \<Longrightarrow> or_map_view (hm_retain p m) k =
     (case hm_get m k of None \<Rightarrow> OrAbsent | Some e \<Rightarrow> if p k e then or_oview (Some e) else OrAbsent)"
  by (simp add: or_map_view_def hm_get_retain split: option.split)

lemma or_map_view_cases:
  "or_map_view m k = (case hm_get m k of None \<Rightarrow> OrAbsent | Some e \<Rightarrow> or_oview (Some e))"
  by (simp add: or_map_view_def split: option.split)

lemma or_map_history_retain:
  "hm_wf m \<Longrightarrow> or_map_history w (or_map_view m) \<Longrightarrow> or_map_history w (or_map_view (hm_retain p m))"
  by (force simp: or_map_history_def or_map_view_retain or_map_view_cases [of m] split: option.splits)

interpretation or_map: delta_crdt or_merge or_map_view or_map_join "or_map_history w" hm_wf
  or_delta_since or_map_upto for w
proof unfold_locales
  fix s :: "('a, 'b) or_map" and gen
  assume s: "hm_wf s"
  show "or_map_join (or_map_view (or_map_upto s gen)) (or_map_view (or_delta_since s gen))
          = or_map_view s"
    using s by (auto simp: fun_eq_iff or_map_join_def or_map_upto_def or_delta_since_def
        or_map_view_retain or_map_view_cases [of s] split: option.split)
qed (simp_all add: or_map_upto_def or_delta_since_def or_map_history_retain)

section \<open>Generations\<close>

interpretation or_stamps: stamping_body or_merge_body or_local_gen or_oview
proof unfold_locales
  fix g :: u64 and own :: "'a or_entry option" and e :: "'a or_entry"
  assume g: "g < 2 ^ 64 - 1"
  show "g \<le> fst (or_merge_body g own e) \<and> fst (or_merge_body g own e) \<le> Suc g"
    using g by (auto simp: or_merge_body_def next_gen_Suc split: option.split)
  show "g < or_local_gen (snd (or_merge_body g own e))"
    if "or_oview (Some (snd (or_merge_body g own e))) \<noteq> or_oview own"
    using that g by (auto simp: or_merge_body_def next_gen_Suc split: option.splits if_splits)
  show "or_local_gen (snd (or_merge_body g own e)) \<le> fst (or_merge_body g own e)"
    if "\<And>o'. own = Some o' \<Longrightarrow> or_local_gen o' \<le> g"
    using that g by (auto simp: or_merge_body_def next_gen_Suc split: option.split)
qed

interpretation or_forward: forwarding_body or_merge_body or_oview or_vjoin or_local_gen
  by unfold_locales (simp_all add: or_vjoin_assoc [symmetric])

lemma or_merge_step:
  assumes "hm_wf m" "hm_wf other" "g0 \<le> g" "g + length other < 2 ^ 64" "or_merge g m other = (g', m')"
  shows "g \<le> g' \<and> g' \<le> g + length other
    \<and> or_map_join (or_map_view m) (or_map_view (or_delta_since m' g0)) = or_map_view m'"
  using or_stamps.merge_loop_counter [OF assms(4), of m] or_forward.merge_loop_forward [OF assms(1-4)]
    assms(5)
  by (auto simp: or_merge_def or_map_join_def or_map_view_def or_delta_since_def)

lemma or_merge_gens:
  assumes "gens_upto or_local_gen g m" "g + length other < 2 ^ 64" "or_merge g m other = (g', m')"
  shows "g \<le> g' \<and> g' \<le> g + length other \<and> gens_upto or_local_gen g' m'"
  using or_stamps.merge_loop_gens [OF assms(1,2)] assms(3) by (simp add: or_merge_def)

section \<open>Properties\<close>

lemma or_map_merge_in_delta:
  assumes "hm_wf m" "hm_wf other" "g + length other < 2 ^ 64"
    and "or_map_view (snd (or_merge g m other)) k \<noteq> or_map_view m k"
  shows "or_map_view (or_delta_since (snd (or_merge g m other)) g) k
           = or_map_view (snd (or_merge g m other)) k"
proof -
  let ?m = "snd (or_merge g m other)"
  have wf: "hm_wf ?m" using assms(1) by (rule hm_wf_or_merge)
  obtain e where e: "hm_get ?m k = Some e" "g < or_local_gen e"
    using or_stamps.merge_loop_stamps [OF assms(2,3), of m k] assms(4)
    by (auto simp: or_merge_def or_map_view_def)
  show ?thesis
    unfolding or_delta_since_def or_map_view_retain [OF wf] using e by (simp add: or_map_view_def)
qed

lemma or_get_view:
  "or_get m k = (case or_map_view m k of OrLive _ v \<Rightarrow> Some v | _ \<Rightarrow> None)"
  by (auto simp: or_get_def or_map_view_def split: option.split)

text \<open>Reading back: after an upsert, after an insert, after a removal.\<close>

lemma or_get_upsert:
  "or_get (fst (snd (or_upsert g m k v ts))) k' = (if k' = k then Some v else or_get m k')"
  by (simp add: or_get_def or_upsert_def hm_get_insert)

lemma or_get_insert:
  "or_get (snd (or_insert g m k v ts)) k' =
     (if k' = k \<and> hm_get m k = None then Some v else or_get m k')"
  by (auto simp: or_get_def or_insert_def hm_get_insert split: option.split)

lemma or_get_remove:
  "or_get (fst (snd (or_remove d g m k ts))) k' = (if k' = k then None else or_get m k')"
  by (auto simp: or_get_def or_remove_def hm_get_insert Let_def split: option.split)

text \<open>A removal recorded before the matching insert arrives blocks it: no resurrection.\<close>

lemma or_remove_blocks_insert:
  "or_get (snd (or_insert h (fst (snd (or_remove d g m k ts))) k v ts')) k = None"
  by (auto simp: or_get_insert or_get_remove) (auto simp: or_remove_def Let_def hm_get_insert split: if_splits)

lemma or_merge_tombstone_wins:
  "hm_wf other \<Longrightarrow> or_map_view m k = OrDead \<or> or_map_view other k = OrDead \<Longrightarrow>
     or_get (snd (or_merge g m other)) k = None"
  by (auto simp: or_get_view or_map_view_merge or_map_join_def)

lemma or_purge_get: "hm_wf m \<Longrightarrow> or_get (or_purge_old_tombstones cutoff m) k = or_get m k"
  by (auto simp: or_get_def or_purge_old_tombstones_def hm_get_retain split: option.split)

lemma or_live_values_get:
  assumes "hm_wf m"
  shows "(k, v) \<in> set (or_live_values m) \<longleftrightarrow> or_get m k = Some v"
  using assms by (force simp: or_live_values_def or_get_def dest: hm_get_SomeI hm_get_SomeD
      split: option.splits)

lemma or_count_live_eq: "or_count_live m = length (or_live_values m)"
  by (induction m) (auto simp: or_count_live_def or_live_values_def)

lemma or_map_max_local_gen_upto: "gens_upto or_local_gen (or_max_local_gen m) m"
  by (force simp: gens_upto_def or_max_local_gen_def intro: max_or_zero_upper)

text \<open>Counting over the iterator counts keys.\<close>

lemma or_live_values_keys: "hm_wf m \<Longrightarrow> distinct (map fst (or_live_values m))"
  by (induction m) (force simp: hm_wf_def or_live_values_def)+

lemma or_live_count:
  assumes "hm_wf m"
  shows "length (filter (\<lambda>(_, v). p v) (or_live_values m)) = card {k. \<exists>v. or_get m k = Some v \<and> p v}"
proof -
  let ?xs = "filter (\<lambda>(_, v). p v) (or_live_values m)"
  have "distinct (map fst ?xs)" using or_live_values_keys [OF assms] by (rule distinct_map_filter)
  then have "length ?xs = card (fst ` set ?xs)" using distinct_card [of "map fst ?xs"] by simp
  also have "fst ` set ?xs = {k. \<exists>v. or_get m k = Some v \<and> p v}"
    using or_live_values_get [OF assms] by force
  finally show ?thesis .
qed

lemma or_count_live_card: "hm_wf m \<Longrightarrow> or_count_live m = card {k. or_get m k \<noteq> None}"
  using or_live_count [of m "\<lambda>_. True"] by (simp add: or_count_live_eq)

end
