(* ===== verification/Crdt_Cluster.thy ===== *)
theory Crdt_Cluster
  imports Crdt_Lww_Map Crdt_Or_Map "HOL-Library.Word"
begin

text \<open>
  The replicated cluster state (\<^verbatim>\<open>crates/akamu-crdt/src/crdt.rs\<close>, \<^verbatim>\<open>types.rs\<close>): the entry types, the
  struct \<^verbatim>\<open>AkaCrdt\<close> with its fourteen replicated fields, the operations on it, and the ownership
  claims for orders and for the transparency-log writer. The record fields carry a prefix per
  record, the rest of a field's name is the source's.
\<close>

section \<open>Entry types\<close>

record aka_node_entry =
  ne_node_id :: string
  ne_gossip_url :: string
  ne_kem_public_key_der :: "8 word list"
  ne_gossip_signing_pub_key_der :: "8 word list"
  ne_gossip_signing_cert_der :: "8 word list"
  ne_ca_ids :: "string list"
  ne_registered_at :: i64

record account_entry =
  ae_account_id :: string
  ae_status :: string
  ae_contact :: "string option"
  ae_public_key_der :: "8 word list"
  ae_jwk_thumbprint :: string
  ae_created :: i64
  ae_updated :: i64
  ae_profile_grants :: "string option"
  ae_ca_id :: string

record order_entry =
  oe_order_id :: string
  oe_account_id :: string
  oe_status :: string
  oe_expires :: "i64 option"
  oe_identifiers :: string
  oe_not_before :: "i64 option"
  oe_not_after :: "i64 option"
  oe_error :: "string option"
  oe_certificate_id :: "string option"
  oe_created :: i64
  oe_updated :: i64
  oe_ca_id :: string
  oe_processing_node_id :: "string option"
  oe_processing_claimed_at :: "i64 option"

record authz_entry =
  aze_authz_id :: string
  aze_order_id :: string
  aze_account_id :: string
  aze_status :: string
  aze_identifier :: string
  aze_expires :: "i64 option"
  aze_wildcard :: bool
  aze_created :: i64
  aze_updated :: i64
  aze_ca_id :: string

record challenge_entry =
  che_challenge_id :: string
  che_authz_id :: string
  che_challenge_type :: string
  che_status :: string
  che_token :: string
  che_validated :: "i64 option"
  che_error :: "string option"
  che_created :: i64
  che_updated :: i64

record cert_entry =
  ce_cert_id :: string
  ce_order_id :: string
  ce_account_id :: string
  ce_serial_number :: string
  ce_status :: string
  ce_not_before :: i64
  ce_not_after :: i64
  ce_revoked_at :: "i64 option"
  ce_revocation_reason :: "i64 option"
  ce_created :: i64
  ce_ca_id :: string

record eab_key_entry =
  eke_kid :: string
  eke_hmac_key_b64u :: string
  eke_created :: i64
  eke_used_at :: "i64 option"
  eke_profile_grants :: "string option"

record operator_entry =
  ope_operator_id :: i64
  ope_name :: string
  ope_role :: string
  ope_ca_id :: string
  ope_created :: i64

record delegation_entry =
  de_delegation_id :: string
  de_account_id :: string
  de_csr_template :: string
  de_created :: i64
  de_ca_id :: string

record mtc_checkpoint_entry =
  mce_tree_size :: u64
  mce_root_hex :: string
  mce_signature :: "8 word list"
  mce_created_at :: i64

record mtc_cosig_entry =
  mse_checkpoint_id :: string
  mse_cosigner_url :: string
  mse_signature :: "8 word list"
  mse_signed_at :: i64

record order_owner =
  oo_node_id :: string
  oo_claimed_at :: i64

record mtc_writer_claim =
  mw_node_id :: string
  mw_claimed_at :: i64

record policy_rule_entry =
  pre_id :: string
  pre_scope :: string
  pre_name :: string
  pre_rule_json :: string
  pre_enabled :: bool
  pre_created_at :: string
  pre_updated_at :: string
  pre_created_by :: "string option"

section \<open>The cluster state\<close>

record aka_crdt =
  cluster_nodes :: "(string, aka_node_entry) or_map"
  accounts :: "(string, account_entry) or_map"
  orders :: "(string, order_entry) or_map"
  authorizations :: "(string, authz_entry) or_map"
  challenges :: "(string, challenge_entry) lww_map"
  certificates :: "(string, cert_entry) or_map"
  eab_keys :: "(string, eab_key_entry) lww_map"
  operators :: "(string, operator_entry) or_map"
  delegations :: "(string, delegation_entry) or_map"
  policy_rules :: "(string, policy_rule_entry) or_map"
  mtc_checkpoints :: "(u64, mtc_checkpoint_entry) lww_map"
  mtc_cosignatures :: "(string \<times> string, mtc_cosig_entry) lww_map"
  order_owners :: "(string, order_owner) lww_map"
  mtc_writer :: "mtc_writer_claim lww_register"

definition aka_default :: aka_crdt where
  "aka_default = \<lparr>cluster_nodes = [], accounts = [], orders = [], authorizations = [], challenges = [],
     certificates = [], eab_keys = [], operators = [], delegations = [], policy_rules = [],
     mtc_checkpoints = [], mtc_cosignatures = [], order_owners = [], mtc_writer = lww_default\<rparr>"

definition aka_delta_since :: "aka_crdt \<Rightarrow> u64 \<Rightarrow> aka_crdt" where
  "aka_delta_since s gen =
     \<lparr>cluster_nodes = or_delta_since (cluster_nodes s) gen,
      accounts = or_delta_since (accounts s) gen,
      orders = or_delta_since (orders s) gen,
      authorizations = or_delta_since (authorizations s) gen,
      challenges = lww_map_delta_since (challenges s) gen,
      certificates = or_delta_since (certificates s) gen,
      eab_keys = lww_map_delta_since (eab_keys s) gen,
      operators = or_delta_since (operators s) gen,
      delegations = or_delta_since (delegations s) gen,
      policy_rules = or_delta_since (policy_rules s) gen,
      mtc_checkpoints = lww_map_delta_since (mtc_checkpoints s) gen,
      mtc_cosignatures = lww_map_delta_since (mtc_cosignatures s) gen,
      order_owners = lww_map_delta_since (order_owners s) gen,
      mtc_writer = (case lww_delta_since (mtc_writer s) gen of None \<Rightarrow> lww_default | Some r \<Rightarrow> r)\<rparr>"

definition aka_delta_range :: "aka_crdt \<Rightarrow> u64 \<Rightarrow> u64 \<Rightarrow> aka_crdt" where
  "aka_delta_range s since until =
     \<lparr>cluster_nodes = or_delta_range (cluster_nodes s) since until,
      accounts = or_delta_range (accounts s) since until,
      orders = or_delta_range (orders s) since until,
      authorizations = or_delta_range (authorizations s) since until,
      challenges = lww_map_delta_range (challenges s) since until,
      certificates = or_delta_range (certificates s) since until,
      eab_keys = lww_map_delta_range (eab_keys s) since until,
      operators = or_delta_range (operators s) since until,
      delegations = or_delta_range (delegations s) since until,
      policy_rules = or_delta_range (policy_rules s) since until,
      mtc_checkpoints = lww_map_delta_range (mtc_checkpoints s) since until,
      mtc_cosignatures = lww_map_delta_range (mtc_cosignatures s) since until,
      order_owners = lww_map_delta_range (order_owners s) since until,
      mtc_writer = (case lww_delta_range (mtc_writer s) since until of None \<Rightarrow> lww_default | Some r \<Rightarrow> r)\<rparr>"

definition aka_purge_old_tombstones :: "i64 \<Rightarrow> aka_crdt \<Rightarrow> aka_crdt" where
  "aka_purge_old_tombstones cutoff s = s
     \<lparr>cluster_nodes := or_purge_old_tombstones cutoff (cluster_nodes s),
      accounts := or_purge_old_tombstones cutoff (accounts s),
      orders := or_purge_old_tombstones cutoff (orders s),
      authorizations := or_purge_old_tombstones cutoff (authorizations s),
      challenges := lww_map_purge_old_tombstones cutoff (challenges s),
      certificates := or_purge_old_tombstones cutoff (certificates s),
      eab_keys := lww_map_purge_old_tombstones cutoff (eab_keys s),
      operators := or_purge_old_tombstones cutoff (operators s),
      delegations := or_purge_old_tombstones cutoff (delegations s),
      policy_rules := or_purge_old_tombstones cutoff (policy_rules s),
      mtc_checkpoints := lww_map_purge_old_tombstones cutoff (mtc_checkpoints s),
      mtc_cosignatures := lww_map_purge_old_tombstones cutoff (mtc_cosignatures s),
      order_owners := lww_map_purge_old_tombstones cutoff (order_owners s)\<rparr>"

definition aka_max_local_gen :: "aka_crdt \<Rightarrow> u64" where
  "aka_max_local_gen s =
     fold max
       [or_max_local_gen (cluster_nodes s),
        or_max_local_gen (accounts s),
        or_max_local_gen (orders s),
        or_max_local_gen (authorizations s),
        lww_map_max_local_gen (challenges s),
        or_max_local_gen (certificates s),
        lww_map_max_local_gen (eab_keys s),
        or_max_local_gen (operators s),
        or_max_local_gen (delegations s),
        or_max_local_gen (policy_rules s),
        lww_map_max_local_gen (mtc_checkpoints s),
        lww_map_max_local_gen (mtc_cosignatures s),
        lww_map_max_local_gen (order_owners s),
        lww_local_gen (mtc_writer s)] 0"

text \<open>\<^verbatim>\<open>Merge for AkaCrdt\<close>: field by field, in the order of the struct; the counter is shared.\<close>

definition aka_merge :: "u64 \<Rightarrow> aka_crdt \<Rightarrow> aka_crdt \<Rightarrow> u64 \<times> aka_crdt" where
  "aka_merge g s other =
     (let (g1, m1) = or_merge g (cluster_nodes s) (cluster_nodes other);
          (g2, m2) = or_merge g1 (accounts s) (accounts other);
          (g3, m3) = or_merge g2 (orders s) (orders other);
          (g4, m4) = or_merge g3 (authorizations s) (authorizations other);
          (g5, m5) = lww_map_merge g4 (challenges s) (challenges other);
          (g6, m6) = or_merge g5 (certificates s) (certificates other);
          (g7, m7) = lww_map_merge g6 (eab_keys s) (eab_keys other);
          (g8, m8) = or_merge g7 (operators s) (operators other);
          (g9, m9) = or_merge g8 (delegations s) (delegations other);
          (g10, m10) = or_merge g9 (policy_rules s) (policy_rules other);
          (g11, m11) = lww_map_merge g10 (mtc_checkpoints s) (mtc_checkpoints other);
          (g12, m12) = lww_map_merge g11 (mtc_cosignatures s) (mtc_cosignatures other);
          (g13, m13) = lww_map_merge g12 (order_owners s) (order_owners other);
          (g14, m14) = lww_merge g13 (mtc_writer s) (mtc_writer other)
      in (g14, \<lparr>cluster_nodes = m1, accounts = m2, orders = m3,
          authorizations = m4, challenges = m5, certificates = m6,
          eab_keys = m7, operators = m8, delegations = m9,
          policy_rules = m10, mtc_checkpoints = m11,
          mtc_cosignatures = m12, order_owners = m13, mtc_writer = m14\<rparr>))"

section \<open>Counts\<close>

record aka_crdt_counts =
  n_cluster_nodes :: nat
  n_accounts :: nat
  n_orders :: nat
  n_authorizations :: nat
  n_challenges :: nat
  n_certificates :: nat
  n_eab_keys :: nat
  n_operators :: nat
  n_delegations :: nat
  n_policy_rules :: nat
  n_mtc_checkpoints :: nat
  n_mtc_cosignatures :: nat

record aka_crdt_scoped_counts =
  sc_cluster_nodes :: "nat option"
  sc_accounts :: "nat option"
  sc_orders :: "nat option"
  sc_authorizations :: "nat option"
  sc_challenges :: "nat option"
  sc_certificates :: "nat option"
  sc_eab_keys :: "nat option"
  sc_operators :: "nat option"
  sc_delegations :: "nat option"
  sc_policy_rules :: "nat option"
  sc_mtc_checkpoints :: "nat option"
  sc_mtc_cosignatures :: "nat option"

definition scoped_from_counts :: "aka_crdt_counts \<Rightarrow> aka_crdt_scoped_counts" where
  "scoped_from_counts c =
     \<lparr>sc_cluster_nodes = Some (n_cluster_nodes c),
      sc_accounts = Some (n_accounts c),
      sc_orders = Some (n_orders c),
      sc_authorizations = Some (n_authorizations c),
      sc_challenges = Some (n_challenges c),
      sc_certificates = Some (n_certificates c),
      sc_eab_keys = Some (n_eab_keys c),
      sc_operators = Some (n_operators c),
      sc_delegations = Some (n_delegations c),
      sc_policy_rules = Some (n_policy_rules c),
      sc_mtc_checkpoints = Some (n_mtc_checkpoints c),
      sc_mtc_cosignatures = Some (n_mtc_cosignatures c)\<rparr>"

definition aka_entry_counts :: "aka_crdt \<Rightarrow> aka_crdt_counts" where
  "aka_entry_counts s =
     \<lparr>n_cluster_nodes = or_count_live (cluster_nodes s),
      n_accounts = or_count_live (accounts s),
      n_orders = or_count_live (orders s),
      n_authorizations = or_count_live (authorizations s),
      n_challenges = lww_map_count_live (challenges s),
      n_certificates = or_count_live (certificates s),
      n_eab_keys = lww_map_count_live (eab_keys s),
      n_operators = or_count_live (operators s),
      n_delegations = or_count_live (delegations s),
      n_policy_rules = or_count_live (policy_rules s),
      n_mtc_checkpoints = lww_map_count_live (mtc_checkpoints s),
      n_mtc_cosignatures = lww_map_count_live (mtc_cosignatures s)\<rparr>"

definition aka_entry_counts_scoped :: "aka_crdt \<Rightarrow> string option \<Rightarrow> aka_crdt_scoped_counts" where
  "aka_entry_counts_scoped s ca_scope =
     (case ca_scope of
        None \<Rightarrow> scoped_from_counts (aka_entry_counts s)
      | Some scope \<Rightarrow>
          \<lparr>sc_cluster_nodes = None,
           sc_accounts = Some (length (filter (\<lambda>(_, v). ae_ca_id v = scope) (or_live_values (accounts s)))),
           sc_orders = Some (length (filter (\<lambda>(_, v). oe_ca_id v = scope) (or_live_values (orders s)))),
           sc_authorizations = Some (length (filter (\<lambda>(_, v). aze_ca_id v = scope) (or_live_values (authorizations s)))),
           sc_challenges = None,
           sc_certificates = Some (length (filter (\<lambda>(_, v). ce_ca_id v = scope) (or_live_values (certificates s)))),
           sc_eab_keys = None,
           sc_operators = Some (length (filter (\<lambda>(_, v). ope_ca_id v = scope) (or_live_values (operators s)))),
           sc_delegations = Some (length (filter (\<lambda>(_, v). de_ca_id v = scope) (or_live_values (delegations s)))),
           sc_policy_rules = None,
           sc_mtc_checkpoints = None,
           sc_mtc_cosignatures = None\<rparr>)"

section \<open>Ownership claims\<close>

definition claim_order ::
  "u64 \<Rightarrow> aka_crdt \<Rightarrow> string \<Rightarrow> string \<Rightarrow> i64 \<Rightarrow> i64 \<Rightarrow> u64 \<times> aka_crdt \<times> bool" where
  "claim_order g s order_id node_id now ttl =
     (let claim = (case lww_map_set g (order_owners s) order_id
                          \<lparr>oo_node_id = node_id, oo_claimed_at = now\<rparr> now node_id of
                     (g', m, _) \<Rightarrow> (g', s\<lparr>order_owners := m\<rparr>, True))
      in case lww_map_get (order_owners s) order_id of
           Some owner \<Rightarrow>
             if oo_node_id owner \<noteq> node_id \<and> sat_add (oo_claimed_at owner) ttl \<ge> now
             then (g, s, False)
             else claim
         | None \<Rightarrow> claim)"

definition is_order_owner :: "aka_crdt \<Rightarrow> string \<Rightarrow> string \<Rightarrow> i64 \<Rightarrow> i64 \<Rightarrow> bool" where
  "is_order_owner s order_id node_id now ttl =
     (case lww_map_get (order_owners s) order_id of
        None \<Rightarrow> False
      | Some o' \<Rightarrow> oo_node_id o' = node_id \<and> sat_add (oo_claimed_at o') ttl \<ge> now)"

definition claim_mtc_writer ::
  "u64 \<Rightarrow> aka_crdt \<Rightarrow> string \<Rightarrow> i64 \<Rightarrow> i64 \<Rightarrow> u64 \<times> aka_crdt \<times> bool" where
  "claim_mtc_writer g s node_id now ttl =
     (let claim = (case lww_set g (mtc_writer s)
                          \<lparr>mw_node_id = node_id, mw_claimed_at = now\<rparr> now node_id of
                     (g', r) \<Rightarrow> (g', s\<lparr>mtc_writer := r\<rparr>, True))
      in case lww_get (mtc_writer s) of
           Some writer \<Rightarrow>
             if mw_node_id writer \<noteq> node_id \<and> sat_add (mw_claimed_at writer) ttl \<ge> now
             then (g, s, False)
             else claim
         | None \<Rightarrow> claim)"

definition is_mtc_writer :: "aka_crdt \<Rightarrow> string \<Rightarrow> i64 \<Rightarrow> i64 \<Rightarrow> bool" where
  "is_mtc_writer s node_id now ttl =
     (case lww_get (mtc_writer s) of
        None \<Rightarrow> False
      | Some w \<Rightarrow> mw_node_id w = node_id \<and> sat_add (mw_claimed_at w) ttl \<ge> now)"

section \<open>The replicated part and the contract\<close>

text \<open>The view of a cluster state: the views of its fourteen fields.\<close>

record aka_view =
  v_cluster_nodes :: "string \<Rightarrow> aka_node_entry or_view"
  v_accounts :: "string \<Rightarrow> account_entry or_view"
  v_orders :: "string \<Rightarrow> order_entry or_view"
  v_authorizations :: "string \<Rightarrow> authz_entry or_view"
  v_challenges :: "string \<Rightarrow> challenge_entry lww_view"
  v_certificates :: "string \<Rightarrow> cert_entry or_view"
  v_eab_keys :: "string \<Rightarrow> eab_key_entry lww_view"
  v_operators :: "string \<Rightarrow> operator_entry or_view"
  v_delegations :: "string \<Rightarrow> delegation_entry or_view"
  v_policy_rules :: "string \<Rightarrow> policy_rule_entry or_view"
  v_mtc_checkpoints :: "u64 \<Rightarrow> mtc_checkpoint_entry lww_view"
  v_mtc_cosignatures :: "string \<times> string \<Rightarrow> mtc_cosig_entry lww_view"
  v_order_owners :: "string \<Rightarrow> order_owner lww_view"
  v_mtc_writer :: "mtc_writer_claim lww_view"

text \<open>A history of writes to all fields: which value was written under which stamp.\<close>

record aka_writes =
  w_cluster_nodes :: "string \<Rightarrow> i64 \<Rightarrow> aka_node_entry"
  w_accounts :: "string \<Rightarrow> i64 \<Rightarrow> account_entry"
  w_orders :: "string \<Rightarrow> i64 \<Rightarrow> order_entry"
  w_authorizations :: "string \<Rightarrow> i64 \<Rightarrow> authz_entry"
  w_challenges :: "string \<Rightarrow> i64 \<times> string \<Rightarrow> challenge_entry option"
  w_certificates :: "string \<Rightarrow> i64 \<Rightarrow> cert_entry"
  w_eab_keys :: "string \<Rightarrow> i64 \<times> string \<Rightarrow> eab_key_entry option"
  w_operators :: "string \<Rightarrow> i64 \<Rightarrow> operator_entry"
  w_delegations :: "string \<Rightarrow> i64 \<Rightarrow> delegation_entry"
  w_policy_rules :: "string \<Rightarrow> i64 \<Rightarrow> policy_rule_entry"
  w_mtc_checkpoints :: "u64 \<Rightarrow> i64 \<times> string \<Rightarrow> mtc_checkpoint_entry option"
  w_mtc_cosignatures :: "string \<times> string \<Rightarrow> i64 \<times> string \<Rightarrow> mtc_cosig_entry option"
  w_order_owners :: "string \<Rightarrow> i64 \<times> string \<Rightarrow> order_owner option"
  w_mtc_writer :: "i64 \<times> string \<Rightarrow> mtc_writer_claim option"

definition aka_view :: "aka_crdt \<Rightarrow> aka_view" where
  "aka_view s =
     \<lparr>v_cluster_nodes = or_map_view (cluster_nodes s),
      v_accounts = or_map_view (accounts s),
      v_orders = or_map_view (orders s),
      v_authorizations = or_map_view (authorizations s),
      v_challenges = lww_map_view (challenges s),
      v_certificates = or_map_view (certificates s),
      v_eab_keys = lww_map_view (eab_keys s),
      v_operators = or_map_view (operators s),
      v_delegations = or_map_view (delegations s),
      v_policy_rules = or_map_view (policy_rules s),
      v_mtc_checkpoints = lww_map_view (mtc_checkpoints s),
      v_mtc_cosignatures = lww_map_view (mtc_cosignatures s),
      v_order_owners = lww_map_view (order_owners s),
      v_mtc_writer = lww_view (mtc_writer s)\<rparr>"

definition aka_join :: "aka_view \<Rightarrow> aka_view \<Rightarrow> aka_view" where
  "aka_join x y =
     \<lparr>v_cluster_nodes = or_map_join (v_cluster_nodes x) (v_cluster_nodes y),
      v_accounts = or_map_join (v_accounts x) (v_accounts y),
      v_orders = or_map_join (v_orders x) (v_orders y),
      v_authorizations = or_map_join (v_authorizations x) (v_authorizations y),
      v_challenges = lww_map_join (v_challenges x) (v_challenges y),
      v_certificates = or_map_join (v_certificates x) (v_certificates y),
      v_eab_keys = lww_map_join (v_eab_keys x) (v_eab_keys y),
      v_operators = or_map_join (v_operators x) (v_operators y),
      v_delegations = or_map_join (v_delegations x) (v_delegations y),
      v_policy_rules = or_map_join (v_policy_rules x) (v_policy_rules y),
      v_mtc_checkpoints = lww_map_join (v_mtc_checkpoints x) (v_mtc_checkpoints y),
      v_mtc_cosignatures = lww_map_join (v_mtc_cosignatures x) (v_mtc_cosignatures y),
      v_order_owners = lww_map_join (v_order_owners x) (v_order_owners y),
      v_mtc_writer = lww_join (v_mtc_writer x) (v_mtc_writer y)\<rparr>"

definition aka_history :: "aka_writes \<Rightarrow> aka_view \<Rightarrow> bool" where
  "aka_history w x \<longleftrightarrow>
     or_map_history (w_cluster_nodes w) (v_cluster_nodes x) \<and>
     or_map_history (w_accounts w) (v_accounts x) \<and>
     or_map_history (w_orders w) (v_orders x) \<and>
     or_map_history (w_authorizations w) (v_authorizations x) \<and>
     lww_map_history (w_challenges w) (v_challenges x) \<and>
     or_map_history (w_certificates w) (v_certificates x) \<and>
     lww_map_history (w_eab_keys w) (v_eab_keys x) \<and>
     or_map_history (w_operators w) (v_operators x) \<and>
     or_map_history (w_delegations w) (v_delegations x) \<and>
     or_map_history (w_policy_rules w) (v_policy_rules x) \<and>
     lww_map_history (w_mtc_checkpoints w) (v_mtc_checkpoints x) \<and>
     lww_map_history (w_mtc_cosignatures w) (v_mtc_cosignatures x) \<and>
     lww_map_history (w_order_owners w) (v_order_owners x) \<and>
     lww_history (w_mtc_writer w) (v_mtc_writer x)"

definition aka_wf :: "aka_crdt \<Rightarrow> bool" where
  "aka_wf s \<longleftrightarrow>
     hm_wf (cluster_nodes s) \<and> hm_wf (accounts s) \<and> hm_wf (orders s) \<and>
     hm_wf (authorizations s) \<and> hm_wf (challenges s) \<and> hm_wf (certificates s) \<and>
     hm_wf (eab_keys s) \<and> hm_wf (operators s) \<and> hm_wf (delegations s) \<and>
     hm_wf (policy_rules s) \<and> hm_wf (mtc_checkpoints s) \<and>
     hm_wf (mtc_cosignatures s) \<and> hm_wf (order_owners s)"

text \<open>The entries a node wrote up to a generation: the complement of \<open>delta_since\<close>.\<close>

definition aka_upto :: "aka_crdt \<Rightarrow> u64 \<Rightarrow> aka_crdt" where
  "aka_upto s gen =
     \<lparr>cluster_nodes = or_map_upto (cluster_nodes s) gen,
      accounts = or_map_upto (accounts s) gen,
      orders = or_map_upto (orders s) gen,
      authorizations = or_map_upto (authorizations s) gen,
      challenges = lww_map_upto (challenges s) gen,
      certificates = or_map_upto (certificates s) gen,
      eab_keys = lww_map_upto (eab_keys s) gen,
      operators = or_map_upto (operators s) gen,
      delegations = or_map_upto (delegations s) gen,
      policy_rules = or_map_upto (policy_rules s) gen,
      mtc_checkpoints = lww_map_upto (mtc_checkpoints s) gen,
      mtc_cosignatures = lww_map_upto (mtc_cosignatures s) gen,
      order_owners = lww_map_upto (order_owners s) gen,
      mtc_writer = (if lww_local_gen (mtc_writer s) \<le> gen then mtc_writer s else lww_default)\<rparr>"

lemmas aka_views = aka_view_def aka_join_def or_map_view_merge lww_map_view_merge lww_view_merge

lemma aka_view_merge:
  "aka_wf b \<Longrightarrow> aka_view (snd (aka_merge g a b)) = aka_join (aka_view a) (aka_view b)"
  by (simp add: aka_merge_def case_prod_beta Let_def aka_wf_def aka_views)

lemma aka_wf_merge: "aka_wf a \<Longrightarrow> aka_wf (snd (aka_merge g a b))"
  by (simp add: aka_merge_def case_prod_beta Let_def aka_wf_def hm_wf_or_merge hm_wf_lww_map_merge)

lemma lww_register_split:
  assumes "lww_history w (lww_view r)"
  shows "lww_join (lww_view (if lww_local_gen r \<le> gen then r else lww_default))
           (lww_view (case lww_delta_since r gen of None \<Rightarrow> lww_default | Some r \<Rightarrow> r)) = lww_view r"
  using assms by (simp add: lww_delta_since_def)

interpretation aka: gossip_crdt aka_merge aka_view aka_join "aka_history w" aka_wf for w
proof unfold_locales
  fix x y z
  assume h: "aka_history w x" "aka_history w y"
  show "aka_join x y = aka_join y x"
    using h
    by (simp add: aka_join_def aka_history_def)
      (blast intro: or_map.join_comm lww_map.join_comm lww_join_comm)
  show "aka_history w (aka_join x y)"
    using h by (simp add: aka_join_def aka_history_def or_map.univ_join lww_map.univ_join lww_history_join)
  assume "aka_history w z"
  with h show "aka_join (aka_join x y) z = aka_join x (aka_join y z)"
    by (simp add: aka_join_def aka_history_def or_map_join_assoc)
      (blast intro: lww_map.join_assoc lww_join_assoc)
qed (simp_all add: aka_view_merge aka_wf_merge aka_join_def or_map_join_idem lww_map_join_idem)

interpretation aka: delta_crdt aka_merge aka_view aka_join "aka_history w" aka_wf
  aka_delta_since aka_upto for w
proof unfold_locales
  fix s gen
  assume s: "aka_wf s"
  then show "aka_wf (aka_upto s gen)" "aka_wf (aka_delta_since s gen)"
    by (simp_all add: aka_wf_def aka_upto_def aka_delta_since_def or_map.wf_upto or_map.wf_delta
        lww_map.wf_upto lww_map.wf_delta)
  assume h: "aka_history w (aka_view s)"
  show "aka_join (aka_view (aka_upto s gen)) (aka_view (aka_delta_since s gen)) = aka_view s"
    using s h
    by (simp add: aka_view_def aka_join_def aka_wf_def aka_history_def aka_upto_def aka_delta_since_def
        split del: if_split)
      (blast intro: or_map.view_split lww_map.view_split lww_register_split)
  show "aka_history w (aka_view (aka_upto s gen))"
    using s h
    by (simp add: aka_view_def aka_wf_def aka_history_def aka_upto_def or_map.univ_upto
        lww_map.univ_upto)
  show "aka_history w (aka_view (aka_delta_since s gen))"
    using s h
    by (simp add: aka_view_def aka_wf_def aka_history_def aka_delta_since_def or_map.univ_delta
        lww_map.univ_delta lww_delta_since_def)
qed

end
