(* ===== verification/Cluster_Generations.thy ===== *)
theory Cluster_Generations
  imports Crdt_Cluster
begin

text \<open>
  The write generations of the whole cluster state: a merge keeps every generation within the
  node's counter, and what it changed is found again by \<open>aka_delta_since\<close>.
\<close>

section \<open>Write generations of the cluster state\<close>

text \<open>The number of generations a merge can draw: one per entry received, one for the writer.\<close>

definition aka_size :: "aka_crdt \<Rightarrow> nat" where
  "aka_size s = length (cluster_nodes s) + length (accounts s) + length (orders s)
     + length (authorizations s) + length (challenges s) + length (certificates s)
     + length (eab_keys s) + length (operators s) + length (delegations s)
     + length (policy_rules s) + length (mtc_checkpoints s)
     + length (mtc_cosignatures s) + length (order_owners s) + 1"

definition aka_gens_upto :: "u64 \<Rightarrow> aka_crdt \<Rightarrow> bool" where
  "aka_gens_upto g s \<longleftrightarrow>
     gens_upto or_local_gen g (cluster_nodes s) \<and>
     gens_upto or_local_gen g (accounts s) \<and>
     gens_upto or_local_gen g (orders s) \<and>
     gens_upto or_local_gen g (authorizations s) \<and>
     gens_upto lww_local_gen g (challenges s) \<and>
     gens_upto or_local_gen g (certificates s) \<and>
     gens_upto lww_local_gen g (eab_keys s) \<and>
     gens_upto or_local_gen g (operators s) \<and>
     gens_upto or_local_gen g (delegations s) \<and>
     gens_upto or_local_gen g (policy_rules s) \<and>
     gens_upto lww_local_gen g (mtc_checkpoints s) \<and>
     gens_upto lww_local_gen g (mtc_cosignatures s) \<and>
     gens_upto lww_local_gen g (order_owners s) \<and>
     lww_local_gen (mtc_writer s) \<le> g"

text \<open>
  \<open>room g0 n g\<close>: the counter has moved on from \<open>g0\<close> to \<open>g\<close> and \<open>n\<close> further draws do not wrap
  it. One lemma per kind of field says what its merge does to counter, generations and delta.
\<close>

definition room :: "u64 \<Rightarrow> nat \<Rightarrow> u64 \<Rightarrow> bool" where
  "room g0 n g \<longleftrightarrow> g0 \<le> g \<and> g + n < 2 ^ 64"

definition or_step ::
  "u64 \<Rightarrow> nat \<Rightarrow> u64 \<Rightarrow> ('k, 'v) or_map \<Rightarrow> u64 \<Rightarrow> ('k, 'v) or_map \<Rightarrow> bool" where
  "or_step g0 n g m g' m' \<longleftrightarrow> g \<le> g' \<and> room g0 n g' \<and>
     (gens_upto or_local_gen g m \<longrightarrow> gens_upto or_local_gen g' m') \<and>
     or_map_join (or_map_view m) (or_map_view (or_delta_since m' g0)) = or_map_view m'"

definition lww_map_step ::
  "u64 \<Rightarrow> nat \<Rightarrow> u64 \<Rightarrow> ('k, 'v) lww_map \<Rightarrow> u64 \<Rightarrow> ('k, 'v) lww_map \<Rightarrow> bool" where
  "lww_map_step g0 n g m g' m' \<longleftrightarrow> g \<le> g' \<and> room g0 n g' \<and>
     (gens_upto lww_local_gen g m \<longrightarrow> gens_upto lww_local_gen g' m') \<and>
     lww_map_join (lww_map_view m) (lww_map_view (lww_map_delta_since m' g0)) = lww_map_view m'"

lemma or_stepI:
  assumes "or_merge g m other = (g', m')" "room g0 (length other + n) g" "hm_wf m" "hm_wf other"
  shows "or_step g0 n g m g' m'"
proof -
  have g: "g0 \<le> g" "g + length other < 2 ^ 64" using assms(2) by (simp_all add: room_def)
  show ?thesis
    using or_merge_step [OF assms(3,4) g assms(1)] or_merge_gens [OF _ g(2) assms(1)] assms(2)
    by (auto simp: or_step_def room_def)
qed

lemma lww_map_stepI:
  assumes "lww_map_merge g m other = (g', m')" "room g0 (length other + n) g" "hm_wf m" "hm_wf other"
  shows "lww_map_step g0 n g m g' m'"
proof -
  have g: "g0 \<le> g" "g + length other < 2 ^ 64" using assms(2) by (simp_all add: room_def)
  show ?thesis
    using lww_map_merge_step [OF assms(3,4) g assms(1)] lww_map_merge_gens [OF _ g(2) assms(1)] assms(2)
    by (auto simp: lww_map_step_def room_def)
qed

lemma lww_merge_step:
  assumes "room g0 1 g" "lww_merge g r other = (g', r')"
  shows "g \<le> g' \<and> (lww_local_gen r \<le> g \<longrightarrow> lww_local_gen r' \<le> g')
    \<and> lww_join (lww_view r) (lww_view (case lww_delta_since r' g0 of None \<Rightarrow> lww_default | Some x \<Rightarrow> x))
        = lww_view r'"
proof -
  have "lww_fresh g r (g', r')" using lww_merge_fresh [of g r other] assms(2) by simp
  moreover have "lww_view r' = lww_join (lww_view r) (lww_view other)"
    using lww_view_merge [of g r other] assms(2) by simp
  ultimately show ?thesis
    using assms(1)
    by (auto simp: room_def lww_fresh_def next_gen_Suc lww_delta_since_def)
      (auto simp: lww_join_def)
qed

lemma gens_upto_mono: "gens_upto gen g m \<Longrightarrow> g \<le> g' \<Longrightarrow> gens_upto gen g' m"
  by (fastforce simp: gens_upto_def)

lemma or_step_room: "or_step g0 n g m g' m' \<Longrightarrow> room g0 n g'"
  by (simp add: or_step_def)

lemma lww_map_step_room: "lww_map_step g0 n g m g' m' \<Longrightarrow> room g0 n g'"
  by (simp add: lww_map_step_def)

lemma or_step_le: "or_step g0 n g m g' m' \<Longrightarrow> g \<le> g'"
  by (simp add: or_step_def)

lemma lww_map_step_le: "lww_map_step g0 n g m g' m' \<Longrightarrow> g \<le> g'"
  by (simp add: lww_map_step_def)

lemma or_step_gens:
  "or_step g0 n g m g' m' \<Longrightarrow> gens_upto or_local_gen h m \<Longrightarrow> h \<le> g \<Longrightarrow> g' \<le> k
     \<Longrightarrow> gens_upto or_local_gen k m'"
  unfolding or_step_def by (blast intro: gens_upto_mono)

lemma lww_map_step_gens:
  "lww_map_step g0 n g m g' m' \<Longrightarrow> gens_upto lww_local_gen h m \<Longrightarrow> h \<le> g \<Longrightarrow> g' \<le> k
     \<Longrightarrow> gens_upto lww_local_gen k m'"
  unfolding lww_map_step_def by (blast intro: gens_upto_mono)

lemma aka_wfD:
  assumes "aka_wf s"
  shows "hm_wf (cluster_nodes s)" "hm_wf (accounts s)" "hm_wf (orders s)"
    "hm_wf (authorizations s)" "hm_wf (challenges s)" "hm_wf (certificates s)"
    "hm_wf (eab_keys s)" "hm_wf (operators s)" "hm_wf (delegations s)"
    "hm_wf (policy_rules s)" "hm_wf (mtc_checkpoints s)" "hm_wf (mtc_cosignatures s)"
    "hm_wf (order_owners s)"
  using assms by (simp_all add: aka_wf_def)

lemma aka_merge_steps:
  assumes wf: "aka_wf s" "aka_wf other" and room: "g + aka_size other < 2 ^ 64"
  shows "g \<le> fst (aka_merge g s other)
    \<and> (aka_gens_upto g s \<longrightarrow> aka_gens_upto (fst (aka_merge g s other)) (snd (aka_merge g s other)))
    \<and> aka_join (aka_view s) (aka_view (aka_delta_since (snd (aka_merge g s other)) g))
        = aka_view (snd (aka_merge g s other))"
proof -
  obtain g1 m1 where m1: "or_merge g (cluster_nodes s) (cluster_nodes other) = (g1, m1)" by fastforce
  obtain g2 m2 where m2: "or_merge g1 (accounts s) (accounts other) = (g2, m2)" by fastforce
  obtain g3 m3 where m3: "or_merge g2 (orders s) (orders other) = (g3, m3)" by fastforce
  obtain g4 m4 where m4: "or_merge g3 (authorizations s) (authorizations other) = (g4, m4)" by fastforce
  obtain g5 m5 where m5: "lww_map_merge g4 (challenges s) (challenges other) = (g5, m5)" by fastforce
  obtain g6 m6 where m6: "or_merge g5 (certificates s) (certificates other) = (g6, m6)" by fastforce
  obtain g7 m7 where m7: "lww_map_merge g6 (eab_keys s) (eab_keys other) = (g7, m7)" by fastforce
  obtain g8 m8 where m8: "or_merge g7 (operators s) (operators other) = (g8, m8)" by fastforce
  obtain g9 m9 where m9: "or_merge g8 (delegations s) (delegations other) = (g9, m9)" by fastforce
  obtain g10 m10 where m10: "or_merge g9 (policy_rules s) (policy_rules other) = (g10, m10)" by fastforce
  obtain g11 m11 where m11: "lww_map_merge g10 (mtc_checkpoints s) (mtc_checkpoints other) = (g11, m11)" by fastforce
  obtain g12 m12 where m12: "lww_map_merge g11 (mtc_cosignatures s) (mtc_cosignatures other) = (g12, m12)" by fastforce
  obtain g13 m13 where m13: "lww_map_merge g12 (order_owners s) (order_owners other) = (g13, m13)" by fastforce
  obtain g14 m14 where m14: "lww_merge g13 (mtc_writer s) (mtc_writer other) = (g14, m14)" by fastforce
  note w = aka_wfD [OF wf(1)] and v = aka_wfD [OF wf(2)]
  have "room g (length (cluster_nodes other) + (length (accounts other) + (length (orders other)
      + (length (authorizations other) + (length (challenges other) + (length
      (certificates other) + (length (eab_keys other) + (length (operators other) +
      (length (delegations other) + (length (policy_rules other) + (length
      (mtc_checkpoints other) + (length (mtc_cosignatures other) + (length
      (order_owners other) + 1))))))))))))) g"
    using room by (simp add: room_def aka_size_def)
  note s1 = or_stepI [OF m1 this w(1) v(1)]
  note s2 = or_stepI [OF m2 or_step_room [OF s1] w(2) v(2)]
  note s3 = or_stepI [OF m3 or_step_room [OF s2] w(3) v(3)]
  note s4 = or_stepI [OF m4 or_step_room [OF s3] w(4) v(4)]
  note s5 = lww_map_stepI [OF m5 or_step_room [OF s4] w(5) v(5)]
  note s6 = or_stepI [OF m6 lww_map_step_room [OF s5] w(6) v(6)]
  note s7 = lww_map_stepI [OF m7 or_step_room [OF s6] w(7) v(7)]
  note s8 = or_stepI [OF m8 lww_map_step_room [OF s7] w(8) v(8)]
  note s9 = or_stepI [OF m9 or_step_room [OF s8] w(9) v(9)]
  note s10 = or_stepI [OF m10 or_step_room [OF s9] w(10) v(10)]
  note s11 = lww_map_stepI [OF m11 or_step_room [OF s10] w(11) v(11)]
  note s12 = lww_map_stepI [OF m12 lww_map_step_room [OF s11] w(12) v(12)]
  note s13 = lww_map_stepI [OF m13 lww_map_step_room [OF s12] w(13) v(13)]
  note s14 = lww_merge_step [OF lww_map_step_room [OF s13] m14]
  note steps = s1 s2 s3 s4 s5 s6 s7 s8 s9 s10 s11 s12 s13 s14
  note le = s1 [THEN or_step_le] s2 [THEN or_step_le] s3 [THEN or_step_le] s4 [THEN or_step_le]
    s5 [THEN lww_map_step_le] s6 [THEN or_step_le] s7 [THEN lww_map_step_le] s8 [THEN or_step_le]
    s9 [THEN or_step_le] s10 [THEN or_step_le] s11 [THEN lww_map_step_le] s12 [THEN lww_map_step_le]
    s13 [THEN lww_map_step_le] s14 [THEN conjunct1]
  have r: "aka_merge g s other = (g14, \<lparr>cluster_nodes = m1, accounts = m2, orders = m3,
       authorizations = m4, challenges = m5, certificates = m6,
       eab_keys = m7, operators = m8, delegations = m9,
       policy_rules = m10, mtc_checkpoints = m11,
       mtc_cosignatures = m12, order_owners = m13, mtc_writer = m14\<rparr>)"
    by (simp add: aka_merge_def m1 m2 m3 m4 m5 m6 m7 m8 m9 m10 m11 m12 m13 m14)
  have "g \<le> g14" using le by linarith
  moreover have "aka_gens_upto g14 (snd (aka_merge g s other))" if "aka_gens_upto g s"
    using that le s14
    by (simp add: r aka_gens_upto_def or_step_gens [OF s1, of g] or_step_gens [OF s2, of g] or_step_gens [OF s3, of g]
        or_step_gens [OF s4, of g] lww_map_step_gens [OF s5, of g] or_step_gens [OF s6, of g]
        lww_map_step_gens [OF s7, of g] or_step_gens [OF s8, of g] or_step_gens [OF s9, of g]
        or_step_gens [OF s10, of g] lww_map_step_gens [OF s11, of g] lww_map_step_gens [OF s12, of g]
        lww_map_step_gens [OF s13, of g])
  moreover have "aka_join (aka_view s) (aka_view (aka_delta_since (snd (aka_merge g s other)) g))
        = aka_view (snd (aka_merge g s other))"
    using steps by (simp add: r aka_join_def aka_view_def aka_delta_since_def or_step_def lww_map_step_def)
  ultimately show ?thesis by (simp add: r)
qed

text \<open>The seed that start-up computes from the loaded state covers all its entries.\<close>

lemma aka_max_local_gen_upto: "aka_gens_upto (aka_max_local_gen s) s"
  unfolding aka_gens_upto_def aka_max_local_gen_def
  by (intro conjI gens_upto_mono [OF or_map_max_local_gen_upto] fold_max_upper
      gens_upto_mono [OF lww_map_max_local_gen_upto]) simp_all

lemma aka_gens_upto_mono: "aka_gens_upto g s \<Longrightarrow> g \<le> h \<Longrightarrow> aka_gens_upto h s"
  by (auto simp: aka_gens_upto_def elim: gens_upto_mono)

end
