(* ===== verification/Cluster_Ownership.thy ===== *)
theory Cluster_Ownership
  imports Crdt_Cluster
begin

text \<open>
  Ownership by gossip: a node claims an order, or the log-writer role, by writing its name and the
  current time into a last-write-wins register; the claim lapses after a time to live. The two
  kinds of claim share one contract, stated as a locale over the claim record.
\<close>

section \<open>Claims in a register\<close>

locale claim_register =
  fixes node :: "'o \<Rightarrow> string" and at :: "'o \<Rightarrow> i64" and mk :: "string \<Rightarrow> i64 \<Rightarrow> 'o"
  assumes node_mk: "node (mk n t) = n" and at_mk: "at (mk n t) = t"
begin

definition reg_ok :: "'o lww_register \<Rightarrow> bool" where
  "reg_ok r \<longleftrightarrow> (case lww_value r of
       None \<Rightarrow> lww_timestamp r = 0 \<and> lww_node_id r = ''''
     | Some c \<Rightarrow> lww_timestamp r = at c \<and> lww_node_id r = node c \<and> at c \<le> i64_max)"

definition holds :: "'o lww_register \<Rightarrow> string \<Rightarrow> i64 \<Rightarrow> i64 \<Rightarrow> bool" where
  "holds r n now ttl =
     (case lww_get r of None \<Rightarrow> False | Some c \<Rightarrow> node c = n \<and> sat_add (at c) ttl \<ge> now)"

definition blocked :: "'o lww_register \<Rightarrow> string \<Rightarrow> i64 \<Rightarrow> i64 \<Rightarrow> bool" where
  "blocked r n now ttl =
     (case lww_get r of None \<Rightarrow> False | Some c \<Rightarrow> node c \<noteq> n \<and> sat_add (at c) ttl \<ge> now)"

abbreviation claimed :: "u64 \<Rightarrow> 'o lww_register \<Rightarrow> string \<Rightarrow> i64 \<Rightarrow> 'o lww_register" where
  "claimed g r n now \<equiv> snd (lww_set g r (mk n now) now n)"

lemma blocked_iff: "blocked r n now ttl \<longleftrightarrow> (\<exists>n'. n' \<noteq> n \<and> holds r n' now ttl)"
  by (auto simp: blocked_def holds_def split: option.splits)

lemma holds_unique: "holds r n now ttl \<Longrightarrow> holds r n' now' ttl' \<Longrightarrow> n = n'"
  by (auto simp: holds_def split: option.splits)

lemma reg_ok_default: "reg_ok lww_default"
  by (simp add: reg_ok_def lww_default_def)

lemma reg_ok_set: "reg_ok r \<Longrightarrow> now \<le> i64_max \<Longrightarrow> reg_ok (claimed g r n now)"
  by (auto simp: reg_ok_def lww_set_def node_mk at_mk split: option.splits)

lemma reg_ok_merge: "reg_ok r \<Longrightarrow> reg_ok other \<Longrightarrow> reg_ok (snd (lww_merge g r other))"
  by (auto simp: reg_ok_def lww_merge_def lww_set_def split: option.splits)

text \<open>An unblocked claim is in the register afterwards, at a time no earlier than the present.\<close>

lemma claimed_value:
  assumes "reg_ok r" "\<not> blocked r n now ttl" "0 < now" "0 \<le> ttl"
  shows "\<exists>c. lww_get (claimed g r n now) = Some c \<and> node c = n \<and> now \<le> at c"
proof (cases "lww_wins r now n")
  case True
  then show ?thesis by (simp add: lww_set_def lww_get_def node_mk at_mk)
next
  case False
  then obtain c where c: "lww_value r = Some c" "at c \<le> i64_max"
    using assms(1,3) by (auto simp: lww_wins_def reg_ok_def split: option.splits)
  then have "now \<le> at c" using False assms(1) by (auto simp: lww_wins_def reg_ok_def)
  moreover have "at c \<le> sat_add (at c) ttl" using assms(4) c(2) by (rule sat_add_nonneg_ge)
  ultimately show ?thesis
    using False assms(2) c by (auto simp: lww_set_def lww_get_def blocked_def)
qed

lemma claimed_holds:
  assumes "reg_ok r" "\<not> blocked r n now ttl" "0 < now" "0 \<le> ttl" "t \<le> sat_add now ttl"
  shows "holds (claimed g r n now) n t ttl"
proof -
  obtain c where "lww_get (claimed g r n now) = Some c" "node c = n" "now \<le> at c"
    using claimed_value [OF assms(1-4)] by blast
  then show ?thesis using assms(5) sat_add_mono [of now "at c" ttl] by (simp add: holds_def)
qed

lemma claimed_blocks:
  assumes "reg_ok r" "\<not> blocked r n now ttl" "0 < now" "0 \<le> ttl" "t \<le> sat_add now ttl" "n' \<noteq> n"
  shows "blocked (claimed g r n now) n' t ttl"
  using claimed_holds [OF assms(1-5), of g] assms(6) not_sym [OF assms(6)]
  by (auto simp: blocked_iff)

end

section \<open>Order ownership\<close>

definition mk_order_owner :: "string \<Rightarrow> i64 \<Rightarrow> order_owner" where
  "mk_order_owner n t = \<lparr>oo_node_id = n, oo_claimed_at = t\<rparr>"

interpretation order_claim: claim_register oo_node_id oo_claimed_at mk_order_owner
  by unfold_locales (simp_all add: mk_order_owner_def)

definition owners_ok :: "aka_crdt \<Rightarrow> bool" where
  "owners_ok s \<longleftrightarrow> (\<forall>k r. hm_get (order_owners s) k = Some r \<longrightarrow> order_claim.reg_ok r)"

abbreviation owner_reg :: "aka_crdt \<Rightarrow> string \<Rightarrow> order_owner lww_register" where
  "owner_reg s order_id \<equiv> lww_entry (hm_get (order_owners s) order_id)"

lemma owners_ok_reg: "owners_ok s \<Longrightarrow> order_claim.reg_ok (owner_reg s order_id)"
  by (auto simp: owners_ok_def lww_entry_def order_claim.reg_ok_default split: option.split)

lemma lww_map_get_entry: "lww_map_get m k = lww_get (lww_entry (hm_get m k))"
  by (auto simp: lww_map_get_def lww_entry_def lww_get_def lww_default_def split: option.split)

lemma is_order_owner_reg:
  "is_order_owner s order_id n now ttl = order_claim.holds (owner_reg s order_id) n now ttl"
  by (simp add: is_order_owner_def order_claim.holds_def lww_map_get_entry)

lemma claim_order_reg:
  "claim_order g s order_id n now ttl =
     (if order_claim.blocked (owner_reg s order_id) n now ttl then (g, s, False)
      else (fst (lww_set g (owner_reg s order_id) (mk_order_owner n now) now n),
            s\<lparr>order_owners := hm_insert order_id (order_claim.claimed g (owner_reg s order_id) n now)
                                (order_owners s)\<rparr>, True))"
  by (simp add: claim_order_def order_claim.blocked_def lww_map_get_entry lww_map_set_def
      mk_order_owner_def case_prod_beta split: option.split)

lemma owner_reg_claimed [simp]:
  "owner_reg (s\<lparr>order_owners := hm_insert order_id r m\<rparr>) order_id = r"
  by (simp add: lww_entry_def hm_get_insert)

lemma owners_ok_claim:
  "owners_ok s \<Longrightarrow> now \<le> i64_max \<Longrightarrow> owners_ok (fst (snd (claim_order g s order_id n now ttl)))"
  using owners_ok_reg
  by (auto simp: claim_order_reg owners_ok_def hm_get_insert order_claim.reg_ok_set)

lemma lww_map_merge_reg:
  assumes "hm_wf other"
  shows "\<exists>h. lww_entry (hm_get (snd (lww_map_merge g m other)) k) =
    (case hm_get other k of None \<Rightarrow> lww_entry (hm_get m k)
     | Some r \<Rightarrow> snd (lww_merge h (lww_entry (hm_get m k)) r))"
proof -
  obtain h where "hm_get (snd (merge_loop lww_map_merge_body g m other)) k =
      (case hm_get other k of None \<Rightarrow> hm_get m k
       | Some r \<Rightarrow> Some (snd (lww_map_merge_body h (hm_get m k) r)))"
    using merge_loop_get [OF assms] by blast
  then show ?thesis
    by (intro exI [of _ h])
      (simp add: lww_map_merge_def lww_map_merge_body_def lww_entry_def split: option.splits)
qed

lemma aka_merge_order_owners:
  "\<exists>h. order_owners (snd (aka_merge g s other)) = snd (lww_map_merge h (order_owners s) (order_owners other))"
  by (auto simp: aka_merge_def Let_def case_prod_beta)

lemma owners_ok_alt:
  "owners_ok s \<longleftrightarrow> (\<forall>k. order_claim.reg_ok (owner_reg s k))"
  by (force simp: owners_ok_def lww_entry_def order_claim.reg_ok_default split: option.splits)

lemma owners_ok_merge:
  assumes "aka_wf s" "aka_wf other" "owners_ok s" "owners_ok other"
  shows "owners_ok (snd (aka_merge g s other))"
proof -
  obtain h where h: "order_owners (snd (aka_merge g s other)) =
      snd (lww_map_merge h (order_owners s) (order_owners other))"
    using aka_merge_order_owners by blast
  have "order_claim.reg_ok (owner_reg (snd (aka_merge g s other)) k)" for k
  proof -
    have wf: "hm_wf (order_owners other)" using assms(2) by (simp add: aka_wf_def)
    obtain h' where "owner_reg (snd (aka_merge g s other)) k =
        (case hm_get (order_owners other) k of None \<Rightarrow> owner_reg s k
         | Some r \<Rightarrow> snd (lww_merge h' (owner_reg s k) r))"
      using lww_map_merge_reg [OF wf] unfolding h by blast
    then show ?thesis
      using assms(3,4) owners_ok_reg [OF assms(3), of k]
      by (auto simp: owners_ok_def order_claim.reg_ok_merge split: option.split)
  qed
  then show ?thesis by (simp add: owners_ok_alt)
qed

section \<open>The log-writer role\<close>

definition mk_mtc_writer :: "string \<Rightarrow> i64 \<Rightarrow> mtc_writer_claim" where
  "mk_mtc_writer n t = \<lparr>mw_node_id = n, mw_claimed_at = t\<rparr>"

interpretation writer_claim: claim_register mw_node_id mw_claimed_at mk_mtc_writer
  by unfold_locales (simp_all add: mk_mtc_writer_def)

definition writer_ok :: "aka_crdt \<Rightarrow> bool" where
  "writer_ok s \<longleftrightarrow> writer_claim.reg_ok (mtc_writer s)"

lemma is_mtc_writer_reg:
  "is_mtc_writer s n now ttl = writer_claim.holds (mtc_writer s) n now ttl"
  by (simp add: is_mtc_writer_def writer_claim.holds_def)

lemma claim_mtc_writer_reg:
  "claim_mtc_writer g s n now ttl =
     (if writer_claim.blocked (mtc_writer s) n now ttl then (g, s, False)
      else (fst (lww_set g (mtc_writer s) (mk_mtc_writer n now) now n),
            s\<lparr>mtc_writer := writer_claim.claimed g (mtc_writer s) n now\<rparr>, True))"
  by (simp add: claim_mtc_writer_def writer_claim.blocked_def mk_mtc_writer_def case_prod_beta
      split: option.split)

lemma writer_ok_claim:
  "writer_ok s \<Longrightarrow> now \<le> i64_max \<Longrightarrow> writer_ok (fst (snd (claim_mtc_writer g s n now ttl)))"
  by (simp add: claim_mtc_writer_reg writer_ok_def writer_claim.reg_ok_set)

lemma writer_ok_merge:
  "writer_ok s \<Longrightarrow> writer_ok other \<Longrightarrow> writer_ok (snd (aka_merge g s other))"
  by (simp add: writer_ok_def aka_merge_def Let_def case_prod_beta writer_claim.reg_ok_merge)

end
