(* ===== verification/Cluster_Properties.thy ===== *)
theory Cluster_Properties
  imports Cluster_Generations Cluster_Ownership
begin

text \<open>
  The properties of the replicated cluster state: convergence, sufficiency of deltas, generation
  bookkeeping, exclusive ownership, the counts shown to operators, and the limit of convergence.
  The concrete states below are two orders as two nodes of a cluster hold them.
\<close>

section \<open>Two concrete nodes\<close>

definition sample_order :: "string \<Rightarrow> string \<Rightarrow> order_entry" where
  "sample_order st ca =
     \<lparr>oe_order_id = ''o1'', oe_account_id = ''a1'', oe_status = st, oe_expires = None,
      oe_identifiers = ''[]'', oe_not_before = None, oe_not_after = None, oe_error = None,
      oe_certificate_id = None, oe_created = 1, oe_updated = 1, oe_ca_id = ca,
      oe_processing_node_id = None, oe_processing_claimed_at = None\<rparr>"

definition node_a :: aka_crdt where
  "node_a = aka_default\<lparr>orders := fst (snd (or_upsert 0 [] ''o1'' (sample_order ''pending'' ''ca1'') 1))\<rparr>"

definition node_b :: aka_crdt where
  "node_b = aka_default\<lparr>orders := fst (snd (or_upsert 0 [] ''o1'' (sample_order ''ready'' ''ca1'') 2))\<rparr>"

definition sample_writes :: aka_writes where
  "sample_writes =
     \<lparr>w_cluster_nodes = undefined, w_accounts = undefined,
      w_orders = (\<lambda>_ t. sample_order (if t = 1 then ''pending'' else ''ready'') ''ca1''),
      w_authorizations = undefined, w_challenges = undefined, w_certificates = undefined,
      w_eab_keys = undefined, w_operators = undefined, w_delegations = undefined,
      w_policy_rules = undefined, w_mtc_checkpoints = undefined, w_mtc_cosignatures = undefined,
      w_order_owners = undefined, w_mtc_writer = undefined\<rparr>"

lemma default_histories [simp]:
  "or_map_history w (or_map_view [])" "lww_map_history w' (lww_map_view [])"
  by (simp_all add: or_map_history_def or_map_view_def lww_map_history_def lww_map_view_def)

lemma default_ok [simp]: "aka.ok sample_writes aka_default"
  by (simp add: aka.ok_def aka_wf_def aka_default_def aka_history_def aka_view_def)

lemma nodes_ok [simp]: "aka.ok sample_writes node_a" "aka.ok sample_writes node_b"
  by (simp_all add: aka.ok_def aka_wf_def aka_default_def aka_history_def aka_view_def node_a_def
      node_b_def or_upsert_def or_map_history_def or_map_view_def sample_writes_def hm_wf_def)

lemma nodes_wf [simp]: "aka_wf aka_default" "aka_wf node_a" "aka_wf node_b"
  using default_ok nodes_ok by (simp_all only: aka.ok_def)

lemma nodes_history [simp]:
  "aka_history sample_writes (aka_view aka_default)" "aka_history sample_writes (aka_view node_a)"
  "aka_history sample_writes (aka_view node_b)"
  using default_ok nodes_ok by (simp_all only: aka.ok_def)

lemma or_get_orders_view:
  "or_get (orders s) k = (case v_orders (aka_view s) k of OrLive _ v \<Rightarrow> Some v | _ \<Rightarrow> None)"
  by (simp add: or_get_view aka_view_def)

lemma node_orders_view:
  "v_orders (aka_view aka_default) ''o1'' = OrAbsent"
  "v_orders (aka_view node_a) ''o1'' = OrLive 1 (sample_order ''pending'' ''ca1'')"
  "v_orders (aka_view node_b) ''o1'' = OrLive 2 (sample_order ''ready'' ''ca1'')"
  by (simp_all add: aka_view_def aka_default_def node_a_def node_b_def or_upsert_def or_map_view_def)

lemma v_orders_join: "v_orders (aka_join x y) k = or_vjoin (v_orders x k) (v_orders y k)"
  by (simp add: aka_join_def or_map_join_def)

lemma node_size [simp]: "aka_size node_a = 2" "aka_size node_b = 2"
  by (simp_all add: aka_size_def node_a_def node_b_def aka_default_def or_upsert_def)

lemma node_gen [simp]: "aka_max_local_gen node_a = 1"
  by (simp add: node_a_def aka_default_def or_upsert_def aka_max_local_gen_def or_max_local_gen_def
      lww_map_max_local_gen_def max_or_zero_def lww_default_def next_gen_def)

lemmas node_simps =
  case_prod_beta aka_view_merge or_get_orders_view node_orders_view v_orders_join

section \<open>Convergence\<close>



text \<open>C2: a delta is enough. If a peer has already merged everything this node wrote up to generation
  \<open>gen\<close>, then merging the node's delta since \<open>gen\<close> gives it the same replicated state as merging
  the node's whole state.\<close>

theorem cluster_delta_suffices:
  assumes "aka_wf s" "aka_history w (aka_view s)" "aka_wf t" "aka_history w (aka_view t)"
    and "aka_view (snd (aka_merge h t (aka_upto s gen))) = aka_view t"
  shows "aka_view (snd (aka_merge g t (aka_delta_since s gen))) = aka_view (snd (aka_merge g t s))"
  using assms by (intro aka.delta_suffices [of w, where h = h]) (simp_all add: aka.ok_def)

theorem cluster_delta_suffices_witness:
  "aka_view (snd (aka_merge 3 node_b (aka_delta_since node_a 0))) = aka_view (snd (aka_merge 3 node_b node_a))"
proof (rule cluster_delta_suffices [where w = sample_writes and h = 9])
  have "aka_view (aka_upto node_a 0) = aka_view aka_default"
    by (simp add: aka_upto_def node_a_def or_upsert_def next_gen_def aka_default_def or_map_upto_def
        hm_retain_def lww_map_upto_def aka_view_def)
  then show "aka_view (snd (aka_merge 9 node_b (aka_upto node_a 0))) = aka_view node_b"
    using aka.wf_upto [OF nodes_wf(2), of 0]
    by (simp add: aka_view_merge) (simp add: aka_join_def aka_view_def aka_default_def
        or_map_join_def or_map_view_def lww_map_join_def lww_map_view_def fun_eq_iff)
qed simp_all

text \<open>C3: merged changes are passed on. What a merge changes in any field is contained in the delta
  since the counter before the merge: a peer with the old replicated state that receives this delta
  reaches the merged replicated state. The counter has room for one generation per received entry.\<close>

theorem cluster_merge_forwarded:
  assumes "aka_wf s" "aka_wf other" "g + aka_size other < 2 ^ 64" "aka_wf p" "aka_view p = aka_view s"
  shows "aka_view (snd (aka_merge h p (aka_delta_since (snd (aka_merge g s other)) g)))
           = aka_view (snd (aka_merge g s other))"
  using aka_merge_steps [OF assms(1-3)] aka.wf_delta [OF aka_wf_merge [OF assms(1)]] assms(5)
  by (simp add: aka_view_merge)

theorem cluster_merge_forwarded_witness:
  "aka_view (snd (aka_merge 5 node_a (aka_delta_since (snd (aka_merge 1 node_a node_b)) 1)))
     = aka_view (snd (aka_merge 1 node_a node_b))
   \<and> aka_view (snd (aka_merge 1 node_a node_b)) \<noteq> aka_view node_a"
proof
  show "aka_view (snd (aka_merge 5 node_a (aka_delta_since (snd (aka_merge 1 node_a node_b)) 1)))
      = aka_view (snd (aka_merge 1 node_a node_b))"
    by (rule cluster_merge_forwarded) simp_all
  have "v_orders (aka_view (snd (aka_merge 1 node_a node_b))) ''o1'' \<noteq> v_orders (aka_view node_a) ''o1''"
    by (simp add: node_simps)
  then show "aka_view (snd (aka_merge 1 node_a node_b)) \<noteq> aka_view node_a" by auto
qed

text \<open>No entry is ahead of the counter. The seed computed from a loaded state covers every
  generation in it, and a merge moves the counter only forward and keeps every generation of the
  merged state within it.\<close>

theorem cluster_generations_covered:
  assumes "aka_wf s" "aka_wf other" "g + aka_size other < 2 ^ 64" "aka_max_local_gen s \<le> g"
  shows "g \<le> fst (aka_merge g s other)
    \<and> aka_gens_upto (fst (aka_merge g s other)) (snd (aka_merge g s other))"
proof -
  have "aka_gens_upto g s" using aka_max_local_gen_upto assms(4) by (rule aka_gens_upto_mono)
  then show ?thesis using aka_merge_steps [OF assms(1-3)] by blast
qed

theorem cluster_generations_covered_witness:
  "1 \<le> fst (aka_merge 1 node_a node_b)
    \<and> aka_gens_upto (fst (aka_merge 1 node_a node_b)) (snd (aka_merge 1 node_a node_b))"
  by (rule cluster_generations_covered) simp_all

text \<open>Removal is final under merging. A key that is tombstoned on either side reads as absent
  after the merge, whatever live entry the other side holds and however late it was added.\<close>

theorem or_map_removal_final:
  assumes "hm_wf m" "hm_wf other"
    and "other = fst (snd (or_remove d h other0 k ts)) \<or> m = fst (snd (or_remove d h m0 k ts))"
  shows "or_get (snd (or_merge g m other)) k = None"
proof -
  have "or_map_view (fst (snd (or_remove d h x k ts))) k = OrDead" for x
    by (auto simp: or_remove_def or_map_view_def Let_def hm_get_insert split: option.split)
  then show ?thesis using assms by (intro or_merge_tombstone_wins) auto
qed

theorem or_map_removal_final_witness:
  "or_get (snd (or_merge 0 (fst (snd (or_upsert 0 [] ''k'' (1::nat) 9)))
             (fst (snd (or_remove 0 0 [] ''k'' 5))))) ''k'' = None"
  by (rule or_map_removal_final [where d = 0 and h = 0 and ts = 5 and ?other0.0 = "[]"])
    (simp_all add: or_upsert_def or_remove_def hm_wf_def)

section \<open>Ownership\<close>

text \<open>C4: order claims are sound and exclusive. On a state whose claims are stamped with their own
  node and time, a claim returns true exactly when no other node holds the order; after it the
  claimant is the owner up to its time to live, and until then every claim of another node is
  refused and changes nothing. The state stays one whose claims are so stamped.\<close>

theorem order_claim_exclusive:
  assumes "owners_ok s" "0 < now" "now \<le> i64_max" "0 \<le> ttl"
    and "claim_order g s order_id n now ttl = (g', s', won)"
  shows "(won \<longleftrightarrow> (\<forall>n'. n' \<noteq> n \<longrightarrow> \<not> is_order_owner s order_id n' now ttl))
    \<and> owners_ok s'
    \<and> (won \<longrightarrow> (\<forall>t \<le> sat_add now ttl. is_order_owner s' order_id n t ttl
         \<and> (\<forall>n' h. n' \<noteq> n \<longrightarrow> claim_order h s' order_id n' t ttl = (h, s', False))))"
proof -
  have "owners_ok s'" using owners_ok_claim [OF assms(1,3), of g order_id n ttl] assms(5) by simp
  moreover have "won \<longleftrightarrow> \<not> order_claim.blocked (owner_reg s order_id) n now ttl"
    using assms(5) by (auto simp: claim_order_reg split: if_splits)
  moreover have reg: "owner_reg s' order_id = order_claim.claimed g (owner_reg s order_id) n now" if won
    using assms(5) that by (auto simp: claim_order_reg lww_entry_def hm_get_insert split: if_splits)
  ultimately show ?thesis
    using order_claim.claimed_holds [OF owners_ok_reg [OF assms(1)] _ assms(2,4)]
      order_claim.claimed_blocks [OF owners_ok_reg [OF assms(1)] _ assms(2,4)]
    by (auto simp: is_order_owner_reg claim_order_reg [of _ s'] order_claim.blocked_iff [of "owner_reg s order_id"])
qed

theorem order_claim_exclusive_witness:
  "\<exists>g' s'. claim_order 4 node_a ''o1'' ''n1'' 100 60 = (g', s', True)
     \<and> is_order_owner s' ''o1'' ''n1'' 160 60
     \<and> claim_order 0 s' ''o1'' ''n2'' 150 60 = (0, s', False)"
proof -
  have ok: "owners_ok node_a" by (simp add: owners_ok_def node_a_def aka_default_def)
  obtain g' s' won where c: "claim_order 4 node_a ''o1'' ''n1'' 100 60 = (g', s', won)"
    using prod_cases3 by blast
  have "\<not> is_order_owner node_a ''o1'' n' 100 60" for n'
    by (simp add: is_order_owner_def lww_map_get_def node_a_def aka_default_def)
  then show ?thesis
    using order_claim_exclusive [OF ok _ _ _ c] c by (simp add: i64_max_def i64_min_def sat_add_def)
qed

text \<open>The elected log writer. The same for the cluster-wide writer role: a claim succeeds exactly
  when no other node holds it, and a successful claim keeps every other node out until it lapses.\<close>

theorem mtc_writer_claim_exclusive:
  assumes "writer_ok s" "0 < now" "now \<le> i64_max" "0 \<le> ttl"
    and "claim_mtc_writer g s n now ttl = (g', s', won)"
  shows "(won \<longleftrightarrow> (\<forall>n'. n' \<noteq> n \<longrightarrow> \<not> is_mtc_writer s n' now ttl))
    \<and> writer_ok s'
    \<and> (won \<longrightarrow> (\<forall>t \<le> sat_add now ttl. is_mtc_writer s' n t ttl
         \<and> (\<forall>n' h. n' \<noteq> n \<longrightarrow> claim_mtc_writer h s' n' t ttl = (h, s', False))))"
proof -
  have ok: "writer_claim.reg_ok (mtc_writer s)" using assms(1) by (simp add: writer_ok_def)
  have "writer_ok s'" using writer_ok_claim [OF assms(1,3), of g n ttl] assms(5) by simp
  moreover have "won \<longleftrightarrow> \<not> writer_claim.blocked (mtc_writer s) n now ttl"
    using assms(5) by (auto simp: claim_mtc_writer_reg split: if_splits)
  moreover have "mtc_writer s' = writer_claim.claimed g (mtc_writer s) n now" if won
    using assms(5) that by (auto simp: claim_mtc_writer_reg split: if_splits)
  ultimately show ?thesis
    using writer_claim.claimed_holds [OF ok _ assms(2,4)] writer_claim.claimed_blocks [OF ok _ assms(2,4)]
    by (auto simp: is_mtc_writer_reg claim_mtc_writer_reg [of _ s'] writer_claim.blocked_iff [of "mtc_writer s"])
qed

theorem mtc_writer_claim_exclusive_witness:
  "\<exists>g' s'. claim_mtc_writer 4 node_a ''n1'' 100 60 = (g', s', True)
     \<and> is_mtc_writer s' ''n1'' 160 60 \<and> claim_mtc_writer 0 s' ''n2'' 150 60 = (0, s', False)"
proof -
  have ok: "writer_ok node_a"
    by (simp add: writer_ok_def node_a_def aka_default_def writer_claim.reg_ok_default)
  obtain g' s' won where c: "claim_mtc_writer 4 node_a ''n1'' 100 60 = (g', s', won)"
    using prod_cases3 by blast
  have "\<not> is_mtc_writer node_a n' 100 60" for n'
    by (simp add: is_mtc_writer_def lww_get_def node_a_def aka_default_def lww_default_def)
  then show ?thesis
    using mtc_writer_claim_exclusive [OF ok _ _ _ c] c
    by (simp add: i64_max_def i64_min_def sat_add_def)
qed

text \<open>Conflicting claims made on both sides of a partition are resolved alike. When two nodes
  exchange their states, each afterwards agrees with the other on who owns an order and on who is
  the log writer, at every instant and for every time to live.\<close>

theorem split_brain_claims_resolved:
  assumes "aka_wf a" "aka_history w (aka_view a)" "aka_wf b" "aka_history w (aka_view b)"
  shows "is_order_owner (snd (aka_merge g a b)) order_id n now ttl
           = is_order_owner (snd (aka_merge h b a)) order_id n now ttl
    \<and> is_mtc_writer (snd (aka_merge g a b)) n now ttl = is_mtc_writer (snd (aka_merge h b a)) n now ttl"
proof -
  have "is_order_owner s order_id n now ttl = (case fst (v_order_owners (aka_view s) order_id) of
      None \<Rightarrow> False | Some c \<Rightarrow> oo_node_id c = n \<and> sat_add (oo_claimed_at c) ttl \<ge> now)" for s
    by (simp add: is_order_owner_def lww_map_get_view aka_view_def)
  moreover have "is_mtc_writer s n now ttl = (case fst (v_mtc_writer (aka_view s)) of
      None \<Rightarrow> False | Some c \<Rightarrow> mw_node_id c = n \<and> sat_add (mw_claimed_at c) ttl \<ge> now)" for s
    by (simp add: is_mtc_writer_def lww_get_def lww_view_def aka_view_def)
  ultimately show ?thesis
    using aka.exchange_converges [of w a b g h] assms by (simp add: aka.ok_def)
qed

definition claimant :: "string \<Rightarrow> i64 \<Rightarrow> aka_crdt" where
  "claimant n t = fst (snd (claim_order 0 aka_default ''o1'' n t 60))"

definition claim_writes :: aka_writes where
  "claim_writes = sample_writes\<lparr>w_order_owners := (\<lambda>_ s. Some (mk_order_owner (snd s) (fst s)))\<rparr>"

lemma claimant_owners:
  "0 < t \<Longrightarrow> claimant n t = aka_default\<lparr>order_owners :=
     [(''o1'', \<lparr>lww_value = Some (mk_order_owner n t), lww_timestamp = t, lww_node_id = n, lww_local_gen = 1\<rparr>)]\<rparr>"
  by (simp add: claimant_def claim_order_reg aka_default_def lww_entry_def order_claim.blocked_def
      lww_get_def lww_default_def lww_set_def lww_wins_def next_gen_def)

lemma claimant_ok: "0 < t \<Longrightarrow> aka_wf (claimant n t) \<and> aka_history claim_writes (aka_view (claimant n t))"
  by (simp add: claimant_owners aka_wf_def aka_default_def aka_history_def aka_view_def claim_writes_def
      hm_wf_def lww_map_history_def lww_map_view_def lww_history_def lww_view_def
      lww_default_def lww_unset_def)

theorem split_brain_claims_resolved_witness:
  "is_order_owner (snd (aka_merge 1 (claimant ''n1'' 100) (claimant ''n2'' 101))) ''o1'' ''n2'' 120 60
     = is_order_owner (snd (aka_merge 1 (claimant ''n2'' 101) (claimant ''n1'' 100))) ''o1'' ''n2'' 120 60"
  using split_brain_claims_resolved
    [of "claimant ''n1'' 100" claim_writes "claimant ''n2'' 101" 1 "''o1''" "''n2''" 120 60 1]
    claimant_ok [of 100 "''n1''"] claimant_ok [of 101 "''n2''"] by simp

section \<open>Counts shown to operators\<close>

text \<open>A CA-scoped operator sees the numbers of its own CA only. With a scope, the count of a
  CA-bound field is the number of its live entries of that CA, and fields without a CA are not
  reported; without a scope every field reports its live total.\<close>

theorem scoped_counts_confined:
  assumes "aka_wf s"
  shows "sc_accounts (aka_entry_counts_scoped s (Some ca))
           = Some (card {k. \<exists>v. or_get (accounts s) k = Some v \<and> ae_ca_id v = ca})
    \<and> sc_orders (aka_entry_counts_scoped s (Some ca))
           = Some (card {k. \<exists>v. or_get (orders s) k = Some v \<and> oe_ca_id v = ca})
    \<and> sc_certificates (aka_entry_counts_scoped s (Some ca))
           = Some (card {k. \<exists>v. or_get (certificates s) k = Some v \<and> ce_ca_id v = ca})
    \<and> sc_challenges (aka_entry_counts_scoped s (Some ca)) = None
    \<and> sc_eab_keys (aka_entry_counts_scoped s (Some ca)) = None
    \<and> sc_policy_rules (aka_entry_counts_scoped s (Some ca)) = None
    \<and> sc_orders (aka_entry_counts_scoped s None) = Some (card {k. or_get (orders s) k \<noteq> None})"
  using assms
  by (simp add: aka_entry_counts_scoped_def scoped_from_counts_def aka_entry_counts_def aka_wf_def
      or_live_count or_count_live_card)

theorem scoped_counts_confined_witness:
  "sc_orders (aka_entry_counts_scoped node_a (Some ''ca2''))
     = Some (card {k. \<exists>v. or_get (orders node_a) k = Some v \<and> oe_ca_id v = ''ca2''})"
  using scoped_counts_confined [of node_a "''ca2''"] by simp

section \<open>The limit of convergence\<close>

lemma or_deliver_same_second:
  assumes "\<And>m. m \<in> set ms \<Longrightarrow> hm_wf m \<and> (\<exists>x. or_map_view m k = OrLive ts x)"
    and "or_map_view s k = OrLive ts v"
  shows "or_map_view (snd (deliver or_merge g s ms)) k = OrLive ts v"
  using assms
proof (induction ms arbitrary: g s)
  case (Cons m ms)
  then have "or_map_view (snd (or_merge g s m)) k = OrLive ts v"
    by (fastforce simp: or_map_view_merge or_map_join_def)
  with Cons show ?case by (simp add: case_prod_beta)
qed simp

text \<open>The observed-remove map breaks ties by arrival, not by content. Two nodes that upsert
  different values for one key in the same second keep their own value whatever they exchange: no
  sequence of merges of the two states makes them agree.\<close>

theorem or_map_same_second_diverges:
  assumes "v \<noteq> v'" and "a = fst (snd (or_upsert g0 [] k v ts))" and "b = fst (snd (or_upsert h0 [] k v' ts))"
    and "set ms \<subseteq> {a, b}" and "set ns \<subseteq> {a, b}"
  shows "or_get (snd (deliver or_merge g a ms)) k = Some v
    \<and> or_get (snd (deliver or_merge h b ns)) k = Some v'
    \<and> or_map_view (snd (deliver or_merge g a ms)) k \<noteq> or_map_view (snd (deliver or_merge h b ns)) k"
proof -
  have ok: "\<forall>m \<in> {a, b}. hm_wf m \<and> (\<exists>x. or_map_view m k = OrLive ts x)"
    using assms(2,3) by (simp add: or_upsert_def hm_wf_def or_map_view_def)
  have "or_map_view a k = OrLive ts v" "or_map_view b k = OrLive ts v'"
    using assms(2,3) by (simp_all add: or_upsert_def or_map_view_def)
  then have "or_map_view (snd (deliver or_merge g a ms)) k = OrLive ts v"
      "or_map_view (snd (deliver or_merge h b ns)) k = OrLive ts v'"
    using ok assms(4,5) by (auto intro!: or_deliver_same_second)
  then show ?thesis using assms(1) by (simp add: or_get_view)
qed

theorem or_map_same_second_diverges_witness:
  "\<exists>a b. or_get (snd (deliver or_merge 0 a [b, a, b])) ''k'' = Some (1::nat)
     \<and> or_get (snd (deliver or_merge 0 b [a])) ''k'' = Some 2"
proof (intro exI)
  let ?a = "fst (snd (or_upsert 0 [] ''k'' (1::nat) 5))" and ?b = "fst (snd (or_upsert 0 [] ''k'' (2::nat) 5))"
  show "or_get (snd (deliver or_merge 0 ?a [?b, ?a, ?b])) ''k'' = Some 1
     \<and> or_get (snd (deliver or_merge 0 ?b [?a])) ''k'' = Some 2"
    using or_map_same_second_diverges [OF _ refl refl, of 1 "2::nat" "[?b, ?a, ?b]" 0 "''k''" 5 0 "[?a]" 0 0]
    by simp
qed

end
