(* ===== verification/Crdt_Grow_Set.thy ===== *)
theory Crdt_Grow_Set
  imports Crdt_Loop
begin

text \<open>
  The grow-only set with per-entry generations (\<^verbatim>\<open>crates/akamu-crdt/src/grow_set.rs\<close>): each element
  is mapped to the local generation at which this node first saw it.
\<close>

type_synonym 'a grow_set = "('a, u64) hashmap"

definition gs_insert_body :: "u64 \<Rightarrow> u64 option \<Rightarrow> 'o \<Rightarrow> u64 \<times> u64" where
  "gs_insert_body g own other =
     (case own of Some gen \<Rightarrow> (g, gen) | None \<Rightarrow> (next_gen g, next_gen g))"

definition gs_insert :: "u64 \<Rightarrow> 'a grow_set \<Rightarrow> 'a \<Rightarrow> u64 \<times> 'a grow_set" where
  "gs_insert g s x =
     (case hm_get s x of Some _ \<Rightarrow> (g, s) | None \<Rightarrow> (next_gen g, hm_insert x (next_gen g) s))"

definition gs_contains :: "'a grow_set \<Rightarrow> 'a \<Rightarrow> bool" where
  "gs_contains s x \<longleftrightarrow> hm_get s x \<noteq> None"

definition gs_iter :: "'a grow_set \<Rightarrow> 'a list" where
  "gs_iter s = map fst s"

definition gs_len :: "'a grow_set \<Rightarrow> nat" where
  "gs_len s = length s"

definition gs_is_empty :: "'a grow_set \<Rightarrow> bool" where
  "gs_is_empty s \<longleftrightarrow> s = []"

definition gs_retain :: "('a \<Rightarrow> bool) \<Rightarrow> 'a grow_set \<Rightarrow> 'a grow_set" where
  "gs_retain keep s = hm_retain (\<lambda>x _. keep x) s"

definition gs_max_local_gen :: "'a grow_set \<Rightarrow> u64" where
  "gs_max_local_gen s = max_or_zero (map snd s)"

definition gs_delta_since :: "'a grow_set \<Rightarrow> u64 \<Rightarrow> 'a grow_set" where
  "gs_delta_since s gen = hm_retain (\<lambda>_ entry_gen. entry_gen > gen) s"

definition gs_delta_range :: "'a grow_set \<Rightarrow> u64 \<Rightarrow> u64 \<Rightarrow> 'a grow_set" where
  "gs_delta_range s since until =
     hm_retain (\<lambda>_ entry_gen. entry_gen > since \<and> entry_gen \<le> until) s"

definition gs_merge :: "u64 \<Rightarrow> 'a grow_set \<Rightarrow> 'a grow_set \<Rightarrow> u64 \<times> 'a grow_set" where
  "gs_merge g s other = merge_loop gs_insert_body g s other"

section \<open>The contract\<close>

definition gs_view :: "'a grow_set \<Rightarrow> 'a set" where
  "gs_view s = {x. gs_contains s x}"

definition gs_upto :: "'a grow_set \<Rightarrow> u64 \<Rightarrow> 'a grow_set" where
  "gs_upto s gen = hm_retain (\<lambda>_ entry_gen. entry_gen \<le> gen) s"

interpretation gs_values: merge_body gs_insert_body "\<lambda>own. own \<noteq> None" "(\<or>)"
  by unfold_locales simp_all

lemma gs_view_merge:
  assumes "hm_wf b"
  shows "gs_view (snd (gs_merge g a b)) = gs_view a \<union> gs_view b"
  using gs_values.eview_merge_loop [OF assms, of g a]
  by (auto simp: gs_view_def gs_contains_def gs_merge_def)

lemma hm_wf_gs_merge: "hm_wf a \<Longrightarrow> hm_wf (snd (gs_merge g a b))"
  by (simp add: gs_merge_def hm_wf_merge_loop)

lemma gs_view_retain: "hm_wf s \<Longrightarrow> gs_view (hm_retain p s) = {x. \<exists>gen. hm_get s x = Some gen \<and> p x gen}"
  by (auto simp: gs_view_def gs_contains_def hm_get_retain split: option.splits)

interpretation gs: delta_crdt gs_merge gs_view "(\<union>)" "\<lambda>_. True" hm_wf gs_delta_since gs_upto
proof unfold_locales
  fix s :: "'a grow_set" and gen
  assume s: "hm_wf s"
  show "gs_view (gs_upto s gen) \<union> gs_view (gs_delta_since s gen) = gs_view s"
    using s by (auto simp: gs_upto_def gs_delta_since_def gs_view_retain)
      (auto simp: gs_view_def gs_contains_def)
qed (simp_all add: gs_view_merge hm_wf_gs_merge gs_upto_def gs_delta_since_def Un_ac)

interpretation gs_stamps: stamping_body gs_insert_body "\<lambda>gen. gen" "\<lambda>own. own \<noteq> None"
  by unfold_locales (auto simp: gs_insert_body_def next_gen_Suc split: option.splits)

section \<open>Properties\<close>

text \<open>An element already present keeps the generation of its first insertion.\<close>

lemma gs_merge_keeps_gen:
  assumes "hm_wf b" "hm_get a x = Some gen"
  shows "hm_get (snd (gs_merge g a b)) x = Some gen"
proof -
  obtain h where "hm_get (snd (merge_loop gs_insert_body g a b)) x =
      (case hm_get b x of None \<Rightarrow> hm_get a x | Some e \<Rightarrow> Some (snd (gs_insert_body h (hm_get a x) e)))"
    using merge_loop_get [OF assms(1)] by blast
  then show ?thesis
    using assms(2) by (simp add: gs_merge_def gs_insert_body_def split: option.split)
qed

lemma gs_insert_view: "gs_view (snd (gs_insert g s x)) = insert x (gs_view s)"
  by (auto simp: gs_view_def gs_contains_def gs_insert_def hm_get_insert split: option.split)

lemma gs_insert_idem: "gs_insert h (snd (gs_insert g s x)) x = (h, snd (gs_insert g s x))"
  by (auto simp: gs_insert_def hm_get_insert split: option.split)

end
