(* ===== verification/Status.thy ===== *)
theory Status
  imports Akamu_Prelude
begin

text \<open>
  The typed status values (\<^verbatim>\<open>src/status.rs\<close>). The database keeps the strings; \<open>from_str\<close> and
  \<open>as_str\<close> convert at the call sites that need a typed value. The error text of a failed parse is
  not modelled: a parse error is \<open>None\<close>.
\<close>

datatype order_status = OrderPending | OrderReady | OrderProcessing | OrderValid | OrderInvalid | OrderCanceled

fun order_as_str :: "order_status \<Rightarrow> string" where
  "order_as_str OrderPending = ''pending''"
| "order_as_str OrderReady = ''ready''"
| "order_as_str OrderProcessing = ''processing''"
| "order_as_str OrderValid = ''valid''"
| "order_as_str OrderInvalid = ''invalid''"
| "order_as_str OrderCanceled = ''canceled''"

definition order_from_str :: "string \<Rightarrow> order_status option" where
  "order_from_str s =
     (if s = ''pending'' then Some OrderPending
      else if s = ''ready'' then Some OrderReady
      else if s = ''processing'' then Some OrderProcessing
      else if s = ''valid'' then Some OrderValid
      else if s = ''invalid'' then Some OrderInvalid
      else if s = ''canceled'' then Some OrderCanceled
      else None)"

datatype account_status = AccountValid | AccountDeactivated | AccountRevoked

fun account_as_str :: "account_status \<Rightarrow> string" where
  "account_as_str AccountValid = ''valid''"
| "account_as_str AccountDeactivated = ''deactivated''"
| "account_as_str AccountRevoked = ''revoked''"

definition account_from_str :: "string \<Rightarrow> account_status option" where
  "account_from_str s =
     (if s = ''valid'' then Some AccountValid
      else if s = ''deactivated'' then Some AccountDeactivated
      else if s = ''revoked'' then Some AccountRevoked
      else None)"

datatype authz_status = AuthzPending | AuthzValid | AuthzInvalid | AuthzDeactivated | AuthzExpired | AuthzRevoked

fun authz_as_str :: "authz_status \<Rightarrow> string" where
  "authz_as_str AuthzPending = ''pending''"
| "authz_as_str AuthzValid = ''valid''"
| "authz_as_str AuthzInvalid = ''invalid''"
| "authz_as_str AuthzDeactivated = ''deactivated''"
| "authz_as_str AuthzExpired = ''expired''"
| "authz_as_str AuthzRevoked = ''revoked''"

definition authz_from_str :: "string \<Rightarrow> authz_status option" where
  "authz_from_str s =
     (if s = ''pending'' then Some AuthzPending
      else if s = ''valid'' then Some AuthzValid
      else if s = ''invalid'' then Some AuthzInvalid
      else if s = ''deactivated'' then Some AuthzDeactivated
      else if s = ''expired'' then Some AuthzExpired
      else if s = ''revoked'' then Some AuthzRevoked
      else None)"

datatype challenge_status = ChallPending | ChallProcessing | ChallValid | ChallInvalid

fun challenge_as_str :: "challenge_status \<Rightarrow> string" where
  "challenge_as_str ChallPending = ''pending''"
| "challenge_as_str ChallProcessing = ''processing''"
| "challenge_as_str ChallValid = ''valid''"
| "challenge_as_str ChallInvalid = ''invalid''"

definition challenge_from_str :: "string \<Rightarrow> challenge_status option" where
  "challenge_from_str s =
     (if s = ''pending'' then Some ChallPending
      else if s = ''processing'' then Some ChallProcessing
      else if s = ''valid'' then Some ChallValid
      else if s = ''invalid'' then Some ChallInvalid
      else None)"

datatype cert_status = CertValid | CertRevoked

fun cert_as_str :: "cert_status \<Rightarrow> string" where
  "cert_as_str CertValid = ''valid''"
| "cert_as_str CertRevoked = ''revoked''"

definition cert_from_str :: "string \<Rightarrow> cert_status option" where
  "cert_from_str s =
     (if s = ''valid'' then Some CertValid
      else if s = ''revoked'' then Some CertRevoked
      else None)"

section \<open>Round trips\<close>

text \<open>Printing and parsing as a contract: what is printed parses back, and only that parses.\<close>

locale status_codec =
  fixes as_str :: "'s \<Rightarrow> string" and from_str :: "string \<Rightarrow> 's option"
  assumes from_as: "from_str (as_str st) = Some st"
    and as_from: "from_str s = Some st \<Longrightarrow> as_str st = s"
begin

lemma from_str_iff: "from_str s = Some st \<longleftrightarrow> s = as_str st"
  using from_as as_from by blast

lemma as_str_inj: "inj as_str"
  by (rule inj_on_inverseI [where g = "the \<circ> from_str"]) (simp add: from_as)

end

interpretation order_codec: status_codec order_as_str order_from_str
proof unfold_locales
  show "order_from_str (order_as_str st) = Some st" for st by (cases st) (simp_all add: order_from_str_def)
  show "order_as_str st = s" if "order_from_str s = Some st" for s st
    using that by (auto simp: order_from_str_def split: if_splits)
qed

interpretation account_codec: status_codec account_as_str account_from_str
proof unfold_locales
  show "account_from_str (account_as_str st) = Some st" for st by (cases st) (simp_all add: account_from_str_def)
  show "account_as_str st = s" if "account_from_str s = Some st" for s st
    using that by (auto simp: account_from_str_def split: if_splits)
qed

interpretation authz_codec: status_codec authz_as_str authz_from_str
proof unfold_locales
  show "authz_from_str (authz_as_str st) = Some st" for st by (cases st) (simp_all add: authz_from_str_def)
  show "authz_as_str st = s" if "authz_from_str s = Some st" for s st
    using that by (auto simp: authz_from_str_def split: if_splits)
qed

interpretation challenge_codec: status_codec challenge_as_str challenge_from_str
proof unfold_locales
  show "challenge_from_str (challenge_as_str st) = Some st" for st by (cases st) (simp_all add: challenge_from_str_def)
  show "challenge_as_str st = s" if "challenge_from_str s = Some st" for s st
    using that by (auto simp: challenge_from_str_def split: if_splits)
qed

interpretation cert_codec: status_codec cert_as_str cert_from_str
proof unfold_locales
  show "cert_from_str (cert_as_str st) = Some st" for st by (cases st) (simp_all add: cert_from_str_def)
  show "cert_as_str st = s" if "cert_from_str s = Some st" for s st
    using that by (auto simp: cert_from_str_def split: if_splits)
qed

text \<open>Status strings and typed statuses correspond one to one, for orders, accounts,
  authorizations, challenges and certificates: a string parses to a status exactly when it is the
  text that status prints as, and different statuses print differently.\<close>

theorem status_round_trip:
  "(order_from_str s = Some os \<longleftrightarrow> s = order_as_str os)
   \<and> (account_from_str s = Some acs \<longleftrightarrow> s = account_as_str acs)
   \<and> (authz_from_str s = Some azs \<longleftrightarrow> s = authz_as_str azs)
   \<and> (challenge_from_str s = Some hs \<longleftrightarrow> s = challenge_as_str hs)
   \<and> (cert_from_str s = Some cs \<longleftrightarrow> s = cert_as_str cs)
   \<and> inj order_as_str \<and> inj account_as_str \<and> inj authz_as_str \<and> inj challenge_as_str \<and> inj cert_as_str"
  by (simp only: order_codec.from_str_iff account_codec.from_str_iff authz_codec.from_str_iff
      challenge_codec.from_str_iff cert_codec.from_str_iff order_codec.as_str_inj
      account_codec.as_str_inj authz_codec.as_str_inj challenge_codec.as_str_inj
      cert_codec.as_str_inj simp_thms)

end
