(* ===== verification/Acme_Error.thy ===== *)
theory Acme_Error
  imports Akamu_Prelude
begin

text \<open>
  The error type every handler returns (\<^verbatim>\<open>src/error.rs\<close>) with its problem type, HTTP status, title,
  message and the problem document it is rendered to. The check that a nonce is a legal header
  value belongs to the HTTP library and is the parameter \<open>header_ok\<close>.
\<close>

datatype acme_error =
    BadNonce string
  | BadPublicKey string
  | BadSignatureAlgorithm string
  | Unauthorized string
  | AccountDoesNotExist
  | AccountAlreadyExists
  | InvalidContact string
  | UnsupportedContact
  | UserActionRequired string
  | RejectedIdentifier string
  | UnsupportedIdentifier string
  | OrderNotReady
  | CertAlreadyReplaced
  | BadCsr string
  | BadRevocationReason
  | AlreadyRevoked
  | Caa string
  | RateLimited string
  | ExternalAccountRequired
  | Connection string
  | Dns string
  | IncorrectResponse string
  | Tls string
  | InvalidProfile string
  | OnionCaaRequired string
  | AutoRenewalCanceled
  | AutoRenewalCancellationInvalid
  | AutoRenewalExpired
  | AutoRenewalRevocationNotSupported
  | UnknownDelegation
  | NotFound
  | MethodNotAllowed
  | Conflict string
  | UnsupportedMediaType
  | PayloadTooLarge
  | BadRequest string
  | ServiceUnavailable string
  | Database string
  | Journal string
  | Crypto string
  | Builder string
  | Mtc string
  | Config string
  | Dogtag string
  | Internal string

text \<open>\<^verbatim>\<open>Result<T, AcmeError>\<close>.\<close>

type_synonym 'a result = "acme_error + 'a"

text \<open>\<^verbatim>\<open>JoseError\<close> of the JOSE crate, with the third-party parse errors as their messages.\<close>

datatype jose_error =
    JoseBadRequest string
  | JoseCrypto string
  | JoseUnsupportedAlgorithm string
  | JoseBase64 string
  | JoseJson string

fun from_jose_error :: "jose_error \<Rightarrow> acme_error" where
  "from_jose_error (JoseBadRequest msg) = BadRequest msg"
| "from_jose_error (JoseCrypto msg) = Crypto msg"
| "from_jose_error (JoseUnsupportedAlgorithm msg) = BadSignatureAlgorithm msg"
| "from_jose_error (JoseBase64 e) = BadRequest (''base64 error: '' @ e)"
| "from_jose_error (JoseJson e) = BadRequest (''JSON error: '' @ e)"

definition from_sqlx_error :: "string \<Rightarrow> acme_error" where
  "from_sqlx_error e = Database e"

definition acme_urn :: "string \<Rightarrow> string" where
  "acme_urn s = ''urn:ietf:params:acme:error:'' @ s"

definition acme_type :: "acme_error \<Rightarrow> string" where
  "acme_type e = (case e of
       BadNonce _ \<Rightarrow> acme_urn ''badNonce''
     | BadPublicKey _ \<Rightarrow> acme_urn ''badPublicKey''
     | BadSignatureAlgorithm _ \<Rightarrow> acme_urn ''badSignatureAlgorithm''
     | Unauthorized _ \<Rightarrow> acme_urn ''unauthorized''
     | AccountDoesNotExist \<Rightarrow> acme_urn ''accountDoesNotExist''
     | AccountAlreadyExists \<Rightarrow> acme_urn ''accountAlreadyExists''
     | InvalidContact _ \<Rightarrow> acme_urn ''invalidContact''
     | UnsupportedContact \<Rightarrow> acme_urn ''unsupportedContact''
     | UserActionRequired _ \<Rightarrow> acme_urn ''userActionRequired''
     | RejectedIdentifier _ \<Rightarrow> acme_urn ''rejectedIdentifier''
     | UnsupportedIdentifier _ \<Rightarrow> acme_urn ''unsupportedIdentifier''
     | OrderNotReady \<Rightarrow> acme_urn ''orderNotReady''
     | CertAlreadyReplaced \<Rightarrow> acme_urn ''alreadyReplaced''
     | BadCsr _ \<Rightarrow> acme_urn ''badCSR''
     | BadRevocationReason \<Rightarrow> acme_urn ''badRevocationReason''
     | AlreadyRevoked \<Rightarrow> acme_urn ''alreadyRevoked''
     | Caa _ \<Rightarrow> acme_urn ''caa''
     | Connection _ \<Rightarrow> acme_urn ''connection''
     | Dns _ \<Rightarrow> acme_urn ''dns''
     | IncorrectResponse _ \<Rightarrow> acme_urn ''incorrectResponse''
     | Tls _ \<Rightarrow> acme_urn ''tls''
     | RateLimited _ \<Rightarrow> acme_urn ''rateLimited''
     | ExternalAccountRequired \<Rightarrow> acme_urn ''externalAccountRequired''
     | OnionCaaRequired _ \<Rightarrow> acme_urn ''onionCAARequired''
     | AutoRenewalCanceled \<Rightarrow> acme_urn ''autoRenewalCanceled''
     | AutoRenewalExpired \<Rightarrow> acme_urn ''autoRenewalExpired''
     | AutoRenewalCancellationInvalid \<Rightarrow> acme_urn ''autoRenewalCancellationInvalid''
     | AutoRenewalRevocationNotSupported \<Rightarrow> acme_urn ''autoRenewalRevocationNotSupported''
     | UnknownDelegation \<Rightarrow> acme_urn ''unknownDelegation''
     | InvalidProfile _ \<Rightarrow> acme_urn ''invalidProfile''
     | NotFound \<Rightarrow> acme_urn ''malformed''
     | Dogtag _ \<Rightarrow> acme_urn ''serverInternal''
     | _ \<Rightarrow> acme_urn ''serverInternal'')"

definition http_status :: "acme_error \<Rightarrow> nat" where
  "http_status e = (case e of
       BadNonce _ \<Rightarrow> 400
     | BadPublicKey _ \<Rightarrow> 400
     | BadSignatureAlgorithm _ \<Rightarrow> 400
     | Unauthorized _ \<Rightarrow> 401
     | AccountDoesNotExist \<Rightarrow> 400
     | AccountAlreadyExists \<Rightarrow> 409
     | InvalidContact _ \<Rightarrow> 400
     | UnsupportedContact \<Rightarrow> 400
     | UserActionRequired _ \<Rightarrow> 403
     | RejectedIdentifier _ \<Rightarrow> 400
     | UnsupportedIdentifier _ \<Rightarrow> 400
     | OrderNotReady \<Rightarrow> 403
     | CertAlreadyReplaced \<Rightarrow> 409
     | BadCsr _ \<Rightarrow> 400
     | BadRevocationReason \<Rightarrow> 400
     | AlreadyRevoked \<Rightarrow> 400
     | Caa _ \<Rightarrow> 403
     | Connection _ \<Rightarrow> 400
     | Dns _ \<Rightarrow> 400
     | IncorrectResponse _ \<Rightarrow> 400
     | Tls _ \<Rightarrow> 400
     | NotFound \<Rightarrow> 404
     | MethodNotAllowed \<Rightarrow> 405
     | Conflict _ \<Rightarrow> 409
     | UnsupportedMediaType \<Rightarrow> 415
     | PayloadTooLarge \<Rightarrow> 413
     | BadRequest _ \<Rightarrow> 400
     | ServiceUnavailable _ \<Rightarrow> 503
     | Dogtag _ \<Rightarrow> 502
     | RateLimited _ \<Rightarrow> 429
     | ExternalAccountRequired \<Rightarrow> 403
     | OnionCaaRequired _ \<Rightarrow> 403
     | AutoRenewalCanceled \<Rightarrow> 403
     | AutoRenewalExpired \<Rightarrow> 403
     | AutoRenewalCancellationInvalid \<Rightarrow> 400
     | AutoRenewalRevocationNotSupported \<Rightarrow> 403
     | UnknownDelegation \<Rightarrow> 403
     | InvalidProfile _ \<Rightarrow> 400
     | _ \<Rightarrow> 500)"

definition error_title :: "acme_error \<Rightarrow> string" where
  "error_title e = (case e of
       BadNonce _ \<Rightarrow> ''Bad Nonce''
     | BadPublicKey _ \<Rightarrow> ''Bad Public Key''
     | BadSignatureAlgorithm _ \<Rightarrow> ''Bad Signature Algorithm''
     | Unauthorized _ \<Rightarrow> ''Unauthorized''
     | AccountDoesNotExist \<Rightarrow> ''Account Does Not Exist''
     | AccountAlreadyExists \<Rightarrow> ''Account Already Exists''
     | InvalidContact _ \<Rightarrow> ''Invalid Contact''
     | UnsupportedContact \<Rightarrow> ''Unsupported Contact''
     | UserActionRequired _ \<Rightarrow> ''User Action Required''
     | RejectedIdentifier _ \<Rightarrow> ''Rejected Identifier''
     | UnsupportedIdentifier _ \<Rightarrow> ''Unsupported Identifier''
     | OrderNotReady \<Rightarrow> ''Order Not Ready''
     | CertAlreadyReplaced \<Rightarrow> ''Certificate Already Replaced''
     | BadCsr _ \<Rightarrow> ''Bad CSR''
     | BadRevocationReason \<Rightarrow> ''Bad Revocation Reason''
     | AlreadyRevoked \<Rightarrow> ''Already Revoked''
     | Caa _ \<Rightarrow> ''CAA Policy Forbids Issuance''
     | Connection _ \<Rightarrow> ''Connection Error''
     | Dns _ \<Rightarrow> ''DNS Error''
     | IncorrectResponse _ \<Rightarrow> ''Incorrect Response''
     | Tls _ \<Rightarrow> ''TLS Error''
     | RateLimited _ \<Rightarrow> ''Rate Limited''
     | ExternalAccountRequired \<Rightarrow> ''External Account Required''
     | OnionCaaRequired _ \<Rightarrow> ''Onion CAA Required''
     | AutoRenewalCanceled \<Rightarrow> ''Auto-Renewal Canceled''
     | AutoRenewalExpired \<Rightarrow> ''Auto-Renewal Expired''
     | AutoRenewalCancellationInvalid \<Rightarrow> ''Auto-Renewal Cancellation Invalid''
     | AutoRenewalRevocationNotSupported \<Rightarrow> ''Auto-Renewal Revocation Not Supported''
     | UnknownDelegation \<Rightarrow> ''Unknown Delegation''
     | InvalidProfile _ \<Rightarrow> ''Invalid Profile''
     | NotFound \<Rightarrow> ''Not Found''
     | MethodNotAllowed \<Rightarrow> ''Method Not Allowed''
     | Conflict _ \<Rightarrow> ''Conflict''
     | UnsupportedMediaType \<Rightarrow> ''Unsupported Media Type''
     | PayloadTooLarge \<Rightarrow> ''Payload Too Large''
     | BadRequest _ \<Rightarrow> ''Bad Request''
     | ServiceUnavailable _ \<Rightarrow> ''Service Unavailable''
     | _ \<Rightarrow> ''Server Internal Error'')"

text \<open>\<^verbatim>\<open>Display\<close>, from the messages of the enum.\<close>

primrec error_message :: "acme_error \<Rightarrow> string" where
  "error_message (BadNonce e) = ''bad nonce''"
| "error_message (BadPublicKey e) = ''bad public key: '' @ e"
| "error_message (BadSignatureAlgorithm e) = ''bad signature algorithm: '' @ e"
| "error_message (Unauthorized e) = ''unauthorized: '' @ e"
| "error_message AccountDoesNotExist = ''account does not exist''"
| "error_message AccountAlreadyExists = ''account already exists''"
| "error_message (InvalidContact e) = ''invalid contact: '' @ e"
| "error_message UnsupportedContact = ''unsupported contact''"
| "error_message (UserActionRequired e) = ''user action required: '' @ e"
| "error_message (RejectedIdentifier e) = ''rejected identifier: '' @ e"
| "error_message (UnsupportedIdentifier e) = ''unsupported identifier: '' @ e"
| "error_message OrderNotReady = ''order not ready''"
| "error_message CertAlreadyReplaced = ''certificate has already been replaced''"
| "error_message (BadCsr e) = ''bad CSR: '' @ e"
| "error_message BadRevocationReason = ''bad revocation reason''"
| "error_message AlreadyRevoked = ''certificate revoked''"
| "error_message (Caa e) = ''CAA check failed: '' @ e"
| "error_message (RateLimited e) = ''rate limited: '' @ e"
| "error_message ExternalAccountRequired = ''external account binding required''"
| "error_message (Connection e) = ''connection error during challenge: '' @ e"
| "error_message (Dns e) = ''DNS error: '' @ e"
| "error_message (IncorrectResponse e) = ''incorrect response during challenge: '' @ e"
| "error_message (Tls e) = ''TLS error: '' @ e"
| "error_message (InvalidProfile e) = ''invalid profile: '' @ e"
| "error_message (OnionCaaRequired e) = ''onion CAA check required: '' @ e"
| "error_message AutoRenewalCanceled = ''auto-renewal has been canceled''"
| "error_message AutoRenewalCancellationInvalid = ''auto-renewal cancellation invalid: order not in valid state''"
| "error_message AutoRenewalExpired = ''auto-renewal has expired''"
| "error_message AutoRenewalRevocationNotSupported = ''auto-renewal certificates cannot be revoked''"
| "error_message UnknownDelegation = ''unknown delegation''"
| "error_message NotFound = ''not found''"
| "error_message MethodNotAllowed = ''method not allowed''"
| "error_message (Conflict e) = ''conflict: '' @ e"
| "error_message UnsupportedMediaType = ''unsupported media type''"
| "error_message PayloadTooLarge = ''request entity too large''"
| "error_message (BadRequest e) = ''bad request: '' @ e"
| "error_message (ServiceUnavailable e) = ''service unavailable: '' @ e"
| "error_message (Database e) = ''database error: '' @ e"
| "error_message (Journal e) = ''journal error: '' @ e"
| "error_message (Crypto e) = ''crypto error: '' @ e"
| "error_message (Builder e) = ''certificate builder error: '' @ e"
| "error_message (Mtc e) = ''MTC error: '' @ e"
| "error_message (Config e) = ''configuration error: '' @ e"
| "error_message (Dogtag e) = ''Dogtag CA error: '' @ e"
| "error_message (Internal e) = ''internal server error: '' @ e"

record problem_response =
  resp_status :: nat
  resp_content_type :: string
  resp_type :: string
  resp_title :: string
  resp_body_status :: nat
  resp_detail :: string
  resp_replay_nonce :: "string option"

definition is_server_error :: "nat \<Rightarrow> bool" where
  "is_server_error st \<longleftrightarrow> 500 \<le> st \<and> st < 600"

definition into_response :: "(string \<Rightarrow> bool) \<Rightarrow> acme_error \<Rightarrow> problem_response" where
  "into_response header_ok e =
     (let status = http_status e;
          fresh_nonce = (case e of BadNonce n \<Rightarrow> Some n | _ \<Rightarrow> None);
          detail = (if is_server_error status then ''internal server error'' else error_message e)
      in \<lparr>resp_status = status,
          resp_content_type = ''application/problem+json'',
          resp_type = acme_type e,
          resp_title = error_title e,
          resp_body_status = status,
          resp_detail = detail,
          resp_replay_nonce =
            (case fresh_nonce of
               None \<Rightarrow> None
             | Some nonce \<Rightarrow> if nonce \<noteq> [] \<and> header_ok nonce then Some nonce else None)\<rparr>)"

section \<open>Properties\<close>

text \<open>The errors whose cause is inside the server; their messages may carry internal detail.\<close>

definition internal_error :: "acme_error \<Rightarrow> bool" where
  "internal_error e = (case e of
       ServiceUnavailable _ \<Rightarrow> True
     | Database _ \<Rightarrow> True
     | Journal _ \<Rightarrow> True
     | Crypto _ \<Rightarrow> True
     | Builder _ \<Rightarrow> True
     | Mtc _ \<Rightarrow> True
     | Config _ \<Rightarrow> True
     | Dogtag _ \<Rightarrow> True
     | Internal _ \<Rightarrow> True
     | _ \<Rightarrow> False)"

lemma http_status_range: "400 \<le> http_status e \<and> http_status e < 600"
  by (cases e) (simp_all add: http_status_def)

lemma server_error_iff: "is_server_error (http_status e) \<longleftrightarrow> internal_error e"
  by (cases e) (simp_all add: is_server_error_def http_status_def internal_error_def)

text \<open>No internal detail leaks. A problem document either belongs to a client-side error and
  carries its message, or belongs to a server-side one (database, crypto, CA back end, and so on)
  and then its detail is the fixed text, the same for every message. A fresh nonce is sent exactly
  with a bad-nonce error that has one.\<close>

theorem internal_detail_hidden:
  "resp_status (into_response header_ok e) = resp_body_status (into_response header_ok e)
   \<and> 400 \<le> resp_status (into_response header_ok e)
   \<and> (resp_replay_nonce (into_response header_ok e) = Some n
        \<longleftrightarrow> e = BadNonce n \<and> n \<noteq> [] \<and> header_ok n)
   \<and> (if internal_error e
      then resp_status (into_response header_ok e) \<ge> 500
        \<and> resp_detail (into_response header_ok e) = ''internal server error''
      else resp_status (into_response header_ok e) < 500
        \<and> resp_detail (into_response header_ok e) = error_message e)"
  by (cases e) (auto simp: into_response_def is_server_error_def http_status_def internal_error_def)

end
