(* ===== verification/Db_Model.thy ===== *)
theory Db_Model
  imports Status Acme_Error "HOL-Library.Word"
begin

text \<open>
  The database as the access layer under \<^verbatim>\<open>src/db\<close> sees it: the row types of \<^verbatim>\<open>schema.rs\<close> and
  \<^verbatim>\<open>eab.rs\<close>, one table per row type as the list of its rows in scan order, and the statements the layer
  issues on them. A statement that violates a constraint of \<^verbatim>\<open>migrations/sqlite/0001_initial.sql\<close>
  (primary key, unique, foreign key, status check) fails and changes nothing; the text of such an
  error comes from the database driver and is the parameter \<open>msg\<close>. The column \<^verbatim>\<open>local_gen\<close> and the
  indexes of the schema, which this layer does not read, are left out.
\<close>

section \<open>Row types\<close>

type_synonym bytes = "8 word list"

record account_row =
  acc_id :: string
  acc_status :: string
  acc_contact :: "string option"
  acc_public_key :: bytes
  acc_jwk_thumbprint :: string
  acc_created :: i64
  acc_updated :: i64
  acc_profile_grants :: "string option"
  acc_ca_id :: string
  acc_kerberos_principal :: "string option"

record order_row =
  ord_id :: string
  ord_account_id :: string
  ord_status :: string
  ord_expires :: "i64 option"
  ord_identifiers :: string
  ord_not_before :: "i64 option"
  ord_not_after :: "i64 option"
  ord_error :: "string option"
  ord_certificate_id :: "string option"
  ord_replaces :: "string option"
  ord_created :: i64
  ord_updated :: i64
  ord_star_start_date :: "i64 option"
  ord_star_end_date :: "i64 option"
  ord_star_lifetime_secs :: "i64 option"
  ord_star_lifetime_adjust_secs :: i64
  ord_star_allow_cert_get :: i64
  ord_star_canceled_at :: "i64 option"
  ord_star_csr_der :: "bytes option"
  ord_profile :: "string option"
  ord_ca_id :: string
  ord_delegation_id :: "string option"
  ord_allow_cert_get :: i64
  ord_upstream_order_url :: "string option"
  ord_upstream_cert_url :: "string option"

record authorization_row =
  az_id :: string
  az_order_id :: string
  az_account_id :: string
  az_status :: string
  az_identifier :: string
  az_expires :: "i64 option"
  az_wildcard :: i64
  az_subdomain_auth_allowed :: i64
  az_created :: i64
  az_updated :: i64
  az_ca_id :: string

text \<open>A row of the table: \<^verbatim>\<open>order_id\<close> is nullable there (a standalone pre-authorization).\<close>

record authz_rec =
  azt_order_id :: "string option"
  azt_row :: authorization_row   \<comment> \<open>the other columns; its \<open>az_order_id\<close> is not a column\<close>

record challenge_row =
  ch_id :: string
  ch_authz_id :: string
  ch_type :: string
  ch_status :: string
  ch_token :: string
  ch_validated :: "i64 option"
  ch_error :: "string option"
  ch_created :: i64
  ch_updated :: i64
  ch_email_token_part1 :: "string option"
  ch_email_message_id :: "string option"
  ch_tkauth_type :: "string option"
  ch_token_authority :: "string option"

record certificate_row =
  crt_id :: string
  crt_order_id :: string
  crt_account_id :: string
  crt_serial_number :: string
  crt_status :: string
  crt_der :: bytes
  crt_pem :: string
  crt_not_before :: i64
  crt_not_after :: i64
  crt_revoked_at :: "i64 option"
  crt_revocation_reason :: "i64 option"
  crt_mtc_log_index :: "i64 option"
  crt_created :: i64
  crt_suggested_window_start :: "i64 option"
  crt_suggested_window_end :: "i64 option"
  crt_replaced_by :: "string option"
  crt_subject_dn :: "string option"
  crt_ca_id :: string

text \<open>A row of the table, with the column \<^verbatim>\<open>mtc_standalone_der\<close> that the struct leaves out.\<close>

record cert_rec = certificate_row +
  crt_mtc_standalone_der :: "bytes option"

record cert_for_standalone =
  cfs_id :: string
  cfs_der :: bytes
  cfs_mtc_log_index :: i64

record crl_entry =
  crl_serial_number :: string
  crl_revoked_at :: "i64 option"
  crl_revocation_reason :: "i64 option"

record eab_key_row =
  eab_kid :: string
  eab_hmac_key_b64u :: string
  eab_created :: i64
  eab_used_at :: "i64 option"
  eab_profile_grants :: "string option"
  eab_created_by_operator_id :: "i64 option"
  eab_bound_principal :: "string option"
  eab_alg :: string

record delegation_row =
  dlg_id :: string
  dlg_account_id :: string
  dlg_csr_template :: string
  dlg_cname_map :: "string option"
  dlg_created :: i64
  dlg_updated :: i64

record nonce_row =
  nonce_value :: string
  nonce_created :: i64

record db =
  db_accounts :: "account_row list"
  db_orders :: "order_row list"
  db_authzs :: "authz_rec list"
  db_challenges :: "challenge_row list"
  db_certs :: "cert_rec list"
  db_eab_keys :: "eab_key_row list"
  db_delegations :: "delegation_row list"
  db_nonces :: "nonce_row list"

section \<open>Statements\<close>

text \<open>
  A database operation maps the database to a result and a database; a statement that fails
  leaves the database as it is, the \<^verbatim>\<open>?\<close> operator stops a sequence of statements at the first error
  (and keeps what was done before it), and a transaction keeps nothing of a failed body.
\<close>

type_synonym 'a db_op = "db \<Rightarrow> 'a result \<times> db"

definition db_ok :: "'a \<Rightarrow> 'a db_op" where
  "db_ok x d = (Inr x, d)"

definition db_err :: "acme_error \<Rightarrow> 'a db_op" where
  "db_err e d = (Inl e, d)"

definition db_then :: "'a db_op \<Rightarrow> ('a \<Rightarrow> 'b db_op) \<Rightarrow> 'b db_op" where
  "db_then m f d = (case m d of (Inl e, d') \<Rightarrow> (Inl e, d') | (Inr x, d') \<Rightarrow> f x d')"

definition db_tx :: "'a db_op \<Rightarrow> 'a db_op" where
  "db_tx m d = (case m d of (Inl e, _) \<Rightarrow> (Inl e, d) | (Inr x, d') \<Rightarrow> (Inr x, d'))"

text \<open>\<^verbatim>\<open>UPDATE ... SET f WHERE p\<close> and the number of affected rows; \<^verbatim>\<open>ORDER BY ... LIMIT ... OFFSET\<close>.\<close>

definition upd_where :: "('r \<Rightarrow> bool) \<Rightarrow> ('r \<Rightarrow> 'r) \<Rightarrow> 'r list \<Rightarrow> 'r list" where
  "upd_where p f rows = map (\<lambda>r. if p r then f r else r) rows"

definition affected :: "('r \<Rightarrow> bool) \<Rightarrow> 'r list \<Rightarrow> nat" where
  "affected p rows = length (filter p rows)"

definition sql_page :: "i64 \<Rightarrow> i64 \<Rightarrow> 'r list \<Rightarrow> 'r list" where
  "sql_page limit offset rows =
     (let rest = drop (nat offset) rows in if limit < 0 then rest else take (nat limit) rest)"

definition order_by_desc :: "('r \<Rightarrow> i64) \<Rightarrow> 'r list \<Rightarrow> 'r list" where
  "order_by_desc key rows = sort_key (\<lambda>r. - key r) rows"

text \<open>An optional filter \<^verbatim>\<open>AND column = ?\<close>.\<close>

definition opt_eq :: "'a option \<Rightarrow> 'a \<Rightarrow> bool" where
  "opt_eq f x = (case f of None \<Rightarrow> True | Some y \<Rightarrow> x = y)"

section \<open>Constraints\<close>

datatype sql_fault = CheckFailed | UniqueFailed | ForeignKeyFailed | UnexpectedNull | RowNotFound | BeginFailed | CommitFailed

type_synonym sql_texts = "sql_fault \<Rightarrow> string"

definition sql_insert ::
  "sql_texts \<Rightarrow> bool \<Rightarrow> bool \<Rightarrow> bool \<Rightarrow> (db \<Rightarrow> db) \<Rightarrow> unit db_op" where
  "sql_insert msg check uniq fk f d =
     (if \<not> check then (Inl (from_sqlx_error (msg CheckFailed)), d)
      else if \<not> uniq then (Inl (from_sqlx_error (msg UniqueFailed)), d)
      else if \<not> fk then (Inl (from_sqlx_error (msg ForeignKeyFailed)), d)
      else (Inr (), f d))"

definition account_exists :: "db \<Rightarrow> string \<Rightarrow> bool" where
  "account_exists d i \<longleftrightarrow> i \<in> set (map acc_id (db_accounts d))"

definition order_exists :: "db \<Rightarrow> string \<Rightarrow> bool" where
  "order_exists d i \<longleftrightarrow> i \<in> set (map ord_id (db_orders d))"

definition authz_exists :: "db \<Rightarrow> string \<Rightarrow> bool" where
  "authz_exists d i \<longleftrightarrow> i \<in> set (map (az_id \<circ> azt_row) (db_authzs d))"

definition delegation_exists :: "db \<Rightarrow> string \<Rightarrow> bool" where
  "delegation_exists d i \<longleftrightarrow> i \<in> set (map dlg_id (db_delegations d))"

text \<open>A nullable foreign key.\<close>

definition opt_ref :: "(string \<Rightarrow> bool) \<Rightarrow> string option \<Rightarrow> bool" where
  "opt_ref P k = (case k of None \<Rightarrow> True | Some i \<Rightarrow> P i)"

section \<open>Laws of the statement combinators\<close>

lemma db_then_simps [simp]:
  "db_then (db_ok x) f = f x" "db_then (db_err e) f = db_err e" "db_then m db_ok = m"
  by (auto simp: db_then_def db_ok_def db_err_def fun_eq_iff split: prod.splits sum.splits)

lemma db_then_assoc: "db_then (db_then m f) h = db_then m (\<lambda>x. db_then (f x) h)"
  by (auto simp: db_then_def fun_eq_iff split: prod.splits sum.splits)

lemma db_tx_idem [simp]: "db_tx (db_tx m) = db_tx m"
  by (auto simp: db_tx_def fun_eq_iff split: prod.splits sum.splits)

lemma db_tx_error: "db_tx m d = (Inl e, d') \<Longrightarrow> d' = d"
  by (auto simp: db_tx_def split: prod.splits sum.splits)

lemma db_tx_ok: "db_tx m d = (Inr x, d') \<longleftrightarrow> m d = (Inr x, d')"
  by (auto simp: db_tx_def split: prod.splits sum.splits)

lemma upd_where_map:
  "(\<And>r. key (f r) = key r) \<Longrightarrow> map key (upd_where p f rows) = map key rows"
  by (simp add: upd_where_def)

lemma ball_upd_where:
  "(\<forall>r \<in> set (upd_where p f rows). Q r) \<longleftrightarrow> (\<forall>x \<in> set rows. if p x then Q (f x) else Q x)"
  unfolding upd_where_def set_map ball_simps by (rule ball_cong) auto

lemma affected_0_iff: "affected p rows = 0 \<longleftrightarrow> (\<forall>r \<in> set rows. \<not> p r)"
  by (auto simp: affected_def filter_empty_conv)

lemma upd_where_id: "affected p rows = 0 \<Longrightarrow> upd_where p f rows = rows"
  by (auto simp: affected_0_iff upd_where_def intro: map_idI)

lemma affected_key_le_1:
  assumes "distinct (map key rows)" and "\<And>r. p r \<Longrightarrow> key r = k"
  shows "affected p rows \<le> 1"
proof -
  have "distinct (map key (filter p rows))" using assms(1) by (rule distinct_map_filter)
  moreover have "set (map key (filter p rows)) \<subseteq> {k}" using assms(2) by auto
  ultimately show ?thesis
    unfolding affected_def by (metis card.empty card_insert_le_m1 card_mono distinct_card
        empty_not_insert finite.emptyI finite_insert is_singletonI is_singleton_altdef length_map)
qed

section \<open>Reading back what a statement wrote\<close>

lemma find_map_key:
  "(\<And>r. key (f r) = key r) \<Longrightarrow> find (\<lambda>r. key r = k) (map f rows) = map_option f (find (\<lambda>r. key r = k) rows)"
  by (induction rows) auto

lemma find_upd_where:
  "(\<And>r. key (f r) = key r) \<Longrightarrow>
     find (\<lambda>r. key r = k) (upd_where p f rows) = map_option (\<lambda>r. if p r then f r else r) (find (\<lambda>r. key r = k) rows)"
  unfolding upd_where_def by (rule find_map_key) simp

lemma in_upd_where: "r \<in> set rows \<Longrightarrow> p r \<Longrightarrow> f r \<in> set (upd_where p f rows)"
  by (force simp: upd_where_def)

lemma find_append: "find p (xs @ ys) = (case find p xs of None \<Rightarrow> find p ys | Some x \<Rightarrow> Some x)"
  by (induction xs) auto

lemma find_key_unique:
  assumes "distinct (map key rows)" and "r \<in> set rows"
  shows "find (\<lambda>x. key x = key r) rows = Some r"
  using assms by (induction rows) auto

lemma find_fresh: "k \<notin> set (map key rows) \<Longrightarrow> find (\<lambda>r. key r = k) rows = None"
  by (induction rows) auto

section \<open>Sample rows\<close>

text \<open>Concrete rows for the examples of the later theories.\<close>

definition empty_db :: db where
  "empty_db = \<lparr>db_accounts = [], db_orders = [], db_authzs = [], db_challenges = [], db_certs = [],
     db_eab_keys = [], db_delegations = [], db_nonces = []\<rparr>"

definition sample_account :: "string \<Rightarrow> account_row" where
  "sample_account i = \<lparr>acc_id = i, acc_status = ''valid'', acc_contact = None, acc_public_key = [],
     acc_jwk_thumbprint = i, acc_created = 1, acc_updated = 1, acc_profile_grants = None,
     acc_ca_id = [], acc_kerberos_principal = None\<rparr>"

definition sample_order_row :: "string \<Rightarrow> string \<Rightarrow> order_row" where
  "sample_order_row i st = \<lparr>ord_id = i, ord_account_id = ''a1'', ord_status = st, ord_expires = None,
     ord_identifiers = ''[]'', ord_not_before = None, ord_not_after = None, ord_error = None,
     ord_certificate_id = None, ord_replaces = None, ord_created = 1, ord_updated = 1,
     ord_star_start_date = None, ord_star_end_date = None, ord_star_lifetime_secs = None,
     ord_star_lifetime_adjust_secs = 0, ord_star_allow_cert_get = 0, ord_star_canceled_at = None,
     ord_star_csr_der = None, ord_profile = None, ord_ca_id = ''default'', ord_delegation_id = None,
     ord_allow_cert_get = 0, ord_upstream_order_url = None, ord_upstream_cert_url = None\<rparr>"

definition sample_authz :: "string \<Rightarrow> string \<Rightarrow> string \<Rightarrow> authorization_row" where
  "sample_authz i oid st = \<lparr>az_id = i, az_order_id = oid, az_account_id = ''a1'', az_status = st,
     az_identifier = ''x'', az_expires = None, az_wildcard = 0, az_subdomain_auth_allowed = 0,
     az_created = 1, az_updated = 1, az_ca_id = ''default''\<rparr>"

definition sample_challenge :: "string \<Rightarrow> string \<Rightarrow> string \<Rightarrow> challenge_row" where
  "sample_challenge i aid st = \<lparr>ch_id = i, ch_authz_id = aid, ch_type = ''http-01'', ch_status = st,
     ch_token = ''t'', ch_validated = None, ch_error = None, ch_created = 1, ch_updated = 1,
     ch_email_token_part1 = None, ch_email_message_id = None, ch_tkauth_type = None,
     ch_token_authority = None\<rparr>"

definition sample_cert :: "string \<Rightarrow> string \<Rightarrow> certificate_row" where
  "sample_cert i oid = \<lparr>crt_id = i, crt_order_id = oid, crt_account_id = ''a1'', crt_serial_number = i,
     crt_status = ''valid'', crt_der = [], crt_pem = [], crt_not_before = 1, crt_not_after = 9,
     crt_revoked_at = None, crt_revocation_reason = None, crt_mtc_log_index = None, crt_created = 1,
     crt_suggested_window_start = None, crt_suggested_window_end = None, crt_replaced_by = None,
     crt_subject_dn = None, crt_ca_id = ''default''\<rparr>"

lemmas sample_defs =
  empty_db_def sample_account_def sample_order_row_def sample_authz_def sample_challenge_def
  sample_cert_def

end
