(* ===== verification/Db_Orders.thy ===== *)
theory Db_Orders
  imports Db_Model
begin

text \<open>The operations on the table of orders (\<^verbatim>\<open>src/db/orders.rs\<close>), one definition per function.\<close>

section \<open>Operations\<close>

definition orders_insert :: "sql_texts \<Rightarrow> order_row \<Rightarrow> unit db_op" where
  "orders_insert msg row d =
     sql_insert msg
       (order_from_str (ord_status row) \<noteq> None)
       (\<not> order_exists d (ord_id row))
       (account_exists d (ord_account_id row) \<and>
        opt_ref (delegation_exists d) (ord_delegation_id row))
       (\<lambda>d. d\<lparr>db_orders := db_orders d @ [row]\<rparr>) d"

definition orders_cancel_star :: "string \<Rightarrow> i64 \<Rightarrow> unit db_op" where
  "orders_cancel_star oid now d =
     (Inr (), d\<lparr>db_orders := upd_where (\<lambda>r. ord_id r = oid \<and> ord_star_canceled_at r = None)
                  (\<lambda>r. r\<lparr>ord_star_canceled_at := Some now, ord_updated := now\<rparr>) (db_orders d)\<rparr>)"

definition orders_list_active_star :: "order_row list db_op" where
  "orders_list_active_star d =
     (Inr (filter (\<lambda>r. ord_star_end_date r \<noteq> None \<and> ord_star_canceled_at r = None
                     \<and> ord_status r = ''valid'') (db_orders d)), d)"

definition orders_set_star_csr :: "string \<Rightarrow> bytes \<Rightarrow> unit db_op" where
  "orders_set_star_csr oid csr_der d =
     (let p = (\<lambda>r. ord_id r = oid);
          d' = d\<lparr>db_orders := upd_where p (\<lambda>r. r\<lparr>ord_star_csr_der := Some csr_der\<rparr>) (db_orders d)\<rparr>
      in if affected p (db_orders d) = 0 then (Inl NotFound, d') else (Inr (), d'))"

definition orders_get_by_id :: "string \<Rightarrow> order_row option db_op" where
  "orders_get_by_id oid d = (Inr (find (\<lambda>r. ord_id r = oid) (db_orders d)), d)"

definition orders_update_status ::
  "string \<Rightarrow> order_status \<Rightarrow> string option \<Rightarrow> i64 \<Rightarrow> unit db_op" where
  "orders_update_status oid status error now d =
     (let p = (\<lambda>r. ord_id r = oid);
          d' = d\<lparr>db_orders := upd_where p (\<lambda>r. r\<lparr>ord_status := order_as_str status,
                   ord_error := error, ord_updated := now\<rparr>) (db_orders d)\<rparr>
      in if affected p (db_orders d) = 0 then (Inl NotFound, d') else (Inr (), d'))"

definition orders_set_certificate :: "string \<Rightarrow> string \<Rightarrow> i64 \<Rightarrow> unit db_op" where
  "orders_set_certificate oid certificate_id now d =
     (let p = (\<lambda>r. ord_id r = oid \<and> ord_status r = ''ready'');
          d' = d\<lparr>db_orders := upd_where p (\<lambda>r. r\<lparr>ord_status := ''valid'',
                   ord_certificate_id := Some certificate_id, ord_updated := now\<rparr>) (db_orders d)\<rparr>
      in if affected p (db_orders d) = 0
         then (Inl (Conflict ''order already finalized''), d') else (Inr (), d'))"

definition orders_set_processing_with_csr_der :: "string \<Rightarrow> bytes \<Rightarrow> i64 \<Rightarrow> unit db_op" where
  "orders_set_processing_with_csr_der oid csr_der now d =
     (let p = (\<lambda>r. ord_id r = oid \<and> ord_status r = ''ready'');
          d' = d\<lparr>db_orders := upd_where p (\<lambda>r. r\<lparr>ord_status := ''processing'',
                   ord_star_csr_der := Some csr_der, ord_updated := now\<rparr>) (db_orders d)\<rparr>
      in if affected p (db_orders d) = 0
         then (Inl (Conflict ''order already advanced past ready''), d') else (Inr (), d'))"

definition orders_set_status_processing :: "string \<Rightarrow> i64 \<Rightarrow> unit db_op" where
  "orders_set_status_processing oid now d =
     (let p = (\<lambda>r. ord_id r = oid \<and> ord_status r = ''ready'');
          d' = d\<lparr>db_orders := upd_where p (\<lambda>r. r\<lparr>ord_status := ''processing'',
                   ord_updated := now\<rparr>) (db_orders d)\<rparr>
      in if affected p (db_orders d) = 0
         then (Inl (Conflict ''order already advanced past ready''), d') else (Inr (), d'))"

definition orders_set_valid_with_certificate :: "string \<Rightarrow> string \<Rightarrow> i64 \<Rightarrow> unit db_op" where
  "orders_set_valid_with_certificate oid certificate_id now d =
     (let p = (\<lambda>r. ord_id r = oid \<and> ord_status r = ''processing'');
          d' = d\<lparr>db_orders := upd_where p (\<lambda>r. r\<lparr>ord_status := ''valid'',
                   ord_certificate_id := Some certificate_id, ord_updated := now\<rparr>) (db_orders d)\<rparr>
      in if affected p (db_orders d) = 0
         then (Inl (Conflict ''order not in processing state''), d') else (Inr (), d'))"

definition orders_update_star_certificate :: "string \<Rightarrow> string \<Rightarrow> i64 \<Rightarrow> bool db_op" where
  "orders_update_star_certificate oid certificate_id now d =
     (let p = (\<lambda>r. ord_id r = oid \<and> ord_star_canceled_at r = None)
      in (Inr (affected p (db_orders d) > 0),
          d\<lparr>db_orders := upd_where p (\<lambda>r. r\<lparr>ord_certificate_id := Some certificate_id,
              ord_updated := now\<rparr>) (db_orders d)\<rparr>))"

text \<open>
  The left join: one result row per authorization of the order, ordered by its id, or one row
  without an authorization. The order is read off the first row.
\<close>

definition order_authz_rows :: "string \<Rightarrow> db \<Rightarrow> (order_row \<times> string option) list" where
  "order_authz_rows order_id d =
     concat (map (\<lambda>r. case sort (map (az_id \<circ> azt_row)
                                (filter (\<lambda>a. azt_order_id a = Some (ord_id r)) (db_authzs d))) of
                        [] \<Rightarrow> [(r, None)]
                      | ids \<Rightarrow> map (\<lambda>i. (r, Some i)) ids)
            (filter (\<lambda>r. ord_id r = order_id) (db_orders d)))"

definition orders_get_with_authz_ids :: "string \<Rightarrow> (order_row \<times> string list) option db_op" where
  "orders_get_with_authz_ids order_id d =
     (case order_authz_rows order_id d of
        [] \<Rightarrow> (Inr None, d)
      | (first, i) # rest \<Rightarrow>
          (Inr (Some (first, List.map_filter snd ((first, i) # rest))), d))"

definition order_filter :: "string option \<Rightarrow> string option \<Rightarrow> string option \<Rightarrow> order_row \<Rightarrow> bool" where
  "order_filter account_id status ca_id r \<longleftrightarrow>
     opt_eq account_id (ord_account_id r) \<and> opt_eq status (ord_status r) \<and> opt_eq ca_id (ord_ca_id r)"

definition orders_list ::
  "string option \<Rightarrow> string option \<Rightarrow> string option \<Rightarrow> i64 \<Rightarrow> i64 \<Rightarrow> order_row list db_op" where
  "orders_list account_id status ca_id limit offset d =
     (Inr (sql_page limit offset
             (order_by_desc ord_created (filter (order_filter account_id status ca_id) (db_orders d)))), d)"

definition orders_set_delegation ::
  "sql_texts \<Rightarrow> string \<Rightarrow> string \<Rightarrow> i64 \<Rightarrow> i64 \<Rightarrow> unit db_op" where
  "orders_set_delegation msg oid delegation_id allow_cert_get now d =
     (let p = (\<lambda>r. ord_id r = oid);
          d' = d\<lparr>db_orders := upd_where p (\<lambda>r. r\<lparr>ord_delegation_id := Some delegation_id,
                   ord_allow_cert_get := allow_cert_get, ord_updated := now\<rparr>) (db_orders d)\<rparr>
      in if affected p (db_orders d) = 0 then (Inl NotFound, d')
         else if \<not> delegation_exists d delegation_id
         then (Inl (from_sqlx_error (msg ForeignKeyFailed)), d)
         else (Inr (), d'))"

definition orders_set_upstream_order_url :: "string \<Rightarrow> string \<Rightarrow> i64 \<Rightarrow> unit db_op" where
  "orders_set_upstream_order_url oid url now d =
     (let p = (\<lambda>r. ord_id r = oid);
          d' = d\<lparr>db_orders := upd_where p (\<lambda>r. r\<lparr>ord_upstream_order_url := Some url,
                   ord_updated := now\<rparr>) (db_orders d)\<rparr>
      in if affected p (db_orders d) = 0 then (Inl NotFound, d') else (Inr (), d'))"

definition orders_set_upstream_cert_url :: "string \<Rightarrow> string \<Rightarrow> i64 \<Rightarrow> unit db_op" where
  "orders_set_upstream_cert_url oid url now d =
     (let p = (\<lambda>r. ord_id r = oid);
          d' = d\<lparr>db_orders := upd_where p (\<lambda>r. r\<lparr>ord_upstream_cert_url := Some url,
                   ord_updated := now\<rparr>) (db_orders d)\<rparr>
      in if affected p (db_orders d) = 0 then (Inl NotFound, d') else (Inr (), d'))"

definition orders_list_pending_delegation_orders :: "order_row list db_op" where
  "orders_list_pending_delegation_orders d =
     (Inr (take 200 (filter (\<lambda>r. ord_delegation_id r \<noteq> None \<and> ord_status r = ''processing''
                               \<and> ord_upstream_cert_url r = None) (db_orders d))), d)"

definition orders_list_authz_ids :: "string \<Rightarrow> string list db_op" where
  "orders_list_authz_ids order_id d =
     (Inr (map (az_id \<circ> azt_row) (filter (\<lambda>a. azt_order_id a = Some order_id) (db_authzs d))), d)"

definition orders_count_list ::
  "string option \<Rightarrow> string option \<Rightarrow> string option \<Rightarrow> i64 db_op" where
  "orders_count_list account_id status ca_id d =
     (Inr (int (length (filter (order_filter account_id status ca_id) (db_orders d)))), d)"

lemmas orders_defs [db_defs] =
  orders_insert_def orders_cancel_star_def orders_set_star_csr_def orders_update_status_def
  orders_set_certificate_def orders_set_processing_with_csr_der_def orders_set_status_processing_def
  orders_set_valid_with_certificate_def orders_update_star_certificate_def orders_set_delegation_def
  orders_set_upstream_order_url_def orders_set_upstream_cert_url_def

end
