(* ===== verification/Db_Authz.thy ===== *)
theory Db_Authz
  imports Db_Model
begin

text \<open>
  The operations on the tables of authorizations and challenges (\<^verbatim>\<open>src/db/authz.rs\<close>,
  \<^verbatim>\<open>src/db/challenges.rs\<close>). The JSON text of an identifier is produced by the JSON library and is the
  parameter \<open>ident_json\<close> (an error text or the JSON).
\<close>

section \<open>Authorizations\<close>

definition authz_insert :: "sql_texts \<Rightarrow> authorization_row \<Rightarrow> unit db_op" where
  "authz_insert msg row d =
     sql_insert msg
       (authz_from_str (az_status row) \<noteq> None)
       (\<not> authz_exists d (az_id row))
       (order_exists d (az_order_id row) \<and> account_exists d (az_account_id row))
       (\<lambda>d. d\<lparr>db_authzs := db_authzs d @ [\<lparr>azt_order_id = Some (az_order_id row), azt_row = row\<rparr>]\<rparr>) d"

text \<open>
  \<^verbatim>\<open>AuthorizationRow\<close> has a plain \<^verbatim>\<open>String\<close> for the nullable column \<^verbatim>\<open>order_id\<close>: decoding a row in
  which it is null is an error of the driver.
\<close>

definition authz_decode :: "sql_texts \<Rightarrow> authz_rec \<Rightarrow> authorization_row result" where
  "authz_decode msg a =
     (case azt_order_id a of
        None \<Rightarrow> Inl (from_sqlx_error (msg UnexpectedNull))
      | Some oid \<Rightarrow> Inr ((azt_row a)\<lparr>az_order_id := oid\<rparr>))"

definition authz_fetch_optional ::
  "sql_texts \<Rightarrow> (authz_rec \<Rightarrow> bool) \<Rightarrow> authorization_row option db_op" where
  "authz_fetch_optional msg p d =
     (case find p (db_authzs d) of
        None \<Rightarrow> (Inr None, d)
      | Some a \<Rightarrow> (case authz_decode msg a of Inl e \<Rightarrow> (Inl e, d) | Inr row \<Rightarrow> (Inr (Some row), d)))"

fun authz_decode_all :: "sql_texts \<Rightarrow> authz_rec list \<Rightarrow> authorization_row list result" where
  "authz_decode_all msg [] = Inr []"
| "authz_decode_all msg (a # as) =
     (case authz_decode msg a of
        Inl e \<Rightarrow> Inl e
      | Inr row \<Rightarrow> (case authz_decode_all msg as of Inl e \<Rightarrow> Inl e | Inr rows \<Rightarrow> Inr (row # rows)))"

definition authz_get_by_id :: "sql_texts \<Rightarrow> string \<Rightarrow> authorization_row option db_op" where
  "authz_get_by_id msg i = authz_fetch_optional msg (\<lambda>a. az_id (azt_row a) = i)"

definition authz_list_by_order :: "sql_texts \<Rightarrow> string \<Rightarrow> authorization_row list db_op" where
  "authz_list_by_order msg order_id d =
     (authz_decode_all msg (filter (\<lambda>a. azt_order_id a = Some order_id) (db_authzs d)), d)"

text \<open>
  The join with the challenges: the nullable \<^verbatim>\<open>order_id\<close> becomes the empty string, and the e-mail
  and token-authority columns of a challenge are not selected.
\<close>

definition authz_get_with_challenges ::
  "string \<Rightarrow> (authorization_row \<times> challenge_row list) option db_op" where
  "authz_get_with_challenges authz_id d =
     (case find (\<lambda>a. az_id (azt_row a) = authz_id) (db_authzs d) of
        None \<Rightarrow> (Inr None, d)
      | Some a \<Rightarrow>
          (Inr (Some
            ((azt_row a)\<lparr>az_order_id := (case azt_order_id a of None \<Rightarrow> [] | Some oid \<Rightarrow> oid)\<rparr>,
             map (\<lambda>c. c\<lparr>ch_email_token_part1 := None, ch_email_message_id := None,
                        ch_tkauth_type := None, ch_token_authority := None\<rparr>)
               (sort_key ch_id (filter (\<lambda>c. ch_authz_id c = authz_id) (db_challenges d))))), d))"

definition authz_unexpired :: "i64 \<Rightarrow> authorization_row \<Rightarrow> bool" where
  "authz_unexpired now r = (case az_expires r of None \<Rightarrow> True | Some e \<Rightarrow> e > now)"

definition authz_reusable :: "string \<Rightarrow> string \<Rightarrow> string \<Rightarrow> i64 \<Rightarrow> authz_rec \<Rightarrow> bool" where
  "authz_reusable account_id identifier_json ca_id now a = (let r = azt_row a in
       az_account_id r = account_id \<and> az_identifier r = identifier_json \<and>
       (az_ca_id r = ca_id \<or> az_ca_id r = ''default'' \<or> az_ca_id r = []) \<and>
       (az_status r = ''pending'' \<or> az_status r = ''valid'') \<and>
       authz_unexpired now r)"

definition authz_find_valid_by_account_and_identifier ::
  "sql_texts \<Rightarrow> string \<Rightarrow> string \<Rightarrow> string \<Rightarrow> i64 \<Rightarrow> authorization_row option db_op" where
  "authz_find_valid_by_account_and_identifier msg account_id identifier_json ca_id now =
     authz_fetch_optional msg (authz_reusable account_id identifier_json ca_id now)"

text \<open>The part of a name after its first dot.\<close>

definition after_dot :: "string \<Rightarrow> string option" where
  "after_dot s = (case dropWhile (\<lambda>c. c \<noteq> CHR ''.'') s of [] \<Rightarrow> None | _ # rest \<Rightarrow> Some rest)"

lemma after_dot_shorter: "after_dot s = Some rest \<Longrightarrow> length rest < length s"
  using length_dropWhile_le [of "\<lambda>c. c \<noteq> CHR ''.''" s]
  by (auto simp: after_dot_def split: list.splits)

function authz_find_valid_subdomain_ancestor ::
  "sql_texts \<Rightarrow> (string \<Rightarrow> string + string) \<Rightarrow> string \<Rightarrow> string \<Rightarrow> string \<Rightarrow> i64
     \<Rightarrow> authorization_row option db_op" where
  "authz_find_valid_subdomain_ancestor msg ident_json account_id domain ca_id now d =
     (case after_dot domain of
        None \<Rightarrow> (Inr None, d)
      | Some remaining \<Rightarrow>
          if CHR ''.'' \<notin> set remaining then (Inr None, d)
          else (case ident_json remaining of
                  Inl e \<Rightarrow> (Inl (Internal (''serialize ancestor identifier: '' @ e)), d)
                | Inr identifier_json \<Rightarrow>
                    (case authz_fetch_optional msg (\<lambda>a. let r = azt_row a in
                            az_account_id r = account_id \<and> az_identifier r = identifier_json \<and>
                            az_subdomain_auth_allowed r = 1 \<and>
                            (az_ca_id r = ca_id \<or> az_ca_id r = ''default'' \<or> az_ca_id r = []) \<and>
                            az_status r = ''valid'' \<and> authz_unexpired now r) d of
                       (Inl e, d') \<Rightarrow> (Inl e, d')
                     | (Inr (Some row), d') \<Rightarrow> (Inr (Some row), d')
                     | (Inr None, d') \<Rightarrow>
                         authz_find_valid_subdomain_ancestor msg ident_json account_id remaining ca_id now d')))"
  by pat_completeness auto

termination
  by (relation "measure (\<lambda>(_, _, _, domain, _). length domain)") (auto dest: after_dot_shorter)

definition authz_update_status :: "string \<Rightarrow> authz_status \<Rightarrow> i64 \<Rightarrow> unit db_op" where
  "authz_update_status i status now d =
     (Inr (), d\<lparr>db_authzs := upd_where (\<lambda>a. az_id (azt_row a) = i)
        (\<lambda>a. a\<lparr>azt_row := (azt_row a)\<lparr>az_status := authz_as_str status, az_updated := now\<rparr>\<rparr>) (db_authzs d)\<rparr>)"

section \<open>Challenges\<close>

definition challenge_exists :: "db \<Rightarrow> string \<Rightarrow> bool" where
  "challenge_exists d i \<longleftrightarrow> i \<in> set (map ch_id (db_challenges d))"

definition challenges_insert :: "sql_texts \<Rightarrow> challenge_row \<Rightarrow> unit db_op" where
  "challenges_insert msg row d =
     sql_insert msg
       (challenge_from_str (ch_status row) \<noteq> None)
       (\<not> challenge_exists d (ch_id row))
       (authz_exists d (ch_authz_id row))
       (\<lambda>d. d\<lparr>db_challenges := db_challenges d @
          [row\<lparr>ch_email_token_part1 := None, ch_email_message_id := None,
               ch_tkauth_type := None, ch_token_authority := None\<rparr>]\<rparr>) d"

definition challenges_get_by_id :: "string \<Rightarrow> challenge_row option db_op" where
  "challenges_get_by_id i d = (Inr (find (\<lambda>c. ch_id c = i) (db_challenges d)), d)"

definition challenges_list_by_authz :: "string \<Rightarrow> challenge_row list db_op" where
  "challenges_list_by_authz authz_id d =
     (Inr (filter (\<lambda>c. ch_authz_id c = authz_id) (db_challenges d)), d)"

definition challenges_set_processing :: "string \<Rightarrow> i64 \<Rightarrow> unit db_op" where
  "challenges_set_processing i now d =
     (Inr (), d\<lparr>db_challenges := upd_where (\<lambda>c. ch_id c = i)
        (\<lambda>c. c\<lparr>ch_status := ''processing'', ch_updated := now\<rparr>) (db_challenges d)\<rparr>)"

definition challenges_set_processing_if_pending :: "string \<Rightarrow> i64 \<Rightarrow> u64 db_op" where
  "challenges_set_processing_if_pending i now d =
     (let p = (\<lambda>c. ch_id c = i \<and> ch_status c = ''pending'')
      in (Inr (affected p (db_challenges d)),
          d\<lparr>db_challenges := upd_where p (\<lambda>c. c\<lparr>ch_status := ''processing'', ch_updated := now\<rparr>)
              (db_challenges d)\<rparr>))"

definition challenges_set_valid :: "string \<Rightarrow> i64 \<Rightarrow> unit db_op" where
  "challenges_set_valid i validated d =
     (Inr (), d\<lparr>db_challenges := upd_where (\<lambda>c. ch_id c = i)
        (\<lambda>c. c\<lparr>ch_status := ''valid'', ch_validated := Some validated, ch_updated := validated\<rparr>)
        (db_challenges d)\<rparr>)"

definition challenges_get_validated_types_for_authzs ::
  "string list \<Rightarrow> (string, string) hashmap db_op" where
  "challenges_get_validated_types_for_authzs authz_ids d =
     (if authz_ids = [] then (Inr [], d)
      else (Inr (fold (\<lambda>c m. hm_insert (ch_authz_id c) (ch_type c) m)
                   (filter (\<lambda>c. ch_status c = ''valid'' \<and> ch_authz_id c \<in> set authz_ids) (db_challenges d)) []), d))"

definition challenges_set_invalid :: "string \<Rightarrow> string \<Rightarrow> i64 \<Rightarrow> unit db_op" where
  "challenges_set_invalid i error now d =
     (Inr (), d\<lparr>db_challenges := upd_where (\<lambda>c. ch_id c = i)
        (\<lambda>c. c\<lparr>ch_status := ''invalid'', ch_error := Some error, ch_updated := now\<rparr>) (db_challenges d)\<rparr>)"

text \<open>The message id is unique over the table (partial index on the non-null ones).\<close>

definition challenges_set_email_token ::
  "sql_texts \<Rightarrow> string \<Rightarrow> string \<Rightarrow> string \<Rightarrow> i64 \<Rightarrow> unit db_op" where
  "challenges_set_email_token msg i token_part1 message_id now d =
     (if affected (\<lambda>c. ch_id c = i) (db_challenges d) = 0
      then (Inl (Internal (''set_email_token: challenge '' @ i @ '' not found'')), d)
      else if \<exists>c \<in> set (db_challenges d). ch_id c \<noteq> i \<and> ch_email_message_id c = Some message_id
      then (Inl (from_sqlx_error (msg UniqueFailed)), d)
      else (Inr (), d\<lparr>db_challenges := upd_where (\<lambda>c. ch_id c = i)
              (\<lambda>c. c\<lparr>ch_email_token_part1 := Some token_part1, ch_email_message_id := Some message_id,
                     ch_updated := now\<rparr>) (db_challenges d)\<rparr>))"

definition challenges_get_by_email_message_id :: "string \<Rightarrow> challenge_row option db_op" where
  "challenges_get_by_email_message_id message_id d =
     (Inr (find (\<lambda>c. ch_email_message_id c = Some message_id \<and> ch_type c = ''email-reply-00''
                   \<and> ch_status c = ''processing'') (db_challenges d)), d)"

definition challenges_get_status :: "string \<Rightarrow> string option db_op" where
  "challenges_get_status i d =
     (Inr (map_option ch_status (find (\<lambda>c. ch_id c = i) (db_challenges d))), d)"

definition new_challenge_row ::
  "string \<Rightarrow> string \<Rightarrow> i64 \<Rightarrow> string option \<Rightarrow> string \<times> string \<Rightarrow> challenge_row" where
  "new_challenge_row authz_id token now tkauth_token_authority c =
     (case c of (chall_id, chall_type) \<Rightarrow>
        \<lparr>ch_id = chall_id, ch_authz_id = authz_id, ch_type = chall_type,
         ch_status = challenge_as_str ChallPending, ch_token = token, ch_validated = None,
         ch_error = None, ch_created = now, ch_updated = now,
         ch_email_token_part1 = None, ch_email_message_id = None,
         ch_tkauth_type = (if chall_type = ''tkauth-01'' then Some ''atc'' else None),
         ch_token_authority = (if chall_type = ''tkauth-01'' then tkauth_token_authority else None)\<rparr>)"

definition challenges_insert_batch ::
  "sql_texts \<Rightarrow> string \<Rightarrow> (string \<times> string) list \<Rightarrow> string \<Rightarrow> i64 \<Rightarrow> string option \<Rightarrow> unit db_op" where
  "challenges_insert_batch msg authz_id challenges token now tkauth_token_authority d =
     (if challenges = [] then (Inr (), d)
      else sql_insert msg True
             (distinct (map fst challenges) \<and> (\<forall>c \<in> set challenges. \<not> challenge_exists d (fst c)))
             (authz_exists d authz_id)
             (\<lambda>d. d\<lparr>db_challenges := db_challenges d @
                map (new_challenge_row authz_id token now tkauth_token_authority) challenges\<rparr>) d)"

lemmas authz_defs [db_defs] =
  authz_insert_def authz_update_status_def challenges_insert_def challenges_set_processing_def
  challenges_set_processing_if_pending_def challenges_set_valid_def challenges_set_invalid_def
  challenges_set_email_token_def challenges_insert_batch_def

section \<open>Storing a pre-authorization\<close>

text \<open>
  The transaction of the \<^verbatim>\<open>new-authz\<close> handler (\<^verbatim>\<open>src/routes/authz.rs\<close>), which runs when the lookup above
  found nothing: a pending authorization without an order, and its challenges.
\<close>

definition new_authz_store ::
  "sql_texts \<Rightarrow> string \<Rightarrow> string \<Rightarrow> string \<Rightarrow> i64 \<Rightarrow> bool \<Rightarrow> i64 \<Rightarrow> string \<Rightarrow> (string \<times> string) list
     \<Rightarrow> string \<Rightarrow> string option \<Rightarrow> unit db_op" where
  "new_authz_store msg authz_id account_id identifier_json authz_expiry subdomain_auth_allowed now ca_id
       challenges token tkauth_url =
     db_tx (db_then
       (\<lambda>d. sql_insert msg True (\<not> authz_exists d authz_id) (account_exists d account_id)
         (\<lambda>d. d\<lparr>db_authzs := db_authzs d @
            [\<lparr>azt_order_id = None,
              azt_row = \<lparr>az_id = authz_id, az_order_id = [], az_account_id = account_id,
                az_status = ''pending'', az_identifier = identifier_json,
                az_expires = Some authz_expiry, az_wildcard = 0,
                az_subdomain_auth_allowed = (if subdomain_auth_allowed then 1 else 0),
                az_created = now, az_updated = now, az_ca_id = ca_id\<rparr>\<rparr>]\<rparr>) d)
       (\<lambda>_. challenges_insert_batch msg authz_id challenges token now tkauth_url))"

section \<open>Properties\<close>

lemma insert_batch_authzs:
  "db_authzs (snd (challenges_insert_batch msg i cs t now u d)) = db_authzs d"
  by (simp add: challenges_insert_batch_def sql_insert_def)

lemma new_authz_store_authzs:
  assumes "new_authz_store msg i acc ident expiry sub now ca cs tok url d = (Inr (), d')"
  shows "\<exists>row. db_authzs d' = db_authzs d @ [\<lparr>azt_order_id = None, azt_row = row\<rparr>]
    \<and> az_account_id row = acc \<and> az_identifier row = ident \<and> az_ca_id row = ca
    \<and> az_status row = ''pending'' \<and> az_expires row = Some expiry"
proof -
  let ?row = "\<lparr>az_id = i, az_order_id = [], az_account_id = acc, az_status = ''pending'',
    az_identifier = ident, az_expires = Some expiry, az_wildcard = 0,
    az_subdomain_auth_allowed = (if sub then 1 else 0), az_created = now, az_updated = now, az_ca_id = ca\<rparr>"
  let ?d = "d\<lparr>db_authzs := db_authzs d @ [\<lparr>azt_order_id = None, azt_row = ?row\<rparr>]\<rparr>"
  have "challenges_insert_batch msg i cs tok now url ?d = (Inr (), d')"
    using assms
    by (simp add: new_authz_store_def db_tx_ok db_then_def sql_insert_def split: if_splits)
  then have "db_authzs d' = db_authzs ?d" using insert_batch_authzs [of msg i cs tok now url ?d] by simp
  then show ?thesis by (intro exI [of _ ?row]) simp
qed

text \<open>A pre-authorization cannot be reused. After the \<^verbatim>\<open>new-authz\<close> handler found no authorization
  for an account and identifier and stored a new, unexpired one, the same lookup no longer answers:
  it fails with a database error, because the stored row has no order and the row type demands
  one.\<close>

theorem preauthorization_lookup_fails:
  assumes "authz_find_valid_by_account_and_identifier msg acc ident ca now d = (Inr None, d)"
    and "new_authz_store msg authz_id acc ident expiry sub t ca challenges token url d = (Inr (), d')"
    and "expiry > now"
  shows "authz_find_valid_by_account_and_identifier msg acc ident ca now d'
           = (Inl (Database (msg UnexpectedNull)), d')"
proof -
  obtain row where d': "db_authzs d' = db_authzs d @ [\<lparr>azt_order_id = None, azt_row = row\<rparr>]"
    and row: "az_account_id row = acc" "az_identifier row = ident" "az_ca_id row = ca"
      "az_status row = ''pending''" "az_expires row = Some expiry"
    using new_authz_store_authzs [OF assms(2)] by blast
  show ?thesis
    using assms(1,3)
    by (auto simp: authz_find_valid_by_account_and_identifier_def authz_fetch_optional_def d' row
        find_append authz_decode_def from_sqlx_error_def authz_reusable_def authz_unexpired_def
        split: option.splits sum.splits)
qed

theorem preauthorization_lookup_fails_witness:
  "\<exists>d'. new_authz_store (\<lambda>_. ''null'') ''z1'' ''a1'' ''x'' 100 False 1 ''ca'' [] ''t'' None
          (empty_db\<lparr>db_accounts := [sample_account ''a1'']\<rparr>) = (Inr (), d')
     \<and> authz_find_valid_by_account_and_identifier (\<lambda>_. ''null'') ''a1'' ''x'' ''ca'' 5 d'
         = (Inl (Database ''null''), d')"
proof -
  let ?d = "empty_db\<lparr>db_accounts := [sample_account ''a1'']\<rparr>"
  obtain d' where d': "new_authz_store (\<lambda>_. ''null'') ''z1'' ''a1'' ''x'' 100 False 1 ''ca'' [] ''t'' None ?d = (Inr (), d')"
    by (simp add: new_authz_store_def db_tx_def db_then_def sql_insert_def authz_exists_def
        account_exists_def sample_defs challenges_insert_batch_def)
  have "authz_find_valid_by_account_and_identifier (\<lambda>_. ''null'') ''a1'' ''x'' ''ca'' 5 ?d = (Inr None, ?d)"
    by (simp add: authz_find_valid_by_account_and_identifier_def authz_fetch_optional_def sample_defs)
  from preauthorization_lookup_fails [OF this d'] d' show ?thesis by simp
qed

end
