(* ===== verification/Db_Accounts.thy ===== *)
theory Db_Accounts
  imports Db_Model
begin

text \<open>
  The operations on accounts, external-account-binding keys and nonces (\<^verbatim>\<open>src/db/accounts.rs\<close>,
  \<^verbatim>\<open>src/db/eab.rs\<close>, \<^verbatim>\<open>src/db/nonces.rs\<close>). Where the source reads the clock, the time is a parameter.
\<close>

section \<open>Accounts\<close>

definition accounts_insert :: "sql_texts \<Rightarrow> account_row \<Rightarrow> unit db_op" where
  "accounts_insert msg row d =
     sql_insert msg
       (account_from_str (acc_status row) \<noteq> None)
       (\<not> account_exists d (acc_id row) \<and>
        acc_jwk_thumbprint row \<notin> set (map acc_jwk_thumbprint (db_accounts d)))
       True
       (\<lambda>d. d\<lparr>db_accounts := db_accounts d @ [row]\<rparr>) d"

definition accounts_get_by_id :: "string \<Rightarrow> account_row option db_op" where
  "accounts_get_by_id i d = (Inr (find (\<lambda>r. acc_id r = i) (db_accounts d)), d)"

definition accounts_get_by_thumbprint :: "string \<Rightarrow> account_row option db_op" where
  "accounts_get_by_thumbprint tp d = (Inr (find (\<lambda>r. acc_jwk_thumbprint r = tp) (db_accounts d)), d)"

definition accounts_update_contact :: "string \<Rightarrow> string option \<Rightarrow> i64 \<Rightarrow> bool db_op" where
  "accounts_update_contact i contact now d =
     (let p = (\<lambda>r. acc_id r = i \<and> acc_status r = ''valid'')
      in (Inr (affected p (db_accounts d) > 0),
          d\<lparr>db_accounts := upd_where p (\<lambda>r. r\<lparr>acc_contact := contact, acc_updated := now\<rparr>) (db_accounts d)\<rparr>))"

definition accounts_update_status :: "string \<Rightarrow> account_status \<Rightarrow> i64 \<Rightarrow> bool db_op" where
  "accounts_update_status i status now d =
     (let p = (\<lambda>r. acc_id r = i)
      in (Inr (affected p (db_accounts d) > 0),
          d\<lparr>db_accounts := upd_where p (\<lambda>r. r\<lparr>acc_status := account_as_str status, acc_updated := now\<rparr>)
              (db_accounts d)\<rparr>))"

definition accounts_update_key ::
  "sql_texts \<Rightarrow> string \<Rightarrow> bytes \<Rightarrow> string \<Rightarrow> i64 \<Rightarrow> bool db_op" where
  "accounts_update_key msg i public_key jwk_thumbprint now d =
     (let p = (\<lambda>r. acc_id r = i \<and> acc_status r = ''valid'')
      in if affected p (db_accounts d) > 0 \<and>
            (\<exists>r \<in> set (db_accounts d). acc_id r \<noteq> i \<and> acc_jwk_thumbprint r = jwk_thumbprint)
         then (Inl (from_sqlx_error (msg UniqueFailed)), d)
         else (Inr (affected p (db_accounts d) > 0),
               d\<lparr>db_accounts := upd_where p (\<lambda>r. r\<lparr>acc_public_key := public_key,
                   acc_jwk_thumbprint := jwk_thumbprint, acc_updated := now\<rparr>) (db_accounts d)\<rparr>))"

definition accounts_set_profile_grants :: "string \<Rightarrow> string option \<Rightarrow> i64 \<Rightarrow> bool db_op" where
  "accounts_set_profile_grants i grants now d =
     (let p = (\<lambda>r. acc_id r = i \<and> acc_status r = ''valid'')
      in (Inr (affected p (db_accounts d) > 0),
          d\<lparr>db_accounts := upd_where p (\<lambda>r. r\<lparr>acc_profile_grants := grants, acc_updated := now\<rparr>) (db_accounts d)\<rparr>))"

definition accounts_get_profile_grants :: "string \<Rightarrow> string option option db_op" where
  "accounts_get_profile_grants i d =
     (Inr (map_option acc_profile_grants (find (\<lambda>r. acc_id r = i) (db_accounts d))), d)"

definition accounts_get_kerberos_principal :: "string \<Rightarrow> string option db_op" where
  "accounts_get_kerberos_principal i d =
     (Inr (Option.bind (find (\<lambda>r. acc_id r = i) (db_accounts d)) acc_kerberos_principal), d)"

text \<open>A CA filter also admits accounts without that CA that have placed an order with it.\<close>

definition account_filter :: "db \<Rightarrow> string option \<Rightarrow> string option \<Rightarrow> account_row \<Rightarrow> bool" where
  "account_filter d status ca_id r \<longleftrightarrow>
     opt_eq status (acc_status r) \<and>
     (case ca_id of
        None \<Rightarrow> True
      | Some ca \<Rightarrow> acc_ca_id r = ca \<or>
          acc_id r \<in> set (map ord_account_id (filter (\<lambda>ord. ord_ca_id ord = ca) (db_orders d))))"

definition accounts_list ::
  "string option \<Rightarrow> string option \<Rightarrow> i64 \<Rightarrow> i64 \<Rightarrow> account_row list db_op" where
  "accounts_list status ca_id limit offset d =
     (Inr (sql_page limit offset
             (order_by_desc acc_created (filter (account_filter d status ca_id) (db_accounts d)))), d)"

definition accounts_count_list :: "string option \<Rightarrow> string option \<Rightarrow> i64 db_op" where
  "accounts_count_list status ca_id d =
     (Inr (int (length (filter (account_filter d status ca_id) (db_accounts d)))), d)"

section \<open>External account binding keys\<close>

record eab_grant_params =
  egp_kid :: string
  egp_hmac_key_b64u :: string
  egp_profile_grants :: "string option"
  egp_created_by_operator_id :: "i64 option"
  egp_alg :: string
  egp_now :: i64
  egp_bound_principal :: "string option"

definition eab_exists :: "db \<Rightarrow> string \<Rightarrow> bool" where
  "eab_exists d kid \<longleftrightarrow> kid \<in> set (map eab_kid (db_eab_keys d))"

definition eab_add :: "eab_key_row \<Rightarrow> db \<Rightarrow> db" where
  "eab_add row d = d\<lparr>db_eab_keys := db_eab_keys d @ [row]\<rparr>"

definition eab_insert_if_absent ::
  "string \<Rightarrow> string \<Rightarrow> i64 \<Rightarrow> string option \<Rightarrow> string \<Rightarrow> unit db_op" where
  "eab_insert_if_absent kid hmac_key_b64u now bound_principal alg d =
     (Inr (), if eab_exists d kid then d
              else eab_add \<lparr>eab_kid = kid, eab_hmac_key_b64u = hmac_key_b64u, eab_created = now,
                     eab_used_at = None, eab_profile_grants = None, eab_created_by_operator_id = None,
                     eab_bound_principal = bound_principal, eab_alg = alg\<rparr> d)"

text \<open>The column \<^verbatim>\<open>alg\<close> is not given here and gets its default.\<close>

definition eab_insert :: "sql_texts \<Rightarrow> string \<Rightarrow> string \<Rightarrow> i64 \<Rightarrow> unit db_op" where
  "eab_insert msg kid hmac_key_b64u now d =
     sql_insert msg True (\<not> eab_exists d kid) True
       (eab_add \<lparr>eab_kid = kid, eab_hmac_key_b64u = hmac_key_b64u, eab_created = now,
          eab_used_at = None, eab_profile_grants = None, eab_created_by_operator_id = None,
          eab_bound_principal = None, eab_alg = ''sha256''\<rparr>) d"

definition eab_get_by_kid :: "string \<Rightarrow> eab_key_row option db_op" where
  "eab_get_by_kid kid d = (Inr (find (\<lambda>r. eab_kid r = kid) (db_eab_keys d)), d)"

definition eab_grant_row :: "eab_grant_params \<Rightarrow> eab_key_row" where
  "eab_grant_row p =
     \<lparr>eab_kid = egp_kid p, eab_hmac_key_b64u = egp_hmac_key_b64u p, eab_created = egp_now p,
      eab_used_at = None, eab_profile_grants = egp_profile_grants p,
      eab_created_by_operator_id = egp_created_by_operator_id p,
      eab_bound_principal = egp_bound_principal p, eab_alg = egp_alg p\<rparr>"

definition eab_insert_with_grants :: "sql_texts \<Rightarrow> eab_grant_params \<Rightarrow> unit db_op" where
  "eab_insert_with_grants msg params d =
     sql_insert msg True (\<not> eab_exists d (egp_kid params)) True (eab_add (eab_grant_row params)) d"

definition eab_insert_if_absent_with_grants :: "eab_grant_params \<Rightarrow> bool db_op" where
  "eab_insert_if_absent_with_grants params d =
     (if eab_exists d (egp_kid params) then (Inr False, d)
      else (Inr True, eab_add (eab_grant_row params) d))"

definition eab_mark_used :: "string \<Rightarrow> i64 \<Rightarrow> unit db_op" where
  "eab_mark_used kid now d =
     (let p = (\<lambda>r. eab_kid r = kid \<and> eab_used_at r = None);
          d' = d\<lparr>db_eab_keys := upd_where p (\<lambda>r. r\<lparr>eab_used_at := Some now\<rparr>) (db_eab_keys d)\<rparr>
      in if affected p (db_eab_keys d) = 0
         then (Inl (Conflict ''EAB key already consumed by a concurrent request''), d')
         else (Inr (), d'))"

definition eab_used_filter :: "bool option \<Rightarrow> eab_key_row \<Rightarrow> bool" where
  "eab_used_filter used r =
     (case used of Some True \<Rightarrow> eab_used_at r \<noteq> None | Some False \<Rightarrow> eab_used_at r = None | None \<Rightarrow> True)"

definition eab_list :: "bool option \<Rightarrow> i64 \<Rightarrow> i64 \<Rightarrow> eab_key_row list db_op" where
  "eab_list used limit offset d =
     (Inr (sql_page limit offset (order_by_desc eab_created (filter (eab_used_filter used) (db_eab_keys d)))), d)"

definition eab_delete :: "string \<Rightarrow> u64 db_op" where
  "eab_delete kid d =
     (Inr (affected (\<lambda>r. eab_kid r = kid) (db_eab_keys d)),
      d\<lparr>db_eab_keys := filter (\<lambda>r. eab_kid r \<noteq> kid) (db_eab_keys d)\<rparr>)"

definition eab_count_list :: "bool option \<Rightarrow> i64 db_op" where
  "eab_count_list used d = (Inr (int (length (filter (eab_used_filter used) (db_eab_keys d)))), d)"

section \<open>Nonces\<close>

definition nonce_exists :: "db \<Rightarrow> string \<Rightarrow> bool" where
  "nonce_exists d n \<longleftrightarrow> n \<in> set (map nonce_value (db_nonces d))"

definition nonces_insert :: "sql_texts \<Rightarrow> i64 \<Rightarrow> string \<Rightarrow> unit db_op" where
  "nonces_insert msg now n d =
     sql_insert msg True (\<not> nonce_exists d n) True
       (\<lambda>d. d\<lparr>db_nonces := db_nonces d @ [\<lparr>nonce_value = n, nonce_created = now\<rparr>]\<rparr>) d"

definition nonces_consume :: "string \<Rightarrow> bool db_op" where
  "nonces_consume n d =
     (Inr (affected (\<lambda>r. nonce_value r = n) (db_nonces d) > 0),
      d\<lparr>db_nonces := filter (\<lambda>r. nonce_value r \<noteq> n) (db_nonces d)\<rparr>)"

definition nonces_consume_and_insert :: "sql_texts \<Rightarrow> i64 \<Rightarrow> string \<Rightarrow> string \<Rightarrow> bool db_op" where
  "nonces_consume_and_insert msg now old_nonce new_nonce d =
     (case nonces_consume old_nonce d of
        (Inl e, _) \<Rightarrow> (Inl e, d)
      | (Inr consumed, d') \<Rightarrow>
          if \<not> consumed then (Inr False, d)
          else (case nonces_insert msg now new_nonce d' of
                  (Inl e, _) \<Rightarrow> (Inl e, d)
                | (Inr _, d'') \<Rightarrow> (Inr True, d'')))"

definition nonces_sweep_expired :: "i64 \<Rightarrow> i64 \<Rightarrow> u64 db_op" where
  "nonces_sweep_expired now max_age_secs d =
     (let cutoff = sat_sub now max_age_secs
      in (Inr (affected (\<lambda>r. nonce_created r < cutoff) (db_nonces d)),
          d\<lparr>db_nonces := filter (\<lambda>r. \<not> nonce_created r < cutoff) (db_nonces d)\<rparr>))"

lemmas account_defs [db_defs] =
  accounts_insert_def accounts_update_contact_def accounts_update_status_def accounts_update_key_def
  accounts_set_profile_grants_def eab_insert_if_absent_def eab_insert_def eab_insert_with_grants_def
  eab_insert_if_absent_with_grants_def eab_mark_used_def eab_delete_def eab_add_def
  nonces_insert_def nonces_consume_def nonces_consume_and_insert_def nonces_sweep_expired_def

section \<open>Properties\<close>

lemma nonces_consume_result: "fst (nonces_consume n d) = Inr (nonce_exists d n)"
  by (auto simp: nonces_consume_def affected_def nonce_exists_def filter_empty_conv)

lemma nonces_consume_exists:
  "nonce_exists (snd (nonces_consume n d)) m \<longleftrightarrow> nonce_exists d m \<and> m \<noteq> n"
  by (auto simp: nonces_consume_def nonce_exists_def)

lemma nonces_insert_exists:
  "nonces_insert msg now n d = (Inr (), d') \<Longrightarrow> nonce_exists d' m \<longleftrightarrow> nonce_exists d m \<or> m = n"
  by (auto simp: nonces_insert_def sql_insert_def nonce_exists_def split: if_splits)

lemma nonces_replace_cases:
  "nonces_consume_and_insert msg now old new d =
     (if \<not> nonce_exists d old then (Inr False, d)
      else (case nonces_insert msg now new (snd (nonces_consume old d)) of
              (Inl e, _) \<Rightarrow> (Inl e, d) | (Inr _, d'') \<Rightarrow> (Inr True, d'')))"
  using nonces_consume_result [of old d]
  by (cases "nonces_consume old d") (simp add: nonces_consume_and_insert_def)

text \<open>A nonce is good for one request. Replacing a nonce succeeds exactly when it is stored and
  the replacement is fresh; afterwards the old nonce is gone, so a replay of the same request is
  refused, and the new one is stored. A refused request changes nothing.\<close>

theorem nonce_single_use:
  assumes "nonces_consume_and_insert msg now old new d = (Inr ok, d')" and "new \<noteq> old"
  shows "ok = nonce_exists d old
    \<and> (ok \<longrightarrow> nonce_exists d' new \<and> \<not> nonce_exists d' old
         \<and> nonces_consume_and_insert msg now2 old new2 d' = (Inr False, d'))
    \<and> (\<not> ok \<longrightarrow> d' = d)"
proof (cases "nonce_exists d old")
  case True
  then have ins: "nonces_insert msg now new (snd (nonces_consume old d)) = (Inr (), d')" and ok
    using assms(1) by (auto simp: nonces_replace_cases split: sum.splits prod.splits)
  have "nonce_exists d' m \<longleftrightarrow> nonce_exists d m \<and> m \<noteq> old \<or> m = new" for m
    using nonces_insert_exists [OF ins] by (simp add: nonces_consume_exists)
  then show ?thesis using True \<open>ok\<close> assms(2) by (simp add: nonces_replace_cases)
next
  case False
  then show ?thesis using assms(1) by (simp add: nonces_replace_cases)
qed

theorem nonce_single_use_witness:
  "\<exists>d'. nonces_consume_and_insert (\<lambda>_. []) 5 ''n1'' ''n2''
          (empty_db\<lparr>db_nonces := [\<lparr>nonce_value = ''n1'', nonce_created = 1\<rparr>]\<rparr>) = (Inr True, d')
     \<and> nonces_consume_and_insert (\<lambda>_. []) 6 ''n1'' ''n3'' d' = (Inr False, d')"
proof -
  let ?d = "empty_db\<lparr>db_nonces := [\<lparr>nonce_value = ''n1'', nonce_created = 1\<rparr>]\<rparr>"
  obtain d' where c: "nonces_consume_and_insert (\<lambda>_. []) 5 ''n1'' ''n2'' ?d = (Inr True, d')"
    by (simp add: db_defs affected_def sql_insert_def nonce_exists_def empty_db_def)
  show ?thesis using nonce_single_use [OF c] c by auto
qed

text \<open>An external-account-binding key is consumed once. Marking an unused key succeeds, and
  from then on every further attempt to mark it is a conflict that leaves the table alone.\<close>

theorem eab_key_single_use:
  assumes "eab_mark_used kid now d = (Inr (), d')"
  shows "(\<exists>r \<in> set (db_eab_keys d). eab_kid r = kid \<and> eab_used_at r = None)
    \<and> (\<forall>r \<in> set (db_eab_keys d'). eab_kid r = kid \<longrightarrow> eab_used_at r \<noteq> None)
    \<and> eab_mark_used kid later d'
        = (Inl (Conflict ''EAB key already consumed by a concurrent request''), d')"
proof -
  let ?unused = "\<lambda>r. eab_kid r = kid \<and> eab_used_at r = None"
  have "db_eab_keys d' = upd_where ?unused (\<lambda>r. r\<lparr>eab_used_at := Some now\<rparr>) (db_eab_keys d)"
    using assms unfolding eab_mark_used_def Let_def by (simp split: if_splits) (erule subst, simp)
  then have used: "\<forall>r \<in> set (db_eab_keys d'). eab_kid r = kid \<longrightarrow> eab_used_at r \<noteq> None"
    by (simp add: ball_upd_where)
  moreover have "\<exists>r \<in> set (db_eab_keys d). eab_kid r = kid \<and> eab_used_at r = None"
    using assms by (auto simp: eab_mark_used_def affected_0_iff Let_def split: if_splits)
  moreover have "affected (\<lambda>r. eab_kid r = kid \<and> eab_used_at r = None) (db_eab_keys d') = 0"
    using used by (auto simp: affected_0_iff)
  ultimately show ?thesis by (simp add: eab_mark_used_def upd_where_id)
qed

theorem eab_key_single_use_witness:
  "\<exists>d'. eab_mark_used ''k'' 5 (snd (eab_insert_if_absent ''k'' ''s'' 1 None ''sha256'' empty_db)) = (Inr (), d')
     \<and> eab_mark_used ''k'' 6 d' = (Inl (Conflict ''EAB key already consumed by a concurrent request''), d')"
proof -
  let ?d = "snd (eab_insert_if_absent ''k'' ''s'' 1 None ''sha256'' empty_db)"
  obtain d' where c: "eab_mark_used ''k'' 5 ?d = (Inr (), d')"
    by (simp add: db_defs eab_exists_def empty_db_def affected_def)
  show ?thesis using eab_key_single_use [OF c] c by auto
qed

end
