(* ===== verification/Db_Certs.thy ===== *)
theory Db_Certs
  imports Db_Model
begin

text \<open>
  The operations on the table of certificates (\<^verbatim>\<open>src/db/certs.rs\<close>). Base64url decoding, hex encoding
  and the SQL \<^verbatim>\<open>LIKE\<close> operator belong to libraries and the database and are parameters.
\<close>

section \<open>Operations\<close>

abbreviation cert_of :: "cert_rec \<Rightarrow> certificate_row" where
  "cert_of r \<equiv> certificate_row.truncate r"

text \<open>The insert binds \<^verbatim>\<open>NULL\<close> for \<^verbatim>\<open>replaced_by\<close>, whatever the row says.\<close>

definition certs_insert :: "sql_texts \<Rightarrow> certificate_row \<Rightarrow> unit db_op" where
  "certs_insert msg row d =
     sql_insert msg
       (cert_from_str (crt_status row) \<noteq> None)
       (crt_id row \<notin> set (map crt_id (db_certs d)) \<and>
        crt_serial_number row \<notin> set (map crt_serial_number (db_certs d)))
       (order_exists d (crt_order_id row) \<and> account_exists d (crt_account_id row))
       (\<lambda>d. d\<lparr>db_certs := db_certs d @
          [certificate_row.extend (row\<lparr>crt_replaced_by := None\<rparr>) \<lparr>crt_mtc_standalone_der = None\<rparr>]\<rparr>) d"

definition certs_get_by_id :: "string \<Rightarrow> certificate_row option db_op" where
  "certs_get_by_id i d = (Inr (map_option cert_of (find (\<lambda>r. crt_id r = i) (db_certs d))), d)"

definition certs_get_by_serial :: "string \<Rightarrow> certificate_row option db_op" where
  "certs_get_by_serial serial d =
     (Inr (map_option cert_of (find (\<lambda>r. crt_serial_number r = serial) (db_certs d))), d)"

definition certs_get_by_cert_id ::
  "(string \<Rightarrow> bytes option) \<Rightarrow> (bytes \<Rightarrow> string) \<Rightarrow> string \<Rightarrow> certificate_row option db_op" where
  "certs_get_by_cert_id b64url_decode hex_encode cert_id d =
     (case dropWhile (\<lambda>c. c \<noteq> CHR ''.'') cert_id of
        [] \<Rightarrow> (Inl (BadRequest (''cert_id missing '' @ quoted ''.'' @ '' separator'')), d)
      | _ # serial_b64 \<Rightarrow>
          (case b64url_decode serial_b64 of
             None \<Rightarrow> (Inl (BadRequest ''cert_id serial is not valid base64url''), d)
           | Some serial_bytes \<Rightarrow> certs_get_by_serial (hex_encode serial_bytes) d))"

definition certs_mark_replaced :: "string \<Rightarrow> string \<Rightarrow> bool db_op" where
  "certs_mark_replaced cert_uuid replacing_order_id d =
     (let p = (\<lambda>r. crt_id r = cert_uuid \<and> crt_replaced_by r = None)
      in (Inr (affected p (db_certs d) > 0),
          d\<lparr>db_certs := upd_where p (\<lambda>r. r\<lparr>crt_replaced_by := Some replacing_order_id\<rparr>) (db_certs d)\<rparr>))"

definition certs_revoke ::
  "string \<Rightarrow> i64 option \<Rightarrow> i64 \<Rightarrow> string option \<Rightarrow> bool db_op" where
  "certs_revoke i reason now ca_id d =
     (let p = (case ca_id of
                 Some ca \<Rightarrow> (\<lambda>r. crt_id r = i \<and> crt_status r = ''valid'' \<and> crt_ca_id r = ca)
               | None \<Rightarrow> (\<lambda>r. crt_id r = i \<and> crt_status r = ''valid''))
      in (Inr (affected p (db_certs d) > 0),
          d\<lparr>db_certs := upd_where p (\<lambda>r. r\<lparr>crt_status := ''revoked'', crt_revoked_at := Some now,
              crt_revocation_reason := reason\<rparr>) (db_certs d)\<rparr>))"

definition certs_set_mtc_log_index :: "string \<Rightarrow> i64 \<Rightarrow> unit db_op" where
  "certs_set_mtc_log_index i index d =
     (let p = (\<lambda>r. crt_id r = i);
          d' = d\<lparr>db_certs := upd_where p (\<lambda>r. r\<lparr>crt_mtc_log_index := Some index\<rparr>) (db_certs d)\<rparr>
      in if affected p (db_certs d) = 0
         then (Inl (Database (''set_mtc_log_index: certificate '' @ quoted i @ '' not found'')), d')
         else (Inr (), d'))"

definition certs_set_renewal_window :: "string \<Rightarrow> i64 \<Rightarrow> i64 \<Rightarrow> unit db_op" where
  "certs_set_renewal_window i start fin d =
     (if start \<ge> fin
      then (Inl (BadRequest (''renewal window start ('' @ show_int start @ '') must be before end (''
                   @ show_int fin @ '')'')), d)
      else let p = (\<lambda>r. crt_id r = i);
               d' = d\<lparr>db_certs := upd_where p (\<lambda>r. r\<lparr>crt_suggested_window_start := Some start,
                        crt_suggested_window_end := Some fin\<rparr>) (db_certs d)\<rparr>
           in if affected p (db_certs d) = 0
              then (Inl (Database (''set_renewal_window: certificate '' @ quoted i @ '' not found'')), d')
              else (Inr (), d'))"

definition max_crl_entries :: nat where
  "max_crl_entries = 500000"

definition crl_entry_of :: "cert_rec \<Rightarrow> crl_entry" where
  "crl_entry_of r = \<lparr>crl_serial_number = crt_serial_number r, crl_revoked_at = crt_revoked_at r,
                     crl_revocation_reason = crt_revocation_reason r\<rparr>"

definition certs_list_revoked :: "string \<Rightarrow> crl_entry list db_op" where
  "certs_list_revoked ca_id d =
     (let rows = take (max_crl_entries + 1)
                   (map crl_entry_of (filter (\<lambda>r. crt_status r = ''revoked'' \<and> crt_ca_id r = ca_id) (db_certs d)))
      in if length rows > max_crl_entries
         then (Inl (Database (''CA '' @ quoted ca_id @ '' has more than '' @ show_nat max_crl_entries
                     @ '' revoked certificates; CRL generation aborted to prevent OOM ''
                     @ [CHR 0xE2, CHR 0x80, CHR 0x94] @ '' implement delta CRLs'')), d)
         else (Inr rows, d))"

definition certs_list_valid_for_account :: "string \<Rightarrow> i64 \<Rightarrow> certificate_row list db_op" where
  "certs_list_valid_for_account account_id now d =
     (Inr (map cert_of (filter (\<lambda>r. crt_account_id r = account_id \<and> crt_status r = ''valid''
                                 \<and> crt_not_after r > now) (db_certs d))), d)"

text \<open>\<^verbatim>\<open>ORDER BY created DESC LIMIT 1\<close>.\<close>

definition certs_get_latest_for_order :: "string \<Rightarrow> certificate_row option db_op" where
  "certs_get_latest_for_order order_id d =
     (Inr (map_option cert_of
        (case order_by_desc crt_created (filter (\<lambda>r. crt_order_id r = order_id) (db_certs d)) of
           [] \<Rightarrow> None | r # _ \<Rightarrow> Some r)), d)"

definition has_log_index_below :: "i64 \<Rightarrow> cert_rec \<Rightarrow> bool" where
  "has_log_index_below m r = (case crt_mtc_log_index r of None \<Rightarrow> False | Some i \<Rightarrow> i < m)"

definition log_index_key :: "cert_rec \<Rightarrow> i64" where
  "log_index_key r = (case crt_mtc_log_index r of None \<Rightarrow> 0 | Some i \<Rightarrow> i)"

definition certs_get_pending_standalone :: "i64 \<Rightarrow> cert_for_standalone list db_op" where
  "certs_get_pending_standalone max_leaf_index d =
     (Inr (map (\<lambda>r. \<lparr>cfs_id = crt_id r, cfs_der = crt_der r, cfs_mtc_log_index = log_index_key r\<rparr>)
        (take 500 (sort_key log_index_key
           (filter (\<lambda>r. has_log_index_below max_leaf_index r \<and> crt_mtc_standalone_der r = None) (db_certs d))))), d)"

definition certs_set_mtc_standalone_der :: "string \<Rightarrow> bytes \<Rightarrow> unit db_op" where
  "certs_set_mtc_standalone_der i der d =
     (let p = (\<lambda>r. crt_id r = i);
          d' = d\<lparr>db_certs := upd_where p (\<lambda>r. r\<lparr>crt_mtc_standalone_der := Some der\<rparr>) (db_certs d)\<rparr>
      in if affected p (db_certs d) = 0
         then (Inl (Database (''set_mtc_standalone_der: certificate '' @ quoted i @ '' not found'')), d')
         else (Inr (), d'))"

definition certs_get_representative_for_landmark :: "i64 \<Rightarrow> certificate_row option db_op" where
  "certs_get_representative_for_landmark max_leaf_index d =
     (Inr (map_option cert_of
        (case sort_key log_index_key (filter (has_log_index_below max_leaf_index) (db_certs d)) of
           [] \<Rightarrow> None | r # _ \<Rightarrow> Some r)), d)"

definition certs_get_mtc_standalone_der :: "string \<Rightarrow> bytes option db_op" where
  "certs_get_mtc_standalone_der i d =
     (Inr (Option.bind (find (\<lambda>r. crt_id r = i \<and> crt_mtc_standalone_der r \<noteq> None) (db_certs d))
             crt_mtc_standalone_der), d)"

section \<open>Search\<close>

record cert_search_params =
  csp_serial :: "string option"
  csp_account_id :: "string option"
  csp_status :: "string option"
  csp_subject_dn :: "string option"
  csp_ca_id :: "string option"
  csp_limit :: i64
  csp_offset :: i64

text \<open>\<^verbatim>\<open>dn.replace('!', "!!").replace('%', "!%").replace('_', "!_")\<close>.\<close>

definition replace_char :: "char \<Rightarrow> string \<Rightarrow> string \<Rightarrow> string" where
  "replace_char c t s = concat (map (\<lambda>x. if x = c then t else [x]) s)"

definition like_escape :: "string \<Rightarrow> string" where
  "like_escape dn = replace_char CHR ''_'' ''!_'' (replace_char CHR ''%'' ''!%'' (replace_char CHR ''!'' ''!!'' dn))"

definition cert_search_filter ::
  "(string \<Rightarrow> string \<Rightarrow> char \<Rightarrow> bool) \<Rightarrow> cert_search_params \<Rightarrow> cert_rec \<Rightarrow> bool" where
  "cert_search_filter like p r \<longleftrightarrow>
     opt_eq (csp_serial p) (crt_serial_number r) \<and>
     opt_eq (csp_account_id p) (crt_account_id r) \<and>
     opt_eq (csp_status p) (crt_status r) \<and>
     (case csp_subject_dn p of
        None \<Rightarrow> True
      | Some dn \<Rightarrow> (case crt_subject_dn r of
                      None \<Rightarrow> False
                    | Some subj \<Rightarrow> like subj (''%'' @ like_escape dn @ ''%'') CHR ''!'')) \<and>
     opt_eq (csp_ca_id p) (crt_ca_id r)"

definition certs_search ::
  "(string \<Rightarrow> string \<Rightarrow> char \<Rightarrow> bool) \<Rightarrow> cert_search_params \<Rightarrow> certificate_row list db_op" where
  "certs_search like p d =
     (Inr (map cert_of (sql_page (csp_limit p) (csp_offset p)
        (order_by_desc crt_created (filter (cert_search_filter like p) (db_certs d))))), d)"

definition certs_count_search ::
  "(string \<Rightarrow> string \<Rightarrow> char \<Rightarrow> bool) \<Rightarrow> cert_search_params \<Rightarrow> i64 db_op" where
  "certs_count_search like p d =
     (Inr (int (length (filter (cert_search_filter like p) (db_certs d)))), d)"

lemmas cert_defs [db_defs] =
  certs_insert_def certs_mark_replaced_def certs_revoke_def certs_set_mtc_log_index_def
  certs_set_renewal_window_def certs_set_mtc_standalone_der_def

end
