(* ===== verification/Coalescer.thy ===== *)
theory Coalescer
  imports Db_Orders Db_Authz Db_Accounts Db_Certs "HOL-Library.Multiset"
begin

text \<open>
  The write coalescer (\<^verbatim>\<open>src/db/coalescer.rs\<close>): write operations of concurrent handlers are taken off a
  channel in batches and executed in one transaction, each under its own savepoint. Whether the
  transaction-control statements succeed is the parameter \<open>io\<close>; a reply sent over an operation's
  one-shot channel is an entry of the list of replies, tagged with the operation's position.
\<close>

section \<open>Operations and replies\<close>

record authz_plan =
  plan_authz :: authorization_row
  plan_challenges :: "(string \<times> string) list"
  plan_token :: string

datatype write_op =
    NewOrder order_row "authz_plan list" "string option"
  | SetProcessing string i64
  | OnValid string string string i64
  | OnInvalid string string "string option" string i64
  | Finalize certificate_row string i64 "string option" "bytes option"
  | NewAccount account_row "string option" i64

text \<open>What the reply channel of each kind of operation carries.\<close>

datatype write_reply =
    ReplyNewOrder "unit result"
  | ReplySetProcessing "u64 result"
  | ReplyOnValid "(bool \<times> bool) result"
  | ReplyOnInvalid "bool result"
  | ReplyFinalize "bool result"
  | ReplyNewAccount "unit result"

fun is_ok :: "'a result \<Rightarrow> bool" where
  "is_ok (Inr _) = True"
| "is_ok (Inl _) = False"

fun reply_ok :: "write_reply \<Rightarrow> bool" where
  "reply_ok (ReplyNewOrder r) = is_ok r"
| "reply_ok (ReplySetProcessing r) = is_ok r"
| "reply_ok (ReplyOnValid r) = is_ok r"
| "reply_ok (ReplyOnInvalid r) = is_ok r"
| "reply_ok (ReplyFinalize r) = is_ok r"
| "reply_ok (ReplyNewAccount r) = is_ok r"

fun error_reply :: "write_op \<Rightarrow> acme_error \<Rightarrow> write_reply" where
  "error_reply (NewOrder _ _ _) e = ReplyNewOrder (Inl e)"
| "error_reply (SetProcessing _ _) e = ReplySetProcessing (Inl e)"
| "error_reply (OnValid _ _ _ _) e = ReplyOnValid (Inl e)"
| "error_reply (OnInvalid _ _ _ _ _) e = ReplyOnInvalid (Inl e)"
| "error_reply (Finalize _ _ _ _ _) e = ReplyFinalize (Inl e)"
| "error_reply (NewAccount _ _ _) e = ReplyNewAccount (Inl e)"

definition send_error :: "write_op \<Rightarrow> acme_error \<Rightarrow> write_reply" where
  "send_error op err = error_reply op (Database (error_message err))"

section \<open>Per-operation execution\<close>

fun insert_authz_plans ::
  "sql_texts \<Rightarrow> i64 \<Rightarrow> string option \<Rightarrow> authz_plan list \<Rightarrow> unit db_op" where
  "insert_authz_plans msg created tkauth_url [] = db_ok ()"
| "insert_authz_plans msg created tkauth_url (plan # plans) =
     db_then (authz_insert msg (plan_authz plan)) (\<lambda>_.
     db_then (challenges_insert_batch msg (az_id (plan_authz plan)) (plan_challenges plan)
                (plan_token plan) created tkauth_url) (\<lambda>_.
     insert_authz_plans msg created tkauth_url plans))"

definition exec_new_order ::
  "sql_texts \<Rightarrow> order_row \<Rightarrow> authz_plan list \<Rightarrow> string option \<Rightarrow> unit db_op" where
  "exec_new_order msg order authz_plans tkauth_url =
     db_then (orders_insert msg order) (\<lambda>_.
     insert_authz_plans msg (ord_created order) tkauth_url authz_plans)"

text \<open>The three statements of a successful validation.\<close>

definition mark_challenge_valid :: "string \<Rightarrow> i64 \<Rightarrow> nat db_op" where
  "mark_challenge_valid challenge_id now d =
     (let p = (\<lambda>c. ch_id c = challenge_id \<and> ch_status c = ''processing'')
      in (Inr (affected p (db_challenges d)),
          d\<lparr>db_challenges := upd_where p (\<lambda>c. c\<lparr>ch_status := ''valid'', ch_validated := Some now,
              ch_updated := now\<rparr>) (db_challenges d)\<rparr>))"

definition set_authz_status :: "string \<Rightarrow> string \<Rightarrow> i64 \<Rightarrow> unit db_op" where
  "set_authz_status authz_id st now d =
     (Inr (), d\<lparr>db_authzs := upd_where (\<lambda>a. az_id (azt_row a) = authz_id)
        (\<lambda>a. a\<lparr>azt_row := (azt_row a)\<lparr>az_status := st, az_updated := now\<rparr>\<rparr>) (db_authzs d)\<rparr>)"

definition unfinished_authz :: "db \<Rightarrow> string \<Rightarrow> bool" where
  "unfinished_authz d order_id \<longleftrightarrow>
     (\<exists>a \<in> set (db_authzs d). azt_order_id a = Some order_id \<and> az_status (azt_row a) \<noteq> ''valid'')"

definition advance_order :: "string \<Rightarrow> i64 \<Rightarrow> nat db_op" where
  "advance_order order_id now d =
     (let p = (\<lambda>r. ord_id r = order_id \<and> \<not> unfinished_authz d order_id)
      in (Inr (affected p (db_orders d)),
          d\<lparr>db_orders := upd_where p (\<lambda>r. r\<lparr>ord_status := ''ready'', ord_error := None,
              ord_updated := now\<rparr>) (db_orders d)\<rparr>))"

definition exec_on_valid :: "string \<Rightarrow> string \<Rightarrow> string \<Rightarrow> i64 \<Rightarrow> (bool \<times> bool) db_op" where
  "exec_on_valid challenge_id authz_id order_id now =
     db_then (mark_challenge_valid challenge_id now) (\<lambda>chall_rows.
       if chall_rows = 0 then db_ok (False, False)
       else db_then (set_authz_status authz_id ''valid'' now) (\<lambda>_.
            db_then (advance_order order_id now) (\<lambda>rows. db_ok (True, rows > 0))))"

text \<open>The statements of a failed validation; the order is looked up when it is not given.\<close>

definition mark_challenge_invalid :: "string \<Rightarrow> string \<Rightarrow> i64 \<Rightarrow> nat db_op" where
  "mark_challenge_invalid challenge_id error_json now d =
     (let p = (\<lambda>c. ch_id c = challenge_id \<and> ch_status c = ''processing'')
      in (Inr (affected p (db_challenges d)),
          d\<lparr>db_challenges := upd_where p (\<lambda>c. c\<lparr>ch_status := ''invalid'', ch_error := Some error_json,
              ch_updated := now\<rparr>) (db_challenges d)\<rparr>))"

definition select_authz_order :: "sql_texts \<Rightarrow> string \<Rightarrow> string option db_op" where
  "select_authz_order msg authz_id d =
     (case find (\<lambda>a. az_id (azt_row a) = authz_id) (db_authzs d) of
        None \<Rightarrow> (Inr None, d)
      | Some a \<Rightarrow> (case azt_order_id a of
                     None \<Rightarrow> (Inl (from_sqlx_error (msg UnexpectedNull)), d)
                   | Some oid \<Rightarrow> (Inr (Some oid), d)))"

definition fail_order :: "string \<Rightarrow> string \<Rightarrow> i64 \<Rightarrow> unit db_op" where
  "fail_order order_id error_json now d =
     (Inr (), d\<lparr>db_orders := upd_where (\<lambda>r. ord_id r = order_id)
        (\<lambda>r. r\<lparr>ord_status := ''invalid'', ord_error := Some error_json, ord_updated := now\<rparr>) (db_orders d)\<rparr>)"

definition exec_on_invalid ::
  "sql_texts \<Rightarrow> string \<Rightarrow> string \<Rightarrow> string option \<Rightarrow> string \<Rightarrow> i64 \<Rightarrow> bool db_op" where
  "exec_on_invalid msg challenge_id authz_id order_id error_json now =
     db_then (mark_challenge_invalid challenge_id error_json now) (\<lambda>chall_rows.
       if chall_rows = 0 then db_ok False
       else db_then (set_authz_status authz_id ''invalid'' now) (\<lambda>_.
            db_then (case order_id of Some oid \<Rightarrow> db_ok (Some oid) | None \<Rightarrow> select_authz_order msg authz_id) (\<lambda>oid.
            db_then (case oid of None \<Rightarrow> db_ok () | Some i \<Rightarrow> fail_order i error_json now) (\<lambda>_.
            db_ok True))))"

definition order_not_ready :: "unit db_op \<Rightarrow> unit db_op" where
  "order_not_ready m d =
     (case m d of (Inl (Conflict _), d') \<Rightarrow> (Inl OrderNotReady, d') | other \<Rightarrow> other)"

definition exec_finalize ::
  "sql_texts \<Rightarrow> certificate_row \<Rightarrow> string \<Rightarrow> i64 \<Rightarrow> string option \<Rightarrow> bytes option \<Rightarrow> bool db_op" where
  "exec_finalize msg cert order_id now pred_cert_uuid star_csr_der =
     db_then (certs_insert msg cert) (\<lambda>_.
     db_then (order_not_ready (orders_set_certificate order_id (crt_id cert) now)) (\<lambda>_.
     db_then (case pred_cert_uuid of
                Some pred_uuid \<Rightarrow> db_then (certs_mark_replaced pred_uuid (crt_id cert)) (\<lambda>b. db_ok (\<not> b))
              | None \<Rightarrow> db_ok False) (\<lambda>pred_already_replaced.
     db_then (case star_csr_der of
                Some csr_der \<Rightarrow> orders_set_star_csr order_id csr_der
              | None \<Rightarrow> db_ok ()) (\<lambda>_.
     db_ok pred_already_replaced))))"

definition exec_new_account :: "sql_texts \<Rightarrow> account_row \<Rightarrow> string option \<Rightarrow> i64 \<Rightarrow> unit db_op" where
  "exec_new_account msg account kid_opt now =
     db_then (accounts_insert msg account) (\<lambda>_.
       case kid_opt of Some kid \<Rightarrow> eab_mark_used kid now | None \<Rightarrow> db_ok ())"

fun execute_op :: "sql_texts \<Rightarrow> write_op \<Rightarrow> db \<Rightarrow> write_reply \<times> db" where
  "execute_op msg (NewOrder order plans url) d = map_prod ReplyNewOrder id (exec_new_order msg order plans url d)"
| "execute_op msg (SetProcessing cid now) d =
     map_prod ReplySetProcessing id (challenges_set_processing_if_pending cid now d)"
| "execute_op msg (OnValid cid aid oid now) d = map_prod ReplyOnValid id (exec_on_valid cid aid oid now d)"
| "execute_op msg (OnInvalid cid aid oid err now) d =
     map_prod ReplyOnInvalid id (exec_on_invalid msg cid aid oid err now d)"
| "execute_op msg (Finalize cert oid now pred csr) d =
     map_prod ReplyFinalize id (exec_finalize msg cert oid now pred csr d)"
| "execute_op msg (NewAccount acc kid now) d = map_prod ReplyNewAccount id (exec_new_account msg acc kid now d)"

section \<open>The batch\<close>

record batch_io =
  begin_ok :: bool
  savepoint_ok :: "nat \<Rightarrow> bool"
  rollback_to_ok :: "nat \<Rightarrow> bool"
  commit_ok :: bool

type_synonym replies = "(nat \<times> write_reply) list"

text \<open>
  The savepoint loop: the replies sent at once, the deferred ones, and the database. A failed
  operation is rolled back to its savepoint.
\<close>

fun coalesce_ops ::
  "sql_texts \<Rightarrow> batch_io \<Rightarrow> nat \<Rightarrow> write_op list \<Rightarrow> db \<Rightarrow> replies \<times> (nat \<times> write_op \<times> write_reply) list \<times> db" where
  "coalesce_ops msg io i [] d = ([], [], d)"
| "coalesce_ops msg io i (op # ops) d =
     (if \<not> savepoint_ok io i
      then (case coalesce_ops msg io (Suc i) ops d of
              (sent, deferred, d') \<Rightarrow>
                ((i, send_error op (Database ''savepoint failed'')) # sent, deferred, d'))
      else (case execute_op msg op d of
              (reply, d1) \<Rightarrow>
                (case coalesce_ops msg io (Suc i) ops
                        (if reply_ok reply then d1 else if rollback_to_ok io i then d else d1) of
                   (sent, deferred, d') \<Rightarrow> (sent, (i, op, reply) # deferred, d'))))"

text \<open>One iteration of \<^verbatim>\<open>coalesce_loop\<close> on the batch \<open>ops\<close> taken off the channel.\<close>

definition coalesce_batch :: "sql_texts \<Rightarrow> batch_io \<Rightarrow> write_op list \<Rightarrow> db \<Rightarrow> replies \<times> db" where
  "coalesce_batch msg io ops d =
     (if \<not> begin_ok io
      then (map (\<lambda>(i, op). (i, send_error op (Database ''BEGIN IMMEDIATE failed''))) (enumerate 0 ops), d)
      else (case coalesce_ops msg io 0 ops d of
              (sent, deferred, d') \<Rightarrow>
                (sent @ map (\<lambda>(i, op, reply).
                   (i, if \<not> commit_ok io \<and> reply_ok reply
                       then error_reply op (Database ''batch commit failed'') else reply)) deferred,
                 if commit_ok io then d' else d)))"

section \<open>A batch is a sequence of transactions\<close>

text \<open>The specification: each operation in a transaction of its own, one after the other.\<close>

definition op_tx :: "sql_texts \<Rightarrow> write_op \<Rightarrow> db \<Rightarrow> write_reply \<times> db" where
  "op_tx msg op d = (case execute_op msg op d of (reply, d') \<Rightarrow> (reply, if reply_ok reply then d' else d))"

fun run_sequentially :: "sql_texts \<Rightarrow> write_op list \<Rightarrow> db \<Rightarrow> write_reply list \<times> db" where
  "run_sequentially msg [] d = ([], d)"
| "run_sequentially msg (op # ops) d =
     (case op_tx msg op d of (reply, d') \<Rightarrow>
        (case run_sequentially msg ops d' of (replies, d'') \<Rightarrow> (reply # replies, d'')))"

definition healthy :: "batch_io \<Rightarrow> bool" where
  "healthy io \<longleftrightarrow> begin_ok io \<and> (\<forall>i. savepoint_ok io i \<and> rollback_to_ok io i) \<and> commit_ok io"

lemma coalesce_ops_sequential:
  assumes "\<forall>i. savepoint_ok io i \<and> rollback_to_ok io i"
  shows "\<exists>deferred. coalesce_ops msg io i ops d = ([], deferred, snd (run_sequentially msg ops d))
    \<and> map (\<lambda>(i, op, reply). (i, reply)) deferred = enumerate i (fst (run_sequentially msg ops d))"
proof (induction ops arbitrary: i d)
  case (Cons op ops)
  obtain reply d1 where e: "execute_op msg op d = (reply, d1)" by fastforce
  let ?d = "if reply_ok reply then d1 else d"
  obtain deferred where IH: "coalesce_ops msg io (Suc i) ops ?d = ([], deferred, snd (run_sequentially msg ops ?d))"
    "map (\<lambda>(i, op, reply). (i, reply)) deferred = enumerate (Suc i) (fst (run_sequentially msg ops ?d))"
    using Cons.IH by blast
  then show ?case
    using assms e
    by (intro exI [of _ "(i, op, reply) # deferred"])
      (auto simp: op_tx_def split: prod.splits)
qed simp

lemma error_reply_not_ok [simp]: "\<not> reply_ok (error_reply op e)" "\<not> reply_ok (send_error op e)"
  by (cases op; simp add: send_error_def)+

text \<open>C8: batching is invisible. With working transaction statements, a batch leaves the database
  exactly as if its operations had run one after the other, each in a transaction of its own, and
  every operation gets exactly the reply it would have got there.\<close>

theorem batch_equals_sequence:
  assumes "healthy io"
  shows "coalesce_batch msg io ops d
           = (enumerate 0 (fst (run_sequentially msg ops d)), snd (run_sequentially msg ops d))"
proof -
  obtain deferred where c: "coalesce_ops msg io 0 ops d = ([], deferred, snd (run_sequentially msg ops d))"
    "map (\<lambda>(i, op, reply). (i, reply)) deferred = enumerate 0 (fst (run_sequentially msg ops d))"
    using coalesce_ops_sequential assms unfolding healthy_def by blast
  then show ?thesis using assms by (simp add: coalesce_batch_def healthy_def)
qed

theorem batch_equals_sequence_witness:
  "coalesce_batch (\<lambda>_. []) \<lparr>begin_ok = True, savepoint_ok = \<lambda>_. True, rollback_to_ok = \<lambda>_. True, commit_ok = True\<rparr>
     [NewAccount (sample_account ''a1'') None 1, NewAccount (sample_account ''a1'') None 2] empty_db
   = ([(0, ReplyNewAccount (Inr ())), (1, ReplyNewAccount (Inl (Database [])))],
      empty_db\<lparr>db_accounts := [sample_account ''a1'']\<rparr>)"
  by (subst batch_equals_sequence)
    (simp_all add: healthy_def op_tx_def exec_new_account_def db_then_def db_ok_def accounts_insert_def
      sql_insert_def account_exists_def account_from_str_def sample_defs from_sqlx_error_def)

lemma coalesce_ops_positions:
  assumes "coalesce_ops msg io i ops d = (sent, deferred, d')"
  shows "mset (map fst sent) + mset (map fst deferred) = mset [i..<i + length ops]
    \<and> (\<forall>(j, r) \<in> set sent. \<not> reply_ok r)"
  using assms
proof (induction ops arbitrary: i d sent deferred)
  case (Cons op ops)
  have up: "mset [i..<i + length (op # ops)] = add_mset i (mset [Suc i..<Suc i + length ops])"
    by (subst upt_rec) (simp del: mset_upt upt_Suc)
  obtain reply d1 where e: "execute_op msg op d = (reply, d1)" by fastforce
  obtain s2 f2 where
    rest: "coalesce_ops msg io (Suc i) ops
        (if savepoint_ok io i then if reply_ok reply then d1 else if rollback_to_ok io i then d else d1 else d)
      = (s2, f2, d')"
    and "sent = (if savepoint_ok io i then s2 else (i, send_error op (Database ''savepoint failed'')) # s2)"
    and "deferred = (if savepoint_ok io i then (i, op, reply) # f2 else f2)"
    using Cons.prems e by (auto split: prod.splits if_splits)
  then show ?case using Cons.IH [OF rest] unfolding up by auto
qed simp

text \<open>A batch answers everyone and is all or nothing at its boundary. Whatever statements fail,
  every operation of the batch gets exactly one reply; and if the transaction cannot be opened or
  committed, the database is unchanged and every one of those replies is an error.\<close>

theorem batch_replies_and_atomicity:
  "mset (map fst (fst (coalesce_batch msg io ops d))) = mset [0..<length ops]
   \<and> (if begin_ok io \<and> commit_ok io then True
      else snd (coalesce_batch msg io ops d) = d
         \<and> filter (\<lambda>(i, r). reply_ok r) (fst (coalesce_batch msg io ops d)) = [])"
proof (cases "begin_ok io")
  case True
  obtain sent deferred d' where c: "coalesce_ops msg io 0 ops d = (sent, deferred, d')"
    by (rule prod_cases3)
  let ?fin = "\<lambda>(i, op, reply). (i, if \<not> commit_ok io \<and> reply_ok reply
                 then error_reply op (Database ''batch commit failed'') else reply)"
  have "map fst (map ?fin deferred) = map fst deferred" by (auto simp: case_prod_beta)
  then show ?thesis
    using coalesce_ops_positions [OF c] True c
    by (auto simp: coalesce_batch_def filter_empty_conv case_prod_beta comp_def)
next
  case False
  have "map fst (map (\<lambda>(i, op). (i, send_error op (Database ''BEGIN IMMEDIATE failed''))) (enumerate 0 ops))
      = [0..<length ops]"
    by (simp add: case_prod_beta enumerate_eq_zip comp_def)
  then show ?thesis using False
    by (auto simp: coalesce_batch_def filter_empty_conv case_prod_beta)
qed

end
