(* ===== verification/Crdt_Hooks.thy ===== *)
theory Crdt_Hooks
  imports Crdt_Cluster Db_Model
begin

text \<open>
  The server's shared state as the handlers use it, and the hooks that mirror a database write into
  the replicated state (\<^verbatim>\<open>src/crdt_hooks.rs\<close>). Every hook does nothing without gossip; it gives up when
  the lock on the replicated state is not obtained in time (\<open>lock_ok\<close>), and otherwise writes the entry
  and wakes the gossip loop.
\<close>

section \<open>Application state\<close>

record app_state =
  st_db :: db
  st_crdt :: aka_crdt
  st_gen :: u64                  \<comment> \<open>\<^verbatim>\<open>CRDT_GENERATION\<close>\<close>
  st_node_id :: string
  st_gossip :: bool              \<comment> \<open>\<^verbatim>\<open>config.gossip.is_some()\<close>\<close>
  st_coalescer :: bool           \<comment> \<open>\<^verbatim>\<open>write_coalescer.is_some()\<close>\<close>
  st_notified :: bool            \<comment> \<open>a permit in \<^verbatim>\<open>write_notify\<close>\<close>

definition with_crdt :: "bool \<Rightarrow> (u64 \<Rightarrow> aka_crdt \<Rightarrow> u64 \<times> aka_crdt) \<Rightarrow> app_state \<Rightarrow> app_state" where
  "with_crdt lock_ok f st =
     (if \<not> st_gossip st \<or> \<not> lock_ok then st
      else case f (st_gen st) (st_crdt st) of
             (g, c) \<Rightarrow> st\<lparr>st_gen := g, st_crdt := c, st_notified := True\<rparr>)"

section \<open>Parameters and default entries\<close>

record account_upsert_params =
  aup_id :: string
  aup_status :: account_status
  aup_contact :: "string option"
  aup_public_key_der :: bytes
  aup_jwk_thumbprint :: string
  aup_created :: i64
  aup_updated :: i64
  aup_profile_grants :: "string option"
  aup_ca_id :: string

record order_upsert_params =
  oup_id :: string
  oup_account_id :: string
  oup_status :: order_status
  oup_expires :: "i64 option"
  oup_identifiers :: string
  oup_not_before :: "i64 option"
  oup_not_after :: "i64 option"
  oup_error :: "string option"
  oup_certificate_id :: "string option"
  oup_created :: i64
  oup_updated :: i64
  oup_ca_id :: string

record authz_upsert_params =
  zup_id :: string
  zup_order_id :: string
  zup_account_id :: string
  zup_status :: authz_status
  zup_identifier :: string
  zup_expires :: "i64 option"
  zup_wildcard :: bool
  zup_created :: i64
  zup_updated :: i64
  zup_ca_id :: string

record challenge_set_params =
  chp_id :: string
  chp_authz_id :: string
  chp_challenge_type :: string
  chp_status :: challenge_status
  chp_token :: string
  chp_validated :: "i64 option"
  chp_error :: "string option"
  chp_created :: i64
  chp_updated :: i64

record cert_upsert_params =
  cup_id :: string
  cup_order_id :: string
  cup_account_id :: string
  cup_serial_number :: string
  cup_status :: cert_status
  cup_not_before :: i64
  cup_not_after :: i64
  cup_revoked_at :: "i64 option"
  cup_revocation_reason :: "i64 option"
  cup_created :: i64
  cup_ca_id :: string

record policy_rule_upsert_params =
  pup_id :: string
  pup_scope :: string
  pup_name :: string
  pup_rule_json :: string
  pup_enabled :: bool
  pup_created_at :: string
  pup_updated_at :: string
  pup_created_by :: "string option"

text \<open>\<^verbatim>\<open>Default\<close> of the entry types, stored under the tombstone of an unknown key.\<close>

definition account_entry_default :: account_entry where
  "account_entry_default =
     \<lparr>ae_account_id = [], ae_status = [], ae_contact = None, ae_public_key_der = [],
      ae_jwk_thumbprint = [], ae_created = 0, ae_updated = 0, ae_profile_grants = None,
      ae_ca_id = []\<rparr>"

definition order_entry_default :: order_entry where
  "order_entry_default =
     \<lparr>oe_order_id = [], oe_account_id = [], oe_status = [], oe_expires = None,
      oe_identifiers = [], oe_not_before = None, oe_not_after = None, oe_error = None,
      oe_certificate_id = None, oe_created = 0, oe_updated = 0, oe_ca_id = [],
      oe_processing_node_id = None, oe_processing_claimed_at = None\<rparr>"

definition authz_entry_default :: authz_entry where
  "authz_entry_default =
     \<lparr>aze_authz_id = [], aze_order_id = [], aze_account_id = [], aze_status = [],
      aze_identifier = [], aze_expires = None, aze_wildcard = False, aze_created = 0,
      aze_updated = 0, aze_ca_id = []\<rparr>"

definition cert_entry_default :: cert_entry where
  "cert_entry_default =
     \<lparr>ce_cert_id = [], ce_order_id = [], ce_account_id = [], ce_serial_number = [],
      ce_status = [], ce_not_before = 0, ce_not_after = 0, ce_revoked_at = None,
      ce_revocation_reason = None, ce_created = 0, ce_ca_id = []\<rparr>"

definition operator_entry_default :: operator_entry where
  "operator_entry_default =
     \<lparr>ope_operator_id = 0, ope_name = [], ope_role = [], ope_ca_id = [], ope_created = 0\<rparr>"

definition delegation_entry_default :: delegation_entry where
  "delegation_entry_default =
     \<lparr>de_delegation_id = [], de_account_id = [], de_csr_template = [], de_created = 0,
      de_ca_id = []\<rparr>"

definition policy_rule_entry_default :: policy_rule_entry where
  "policy_rule_entry_default =
     \<lparr>pre_id = [], pre_scope = [], pre_name = [], pre_rule_json = [], pre_enabled = False,
      pre_created_at = [], pre_updated_at = [], pre_created_by = None\<rparr>"

section \<open>Hooks\<close>

definition on_account_upsert :: "bool \<Rightarrow> app_state \<Rightarrow> account_upsert_params \<Rightarrow> app_state" where
  "on_account_upsert lock_ok st p = with_crdt lock_ok (\<lambda>g c.
     case or_upsert g (accounts c) (aup_id p)
        \<lparr>ae_account_id = aup_id p, ae_status = account_as_str (aup_status p),
         ae_contact = aup_contact p, ae_public_key_der = aup_public_key_der p,
         ae_jwk_thumbprint = aup_jwk_thumbprint p, ae_created = aup_created p,
         ae_updated = aup_updated p, ae_profile_grants = aup_profile_grants p,
         ae_ca_id = aup_ca_id p\<rparr> (aup_updated p) of
       (g', m, _) \<Rightarrow> (g', c\<lparr>accounts := m\<rparr>)) st"

definition on_account_tombstone :: "bool \<Rightarrow> app_state \<Rightarrow> string \<Rightarrow> i64 \<Rightarrow> app_state" where
  "on_account_tombstone lock_ok st i now = with_crdt lock_ok (\<lambda>g c.
     case or_remove account_entry_default g (accounts c) i now of (g', m, _) \<Rightarrow> (g', c\<lparr>accounts := m\<rparr>)) st"

definition on_order_upsert :: "bool \<Rightarrow> app_state \<Rightarrow> order_upsert_params \<Rightarrow> app_state" where
  "on_order_upsert lock_ok st p = with_crdt lock_ok (\<lambda>g c.
     case or_upsert g (orders c) (oup_id p)
        \<lparr>oe_order_id = oup_id p, oe_account_id = oup_account_id p,
         oe_status = order_as_str (oup_status p), oe_expires = oup_expires p,
         oe_identifiers = oup_identifiers p, oe_not_before = oup_not_before p,
         oe_not_after = oup_not_after p, oe_error = oup_error p,
         oe_certificate_id = oup_certificate_id p, oe_created = oup_created p,
         oe_updated = oup_updated p, oe_ca_id = oup_ca_id p, oe_processing_node_id = None,
         oe_processing_claimed_at = None\<rparr> (oup_updated p) of
       (g', m, _) \<Rightarrow> (g', c\<lparr>orders := m\<rparr>)) st"

definition on_order_tombstone :: "bool \<Rightarrow> app_state \<Rightarrow> string \<Rightarrow> i64 \<Rightarrow> app_state" where
  "on_order_tombstone lock_ok st i now = with_crdt lock_ok (\<lambda>g c.
     case or_remove order_entry_default g (orders c) i now of (g', m, _) \<Rightarrow> (g', c\<lparr>orders := m\<rparr>)) st"

definition on_authz_upsert :: "bool \<Rightarrow> app_state \<Rightarrow> authz_upsert_params \<Rightarrow> app_state" where
  "on_authz_upsert lock_ok st p = with_crdt lock_ok (\<lambda>g c.
     case or_upsert g (authorizations c) (zup_id p)
        \<lparr>aze_authz_id = zup_id p, aze_order_id = zup_order_id p,
         aze_account_id = zup_account_id p, aze_status = authz_as_str (zup_status p),
         aze_identifier = zup_identifier p, aze_expires = zup_expires p,
         aze_wildcard = zup_wildcard p, aze_created = zup_created p, aze_updated = zup_updated p,
         aze_ca_id = zup_ca_id p\<rparr> (zup_updated p) of
       (g', m, _) \<Rightarrow> (g', c\<lparr>authorizations := m\<rparr>)) st"

definition on_authz_tombstone :: "bool \<Rightarrow> app_state \<Rightarrow> string \<Rightarrow> i64 \<Rightarrow> app_state" where
  "on_authz_tombstone lock_ok st i now = with_crdt lock_ok (\<lambda>g c.
     case or_remove authz_entry_default g (authorizations c) i now of (g', m, _) \<Rightarrow> (g', c\<lparr>authorizations := m\<rparr>)) st"

definition on_challenge_set :: "bool \<Rightarrow> app_state \<Rightarrow> challenge_set_params \<Rightarrow> app_state" where
  "on_challenge_set lock_ok st p = with_crdt lock_ok (\<lambda>g c.
     case lww_map_set g (challenges c) (chp_id p)
        \<lparr>che_challenge_id = chp_id p, che_authz_id = chp_authz_id p,
         che_challenge_type = chp_challenge_type p, che_status = challenge_as_str (chp_status p),
         che_token = chp_token p, che_validated = chp_validated p, che_error = chp_error p,
         che_created = chp_created p, che_updated = chp_updated p\<rparr>
        (chp_updated p) (st_node_id st) of
       (g', m, _) \<Rightarrow> (g', c\<lparr>challenges := m\<rparr>)) st"

definition on_cert_upsert :: "bool \<Rightarrow> app_state \<Rightarrow> cert_upsert_params \<Rightarrow> app_state" where
  "on_cert_upsert lock_ok st p = with_crdt lock_ok (\<lambda>g c.
     case or_upsert g (certificates c) (cup_id p)
        \<lparr>ce_cert_id = cup_id p, ce_order_id = cup_order_id p, ce_account_id = cup_account_id p,
         ce_serial_number = cup_serial_number p, ce_status = cert_as_str (cup_status p),
         ce_not_before = cup_not_before p, ce_not_after = cup_not_after p,
         ce_revoked_at = cup_revoked_at p, ce_revocation_reason = cup_revocation_reason p,
         ce_created = cup_created p, ce_ca_id = cup_ca_id p\<rparr> (cup_created p) of
       (g', m, _) \<Rightarrow> (g', c\<lparr>certificates := m\<rparr>)) st"

definition on_cert_tombstone :: "bool \<Rightarrow> app_state \<Rightarrow> string \<Rightarrow> i64 \<Rightarrow> app_state" where
  "on_cert_tombstone lock_ok st i now = with_crdt lock_ok (\<lambda>g c.
     case or_remove cert_entry_default g (certificates c) i now of (g', m, _) \<Rightarrow> (g', c\<lparr>certificates := m\<rparr>)) st"

definition on_eab_key_set ::
  "bool \<Rightarrow> app_state \<Rightarrow> string \<Rightarrow> string \<Rightarrow> i64 \<Rightarrow> i64 option \<Rightarrow> string option \<Rightarrow> app_state" where
  "on_eab_key_set lock_ok st kid hmac_key_b64u created used_at profile_grants = with_crdt lock_ok (\<lambda>g c.
     case lww_map_set g (eab_keys c) kid
        \<lparr>eke_kid = kid, eke_hmac_key_b64u = hmac_key_b64u, eke_created = created,
         eke_used_at = used_at, eke_profile_grants = profile_grants\<rparr>
        (case used_at of None \<Rightarrow> created | Some t \<Rightarrow> t) (st_node_id st) of
       (g', m, _) \<Rightarrow> (g', c\<lparr>eab_keys := m\<rparr>)) st"

definition on_operator_upsert ::
  "bool \<Rightarrow> app_state \<Rightarrow> i64 \<Rightarrow> string \<Rightarrow> string \<Rightarrow> string \<Rightarrow> i64 \<Rightarrow> app_state" where
  "on_operator_upsert lock_ok st i name role ca_id created = with_crdt lock_ok (\<lambda>g c.
     case or_upsert g (operators c) (show_int i)
        \<lparr>ope_operator_id = i, ope_name = name, ope_role = role, ope_ca_id = ca_id, ope_created = created\<rparr>
        created of
       (g', m, _) \<Rightarrow> (g', c\<lparr>operators := m\<rparr>)) st"

definition on_operator_tombstone :: "bool \<Rightarrow> app_state \<Rightarrow> i64 \<Rightarrow> i64 \<Rightarrow> app_state" where
  "on_operator_tombstone lock_ok st i now = with_crdt lock_ok (\<lambda>g c.
     case or_remove operator_entry_default g (operators c) (show_int i) now of (g', m, _) \<Rightarrow> (g', c\<lparr>operators := m\<rparr>)) st"

definition on_delegation_upsert ::
  "bool \<Rightarrow> app_state \<Rightarrow> string \<Rightarrow> string \<Rightarrow> string \<Rightarrow> i64 \<Rightarrow> string \<Rightarrow> app_state" where
  "on_delegation_upsert lock_ok st i account_id csr_template created ca_id = with_crdt lock_ok (\<lambda>g c.
     case or_upsert g (delegations c) i
        \<lparr>de_delegation_id = i, de_account_id = account_id, de_csr_template = csr_template,
         de_created = created, de_ca_id = ca_id\<rparr>
        created of
       (g', m, _) \<Rightarrow> (g', c\<lparr>delegations := m\<rparr>)) st"

definition on_delegation_tombstone :: "bool \<Rightarrow> app_state \<Rightarrow> string \<Rightarrow> i64 \<Rightarrow> app_state" where
  "on_delegation_tombstone lock_ok st i now = with_crdt lock_ok (\<lambda>g c.
     case or_remove delegation_entry_default g (delegations c) i now of (g', m, _) \<Rightarrow> (g', c\<lparr>delegations := m\<rparr>)) st"

definition on_policy_rule_upsert :: "bool \<Rightarrow> app_state \<Rightarrow> policy_rule_upsert_params \<Rightarrow> i64 \<Rightarrow> app_state" where
  "on_policy_rule_upsert lock_ok st p now = with_crdt lock_ok (\<lambda>g c.
     case or_upsert g (policy_rules c) (pup_id p)
        \<lparr>pre_id = pup_id p, pre_scope = pup_scope p, pre_name = pup_name p,
         pre_rule_json = pup_rule_json p, pre_enabled = pup_enabled p,
         pre_created_at = pup_created_at p, pre_updated_at = pup_updated_at p,
         pre_created_by = pup_created_by p\<rparr> now of
       (g', m, _) \<Rightarrow> (g', c\<lparr>policy_rules := m\<rparr>)) st"

definition on_policy_rule_remove :: "bool \<Rightarrow> app_state \<Rightarrow> string \<Rightarrow> i64 \<Rightarrow> app_state" where
  "on_policy_rule_remove lock_ok st i now = with_crdt lock_ok (\<lambda>g c.
     case or_remove policy_rule_entry_default g (policy_rules c) i now of (g', m, _) \<Rightarrow> (g', c\<lparr>policy_rules := m\<rparr>)) st"

lemmas hook_defs =
  on_account_upsert_def on_account_tombstone_def on_order_upsert_def on_order_tombstone_def
  on_authz_upsert_def on_authz_tombstone_def on_challenge_set_def on_cert_upsert_def
  on_cert_tombstone_def on_eab_key_set_def on_operator_upsert_def on_operator_tombstone_def
  on_delegation_upsert_def on_delegation_tombstone_def on_policy_rule_upsert_def
  on_policy_rule_remove_def

section \<open>Properties\<close>

lemma with_crdt_off: "\<not> st_gossip st \<Longrightarrow> with_crdt lock_ok f st = st"
  by (simp add: with_crdt_def)

lemma with_crdt_db [simp]: "st_db (with_crdt lock_ok f st) = st_db st"
  by (simp add: with_crdt_def split: prod.split)

lemma with_crdt_on:
  "st_gossip st \<Longrightarrow> f (st_gen st) (st_crdt st) = (g, c) \<Longrightarrow>
     with_crdt True f st = st\<lparr>st_gen := g, st_crdt := c, st_notified := True\<rparr>"
  by (simp add: with_crdt_def)

text \<open>Revocation reaches the replicated state and stays. After the tombstone hook of a
  certificate, the certificate reads as absent from the node's replicated state, and also after
  the node merges any well-formed state of a peer, however the peer lists that certificate; the
  database is not touched by the hook and the gossip loop is woken.\<close>

theorem cert_tombstone_replicated:
  assumes "st_gossip st" "aka_wf (st_crdt st)" "aka_wf peer"
    and "st' = on_cert_tombstone True st cert_id now"
  shows "or_get (certificates (st_crdt st')) cert_id = None
    \<and> or_get (certificates (snd (aka_merge g (st_crdt st') peer))) cert_id = None
    \<and> st_db st' = st_db st \<and> st_notified st'"
proof -
  obtain h m r where rm: "or_remove cert_entry_default (st_gen st) (certificates (st_crdt st)) cert_id now = (h, m, r)"
    by (rule prod_cases3)
  have c: "certificates (st_crdt st') = m" "st_notified st'" "st_db st' = st_db st"
    using assms(1,4) rm by (simp_all add: on_cert_tombstone_def with_crdt_def)
  have dead: "or_map_view m cert_id = OrDead"
    using rm by (auto simp: or_remove_def or_map_view_def Let_def hm_get_insert split: if_splits option.splits)
  obtain k where "certificates (snd (aka_merge g (st_crdt st') peer)) = snd (or_merge k m (certificates peer))"
    using c(1) by (auto simp: aka_merge_def Let_def case_prod_beta)
  moreover have "or_get (snd (or_merge k m (certificates peer))) cert_id = None"
    using dead assms(3) by (intro or_merge_tombstone_wins) (simp_all add: aka_wf_def)
  ultimately show ?thesis using dead c by (simp add: or_get_view)
qed

definition sample_state :: app_state where
  "sample_state = \<lparr>st_db = empty_db, st_crdt = aka_default, st_gen = 0, st_node_id = ''n1'',
     st_gossip = True, st_coalescer = False, st_notified = False\<rparr>"

theorem cert_tombstone_replicated_witness:
  "or_get (certificates (snd (aka_merge 3 (st_crdt (on_cert_tombstone True sample_state ''c1'' 5))
      (aka_default\<lparr>certificates := fst (snd (or_upsert 0 [] ''c1'' cert_entry_default 9))\<rparr>)))) ''c1'' = None"
  using cert_tombstone_replicated
    [OF _ _ _ refl, of sample_state "aka_default\<lparr>certificates := fst (snd (or_upsert 0 [] ''c1'' cert_entry_default 9))\<rparr>" "''c1''" 5 3]
  by (simp add: sample_state_def aka_wf_def aka_default_def or_upsert_def hm_wf_def)

end
