(* ===== verification/Validation.thy ===== *)
theory Validation
  imports Coalescer Crdt_Hooks
begin

text \<open>
  Challenge validation (\<^verbatim>\<open>src/validation/mod.rs\<close>) and the handler that starts it
  (\<^verbatim>\<open>src/routes/challenge.rs\<close>): the state transitions of challenge, authorization and order. The network
  checks themselves are a record of parameters, as are the JSON texts and the success of the
  transaction statements (\<open>io\<close>). Errors of type \<^verbatim>\<open>sqlx::Error\<close>, which the callers only log, are shown as
  the \<open>acme_error\<close> they convert to.
\<close>

section \<open>Recording the outcome\<close>

text \<open>The two audit events of this component, with their subject.\<close>

datatype audit_event = AuthChallengeOk string | AuthChallengeFail string

record validation_state = app_state +
  vs_audit :: "audit_event list"

abbreviation vs_record :: "audit_event \<Rightarrow> validation_state \<Rightarrow> validation_state" where
  "vs_record e st \<equiv> st\<lparr>vs_audit := vs_audit st @ [e]\<rparr>"

text \<open>A transaction of its own: nothing happens when it cannot be opened or committed.\<close>

definition own_tx :: "sql_texts \<Rightarrow> batch_io \<Rightarrow> 'a db_op \<Rightarrow> 'a db_op" where
  "own_tx msg io body d =
     (if \<not> begin_ok io then (Inl (Database (msg BeginFailed)), d)
      else case body d of
             (Inl e, _) \<Rightarrow> (Inl e, d)
           | (Inr x, d') \<Rightarrow> if commit_ok io then (Inr x, d') else (Inl (Database (msg CommitFailed)), d))"

text \<open>A single operation through the coalescer; others in its batch are other requests.\<close>

definition submit_on_valid ::
  "sql_texts \<Rightarrow> batch_io \<Rightarrow> string \<Rightarrow> string \<Rightarrow> string \<Rightarrow> i64 \<Rightarrow> (bool \<times> bool) db_op" where
  "submit_on_valid msg io challenge_id authz_id order_id now d =
     (case coalesce_batch msg io [OnValid challenge_id authz_id order_id now] d of
        ([(_, ReplyOnValid r)], d') \<Rightarrow> (r, d')
      | (_, d') \<Rightarrow> (Inl (Database ''coalescer reply dropped''), d'))"

definition submit_on_invalid ::
  "sql_texts \<Rightarrow> batch_io \<Rightarrow> string \<Rightarrow> string \<Rightarrow> string option \<Rightarrow> string \<Rightarrow> i64 \<Rightarrow> bool db_op" where
  "submit_on_invalid msg io challenge_id authz_id order_id error_json now d =
     (case coalesce_batch msg io [OnInvalid challenge_id authz_id order_id error_json now] d of
        ([(_, ReplyOnInvalid r)], d') \<Rightarrow> (r, d')
      | (_, d') \<Rightarrow> (Inl (Database ''coalescer reply dropped''), d'))"

text \<open>The direct path of \<^verbatim>\<open>on_valid\<close> issues its own statements, in its own transaction.\<close>

definition on_valid_direct :: "string \<Rightarrow> string \<Rightarrow> string \<Rightarrow> i64 \<Rightarrow> (bool \<times> bool) db_op" where
  "on_valid_direct challenge_id authz_id order_id now d =
     (let is_proc = (\<lambda>c. ch_id c = challenge_id \<and> ch_status c = ''processing'');
          d1 = d\<lparr>db_challenges := upd_where is_proc (\<lambda>c. c\<lparr>ch_status := ''valid'',
                   ch_validated := Some now, ch_updated := now\<rparr>) (db_challenges d)\<rparr>;
          d2 = d1\<lparr>db_authzs := upd_where (\<lambda>a. az_id (azt_row a) = authz_id)
                   (\<lambda>a. a\<lparr>azt_row := (azt_row a)\<lparr>az_status := ''valid'', az_updated := now\<rparr>\<rparr>) (db_authzs d1)\<rparr>;
          all_done = (\<lambda>r. ord_id r = order_id \<and>
             \<not> (\<exists>a \<in> set (db_authzs d2). azt_order_id a = Some order_id \<and> az_status (azt_row a) \<noteq> ''valid''));
          d3 = d2\<lparr>db_orders := upd_where all_done (\<lambda>r. r\<lparr>ord_status := ''ready'', ord_error := None,
                   ord_updated := now\<rparr>) (db_orders d2)\<rparr>
      in if affected is_proc (db_challenges d) = 0 then (Inr (False, False), d1)
         else (Inr (True, affected all_done (db_orders d2) > 0), d3))"

text \<open>The update of the replicated state after a successful validation.\<close>

definition on_valid_challenge_entry :: "string \<Rightarrow> i64 \<Rightarrow> string \<Rightarrow> u64 \<times> aka_crdt \<Rightarrow> u64 \<times> aka_crdt" where
  "on_valid_challenge_entry challenge_id now node = (\<lambda>(g, c).
     case lww_map_get (challenges c) challenge_id of
       None \<Rightarrow> (g, c)
     | Some ch \<Rightarrow> (case lww_map_set g (challenges c) challenge_id
           (ch\<lparr>che_status := ''valid'', che_validated := Some now, che_updated := now\<rparr>) now node of
         (g', m, _) \<Rightarrow> (g', c\<lparr>challenges := m\<rparr>)))"

definition on_valid_authz_entry :: "string \<Rightarrow> i64 \<Rightarrow> u64 \<times> aka_crdt \<Rightarrow> u64 \<times> aka_crdt" where
  "on_valid_authz_entry authz_id now = (\<lambda>(g, c).
     case or_get (authorizations c) authz_id of
       None \<Rightarrow> (g, c)
     | Some az \<Rightarrow> (case or_upsert g (authorizations c) authz_id
           (az\<lparr>aze_status := ''valid'', aze_updated := now\<rparr>) now of
         (g', m, _) \<Rightarrow> (g', c\<lparr>authorizations := m\<rparr>)))"

definition on_valid_order_entry :: "string \<Rightarrow> i64 \<Rightarrow> u64 \<times> aka_crdt \<Rightarrow> u64 \<times> aka_crdt" where
  "on_valid_order_entry order_id now = (\<lambda>(g, c).
     case or_get (orders c) order_id of
       None \<Rightarrow> (g, c)
     | Some ord \<Rightarrow> (case or_upsert g (orders c) order_id
           (ord\<lparr>oe_status := ''ready'', oe_error := None, oe_updated := now\<rparr>) now of
         (g', m, _) \<Rightarrow> (g', c\<lparr>orders := m\<rparr>)))"

definition on_valid ::
  "sql_texts \<Rightarrow> batch_io \<Rightarrow> string \<Rightarrow> string \<Rightarrow> string \<Rightarrow> i64 \<Rightarrow> validation_state \<Rightarrow> bool result \<times> validation_state" where
  "on_valid msg io challenge_id authz_id order_id now st =
     (case (if st_coalescer st
            then submit_on_valid msg io challenge_id authz_id order_id now (st_db st)
            else own_tx msg io (on_valid_direct challenge_id authz_id order_id now) (st_db st)) of
        (Inl e, d) \<Rightarrow> (Inl e, st\<lparr>st_db := d\<rparr>)
      | (Inr (validated, order_advanced), d) \<Rightarrow>
          let st1 = st\<lparr>st_db := d\<rparr> in
          if \<not> validated then (Inr False, st1)
          else
            let st2 = (if st_gossip st1
                       then case (if order_advanced then on_valid_order_entry order_id now else (\<lambda>x. x))
                                   (on_valid_authz_entry authz_id now
                                     (on_valid_challenge_entry challenge_id now (st_node_id st1)
                                       (st_gen st1, st_crdt st1))) of
                              (g, c) \<Rightarrow> st1\<lparr>st_gen := g, st_crdt := c\<rparr>
                       else st1)
            in (Inr order_advanced, if order_advanced then vs_record (AuthChallengeOk authz_id) st2 else st2))"

text \<open>The problem type stored with a failed challenge.\<close>

definition err_type :: "acme_error \<Rightarrow> string" where
  "err_type e = (case e of
       Connection _ \<Rightarrow> acme_urn ''connection''
     | Dns _ \<Rightarrow> acme_urn ''dns''
     | Tls _ \<Rightarrow> acme_urn ''tls''
     | IncorrectResponse _ \<Rightarrow> acme_urn ''incorrectResponse''
     | _ \<Rightarrow> acme_urn ''serverInternal'')"

definition on_invalid_direct ::
  "sql_texts \<Rightarrow> string \<Rightarrow> string \<Rightarrow> string option \<Rightarrow> string \<Rightarrow> i64 \<Rightarrow> bool db_op" where
  "on_invalid_direct msg challenge_id authz_id order_id error_json now d =
     (let is_proc = (\<lambda>c. ch_id c = challenge_id \<and> ch_status c = ''processing'');
          d1 = d\<lparr>db_challenges := upd_where is_proc (\<lambda>c. c\<lparr>ch_status := ''invalid'',
                   ch_error := Some error_json, ch_updated := now\<rparr>) (db_challenges d)\<rparr>;
          d2 = d1\<lparr>db_authzs := upd_where (\<lambda>a. az_id (azt_row a) = authz_id)
                   (\<lambda>a. a\<lparr>azt_row := (azt_row a)\<lparr>az_status := ''invalid'', az_updated := now\<rparr>\<rparr>) (db_authzs d1)\<rparr>
      in if affected is_proc (db_challenges d) = 0 then (Inr False, d1)
         else case (case order_id of
                      Some i \<Rightarrow> (Inr (Some i), d2)
                    | None \<Rightarrow> select_authz_order msg authz_id d2) of
                (Inl e, d3) \<Rightarrow> (Inl e, d3)
              | (Inr None, d3) \<Rightarrow> (Inr True, d3)
              | (Inr (Some i), d3) \<Rightarrow>
                  (Inr True, d3\<lparr>db_orders := upd_where (\<lambda>r. ord_id r = i)
                     (\<lambda>r. r\<lparr>ord_status := ''invalid'', ord_error := Some error_json, ord_updated := now\<rparr>)
                     (db_orders d3)\<rparr>))"

definition on_invalid_with_order ::
  "sql_texts \<Rightarrow> batch_io \<Rightarrow> (string \<Rightarrow> string \<Rightarrow> string) \<Rightarrow> string \<Rightarrow> string \<Rightarrow> string option \<Rightarrow> acme_error
     \<Rightarrow> i64 \<Rightarrow> validation_state \<Rightarrow> bool result \<times> validation_state" where
  "on_invalid_with_order msg io problem_json challenge_id authz_id order_id err now st =
     (let error_json = problem_json (err_type err) (error_message err) in
      case (if st_coalescer st
            then submit_on_invalid msg io challenge_id authz_id order_id error_json now (st_db st)
            else own_tx msg io (on_invalid_direct msg challenge_id authz_id order_id error_json now) (st_db st)) of
        (Inl e, d) \<Rightarrow> (Inl e, st\<lparr>st_db := d\<rparr>)
      | (Inr True, d) \<Rightarrow> (Inr True, vs_record (AuthChallengeFail authz_id) (st\<lparr>st_db := d\<rparr>))
      | (Inr False, d) \<Rightarrow> (Inr False, st\<lparr>st_db := d\<rparr>))"

definition on_invalid ::
  "sql_texts \<Rightarrow> batch_io \<Rightarrow> (string \<Rightarrow> string \<Rightarrow> string) \<Rightarrow> string \<Rightarrow> string \<Rightarrow> acme_error \<Rightarrow> i64
     \<Rightarrow> validation_state \<Rightarrow> bool result \<times> validation_state" where
  "on_invalid msg io problem_json challenge_id authz_id err now st =
     on_invalid_with_order msg io problem_json challenge_id authz_id None err now st"

section \<open>Running a validation\<close>

record challenge_params =
  cp_challenge_id :: string
  cp_authz_id :: string
  cp_order_id :: string
  cp_chall_type :: string
  cp_id_type :: string
  cp_id_value :: string
  cp_key_auth :: string
  cp_token :: string
  cp_onion_csr_der :: "bytes option"
  cp_account_id :: string
  cp_authority_token :: "string option"
  cp_challenge_created :: i64

text \<open>
  The validators of the submodules. The token-authority check and the sending of the challenge
  e-mail also write to the database.
\<close>

record validators =
  v_http01 :: "challenge_params \<Rightarrow> unit result"
  v_dns01 :: "challenge_params \<Rightarrow> unit result"
  v_tls_alpn01 :: "challenge_params \<Rightarrow> unit result"
  v_dns_persist_01 :: "challenge_params \<Rightarrow> unit result"
  v_onion_csr_01 :: "challenge_params \<Rightarrow> bytes \<Rightarrow> unit result"
  v_tkauth01 :: "challenge_params \<Rightarrow> string \<Rightarrow> unit db_op"
  v_send_email :: "challenge_params \<Rightarrow> unit db_op"

definition dispatch :: "validators \<Rightarrow> challenge_params \<Rightarrow> unit result" where
  "dispatch v p =
     (let t = cp_chall_type p in
      if t = ''http-01'' then v_http01 v p
      else if t = ''dns-01'' then v_dns01 v p
      else if t = ''tls-alpn-01'' then v_tls_alpn01 v p
      else if t = ''dns-persist-01'' then v_dns_persist_01 v p
      else if t = ''onion-csr-01'' then
        (case cp_onion_csr_der p of
           None \<Rightarrow> Inl (IncorrectResponse ''onion-csr-01: CSR not provided in challenge response'')
         | Some csr_der \<Rightarrow> v_onion_csr_01 v p csr_der)
      else Inl (IncorrectResponse (''unsupported challenge type: '' @ t)))"

text \<open>The early check of \<^verbatim>\<open>dns-persist-01\<close>: the account must still be valid.\<close>

definition dns_persist_account_error :: "sql_texts \<Rightarrow> db \<Rightarrow> string \<Rightarrow> acme_error option" where
  "dns_persist_account_error msg d account_id =
     (case find (\<lambda>r. acc_id r = account_id) (db_accounts d) of
        None \<Rightarrow> Some (Internal (''account status lookup: '' @ msg RowNotFound))
      | Some r \<Rightarrow> if acc_status r = ''valid'' then None
                  else Some (Unauthorized (''dns-persist-01: account '' @ account_id @ '' is '' @ acc_status r)))"

definition validate_challenge ::
  "sql_texts \<Rightarrow> batch_io \<Rightarrow> (string \<Rightarrow> string \<Rightarrow> string) \<Rightarrow> validators \<Rightarrow> i64 \<Rightarrow> challenge_params
     \<Rightarrow> validation_state \<Rightarrow> string \<times> validation_state" where
  "validate_challenge msg io problem_json v now p st =
     (let invalid = (\<lambda>st e. (''invalid'',
            snd (on_invalid_with_order msg io problem_json (cp_challenge_id p) (cp_authz_id p)
                   (Some (cp_order_id p)) e now st)));
          valid = (\<lambda>st. (''valid'',
            snd (on_valid msg io (cp_challenge_id p) (cp_authz_id p) (cp_order_id p) now st)));
          persist = (if cp_chall_type p = ''dns-persist-01''
                     then dns_persist_account_error msg (st_db st) (cp_account_id p) else None)
      in case persist of
           Some e \<Rightarrow> invalid st e
         | None \<Rightarrow>
             if cp_chall_type p = ''tkauth-01'' then
               (case cp_authority_token p of
                  None \<Rightarrow> invalid st (IncorrectResponse
                    ''tkauth-01: authority token not provided in challenge response'')
                | Some token_jwt \<Rightarrow>
                    (case v_tkauth01 v p token_jwt (st_db st) of
                       (Inr _, d) \<Rightarrow> valid (st\<lparr>st_db := d\<rparr>)
                     | (Inl e, d) \<Rightarrow> invalid (st\<lparr>st_db := d\<rparr>) e))
             else if cp_chall_type p = ''email-reply-00'' then
               (case v_send_email v p (st_db st) of
                  (Inr _, d) \<Rightarrow> (''processing'', st\<lparr>st_db := d\<rparr>)
                | (Inl e, d) \<Rightarrow> invalid (st\<lparr>st_db := d\<rparr>) e)
             else (case dispatch v p of Inr _ \<Rightarrow> valid st | Inl e \<Rightarrow> invalid st e))"

section \<open>The handler that starts a validation\<close>

record jws_context =
  ctx_account_id :: "string option"
  ctx_jwk_thumbprint :: "string option"

text \<open>What the JSON and base64 libraries make of the stored identifier and of the request payload.\<close>

datatype ident_parse = IdentCorrupt string | IdentNoType | IdentNoValue | Ident string string

datatype onion_payload = OnionJsonError string | OnionBase64Error string | OnionCsr bytes

datatype tkauth_payload = TkauthJsonError string | TkauthToken string

definition account_uri :: "string \<Rightarrow> string \<Rightarrow> string" where
  "account_uri acme_pfx account_id = acme_pfx @ ''/account/'' @ account_id"

text \<open>
  The handler: the challenge to render, the new state, and the validation task it spawned, if any.
  The parameters \<open>ident\<close>, \<open>onion\<close> and \<open>tkauth\<close> are the library results above.
\<close>

definition flip_to_processing :: "sql_texts \<Rightarrow> batch_io \<Rightarrow> bool \<Rightarrow> string \<Rightarrow> i64 \<Rightarrow> u64 db_op" where
  "flip_to_processing msg io coalesced challenge_id now d =
     (if coalesced
      then (case coalesce_batch msg io [SetProcessing challenge_id now] d of
              ([(_, ReplySetProcessing r)], d') \<Rightarrow> (r, d')
            | (_, d') \<Rightarrow> (Inl (Database ''coalescer reply dropped''), d'))
      else challenges_set_processing_if_pending challenge_id now d)"

definition start_validation ::
  "string \<Rightarrow> string \<Rightarrow> string \<Rightarrow> string \<Rightarrow> authorization_row \<Rightarrow> challenge_row
     \<Rightarrow> ident_parse \<Rightarrow> onion_payload \<Rightarrow> tkauth_payload \<Rightarrow> challenge_params result" where
  "start_validation pfx account_id jwk_thumbprint chall_type authz challenge ident onion tkauth =
     (case ident of
        IdentCorrupt e \<Rightarrow> Inl (Internal (''corrupt identifier in authorization '' @ az_id authz @ '': '' @ e))
      | IdentNoType \<Rightarrow> Inl (Internal (''missing or non-string '' @ quoted ''type'' @
          '' in identifier for authorization '' @ az_id authz))
      | IdentNoValue \<Rightarrow> Inl (Internal (''missing or non-string '' @ quoted ''value'' @
          '' in identifier for authorization '' @ az_id authz))
      | Ident id_type id_value \<Rightarrow>
          let mk = (\<lambda>csr tok. Inr
            \<lparr>cp_challenge_id = ch_id challenge, cp_authz_id = az_id authz, cp_order_id = az_order_id authz,
             cp_chall_type = chall_type, cp_id_type = id_type, cp_id_value = id_value,
             cp_key_auth = (if chall_type = ''dns-persist-01'' then account_uri pfx account_id
                            else ch_token challenge @ ''.'' @ jwk_thumbprint),
             cp_token = ch_token challenge, cp_onion_csr_der = csr, cp_account_id = account_id,
             cp_authority_token = tok, cp_challenge_created = ch_created challenge\<rparr>)
          in if chall_type = ''onion-csr-01'' then
               (case onion of
                  OnionJsonError e \<Rightarrow> Inl (BadRequest
                    (''onion-csr-01: payload must be {'' @ [CHR 0x22] @ ''csr'' @ [CHR 0x22] @ '':'' @ [CHR 0x22]
                     @ ''<base64url>'' @ [CHR 0x22] @ ''}: '' @ e))
                | OnionBase64Error e \<Rightarrow> Inl (BadRequest
                    (''onion-csr-01: csr field is not valid base64url: '' @ e))
                | OnionCsr der \<Rightarrow> mk (Some der) None)
             else if chall_type = ''tkauth-01'' then
               (case tkauth of
                  TkauthJsonError e \<Rightarrow> Inl (BadRequest
                    (''tkauth-01: payload must be {'' @ [CHR 0x22] @ ''tkauth'' @ [CHR 0x22] @ '':'' @ [CHR 0x22]
                     @ ''<JWT>'' @ [CHR 0x22] @ ''}: '' @ e))
                | TkauthToken t \<Rightarrow> mk None (Some t))
             else mk None None)"

definition respond_challenge ::
  "sql_texts \<Rightarrow> batch_io \<Rightarrow> bool \<Rightarrow> i64 \<Rightarrow> string \<Rightarrow> string \<Rightarrow> string \<Rightarrow> string \<Rightarrow> jws_context
     \<Rightarrow> (string \<Rightarrow> ident_parse) \<Rightarrow> onion_payload \<Rightarrow> tkauth_payload \<Rightarrow> app_state
     \<Rightarrow> challenge_row result \<times> app_state \<times> challenge_params option" where
  "respond_challenge msg io lock_ok now ca_id pfx authz_id chall_type ctx ident onion tkauth st =
     (case ctx_account_id ctx of
        None \<Rightarrow> (Inl (Unauthorized ''kid required''), st, None)
      | Some account_id \<Rightarrow>
     (case ctx_jwk_thumbprint ctx of
        None \<Rightarrow> (Inl (Internal ''JWK thumbprint missing in challenge handler''), st, None)
      | Some jwk_thumbprint \<Rightarrow>
     (case fst (authz_get_with_challenges authz_id (st_db st)) of
        Inl e \<Rightarrow> (Inl e, st, None)
      | Inr None \<Rightarrow> (Inl NotFound, st, None)
      | Inr (Some (authz, challs)) \<Rightarrow>
          if az_account_id authz \<noteq> account_id
          then (Inl (Unauthorized ''authorization belongs to different account''), st, None)
          else if az_ca_id authz \<noteq> [] \<and> az_ca_id authz \<noteq> ''default'' \<and> az_ca_id authz \<noteq> ca_id
          then (Inl NotFound, st, None)
          else (case find (\<lambda>c. ch_type c = chall_type) challs of
                  None \<Rightarrow> (Inl NotFound, st, None)
                | Some challenge \<Rightarrow>
                    if authz_from_str (az_status authz) \<noteq> Some AuthzPending
                       \<or> challenge_from_str (ch_status challenge) \<noteq> Some ChallPending
                    then (Inr challenge, st, None)
                    else (case flip_to_processing msg io (st_coalescer st) (ch_id challenge) now (st_db st) of
                            (Inl e, d) \<Rightarrow> (Inl e, st\<lparr>st_db := d\<rparr>, None)
                          | (Inr n, d) \<Rightarrow>
                              if n = 0 then (Inr challenge, st\<lparr>st_db := d\<rparr>, None)
                              else
                                let st1 = on_challenge_set lock_ok (st\<lparr>st_db := d\<rparr>)
                                      \<lparr>chp_id = ch_id challenge, chp_authz_id = authz_id,
                                       chp_challenge_type = chall_type, chp_status = ChallProcessing,
                                       chp_token = ch_token challenge, chp_validated = ch_validated challenge,
                                       chp_error = ch_error challenge, chp_created = ch_created challenge,
                                       chp_updated = now\<rparr>
                                in (case start_validation pfx account_id jwk_thumbprint chall_type authz challenge
                                           (ident (az_identifier authz)) onion tkauth of
                                      Inl e \<Rightarrow> (Inl e, st1, None)
                                    | Inr params \<Rightarrow>
                                        (Inr (challenge\<lparr>ch_status := ''processing''\<rparr>), st1, Some params)))))))"

end
