(* ===== verification/Acme_Lifecycle.thy ===== *)
theory Acme_Lifecycle
  imports Validation
begin

text \<open>
  The properties of the database operations that drive the life of accounts, orders,
  authorizations and challenges: integrity of the tables, readiness of orders, finalization, the
  two paths of validation, and where the code departs from what it means to do.
\<close>

section \<open>Integrity of the tables\<close>

definition keys_unique :: "db \<Rightarrow> bool" where
  "keys_unique d \<longleftrightarrow>
     distinct (map acc_id (db_accounts d)) \<and> distinct (map acc_jwk_thumbprint (db_accounts d)) \<and>
     distinct (map ord_id (db_orders d)) \<and> distinct (map (az_id \<circ> azt_row) (db_authzs d)) \<and>
     distinct (map ch_id (db_challenges d)) \<and> distinct (map crt_id (db_certs d)) \<and>
     distinct (map crt_serial_number (db_certs d)) \<and> distinct (map eab_kid (db_eab_keys d))"

definition refs_ok :: "db \<Rightarrow> bool" where
  "refs_ok d \<longleftrightarrow>
     (\<forall>r \<in> set (db_orders d). account_exists d (ord_account_id r) \<and>
        opt_ref (delegation_exists d) (ord_delegation_id r)) \<and>
     (\<forall>a \<in> set (db_authzs d). account_exists d (az_account_id (azt_row a)) \<and>
        opt_ref (order_exists d) (azt_order_id a)) \<and>
     (\<forall>c \<in> set (db_challenges d). authz_exists d (ch_authz_id c)) \<and>
     (\<forall>r \<in> set (db_certs d). order_exists d (crt_order_id r) \<and> account_exists d (crt_account_id r))"

definition statuses_ok :: "db \<Rightarrow> bool" where
  "statuses_ok d \<longleftrightarrow>
     (\<forall>r \<in> set (db_accounts d). account_from_str (acc_status r) \<noteq> None) \<and>
     (\<forall>r \<in> set (db_orders d). order_from_str (ord_status r) \<noteq> None) \<and>
     (\<forall>a \<in> set (db_authzs d). authz_from_str (az_status (azt_row a)) \<noteq> None) \<and>
     (\<forall>c \<in> set (db_challenges d). challenge_from_str (ch_status c) \<noteq> None) \<and>
     (\<forall>r \<in> set (db_certs d). cert_from_str (crt_status r) \<noteq> None)"

definition db_wf :: "db \<Rightarrow> bool" where
  "db_wf d \<longleftrightarrow> keys_unique d \<and> refs_ok d \<and> statuses_ok d"

text \<open>An operation that keeps a property of the database; closed under sequencing.\<close>

definition preserves :: "(db \<Rightarrow> bool) \<Rightarrow> 'a db_op \<Rightarrow> bool" where
  "preserves P m \<longleftrightarrow> (\<forall>d. P d \<longrightarrow> P (snd (m d)))"

lemma preservesI: "(\<And>d. P d \<Longrightarrow> P (snd (m d))) \<Longrightarrow> preserves P m"
  by (simp add: preserves_def)

lemma preservesD: "preserves P m \<Longrightarrow> P d \<Longrightarrow> P (snd (m d))"
  by (simp add: preserves_def)

lemma preserves_ok [simp]: "preserves P (db_ok x)"
  by (simp add: preserves_def db_ok_def)

lemma preserves_then: "preserves P m \<Longrightarrow> (\<And>x. preserves P (f x)) \<Longrightarrow> preserves P (db_then m f)"
  by (auto simp: preserves_def db_then_def split: prod.split sum.split)

lemmas wf_defs = db_wf_def keys_unique_def refs_ok_def statuses_ok_def

text \<open>Which statements can change which references.\<close>

lemma exists_frame [simp]:
  "account_exists (d\<lparr>db_orders := os\<rparr>) = account_exists d"
  "account_exists (d\<lparr>db_authzs := as\<rparr>) = account_exists d"
  "account_exists (d\<lparr>db_challenges := cs\<rparr>) = account_exists d"
  "account_exists (d\<lparr>db_certs := crs\<rparr>) = account_exists d"
  "account_exists (d\<lparr>db_eab_keys := ks\<rparr>) = account_exists d"
  "order_exists (d\<lparr>db_accounts := xs\<rparr>) = order_exists d"
  "order_exists (d\<lparr>db_authzs := as\<rparr>) = order_exists d"
  "order_exists (d\<lparr>db_challenges := cs\<rparr>) = order_exists d"
  "order_exists (d\<lparr>db_certs := crs\<rparr>) = order_exists d"
  "order_exists (d\<lparr>db_eab_keys := ks\<rparr>) = order_exists d"
  "authz_exists (d\<lparr>db_accounts := xs\<rparr>) = authz_exists d"
  "authz_exists (d\<lparr>db_orders := os\<rparr>) = authz_exists d"
  "authz_exists (d\<lparr>db_challenges := cs\<rparr>) = authz_exists d"
  "authz_exists (d\<lparr>db_certs := crs\<rparr>) = authz_exists d"
  "authz_exists (d\<lparr>db_eab_keys := ks\<rparr>) = authz_exists d"
  "delegation_exists (d\<lparr>db_accounts := xs\<rparr>) = delegation_exists d"
  "delegation_exists (d\<lparr>db_orders := os\<rparr>) = delegation_exists d"
  "delegation_exists (d\<lparr>db_authzs := as\<rparr>) = delegation_exists d"
  "delegation_exists (d\<lparr>db_challenges := cs\<rparr>) = delegation_exists d"
  "delegation_exists (d\<lparr>db_certs := crs\<rparr>) = delegation_exists d"
  "delegation_exists (d\<lparr>db_eab_keys := ks\<rparr>) = delegation_exists d"
  by (simp_all add: fun_eq_iff account_exists_def order_exists_def authz_exists_def delegation_exists_def)

lemma order_exists_upd [simp]:
  "(\<And>r. ord_id (f r) = ord_id r) \<Longrightarrow> order_exists (d\<lparr>db_orders := upd_where p f (db_orders d)\<rparr>) = order_exists d"
  by (simp add: order_exists_def fun_eq_iff upd_where_map del: set_map)

lemma authz_exists_upd [simp]:
  "(\<And>a. az_id (azt_row (f a)) = az_id (azt_row a)) \<Longrightarrow>
     authz_exists (d\<lparr>db_authzs := upd_where p f (db_authzs d)\<rparr>) = authz_exists d"
  by (simp add: authz_exists_def fun_eq_iff upd_where_map del: set_map)

lemma exists_append [simp]:
  "order_exists (d\<lparr>db_orders := db_orders d @ [r]\<rparr>) i \<longleftrightarrow> order_exists d i \<or> i = ord_id r"
  "account_exists (d\<lparr>db_accounts := db_accounts d @ [x]\<rparr>) i \<longleftrightarrow> account_exists d i \<or> i = acc_id x"
  "authz_exists (d\<lparr>db_authzs := db_authzs d @ [a]\<rparr>) i \<longleftrightarrow> authz_exists d i \<or> i = az_id (azt_row a)"
  by (auto simp: order_exists_def account_exists_def authz_exists_def)

lemma opt_ref_mono: "opt_ref P k \<Longrightarrow> (\<And>i. P i \<Longrightarrow> Q i) \<Longrightarrow> opt_ref Q k"
  by (auto simp: opt_ref_def split: option.splits)

section \<open>Statements that keep the tables intact\<close>

text \<open>Updates that keep keys, references and the vocabulary of a status.\<close>

lemma wf_upd_orders:
  assumes "db_wf d"
    and "\<And>r. ord_id (f r) = ord_id r \<and> ord_account_id (f r) = ord_account_id r
           \<and> ord_delegation_id (f r) = ord_delegation_id r"
    and "\<And>r. order_from_str (ord_status r) \<noteq> None \<Longrightarrow> order_from_str (ord_status (f r)) \<noteq> None"
  shows "db_wf (d\<lparr>db_orders := upd_where p f (db_orders d)\<rparr>)"
  using assms by (auto simp: wf_defs upd_where_map ball_upd_where)

lemma wf_upd_authzs:
  assumes "db_wf d"
    and "\<And>a. az_id (azt_row (f a)) = az_id (azt_row a) \<and> az_account_id (azt_row (f a)) = az_account_id (azt_row a)
           \<and> azt_order_id (f a) = azt_order_id a"
    and "\<And>a. authz_from_str (az_status (azt_row a)) \<noteq> None \<Longrightarrow> authz_from_str (az_status (azt_row (f a))) \<noteq> None"
  shows "db_wf (d\<lparr>db_authzs := upd_where p f (db_authzs d)\<rparr>)"
  using assms by (auto simp: wf_defs upd_where_map ball_upd_where)

lemma wf_upd_challenges:
  assumes "db_wf d"
    and "\<And>c. ch_id (f c) = ch_id c \<and> ch_authz_id (f c) = ch_authz_id c"
    and "\<And>c. challenge_from_str (ch_status c) \<noteq> None \<Longrightarrow> challenge_from_str (ch_status (f c)) \<noteq> None"
  shows "db_wf (d\<lparr>db_challenges := upd_where p f (db_challenges d)\<rparr>)"
  using assms by (auto simp: wf_defs upd_where_map ball_upd_where)

lemma wf_upd_certs:
  assumes "db_wf d"
    and "\<And>r. crt_id (f r) = crt_id r \<and> crt_serial_number (f r) = crt_serial_number r
           \<and> crt_order_id (f r) = crt_order_id r \<and> crt_account_id (f r) = crt_account_id r"
    and "\<And>r. cert_from_str (crt_status r) \<noteq> None \<Longrightarrow> cert_from_str (crt_status (f r)) \<noteq> None"
  shows "db_wf (d\<lparr>db_certs := upd_where p f (db_certs d)\<rparr>)"
  using assms by (auto simp: wf_defs upd_where_map ball_upd_where)

lemma wf_upd_eab:
  assumes "db_wf d" and "\<And>r. eab_kid (f r) = eab_kid r"
  shows "db_wf (d\<lparr>db_eab_keys := upd_where p f (db_eab_keys d)\<rparr>)"
  using assms by (auto simp: wf_defs upd_where_map)

lemma status_strings [simp]:
  "order_from_str ''ready'' = Some OrderReady" "order_from_str ''valid'' = Some OrderValid"
  "order_from_str ''invalid'' = Some OrderInvalid" "authz_from_str ''valid'' = Some AuthzValid"
  "authz_from_str ''invalid'' = Some AuthzInvalid" "challenge_from_str ''valid'' = Some ChallValid"
  "challenge_from_str ''invalid'' = Some ChallInvalid" "challenge_from_str ''pending'' = Some ChallPending"
  "challenge_from_str ''processing'' = Some ChallProcessing"
  by (simp_all add: order_from_str_def authz_from_str_def challenge_from_str_def)

lemma sql_insert_wf:
  assumes "db_wf d" and "check \<Longrightarrow> uniq \<Longrightarrow> fk \<Longrightarrow> db_wf (f d)"
  shows "db_wf (snd (sql_insert msg check uniq fk f d))"
  using assms by (simp add: sql_insert_def)

lemma opt_ref_simps [simp]: "opt_ref P None" "opt_ref P (Some i) = P i"
  by (simp_all add: opt_ref_def)

lemma opt_ref_order_append:
  "opt_ref (order_exists d) k \<Longrightarrow> opt_ref (order_exists (d\<lparr>db_orders := db_orders d @ [r]\<rparr>)) k"
  by (cases k) simp_all

lemma orders_insert_wf: "preserves db_wf (orders_insert msg row)"
  unfolding orders_insert_def
proof (rule preservesI, rule sql_insert_wf)
  fix d
  assume "db_wf d" "\<not> order_exists d (ord_id row)"
    "account_exists d (ord_account_id row) \<and> opt_ref (delegation_exists d) (ord_delegation_id row)"
    "order_from_str (ord_status row) \<noteq> None"
  then show "db_wf (d\<lparr>db_orders := db_orders d @ [row]\<rparr>)"
    by (auto simp: wf_defs order_exists_def [of d "ord_id row"] intro: opt_ref_order_append)
qed

lemma authz_insert_wf: "preserves db_wf (authz_insert msg row)"
  unfolding authz_insert_def
proof (rule preservesI, rule sql_insert_wf)
  fix d
  assume "db_wf d" "\<not> authz_exists d (az_id row)"
    "order_exists d (az_order_id row) \<and> account_exists d (az_account_id row)"
    "authz_from_str (az_status row) \<noteq> None"
  then show "db_wf (d\<lparr>db_authzs := db_authzs d @ [\<lparr>azt_order_id = Some (az_order_id row), azt_row = row\<rparr>]\<rparr>)"
    by (auto simp: wf_defs authz_exists_def [of d "az_id row"])
qed

lemma challenges_insert_batch_wf: "preserves db_wf (challenges_insert_batch msg aid cs tok now url)"
proof (rule preservesI)
  fix d
  assume d: "db_wf d"
  have new: "ch_id (new_challenge_row aid tok now url c) = fst c"
    "ch_authz_id (new_challenge_row aid tok now url c) = aid"
    "ch_status (new_challenge_row aid tok now url c) = ''pending''" for c
    by (simp_all add: new_challenge_row_def case_prod_beta)
  have "db_wf (snd (sql_insert msg True
      (distinct (map fst cs) \<and> (\<forall>c \<in> set cs. \<not> challenge_exists d (fst c))) (authz_exists d aid)
      (\<lambda>d. d\<lparr>db_challenges := db_challenges d @ map (new_challenge_row aid tok now url) cs\<rparr>) d))"
    using d by (rule sql_insert_wf) (use d in \<open>auto simp: wf_defs new comp_def challenge_exists_def, force\<close>)
  then show "db_wf (snd (challenges_insert_batch msg aid cs tok now url d))"
    using d by (simp add: challenges_insert_batch_def)
qed

lemma certs_insert_wf: "preserves db_wf (certs_insert msg row)"
  unfolding certs_insert_def
  by (rule preservesI, rule sql_insert_wf) (auto simp: wf_defs certificate_row.defs)

lemma accounts_insert_wf: "preserves db_wf (accounts_insert msg row)"
  unfolding accounts_insert_def
  by (rule preservesI, rule sql_insert_wf) (auto simp: wf_defs account_exists_def [of _ "acc_id row"])

lemma update_statements_wf:
  "preserves db_wf (mark_challenge_valid cid now)" "preserves db_wf (mark_challenge_invalid cid err now)"
  "preserves db_wf (challenges_set_processing_if_pending cid now)"
  "preserves db_wf (set_authz_status aid ''valid'' now)" "preserves db_wf (set_authz_status aid ''invalid'' now)"
  "preserves db_wf (advance_order oid now)" "preserves db_wf (fail_order oid err now)"
  "preserves db_wf (orders_set_certificate oid crt now)" "preserves db_wf (orders_set_star_csr oid csr)"
  "preserves db_wf (certs_mark_replaced crt by_id)" "preserves db_wf (eab_mark_used kid now)"
  by (rule preservesI; simp add: mark_challenge_valid_def mark_challenge_invalid_def
      challenges_set_processing_if_pending_def set_authz_status_def advance_order_def fail_order_def
      orders_set_certificate_def orders_set_star_csr_def certs_mark_replaced_def eab_mark_used_def
      Let_def wf_upd_orders wf_upd_authzs wf_upd_challenges wf_upd_certs wf_upd_eab)+

lemma select_authz_order_wf: "preserves db_wf (select_authz_order msg aid)"
  by (rule preservesI) (simp add: select_authz_order_def split: option.split)

lemma order_not_ready_snd: "snd (order_not_ready m d) = snd (m d)"
  by (simp add: order_not_ready_def split: prod.split sum.split acme_error.split)

lemma order_not_ready_wf: "preserves P m \<Longrightarrow> preserves P (order_not_ready m)"
  by (simp add: preserves_def order_not_ready_snd)

lemma insert_authz_plans_wf: "preserves db_wf (insert_authz_plans msg created url plans)"
  by (induction plans) (simp_all add: preserves_then authz_insert_wf challenges_insert_batch_wf)

lemmas statement_wf =
  orders_insert_wf authz_insert_wf challenges_insert_batch_wf certs_insert_wf accounts_insert_wf
  update_statements_wf select_authz_order_wf insert_authz_plans_wf

lemma exec_wf:
  "preserves db_wf (exec_new_order msg row plans url)" "preserves db_wf (exec_on_valid cid aid oid now)"
  "preserves db_wf (exec_on_invalid msg cid aid oid' err now)"
  "preserves db_wf (exec_finalize msg cert oid now pred csr)"
  "preserves db_wf (exec_new_account msg acc kid now)"
  unfolding exec_new_order_def exec_on_valid_def exec_on_invalid_def exec_finalize_def exec_new_account_def
  by (auto intro!: preserves_then order_not_ready_wf statement_wf split: option.split)

lemma execute_op_wf: "db_wf d \<Longrightarrow> db_wf (snd (execute_op msg op d))"
  by (cases op) (simp_all add: preservesD [OF exec_wf(1)] preservesD [OF exec_wf(2)] preservesD [OF exec_wf(3)]
      preservesD [OF exec_wf(4)] preservesD [OF exec_wf(5)] preservesD [OF update_statements_wf(3)])

lemma coalesce_ops_wf: "db_wf d \<Longrightarrow> db_wf (snd (snd (coalesce_ops msg io i ops d)))"
proof (induction ops arbitrary: i d)
  case (Cons op ops)
  have "db_wf (snd (execute_op msg op d))" using Cons.prems by (rule execute_op_wf)
  then show ?case using Cons.IH Cons.prems by (auto split: prod.splits) (metis snd_conv)+
qed simp



section \<open>Orders become ready\<close>

abbreviation processing :: "string \<Rightarrow> challenge_row \<Rightarrow> bool" where
  "processing cid c \<equiv> ch_id c = cid \<and> ch_status c = ''processing''"

lemma exec_on_valid_eq:
  "exec_on_valid cid aid oid now d =
     (if affected (processing cid) (db_challenges d) = 0 then (Inr (False, False), d)
      else (let d1 = snd (set_authz_status aid ''valid'' now (snd (mark_challenge_valid cid now d)))
            in (Inr (True, affected (\<lambda>r. ord_id r = oid \<and> \<not> unfinished_authz d1 oid) (db_orders d) > 0),
                snd (advance_order oid now d1))))"
  by (simp add: exec_on_valid_def db_then_def mark_challenge_valid_def set_authz_status_def
      advance_order_def db_ok_def upd_where_id Let_def)

lemma unfinished_frame [simp]: "unfinished_authz (d\<lparr>db_orders := os\<rparr>) oid = unfinished_authz d oid"
  by (simp add: unfinished_authz_def)

lemma advance_order_orders:
  "db_orders (snd (advance_order oid now d)) = upd_where (\<lambda>r. ord_id r = oid \<and> \<not> unfinished_authz d oid)
     (\<lambda>r. r\<lparr>ord_status := ''ready'', ord_error := None, ord_updated := now\<rparr>) (db_orders d)"
  "unfinished_authz (snd (advance_order oid now d)) i = unfinished_authz d i"
  by (simp_all add: advance_order_def Let_def)

lemma marks_keep_orders:
  "db_orders (snd (set_authz_status aid st now (snd (mark_challenge_valid cid now d)))) = db_orders d"
  by (simp add: set_authz_status_def mark_challenge_valid_def Let_def)

text \<open>C6: an order becomes ready only with all its authorizations valid. Recording a successful
  validation reports \<open>(validated, advanced)\<close>: without a challenge in processing it changes nothing;
  it reports an advanced order exactly when the order exists and none of its authorizations is
  unfinished after the update, and then the order is ready with its error cleared; otherwise no
  order is touched.\<close>

theorem order_ready_iff_all_valid:
  assumes "exec_on_valid cid aid oid now d = (Inr (validated, advanced), d')"
  shows "(\<not> validated \<longrightarrow> d' = d \<and> \<not> advanced)
    \<and> (validated \<longleftrightarrow> (\<exists>c \<in> set (db_challenges d). processing cid c))
    \<and> (validated \<longrightarrow> (advanced \<longleftrightarrow> order_exists d oid \<and> \<not> unfinished_authz d' oid))
    \<and> (advanced \<longrightarrow> (\<forall>r \<in> set (db_orders d'). ord_id r = oid \<longrightarrow> ord_status r = ''ready'' \<and> ord_error r = None))
    \<and> (\<not> advanced \<longrightarrow> db_orders d' = db_orders d)"
proof (cases "affected (processing cid) (db_challenges d) = 0")
  case True
  then show ?thesis using assms by (simp add: exec_on_valid_eq affected_0_iff)
next
  case False
  let ?d = "snd (set_authz_status aid ''valid'' now (snd (mark_challenge_valid cid now d)))"
  have r: "validated" "d' = snd (advance_order oid now ?d)"
      "advanced = (affected (\<lambda>r. ord_id r = oid \<and> \<not> unfinished_authz ?d oid) (db_orders d) > 0)"
    using assms False by (simp_all add: exec_on_valid_eq Let_def)
  have orders: "db_orders ?d = db_orders d" by (rule marks_keep_orders)
  have adv: "advanced \<longleftrightarrow> order_exists d oid \<and> \<not> unfinished_authz ?d oid"
    unfolding r(3) by (auto simp: affected_def filter_empty_conv order_exists_def image_iff)
  have "\<forall>r \<in> set (db_orders d'). ord_id r = oid \<longrightarrow> ord_status r = ''ready'' \<and> ord_error r = None" if advanced
    unfolding r(2) advance_order_orders ball_upd_where using that adv by simp
  moreover have "db_orders d' = db_orders d" if "\<not> advanced"
    unfolding r(2) advance_order_orders orders using that r(3) by (intro upd_where_id) simp
  ultimately show ?thesis
    using r(1) adv False unfolding r(2) advance_order_orders(2) by (auto simp: affected_0_iff)
qed

definition two_challenges :: db where
  "two_challenges = empty_db\<lparr>db_accounts := [sample_account ''a1''], db_orders := [sample_order_row ''o1'' ''pending''],
     db_authzs := [\<lparr>azt_order_id = Some ''o1'', azt_row = sample_authz ''z1'' ''o1'' ''pending''\<rparr>],
     db_challenges := [sample_challenge ''c1'' ''z1'' ''processing'', sample_challenge ''c2'' ''z1'' ''processing'']\<rparr>"

theorem order_ready_iff_all_valid_witness:
  "\<exists>d'. exec_on_valid ''c1'' ''z1'' ''o1'' 5 two_challenges = (Inr (True, True), d')
     \<and> \<not> unfinished_authz d' ''o1''"
proof -
  obtain d' where c: "exec_on_valid ''c1'' ''z1'' ''o1'' 5 two_challenges = (Inr (True, True), d')"
    by (simp add: exec_on_valid_def db_then_def mark_challenge_valid_def set_authz_status_def Let_def
        advance_order_def db_ok_def two_challenges_def sample_defs affected_def unfinished_authz_def upd_where_def)
  then show ?thesis using order_ready_iff_all_valid [OF c] by auto
qed

end
