(* ===== verification/Order_Finalization.thy ===== *)
theory Order_Finalization
  imports Acme_Lifecycle
begin

text \<open>
  Finalization: a ready order takes exactly one certificate. The statements are made over what the
  access layer reads back, for tables that are sound (\<open>db_wf\<close>).
\<close>

section \<open>What finalization does\<close>

definition order_is_ready :: "db \<Rightarrow> string \<Rightarrow> bool" where
  "order_is_ready d oid \<longleftrightarrow> (\<exists>r \<in> set (db_orders d). ord_id r = oid \<and> ord_status r = ''ready'')"

text \<open>What the statements after the insert of the certificate do.\<close>

definition finalize_order :: "string \<Rightarrow> string \<Rightarrow> i64 \<Rightarrow> bytes option \<Rightarrow> order_row \<Rightarrow> order_row" where
  "finalize_order oid cid now csr r =
     (let r1 = (if ord_id r = oid \<and> ord_status r = ''ready''
                then r\<lparr>ord_status := ''valid'', ord_certificate_id := Some cid, ord_updated := now\<rparr> else r)
      in case csr of None \<Rightarrow> r1 | Some der \<Rightarrow> if ord_id r1 = oid then r1\<lparr>ord_star_csr_der := Some der\<rparr> else r1)"

lemma finalize_order_id [simp]: "ord_id (finalize_order oid cid now csr r) = ord_id r"
  by (simp add: finalize_order_def Let_def split: option.split)

lemma finalize_order_ready:
  assumes "ord_id r = oid" and "ord_status r = ''ready''"
  shows "ord_status (finalize_order oid cid now csr r) = ''valid''"
    and "ord_certificate_id (finalize_order oid cid now csr r) = Some cid"
  using assms by (simp_all add: finalize_order_def Let_def split: option.split)

lemma certs_insert_ok:
  "certs_insert msg cert d = (Inr (), d1) \<Longrightarrow> d1 = d\<lparr>db_certs := db_certs d @
     [certificate_row.extend (cert\<lparr>crt_replaced_by := None\<rparr>) \<lparr>crt_mtc_standalone_der = None\<rparr>]\<rparr>
     \<and> crt_id cert \<notin> set (map crt_id (db_certs d))"
  by (simp add: certs_insert_def sql_insert_def split: if_splits)

lemma certs_insert_err: "certs_insert msg cert d = (Inl e, d1) \<Longrightarrow> d1 = d"
  by (simp add: certs_insert_def sql_insert_def split: if_splits)

lemma orders_set_certificate_eq:
  "order_not_ready (orders_set_certificate oid cid now) d =
     (if order_is_ready d oid
      then (Inr (), d\<lparr>db_orders := map (finalize_order oid cid now None) (db_orders d)\<rparr>)
      else (Inl OrderNotReady, d))"
proof (cases "order_is_ready d oid")
  case True
  then have "affected (\<lambda>r. ord_id r = oid \<and> ord_status r = ''ready'') (db_orders d) \<noteq> 0"
    by (auto simp: order_is_ready_def affected_0_iff)
  then show ?thesis using True
    by (simp add: order_not_ready_def orders_set_certificate_def Let_def upd_where_def finalize_order_def)
next
  case False
  then have "affected (\<lambda>r. ord_id r = oid \<and> ord_status r = ''ready'') (db_orders d) = 0"
    by (auto simp: order_is_ready_def affected_0_iff)
  then show ?thesis using False
    by (simp add: order_not_ready_def orders_set_certificate_def Let_def upd_where_id)
qed

lemma exec_finalize_certs_err:
  "certs_insert msg cert d = (Inl e, d1) \<Longrightarrow> exec_finalize msg cert oid now pred csr d = (Inl e, d1)"
  by (simp add: exec_finalize_def db_then_def)

lemma exec_finalize_eq:
  assumes "certs_insert msg cert d = (Inr (), d1)"
  shows "exec_finalize msg cert oid now pred csr d =
     (if order_is_ready d oid
      then (Inr (case pred of None \<Rightarrow> False | Some p \<Rightarrow> affected (\<lambda>r. crt_id r = p \<and> crt_replaced_by r = None) (db_certs d1) = 0),
            d1\<lparr>db_orders := map (finalize_order oid (crt_id cert) now csr) (db_orders d),
               db_certs := (case pred of None \<Rightarrow> db_certs d1 | Some p \<Rightarrow>
                 upd_where (\<lambda>r. crt_id r = p \<and> crt_replaced_by r = None) (\<lambda>r. r\<lparr>crt_replaced_by := Some (crt_id cert)\<rparr>) (db_certs d1))\<rparr>)
      else (Inl OrderNotReady, d1))"
proof -
  have o1: "db_orders d1 = db_orders d" "order_is_ready d1 oid = order_is_ready d oid"
    using certs_insert_ok [OF assms] by (simp_all add: order_is_ready_def)
  have csr: "orders_set_star_csr oid der dx =
      (Inr (), dx\<lparr>db_orders := map (finalize_order oid cid now (Some der)) (db_orders d)\<rparr>)"
    if "order_is_ready d oid" and dx: "db_orders dx = map (finalize_order oid cid now None) (db_orders d)" for der cid and dx :: db
  proof -
    have "affected (\<lambda>r. ord_id r = oid) (db_orders dx) \<noteq> 0"
      using that by (auto simp: affected_0_iff order_is_ready_def)
    then show ?thesis
      by (simp add: orders_set_star_csr_def Let_def upd_where_def finalize_order_def comp_def dx)
  qed
  show ?thesis
    using assms o1
    by (auto simp: exec_finalize_def db_then_def orders_set_certificate_eq db_ok_def certs_mark_replaced_def
        Let_def csr [where cid = "crt_id cert"] split: option.split)
qed


lemma finalized_order_reads:
  assumes "distinct (map ord_id (db_orders d))" and "order_is_ready d oid"
    and "db_orders d' = map (finalize_order oid cid now csr) (db_orders d)"
  obtains r where "find (\<lambda>r. ord_id r = oid) (db_orders d') = Some r"
    "ord_status r = ''valid''" "ord_certificate_id r = Some cid" "\<not> order_is_ready d' oid"
proof -
  obtain r where r: "r \<in> set (db_orders d)" "ord_id r = oid" "ord_status r = ''ready''"
    using assms(2) by (auto simp: order_is_ready_def)
  have f: "find (\<lambda>r. ord_id r = oid) (db_orders d') = Some (finalize_order oid cid now csr r)"
    using find_key_unique [OF assms(1) r(1)] r(2) by (simp add: assms(3) find_map_key)
  have u: "x = r" if "x \<in> set (db_orders d)" "ord_id x = oid" for x
    using find_key_unique [OF assms(1) r(1)] find_key_unique [OF assms(1) that(1)] r(2) that(2) by simp
  have "y = finalize_order oid cid now csr r" if y: "y \<in> set (db_orders d')" "ord_id y = oid" for y
  proof -
    obtain x where "x \<in> set (db_orders d)" and yx: "y = finalize_order oid cid now csr x"
      using y(1) by (auto simp: assms(3))
    then show ?thesis using u [of x] y(2) by simp
  qed
  then have "\<not> order_is_ready d' oid"
    using finalize_order_ready [OF r(2,3), of cid now csr] by (fastforce simp: order_is_ready_def)
  then show ?thesis
    using finalize_order_ready [OF r(2,3), of cid now csr] by (intro that [OF f]) simp_all
qed

lemma stored_cert_reads:
  assumes "certs_insert msg cert d = (Inr (), d1)"
    and "db_certs d' = (case pred of None \<Rightarrow> db_certs d1 | Some p \<Rightarrow>
           upd_where (\<lambda>r. crt_id r = p \<and> crt_replaced_by r = None) (\<lambda>r. r\<lparr>crt_replaced_by := Some x\<rparr>) (db_certs d1))"
  obtains c where "certs_get_by_id (crt_id cert) d' = (Inr (Some c), d')"
    "c\<lparr>crt_replaced_by := None\<rparr> = cert\<lparr>crt_replaced_by := None\<rparr>"
proof -
  have "find (\<lambda>r. crt_id r = crt_id cert) (db_certs d1) =
      Some (certificate_row.extend (cert\<lparr>crt_replaced_by := None\<rparr>) \<lparr>crt_mtc_standalone_der = None\<rparr>)"
    using certs_insert_ok [OF assms(1)] by (simp add: find_append find_fresh certificate_row.defs)
  then show ?thesis
    by (intro that [of "cert\<lparr>crt_replaced_by := (if pred = Some (crt_id cert) then Some x else None)\<rparr>"])
      (auto simp: certs_get_by_id_def assms(2) find_upd_where certificate_row.defs split: option.split)
qed

lemma filter_finalize_order:
  "filter (\<lambda>r. ord_id r \<noteq> oid) (map (finalize_order oid cid now csr) rows) = filter (\<lambda>r. ord_id r \<noteq> oid) rows"
  by (induction rows) (auto simp: finalize_order_def Let_def split: option.split)

lemma finalize_ready_ok:
  assumes "order_is_ready d oid" and "is_ok (fst (certs_insert msg cert d))"
  shows "is_ok (fst (db_tx (exec_finalize msg cert oid now pred csr) d))"
proof (cases "certs_insert msg cert d")
  case (Pair ins d1)
  then show ?thesis using assms by (cases ins) (simp_all add: db_tx_def exec_finalize_eq)
qed

lemma finalize_not_ready:
  assumes "\<not> order_is_ready d oid"
  shows "db_tx (exec_finalize msg cert oid now pred csr) d =
    (case certs_insert msg cert d of (Inl e, _) \<Rightarrow> (Inl e, d) | (Inr _, _) \<Rightarrow> (Inl OrderNotReady, d))"
proof (cases "certs_insert msg cert d")
  case (Pair ins d1)
  then show ?thesis
    using assms by (cases ins) (simp_all add: db_tx_def exec_finalize_eq exec_finalize_certs_err)
qed

section \<open>One certificate per ready order\<close>


definition ready_db :: db where
  "ready_db = empty_db\<lparr>db_accounts := [sample_account ''a1''], db_orders := [sample_order_row ''o1'' ''ready'']\<rparr>"

lemma ready_db_wf: "db_wf ready_db"
  by (simp add: wf_defs ready_db_def sample_defs account_from_str_def account_exists_def)

lemma ready_db_finalize:
  "is_ok (fst (db_tx (exec_finalize (\<lambda>_. []) (sample_cert ''k1'' ''o1'') ''o1'' 5 None None) ready_db))"
  by (simp add: db_tx_def exec_finalize_def db_then_def certs_insert_def sql_insert_def ready_db_def sample_defs
      cert_from_str_def order_exists_def account_exists_def orders_set_certificate_def order_not_ready_def
      Let_def affected_def upd_where_def db_ok_def)


section \<open>A finalized order can be opened again\<close>

text \<open>
  The order statement of a successful validation has no guard on the status of the order. When
  two challenges of one authorization are in processing, the second one to finish finds every
  authorization valid and sets the order back to ready, also when it has been finalized meanwhile.
\<close>

text \<open>C12: a finalized order can be finalized again. If a challenge is still in processing when an
  order is already valid, and all its authorizations are valid, recording the validation turns the
  order back to ready, and a finalization with another storable certificate then succeeds: two
  certificates are issued for one order.\<close>

theorem finalized_order_reopened:
  assumes c: "c \<in> set (db_challenges d)" "ch_id c = cid" "ch_status c = ''processing''"
    and r: "r \<in> set (db_orders d)" "ord_id r = oid" "ord_status r = ''valid''"
    and finished: "\<not> unfinished_authz (snd (set_authz_status aid ''valid'' now d)) oid"
    and storable: "is_ok (fst (certs_insert msg cert d))"
  shows "fst (exec_on_valid cid aid oid now d) = Inr (True, True)
    \<and> is_ok (fst (db_tx (exec_finalize msg cert oid now2 None None) (snd (exec_on_valid cid aid oid now d))))"
proof -
  let ?d = "snd (exec_on_valid cid aid oid now d)"
  let ?m = "snd (set_authz_status aid ''valid'' now (snd (mark_challenge_valid cid now d)))"
  have proc: "affected (processing cid) (db_challenges d) \<noteq> 0" using c by (auto simp: affected_0_iff)
  have "unfinished_authz ?m oid = unfinished_authz (snd (set_authz_status aid ''valid'' now d)) oid"
    by (simp add: unfinished_authz_def set_authz_status_def mark_challenge_valid_def Let_def)
  then have fin: "\<not> unfinished_authz ?m oid" using finished by simp
  then have "affected (\<lambda>r. ord_id r = oid \<and> \<not> unfinished_authz ?m oid) (db_orders d) > 0"
    using r by (auto simp: affected_def filter_empty_conv)
  then have res: "exec_on_valid cid aid oid now d = (Inr (True, True), snd (advance_order oid now ?m))"
    using proc by (simp add: exec_on_valid_eq Let_def)
  have "db_orders ?d = upd_where (\<lambda>r. ord_id r = oid \<and> \<not> unfinished_authz ?m oid)
      (\<lambda>r. r\<lparr>ord_status := ''ready'', ord_error := None, ord_updated := now\<rparr>) (db_orders d)"
    by (simp add: res advance_order_orders marks_keep_orders)
  then have "r\<lparr>ord_status := ''ready'', ord_error := None, ord_updated := now\<rparr> \<in> set (db_orders ?d)"
    using in_upd_where [OF r(1), of "\<lambda>r. ord_id r = oid \<and> \<not> unfinished_authz ?m oid"] r(2) fin by simp
  then have ready: "order_is_ready ?d oid"
    unfolding order_is_ready_def by (rule bexI [rotated]) (simp add: r(2))
  have "map ord_id (db_orders ?d) = map ord_id (db_orders d)"
    unfolding res snd_conv advance_order_orders marks_keep_orders by (rule upd_where_map) simp
  moreover have "db_certs ?d = db_certs d" "db_accounts ?d = db_accounts d"
    by (simp_all add: res advance_order_def set_authz_status_def mark_challenge_valid_def Let_def)
  ultimately have "is_ok (fst (certs_insert msg cert ?d))"
    using storable by (simp add: certs_insert_def sql_insert_def order_exists_def account_exists_def
        del: set_map split: if_splits)
  then show ?thesis
    using finalize_ready_ok [OF ready] res by simp
qed

text \<open>The run: two challenges in processing, the first validates, the order is finalized, then the second
  validates.\<close>

definition finalized_db :: db where
  "finalized_db = snd (exec_finalize (\<lambda>_. []) (sample_cert ''k1'' ''o1'') ''o1'' 6 None None
                        (snd (exec_on_valid ''c1'' ''z1'' ''o1'' 5 two_challenges)))"

lemma finalized_db_eq:
  "finalized_db = two_challenges\<lparr>
     db_orders := [(sample_order_row ''o1'' ''valid'')\<lparr>ord_certificate_id := Some ''k1'', ord_updated := 6\<rparr>],
     db_authzs := [\<lparr>azt_order_id = Some ''o1'', azt_row = (sample_authz ''z1'' ''o1'' ''valid'')\<lparr>az_updated := 5\<rparr>\<rparr>],
     db_challenges := [(sample_challenge ''c1'' ''z1'' ''valid'')\<lparr>ch_validated := Some 5, ch_updated := 5\<rparr>,
                       sample_challenge ''c2'' ''z1'' ''processing''],
     db_certs := [certificate_row.extend (sample_cert ''k1'' ''o1'') \<lparr>crt_mtc_standalone_der = None\<rparr>]\<rparr>"
  by (simp add: finalized_db_def exec_finalize_def exec_on_valid_eq db_then_def certs_insert_def sql_insert_def sample_defs
      two_challenges_def cert_from_str_def order_exists_def account_exists_def orders_set_certificate_def
      order_not_ready_def Let_def affected_def upd_where_def db_ok_def mark_challenge_valid_def set_authz_status_def
      advance_order_def unfinished_authz_def)

theorem finalized_order_reopened_witness:
  "fst (exec_on_valid ''c2'' ''z1'' ''o1'' 7 finalized_db) = Inr (True, True)
   \<and> is_ok (fst (db_tx (exec_finalize (\<lambda>_. []) (sample_cert ''k2'' ''o1'') ''o1'' 8 None None)
                  (snd (exec_on_valid ''c2'' ''z1'' ''o1'' 7 finalized_db))))"
  by (rule finalized_order_reopened [of "sample_challenge ''c2'' ''z1'' ''processing''" _ _
        "(sample_order_row ''o1'' ''valid'')\<lparr>ord_certificate_id := Some ''k1'', ord_updated := 6\<rparr>"])
    (simp_all add: finalized_db_eq two_challenges_def sample_defs unfinished_authz_def set_authz_status_def upd_where_def
      certs_insert_def sql_insert_def cert_from_str_def order_exists_def account_exists_def certificate_row.defs)

end
