(* ===== verification/Validation_Properties.thy ===== *)
theory Validation_Properties
  imports Order_Finalization
begin

text \<open>
  Properties of challenge validation: the two write paths agree, only an accepted check grants an
  authorization, and a challenge starts at most one validation.
\<close>

section \<open>The two write paths\<close>

lemma single_batch:
  assumes "healthy io"
  shows "coalesce_batch msg io [op] d = ([(0, fst (op_tx msg op d))], snd (op_tx msg op d))"
  using assms by (auto simp: coalesce_batch_def healthy_def op_tx_def split: prod.split)

lemma on_valid_direct_eq: "on_valid_direct cid aid oid now d = exec_on_valid cid aid oid now d"
  by (simp add: on_valid_direct_def exec_on_valid_def db_then_def mark_challenge_valid_def set_authz_status_def
      advance_order_def unfinished_authz_def db_ok_def Let_def)

lemma on_invalid_direct_eq:
  "on_invalid_direct msg cid aid oid err now d = exec_on_invalid msg cid aid oid err now d"
  by (auto simp: on_invalid_direct_def exec_on_invalid_def db_then_def mark_challenge_invalid_def set_authz_status_def
      fail_order_def db_ok_def Let_def split: option.splits sum.splits prod.splits)

lemma healthy_own_tx: "healthy io \<Longrightarrow> own_tx msg io m = db_tx m"
  by (simp add: own_tx_def db_tx_def healthy_def fun_eq_iff split: prod.split sum.split)

lemma submit_on_valid_tx: "healthy io \<Longrightarrow> submit_on_valid msg io cid aid oid now d = db_tx (exec_on_valid cid aid oid now) d"
  by (auto simp: submit_on_valid_def single_batch op_tx_def db_tx_def map_prod_def split: prod.splits sum.splits)

lemma submit_on_invalid_tx:
  "healthy io \<Longrightarrow> submit_on_invalid msg io cid aid oid err now d = db_tx (exec_on_invalid msg cid aid oid err now) d"
  by (auto simp: submit_on_invalid_def single_batch op_tx_def db_tx_def map_prod_def split: prod.splits sum.splits)

lemma on_valid_direct_fun: "on_valid_direct cid aid oid now = exec_on_valid cid aid oid now"
  by (rule ext) (rule on_valid_direct_eq)

lemma on_invalid_direct_fun: "on_invalid_direct msg cid aid oid err now = exec_on_invalid msg cid aid oid err now"
  by (rule ext) (rule on_invalid_direct_eq)

abbreviation coalesced :: "validation_state \<Rightarrow> validation_state" where
  "coalesced st \<equiv> st\<lparr>st_coalescer := True\<rparr>"

lemma on_valid_paths:
  assumes "healthy io"
  shows "on_valid msg io cid aid oid now (coalesced st)
       = map_prod (\<lambda>x. x) coalesced (on_valid msg io cid aid oid now (st\<lparr>st_coalescer := False\<rparr>))"
  using assms
  by (simp add: on_valid_def submit_on_valid_tx healthy_own_tx on_valid_direct_fun Let_def
      split: prod.split sum.split)

lemma on_invalid_paths:
  assumes "healthy io"
  shows "on_invalid_with_order msg io pj cid aid oid e now (coalesced st)
       = map_prod (\<lambda>x. x) coalesced (on_invalid_with_order msg io pj cid aid oid e now (st\<lparr>st_coalescer := False\<rparr>))"
  using assms
  by (simp add: on_invalid_with_order_def submit_on_invalid_tx healthy_own_tx on_invalid_direct_fun Let_def
      split: prod.split sum.split bool.split)

text \<open>C10: coalesced and direct writes have the same effect. As long as the transaction statements
  work, a validation that records its outcome through the write coalescer reports the same outcome,
  leaves the same database, the same replicated state and the same audit events as one that issues
  its own statements.\<close>

theorem validation_paths_agree:
  assumes "healthy io"
  shows "validate_challenge msg io pj v now p (coalesced st)
       = map_prod (\<lambda>x. x) coalesced (validate_challenge msg io pj v now p (st\<lparr>st_coalescer := False\<rparr>))"
proof -
  have swap: "st\<lparr>st_coalescer := b, st_db := d\<rparr> = st\<lparr>st_db := d, st_coalescer := b\<rparr>" for b d by simp
  have "on_valid msg io cid aid oid now (st\<lparr>st_coalescer := True, st_db := d\<rparr>)
      = map_prod (\<lambda>x. x) coalesced (on_valid msg io cid aid oid now (st\<lparr>st_coalescer := False, st_db := d\<rparr>))"
    for cid aid oid d unfolding swap by (rule on_valid_paths [OF assms])
  moreover have "on_invalid_with_order msg io pj cid aid oid e now (st\<lparr>st_coalescer := True, st_db := d\<rparr>)
      = map_prod (\<lambda>x. x) coalesced (on_invalid_with_order msg io pj cid aid oid e now (st\<lparr>st_coalescer := False, st_db := d\<rparr>))"
    for cid aid oid e d unfolding swap by (rule on_invalid_paths [OF assms])
  ultimately show ?thesis
    by (simp add: validate_challenge_def Let_def on_valid_paths [OF assms] on_invalid_paths [OF assms]
      split: option.split prod.split sum.split)
qed

section \<open>What a validation can grant\<close>

definition authz_valid :: "db \<Rightarrow> string \<Rightarrow> bool" where
  "authz_valid d i \<longleftrightarrow> (\<exists>a \<in> set (db_authzs d). az_id (azt_row a) = i \<and> az_status (azt_row a) = ''valid'')"

text \<open>The check of a challenge type accepted the response.\<close>

definition check_accepts :: "sql_texts \<Rightarrow> validators \<Rightarrow> challenge_params \<Rightarrow> db \<Rightarrow> bool" where
  "check_accepts msg v p d \<longleftrightarrow>
     (cp_chall_type p = ''dns-persist-01'' \<longrightarrow> dns_persist_account_error msg d (cp_account_id p) = None) \<and>
     (if cp_chall_type p = ''tkauth-01''
      then (case cp_authority_token p of None \<Rightarrow> False | Some t \<Rightarrow> is_ok (fst (v_tkauth01 v p t d)))
      else cp_chall_type p \<noteq> ''email-reply-00'' \<and> is_ok (dispatch v p))"

lemma single_batch_db: "snd (coalesce_batch msg io [op] d) \<in> {d, snd (execute_op msg op d)}"
  by (auto simp: coalesce_batch_def split: prod.split)

lemma own_tx_db: "snd (own_tx msg io m d) \<in> {d, snd (m d)}"
  by (auto simp: own_tx_def split: prod.split sum.split)

lemma submit_db:
  "snd (submit_on_valid msg io cid aid oid now d) \<in> {d, snd (exec_on_valid cid aid oid now d)}"
  "snd (submit_on_invalid msg io cid aid oid' err now d) \<in> {d, snd (exec_on_invalid msg cid aid oid' err now d)}"
  using single_batch_db [of msg io "OnValid cid aid oid now" d] single_batch_db [of msg io "OnInvalid cid aid oid' err now" d]
  by (auto simp: submit_on_valid_def submit_on_invalid_def split: prod.splits list.splits write_reply.splits)

lemma on_valid_db: "st_db (snd (on_valid msg io cid aid oid now st)) \<in> {st_db st, snd (exec_on_valid cid aid oid now (st_db st))}"
proof -
  let ?r = "if st_coalescer st then submit_on_valid msg io cid aid oid now (st_db st)
            else own_tx msg io (on_valid_direct cid aid oid now) (st_db st)"
  have "st_db (snd (on_valid msg io cid aid oid now st)) = snd ?r"
    by (auto simp: on_valid_def Let_def split: prod.split sum.split)
  also have "\<dots> \<in> {st_db st, snd (exec_on_valid cid aid oid now (st_db st))}"
    using submit_db(1) [of msg io cid aid oid now "st_db st"] own_tx_db [of msg io "on_valid_direct cid aid oid now" "st_db st"]
    by (simp add: on_valid_direct_fun)
  finally show ?thesis .
qed

lemma on_invalid_db:
  "st_db (snd (on_invalid_with_order msg io pj cid aid oid e now st))
     \<in> {st_db st, snd (exec_on_invalid msg cid aid oid (pj (err_type e) (error_message e)) now (st_db st))}"
proof -
  let ?j = "pj (err_type e) (error_message e)"
  let ?r = "if st_coalescer st then submit_on_invalid msg io cid aid oid ?j now (st_db st)
            else own_tx msg io (on_invalid_direct msg cid aid oid ?j now) (st_db st)"
  have "st_db (snd (on_invalid_with_order msg io pj cid aid oid e now st)) = snd ?r"
    by (auto simp: on_invalid_with_order_def Let_def split: prod.split sum.split bool.split)
  also have "\<dots> \<in> {st_db st, snd (exec_on_invalid msg cid aid oid ?j now (st_db st))}"
    using submit_db(2) [of msg io cid aid oid ?j now "st_db st"]
      own_tx_db [of msg io "on_invalid_direct msg cid aid oid ?j now" "st_db st"]
    by (simp add: on_invalid_direct_fun)
  finally show ?thesis .
qed

text \<open>What the statements do to the valid authorizations.\<close>

lemma exec_on_valid_grants:
  assumes "authz_valid (snd (exec_on_valid cid aid oid now d)) i" and "\<not> authz_valid d i"
  shows "i = aid \<and> (\<exists>c \<in> set (db_challenges d). processing cid c)"
proof (cases "affected (processing cid) (db_challenges d) = 0")
  case True
  then show ?thesis using assms by (simp add: exec_on_valid_eq)
next
  case False
  then have "authz_valid (snd (set_authz_status aid ''valid'' now (snd (mark_challenge_valid cid now d)))) i"
    using assms(1) by (simp add: exec_on_valid_eq Let_def authz_valid_def advance_order_def)
  then have "i = aid"
    using assms(2) by (auto simp: authz_valid_def set_authz_status_def mark_challenge_valid_def Let_def upd_where_def
        split: if_splits)
  then show ?thesis using False by (auto simp: affected_0_iff)
qed

lemma exec_on_invalid_grants_nothing:
  assumes "authz_valid (snd (exec_on_invalid msg cid aid oid err now d)) i"
  shows "authz_valid d i"
proof (cases "affected (processing cid) (db_challenges d) = 0")
  case True
  then show ?thesis using assms
    by (simp add: exec_on_invalid_def db_then_def mark_challenge_invalid_def db_ok_def Let_def upd_where_id)
next
  case False
  let ?d = "snd (set_authz_status aid ''invalid'' now (snd (mark_challenge_invalid cid err now d)))"
  have "db_authzs (snd (exec_on_invalid msg cid aid oid err now d)) = db_authzs ?d"
    using False by (auto simp: exec_on_invalid_def db_then_def mark_challenge_invalid_def set_authz_status_def
        select_authz_order_def fail_order_def db_ok_def Let_def split: option.split prod.splits sum.splits)
  then have "authz_valid ?d i" using assms by (simp add: authz_valid_def)
  then show ?thesis
    by (auto simp: authz_valid_def set_authz_status_def mark_challenge_invalid_def Let_def upd_where_def split: if_splits)
qed

lemma on_valid_grants:
  assumes "authz_valid (st_db (snd (on_valid msg io cid aid oid now st))) i" and "\<not> authz_valid (st_db st) i"
  shows "i = aid \<and> (\<exists>c \<in> set (db_challenges (st_db st)). processing cid c)"
proof -
  have "st_db (snd (on_valid msg io cid aid oid now st)) = snd (exec_on_valid cid aid oid now (st_db st))"
    using on_valid_db [of msg io cid aid oid now st] assms by auto
  then show ?thesis using assms exec_on_valid_grants by metis
qed

lemma on_invalid_grants_nothing:
  assumes "authz_valid (st_db (snd (on_invalid_with_order msg io pj cid aid oid e now st))) i"
  shows "authz_valid (st_db st) i"
  using on_invalid_db [of msg io pj cid aid oid e now st] assms exec_on_invalid_grants_nothing
  by (metis insertE singletonD)

text \<open>The validators that write to the database leave authorizations and challenge status alone.\<close>

definition quiet_validators :: "validators \<Rightarrow> bool" where
  "quiet_validators v \<longleftrightarrow>
     (\<forall>p t d. db_authzs (snd (v_tkauth01 v p t d)) = db_authzs d \<and> db_challenges (snd (v_tkauth01 v p t d)) = db_challenges d) \<and>
     (\<forall>p d. db_authzs (snd (v_send_email v p d)) = db_authzs d)"

text \<open>The check alone: rejected, accepted (\<open>Some ()\<close>) or waiting for a reply (\<open>None\<close>).\<close>

definition run_check :: "sql_texts \<Rightarrow> validators \<Rightarrow> challenge_params \<Rightarrow> unit option db_op" where
  "run_check msg v p d =
     (case (if cp_chall_type p = ''dns-persist-01'' then dns_persist_account_error msg d (cp_account_id p) else None) of
        Some e \<Rightarrow> (Inl e, d)
      | None \<Rightarrow>
          if cp_chall_type p = ''tkauth-01'' then
            (case cp_authority_token p of
               None \<Rightarrow> (Inl (IncorrectResponse ''tkauth-01: authority token not provided in challenge response''), d)
             | Some t \<Rightarrow> map_prod (map_sum (\<lambda>e. e) Some) (\<lambda>d. d) (v_tkauth01 v p t d))
          else if cp_chall_type p = ''email-reply-00'' then
            map_prod (map_sum (\<lambda>e. e) (\<lambda>_. None)) (\<lambda>d. d) (v_send_email v p d)
          else (map_sum (\<lambda>e. e) Some (dispatch v p), d))"

lemma validate_challenge_eq:
  "validate_challenge msg io pj v now p st =
     (case run_check msg v p (st_db st) of
        (Inl e, d) \<Rightarrow> (''invalid'', snd (on_invalid_with_order msg io pj (cp_challenge_id p) (cp_authz_id p)
                         (Some (cp_order_id p)) e now (st\<lparr>st_db := d\<rparr>)))
      | (Inr (Some _), d) \<Rightarrow> (''valid'', snd (on_valid msg io (cp_challenge_id p) (cp_authz_id p) (cp_order_id p) now
                         (st\<lparr>st_db := d\<rparr>)))
      | (Inr None, d) \<Rightarrow> (''processing'', st\<lparr>st_db := d\<rparr>))"
  by (auto simp: validate_challenge_def run_check_def Let_def split: option.split prod.split sum.split)

lemma verdict_simps [simp]:
  "map_sum (\<lambda>e. e) Some r = Inr (Some ()) \<longleftrightarrow> is_ok r" "map_sum (\<lambda>e. e) (\<lambda>_. None) r \<noteq> Inr (Some ())"
  "fst (map_prod f h x) = f (fst x)" "snd (map_prod f h x) = h (snd x)"
  by (cases r; simp)+

lemma run_check_accepts: "fst (run_check msg v p d) = Inr (Some ()) \<longleftrightarrow> check_accepts msg v p d"
  by (simp add: run_check_def check_accepts_def split: option.split)

lemma run_check_quiet:
  assumes "quiet_validators v"
  shows "db_authzs (snd (run_check msg v p d)) = db_authzs d"
    and "fst (run_check msg v p d) = Inr (Some ()) \<Longrightarrow> db_challenges (snd (run_check msg v p d)) = db_challenges d"
  using assms by (auto simp: run_check_def quiet_validators_def split: option.splits if_splits)

text \<open>C7: an authorization is granted only by its accepted check. A validation reports \<^verbatim>\<open>valid\<close> exactly when the
  check of its challenge type accepted the response (for \<^verbatim>\<open>dns-persist-01\<close> only with an account that is
  still valid); whatever else it reports and however the transactions go, the only authorization that
  can become valid is the one of the challenge, and only if the challenge was in processing and its
  check accepted.\<close>

theorem only_accepted_checks_grant:
  assumes "quiet_validators v" and "validate_challenge msg io pj v now p st = (outcome, st')"
  shows "(outcome = ''valid'' \<longleftrightarrow> check_accepts msg v p (st_db st))
    \<and> (\<forall>i. authz_valid (st_db st') i \<and> \<not> authz_valid (st_db st) i \<longrightarrow>
          i = cp_authz_id p \<and> check_accepts msg v p (st_db st)
          \<and> (\<exists>c \<in> set (db_challenges (st_db st)). processing (cp_challenge_id p) c))"
proof -
  obtain r d where r: "run_check msg v p (st_db st) = (r, d)" by fastforce
  have same: "authz_valid d i = authz_valid (st_db st) i" for i
    using run_check_quiet(1) [OF assms(1), of msg p "st_db st"] r by (simp add: authz_valid_def)
  have acc: "check_accepts msg v p (st_db st) \<longleftrightarrow> r = Inr (Some ())"
    using run_check_accepts [of msg v p "st_db st"] r by auto
  note eq = assms(2) [unfolded validate_challenge_eq r prod.case]
  consider e where "r = Inl e" | "r = Inr (Some ())" | "r = Inr None" by (cases r; cases "projr r") auto
  then show ?thesis
  proof cases
    case (1 e)
    then have o: "outcome = ''invalid''"
      and s: "st' = snd (on_invalid_with_order msg io pj (cp_challenge_id p) (cp_authz_id p) (Some (cp_order_id p)) e now
                     (st\<lparr>st_db := d\<rparr>))"
      using eq by simp_all
    have "authz_valid (st_db st) i" if "authz_valid (st_db st') i" for i
      using on_invalid_grants_nothing [OF that [unfolded s]] by (simp add: same)
    then show ?thesis using acc 1 o by simp
  next
    case 2
    then have o: "outcome = ''valid''"
      and s: "st' = snd (on_valid msg io (cp_challenge_id p) (cp_authz_id p) (cp_order_id p) now (st\<lparr>st_db := d\<rparr>))"
      using eq by simp_all
    have c: "db_challenges d = db_challenges (st_db st)"
      using run_check_quiet(2) [OF assms(1), of msg p "st_db st"] r 2 by simp
    have "i = cp_authz_id p \<and> (\<exists>c \<in> set (db_challenges (st_db st)). processing (cp_challenge_id p) c)"
      if "authz_valid (st_db st') i" "\<not> authz_valid (st_db st) i" for i
      using on_valid_grants [OF that(1) [unfolded s]] that(2) by (simp add: same c)
    then show ?thesis using acc 2 o by blast
  next
    case 3
    then have "outcome = ''processing''" "st' = st\<lparr>st_db := d\<rparr>" using eq by simp_all
    then show ?thesis using acc 3 same by simp
  qed
qed

section \<open>A concrete run\<close>

definition healthy_io :: batch_io where
  "healthy_io = \<lparr>begin_ok = True, savepoint_ok = \<lambda>_. True, rollback_to_ok = \<lambda>_. True, commit_ok = True\<rparr>"

definition accepting :: validators where
  "accepting = \<lparr>v_http01 = \<lambda>_. Inr (), v_dns01 = \<lambda>_. Inr (), v_tls_alpn01 = \<lambda>_. Inr (),
     v_dns_persist_01 = \<lambda>_. Inr (), v_onion_csr_01 = \<lambda>_ _. Inr (), v_tkauth01 = \<lambda>_ _. db_ok (), v_send_email = \<lambda>_. db_ok ()\<rparr>"

definition http_params :: challenge_params where
  "http_params = \<lparr>cp_challenge_id = ''c1'', cp_authz_id = ''z1'', cp_order_id = ''o1'', cp_chall_type = ''http-01'',
     cp_id_type = ''dns'', cp_id_value = ''example.org'', cp_key_auth = ''t.th'', cp_token = ''t'', cp_onion_csr_der = None,
     cp_account_id = ''a1'', cp_authority_token = None, cp_challenge_created = 1\<rparr>"

definition validation_start :: validation_state where
  "validation_start = app_state.extend (sample_state\<lparr>st_db := two_challenges\<rparr>) \<lparr>vs_audit = []\<rparr>"

lemma healthy_io [simp]: "healthy healthy_io"
  by (simp add: healthy_def healthy_io_def)

lemma http_accepted: "check_accepts msg accepting http_params d"
  by (simp add: check_accepts_def http_params_def accepting_def dispatch_def)

lemma accepting_quiet: "quiet_validators accepting"
  by (simp add: quiet_validators_def accepting_def db_ok_def)

theorem validation_paths_agree_witness:
  "validate_challenge (\<lambda>_. []) healthy_io (\<lambda>_ _. []) accepting 5 http_params (coalesced validation_start)
     = map_prod (\<lambda>x. x) coalesced (validate_challenge (\<lambda>_. []) healthy_io (\<lambda>_ _. []) accepting 5 http_params
         (validation_start\<lparr>st_coalescer := False\<rparr>))"
  by (rule validation_paths_agree) simp

theorem only_accepted_checks_grant_witness:
  "fst (validate_challenge (\<lambda>_. []) healthy_io (\<lambda>_ _. []) accepting 5 http_params validation_start) = ''valid''"
  using only_accepted_checks_grant [OF accepting_quiet, OF surjective_pairing] http_accepted by blast

section \<open>One validation per challenge\<close>

text \<open>The row the handler picks: the first challenge of that type in order of ids.\<close>

definition picked :: "db \<Rightarrow> string \<Rightarrow> string \<Rightarrow> challenge_row option" where
  "picked d authz_id chall_type = find (\<lambda>c. ch_type c = chall_type)
     (sort_key ch_id (filter (\<lambda>c. ch_authz_id c = authz_id) (db_challenges d)))"

lemma find_SomeD: "find P xs = Some x \<Longrightarrow> x \<in> set xs \<and> P x"
  by (induction xs) (auto split: if_splits)

lemma sort_key_map: "(\<And>x. key (f x) = key x) \<Longrightarrow> sort_key key (map f xs) = map f (sort_key key xs)"
proof (induction xs)
  case (Cons x xs)
  have "insort_key key (f x) (map f ys) = map f (insort_key key x ys)" for ys
    using Cons.prems by (induction ys) auto
  then show ?case using Cons by simp
qed simp

lemma filter_upd_where_key:
  "(\<And>r. q (f r) = q r) \<Longrightarrow> filter q (upd_where p f rows) = upd_where p f (filter q rows)"
  by (induction rows) (auto simp: upd_where_def)

text \<open>Flipping the picked challenge leaves it picked, in processing.\<close>

lemma picked_after_flip:
  assumes "picked d authz_id t = Some c" and "ch_status c = ''pending''"
  shows "picked (snd (challenges_set_processing_if_pending (ch_id c) now d)) authz_id t
       = Some (c\<lparr>ch_status := ''processing'', ch_updated := now\<rparr>)"
proof -
  let ?p = "\<lambda>x. ch_id x = ch_id c \<and> ch_status x = ''pending''"
  let ?f = "\<lambda>x. if ?p x then x\<lparr>ch_status := ''processing'', ch_updated := now\<rparr> else x"
  have "picked (snd (challenges_set_processing_if_pending (ch_id c) now d)) authz_id t
      = find (\<lambda>c. ch_type c = t) (sort_key ch_id (map ?f (filter (\<lambda>c. ch_authz_id c = authz_id) (db_challenges d))))"
    by (simp add: picked_def challenges_set_processing_if_pending_def Let_def filter_upd_where_key upd_where_def [of _ _ "filter _ _"])
  also have "\<dots> = map_option ?f (picked d authz_id t)"
    by (simp add: sort_key_map picked_def find_map_key)
  finally show ?thesis using assms by simp
qed

lemma on_challenge_set_db [simp]: "st_db (on_challenge_set lock st p) = st_db st"
  by (simp add: on_challenge_set_def)

lemma challenge_pending_iff: "challenge_from_str s = Some ChallPending \<longleftrightarrow> s = ''pending''"
  by (simp add: challenge_from_str_def)

lemma flip_cases:
  assumes "flip_to_processing msg io co cid now d = (r, d')"
  obtains e where "r = Inl e" "d' = d" | "(r, d') = challenges_set_processing_if_pending cid now d"
proof (cases co)
  case True
  let ?e = "execute_op msg (SetProcessing cid now) d"
  have "?e = map_prod ReplySetProcessing id (challenges_set_processing_if_pending cid now d)" by simp
  then show ?thesis
    using assms True that
    by (auto simp: flip_to_processing_def coalesce_batch_def send_error_def challenges_set_processing_if_pending_def Let_def
        split: if_splits)
qed (use assms that in \<open>simp add: flip_to_processing_def\<close>)

text \<open>What the handler reads: the authorization, and the picked challenge without four columns.\<close>

abbreviation strip :: "challenge_row \<Rightarrow> challenge_row" where
  "strip c \<equiv> c\<lparr>ch_email_token_part1 := None, ch_email_message_id := None, ch_tkauth_type := None, ch_token_authority := None\<rparr>"

lemma find_picked:
  "authz_get_with_challenges aid d = (Inr (Some (az, cs)), d') \<Longrightarrow>
     find (\<lambda>c. ch_type c = t) cs = map_option strip (picked d aid t)"
  by (auto simp: authz_get_with_challenges_def picked_def find_map_key split: option.splits)

text \<open>The handler in two phases: the checks that only read, and the flip with what follows it.\<close>

definition respond_read ::
  "string \<Rightarrow> string \<Rightarrow> string \<Rightarrow> jws_context \<Rightarrow> db
     \<Rightarrow> challenge_row result + (string \<times> string \<times> authorization_row \<times> challenge_row)" where
  "respond_read ca_id authz_id chall_type ctx d =
     (case ctx_account_id ctx of
        None \<Rightarrow> Inl (Inl (Unauthorized ''kid required''))
      | Some account_id \<Rightarrow>
     (case ctx_jwk_thumbprint ctx of
        None \<Rightarrow> Inl (Inl (Internal ''JWK thumbprint missing in challenge handler''))
      | Some jwk_thumbprint \<Rightarrow>
     (case fst (authz_get_with_challenges authz_id d) of
        Inl e \<Rightarrow> Inl (Inl e)
      | Inr None \<Rightarrow> Inl (Inl NotFound)
      | Inr (Some (authz, challs)) \<Rightarrow>
          if az_account_id authz \<noteq> account_id
          then Inl (Inl (Unauthorized ''authorization belongs to different account''))
          else if az_ca_id authz \<noteq> [] \<and> az_ca_id authz \<noteq> ''default'' \<and> az_ca_id authz \<noteq> ca_id
          then Inl (Inl NotFound)
          else (case find (\<lambda>c. ch_type c = chall_type) challs of
                  None \<Rightarrow> Inl (Inl NotFound)
                | Some challenge \<Rightarrow>
                    if authz_from_str (az_status authz) \<noteq> Some AuthzPending
                       \<or> challenge_from_str (ch_status challenge) \<noteq> Some ChallPending
                    then Inl (Inr challenge)
                    else Inr (account_id, jwk_thumbprint, authz, challenge)))))"

definition processing_entry :: "string \<Rightarrow> string \<Rightarrow> i64 \<Rightarrow> challenge_row \<Rightarrow> challenge_set_params" where
  "processing_entry authz_id chall_type now challenge =
     \<lparr>chp_id = ch_id challenge, chp_authz_id = authz_id, chp_challenge_type = chall_type, chp_status = ChallProcessing,
      chp_token = ch_token challenge, chp_validated = ch_validated challenge, chp_error = ch_error challenge,
      chp_created = ch_created challenge, chp_updated = now\<rparr>"

lemma respond_challenge_eq:
  "respond_challenge msg io lock now ca pfx aid t ctx ident onion tk st =
     (case respond_read ca aid t ctx (st_db st) of
        Inl r \<Rightarrow> (r, st, None)
      | Inr (account_id, thumb, authz, challenge) \<Rightarrow>
          (case flip_to_processing msg io (st_coalescer st) (ch_id challenge) now (st_db st) of
             (Inl e, d) \<Rightarrow> (Inl e, st\<lparr>st_db := d\<rparr>, None)
           | (Inr n, d) \<Rightarrow>
               if n = 0 then (Inr challenge, st\<lparr>st_db := d\<rparr>, None)
               else let st1 = on_challenge_set lock (st\<lparr>st_db := d\<rparr>) (processing_entry aid t now challenge)
                    in (case start_validation pfx account_id thumb t authz challenge
                               (ident (az_identifier authz)) onion tk of
                          Inl e \<Rightarrow> (Inl e, st1, None)
                        | Inr params \<Rightarrow> (Inr (challenge\<lparr>ch_status := ''processing''\<rparr>), st1, Some params))))"
  unfolding respond_challenge_def respond_read_def processing_entry_def [symmetric]
  by (simp split: option.split sum.split)

lemma respond_read_picks:
  assumes "respond_read ca aid t ctx d = Inr (account_id, thumb, authz, challenge)"
  obtains c where "picked d aid t = Some c" "ch_status c = ''pending''" "challenge = strip c"
proof -
  have "find (\<lambda>c. ch_type c = t) (map strip (sort_key ch_id (filter (\<lambda>c. ch_authz_id c = aid) (db_challenges d)))) = Some challenge"
    "ch_status challenge = ''pending''"
    using assms by (auto simp: respond_read_def authz_get_with_challenges_def challenge_pending_iff
        split: option.splits if_splits)
  then show ?thesis using that by (auto simp: picked_def find_map_key)
qed

lemma respond_cases:
  assumes "respond_challenge msg io lock now ca pfx aid t ctx ident onion tk st = (res, st', task)"
  obtains (idle) "st_db st' = st_db st" "task = None"
  | (flipped) c where "picked (st_db st) aid t = Some c" "ch_status c = ''pending''"
      "st_db st' = snd (challenges_set_processing_if_pending (ch_id c) now (st_db st))"
proof (cases "respond_read ca aid t ctx (st_db st)")
  case (Inl r)
  then show ?thesis using assms idle by (simp add: respond_challenge_eq)
next
  case (Inr x)
  obtain account_id thumb authz challenge where x: "x = (account_id, thumb, authz, challenge)" by (rule prod_cases4)
  obtain c where c: "picked (st_db st) aid t = Some c" "ch_status c = ''pending''" "challenge = strip c"
    using respond_read_picks Inr x by metis
  obtain r d where f: "flip_to_processing msg io (st_coalescer st) (ch_id c) now (st_db st) = (r, d)" by fastforce
  note eq = assms [unfolded respond_challenge_eq Inr x sum.case prod.case, simplified c(3), simplified, unfolded f prod.case]
  have db: "st_db st' = d"
    using eq by (auto simp: Let_def split: sum.splits if_splits)
  from f show ?thesis
  proof (cases rule: flip_cases)
    case (1 e)
    then show ?thesis using eq db by (intro idle) auto
  next
    case 2
    then show ?thesis using c db by (intro flipped) (auto simp: prod_eq_iff)
  qed
qed

lemma respond_settled:
  assumes "picked (st_db st) aid t = Some c" and "ch_status c \<noteq> ''pending''"
  obtains res where "respond_challenge msg io lock now ca pfx aid t ctx ident onion tk st = (res, st, None)"
proof (cases "respond_read ca aid t ctx (st_db st)")
  case (Inr x)
  then obtain c' where "picked (st_db st) aid t = Some c'" "ch_status c' = ''pending''"
    by (metis prod_cases4 respond_read_picks)
  then show ?thesis using assms by simp
qed (use that in \<open>simp add: respond_challenge_eq\<close>)


definition pending_tkauth :: app_state where
  "pending_tkauth = sample_state\<lparr>st_db := two_challenges\<lparr>
     db_challenges := [(sample_challenge ''c1'' ''z1'' ''pending'')\<lparr>ch_type := ''tkauth-01''\<rparr>]\<rparr>\<rparr>"

definition owner_ctx :: jws_context where
  "owner_ctx = \<lparr>ctx_account_id = Some ''a1'', ctx_jwk_thumbprint = Some ''th''\<rparr>"

lemmas pending_tkauth_simps =
  pending_tkauth_def owner_ctx_def sample_state_def two_challenges_def sample_defs respond_challenge_eq respond_read_def
  authz_get_with_challenges_def authz_from_str_def challenge_from_str_def flip_to_processing_def Let_def
  challenges_set_processing_if_pending_def affected_def upd_where_def start_validation_def


section \<open>A malformed response blocks the challenge\<close>

text \<open>A malformed response blocks its challenge for good. The handler puts the challenge into
  processing before it looks at the payload: a \<^verbatim>\<open>tkauth-01\<close> or \<^verbatim>\<open>onion-csr-01\<close> response whose payload does
  not parse is answered with a bad request and starts no validation, but leaves the challenge in
  processing, and no corrected response, nor any other, will ever start one.\<close>

theorem malformed_response_blocks_challenge:
  assumes "respond_read ca aid t ctx (st_db st) = Inr (account_id, thumb, authz, challenge)"
    and "\<not> st_coalescer st" and "ident (az_identifier authz) = Ident id_type id_value"
    and "t = ''tkauth-01'' \<and> tk = TkauthJsonError e \<or> t = ''onion-csr-01'' \<and> onion = OnionJsonError e"
  shows "\<exists>detail st' c. respond_challenge msg io lock now ca pfx aid t ctx ident onion tk st = (Inl (BadRequest detail), st', None)
    \<and> picked (st_db st') aid t = Some c \<and> ch_status c = ''processing''
    \<and> (\<forall>msg2 io2 lock2 now2 ca2 pfx2 ctx2 ident2 onion2 tk2. \<exists>res2.
         respond_challenge msg2 io2 lock2 now2 ca2 pfx2 aid t ctx2 ident2 onion2 tk2 st' = (res2, st', None))"
proof -
  obtain c where c: "picked (st_db st) aid t = Some c" "ch_status c = ''pending''" "challenge = strip c"
    using respond_read_picks [OF assms(1)] .
  let ?d = "snd (challenges_set_processing_if_pending (ch_id c) now (st_db st))"
  let ?st = "on_challenge_set lock (st\<lparr>st_db := ?d\<rparr>) (processing_entry aid t now challenge)"
  let ?c = "c\<lparr>ch_status := ''processing'', ch_updated := now\<rparr>"
  have "c \<in> set (db_challenges (st_db st))" using find_SomeD [OF c(1) [unfolded picked_def]] by simp
  then have "affected (\<lambda>x. ch_id x = ch_id c \<and> ch_status x = ''pending'') (db_challenges (st_db st)) \<noteq> 0"
    using c(2) by (auto simp: affected_0_iff)
  then obtain n where n: "flip_to_processing msg io (st_coalescer st) (ch_id c) now (st_db st) = (Inr n, ?d)" "n \<noteq> 0"
    using assms(2) by (simp add: flip_to_processing_def challenges_set_processing_if_pending_def Let_def)
  obtain detail where "start_validation pfx account_id thumb t authz challenge (ident (az_identifier authz)) onion tk
      = Inl (BadRequest detail)"
    using assms(3,4) by (auto simp: start_validation_def Let_def)
  then have r: "respond_challenge msg io lock now ca pfx aid t ctx ident onion tk st = (Inl (BadRequest detail), ?st, None)"
    using n by (simp add: respond_challenge_eq assms(1) Let_def c(3))
  have p: "picked (st_db ?st) aid t = Some ?c" by (simp add: picked_after_flip [OF c(1,2)])
  have "\<exists>res2. respond_challenge msg2 io2 lock2 now2 ca2 pfx2 aid t ctx2 ident2 onion2 tk2 ?st = (res2, ?st, None)"
    for msg2 io2 lock2 now2 ca2 pfx2 ctx2 ident2 onion2 tk2
    by (rule respond_settled [OF p]) (simp, rule exI)
  then show ?thesis using r p by (intro exI [of _ detail] exI [of _ ?st] exI [of _ ?c]) simp
qed

theorem malformed_response_blocks_challenge_witness:
  "\<exists>detail st'. respond_challenge (\<lambda>_. []) healthy_io True 5 ''default'' [] ''z1'' ''tkauth-01'' owner_ctx
       (\<lambda>_. Ident ''TNAuthList'' ''x'') (OnionCsr []) (TkauthJsonError ''EOF'') pending_tkauth = (Inl (BadRequest detail), st', None)
     \<and> (\<exists>res2. respond_challenge (\<lambda>_. []) healthy_io True 6 ''default'' [] ''z1'' ''tkauth-01'' owner_ctx
       (\<lambda>_. Ident ''TNAuthList'' ''x'') (OnionCsr []) (TkauthToken ''jwt'') st' = (res2, st', None))"
proof -
  obtain x where x: "respond_read ''default'' ''z1'' ''tkauth-01'' owner_ctx (st_db pending_tkauth) = Inr x"
    by (simp add: pending_tkauth_simps)
  obtain a b z c where "x = (a, b, z, c)" by (rule prod_cases4)
  then show ?thesis
    using malformed_response_blocks_challenge [of "''default''" "''z1''" "''tkauth-01''" owner_ctx pending_tkauth a b z c
        "\<lambda>_. Ident ''TNAuthList'' ''x''" "''TNAuthList''" "''x''" "TkauthJsonError ''EOF''" "''EOF''" "OnionCsr []"
        "\<lambda>_. []" healthy_io True 5 "[]"] x
    by (simp add: pending_tkauth_def sample_state_def) metis
qed

end
