(* ===== verification/Certificate_Properties.thy ===== *)
theory Certificate_Properties
  imports Db_Certs
begin

text \<open>
  Properties of the certificate table: revocation is final and decides the revocation list, and
  the search by subject finds exactly the certificates whose subject contains the text.
\<close>

section \<open>Revocation\<close>

text \<open>The rows a revocation applies to.\<close>

definition revocable :: "string \<Rightarrow> string option \<Rightarrow> cert_rec \<Rightarrow> bool" where
  "revocable i ca_id r \<longleftrightarrow> crt_id r = i \<and> crt_status r = ''valid'' \<and> opt_eq ca_id (crt_ca_id r)"

lemma certs_revoke_eq:
  "certs_revoke i reason now ca_id d =
     (Inr (affected (revocable i ca_id) (db_certs d) > 0),
      d\<lparr>db_certs := upd_where (revocable i ca_id) (\<lambda>r. r\<lparr>crt_status := ''revoked'', crt_revoked_at := Some now,
           crt_revocation_reason := reason\<rparr>) (db_certs d)\<rparr>)"
proof -
  have "(case ca_id of Some ca \<Rightarrow> (\<lambda>r. crt_id r = i \<and> crt_status r = ''valid'' \<and> crt_ca_id r = ca)
         | None \<Rightarrow> (\<lambda>r. crt_id r = i \<and> crt_status r = ''valid'')) = revocable i ca_id"
    by (auto simp: revocable_def opt_eq_def fun_eq_iff split: option.split)
  then show ?thesis by (simp add: certs_revoke_def Let_def)
qed

text \<open>The revocation list of a CA has an entry, unless it is refused for exceeding its limit.\<close>

abbreviation revoked_by :: "db \<Rightarrow> string \<Rightarrow> cert_rec list" where
  "revoked_by d ca \<equiv> filter (\<lambda>x. crt_status x = ''revoked'' \<and> crt_ca_id x = ca) (db_certs d)"

definition crl_lists :: "db \<Rightarrow> string \<Rightarrow> crl_entry \<Rightarrow> bool" where
  "crl_lists d ca e = (case fst (certs_list_revoked ca d) of
       Inr es \<Rightarrow> e \<in> set es
     | Inl _ \<Rightarrow> length (revoked_by d ca) > max_crl_entries)"

lemma crl_listsI: "x \<in> set (revoked_by d ca) \<Longrightarrow> crl_lists d ca (crl_entry_of x)"
  by (auto simp: crl_lists_def certs_list_revoked_def Let_def)

text \<open>Revocation is final and complete. Revoking succeeds exactly when the certificate is valid (and,
  for an operator bound to a CA, issued by that CA); it changes that row only; afterwards no further
  revocation of it does anything, and the revocation list of its CA has the serial number with that
  time and reason, unless the list is refused because it exceeds its limit.\<close>

theorem revocation_final_and_listed:
  assumes "certs_revoke i reason now ca_id d = (Inr ok, d')" and "distinct (map crt_id (db_certs d))"
  shows "(ok \<longleftrightarrow> (\<exists>r \<in> set (db_certs d). revocable i ca_id r))
    \<and> filter (\<lambda>r. crt_id r \<noteq> i) (db_certs d') = filter (\<lambda>r. crt_id r \<noteq> i) (db_certs d)
    \<and> (\<not> ok \<longrightarrow> d' = d)
    \<and> (ok \<longrightarrow> certs_revoke i reason2 now2 ca_id2 d' = (Inr False, d')
         \<and> (\<exists>r \<in> set (db_certs d). crt_id r = i \<and> crl_lists d' (crt_ca_id r)
              \<lparr>crl_serial_number = crt_serial_number r, crl_revoked_at = Some now, crl_revocation_reason = reason\<rparr>))"
proof -
  let ?f = "\<lambda>r. r\<lparr>crt_status := ''revoked'', crt_revoked_at := Some now, crt_revocation_reason := reason\<rparr>"
  have ok: "ok \<longleftrightarrow> (\<exists>r \<in> set (db_certs d). revocable i ca_id r)"
    and d': "d' = d\<lparr>db_certs := upd_where (revocable i ca_id) ?f (db_certs d)\<rparr>"
    using assms(1) by (auto simp: certs_revoke_eq affected_def filter_empty_conv)
  have "filter (\<lambda>r. crt_id r \<noteq> i) (upd_where (revocable i ca_id) ?f rows) = filter (\<lambda>r. crt_id r \<noteq> i) rows" for rows
    by (induction rows) (auto simp: upd_where_def revocable_def)
  moreover have "d' = d" if "\<not> ok"
    using that ok by (simp add: d' upd_where_id affected_0_iff)
  moreover have "certs_revoke i reason2 now2 ca_id2 d' = (Inr False, d')
      \<and> (\<exists>r \<in> set (db_certs d). crt_id r = i \<and> crl_lists d' (crt_ca_id r)
           \<lparr>crl_serial_number = crt_serial_number r, crl_revoked_at = Some now, crl_revocation_reason = reason\<rparr>)" if ok
  proof
    obtain r where r: "r \<in> set (db_certs d)" "revocable i ca_id r" using \<open>ok\<close> ok by blast
    have u: "x = r" if "x \<in> set (db_certs d)" "crt_id x = i" for x
      using find_key_unique [OF assms(2) r(1)] find_key_unique [OF assms(2) that(1)] r(2) that(2)
      by (simp add: revocable_def)
    have "\<forall>x \<in> set (db_certs d'). \<not> revocable i ca_id2 x"
      using u r(2) by (auto simp: d' ball_upd_where revocable_def)
    then have "affected (revocable i ca_id2) (db_certs d') = 0" by (simp add: affected_0_iff)
    then show "certs_revoke i reason2 now2 ca_id2 d' = (Inr False, d')"
      by (simp add: certs_revoke_eq upd_where_id)
    have "?f r \<in> set (revoked_by d' (crt_ca_id r))"
      using in_upd_where [of r "db_certs d" "revocable i ca_id" ?f] r by (simp add: d')
    from crl_listsI [OF this] show "\<exists>r \<in> set (db_certs d). crt_id r = i \<and> crl_lists d' (crt_ca_id r)
           \<lparr>crl_serial_number = crt_serial_number r, crl_revoked_at = Some now, crl_revocation_reason = reason\<rparr>"
      using r by (intro bexI [OF _ r(1)]) (simp add: crl_entry_of_def revocable_def)
  qed
  ultimately show ?thesis using ok d' by simp
qed

theorem revocation_final_and_listed_witness:
  "\<exists>d'. certs_revoke ''k1'' (Some 1) 7 None (snd (certs_insert (\<lambda>_. []) (sample_cert ''k1'' ''o1'')
           (empty_db\<lparr>db_accounts := [sample_account ''a1''], db_orders := [sample_order_row ''o1'' ''valid'']\<rparr>))) = (Inr True, d')
     \<and> certs_revoke ''k1'' None 8 None d' = (Inr False, d')"
proof -
  let ?d = "snd (certs_insert (\<lambda>_. []) (sample_cert ''k1'' ''o1'')
      (empty_db\<lparr>db_accounts := [sample_account ''a1''], db_orders := [sample_order_row ''o1'' ''valid'']\<rparr>))"
  have d: "db_certs ?d = [certificate_row.extend (sample_cert ''k1'' ''o1'') \<lparr>crt_mtc_standalone_der = None\<rparr>]"
    by (simp add: certs_insert_def sql_insert_def sample_defs cert_from_str_def order_exists_def account_exists_def)
  obtain d' where r: "certs_revoke ''k1'' (Some 1) 7 None ?d = (Inr True, d')"
    unfolding certs_revoke_eq d
    by (simp add: affected_def revocable_def opt_eq_def certificate_row.defs sample_cert_def [of "''k1''"])
  moreover have "distinct (map crt_id (db_certs ?d))" by (simp add: d)
  ultimately show ?thesis using revocation_final_and_listed [OF r] by blast
qed

section \<open>Search by subject\<close>

text \<open>
  \<^verbatim>\<open>LIKE ... ESCAPE\<close> of SQL: \<^verbatim>\<open>%\<close> matches any text, \<^verbatim>\<open>_\<close> any character, the escape character takes the
  next one literally; \<open>eqc\<close> is how the database compares two characters (ignoring case, or not).
\<close>

fun sql_like :: "(char \<Rightarrow> char \<Rightarrow> bool) \<Rightarrow> char \<Rightarrow> string \<Rightarrow> string \<Rightarrow> bool" where
  "sql_like eqc esc [] s = (s = [])"
| "sql_like eqc esc (p # ps) s =
     (if p = esc then (case ps of [] \<Rightarrow> False | q # qs \<Rightarrow> (case s of [] \<Rightarrow> False | c # cs \<Rightarrow> eqc q c \<and> sql_like eqc esc qs cs))
      else if p = CHR ''%'' then sql_like eqc esc ps s \<or> (case s of [] \<Rightarrow> False | _ # cs \<Rightarrow> sql_like eqc esc (p # ps) cs)
      else (case s of [] \<Rightarrow> False | c # cs \<Rightarrow> (p = CHR ''_'' \<or> eqc p c) \<and> sql_like eqc esc ps cs))"

text \<open>The subject contains the text.\<close>

definition contains_text :: "(char \<Rightarrow> char \<Rightarrow> bool) \<Rightarrow> string \<Rightarrow> string \<Rightarrow> bool" where
  "contains_text eqc t s \<longleftrightarrow> (\<exists>pre mid post. s = pre @ mid @ post \<and> list_all2 eqc t mid)"

definition escape_char :: "char \<Rightarrow> string" where
  "escape_char c = (if c = CHR ''!'' \<or> c = CHR ''%'' \<or> c = CHR ''_'' then [CHR ''!'', c] else [c])"

lemma like_escape_concat: "like_escape s = concat (map escape_char s)"
  by (induction s) (auto simp: like_escape_def replace_char_def escape_char_def)

lemma like_percent_end: "sql_like eqc CHR ''!'' ''%'' s"
  by (induction s) auto

lemma like_prefix:
  "sql_like eqc CHR ''!'' (like_escape t @ ''%'') s \<longleftrightarrow> (\<exists>mid post. s = mid @ post \<and> list_all2 eqc t mid)"
proof (induction t arbitrary: s)
  case Nil
  then show ?case
    using like_percent_end [of eqc s] by (simp add: like_escape_def replace_char_def del: sql_like.simps)
next
  case (Cons c t)
  have "sql_like eqc CHR ''!'' (like_escape (c # t) @ ''%'') s
      \<longleftrightarrow> (\<exists>x xs. s = x # xs \<and> eqc c x \<and> sql_like eqc CHR ''!'' (like_escape t @ ''%'') xs)"
    by (cases s) (auto simp: like_escape_concat escape_char_def)
  also have "\<dots> \<longleftrightarrow> (\<exists>mid post. s = mid @ post \<and> list_all2 eqc (c # t) mid)"
    unfolding Cons.IH by (auto simp: list_all2_Cons1) (metis append_Cons)+
  finally show ?case .
qed

lemma contains_text_Cons:
  "contains_text eqc t (c # s) \<longleftrightarrow> (\<exists>mid post. c # s = mid @ post \<and> list_all2 eqc t mid) \<or> contains_text eqc t s"
proof
  assume "contains_text eqc t (c # s)"
  then obtain pre mid post where "c # s = pre @ mid @ post" "list_all2 eqc t mid" by (auto simp: contains_text_def)
  then show "(\<exists>mid post. c # s = mid @ post \<and> list_all2 eqc t mid) \<or> contains_text eqc t s"
    by (cases pre) (auto simp: contains_text_def)
next
  assume "(\<exists>mid post. c # s = mid @ post \<and> list_all2 eqc t mid) \<or> contains_text eqc t s"
  then show "contains_text eqc t (c # s)"
    unfolding contains_text_def by (metis append_Cons append_Nil)
qed

lemma like_contains: "sql_like eqc CHR ''!'' (''%'' @ like_escape t @ ''%'') s \<longleftrightarrow> contains_text eqc t s"
proof (induction s)
  case Nil
  have "sql_like eqc CHR ''!'' (''%'' @ like_escape t @ ''%'') [] \<longleftrightarrow> sql_like eqc CHR ''!'' (like_escape t @ ''%'') []" by simp
  then show ?case by (simp add: like_prefix contains_text_def)
next
  case (Cons c s)
  have "sql_like eqc CHR ''!'' (''%'' @ like_escape t @ ''%'') (c # s)
      \<longleftrightarrow> sql_like eqc CHR ''!'' (like_escape t @ ''%'') (c # s) \<or> contains_text eqc t s"
    using Cons.IH by simp
  also have "\<dots> \<longleftrightarrow> contains_text eqc t (c # s)"
    unfolding like_prefix contains_text_Cons ..
  finally show ?case .
qed

text \<open>A search finds what it is asked for. With \<^verbatim>\<open>LIKE\<close> as SQL defines it, the certificates that a
  search by subject returns are exactly those whose subject contains the text given, taken
  literally: no character of the text acts as a wildcard, whatever the text is.\<close>

theorem subject_search_is_literal:
  "cert_search_filter (\<lambda>s pat esc. sql_like eqc esc pat s) (p\<lparr>csp_subject_dn := Some dn\<rparr>) r \<longleftrightarrow>
     cert_search_filter (\<lambda>s pat esc. sql_like eqc esc pat s) (p\<lparr>csp_subject_dn := None\<rparr>) r
     \<and> (\<exists>subj. crt_subject_dn r = Some subj \<and> contains_text eqc dn subj)"
  by (auto simp: cert_search_filter_def like_contains [simplified] split: option.split)

end
