(* ===== verification/Mtc_Log.thy ===== *)
theory Mtc_Log
  imports Db_Model
begin

text \<open>
  The transparency log with its cached root (\<^verbatim>\<open>src/mtc/log.rs\<close>). The log on disk belongs to the library
  \<^verbatim>\<open>synta_mtc\<close>: its operations are a record of parameters over an unknown state \<open>'l\<close>, which answer with an
  error text or a value.
\<close>

section \<open>The log on disk\<close>

type_synonym 'a disk_result = "string + 'a"

record 'l disk_log =
  dl_tree_size :: "'l \<Rightarrow> u64 disk_result"
  dl_compute_root :: "'l \<Rightarrow> bytes disk_result"
  dl_append_leaf :: "bytes \<Rightarrow> 'l \<Rightarrow> u64 disk_result \<times> 'l"
  dl_generate_proof :: "u64 \<Rightarrow> 'l \<Rightarrow> bytes list disk_result"
  dl_read_hash_range :: "u64 \<Rightarrow> nat \<Rightarrow> 'l \<Rightarrow> bytes list disk_result"
  dl_read_all_hashes :: "'l \<Rightarrow> bytes list disk_result"

definition mtc_err :: "string \<Rightarrow> 'a disk_result \<Rightarrow> 'a result" where
  "mtc_err op r = (case r of Inl e \<Rightarrow> Inl (Mtc (op @ '': '' @ e)) | Inr x \<Rightarrow> Inr x)"

section \<open>The cached log\<close>

record 'l cached_log =
  cl_log :: 'l
  cl_root_cache :: "(u64 \<times> bytes) option"

definition cached_new :: "'l \<Rightarrow> 'l cached_log" where
  "cached_new l = \<lparr>cl_log = l, cl_root_cache = None\<rparr>"

definition cached_tree_size :: "'l disk_log \<Rightarrow> 'l cached_log \<Rightarrow> u64 result" where
  "cached_tree_size dl c = mtc_err ''tree_size'' (dl_tree_size dl (cl_log c))"

definition cached_compute_root :: "'l disk_log \<Rightarrow> 'l cached_log \<Rightarrow> bytes result \<times> 'l cached_log" where
  "cached_compute_root dl c =
     (case mtc_err ''compute_root'' (dl_compute_root dl (cl_log c)) of
        Inl e \<Rightarrow> (Inl e, c)
      | Inr root \<Rightarrow>
          (Inr root, case dl_tree_size dl (cl_log c) of
                       Inr sz \<Rightarrow> c\<lparr>cl_root_cache := Some (sz, root)\<rparr>
                     | Inl _ \<Rightarrow> c))"

definition cached_tree_size_and_root ::
  "'l disk_log \<Rightarrow> 'l cached_log \<Rightarrow> (u64 \<times> bytes) result \<times> 'l cached_log" where
  "cached_tree_size_and_root dl c =
     (case cached_tree_size dl c of
        Inl e \<Rightarrow> (Inl e, c)
      | Inr sz \<Rightarrow>
          let recompute = (case mtc_err ''compute_root'' (dl_compute_root dl (cl_log c)) of
                 Inl e \<Rightarrow> (Inl e, c)
               | Inr root \<Rightarrow> (Inr (sz, root), c\<lparr>cl_root_cache := Some (sz, root)\<rparr>))
          in case cl_root_cache c of
               Some (cached_size, root) \<Rightarrow>
                 if cached_size = sz then (Inr (sz, root), c) else recompute
             | None \<Rightarrow> recompute)"

definition cached_append_leaf :: "'l disk_log \<Rightarrow> bytes \<Rightarrow> 'l cached_log \<Rightarrow> u64 result \<times> 'l cached_log" where
  "cached_append_leaf dl h c =
     (case dl_append_leaf dl h (cl_log c) of
        (Inl e, l) \<Rightarrow> (mtc_err ''append_leaf'' (Inl e), c\<lparr>cl_log := l\<rparr>)
      | (Inr idx, l) \<Rightarrow> (Inr idx, c\<lparr>cl_log := l, cl_root_cache := None\<rparr>))"

definition cached_generate_proof :: "'l disk_log \<Rightarrow> u64 \<Rightarrow> 'l cached_log \<Rightarrow> bytes list result" where
  "cached_generate_proof dl leaf_index c = mtc_err ''generate_proof'' (dl_generate_proof dl leaf_index (cl_log c))"

definition cached_read_hash_range :: "'l disk_log \<Rightarrow> u64 \<Rightarrow> nat \<Rightarrow> 'l cached_log \<Rightarrow> bytes list result" where
  "cached_read_hash_range dl start count c =
     (case cached_tree_size dl c of
        Inl e \<Rightarrow> Inl e
      | Inr sz \<Rightarrow> if start \<ge> sz then Inr []
                    else mtc_err ''read_hash_range'' (dl_read_hash_range dl start count (cl_log c)))"

definition cached_read_all_hashes :: "'l disk_log \<Rightarrow> 'l cached_log \<Rightarrow> bytes list result" where
  "cached_read_all_hashes dl c = mtc_err ''read_all_hashes'' (dl_read_all_hashes dl (cl_log c))"

section \<open>Reads under one lock\<close>

definition proof_and_tree_size :: "'l disk_log \<Rightarrow> u64 \<Rightarrow> 'l cached_log \<Rightarrow> (bytes list \<times> u64) result" where
  "proof_and_tree_size dl leaf_index c =
     (case cached_generate_proof dl leaf_index c of
        Inl e \<Rightarrow> Inl e
      | Inr p \<Rightarrow> (case cached_tree_size dl c of Inl e \<Rightarrow> Inl e | Inr sz \<Rightarrow> Inr (p, sz)))"

definition compute_root_at_size ::
  "'l disk_log \<Rightarrow> (bytes list \<Rightarrow> bytes disk_result) \<Rightarrow> u64 \<Rightarrow> 'l cached_log \<Rightarrow> bytes result" where
  "compute_root_at_size dl root_of sz c =
     (case cached_read_hash_range dl 0 sz c of
        Inl e \<Rightarrow> Inl e
      | Inr hashes \<Rightarrow> if hashes = [] then Inl (Mtc ''cannot compute root of empty tree'')
                      else mtc_err ''compute_root_at_size'' (root_of hashes))"

text \<open>A slice beyond the hashes read panics; the panic surfaces as an error of the blocking task.\<close>

definition compute_roots_at_sizes ::
  "'l disk_log \<Rightarrow> (bytes list \<Rightarrow> bytes disk_result) \<Rightarrow> string \<Rightarrow> u64 \<Rightarrow> u64 \<Rightarrow> 'l cached_log \<Rightarrow> (bytes \<times> bytes) result" where
  "compute_roots_at_sizes dl root_of panic_text from_size to_size c =
     (case cached_read_hash_range dl 0 to_size c of
        Inl e \<Rightarrow> Inl e
      | Inr to_hashes \<Rightarrow>
          if to_hashes = [] then Inl (Mtc ''cannot compute root of empty tree'')
          else if from_size > length to_hashes then Inl (Mtc (''spawn_blocking panicked: '' @ panic_text))
          else (case mtc_err ''compute_root (from)'' (root_of (take from_size to_hashes)) of
                  Inl e \<Rightarrow> Inl e
                | Inr from_root \<Rightarrow>
                    (case mtc_err ''compute_root (to)'' (root_of to_hashes) of
                       Inl e \<Rightarrow> Inl e
                     | Inr to_root \<Rightarrow> Inr (from_root, to_root))))"

text \<open>
  Opening the log: a new log is seeded with the hash of the null entry, so that the first
  certificate has a positive index. The parameters are the results of creating and of opening the
  file, and of hashing the null entry.
\<close>

definition open_or_create ::
  "'l disk_log \<Rightarrow> 'l disk_result \<Rightarrow> 'l disk_result \<Rightarrow> bytes list disk_result \<Rightarrow> 'l cached_log result" where
  "open_or_create dl create opened null_hashes =
     (case create of
        Inr log \<Rightarrow>
          (case mtc_err ''compute null_entry hash'' null_hashes of
             Inl e \<Rightarrow> Inl e
           | Inr [] \<Rightarrow> Inl (Mtc ''IssuanceLogBuilder yielded no hashes'')
           | Inr (null_hash # _) \<Rightarrow>
               (case dl_append_leaf dl null_hash log of
                  (Inl e, _) \<Rightarrow> Inl (Mtc (''seed null_entry at index 0: '' @ e))
                | (Inr _, log') \<Rightarrow> Inr (cached_new log')))
      | Inl _ \<Rightarrow> (case mtc_err ''open MTC log'' opened of Inl e \<Rightarrow> Inl e | Inr log \<Rightarrow> Inr (cached_new log)))"

section \<open>The cache is coherent\<close>

text \<open>
  What the code relies on: the log is a growing list of leaf hashes whose size and root are those of
  the list. A failed append may have written something, but never changes what was there.
\<close>

definition disk_log_laws :: "'l disk_log \<Rightarrow> ('l \<Rightarrow> bytes list) \<Rightarrow> (bytes list \<Rightarrow> bytes) \<Rightarrow> bool" where
  "disk_log_laws dl leaves root_of \<longleftrightarrow>
     (\<forall>l n. dl_tree_size dl l = Inr n \<longrightarrow> n = length (leaves l)) \<and>
     (\<forall>l r. dl_compute_root dl l = Inr r \<longrightarrow> r = root_of (leaves l)) \<and>
     (\<forall>l h r l'. dl_append_leaf dl h l = (r, l') \<longrightarrow> (\<exists>xs. leaves l' = leaves l @ xs)
        \<and> (\<forall>i. r = Inr i \<longrightarrow> i = length (leaves l) \<and> leaves l' = leaves l @ [h])) \<and>
     (\<forall>l s n hs. dl_read_hash_range dl s n l = Inr hs \<longrightarrow> hs = take n (drop s (leaves l)))"

text \<open>The states of a log: opened, then used by any sequence of operations.\<close>

inductive log_reachable :: "'l disk_log \<Rightarrow> 'l cached_log \<Rightarrow> bool" for dl where
  opened: "log_reachable dl (cached_new l)"
| root: "log_reachable dl c \<Longrightarrow> log_reachable dl (snd (cached_compute_root dl c))"
| size_root: "log_reachable dl c \<Longrightarrow> log_reachable dl (snd (cached_tree_size_and_root dl c))"
| append: "log_reachable dl c \<Longrightarrow> log_reachable dl (snd (cached_append_leaf dl h c))"

definition cache_ok :: "('l \<Rightarrow> bytes list) \<Rightarrow> (bytes list \<Rightarrow> bytes) \<Rightarrow> 'l cached_log \<Rightarrow> bool" where
  "cache_ok leaves root_of c = (case cl_root_cache c of
       None \<Rightarrow> True
     | Some (s, r) \<Rightarrow> s \<le> length (leaves (cl_log c)) \<and> r = root_of (take s (leaves (cl_log c))))"

lemma mtc_err_Inr [simp]: "mtc_err op r = Inr x \<longleftrightarrow> r = Inr x"
  by (cases r) (auto simp: mtc_err_def)

lemma cached_tree_size_Inr [simp]: "cached_tree_size dl c = Inr n \<longleftrightarrow> dl_tree_size dl (cl_log c) = Inr n"
  by (simp add: cached_tree_size_def)

lemma disk_log_laws_append:
  assumes "disk_log_laws dl leaves root_of" and "dl_append_leaf dl h l = (r, l')"
  shows "\<exists>xs. leaves l' = leaves l @ xs"
  using assms unfolding disk_log_laws_def by blast

lemma cache_ok_reachable:
  assumes laws: "disk_log_laws dl leaves root_of" and "log_reachable dl c"
  shows "cache_ok leaves root_of c"
  using assms(2)
proof induction
  case (opened l)
  then show ?case by (simp add: cache_ok_def cached_new_def)
next
  case (root c)
  then show ?case
    using laws by (auto simp: cached_compute_root_def cache_ok_def disk_log_laws_def split: sum.splits option.splits)
next
  case (size_root c)
  then show ?case
    using laws by (auto simp: cached_tree_size_and_root_def Let_def cache_ok_def disk_log_laws_def
        split: sum.splits option.splits)
next
  case (append c h)
  obtain r l' where a: "dl_append_leaf dl h (cl_log c) = (r, l')" by fastforce
  obtain xs where xs: "leaves l' = leaves (cl_log c) @ xs" using disk_log_laws_append [OF laws a] by blast
  show ?case
    using append.IH a xs by (cases r) (auto simp: cached_append_leaf_def cache_ok_def split: option.splits)
qed

text \<open>C21: the cached root is the root. In every reachable state of the log, whatever operations failed on the
  way, size and root that are reported are those of the leaves the log holds, and reading a range
  gives exactly those leaves.\<close>

theorem cached_root_is_current:
  assumes laws: "disk_log_laws dl leaves root_of" and reach: "log_reachable dl c"
  shows "(\<forall>n r. fst (cached_tree_size_and_root dl c) = Inr (n, r) \<longrightarrow>
            n = length (leaves (cl_log c)) \<and> r = root_of (leaves (cl_log c)))
    \<and> (\<forall>start count hs. cached_read_hash_range dl start count c = Inr hs \<longrightarrow>
            hs = take count (drop start (leaves (cl_log c))))"
proof -
  have ok: "cache_ok leaves root_of c" using cache_ok_reachable [OF laws reach] .
  have "n = length (leaves (cl_log c)) \<and> r = root_of (leaves (cl_log c))"
    if "fst (cached_tree_size_and_root dl c) = Inr (n, r)" for n r
    using that ok laws
    by (auto simp: cached_tree_size_and_root_def Let_def cache_ok_def disk_log_laws_def split: sum.splits option.splits if_splits)
  moreover have "hs = take count (drop start (leaves (cl_log c)))"
    if "cached_read_hash_range dl start count c = Inr hs" for start count hs
    using that laws by (auto simp: cached_read_hash_range_def disk_log_laws_def split: sum.splits if_splits)
  ultimately show ?thesis by blast
qed

text \<open>A log kept as a list, for examples.\<close>

definition list_log :: "(bytes list \<Rightarrow> bytes) \<Rightarrow> bytes list disk_log" where
  "list_log root_of = \<lparr>dl_tree_size = \<lambda>l. Inr (length l), dl_compute_root = \<lambda>l. Inr (root_of l),
     dl_append_leaf = \<lambda>h l. (Inr (length l), l @ [h]), dl_generate_proof = \<lambda>i l. Inr [],
     dl_read_hash_range = \<lambda>s n l. Inr (take n (drop s l)), dl_read_all_hashes = \<lambda>l. Inr l\<rparr>"

lemma list_log_laws: "disk_log_laws (list_log root_of) (\<lambda>l. l) root_of"
  by (simp add: disk_log_laws_def list_log_def)

theorem cached_root_is_current_witness:
  "fst (cached_tree_size_and_root (list_log concat)
     (snd (cached_append_leaf (list_log concat) [1] (snd (cached_tree_size_and_root (list_log concat) (cached_new [[7]]))))))
   = Inr (2, [7, 1])"
proof -
  let ?c = "snd (cached_append_leaf (list_log concat) [1] (snd (cached_tree_size_and_root (list_log concat) (cached_new [[7]]))))"
  have "log_reachable (list_log concat) ?c" by (intro log_reachable.intros)
  from cached_root_is_current [OF list_log_laws this] show ?thesis
    by (simp add: cached_append_leaf_def cached_tree_size_and_root_def cached_tree_size_def mtc_err_def list_log_def cached_new_def Let_def)
qed

end
