(* ===== verification/Merkle_Tree.thy ===== *)
theory Merkle_Tree
  imports Db_Model
begin

text \<open>
  The Merkle tree hash of RFC 9162, section 2, over leaf hashes: the reference for the transparency
  log. The interior hash and the hash of the empty tree are parameters. The main lemma says that
  hashing a list block by block gives the hash of the list, for blocks of a power of two.
\<close>

section \<open>Powers of two below a number\<close>

fun bit_length :: "nat \<Rightarrow> nat" where
  "bit_length n = (if n = 0 then 0 else Suc (bit_length (n div 2)))"

declare bit_length.simps [simp del]

lemma bit_length_bounds: "0 < n \<Longrightarrow> 2 ^ (bit_length n - 1) \<le> n \<and> n < 2 ^ bit_length n \<and> 0 < bit_length n"
proof (induction n rule: bit_length.induct)
  case (1 n)
  show ?case
  proof (cases "n div 2 = 0")
    case True
    then have "n = 1" using "1.prems" by auto
    then show ?thesis by (simp add: bit_length.simps)
  next
    case False
    let ?b = "bit_length (n div 2)"
    have b: "2 ^ (?b - 1) \<le> n div 2" "n div 2 < 2 ^ ?b" "0 < ?b" using "1.IH" "1.prems" False by auto
    have "(2::nat) ^ ?b = 2 * 2 ^ (?b - 1)" using b(3) by (cases ?b) auto
    then have "2 ^ ?b \<le> n" using b(1) by simp
    moreover have "n < 2 * 2 ^ ?b" using b(2) by linarith
    ultimately show ?thesis using "1.prems" by (simp add: bit_length.simps [of n])
  qed
qed

text \<open>The largest power of two smaller than \<open>n\<close>, for \<open>n > 1\<close>.\<close>

definition pow2_below :: "nat \<Rightarrow> nat" where
  "pow2_below n = 2 ^ (bit_length (n - 1) - 1)"

lemma half_bounds: "(x::nat) \<le> n - 1 \<Longrightarrow> n - 1 < 2 * x \<Longrightarrow> 1 < n \<Longrightarrow> x < n \<and> n \<le> 2 * x"
  by arith

lemma pow2_below_bounds: "1 < n \<Longrightarrow> pow2_below n < n \<and> n \<le> 2 * pow2_below n \<and> 0 < pow2_below n"
proof -
  assume "1 < n"
  then have "0 < n - 1" by simp
  from bit_length_bounds [OF this] have b: "2 ^ (bit_length (n - 1) - 1) \<le> n - 1" "n - 1 < 2 ^ bit_length (n - 1)" "0 < bit_length (n - 1)"
    by auto
  have "(2::nat) ^ bit_length (n - 1) = 2 * 2 ^ (bit_length (n - 1) - 1)" using b(3) by (cases "bit_length (n - 1)") auto
  then show ?thesis using b(1,2) \<open>1 < n\<close> half_bounds [of "2 ^ (bit_length (n - 1) - 1)" n]
    by (simp only: pow2_below_def) simp
qed

lemma pow2_below_pos [simp]: "0 < pow2_below n"
  by (simp add: pow2_below_def)

lemma pow2_below_unique:
  assumes "2 ^ a < n" and "n \<le> 2 * 2 ^ a"
  shows "pow2_below n = 2 ^ a"
proof -
  have "(1::nat) \<le> 2 ^ a" by simp
  then have "1 < n" using assms(1) by linarith
  from pow2_below_bounds [OF this] obtain b where b: "pow2_below n = 2 ^ b" "2 ^ b < n" "n \<le> 2 * 2 ^ b"
    by (auto simp: pow2_below_def)
  have "(2::nat) ^ a < 2 ^ Suc b" "(2::nat) ^ b < 2 ^ Suc a" using assms b by auto
  then have "a = b" using power_less_imp_less_exp [of "2::nat" a "Suc b"] power_less_imp_less_exp [of "2::nat" b "Suc a"] by simp
  then show ?thesis using b by simp
qed

section \<open>The tree hash\<close>

function merkle_hash :: "('h \<Rightarrow> 'h \<Rightarrow> 'h) \<Rightarrow> 'h \<Rightarrow> 'h list \<Rightarrow> 'h" where
  "merkle_hash node e0 hs =
     (if length hs = 0 then e0
      else if length hs = 1 then hd hs
      else let k = pow2_below (length hs)
           in node (merkle_hash node e0 (take k hs)) (merkle_hash node e0 (drop k hs)))"
  by pat_completeness auto

termination
proof (relation "measure (\<lambda>(node, e0, hs). length hs)", goal_cases)
  case (2 node e0 hs k)
  then show ?case using pow2_below_bounds [of "length hs"] by (cases hs) auto
next
  case (3 node e0 hs k)
  then show ?case using pow2_below_pos [of "length hs"] by (cases hs) auto
qed simp

declare merkle_hash.simps [simp del]

lemma merkle_hash_simps [simp]:
  "merkle_hash node e0 [] = e0" "merkle_hash node e0 [h] = h"
  by (simp_all add: merkle_hash.simps)

lemma merkle_hash_split:
  "1 < length hs \<Longrightarrow> merkle_hash node e0 hs = node (merkle_hash node e0 (take (pow2_below (length hs)) hs))
     (merkle_hash node e0 (drop (pow2_below (length hs)) hs))"
  by (subst merkle_hash.simps) (auto simp: Let_def)

section \<open>Hashing block by block\<close>

text \<open>The blocks of \<open>m\<close> elements of a list; the last one may be shorter.\<close>

function blocks :: "nat \<Rightarrow> 'a list \<Rightarrow> 'a list list" where
  "blocks m xs = (if m = 0 \<or> xs = [] then [] else take m xs # blocks m (drop m xs))"
  by pat_completeness auto

termination
  by (relation "measure (\<lambda>(m, xs). length xs)") auto

declare blocks.simps [simp del]

lemma blocks_Nil [simp]: "blocks m [] = []"
  by (simp add: blocks.simps)

lemma blocks_step: "0 < m \<Longrightarrow> xs \<noteq> [] \<Longrightarrow> blocks m xs = take m xs # blocks m (drop m xs)"
  by (simp add: blocks.simps [of m xs])

lemma less_length_blocks: "0 < m \<Longrightarrow> i < length (blocks m xs) \<longleftrightarrow> i * m < length xs"
proof (induction m xs arbitrary: i rule: blocks.induct)
  case (1 m xs)
  then show ?case
    by (cases "xs = []"; cases i) (auto simp: blocks_step less_diff_conv add.commute)
qed

lemma blocks_nth: "0 < m \<Longrightarrow> i * m < length xs \<Longrightarrow> blocks m xs ! i = take m (drop (i * m) xs)"
proof (induction m xs arbitrary: i rule: blocks.induct)
  case (1 m xs)
  then show ?case
    by (cases "xs = []"; cases i) (auto simp: blocks_step less_diff_conv add.commute)
qed

lemma blocks_append:
  "0 < m \<Longrightarrow> k * m \<le> length xs \<Longrightarrow> blocks m xs = blocks m (take (k * m) xs) @ blocks m (drop (k * m) xs)"
proof (induction k arbitrary: xs)
  case (Suc k)
  have ne: "xs \<noteq> []" "take (Suc k * m) xs \<noteq> []" using Suc.prems by auto
  have "k * m \<le> length (drop m xs)" using Suc.prems by simp
  from Suc.IH [OF Suc.prems(1) this] show ?case
    using Suc.prems ne by (simp add: blocks_step drop_take add.commute)
qed simp

lemma drop_blocks: "0 < m \<Longrightarrow> drop i (blocks m xs) = blocks m (drop (i * m) xs)"
proof (induction i arbitrary: xs)
  case (Suc i)
  then show ?case using Suc.IH [of "drop m xs"] by (cases "xs = []") (simp_all add: blocks_step add.commute)
qed simp

lemma take_blocks: "0 < m \<Longrightarrow> take k (blocks m xs) = blocks m (take (k * m) xs)"
proof (induction k arbitrary: xs)
  case (Suc k)
  then show ?case using Suc.IH [of "drop m xs"] by (cases "xs = []") (simp_all add: blocks_step drop_take)
qed simp

lemma length_blocks_exact: "0 < m \<Longrightarrow> k * m \<le> length xs \<Longrightarrow> length (blocks m (take (k * m) xs)) = k"
proof (induction k arbitrary: xs)
  case (Suc k)
  have "take (Suc k * m) xs \<noteq> []" using Suc.prems by auto
  moreover have "k * m \<le> length (drop m xs)" using Suc.prems by simp
  ultimately show ?case using Suc.IH [of "drop m xs"] Suc.prems(1) by (simp add: blocks_step drop_take)
qed simp

lemma pow2_below_blocks:
  assumes "m = 2 ^ a" and "m < length xs"
  obtains j where "pow2_below (length xs) = j * m" "pow2_below (length (blocks m xs)) = j" "1 < length (blocks m xs)"
proof -
  have m: "0 < m" using assms(1) by simp
  have "1 < length xs" using assms m by linarith
  from pow2_below_bounds [OF this] obtain b where b: "pow2_below (length xs) = 2 ^ b" "2 ^ b < length xs" "length xs \<le> 2 * 2 ^ b"
    by (auto simp: pow2_below_def)
  have "(2::nat) ^ a < 2 ^ Suc b" using assms b(3) by simp
  then have ab: "a \<le> b" using power_less_imp_less_exp [of "2::nat" a "Suc b"] by simp
  then have k: "2 ^ (b - a) * m = 2 ^ b" using assms(1) by (simp add: power_add [symmetric])
  have "2 ^ (b - a) < length (blocks m xs)" using less_length_blocks [OF m, of "2 ^ (b - a)" xs] k b(2) by simp
  moreover have "length (blocks m xs) \<le> 2 * 2 ^ (b - a)"
    using less_length_blocks [OF m, of "2 * 2 ^ (b - a)" xs] k b(3) by (simp add: mult.assoc not_less)
  moreover have "(1::nat) \<le> 2 ^ (b - a)" by simp
  ultimately show ?thesis using b(1) k that [of "2 ^ (b - a)"] by (simp add: pow2_below_unique)
qed

text \<open>Hashing the hashes of the blocks hashes the list.\<close>

theorem merkle_hash_blocks:
  assumes "m = 2 ^ a"
  shows "merkle_hash node e0 (map (merkle_hash node e0) (blocks m xs)) = merkle_hash node e0 xs"
proof (induction "length xs" arbitrary: xs rule: less_induct)
  case less
  have m: "0 < m" using assms by simp
  show ?case
  proof (cases "length xs \<le> m")
    case True
    then show ?thesis using m by (cases "xs = []") (simp_all add: blocks_step)
  next
    case False
    then have "m < length xs" by simp
    from pow2_below_blocks [OF assms this] obtain j where
      j: "pow2_below (length xs) = j * m" "pow2_below (length (blocks m xs)) = j" "1 < length (blocks m xs)" .
    have n: "1 < length xs" using m \<open>m < length xs\<close> by linarith
    have k: "j * m < length xs" "0 < j * m" using pow2_below_bounds [OF n] j(1) by auto
    have d: "length (drop (j * m) xs) < length xs" using k by (simp only: length_drop)
    have app: "blocks m xs = blocks m (take (j * m) xs) @ blocks m (drop (j * m) xs)"
      using blocks_append [OF m, of j xs] k(1) by simp
    have len: "length (blocks m (take (j * m) xs)) = j" using length_blocks_exact [OF m, of j xs] k(1) by simp
    have "merkle_hash node e0 (map (merkle_hash node e0) (blocks m xs)) =
        node (merkle_hash node e0 (map (merkle_hash node e0) (blocks m (take (j * m) xs))))
             (merkle_hash node e0 (map (merkle_hash node e0) (blocks m (drop (j * m) xs))))"
      using merkle_hash_split [of "map (merkle_hash node e0) (blocks m xs)" node e0] j(2,3) len
      by (simp add: app)
    also have "\<dots> = node (merkle_hash node e0 (take (j * m) xs)) (merkle_hash node e0 (drop (j * m) xs))"
      using less [of "take (j * m) xs"] less [of "drop (j * m) xs"] k d by simp
    also have "\<dots> = merkle_hash node e0 xs"
      using merkle_hash_split [OF n, of node e0] j(1) by simp
    finally show ?thesis .
  qed
qed

end
