(* ===== verification/Mtc_Tlog.thy ===== *)
theory Mtc_Tlog
  imports Rust_Text Mtc_Log Merkle_Tree
begin

text \<open>
  Signed notes and hash tiles of the transparency log (\<^verbatim>\<open>src/mtc/tlog.rs\<close>). Hashing, signing, base64 and the
  parsing of public keys belong to libraries and are parameters that answer with an error text or a
  value. Strings are UTF-8 bytes.
\<close>

section \<open>Text and bytes\<close>

definition str_bytes :: "string \<Rightarrow> bytes" where
  "str_bytes s = map of_char s"

text \<open>\<^verbatim>\<open>u64::to_be_bytes\<close>.\<close>

definition be64 :: "u64 \<Rightarrow> bytes" where
  "be64 n = map (\<lambda>i. word_of_nat (n div 256 ^ i)) (rev [0..<8])"

definition be_value :: "bytes \<Rightarrow> nat" where
  "be_value bs = foldl (\<lambda>a b. a * 256 + unat b) 0 bs"

text \<open>\<^verbatim>\<open>{:0w$x}\<close> for a number of at most \<open>w\<close> hexadecimal digits.\<close>

fun hex_pad :: "nat \<Rightarrow> nat \<Rightarrow> string" where
  "hex_pad 0 n = []"
| "hex_pad (Suc w) n =
     hex_pad w (n div 16) @ [if n mod 16 < 10 then digit_char (n mod 16) else char_of (87 + n mod 16)]"

abbreviation u64_max :: nat where "u64_max \<equiv> 2 ^ 64 - 1"
abbreviation u32_max :: nat where "u32_max \<equiv> 2 ^ 32 - 1"

definition checked_mul :: "nat \<Rightarrow> nat \<Rightarrow> nat option" where
  "checked_mul a b = (if a * b \<le> u64_max then Some (a * b) else None)"

definition checked_add :: "nat \<Rightarrow> nat \<Rightarrow> nat option" where
  "checked_add a b = (if a + b \<le> u64_max then Some (a + b) else None)"

section \<open>Key identifiers\<close>

definition tile_width :: nat where "tile_width = 256"
definition max_tile_level :: nat where "max_tile_level = 6"
definition ml_dsa_44_pubkey_len :: nat where "ml_dsa_44_pubkey_len = 1312"
definition ml_dsa_44_sig_len :: nat where "ml_dsa_44_sig_len = 2420"

definition note_type_ed25519_operator :: "8 word" where "note_type_ed25519_operator = 1"
definition note_type_ecdsa :: "8 word" where "note_type_ecdsa = 2"
definition note_type_ed25519_cosigner :: "8 word" where "note_type_ed25519_cosigner = 4"
definition note_type_ml_dsa_44 :: "8 word" where "note_type_ml_dsa_44 = 6"

datatype note_signing_role = LogOperator | Cosigner

text \<open>The libraries, and a private key as they present it.\<close>

record note_crypto =
  nc_sha256 :: "bytes \<Rightarrow> bytes disk_result"
  nc_base64 :: "bytes \<Rightarrow> string"
  nc_spki_key :: "bytes \<Rightarrow> bytes disk_result"

record note_key =
  nk_key_type :: string
  nk_spki_der :: "bytes disk_result"
  nk_sign :: "string \<Rightarrow> bytes \<Rightarrow> bytes disk_result"

definition bind_result :: "'a result \<Rightarrow> ('a \<Rightarrow> 'b result) \<Rightarrow> 'b result" where
  "bind_result r f = (case r of Inl e \<Rightarrow> Inl e | Inr x \<Rightarrow> f x)"

definition raw_pubkey_from_spki :: "note_crypto \<Rightarrow> bytes \<Rightarrow> bytes result" where
  "raw_pubkey_from_spki nc spki_der = mtc_err ''parse SPKI for key ID'' (nc_spki_key nc spki_der)"

text \<open>The first four bytes of a hash.\<close>

definition first_four :: "bytes \<Rightarrow> bytes result" where
  "first_four h = (if length h \<ge> 4 then Inr (take 4 h) else Inl (Mtc ''SHA-256 output too short for key ID''))"

definition key_id_from_bytes :: "note_crypto \<Rightarrow> string \<Rightarrow> 8 word \<Rightarrow> bytes \<Rightarrow> bytes result" where
  "key_id_from_bytes nc key_name type_byte raw_pubkey =
     bind_result (mtc_err ''SHA-256 for key ID''
       (nc_sha256 nc (str_bytes key_name @ [10, type_byte] @ raw_pubkey))) first_four"

definition compute_key_id :: "note_crypto \<Rightarrow> string \<Rightarrow> note_key \<Rightarrow> note_signing_role \<Rightarrow> (8 word \<times> bytes) result" where
  "compute_key_id nc key_name key role =
     bind_result (mtc_err ''get public key for key ID'' (nk_spki_der key)) (\<lambda>spki_der.
       let named = (\<lambda>label len type_byte.
             bind_result (raw_pubkey_from_spki nc spki_der) (\<lambda>raw.
               if length raw \<noteq> len
               then Inl (Mtc (label @ '' public key must be '' @ show_nat len @ '' bytes, got '' @ show_nat (length raw)))
               else bind_result (key_id_from_bytes nc key_name type_byte raw) (\<lambda>key_id. Inr (type_byte, key_id))));
           t = nk_key_type key
       in if t = ''ed25519'' then
            (case role of
               LogOperator \<Rightarrow> named ''Ed25519'' 32 note_type_ed25519_operator
             | Cosigner \<Rightarrow> named ''Ed25519'' 32 note_type_ed25519_cosigner)
          else if t = ''ec'' then
            bind_result (mtc_err ''SHA-256 ECDSA SPKI'' (nc_sha256 nc spki_der)) (\<lambda>h.
            bind_result (first_four h) (\<lambda>key_id. Inr (note_type_ecdsa, key_id)))
          else if t = ''ml-dsa-44'' then named ''ML-DSA-44'' ml_dsa_44_pubkey_len note_type_ml_dsa_44
          else if t = ''ed448'' then
            Inl (Mtc (''Ed448 has no assigned C2SP signed-note type byte; ''
                      @ ''use Ed25519 (type 0x01/0x04) or ECDSA P-256 (type 0x02)''))
          else if t = ''rsa'' then
            Inl (Mtc (''RSA has no assigned C2SP signed-note type byte; ''
                      @ ''use Ed25519 (type 0x01/0x04) or ECDSA P-256 (type 0x02)''))
          else Inl (Mtc (''key type '' @ quoted t @ '' has no C2SP signed-note type byte supported by Ak''
                         @ [CHR 0xC4, CHR 0x81] @ ''mu'')))"

definition format_vkey :: "note_crypto \<Rightarrow> string \<Rightarrow> note_key \<Rightarrow> note_signing_role \<Rightarrow> string result" where
  "format_vkey nc key_name key role =
     bind_result (compute_key_id nc key_name key role) (\<lambda>(type_byte, key_id).
     bind_result (mtc_err ''get public key for vkey'' (nk_spki_der key)) (\<lambda>spki_der.
     bind_result (raw_pubkey_from_spki nc spki_der) (\<lambda>raw_pubkey.
       Inr (key_name @ ''+'' @ hex_pad 8 (be_value key_id) @ ''+'' @ nc_base64 nc (type_byte # raw_pubkey)))))"

section \<open>Checkpoints\<close>

abbreviation newline :: string where "newline \<equiv> [CHR 0x0A]"

definition checkpoint_note_body :: "note_crypto \<Rightarrow> string \<Rightarrow> u64 \<Rightarrow> bytes \<Rightarrow> string" where
  "checkpoint_note_body nc origin tree_size root_hash =
     origin @ newline @ show_nat tree_size @ newline @ nc_base64 nc root_hash @ newline"

definition raw_sign :: "note_key \<Rightarrow> string \<Rightarrow> bytes \<Rightarrow> bytes result" where
  "raw_sign key hash_alg data = mtc_err ''sign'' (nk_sign key hash_alg data)"

definition build_ml_dsa_cosigned_message ::
  "string \<Rightarrow> u64 \<Rightarrow> string \<Rightarrow> u64 \<Rightarrow> u64 \<Rightarrow> bytes \<Rightarrow> bytes result" where
  "build_ml_dsa_cosigned_message cosigner_name timestamp_unix log_origin start fin root_hash =
     (let name_bytes = str_bytes cosigner_name; origin_bytes = str_bytes log_origin
      in if length name_bytes > 255 then Inl (Mtc ''cosigner_name exceeds 255 bytes'')
         else if length origin_bytes > 255 then Inl (Mtc ''log_origin exceeds 255 bytes'')
         else if length root_hash \<notin> {32, 48, 64}
         then Inl (Mtc (''root_hash must be 32, 48, or 64 bytes, got '' @ show_nat (length root_hash)))
         else if timestamp_unix \<noteq> 0 \<and> start \<noteq> 0
         then Inl (Mtc ''ML-DSA-44 cosigned_message: timestamp and start cannot both be non-zero'')
         else Inr (str_bytes ''subtree/v1'' @ [10, 0] @ [word_of_nat (length name_bytes)] @ name_bytes @ be64 timestamp_unix
                   @ [word_of_nat (length origin_bytes)] @ origin_bytes @ be64 start @ be64 fin @ root_hash))"

text \<open>The note with its signature line (an em dash in UTF-8, the name, the signature).\<close>

definition signed_note :: "note_crypto \<Rightarrow> string \<Rightarrow> string \<Rightarrow> bytes \<Rightarrow> string" where
  "signed_note nc body name blob =
     body @ newline @ [CHR 0xE2, CHR 0x80, CHR 0x94] @ '' '' @ name @ '' '' @ nc_base64 nc blob @ newline"

text \<open>The two signature formats: with and without a timestamp.\<close>

definition sign_ml_dsa ::
  "note_crypto \<Rightarrow> string \<Rightarrow> note_key \<Rightarrow> string \<Rightarrow> string \<Rightarrow> u64 \<Rightarrow> bytes \<Rightarrow> u64 \<Rightarrow> bytes \<Rightarrow> string result" where
  "sign_ml_dsa nc name key hash_alg origin tree_size root_hash timestamp_unix key_id =
     bind_result (build_ml_dsa_cosigned_message name timestamp_unix origin 0 tree_size root_hash) (\<lambda>msg.
     bind_result (raw_sign key hash_alg msg) (\<lambda>sig.
       if length sig \<noteq> ml_dsa_44_sig_len
       then Inl (Mtc (''ML-DSA-44 signature length '' @ show_nat (length sig) @ '' '' @ [CHR 0xE2, CHR 0x89, CHR 0xA0]
                      @ '' expected '' @ show_nat ml_dsa_44_sig_len))
       else Inr (signed_note nc (checkpoint_note_body nc origin tree_size root_hash) name
                   (key_id @ be64 timestamp_unix @ sig))))"

definition sign_body ::
  "note_crypto \<Rightarrow> string \<Rightarrow> note_key \<Rightarrow> string \<Rightarrow> string \<Rightarrow> u64 \<Rightarrow> bytes \<Rightarrow> bytes \<Rightarrow> string result" where
  "sign_body nc name key hash_alg origin tree_size root_hash key_id =
     (let body = checkpoint_note_body nc origin tree_size root_hash
      in bind_result (raw_sign key hash_alg (str_bytes body)) (\<lambda>sig. Inr (signed_note nc body name (key_id @ sig))))"

definition sign_checkpoint_as_operator ::
  "note_crypto \<Rightarrow> u64 \<Rightarrow> string \<Rightarrow> note_key \<Rightarrow> string \<Rightarrow> string \<Rightarrow> u64 \<Rightarrow> bytes \<Rightarrow> string result" where
  "sign_checkpoint_as_operator nc unix_now key_name key hash_alg origin tree_size root_hash =
     bind_result (compute_key_id nc key_name key LogOperator) (\<lambda>(_, key_id).
       if nk_key_type key = ''ml-dsa-44''
       then sign_ml_dsa nc key_name key hash_alg origin tree_size root_hash unix_now key_id
       else sign_body nc key_name key hash_alg origin tree_size root_hash key_id)"

definition sign_checkpoint_as_cosigner ::
  "note_crypto \<Rightarrow> string \<Rightarrow> note_key \<Rightarrow> string \<Rightarrow> string \<Rightarrow> u64 \<Rightarrow> bytes \<Rightarrow> u64 \<Rightarrow> string result" where
  "sign_checkpoint_as_cosigner nc cosigner_name key hash_alg origin tree_size root_hash timestamp_unix =
     (let body = checkpoint_note_body nc origin tree_size root_hash in
      bind_result (compute_key_id nc cosigner_name key Cosigner) (\<lambda>(_, key_id).
        let t = nk_key_type key
        in if t = ''ed25519'' then
             bind_result (raw_sign key hash_alg (str_bytes
                (''cosignature/v1'' @ newline @ ''time '' @ show_nat timestamp_unix @ newline @ body))) (\<lambda>sig.
             Inr (signed_note nc body cosigner_name (key_id @ be64 timestamp_unix @ sig)))
           else if t = ''ec'' then sign_body nc cosigner_name key hash_alg origin tree_size root_hash key_id
           else if t = ''ml-dsa-44''
           then sign_ml_dsa nc cosigner_name key hash_alg origin tree_size root_hash timestamp_unix key_id
           else Inl (Mtc (''key type '' @ quoted t @ '' is not supported for C2SP cosignatures''))))"

definition produce_operator_checkpoint ::
  "'l disk_log \<Rightarrow> note_crypto \<Rightarrow> u64 \<Rightarrow> string \<Rightarrow> note_key \<Rightarrow> string \<Rightarrow> string \<Rightarrow> 'l cached_log
     \<Rightarrow> string result \<times> 'l cached_log" where
  "produce_operator_checkpoint dl nc unix_now key_name key hash_alg origin c =
     (case cached_tree_size_and_root dl c of
        (Inl e, c') \<Rightarrow> (Inl e, c')
      | (Inr (tree_size, root_hash), c') \<Rightarrow>
          (sign_checkpoint_as_operator nc unix_now key_name key hash_alg origin tree_size root_hash, c'))"

definition produce_cosigner_checkpoint ::
  "'l disk_log \<Rightarrow> note_crypto \<Rightarrow> u64 \<Rightarrow> string \<Rightarrow> note_key \<Rightarrow> string \<Rightarrow> string \<Rightarrow> 'l cached_log
     \<Rightarrow> string result \<times> 'l cached_log" where
  "produce_cosigner_checkpoint dl nc unix_now cosigner_name key hash_alg origin c =
     (case cached_tree_size_and_root dl c of
        (Inl e, c') \<Rightarrow> (Inl e, c')
      | (Inr (tree_size, root_hash), c') \<Rightarrow>
          (sign_checkpoint_as_cosigner nc cosigner_name key hash_alg origin tree_size root_hash unix_now, c'))"

section \<open>Tree hash\<close>

record tree_hash =
  th_empty :: "bytes disk_result"
  th_node :: "bytes \<Rightarrow> bytes \<Rightarrow> bytes disk_result"

definition leading_zeros :: "nat \<Rightarrow> nat" where
  "leading_zeros n = 64 - bit_length n"

text \<open>\<^verbatim>\<open>1usize << (usize::BITS - 1 - (n - 1).leading_zeros())\<close>\<close>

definition mth_split :: "nat \<Rightarrow> nat" where
  "mth_split n = 2 ^ (64 - 1 - leading_zeros (n - 1))"

lemma mth_split_bounds: "1 < n \<Longrightarrow> mth_split n < n \<and> 0 < mth_split n"
proof -
  assume n: "1 < n"
  have "64 - 1 - leading_zeros (n - 1) \<le> bit_length (n - 1) - 1" by (simp add: leading_zeros_def)
  then have "mth_split n \<le> pow2_below n" by (simp add: mth_split_def pow2_below_def power_increasing)
  then show ?thesis using pow2_below_bounds [OF n] by (simp add: mth_split_def)
qed

function mth :: "tree_hash \<Rightarrow> bytes list \<Rightarrow> bytes result" where
  "mth th hashes =
     (if length hashes = 0 then mtc_err ''hash empty MTH'' (th_empty th)
      else if length hashes = 1 then Inr (hd hashes)
      else let k = mth_split (length hashes)
           in case mth th (take k hashes) of
                Inl e \<Rightarrow> Inl e
              | Inr left \<Rightarrow>
                  (case mth th (drop k hashes) of
                     Inl e \<Rightarrow> Inl e
                   | Inr right \<Rightarrow> mtc_err ''hash_interior'' (th_node th left right)))"
  by pat_completeness auto

termination
proof (relation "measure (\<lambda>(th, hs). length hs)", goal_cases)
  case (2 th hs k)
  then show ?case using mth_split_bounds [of "length hs"] by (cases hs) auto
next
  case (3 th hs k)
  then show ?case using mth_split_bounds [of "length hs"] by (cases hs) auto
qed simp

declare mth.simps [simp del]

section \<open>Tile paths\<close>

definition pad3 :: "nat \<Rightarrow> string" where
  "pad3 n = replicate (3 - length (show_nat n)) CHR ''0'' @ show_nat n"

text \<open>The groups of three digits, the least significant first.\<close>

fun tile_groups :: "nat \<Rightarrow> string list" where
  "tile_groups remaining = pad3 (remaining mod 1000) #
     (if remaining div 1000 = 0 then [] else tile_groups (remaining div 1000))"

declare tile_groups.simps [simp del]

fun join_slash :: "string list \<Rightarrow> string" where
  "join_slash [] = []"
| "join_slash [p] = p"
| "join_slash (p # q # ps) = p @ CHR ''/'' # join_slash (q # ps)"

definition tile_index_path :: "u64 \<Rightarrow> string" where
  "tile_index_path n =
     join_slash (map (\<lambda>(i, g). if i = 0 then g else CHR ''x'' # g) (rev (enumerate 0 (tile_groups n))))"

fun split_slash :: "string \<Rightarrow> string list" where
  "split_slash [] = [[]]"
| "split_slash (c # s) = (if c = CHR ''/'' then [] # split_slash s
     else (case split_slash s of [] \<Rightarrow> [[c]] | p # ps \<Rightarrow> (c # p) # ps))"

definition strip_x :: "string \<Rightarrow> string" where
  "strip_x s = (case s of c # rest \<Rightarrow> if c = CHR ''x'' then rest else s | [] \<Rightarrow> s)"

fun decode_components :: "u64 \<Rightarrow> string list \<Rightarrow> u64 option" where
  "decode_components n [] = Some n"
| "decode_components n (component # rest) =
     (let digits = strip_x component
      in if length digits \<noteq> 3 then None
         else case parse_uint u64_max digits of
                None \<Rightarrow> None
              | Some part \<Rightarrow>
                  if part \<ge> 1000 then None
                  else (case Option.bind (checked_mul n 1000) (\<lambda>m. checked_add m part) of
                          None \<Rightarrow> None
                        | Some n' \<Rightarrow> decode_components n' rest))"

definition decode_tile_index :: "string \<Rightarrow> u64 option" where
  "decode_tile_index path = decode_components 0 (split_slash path)"

record tile_path =
  tp_level :: nat
  tp_tile_n :: u64
  tp_partial_width :: "nat option"

text \<open>\<^verbatim>\<open>path.find(".p/")\<close> and \<^verbatim>\<open>find('/')\<close>: the text before and after the first occurrence.\<close>

fun split_partial :: "string \<Rightarrow> (string \<times> string) option" where
  "split_partial [] = None"
| "split_partial (c # s) =
     (if take 3 (c # s) = ''.p/'' then Some ([], drop 3 (c # s))
      else map_option (\<lambda>(a, b). (c # a, b)) (split_partial s))"

fun split_first_slash :: "string \<Rightarrow> (string \<times> string) option" where
  "split_first_slash [] = None"
| "split_first_slash (c # s) =
     (if c = CHR ''/'' then Some ([], s) else map_option (\<lambda>(a, b). (c # a, b)) (split_first_slash s))"

definition parse_tile_path :: "string \<Rightarrow> tile_path result" where
  "parse_tile_path path =
     (let bad = Inl (BadRequest (''invalid tile path: '' @ quoted path));
          index = (\<lambda>path_part partial_width.
            case split_first_slash path_part of
              None \<Rightarrow> bad
            | Some (level_text, index_path) \<Rightarrow>
                (case parse_uint u32_max level_text of
                   None \<Rightarrow> bad
                 | Some level \<Rightarrow>
                     if level > max_tile_level
                     then Inl (BadRequest (''tile level '' @ show_nat level @ '' exceeds maximum '' @ show_nat max_tile_level))
                     else if index_path = [] then bad
                     else (case decode_tile_index index_path of
                             None \<Rightarrow> bad
                           | Some tile_n \<Rightarrow>
                               Inr \<lparr>tp_level = level, tp_tile_n = tile_n, tp_partial_width = partial_width\<rparr>)))
      in case split_partial path of
           Some (path_part, width_text) \<Rightarrow>
             (case parse_uint u64_max width_text of
                None \<Rightarrow> Inl (BadRequest ''invalid partial tile width'')
              | Some w \<Rightarrow>
                  if w = 0 \<or> w \<ge> tile_width
                  then Inl (BadRequest (''partial tile width '' @ show_nat w @ '' out of range 1..255''))
                  else index path_part (Some w))
         | None \<Rightarrow> index path None)"

section \<open>Hash tiles\<close>

text \<open>The loop over the tiles one level below; it stops at the first empty one.\<close>

fun collect_tiles ::
  "tree_hash \<Rightarrow> (u64 \<Rightarrow> bytes list result) \<Rightarrow> u64 \<Rightarrow> nat list \<Rightarrow> bytes list \<Rightarrow> bytes list result" where
  "collect_tiles th sub_tile tile_n [] acc = Inr acc"
| "collect_tiles th sub_tile tile_n (i # is) acc =
     (case Option.bind (checked_mul tile_n tile_width) (\<lambda>base. checked_add base i) of
        None \<Rightarrow> Inl NotFound
      | Some sub_tile_n \<Rightarrow>
          (case sub_tile sub_tile_n of
             Inl e \<Rightarrow> Inl e
           | Inr sub \<Rightarrow>
               if sub = [] then Inr acc
               else (case mth th sub of
                       Inl e \<Rightarrow> Inl e
                     | Inr h \<Rightarrow> collect_tiles th sub_tile tile_n is (acc @ [h]))))"

fun tile_entries ::
  "'l disk_log \<Rightarrow> tree_hash \<Rightarrow> 'l cached_log \<Rightarrow> nat \<Rightarrow> u64 \<Rightarrow> nat \<Rightarrow> bytes list result" where
  "tile_entries dl th c 0 tile_n max_width =
     (case checked_mul tile_n tile_width of
        None \<Rightarrow> Inl NotFound
      | Some start \<Rightarrow> cached_read_hash_range dl start max_width c)"
| "tile_entries dl th c (Suc level) tile_n max_width =
     collect_tiles th (\<lambda>n. tile_entries dl th c level n tile_width) tile_n [0..<max_width] []"

definition get_tile_bytes :: "'l disk_log \<Rightarrow> tree_hash \<Rightarrow> 'l cached_log \<Rightarrow> tile_path \<Rightarrow> bytes result" where
  "get_tile_bytes dl th c tile =
     (let max_width = (case tp_partial_width tile of None \<Rightarrow> tile_width | Some w \<Rightarrow> w)
      in case tile_entries dl th c (tp_level tile) (tp_tile_n tile) max_width of
           Inl e \<Rightarrow> Inl e
         | Inr entries \<Rightarrow>
             if (case tp_partial_width tile of
                   None \<Rightarrow> length entries < tile_width
                 | Some w \<Rightarrow> length entries \<noteq> w)
             then Inl NotFound
             else Inr (concat entries))"

end
