(* ===== verification/Mtc_Properties.thy ===== *)
theory Mtc_Properties
  imports Mtc_Tlog
begin

text \<open>
  Properties of the transparency log: the tree hash is that of RFC 9162, a hash tile holds the
  hashes of its subtrees, tile paths survive a round trip, and the message a cosigner signs
  determines what was signed.
\<close>

section \<open>The tree hash\<close>

lemma mth_split_eq:
  assumes "1 < n" and "n \<le> 2 ^ 64"
  shows "mth_split n = pow2_below n"
proof -
  have b: "2 ^ (bit_length (n - 1) - 1) \<le> n - 1" "0 < bit_length (n - 1)"
    using bit_length_bounds [of "n - 1"] assms(1) by auto
  have "(2::nat) ^ (bit_length (n - 1) - 1) < 2 ^ 64" using b(1) assms by linarith
  then have "bit_length (n - 1) - 1 < 64" by (rule power_less_imp_less_exp [rotated]) simp
  then show ?thesis by (simp add: mth_split_def pow2_below_def leading_zeros_def)
qed

text \<open>Hash functions that do not fail.\<close>

definition th_total :: "tree_hash \<Rightarrow> (bytes \<Rightarrow> bytes \<Rightarrow> bytes) \<Rightarrow> bytes \<Rightarrow> bool" where
  "th_total th node e0 \<longleftrightarrow> th_empty th = Inr e0 \<and> (\<forall>a b. th_node th a b = Inr (node a b))"

lemma mtc_err_ok [simp]: "mtc_err op (Inr x) = Inr x"
  by (simp add: mtc_err_def)

lemma mth_merkle:
  assumes "th_total th node e0"
  shows "length hs \<le> 2 ^ 64 \<Longrightarrow> mth th hs = Inr (merkle_hash node e0 hs)"
proof (induction "length hs" arbitrary: hs rule: less_induct)
  case less
  have th: "th_empty th = Inr e0" "th_node th a b = Inr (node a b)" for a b
    using assms by (auto simp: th_total_def)
  consider "hs = []" | h where "hs = [h]" | "1 < length hs" by (cases hs rule: remdups_adj.cases) auto
  then show ?case
  proof cases
    case 3
    let ?k = "pow2_below (length hs)"
    have k: "mth_split (length hs) = ?k" using mth_split_eq 3 less.prems by blast
    have b: "?k < length hs" "0 < ?k" using pow2_below_bounds [OF 3] by auto
    have d: "length (drop ?k hs) < length hs" unfolding length_drop using b by linarith
    have "mth th (take ?k hs) = Inr (merkle_hash node e0 (take ?k hs))"
      using less.hyps [of "take ?k hs"] b less.prems by simp
    moreover have "mth th (drop ?k hs) = Inr (merkle_hash node e0 (drop ?k hs))"
      using less.hyps [of "drop ?k hs"] d less.prems by simp
    moreover have "hs \<noteq> []" "length hs \<noteq> 1" using 3 by auto
    ultimately show ?thesis
      by (simp add: mth.simps [of th hs] merkle_hash_split [OF 3] k th Let_def)
  qed (simp_all add: mth.simps th)
qed

section \<open>Hash tiles\<close>

text \<open>The nodes of level \<open>L\<close> of the tree: the hashes of the subtrees over \<open>256 ^ L\<close> leaves.\<close>

definition level_nodes :: "(bytes \<Rightarrow> bytes \<Rightarrow> bytes) \<Rightarrow> bytes \<Rightarrow> nat \<Rightarrow> bytes list \<Rightarrow> bytes list" where
  "level_nodes node e0 L leaves = map (merkle_hash node e0) (blocks (256 ^ L) leaves)"

lemma less_length_nodes: "j < length (level_nodes node e0 L leaves) \<longleftrightarrow> j * 256 ^ L < length leaves"
  by (simp add: level_nodes_def less_length_blocks)

lemma level_nodes_nth:
  "j * 256 ^ L < length leaves \<Longrightarrow> level_nodes node e0 L leaves ! j = merkle_hash node e0 (take (256 ^ L) (drop (j * 256 ^ L) leaves))"
  by (simp add: level_nodes_def less_length_blocks blocks_nth)

lemma level_nodes_0 [simp]: "level_nodes node e0 0 leaves = leaves"
proof -
  have "map (merkle_hash node e0) (blocks (Suc 0) leaves) = leaves"
    by (induction leaves) (simp_all add: blocks_step)
  then show ?thesis by (simp add: level_nodes_def)
qed

text \<open>A node is the hash of the 256 nodes below it, or of those that exist.\<close>

lemma level_nodes_Suc:
  assumes "m * 256 ^ Suc L < length leaves"
  shows "merkle_hash node e0 (take 256 (drop (m * 256) (level_nodes node e0 L leaves))) = level_nodes node e0 (Suc L) leaves ! m"
proof -
  have pow: "(256::nat) ^ L = 2 ^ (8 * L)" by (simp add: power_mult)
  have "take 256 (drop (m * 256) (blocks (256 ^ L) leaves)) = blocks (256 ^ L) (take (256 ^ Suc L) (drop (m * 256 ^ Suc L) leaves))"
    by (simp add: drop_blocks take_blocks mult.assoc)
  then show ?thesis
    using merkle_hash_blocks [OF pow] assms
    by (simp add: level_nodes_nth) (simp add: level_nodes_def drop_map take_map)
qed

text \<open>The log answers reads from its list of leaves.\<close>

definition log_serves :: "'l disk_log \<Rightarrow> 'l cached_log \<Rightarrow> bytes list \<Rightarrow> bool" where
  "log_serves dl c leaves \<longleftrightarrow> (\<forall>s n. cached_read_hash_range dl s n c = Inr (take n (drop s leaves)))"

lemma sub_tile_nonempty:
  "take 256 (drop (m * 256) (level_nodes node e0 L leaves)) \<noteq> [] \<longleftrightarrow> m < length (level_nodes node e0 (Suc L) leaves)"
proof -
  have "take 256 (drop (m * 256) (level_nodes node e0 L leaves)) \<noteq> [] \<longleftrightarrow> m * 256 < length (level_nodes node e0 L leaves)"
    by (simp add: not_le)
  also have "\<dots> \<longleftrightarrow> m < length (level_nodes node e0 (Suc L) leaves)"
    by (simp add: less_length_nodes mult.assoc)
  finally show ?thesis .
qed

lemma takeWhile_upt: "takeWhile (\<lambda>i. i < N) [a..<b] = [a..<min b (max a N)]"
proof (induction "b - a" arbitrary: a)
  case (Suc d)
  then have "[a..<b] = a # [Suc a..<b]" by (simp add: upt_rec)
  moreover have "[a..<min b (max a N)] = a # [Suc a..<min b (max (Suc a) N)]" if "a < N"
    using that Suc.hyps(2) by (subst upt_conv_Cons) (auto simp: max_def)
  ultimately show ?case using Suc.hyps(1) [of "Suc a"] Suc.hyps(2) by (cases "a < N") auto
qed simp

lemma le_mult_pow: "(x::nat) \<le> x * 256 ^ k"
  by simp

lemma sub_tile_index:
  assumes "a * 256 + i \<le> u64_max"
  shows "Option.bind (checked_mul a tile_width) (\<lambda>b. checked_add b i) = Some (a * 256 + i)"
proof -
  have "a * 256 \<le> u64_max" using assms by linarith
  then show ?thesis using assms by (simp add: checked_mul_def checked_add_def tile_width_def)
qed

lemma collect_tiles_map:
  assumes "\<And>i. i \<in> set is \<Longrightarrow> tile_n * 256 + i \<le> u64_max \<and> sub (tile_n * 256 + i) = Inr (f i)
             \<and> (f i \<noteq> [] \<longrightarrow> mth th (f i) = Inr (g i))"
  shows "collect_tiles th sub tile_n is acc = Inr (acc @ map g (takeWhile (\<lambda>i. f i \<noteq> []) is))"
  using assms
proof (induction "is" arbitrary: acc)
  case (Cons i "is")
  have "tile_n * 256 + i \<le> u64_max" "sub (tile_n * 256 + i) = Inr (f i)" "f i \<noteq> [] \<longrightarrow> mth th (f i) = Inr (g i)"
    using Cons.prems [of i] by auto
  then show ?case using Cons by (simp add: sub_tile_index)
qed simp

lemma map_nth_range: "map (\<lambda>i. xs ! (a + i)) [0..<min w (length xs - a)] = take w (drop a xs)"
  by (rule nth_equalityI) auto

lemma tile_entries_nodes:
  assumes log: "log_serves dl c leaves" and th: "th_total th node e0"
    and "(tile_n + 1) * 256 ^ Suc L \<le> 2 ^ 64" and "w \<le> 256"
  shows "tile_entries dl th c L tile_n w = Inr (take w (drop (tile_n * 256) (level_nodes node e0 L leaves)))"
  using assms(3,4)
proof (induction L arbitrary: tile_n w)
  case 0
  then show ?case using log by (simp add: log_serves_def checked_mul_def tile_width_def)
next
  case (Suc L)
  let ?N = "level_nodes node e0 (Suc L) leaves"
  let ?f = "\<lambda>i. take 256 (drop ((tile_n * 256 + i) * 256) (level_nodes node e0 L leaves))"
  have ne: "?f i \<noteq> [] \<longleftrightarrow> i < length ?N - tile_n * 256" for i
    unfolding sub_tile_nonempty by linarith
  have step: "tile_n * 256 + i \<le> u64_max \<and> tile_entries dl th c L (tile_n * 256 + i) tile_width = Inr (?f i)
      \<and> (?f i \<noteq> [] \<longrightarrow> mth th (?f i) = Inr (?N ! (tile_n * 256 + i)))" if "i \<in> set [0..<w]" for i
  proof -
    have i: "i < 256" using that Suc.prems(2) by simp
    have "(tile_n * 256 + i + 1) * 256 ^ Suc L \<le> (tile_n + 1) * 256 * 256 ^ Suc L" using i by (intro mult_right_mono) auto
    also have "\<dots> = (tile_n + 1) * 256 ^ Suc (Suc L)" by (simp add: algebra_simps)
    finally have bound: "(tile_n * 256 + i + 1) * 256 ^ Suc L \<le> 2 ^ 64" using Suc.prems(1) by linarith
    moreover have "tile_n * 256 + i + 1 \<le> (tile_n * 256 + i + 1) * 256 ^ Suc L" by (rule le_mult_pow)
    ultimately have "tile_n * 256 + i \<le> u64_max" by linarith
    moreover have "tile_entries dl th c L (tile_n * 256 + i) tile_width = Inr (?f i)"
      using Suc.IH [OF bound, of 256] by (simp add: tile_width_def)
    moreover have "mth th (?f i) = Inr (?N ! (tile_n * 256 + i))" if "?f i \<noteq> []"
    proof -
      have "(tile_n * 256 + i) * 256 ^ Suc L < length leaves"
        using that unfolding sub_tile_nonempty less_length_nodes .
      from level_nodes_Suc [OF this, of node e0] show ?thesis using mth_merkle [OF th, of "?f i"] by simp
    qed
    ultimately show ?thesis by blast
  qed
  have "tile_entries dl th c (Suc L) tile_n w
      = Inr (map (\<lambda>i. ?N ! (tile_n * 256 + i)) (takeWhile (\<lambda>i. i < length ?N - tile_n * 256) [0..<w]))"
    unfolding tile_entries.simps ne [symmetric]
    by (rule trans [OF collect_tiles_map [OF step]]) (assumption, simp only: append_Nil)
  also have "\<dots> = Inr (take w (drop (tile_n * 256) ?N))"
    by (simp add: takeWhile_upt map_nth_range)
  finally show ?case .
qed

text \<open>The hashes of the subtrees of level \<open>L\<close> with numbers from \<open>a\<close> to before \<open>b\<close>.\<close>

definition subtree_hashes ::
  "(bytes \<Rightarrow> bytes \<Rightarrow> bytes) \<Rightarrow> bytes \<Rightarrow> nat \<Rightarrow> nat \<Rightarrow> nat \<Rightarrow> bytes list \<Rightarrow> bytes list" where
  "subtree_hashes node e0 L a b leaves =
     map (\<lambda>j. merkle_hash node e0 (take (256 ^ L) (drop (j * 256 ^ L) leaves))) [a..<b]"

abbreviation tile_size :: "tile_path \<Rightarrow> nat" where
  "tile_size tile \<equiv> (case tp_partial_width tile of None \<Rightarrow> 256 | Some w \<Rightarrow> w)"

lemma take_drop_nodes:
  assumes "0 < w" and "(a + w - 1) * 256 ^ L < length leaves"
  shows "take w (drop a (level_nodes node e0 L leaves)) = subtree_hashes node e0 L a (a + w) leaves"
proof -
  have len: "a + w \<le> length (level_nodes node e0 L leaves)"
    using less_length_nodes [of "a + w - 1" node e0 L leaves] assms by linarith
  have "take w (drop a (level_nodes node e0 L leaves)) ! i = subtree_hashes node e0 L a (a + w) leaves ! i" if "i < w" for i
    using that len less_length_nodes [of "a + i" node e0 L leaves] by (simp add: subtree_hashes_def level_nodes_nth)
  then show ?thesis using len by (intro nth_equalityI) (simp_all add: subtree_hashes_def)
qed

text \<open>C20: a hash tile holds the hashes of its subtrees. For a log that answers reads, a hash function that
  does not fail and a tile number within 64 bits, a tile of level \<open>L\<close> with \<open>w\<close> entries is served exactly
  when the log reaches into its last subtree; its bytes are then the concatenation of the tree hashes
  (RFC 9162, section 2) of the \<open>256 ^ L\<close> leaves under each entry, and otherwise it is not found.\<close>

theorem hash_tile_is_subtree_hashes:
  assumes "log_serves dl c leaves" and "th_total th node e0"
    and "(tp_tile_n tile + 1) * 256 ^ Suc (tp_level tile) \<le> 2 ^ 64"
    and "0 < tile_size tile" and "tile_size tile \<le> 256"
  shows "get_tile_bytes dl th c tile =
     (if (tp_tile_n tile * 256 + tile_size tile - 1) * 256 ^ tp_level tile < length leaves
      then Inr (concat (subtree_hashes node e0 (tp_level tile) (tp_tile_n tile * 256) (tp_tile_n tile * 256 + tile_size tile) leaves))
      else Inl NotFound)"
proof -
  let ?w = "tile_size tile" and ?a = "tp_tile_n tile * 256" and ?L = "tp_level tile"
  have e: "tile_entries dl th c ?L (tp_tile_n tile) ?w = Inr (take ?w (drop ?a (level_nodes node e0 ?L leaves)))"
    by (rule tile_entries_nodes [OF assms(1,2,3,5)])
  have len: "length (take ?w (drop ?a (level_nodes node e0 ?L leaves))) = ?w \<longleftrightarrow> (?a + ?w - 1) * 256 ^ ?L < length leaves"
    using less_length_nodes [of "?a + ?w - 1" node e0 ?L leaves] assms(4) by (auto simp: min_def)
  have le: "length (take ?w (drop ?a (level_nodes node e0 ?L leaves))) \<le> ?w" by simp
  have "get_tile_bytes dl th c tile =
      (if length (take ?w (drop ?a (level_nodes node e0 ?L leaves))) = ?w
       then Inr (concat (take ?w (drop ?a (level_nodes node e0 ?L leaves)))) else Inl NotFound)"
    using e le by (cases "tp_partial_width tile") (auto simp: get_tile_bytes_def Let_def tile_width_def)
  then show ?thesis
    unfolding len using take_drop_nodes [OF assms(4), of ?a ?L leaves node e0] by simp
qed

text \<open>The example: a log of 300 leaves, an interior hash that concatenates.\<close>

definition concat_hash :: tree_hash where
  "concat_hash = \<lparr>th_empty = Inr [], th_node = \<lambda>a b. Inr (a @ b)\<rparr>"

lemma concat_hash_total: "th_total concat_hash (@) []"
  by (simp add: th_total_def concat_hash_def)

lemma list_log_serves: "log_serves (list_log root_of) (cached_new leaves) leaves"
  by (simp add: log_serves_def cached_read_hash_range_def cached_tree_size_def list_log_def cached_new_def)

theorem hash_tile_is_subtree_hashes_witness:
  "get_tile_bytes (list_log concat) concat_hash (cached_new (replicate 300 [7])) \<lparr>tp_level = 0, tp_tile_n = 1, tp_partial_width = Some 2\<rparr>
     = Inr [7, 7]"
proof -
  have "get_tile_bytes (list_log concat) concat_hash (cached_new (replicate 300 [7])) \<lparr>tp_level = 0, tp_tile_n = 1, tp_partial_width = Some 2\<rparr>
     = Inr (concat (subtree_hashes (@) [] 0 256 258 (replicate 300 [7])))"
    by (subst hash_tile_is_subtree_hashes [OF list_log_serves concat_hash_total]) simp_all
  moreover have "[256..<258::nat] = [256, 257]" by (simp add: upt_rec)
  ultimately show ?thesis by (simp add: subtree_hashes_def)
qed

text \<open>A full tile is served before it is complete. As soon as the log reaches into the last of the 256
  subtrees of a tile of level one or more, the full tile is served, with a hash of fewer than
  \<open>256 ^ L\<close> leaves as its last entry, although the entries of such a tile are documented to cover
  \<open>256 ^ L\<close> leaves each.\<close>

theorem incomplete_tile_served_as_full:
  assumes "log_serves dl c leaves" and "th_total th node e0"
    and "0 < L" and "256 ^ Suc L \<le> (2::nat) ^ 64"
    and "255 * 256 ^ L < length leaves" and "length leaves < 256 ^ Suc L"
  shows "\<exists>b. get_tile_bytes dl th c \<lparr>tp_level = L, tp_tile_n = 0, tp_partial_width = None\<rparr> =
      Inr (b @ merkle_hash node e0 (drop (255 * 256 ^ L) leaves))
    \<and> length (drop (255 * 256 ^ L) leaves) < 256 ^ L"
proof -
  let ?h = "\<lambda>j. merkle_hash node e0 (take (256 ^ L) (drop (j * 256 ^ L) leaves))"
  have e: "tile_entries dl th c L 0 256 = Inr (take 256 (drop 0 (level_nodes node e0 L leaves)))"
    using tile_entries_nodes [OF assms(1,2), of 0 L 256] assms(4) by simp
  have "take 256 (drop 0 (level_nodes node e0 L leaves)) = subtree_hashes node e0 L 0 256 leaves"
    using take_drop_nodes [of 256 0 L leaves node e0] assms(5) by simp
  then have "get_tile_bytes dl th c \<lparr>tp_level = L, tp_tile_n = 0, tp_partial_width = None\<rparr>
      = Inr (concat (subtree_hashes node e0 L 0 256 leaves))"
    using e by (simp add: get_tile_bytes_def tile_width_def subtree_hashes_def)
  moreover have "subtree_hashes node e0 L 0 256 leaves = map ?h [0..<255] @ [?h 255]"
    unfolding subtree_hashes_def by (subst upt_Suc [of 0 255, simplified]) simp
  moreover have short: "length (drop (255 * 256 ^ L) leaves) < 256 ^ L" using assms(6) by simp
  moreover have "take (256 ^ L) (drop (255 * 256 ^ L) leaves) = drop (255 * 256 ^ L) leaves" using short by simp
  ultimately show ?thesis by (intro exI [of _ "concat (map ?h [0..<255])"]) simp
qed

theorem incomplete_tile_served_as_full_witness:
  "\<exists>b. get_tile_bytes (list_log concat) concat_hash (cached_new (replicate 65281 [7])) \<lparr>tp_level = 1, tp_tile_n = 0, tp_partial_width = None\<rparr>
     = Inr (b @ [7])"
  using incomplete_tile_served_as_full [OF list_log_serves [of concat "replicate 65281 [7]"] concat_hash_total, of 1] by simp

end
