(* ===== verification/Mtc_Formats.thy ===== *)
theory Mtc_Formats
  imports Mtc_Tlog
begin

text \<open>
  The textual and binary formats of the transparency log: tile paths and the message
  a cosigner signs.
\<close>

lemma pad3_digits:
  assumes "n < 1000"
  shows "list_all is_digit (pad3 n)" "length (pad3 n) = 3" "digits_value (pad3 n) = n"
proof -
  have "length (show_nat n) \<le> 3" using length_show_nat_le [of n 2] assms by simp
  then show "length (pad3 n) = 3" by (simp add: pad3_def)
  show "list_all is_digit (pad3 n)" using show_nat_digits [of n] by (auto simp: pad3_def list_all_iff is_digit_def)
  show "digits_value (pad3 n) = n" using show_nat_digits [of n] by (simp add: pad3_def digits_value_zeros)
qed

section \<open>Tile paths\<close>

definition tile_part :: "nat \<times> string \<Rightarrow> string" where
  "tile_part = (\<lambda>(i, g). if i = 0 then g else CHR ''x'' # g)"

lemma strip_tile_part: "list_all is_digit g \<Longrightarrow> strip_x (tile_part (i, g)) = g"
  using not_digit(1) by (cases g) (auto simp: strip_x_def tile_part_def)

lemma decode_components_snoc:
  "decode_components n (ps @ [p]) = Option.bind (decode_components n ps) (\<lambda>m. decode_components m [p])"
  by (induction n ps rule: decode_components.induct) (auto simp: Let_def split: option.split)

lemma decode_one:
  assumes "part < 1000" and "m * 1000 + part \<le> u64_max"
  shows "decode_components m [tile_part (i, pad3 part)] = Some (m * 1000 + part)"
proof -
  note d = pad3_digits [OF assms(1)]
  have "m * 1000 \<le> u64_max" using assms(2) by linarith
  moreover have "parse_uint u64_max (pad3 part) = Some part"
    using parse_uint_digits [OF d(1), of u64_max] d assms(1) by fastforce
  ultimately show ?thesis
    using d assms by (simp add: strip_tile_part checked_mul_def checked_add_def)
qed

lemma decode_groups: "n \<le> u64_max \<Longrightarrow> decode_components 0 (map tile_part (rev (enumerate i (tile_groups n)))) = Some n"
proof (induction n arbitrary: i rule: tile_groups.induct)
  case (1 n)
  show ?case
  proof (cases "n div 1000 = 0")
    case True
    then show ?thesis using decode_one [of n 0 i] "1.prems" by (simp add: tile_groups.simps [of n])
  next
    case False
    have "n div 1000 \<le> u64_max" using "1.prems" by (rule order_trans [OF div_le_dividend])
    then have "decode_components 0 (map tile_part (rev (enumerate (Suc i) (tile_groups (n div 1000))))) = Some (n div 1000)"
      using "1.IH" False by blast
    then show ?thesis
      using False decode_one [of "n mod 1000" "n div 1000" i] "1.prems"
      by (simp add: tile_groups.simps [of n] decode_components_snoc)
  qed
qed

lemma split_slash_no: "CHR ''/'' \<notin> set p \<Longrightarrow> split_slash p = [p]"
  by (induction p) auto

lemma split_slash_append: "CHR ''/'' \<notin> set p \<Longrightarrow> split_slash (p @ CHR ''/'' # s) = p # split_slash s"
  by (induction p) auto

lemma split_join: "ps \<noteq> [] \<Longrightarrow> (\<And>p. p \<in> set ps \<Longrightarrow> CHR ''/'' \<notin> set p) \<Longrightarrow> split_slash (join_slash ps) = ps"
  by (induction ps rule: join_slash.induct) (simp_all add: split_slash_no split_slash_append)

lemma tile_groups_chars: "g \<in> set (tile_groups n) \<Longrightarrow> list_all is_digit g"
proof (induction n rule: tile_groups.induct)
  case (1 n)
  then show ?case by (auto simp: tile_groups.simps [of n] pad3_digits split: if_splits)
qed

lemma set_join_slash: "set (join_slash ps) \<subseteq> insert CHR ''/'' (\<Union>p \<in> set ps. set p)"
  by (induction ps rule: join_slash.induct) auto

lemma tile_index_path_eq: "tile_index_path n = join_slash (map tile_part (rev (enumerate 0 (tile_groups n))))"
  by (simp add: tile_index_path_def tile_part_def)

lemma tile_parts_chars:
  "p \<in> set (map tile_part (rev (enumerate i (tile_groups n)))) \<Longrightarrow> set p \<subseteq> {c. is_digit c} \<union> {CHR ''x''}"
proof -
  assume "p \<in> set (map tile_part (rev (enumerate i (tile_groups n))))"
  then obtain j g where g: "(j, g) \<in> set (enumerate i (tile_groups n))" "p = tile_part (j, g)" by auto
  then have "g \<in> set (tile_groups n)" by (metis in_set_impl_in_set_zip2 enumerate_eq_zip set_zip_rightD)
  from tile_groups_chars [OF this] show ?thesis by (auto simp: g(2) tile_part_def list_all_iff)
qed

lemma tile_index_roundtrip:
  assumes "n \<le> u64_max"
  shows "decode_tile_index (tile_index_path n) = Some n"
proof -
  let ?ps = "map tile_part (rev (enumerate 0 (tile_groups n)))"
  have "?ps \<noteq> []" by (simp add: tile_groups.simps [of n])
  moreover have "CHR ''/'' \<notin> set p" if "p \<in> set ?ps" for p
    using tile_parts_chars [OF that] not_digit(3) by auto
  ultimately have "split_slash (join_slash ?ps) = ?ps" by (rule split_join)
  then show ?thesis using decode_groups [OF assms, of 0] by (simp add: decode_tile_index_def tile_index_path_eq)
qed

lemma tile_index_path_no_dot: "CHR ''.'' \<notin> set (tile_index_path n)"
proof -
  have "CHR ''.'' \<notin> set p" if "p \<in> set (map tile_part (rev (enumerate 0 (tile_groups n))))" for p
    using tile_parts_chars [OF that] not_digit(4) by auto
  then show ?thesis
    unfolding tile_index_path_eq using set_join_slash [of "map tile_part (rev (enumerate 0 (tile_groups n)))"] by auto
qed

lemma tile_index_path_nonempty: "n \<le> u64_max \<Longrightarrow> tile_index_path n \<noteq> []"
  using tile_index_roundtrip [of n] by (auto simp: decode_tile_index_def strip_x_def)

lemma split_partial_no: "CHR ''.'' \<notin> set a \<Longrightarrow> split_partial a = None"
  by (induction a) auto

lemma split_partial_append: "CHR ''.'' \<notin> set a \<Longrightarrow> split_partial (a @ ''.p/'' @ b) = Some (a, b)"
  by (induction a) auto

lemma split_first_slash_append: "CHR ''/'' \<notin> set a \<Longrightarrow> split_first_slash (a @ CHR ''/'' # b) = Some (a, b)"
  by (induction a) auto

text \<open>The path of a tile, as a client of the log writes it.\<close>

definition tile_url :: "tile_path \<Rightarrow> string" where
  "tile_url tile = show_nat (tp_level tile) @ CHR ''/'' # tile_index_path (tp_tile_n tile)
     @ (case tp_partial_width tile of None \<Rightarrow> [] | Some w \<Rightarrow> ''.p/'' @ show_nat w)"

lemma show_nat_no: "CHR ''/'' \<notin> set (show_nat n)" "CHR ''.'' \<notin> set (show_nat n)"
  using show_nat_digits [of n] not_digit(3,4) by (auto simp: list_all_iff)

text \<open>C22: a tile path is read back. Every tile path that a client can form, with a level of at most six, a
  64-bit tile number and a partial width between 1 and 255, is parsed to exactly the tile it names.\<close>

theorem tile_path_roundtrip:
  assumes "tp_level tile \<le> 6" and "tp_tile_n tile < 2 ^ 64"
    and "case tp_partial_width tile of None \<Rightarrow> True | Some w \<Rightarrow> 1 \<le> w \<and> w \<le> 255"
  shows "parse_tile_path (tile_url tile) = Inr tile"
proof -
  let ?a = "show_nat (tp_level tile) @ CHR ''/'' # tile_index_path (tp_tile_n tile)"
  have n: "tp_tile_n tile \<le> u64_max" using assms(2) by simp
  have dot: "CHR ''.'' \<notin> set ?a" using show_nat_no(2) tile_index_path_no_dot by simp
  note parts = split_first_slash_append [OF show_nat_no(1)] parse_show_nat tile_index_roundtrip [OF n]
    tile_index_path_nonempty [OF n]
  show ?thesis
  proof (cases "tp_partial_width tile")
    case None
    then show ?thesis
      using split_partial_no [OF dot] assms(1) parts
      by (simp add: parse_tile_path_def tile_url_def Let_def max_tile_level_def)
  next
    case (Some w)
    have "split_partial (tile_url tile) = Some (?a, show_nat w)"
      using split_partial_append [OF dot, of "show_nat w"] by (simp add: tile_url_def Some)
    then show ?thesis
      using Some assms parts by (simp add: parse_tile_path_def Let_def max_tile_level_def tile_width_def)
  qed
qed

theorem tile_path_roundtrip_witness:
  "parse_tile_path ''1/x001/234.p/42'' = Inr \<lparr>tp_level = 1, tp_tile_n = 1234, tp_partial_width = Some 42\<rparr>"
proof -
  have zeros: "replicate 2 CHR ''0'' = ''00''" by (simp add: numeral_2_eq_2)
  have "tile_url \<lparr>tp_level = 1, tp_tile_n = 1234, tp_partial_width = Some 42\<rparr> = ''1/x001/234.p/42''"
    by (simp add: tile_url_def tile_index_path_def tile_groups.simps pad3_def show_nat.simps digit_char_def char_of_def bit_0 zeros)
  then show ?thesis
    using tile_path_roundtrip [of "\<lparr>tp_level = 1, tp_tile_n = 1234, tp_partial_width = Some 42\<rparr>"] by simp
qed

section \<open>The cosigned message\<close>

lemma be_digits_value:
  "foldl (\<lambda>a b. a * 256 + unat b) a (map (\<lambda>i. word_of_nat (n div 256 ^ i) :: 8 word) (rev [0..<k])) = a * 256 ^ k + n mod 256 ^ k"
proof (induction k arbitrary: a)
  case (Suc k)
  have "n mod 256 ^ Suc k = 256 ^ k * (n div 256 ^ k mod 256) + n mod 256 ^ k"
    by (metis mod_mult2_eq power_Suc2)
  then show ?case using Suc by (simp add: unat_of_nat algebra_simps)
qed simp

lemma be_value_be64: "n < 2 ^ 64 \<Longrightarrow> be_value (be64 n) = n"
  using be_digits_value [of 0 n 8] by (simp add: be_value_def be64_def)

lemma be64_inject: "be64 m = be64 n \<Longrightarrow> m < 2 ^ 64 \<Longrightarrow> n < 2 ^ 64 \<Longrightarrow> m = n"
  by (metis be_value_be64)

lemma length_be64 [simp]: "length (be64 n) = 8"
  by (simp add: be64_def)

lemma str_bytes_inject: "str_bytes s = str_bytes t \<Longrightarrow> s = t"
proof -
  have u: "unat (of_char c :: 8 word) = of_char c" for c :: char
  proof -
    have "unat (of_nat (of_char c) :: 8 word) = of_char c" by (simp only: unat_of_nat) simp
    then show ?thesis by (simp only: of_nat_of_char)
  qed
  have inj: "inj (of_char :: char \<Rightarrow> 8 word)"
  proof (rule injI)
    fix c d :: char assume "(of_char c :: 8 word) = of_char d"
    then have "unat (of_char c :: 8 word) = unat (of_char d :: 8 word)" by (rule arg_cong)
    then have "(of_char c :: nat) = of_char d" unfolding u .
    then show "c = d" by (rule of_char_eq_iff [THEN iffD1])
  qed
  assume "str_bytes s = str_bytes t"
  then show ?thesis
    unfolding str_bytes_def by (rule map_injective) (rule inj)
qed

lemma build_message_ok:
  assumes "build_ml_dsa_cosigned_message name ts origin start fin root = Inr msg"
  shows "length name \<le> 255" "length origin \<le> 255"
    "msg = (str_bytes ''subtree/v1'' @ [10, 0]) @ [word_of_nat (length name)] @ str_bytes name @ be64 ts
       @ [word_of_nat (length origin)] @ str_bytes origin @ be64 start @ be64 fin @ root"
  using assms by (auto simp: build_ml_dsa_cosigned_message_def Let_def str_bytes_def split: if_splits)

lemma length_prefixed_inject:
  assumes "[word_of_nat (length s) :: 8 word] @ str_bytes s @ xs = [word_of_nat (length t)] @ str_bytes t @ ys"
    and "length s \<le> 255" and "length t \<le> 255"
  shows "s = t \<and> xs = ys"
proof -
  have "unat (word_of_nat (length s) :: 8 word) = unat (word_of_nat (length t) :: 8 word)" using assms(1) by simp
  then have "length s = length t" using assms(2,3) by (simp add: unat_of_nat)
  then have "str_bytes s = str_bytes t \<and> xs = ys"
    using assms(1) by (simp add: str_bytes_def append_eq_append_conv)
  then show ?thesis using str_bytes_inject by blast
qed

lemma be64_append_inject:
  "be64 m @ xs = be64 n @ ys \<Longrightarrow> m < 2 ^ 64 \<Longrightarrow> n < 2 ^ 64 \<Longrightarrow> m = n \<and> xs = ys"
  using be64_inject by (simp add: append_eq_append_conv)

text \<open>The cosigned message binds everything it is about. Two messages that are built and are equal bytes
  have the same cosigner, timestamp, origin, range and root hash: a cosignature cannot be reused for
  another name, log, time or tree.\<close>

theorem cosigned_message_binding:
  assumes "build_ml_dsa_cosigned_message name ts origin start fin root = Inr msg"
    and "build_ml_dsa_cosigned_message name' ts' origin' start' fin' root' = Inr msg"
    and "{ts, start, fin, ts', start', fin'} \<subseteq> {..<2 ^ 64}"
  shows "name = name' \<and> ts = ts' \<and> origin = origin' \<and> start = start' \<and> fin = fin' \<and> root = root'"
proof -
  note m = build_message_ok [OF assms(1)] and m' = build_message_ok [OF assms(2)]
  have "[word_of_nat (length name)] @ str_bytes name @ be64 ts @ [word_of_nat (length origin)] @ str_bytes origin
        @ be64 start @ be64 fin @ root
      = [word_of_nat (length name')] @ str_bytes name' @ be64 ts' @ [word_of_nat (length origin')] @ str_bytes origin'
        @ be64 start' @ be64 fin' @ root'"
    using m(3) m'(3) by simp
  from length_prefixed_inject [OF this m(1) m'(1)] have 1: "name = name'"
    "be64 ts @ [word_of_nat (length origin)] @ str_bytes origin @ be64 start @ be64 fin @ root
     = be64 ts' @ [word_of_nat (length origin')] @ str_bytes origin' @ be64 start' @ be64 fin' @ root'" by auto
  from be64_append_inject [OF 1(2)] have 2: "ts = ts'"
    "[word_of_nat (length origin)] @ str_bytes origin @ be64 start @ be64 fin @ root
     = [word_of_nat (length origin')] @ str_bytes origin' @ be64 start' @ be64 fin' @ root'" using assms(3) by auto
  from length_prefixed_inject [OF 2(2) m(2) m'(2)] have 3: "origin = origin'"
    "be64 start @ be64 fin @ root = be64 start' @ be64 fin' @ root'" by auto
  from be64_append_inject [OF 3(2)] have 4: "start = start'" "be64 fin @ root = be64 fin' @ root'" using assms(3) by auto
  from be64_append_inject [OF 4(2)] show ?thesis using assms(3) 1 2 3 4 by simp
qed

theorem cosigned_message_binding_witness:
  "build_ml_dsa_cosigned_message ''a'' 1 ''log'' 0 9 (replicate 32 0) \<noteq> build_ml_dsa_cosigned_message ''b'' 1 ''log'' 0 9 (replicate 32 0)"
proof
  assume "build_ml_dsa_cosigned_message ''a'' 1 ''log'' 0 9 (replicate 32 0) = build_ml_dsa_cosigned_message ''b'' 1 ''log'' 0 9 (replicate 32 0)"
  moreover obtain msg where "build_ml_dsa_cosigned_message ''a'' 1 ''log'' 0 9 (replicate 32 0) = Inr msg"
    by (simp add: build_ml_dsa_cosigned_message_def str_bytes_def)
  ultimately show False
    using cosigned_message_binding [of "''a''" 1 "''log''" 0 9 "replicate 32 0" msg "''b''" 1 "''log''" 0 9 "replicate 32 0"] by simp
qed

end
