(* ===== verification/Json_Value.thy ===== *)
theory Json_Value
  imports Akamu_Prelude
begin

text \<open>
  JSON values as \<^verbatim>\<open>serde_json::Value\<close> has them, with the accessors the handlers use. An object is the
  list of its members with distinct keys; of the numbers only the integers occur. Parsing and printing JSON text belong to the library and
  are parameters of the definitions that need them.
\<close>

datatype json =
    JNull
  | JBool bool
  | JNumber int
  | JString string
  | JArray "json list"
  | JObject "(string \<times> json) list"

definition json_get :: "string \<Rightarrow> json \<Rightarrow> json option" where
  "json_get k v = (case v of JObject ms \<Rightarrow> map_of ms k | _ \<Rightarrow> None)"

definition json_as_str :: "json \<Rightarrow> string option" where
  "json_as_str v = (case v of JString s \<Rightarrow> Some s | _ \<Rightarrow> None)"

definition json_as_array :: "json \<Rightarrow> json list option" where
  "json_as_array v = (case v of JArray vs \<Rightarrow> Some vs | _ \<Rightarrow> None)"

definition json_as_i64 :: "json \<Rightarrow> i64 option" where
  "json_as_i64 v = (case v of JNumber n \<Rightarrow> if i64_min \<le> n \<and> n \<le> i64_max then Some n else None | _ \<Rightarrow> None)"

definition json_is_object :: "json \<Rightarrow> bool" where
  "json_is_object v = (case v of JObject _ \<Rightarrow> True | _ \<Rightarrow> False)"

text \<open>\<^verbatim>\<open>as_object_mut().insert(k, x)\<close>: a value that is no object stays as it is.\<close>

definition json_insert :: "string \<Rightarrow> json \<Rightarrow> json \<Rightarrow> json" where
  "json_insert k x v = (case v of JObject ms \<Rightarrow> JObject (AList.update k x ms) | _ \<Rightarrow> v)"

text \<open>Reading a vector of strings, an optional member, a required member.\<close>

fun json_strings :: "json list \<Rightarrow> string list option" where
  "json_strings [] = Some []"
| "json_strings (JString s # vs) = map_option ((#) s) (json_strings vs)"
| "json_strings (_ # _) = None"

definition json_string_list :: "json \<Rightarrow> string list option" where
  "json_string_list v = (case v of JArray vs \<Rightarrow> json_strings vs | _ \<Rightarrow> None)"

definition json_opt_field :: "(json \<Rightarrow> 'a option) \<Rightarrow> string \<Rightarrow> json \<Rightarrow> 'a option option" where
  "json_opt_field f k v =
     (case json_get k v of
        None \<Rightarrow> Some None
      | Some JNull \<Rightarrow> Some None
      | Some x \<Rightarrow> map_option Some (f x))"

definition json_of_strings :: "string list \<Rightarrow> json" where
  "json_of_strings ss = JArray (map JString ss)"

definition json_of_opt :: "('a \<Rightarrow> json) \<Rightarrow> 'a option \<Rightarrow> json" where
  "json_of_opt f x = (case x of None \<Rightarrow> JNull | Some a \<Rightarrow> f a)"

section \<open>Laws\<close>

lemma json_get_insert:
  "json_is_object v \<Longrightarrow> json_get k (json_insert j x v) = (if k = j then Some x else json_get k v)"
  by (cases v) (simp_all add: json_get_def json_insert_def json_is_object_def update_conv')

lemma json_get_insert_other: "k \<noteq> j \<Longrightarrow> json_get k (json_insert j x v) = json_get k v"
  by (cases v) (simp_all add: json_get_def json_insert_def update_conv')

lemma json_is_object_insert [simp]: "json_is_object (json_insert k x v) = json_is_object v"
  by (cases v) (simp_all add: json_insert_def json_is_object_def)

lemma json_strings_map [simp]: "json_strings (map JString ss) = Some ss"
  by (induction ss) simp_all

lemma json_strings_SomeD: "json_strings vs = Some ss \<Longrightarrow> vs = map JString ss"
  by (induction vs arbitrary: ss rule: json_strings.induct) auto

lemma json_string_list_of [simp]: "json_string_list (json_of_strings ss) = Some ss"
  by (simp add: json_string_list_def json_of_strings_def)

text \<open>An optional member reads back what was stored for it.\<close>

lemma json_opt_field_of_opt:
  assumes "json_get k v = Some (json_of_opt g x)" and "\<And>a. f (g a) = Some a" and "\<And>a. g a \<noteq> JNull"
  shows "json_opt_field f k v = Some x"
proof (cases x)
  case None
  then show ?thesis using assms(1) by (simp add: json_opt_field_def json_of_opt_def)
next
  case (Some a)
  then have get: "json_get k v = Some (g a)" using assms(1) by (simp add: json_of_opt_def)
  show ?thesis using assms(2) [of a] assms(3) [of a] Some
    by (cases "g a") (simp_all add: json_opt_field_def get)
qed

end
