(* ===== verification/Admin_Auth.thy ===== *)
theory Admin_Auth
  imports Json_Value Db_Accounts Crdt_Hooks
begin

text \<open>
  Authentication of administrative operators (\<^verbatim>\<open>src/admin/auth\<close>) on the table of operators
  (\<^verbatim>\<open>src/db/operators.rs\<close>): session tokens, the rate limit per source address, the lockout after failed
  attempts, login by client certificate (direct or forwarded by a proxy), by Kerberos and by an external
  account binding key, and the resolution of a request to an operator. Cryptography, decoding, the
  Kerberos library and the random token are parameters; monotonic instants and times are integers. Each
  handler is one step: the statements of two concurrent requests do not interleave. A rejected request
  is a status with its text.
\<close>

section \<open>Roles and methods (state.rs)\<close>

datatype operator_role = Administrator | CaOperations | CaRa | Auditor

definition role_from_str :: "string \<Rightarrow> operator_role option" where
  "role_from_str s =
     (if s = ''administrator'' then Some Administrator
      else if s = ''ca_operations'' then Some CaOperations
      else if s = ''ca_ra'' then Some CaRa
      else if s = ''auditor'' then Some Auditor
      else None)"

definition role_as_str :: "operator_role \<Rightarrow> string" where
  "role_as_str r = (case r of Administrator \<Rightarrow> ''administrator'' | CaOperations \<Rightarrow> ''ca_operations''
     | CaRa \<Rightarrow> ''ca_ra'' | Auditor \<Rightarrow> ''auditor'')"

datatype admin_auth_method = AuthCert | AuthCertProxy | AuthGssapi | AuthEab

definition auth_method_as_str :: "admin_auth_method \<Rightarrow> string" where
  "auth_method_as_str m = (case m of AuthCert \<Rightarrow> ''cert'' | AuthCertProxy \<Rightarrow> ''cert-proxy''
     | AuthGssapi \<Rightarrow> ''gssapi'' | AuthEab \<Rightarrow> ''eab'')"

lemma role_round_trip: "role_from_str s = Some r \<longleftrightarrow> s = role_as_str r"
  by (cases r) (auto simp: role_from_str_def role_as_str_def)

section \<open>The table of operators (db/operators.rs)\<close>

record operator_row =
  op_id :: i64
  op_name :: string
  op_role :: string
  op_cert_fingerprint :: "string option"
  op_gssapi_principal :: "string option"
  op_created_at :: string
  op_last_seen_at :: "string option"
  op_active :: i64
  op_failed_attempts :: i64
  op_locked_until :: "string option"
  op_ca_id :: string

text \<open>The rows and the number the next row gets.\<close>

record operators_table =
  ot_rows :: "operator_row list"
  ot_next_id :: i64

definition key_free :: "('r \<Rightarrow> 'k option) \<Rightarrow> 'k option \<Rightarrow> 'r list \<Rightarrow> bool" where
  "key_free f k rows = (case k of None \<Rightarrow> True | Some x \<Rightarrow> \<forall>r \<in> set rows. f r \<noteq> Some x)"

definition operators_insert ::
  "sql_texts \<Rightarrow> string \<Rightarrow> string \<Rightarrow> string option \<Rightarrow> string option \<Rightarrow> string \<Rightarrow> string
     \<Rightarrow> operators_table \<Rightarrow> unit result \<times> operators_table" where
  "operators_insert msg name role fingerprint princ ca_id now t =
     (if role_from_str role = None \<or> (fingerprint = None \<and> princ = None)
      then (Inl (from_sqlx_error (msg CheckFailed)), t)
      else if name \<in> set (map op_name (ot_rows t)) \<or> \<not> key_free op_cert_fingerprint fingerprint (ot_rows t)
         \<or> \<not> key_free op_gssapi_principal princ (ot_rows t)
      then (Inl (from_sqlx_error (msg UniqueFailed)), t)
      else (Inr (), t\<lparr>ot_rows := ot_rows t @ [\<lparr>op_id = ot_next_id t, op_name = name, op_role = role,
               op_cert_fingerprint = fingerprint, op_gssapi_principal = princ, op_created_at = now,
               op_last_seen_at = None, op_active = 1, op_failed_attempts = 0, op_locked_until = None,
               op_ca_id = ca_id\<rparr>], ot_next_id := ot_next_id t + 1\<rparr>))"

definition operators_insert_if_absent ::
  "sql_texts \<Rightarrow> string \<Rightarrow> string \<Rightarrow> string option \<Rightarrow> string option \<Rightarrow> string \<Rightarrow> string
     \<Rightarrow> operators_table \<Rightarrow> bool result \<times> operators_table" where
  "operators_insert_if_absent msg name role fingerprint princ ca_id now t =
     (if name \<in> set (map op_name (ot_rows t)) then (Inr False, t)
      else case operators_insert msg name role fingerprint princ ca_id now t of
             (Inl e, t1) \<Rightarrow> (Inl e, t1) | (Inr _, t1) \<Rightarrow> (Inr True, t1))"

definition operators_get_by_fingerprint :: "string \<Rightarrow> operators_table \<Rightarrow> operator_row option" where
  "operators_get_by_fingerprint fp t = find (\<lambda>r. op_cert_fingerprint r = Some fp \<and> op_active r = 1) (ot_rows t)"

definition operators_get_by_principal :: "string \<Rightarrow> operators_table \<Rightarrow> operator_row option" where
  "operators_get_by_principal p t = find (\<lambda>r. op_gssapi_principal r = Some p \<and> op_active r = 1) (ot_rows t)"

definition operators_get_by_id :: "i64 \<Rightarrow> operators_table \<Rightarrow> operator_row option" where
  "operators_get_by_id i t = find (\<lambda>r. op_id r = i) (ot_rows t)"

definition operators_is_empty :: "operators_table \<Rightarrow> bool" where
  "operators_is_empty t \<longleftrightarrow> ot_rows t = []"

definition operators_list :: "i64 \<Rightarrow> i64 \<Rightarrow> operators_table \<Rightarrow> operator_row list" where
  "operators_list limit offset t = sql_page limit offset (sort_key op_id (ot_rows t))"

definition operators_list_by_ca :: "string \<Rightarrow> i64 \<Rightarrow> i64 \<Rightarrow> operators_table \<Rightarrow> operator_row list" where
  "operators_list_by_ca ca_id limit offset t =
     sql_page limit offset (sort_key op_id (filter (\<lambda>r. op_ca_id r = ca_id) (ot_rows t)))"

definition op_upd :: "i64 \<Rightarrow> (operator_row \<Rightarrow> operator_row) \<Rightarrow> operators_table \<Rightarrow> operators_table" where
  "op_upd i f t = t\<lparr>ot_rows := upd_where (\<lambda>r. op_id r = i) f (ot_rows t)\<rparr>"

definition op_count :: "i64 \<Rightarrow> operators_table \<Rightarrow> nat" where
  "op_count i t = affected (\<lambda>r. op_id r = i) (ot_rows t)"

definition operators_set_active :: "i64 \<Rightarrow> bool \<Rightarrow> string \<Rightarrow> operators_table \<Rightarrow> nat \<times> operators_table" where
  "operators_set_active i active now t =
     (op_count i t, op_upd i (\<lambda>r. r\<lparr>op_active := (if active then 1 else 0), op_last_seen_at := Some now\<rparr>) t)"

record operator_update_params =
  oupd_name :: "string option"
  oupd_role :: "string option"
  oupd_cert_fingerprint :: "string option"
  oupd_gssapi_principal :: "string option"
  oupd_ca_id :: "string option"

definition or_keep :: "'a option \<Rightarrow> 'a \<Rightarrow> 'a" where
  "or_keep x y = (case x of Some a \<Rightarrow> a | None \<Rightarrow> y)"

definition op_set_fields :: "operator_update_params \<Rightarrow> string \<Rightarrow> operator_row \<Rightarrow> operator_row" where
  "op_set_fields p now r = r\<lparr>op_last_seen_at := Some now,
     op_name := or_keep (oupd_name p) (op_name r), op_role := or_keep (oupd_role p) (op_role r),
     op_cert_fingerprint := or_keep (map_option Some (oupd_cert_fingerprint p)) (op_cert_fingerprint r),
     op_gssapi_principal := or_keep (map_option Some (oupd_gssapi_principal p)) (op_gssapi_principal r),
     op_ca_id := or_keep (oupd_ca_id p) (op_ca_id r)\<rparr>"

text \<open>The unique columns are checked against the rows with another id.\<close>

definition operators_update ::
  "sql_texts \<Rightarrow> i64 \<Rightarrow> operator_update_params \<Rightarrow> string \<Rightarrow> operators_table \<Rightarrow> bool result \<times> operators_table" where
  "operators_update msg i p now t =
     (let others = filter (\<lambda>r. op_id r \<noteq> i) (ot_rows t) in
      if op_count i t = 0 then (Inr False, t)
      else if (case oupd_role p of Some r \<Rightarrow> role_from_str r = None | None \<Rightarrow> False)
      then (Inl (from_sqlx_error (msg CheckFailed)), t)
      else if \<not> key_free (\<lambda>r. Some (op_name r)) (oupd_name p) others
         \<or> \<not> key_free op_cert_fingerprint (oupd_cert_fingerprint p) others
         \<or> \<not> key_free op_gssapi_principal (oupd_gssapi_principal p) others
      then (Inl (from_sqlx_error (msg UniqueFailed)), t)
      else (Inr True, op_upd i (op_set_fields p now) t))"

definition operators_update_last_seen :: "i64 \<Rightarrow> string \<Rightarrow> operators_table \<Rightarrow> operators_table" where
  "operators_update_last_seen i now t = op_upd i (\<lambda>r. r\<lparr>op_last_seen_at := Some now\<rparr>) t"

definition operators_increment_failed :: "i64 \<Rightarrow> nat \<Rightarrow> string \<Rightarrow> operators_table \<Rightarrow> operators_table" where
  "operators_increment_failed i max_attempts lock_until t =
     op_upd i (\<lambda>r. r\<lparr>op_failed_attempts := op_failed_attempts r + 1,
        op_locked_until := (if op_failed_attempts r + 1 \<ge> int max_attempts then Some lock_until
                            else op_locked_until r)\<rparr>) t"

definition operators_reset_failed :: "i64 \<Rightarrow> operators_table \<Rightarrow> operators_table" where
  "operators_reset_failed i t = op_upd i (\<lambda>r. r\<lparr>op_failed_attempts := 0, op_locked_until := None\<rparr>) t"

definition operators_unlock :: "i64 \<Rightarrow> operators_table \<Rightarrow> bool \<times> operators_table" where
  "operators_unlock i t =
     (0 < op_count i t, op_upd i (\<lambda>r. r\<lparr>op_failed_attempts := 0, op_locked_until := None\<rparr>) t)"

definition is_locked :: "operator_row \<Rightarrow> string \<Rightarrow> bool" where
  "is_locked r now = (case op_locked_until r of Some t \<Rightarrow> now \<le> t | None \<Rightarrow> False)"

section \<open>State and configuration\<close>

record admin_session =
  se_operator_id :: i64
  se_name :: string
  se_role :: operator_role
  se_ca_id :: string
  se_created_at :: int
  se_last_active_at :: int
  se_auth_method :: admin_auth_method

datatype proxy_header_format = XSslClientCert | SslClientCert | Xfcc

record proxy_auth_config =
  pac_trusted_proxies :: "string list"
  pac_header_format :: proxy_header_format

record admin_config =
  ac_session_ttl_secs :: nat
  ac_session_lock_secs :: nat
  ac_auth_rate_limit :: nat
  ac_max_failed_auth :: nat
  ac_lockout_duration_secs :: nat
  ac_proxy_auth :: "proxy_auth_config option"

record admin_audit =
  aa_success :: bool
  aa_event :: string
  aa_principal :: "string option"
  aa_detail :: string

record admin_state =
  ad_operators :: operators_table
  ad_app :: app_state
  ad_cas :: "string list"                 \<comment> \<open>the configured CAs\<close>
  ad_sessions :: "(string, admin_session) hashmap option"
  ad_limiter :: "(string, int list) hashmap option"
  ad_eab_nonces :: "(string, i64) hashmap option"
  ad_config :: "admin_config option"
  ad_halted :: bool
  ad_gss_configured :: bool          \<comment> \<open>there is a Kerberos credential\<close>
  ad_gss_prompt :: bool              \<comment> \<open>clients are asked for one\<close>
  ad_audit_log :: "admin_audit list"

type_synonym rejection = "nat \<times> string"

definition admin_record :: "admin_audit \<Rightarrow> admin_state \<Rightarrow> admin_state" where
  "admin_record e st = st\<lparr>ad_audit_log := ad_audit_log st @ [e]\<rparr>"

definition cfg_or :: "(admin_config \<Rightarrow> 'a) \<Rightarrow> 'a \<Rightarrow> admin_state \<Rightarrow> 'a" where
  "cfg_or f dflt st = (case ad_config st of Some c \<Rightarrow> f c | None \<Rightarrow> dflt)"

record operator_context =
  oc_operator_id :: i64
  oc_name :: string
  oc_role :: operator_role
  oc_ca_id :: string
  oc_auth_method :: admin_auth_method
  oc_session_token :: "string option"

definition ca_scope :: "operator_context \<Rightarrow> string option" where
  "ca_scope c = (if oc_ca_id c = [] then None else Some (oc_ca_id c))"

section \<open>Sessions (session.rs)\<close>

text \<open>\<^verbatim>\<open>Instant::elapsed\<close> in seconds.\<close>

definition elapsed :: "int \<Rightarrow> int \<Rightarrow> int" where
  "elapsed now t = max 0 (now - t)"

definition session_cap :: nat where "session_cap = 1000"

definition sweep_sessions :: "nat \<Rightarrow> int \<Rightarrow> (string, admin_session) hashmap \<Rightarrow> (string, admin_session) hashmap" where
  "sweep_sessions ttl now m = hm_retain (\<lambda>_ s. elapsed now (se_last_active_at s) < int ttl) m"

definition find_session_token :: "(string, 'v) hashmap \<Rightarrow> string \<Rightarrow> string option" where
  "find_session_token m token = find (\<lambda>k. k = token) (map fst m)"

text \<open>The first least recently active session in iteration order.\<close>

fun oldest_session :: "(string, admin_session) hashmap \<Rightarrow> string option" where
  "oldest_session [] = None"
| "oldest_session ((k, s) # m) =
     (case oldest_session m of
        None \<Rightarrow> Some k
      | Some k' \<Rightarrow> (case hm_get m k' of
                      Some s' \<Rightarrow> if se_last_active_at s' < se_last_active_at s then Some k' else Some k
                    | None \<Rightarrow> Some k))"

definition evict_oldest :: "(string, admin_session) hashmap \<Rightarrow> (string, admin_session) hashmap" where
  "evict_oldest m = (case oldest_session m of Some k \<Rightarrow> AList.delete k m | None \<Rightarrow> m)"

definition create_session ::
  "string + string \<Rightarrow> int \<Rightarrow> i64 \<Rightarrow> string \<Rightarrow> operator_role \<Rightarrow> string \<Rightarrow> admin_auth_method
     \<Rightarrow> admin_state \<Rightarrow> string result \<times> admin_state" where
  "create_session fresh now operator_id name role ca_id auth_method st =
     (case fresh of
        Inl e \<Rightarrow> (Inl (Internal e), st)
      | Inr token \<Rightarrow>
          (let session = \<lparr>se_operator_id = operator_id, se_name = name, se_role = role, se_ca_id = ca_id,
                 se_created_at = now, se_last_active_at = now, se_auth_method = auth_method\<rparr>
           in case ad_sessions st of
                None \<Rightarrow> (Inl (Internal ''admin sessions store not initialised''), st)
              | Some m \<Rightarrow>
                  (let m1 = sweep_sessions (cfg_or ac_session_ttl_secs 3600 st) now m;
                       m2 = (if session_cap \<le> length m1 then evict_oldest m1 else m1)
                   in (Inr token, st\<lparr>ad_sessions := Some (hm_insert token session m2)\<rparr>))))"

datatype session_lookup = SessionActive i64 string operator_role string admin_auth_method | SessionLocked | SessionNotFound

definition lookup_session :: "int \<Rightarrow> string \<Rightarrow> admin_state \<Rightarrow> session_lookup \<times> admin_state" where
  "lookup_session now token st =
     (case ad_sessions st of
        None \<Rightarrow> (SessionNotFound, st)
      | Some m \<Rightarrow>
          (let m1 = sweep_sessions (cfg_or ac_session_ttl_secs 3600 st) now m;
               lock_secs = cfg_or ac_session_lock_secs 900 st
           in case Option.bind (find_session_token m1 token) (hm_get m1) of
                None \<Rightarrow> (SessionNotFound, st\<lparr>ad_sessions := Some m1\<rparr>)
              | Some s \<Rightarrow>
                  if int lock_secs \<le> elapsed now (se_last_active_at s)
                  then (SessionLocked, st\<lparr>ad_sessions := Some m1\<rparr>)
                  else (SessionActive (se_operator_id s) (se_name s) (se_role s) (se_ca_id s) (se_auth_method s),
                        st\<lparr>ad_sessions := Some (hm_insert token (s\<lparr>se_last_active_at := now\<rparr>) m1)\<rparr>)))"

definition invalidate_session :: "string \<Rightarrow> admin_state \<Rightarrow> admin_state" where
  "invalidate_session token st = st\<lparr>ad_sessions := map_option (AList.delete token) (ad_sessions st)\<rparr>"

section \<open>Rate limit and lockout (auth/mod.rs)\<close>

definition check_lockout :: "string \<Rightarrow> operator_row \<Rightarrow> rejection + unit" where
  "check_lockout now r =
     (if is_locked r now
      then Inl (403, ''operator account locked due to repeated authentication failures; contact an administrator to unlock'')
      else Inr ())"

definition rate_window :: int where "rate_window = 300"

definition limiter_sweep_at :: nat where "limiter_sweep_at = 500"

definition check_rate_limit ::
  "int \<Rightarrow> string \<Rightarrow> nat \<Rightarrow> (string, int list) hashmap \<Rightarrow> (nat + unit) \<times> (string, int list) hashmap" where
  "check_rate_limit now ip limit m =
     (let times = filter (\<lambda>t. now - rate_window \<le> t) (case hm_get m ip of Some ts \<Rightarrow> ts | None \<Rightarrow> [])
      in if limit \<le> length times then (Inl (length times), hm_insert ip times m)
         else let m1 = hm_insert ip (times @ [now]) m
              in (Inr (), if limiter_sweep_at < length m1 then hm_retain (\<lambda>_ v. v \<noteq> []) m1 else m1))"

end
