(* ===== verification/Admin_Login.thy ===== *)
theory Admin_Login
  imports Rust_Text Admin_Auth
begin

text \<open>
  The login paths of the administrative interface: the forwarded client certificate (\<^verbatim>\<open>mtls.rs\<close>),
  Kerberos (\<^verbatim>\<open>gssapi.rs\<close>), the external account binding key (\<^verbatim>\<open>eab.rs\<close>), the resolution of a request to an
  operator and the two session handlers (\<^verbatim>\<open>auth/mod.rs\<close>).
\<close>

section \<open>Forwarded certificates (mtls.rs)\<close>

fun split_quotes :: "char \<Rightarrow> string \<Rightarrow> bool \<Rightarrow> string \<Rightarrow> string list" where
  "split_quotes delim [] in_quotes current = [current]"
| "split_quotes delim (ch # s) in_quotes current =
     (if ch = CHR 0x22 then split_quotes delim s (\<not> in_quotes) (current @ [ch])
      else if ch = delim \<and> \<not> in_quotes then current # split_quotes delim s in_quotes []
      else split_quotes delim s in_quotes (current @ [ch]))"

definition split_respecting_quotes :: "string \<Rightarrow> char \<Rightarrow> string list" where
  "split_respecting_quotes s delim = split_quotes delim s False []"

definition is_space :: "char \<Rightarrow> bool" where
  "is_space c \<longleftrightarrow> c \<in> {CHR 0x20, CHR 0x09, CHR 0x0A, CHR 0x0B, CHR 0x0C, CHR 0x0D}"

definition str_trim :: "string \<Rightarrow> string" where
  "str_trim s = rev (dropWhile is_space (rev (dropWhile is_space s)))"

definition strip_quotes :: "string \<Rightarrow> string" where
  "strip_quotes v =
     (case v of
        c # r \<Rightarrow> if c = CHR 0x22 \<and> r \<noteq> [] \<and> last r = CHR 0x22 then butlast r else v
      | [] \<Rightarrow> v)"

fun xfcc_cert_pair :: "string list \<Rightarrow> string option" where
  "xfcc_cert_pair [] = None"
| "xfcc_cert_pair (pair # ps) =
     (case split_once (CHR ''='') (str_trim pair) of
        Some (key, val) \<Rightarrow>
          if map ascii_lower (str_trim key) = ''cert'' then Some (strip_quotes (str_trim val)) else xfcc_cert_pair ps
      | None \<Rightarrow> xfcc_cert_pair ps)"

definition parse_xfcc_cert :: "string \<Rightarrow> string option" where
  "parse_xfcc_cert h =
     xfcc_cert_pair (split_respecting_quotes (last (split_respecting_quotes h (CHR '',''))) (CHR '';''))"

definition max_proxy_cert_header_len :: nat where "max_proxy_cert_header_len = 64 * 1024"

definition header_name :: "proxy_header_format \<Rightarrow> string" where
  "header_name f = (case f of XSslClientCert \<Rightarrow> ''X-SSL-Client-Cert'' | SslClientCert \<Rightarrow> ''SSL_CLIENT_CERT''
     | Xfcc \<Rightarrow> ''X-Forwarded-Client-Cert'')"

record admin_request =
  rq_auth_header :: string                          \<comment> \<open>empty when absent or not text\<close>
  rq_peer_cert :: "bytes option"                    \<comment> \<open>the certificate of the TLS connection\<close>
  rq_peer_ip :: "string option"
  rq_headers :: "(string \<times> string option) list"    \<comment> \<open>by canonical name; no value when not text\<close>

datatype gss_outcome = GssComplete bytes string | GssContinue bytes | GssFailed

record login_ext =
  lx_percent_decode :: "string \<Rightarrow> string option"
  lx_pem_to_der :: "string \<Rightarrow> bytes list"
  lx_sha256_hex :: "bytes \<Rightarrow> string + string"
  lx_b64u_decode :: "string \<Rightarrow> bytes option"
  lx_b64_decode :: "string \<Rightarrow> bytes option"
  lx_hmac_verify :: "string \<Rightarrow> bytes \<Rightarrow> string \<Rightarrow> bytes \<Rightarrow> bool"
  lx_rfc3339 :: "i64 \<Rightarrow> string"
  lx_gss_accept :: "bytes \<Rightarrow> gss_outcome"

definition extract_proxy_cert ::
  "login_ext \<Rightarrow> admin_request \<Rightarrow> proxy_auth_config \<Rightarrow> rejection + bytes option" where
  "extract_proxy_cert lx rq cfg =
     (case rq_peer_ip rq of
        None \<Rightarrow> Inr None
      | Some ip \<Rightarrow>
          if ip \<notin> set (pac_trusted_proxies cfg) then Inr None
          else let name = header_name (pac_header_format cfg) in
            (case map_of (rq_headers rq) name of
               None \<Rightarrow> Inr None
             | Some None \<Rightarrow> Inl (400, name @ '' header is not valid UTF-8'')
             | Some (Some hdr) \<Rightarrow>
                 if max_proxy_cert_header_len < length hdr then Inl (400, name @ '' header exceeds size limit'')
                 else (case (if pac_header_format cfg = Xfcc then parse_xfcc_cert hdr else Some hdr) of
                         None \<Rightarrow> Inr None
                       | Some pem \<Rightarrow>
                           (case lx_percent_decode lx pem of
                              None \<Rightarrow> Inl (400, name @ '': URL-decoded value is not valid UTF-8'')
                            | Some decoded \<Rightarrow>
                                (case lx_pem_to_der lx decoded of
                                   [] \<Rightarrow> Inl (400, name @ '': no PEM certificate found'')
                                 | der # _ \<Rightarrow> Inr (Some der))))))"

definition has_proxy_cert_header :: "admin_request \<Rightarrow> admin_state \<Rightarrow> bool" where
  "has_proxy_cert_header rq st =
     (case Option.bind (ad_config st) ac_proxy_auth of
        None \<Rightarrow> False
      | Some cfg \<Rightarrow>
          (case rq_peer_ip rq of
             None \<Rightarrow> False
           | Some ip \<Rightarrow> ip \<in> set (pac_trusted_proxies cfg)
               \<and> map_of (rq_headers rq) (header_name (pac_header_format cfg)) \<noteq> None))"

section \<open>Opening a session for an operator\<close>

text \<open>The outcomes a login depends on: the clocks, the fresh token, and which statements fail.\<close>

record login_io =
  li_instant :: int
  li_unix :: i64
  li_token :: "string + string"
  li_lookup_ok :: bool
  li_counter_ok :: bool    \<comment> \<open>the statement on the failure counter\<close>
  li_seen_ok :: bool

definition with_ops :: "bool \<Rightarrow> (operators_table \<Rightarrow> operators_table) \<Rightarrow> admin_state \<Rightarrow> admin_state" where
  "with_ops ok f st = (if ok then st\<lparr>ad_operators := f (ad_operators st)\<rparr> else st)"

definition login_ok_event :: "admin_auth_method \<Rightarrow> string \<Rightarrow> admin_audit" where
  "login_ok_event m name = \<lparr>aa_success = True, aa_event = ''AdminLogin'', aa_principal = Some name,
     aa_detail = auth_method_as_str m\<rparr>"

definition login_fail_event :: "string \<Rightarrow> string option \<Rightarrow> string \<Rightarrow> admin_audit" where
  "login_fail_event m principal_opt reason = \<lparr>aa_success = False, aa_event = ''AdminLogin'',
     aa_principal = principal_opt, aa_detail = m @ '': '' @ reason\<rparr>"

text \<open>The steps after a certificate or a Kerberos principal has been matched to an active operator.\<close>

definition open_session ::
  "login_ext \<Rightarrow> login_io \<Rightarrow> admin_auth_method \<Rightarrow> operator_row \<Rightarrow> admin_state
     \<Rightarrow> (rejection + operator_context) \<times> admin_state" where
  "open_session lx io m r st =
     (case check_lockout (lx_rfc3339 lx (li_unix io)) r of
        Inl rej \<Rightarrow> (Inl rej, st)
      | Inr _ \<Rightarrow>
          (case role_from_str (op_role r) of
             None \<Rightarrow> (Inl (500, []), st)
           | Some role \<Rightarrow>
               (let st1 = with_ops (li_counter_ok io) (operators_reset_failed (op_id r)) st in
                case create_session (li_token io) (li_instant io) (op_id r) (op_name r) role (op_ca_id r) m st1 of
                  (Inl _, st2) \<Rightarrow> (Inl (500, []), st2)
                | (Inr token, st2) \<Rightarrow>
                    (let st3 = with_ops (li_seen_ok io)
                           (operators_update_last_seen (op_id r) (lx_rfc3339 lx (li_unix io))) st2
                     in (Inr \<lparr>oc_operator_id = op_id r, oc_name = op_name r, oc_role = role,
                              oc_ca_id = op_ca_id r, oc_auth_method = m, oc_session_token = Some token\<rparr>,
                         admin_record (login_ok_event m (op_name r)) st3)))))"

section \<open>Kerberos (gssapi.rs)\<close>

definition max_negotiate_encoded :: nat where
  "max_negotiate_encoded = 128 * 1024 * 4 div 3 + 4"

definition authenticate_gssapi ::
  "login_ext \<Rightarrow> login_io \<Rightarrow> string \<Rightarrow> admin_state \<Rightarrow> (rejection + operator_context) \<times> admin_state" where
  "authenticate_gssapi lx io token st =
     (if max_negotiate_encoded < length token then (Inl (400, ''Negotiate token exceeds size limit''), st)
      else case (case lx_b64u_decode lx token of Some b \<Rightarrow> Some b | None \<Rightarrow> lx_b64_decode lx token) of
        None \<Rightarrow> (Inl (400, ''invalid base64 in Negotiate token''), st)
      | Some b \<Rightarrow>
          if \<not> ad_gss_configured st then (Inl (401, ''GSSAPI not configured for admin interface''), st)
          else (case lx_gss_accept lx b of
                  GssContinue _ \<Rightarrow> (Inl (401, []), st)
                | GssFailed \<Rightarrow>
                    (Inl (403, ''GSSAPI authentication failed''),
                     admin_record (login_fail_event ''gssapi'' None ''token rejected'') st)
                | GssComplete _ p \<Rightarrow>
                    if \<not> li_lookup_ok io then (Inl (500, []), st)
                    else (case operators_get_by_principal p (ad_operators st) of
                            Some r \<Rightarrow> open_session lx io AuthGssapi r st
                          | None \<Rightarrow>
                              (Inl (403, ''Kerberos principal is not a registered operator''),
                               admin_record (login_fail_event ''gssapi'' (Some p) ''principal not registered'') st))))"

section \<open>Resolving a request (auth/mod.rs)\<close>

definition credential_presented :: "admin_request \<Rightarrow> admin_state \<Rightarrow> bool" where
  "credential_presented rq st \<longleftrightarrow>
     rq_peer_cert rq \<noteq> None \<or> has_proxy_cert_header rq st \<or> strip_prefix ''Negotiate '' (rq_auth_header rq) \<noteq> None"

definition limit_credentials :: "login_io \<Rightarrow> admin_request \<Rightarrow> admin_state \<Rightarrow> (rejection + unit) \<times> admin_state" where
  "limit_credentials io rq st =
     (case (credential_presented rq st, rq_peer_ip rq, ad_limiter st) of
        (True, Some ip, Some m) \<Rightarrow>
          (case check_rate_limit (li_instant io) ip (cfg_or ac_auth_rate_limit 20 st) m of
             (Inl _, m1) \<Rightarrow> (Inl (429, ''authentication rate limit exceeded; try again later''), st\<lparr>ad_limiter := Some m1\<rparr>)
           | (Inr _, m1) \<Rightarrow> (Inr (), st\<lparr>ad_limiter := Some m1\<rparr>))
      | _ \<Rightarrow> (Inr (), st))"

definition presented_cert ::
  "login_ext \<Rightarrow> admin_request \<Rightarrow> admin_state \<Rightarrow> rejection + (bytes \<times> admin_auth_method) option" where
  "presented_cert lx rq st =
     (case rq_peer_cert rq of
        Some der \<Rightarrow> Inr (Some (der, AuthCert))
      | None \<Rightarrow>
          (case Option.bind (ad_config st) ac_proxy_auth of
             None \<Rightarrow> Inr None
           | Some cfg \<Rightarrow>
               (case extract_proxy_cert lx rq cfg of
                  Inl rej \<Rightarrow> Inl rej
                | Inr der \<Rightarrow> Inr (map_option (\<lambda>b. (b, AuthCertProxy)) der))))"

definition login_by_cert ::
  "login_ext \<Rightarrow> login_io \<Rightarrow> bytes \<Rightarrow> admin_auth_method \<Rightarrow> admin_state
     \<Rightarrow> (rejection + operator_context) \<times> admin_state" where
  "login_by_cert lx io der m st =
     (case lx_sha256_hex lx der of
        Inl _ \<Rightarrow> (Inl (500, []), st)
      | Inr fp \<Rightarrow>
          if \<not> li_lookup_ok io then (Inl (500, []), st)
          else (case operators_get_by_fingerprint fp (ad_operators st) of
                  Some r \<Rightarrow> open_session lx io m r st
                | None \<Rightarrow>
                    (Inl (403, ''client certificate not recognized''),
                     admin_record (login_fail_event (auth_method_as_str m) None ''fingerprint not found'') st)))"

definition resolve_bearer :: "login_io \<Rightarrow> string \<Rightarrow> admin_state \<Rightarrow> (rejection + operator_context) \<times> admin_state" where
  "resolve_bearer io token st =
     (case lookup_session (li_instant io) token st of
        (SessionActive i name role ca_id m, st1) \<Rightarrow>
          (Inr \<lparr>oc_operator_id = i, oc_name = name, oc_role = role, oc_ca_id = ca_id, oc_auth_method = m,
                oc_session_token = Some token\<rparr>, st1)
      | (SessionLocked, st1) \<Rightarrow> (Inl (423, ''session locked due to inactivity; re-authenticate''), st1)
      | (SessionNotFound, st1) \<Rightarrow> (Inl (401, ''session token expired or invalid; please re-authenticate''), st1))"

definition resolve_operator_context ::
  "login_ext \<Rightarrow> login_io \<Rightarrow> admin_request \<Rightarrow> admin_state \<Rightarrow> (rejection + operator_context) \<times> admin_state" where
  "resolve_operator_context lx io rq st =
     (if ad_config st = None then (Inl (404, ''admin API is not configured''), st)
      else if ad_halted st then (Inl (503, ''server halted: audit overflow or security alarm''), st)
      else case limit_credentials io rq st of
        (Inl rej, st1) \<Rightarrow> (Inl rej, st1)
      | (Inr _, st1) \<Rightarrow>
          (case strip_prefix ''Bearer '' (rq_auth_header rq) of
             Some token \<Rightarrow> resolve_bearer io token st1
           | None \<Rightarrow>
               (case presented_cert lx rq st1 of
                  Inl rej \<Rightarrow> (Inl rej, st1)
                | Inr (Some (der, m)) \<Rightarrow> login_by_cert lx io der m st1
                | Inr None \<Rightarrow>
                    (case strip_prefix ''Negotiate '' (rq_auth_header rq) of
                       Some token \<Rightarrow> authenticate_gssapi lx io token st1
                     | None \<Rightarrow>
                         (Inl (401, if ad_gss_prompt st1
                            then ''Authentication required: Bearer token, mTLS certificate, or Negotiate''
                            else ''Authentication required: Bearer token or mTLS client certificate''), st1)))))"

definition delete_session :: "operator_context \<Rightarrow> admin_state \<Rightarrow> admin_state" where
  "delete_session c st =
     admin_record \<lparr>aa_success = True, aa_event = ''AdminLogout'', aa_principal = Some (oc_name c), aa_detail = []\<rparr>
       (case oc_session_token c of Some token \<Rightarrow> invalidate_session token st | None \<Rightarrow> st)"

section \<open>Login with an account binding key (eab.rs)\<close>

definition abs_i64 :: "i64 \<Rightarrow> i64" where
  "abs_i64 x = wrap_i64 \<bar>x\<bar>"

definition eab_nonce_cap :: nat where "eab_nonce_cap = 10000"

definition nonce_key :: "string \<Rightarrow> i64 \<Rightarrow> string" where
  "nonce_key kid ts = kid @ ''.'' @ show_int ts"

text \<open>Over the cap the newer half is kept; the order among equal times is that of the sort.\<close>

definition reserve_nonce ::
  "i64 \<Rightarrow> string \<Rightarrow> (string, i64) hashmap \<Rightarrow> bool \<times> (string, i64) hashmap" where
  "reserve_nonce now key m =
     (let m1 = hm_retain (\<lambda>_ t. abs_i64 (wrap_i64 (now - t)) \<le> 120) m
      in if hm_get m1 key \<noteq> None then (False, m1)
         else let m2 = (if eab_nonce_cap \<le> length m1
                        then take (eab_nonce_cap div 2) (sort_key (\<lambda>p. - snd p) m1) else m1)
              in (True, hm_insert key now m2))"

record eab_login_payload =
  elp_kid :: "string option"
  elp_timestamp :: "i64 option"
  elp_signature :: "string option"

definition eab_payload_of_json :: "json \<Rightarrow> eab_login_payload" where
  "eab_payload_of_json v =
     \<lparr>elp_kid = Option.bind (json_get ''kid'' v) json_as_str,
      elp_timestamp = Option.bind (json_get ''timestamp'' v) json_as_i64,
      elp_signature = Option.bind (json_get ''signature'' v) json_as_str\<rparr>"

definition eab_operator :: "eab_key_row \<Rightarrow> operators_table \<Rightarrow> rejection + operator_row" where
  "eab_operator k t =
     (case (eab_created_by_operator_id k, eab_bound_principal k) of
        (Some i, _) \<Rightarrow>
          (case operators_get_by_id i t of Some r \<Rightarrow> Inr r | None \<Rightarrow> Inl (403, ''EAB key owner operator not found''))
      | (None, Some p) \<Rightarrow>
          (case operators_get_by_principal p t of
             Some r \<Rightarrow> Inr r | None \<Rightarrow> Inl (403, ''EAB key principal is not registered as an operator''))
      | (None, None) \<Rightarrow> Inl (403, ''EAB key has no operator association and cannot be used for web UI login''))"

text \<open>The key's HMAC over the message; the error is a response that ends the request.\<close>

definition eab_signature_ok :: "login_ext \<Rightarrow> eab_key_row \<Rightarrow> string \<Rightarrow> string \<Rightarrow> rejection + bool" where
  "eab_signature_ok lx k message signature =
     (case lx_b64u_decode lx (eab_hmac_key_b64u k) of
        None \<Rightarrow> Inl (500, [])
      | Some key \<Rightarrow>
          (case (case lx_b64u_decode lx signature of Some b \<Rightarrow> Some b | None \<Rightarrow> lx_b64_decode lx signature) of
             None \<Rightarrow> Inl (400, ''signature is not valid base64url'')
           | Some sig \<Rightarrow>
               if eab_alg k \<noteq> ''sha256''
               then (if eab_alg k \<in> {''sha384'', ''sha512''}
                     then Inl (400, ''EAB web UI login only supports sha256 keys; this key uses a different algorithm'')
                     else Inl (500, []))
               else Inr (lx_hmac_verify lx (eab_alg k) key message sig)))"

definition eab_login_failed :: "login_ext \<Rightarrow> login_io \<Rightarrow> operator_row \<Rightarrow> string \<Rightarrow> admin_state \<Rightarrow> admin_state" where
  "eab_login_failed lx io r key st =
     (let lock_until = lx_rfc3339 lx (li_unix io + int (cfg_or ac_lockout_duration_secs 900 st));
          st1 = with_ops (li_counter_ok io)
                  (operators_increment_failed (op_id r) (cfg_or ac_max_failed_auth 5 st) lock_until) st
      in admin_record (login_fail_event ''eab'' None ''hmac verify failed'')
           (st1\<lparr>ad_eab_nonces := map_option (AList.delete key) (ad_eab_nonces st1)\<rparr>))"

definition eab_login_succeeded ::
  "login_ext \<Rightarrow> login_io \<Rightarrow> operator_row \<Rightarrow> admin_state \<Rightarrow> (rejection + string) \<times> admin_state" where
  "eab_login_succeeded lx io r st =
     (case role_from_str (op_role r) of
        None \<Rightarrow> (Inl (500, []), st)
      | Some role \<Rightarrow>
          (case create_session (li_token io) (li_instant io) (op_id r) (op_name r) role (op_ca_id r) AuthEab st of
             (Inl _, st1) \<Rightarrow> (Inl (500, []), st1)
           | (Inr token, st1) \<Rightarrow>
               (Inr token,
                admin_record (login_ok_event AuthEab (op_name r))
                  (with_ops (li_seen_ok io) (operators_update_last_seen (op_id r) (lx_rfc3339 lx (li_unix io)))
                    (with_ops (li_counter_ok io) (operators_reset_failed (op_id r)) st1)))))"

definition eab_check_and_login ::
  "login_ext \<Rightarrow> login_io \<Rightarrow> string \<Rightarrow> string \<Rightarrow> string \<Rightarrow> admin_state \<Rightarrow> (rejection + string) \<times> admin_state" where
  "eab_check_and_login lx io kid key signature st =
     (if \<not> li_lookup_ok io then (Inl (500, []), st)
      else case fst (eab_get_by_kid kid (st_db (ad_app st))) of
        Inl _ \<Rightarrow> (Inl (500, []), st)
      | Inr None \<Rightarrow>
          (Inl (401, ''authentication failed''), admin_record (login_fail_event ''eab'' None ''kid not found'') st)
      | Inr (Some k) \<Rightarrow>
          (case eab_operator k (ad_operators st) of
             Inl rej \<Rightarrow>
               (Inl rej, if eab_created_by_operator_id k = None \<and> eab_bound_principal k = None
                         then admin_record (login_fail_event ''eab'' None ''no operator owner'') st else st)
           | Inr r \<Rightarrow>
               if op_active r = 0 then (Inl (403, ''operator account is not active''), st)
               else (case check_lockout (lx_rfc3339 lx (li_unix io)) r of
                       Inl rej \<Rightarrow> (Inl rej, st)
                     | Inr _ \<Rightarrow>
                         (case eab_signature_ok lx k key signature of
                            Inl rej \<Rightarrow> (Inl rej, st)
                          | Inr False \<Rightarrow> (Inl (401, ''authentication failed''), eab_login_failed lx io r key st)
                          | Inr True \<Rightarrow> eab_login_succeeded lx io r st))))"

definition post_session_eab ::
  "login_ext \<Rightarrow> login_io \<Rightarrow> string option \<Rightarrow> string + json \<Rightarrow> admin_state \<Rightarrow> (rejection + string) \<times> admin_state" where
  "post_session_eab lx io peer_ip body st =
     (if ad_config st = None then (Inl (404, []), st)
      else case body of Inl e \<Rightarrow> (Inl (400, e), st) | Inr v \<Rightarrow>
       (case (case (peer_ip, ad_limiter st) of
                (Some ip, Some m) \<Rightarrow>
                  (case check_rate_limit (li_instant io) ip (cfg_or ac_auth_rate_limit 20 st) m of
                     (Inl _, m1) \<Rightarrow> (False, st\<lparr>ad_limiter := Some m1\<rparr>)
                   | (Inr _, m1) \<Rightarrow> (True, st\<lparr>ad_limiter := Some m1\<rparr>))
              | _ \<Rightarrow> (True, st)) of
          (False, st1) \<Rightarrow>
            (Inl (429, ''authentication rate limit exceeded; try again later''),
             admin_record (login_fail_event ''eab'' None ''rate limit exceeded'') st1)
        | (True, st1) \<Rightarrow>
            (let p = eab_payload_of_json v in
             case elp_kid p of None \<Rightarrow> (Inl (400, ''kid is required''), st1) | Some kid \<Rightarrow>
             if kid = [] then (Inl (400, ''kid is required''), st1) else
             case elp_timestamp p of None \<Rightarrow> (Inl (400, ''timestamp (integer) is required''), st1) | Some ts \<Rightarrow>
             case elp_signature p of None \<Rightarrow> (Inl (400, ''signature is required''), st1) | Some signature \<Rightarrow>
             if signature = [] then (Inl (400, ''signature is required''), st1) else
             if 60 < abs_i64 (wrap_i64 (li_unix io - ts))
             then (Inl (401, ''timestamp must be within 60 seconds of server time''), st1) else
             (let key = nonce_key kid ts in
              case (case ad_eab_nonces st1 of
                      None \<Rightarrow> (True, st1)
                    | Some m \<Rightarrow>
                        (case reserve_nonce (li_unix io) key m of (fresh, m1) \<Rightarrow> (fresh, st1\<lparr>ad_eab_nonces := Some m1\<rparr>))) of
                (False, st2) \<Rightarrow> (Inl (401, ''replay detected''), st2)
              | (True, st2) \<Rightarrow> eab_check_and_login lx io kid key signature st2))))"

end
