(* ===== verification/Admin_Operators.thy ===== *)
theory Admin_Operators
  imports Admin_Login
begin

text \<open>
  The error type of the administrative handlers (\<^verbatim>\<open>src/routes/admin/error.rs\<close>) and the handlers that manage
  operators (\<^verbatim>\<open>src/routes/admin/operators.rs\<close>). A request body is given as what parsing it yields; the
  success of taking the lock on the replicated state is the parameter \<open>lock_ok\<close>. Statements fail only
  through a constraint.
\<close>

section \<open>Errors (error.rs)\<close>

datatype admin_api_error =
    AdminBadRequest string
  | AdminForbidden string
  | AdminNotFound string
  | AdminConflict string
  | AdminServiceUnavailable string
  | AdminInternal string
  | AdminDelegate acme_error

definition admin_status :: "admin_api_error \<Rightarrow> nat" where
  "admin_status e = (case e of
       AdminBadRequest _ \<Rightarrow> 400
     | AdminForbidden _ \<Rightarrow> 403
     | AdminNotFound _ \<Rightarrow> 404
     | AdminConflict _ \<Rightarrow> 409
     | AdminServiceUnavailable _ \<Rightarrow> 503
     | AdminInternal _ \<Rightarrow> 500
     | AdminDelegate a \<Rightarrow> http_status a)"

definition admin_error_text :: "admin_api_error \<Rightarrow> string" where
  "admin_error_text e = (case e of
       AdminBadRequest s \<Rightarrow> s
     | AdminForbidden s \<Rightarrow> s
     | AdminNotFound s \<Rightarrow> s
     | AdminConflict s \<Rightarrow> s
     | AdminServiceUnavailable s \<Rightarrow> s
     | AdminInternal s \<Rightarrow> s
     | AdminDelegate a \<Rightarrow> error_message a)"

text \<open>The status and the detail of the response; a delegated error renders itself.\<close>

definition admin_into_response :: "(string \<Rightarrow> bool) \<Rightarrow> admin_api_error \<Rightarrow> nat \<times> string" where
  "admin_into_response header_ok e =
     (case e of
        AdminDelegate a \<Rightarrow>
          (let r = into_response header_ok a in (resp_status r, resp_detail r))
      | _ \<Rightarrow>
          (let status = admin_status e
           in (status, if is_server_error status then ''internal server error'' else admin_error_text e)))"

lemma admin_error_redacted:
  "is_server_error (fst (admin_into_response header_ok e)) \<Longrightarrow>
     snd (admin_into_response header_ok e) = ''internal server error''"
  by (cases e) (simp_all add: admin_into_response_def admin_status_def is_server_error_def into_response_def Let_def
      split: if_splits)

section \<open>Handlers (operators.rs)\<close>

record new_operator_payload =
  nop_name :: string
  nop_role :: string
  nop_cert_fingerprint :: "string option"
  nop_gssapi_principal :: "string option"
  nop_ca_id :: string

record put_operator_payload =
  pop_name :: "string option"
  pop_role :: "string option"
  pop_cert_fingerprint :: "string option"
  pop_gssapi_principal :: "string option"
  pop_ca_id :: "string option"

definition admin_action :: "operator_context \<Rightarrow> string \<Rightarrow> admin_audit" where
  "admin_action c detail = \<lparr>aa_success = True, aa_event = ''AdminAction'', aa_principal = Some (oc_name c),
     aa_detail = detail\<rparr>"

definition operator_roles :: "string list" where
  "operator_roles = [''administrator'', ''ca_operations'', ''ca_ra'', ''auditor'']"

text \<open>
  \<^verbatim>\<open>db::is_unique_constraint_violation\<close> on the driver's text: the text is a parameter, and so is
  the verdict on it.
\<close>

definition insert_error :: "(string \<Rightarrow> bool) \<Rightarrow> acme_error \<Rightarrow> admin_api_error" where
  "insert_error is_unique e =
     (if (case e of Database m \<Rightarrow> is_unique m | _ \<Rightarrow> False)
      then AdminConflict ''operator with this fingerprint or principal already exists''
      else AdminInternal (''post_operators: db error: '' @ error_message e))"

definition post_operators ::
  "sql_texts \<Rightarrow> (string \<Rightarrow> bool) \<Rightarrow> bool \<Rightarrow> (i64 \<Rightarrow> string) \<Rightarrow> i64 \<Rightarrow> operator_context
     \<Rightarrow> string + new_operator_payload \<Rightarrow> admin_state \<Rightarrow> (admin_api_error + i64) \<times> admin_state" where
  "post_operators msg is_unique lock_ok rfc3339 now c body st =
     (case body of
        Inl e \<Rightarrow> (Inl (AdminBadRequest (''invalid JSON: '' @ e)), st)
      | Inr p \<Rightarrow>
          if nop_name p = [] then (Inl (AdminBadRequest ''name is required''), st)
          else if nop_role p \<notin> set operator_roles
          then (Inl (AdminBadRequest ''role must be administrator, ca_operations, ca_ra, or auditor''), st)
          else if nop_cert_fingerprint p = None \<and> nop_gssapi_principal p = None
          then (Inl (AdminBadRequest ''at least one of cert_fingerprint or gssapi_principal is required''), st)
          else if nop_ca_id p \<noteq> [] \<and> nop_ca_id p \<notin> set (ad_cas st)
          then (Inl (AdminBadRequest (''unknown ca_id '' @ quoted (nop_ca_id p))), st)
          else if nop_ca_id p = [] \<and> nop_role p = ''ca_ra''
          then (Inl (AdminBadRequest ''ca_ra operators must have a non-empty ca_id''), st)
          else if (case ca_scope c of Some s \<Rightarrow> nop_ca_id p \<noteq> s | None \<Rightarrow> False)
          then (Inl (AdminForbidden ''CA-scoped operator can only create operators for their own CA''), st)
          else (case operators_insert msg (nop_name p) (nop_role p) (nop_cert_fingerprint p)
                       (nop_gssapi_principal p) (nop_ca_id p) (rfc3339 now) (ad_operators st) of
                  (Inl e, _) \<Rightarrow> (Inl (insert_error is_unique e), st)
                | (Inr _, t) \<Rightarrow>
                    (let st1 = st\<lparr>ad_operators := t\<rparr> in
                     case (case nop_cert_fingerprint p of
                             Some fp \<Rightarrow> operators_get_by_fingerprint fp t
                           | None \<Rightarrow> (case nop_gssapi_principal p of
                                        Some g \<Rightarrow> operators_get_by_principal g t | None \<Rightarrow> None)) of
                       None \<Rightarrow> (Inl (AdminInternal ''post_operators: operator not found after insert''), st1)
                     | Some row \<Rightarrow>
                         (let st2 = admin_record (admin_action c ''operator.create'') st1
                          in (Inr (op_id row),
                              st2\<lparr>ad_app := on_operator_upsert lock_ok (ad_app st2) (op_id row) (nop_name p)
                                     (nop_role p) (nop_ca_id p) now\<rparr>)))))"

text \<open>A scoped operator does not see the operators of another CA.\<close>

definition operator_visible :: "operator_context \<Rightarrow> i64 \<Rightarrow> admin_state \<Rightarrow> bool" where
  "operator_visible c i st =
     (case ca_scope c of
        None \<Rightarrow> True
      | Some s \<Rightarrow> (case operators_get_by_id i (ad_operators st) of Some r \<Rightarrow> op_ca_id r = s | None \<Rightarrow> False))"

definition drop_sessions :: "i64 \<Rightarrow> admin_state \<Rightarrow> admin_state" where
  "drop_sessions i st =
     st\<lparr>ad_sessions := map_option (hm_retain (\<lambda>_ s. se_operator_id s \<noteq> i)) (ad_sessions st)\<rparr>"

definition patch_operator ::
  "bool \<Rightarrow> (i64 \<Rightarrow> string) \<Rightarrow> i64 \<Rightarrow> operator_context \<Rightarrow> i64 \<Rightarrow> string + bool \<Rightarrow> admin_state
     \<Rightarrow> (admin_api_error + unit) \<times> admin_state" where
  "patch_operator lock_ok rfc3339 now c i body st =
     (case body of
        Inl e \<Rightarrow> (Inl (AdminBadRequest (''invalid JSON: '' @ e)), st)
      | Inr active \<Rightarrow>
          if \<not> operator_visible c i st then (Inl (AdminNotFound ''operator not found''), st)
          else (case operators_set_active i active (rfc3339 now) (ad_operators st) of
                  (0, t) \<Rightarrow> (Inl (AdminNotFound ''operator not found''), st\<lparr>ad_operators := t\<rparr>)
                | (_, t) \<Rightarrow>
                    (let st1 = st\<lparr>ad_operators := t\<rparr>;
                         st2 = (if \<not> active then drop_sessions i st1 else st1);
                         st3 = admin_record (admin_action c (if active then ''operator.activate'' else ''operator.deactivate'')) st2
                     in (Inr (), if \<not> active then st3\<lparr>ad_app := on_operator_tombstone lock_ok (ad_app st3) i now\<rparr> else st3))))"

definition unlock_operator ::
  "operator_context \<Rightarrow> i64 \<Rightarrow> admin_state \<Rightarrow> (admin_api_error + unit) \<times> admin_state" where
  "unlock_operator c i st =
     (if \<not> operator_visible c i st then (Inl (AdminNotFound ''operator not found''), st)
      else case operators_unlock i (ad_operators st) of
             (False, t) \<Rightarrow> (Inl (AdminNotFound ''operator not found''), st\<lparr>ad_operators := t\<rparr>)
           | (True, t) \<Rightarrow> (Inr (), admin_record (admin_action c ''operator.unlock'') (st\<lparr>ad_operators := t\<rparr>)))"

definition get_operator :: "operator_context \<Rightarrow> i64 \<Rightarrow> admin_state \<Rightarrow> admin_api_error + operator_row" where
  "get_operator c i st =
     (case operators_get_by_id i (ad_operators st) of
        None \<Rightarrow> Inl (AdminNotFound ''operator not found'')
      | Some r \<Rightarrow>
          (case ca_scope c of
             Some s \<Rightarrow> if op_ca_id r \<noteq> s then Inl (AdminNotFound ''operator not found'') else Inr r
           | None \<Rightarrow> Inr r))"

definition get_operators :: "operator_context \<Rightarrow> i64 option \<Rightarrow> i64 option \<Rightarrow> admin_state \<Rightarrow> operator_row list" where
  "get_operators c limit offset st =
     (let l = max 1 (min 1000 (or_keep limit 1000));
          off = max 0 (or_keep offset 0)
      in case ca_scope c of
           Some s \<Rightarrow> operators_list_by_ca s l off (ad_operators st)
         | None \<Rightarrow> operators_list l off (ad_operators st))"

text \<open>The change of the CA scope that \<^verbatim>\<open>put_operator\<close> makes.\<close>

definition ca_id_update ::
  "operator_context \<Rightarrow> put_operator_payload \<Rightarrow> operator_row \<Rightarrow> admin_state \<Rightarrow> admin_api_error + string option" where
  "ca_id_update c p target st =
     (case pop_ca_id p of
        Some cid \<Rightarrow>
          if (case ca_scope c of Some s \<Rightarrow> cid = [] \<or> cid \<noteq> s | None \<Rightarrow> False)
          then Inl (AdminForbidden ''CA-scoped operator cannot change ca_id outside their own CA'')
          else if cid = [] \<and> or_keep (pop_role p) (op_role target) = ''ca_ra''
          then Inl (AdminBadRequest ''ca_ra operators must have a non-empty ca_id'')
          else if cid \<noteq> [] \<and> cid \<notin> set (ad_cas st) then Inl (AdminBadRequest (''unknown ca_id '' @ quoted cid))
          else Inr (Some cid)
      | None \<Rightarrow>
          if pop_role p = Some ''ca_ra'' then Inl (AdminBadRequest ''ca_id is required when setting role to ca_ra'')
          else if pop_role p \<in> {Some ''administrator'', Some ''auditor''}
          then (if ca_scope c \<noteq> None then Inl (AdminForbidden ''CA-scoped operator cannot clear ca_id'')
                else Inr (Some []))
          else Inr None)"

definition put_operator ::
  "sql_texts \<Rightarrow> (i64 \<Rightarrow> string) \<Rightarrow> i64 \<Rightarrow> operator_context \<Rightarrow> i64 \<Rightarrow> string + put_operator_payload \<Rightarrow> admin_state
     \<Rightarrow> (admin_api_error + unit) \<times> admin_state" where
  "put_operator msg rfc3339 now c i body st =
     (case body of
        Inl e \<Rightarrow> (Inl (AdminBadRequest (''invalid JSON: '' @ e)), st)
      | Inr p \<Rightarrow>
          if (case pop_role p of Some r \<Rightarrow> r \<notin> set operator_roles | None \<Rightarrow> False)
          then (Inl (AdminBadRequest ''role must be administrator, ca_operations, ca_ra, or auditor''), st)
          else (case operators_get_by_id i (ad_operators st) of
                  None \<Rightarrow> (Inl (AdminNotFound ''operator not found''), st)
                | Some target \<Rightarrow>
                    if (case ca_scope c of Some s \<Rightarrow> op_ca_id target \<noteq> s | None \<Rightarrow> False)
                    then (Inl (AdminNotFound ''operator not found''), st)
                    else (case ca_id_update c p target st of
                            Inl e \<Rightarrow> (Inl e, st)
                          | Inr cid \<Rightarrow>
                              (case operators_update msg i
                                      \<lparr>oupd_name = pop_name p, oupd_role = pop_role p,
                                       oupd_cert_fingerprint = pop_cert_fingerprint p,
                                       oupd_gssapi_principal = pop_gssapi_principal p, oupd_ca_id = cid\<rparr>
                                      (rfc3339 now) (ad_operators st) of
                                 (Inl e, t) \<Rightarrow>
                                   (Inl (AdminInternal (''put_operator: db error: '' @ error_message e)), st\<lparr>ad_operators := t\<rparr>)
                               | (Inr False, t) \<Rightarrow> (Inl (AdminNotFound ''operator not found''), st\<lparr>ad_operators := t\<rparr>)
                               | (Inr True, t) \<Rightarrow>
                                   (Inr (), admin_record (admin_action c ''operator.update'')
                                      (drop_sessions i (st\<lparr>ad_operators := t\<rparr>)))))))"

end
