(* ===== verification/Admin_Rbac.thy ===== *)
theory Admin_Rbac
  imports Admin_Login
begin

text \<open>
  Roles and routes of the administrative interface (\<^verbatim>\<open>src/routes/admin/rbac.rs\<close>): the table of routes with
  the roles that may call them and the gate in front of every handler. The handler is the parameter
  \<open>next_handler\<close>, which gets the operator the gate resolved.
\<close>

datatype http_method = GET | POST | PUT | PATCH | DELETE

definition all_roles :: "operator_role list" where
  "all_roles = [Administrator, CaOperations, CaRa, Auditor]"

datatype rbac_route = rbac_route
  (rr_method: http_method) (rr_route_template: string) (rr_example_path: string)
  (rr_allowed_roles: "operator_role list option")

definition session_and_cert_routes :: "rbac_route list" where
  "session_and_cert_routes = [
     rbac_route POST ''/admin/session'' ''/admin/session'' (Some all_roles),
     rbac_route DELETE ''/admin/session'' ''/admin/session'' (Some all_roles),
     rbac_route POST ''/admin/session/eab'' ''/admin/session/eab'' None,
     rbac_route GET ''/admin/stats'' ''/admin/stats'' (Some all_roles),
     rbac_route GET ''/admin/eab'' ''/admin/eab'' (Some all_roles),
     rbac_route POST ''/admin/eab'' ''/admin/eab'' (Some [Administrator, CaOperations]),
     rbac_route GET ''/admin/eab/{kid}'' ''/admin/eab/no-such-kid'' (Some all_roles),
     rbac_route DELETE ''/admin/eab/{kid}'' ''/admin/eab/no-such-kid'' (Some [Administrator, CaOperations]),
     rbac_route GET ''/admin/certs'' ''/admin/certs'' (Some [Administrator, CaOperations, CaRa, Auditor]),
     rbac_route GET ''/admin/certs/{id}'' ''/admin/certs/nonexistent-cert-id'' (Some all_roles),
     rbac_route GET ''/admin/certs/{id}/download'' ''/admin/certs/nonexistent-cert-id/download'' (Some [Administrator, CaOperations, CaRa]),
     rbac_route POST ''/admin/revoke'' ''/admin/revoke'' (Some [Administrator, CaOperations, CaRa])]"

definition profile_and_account_routes :: "rbac_route list" where
  "profile_and_account_routes = [
     rbac_route GET ''/admin/profiles'' ''/admin/profiles'' (Some all_roles),
     rbac_route POST ''/admin/profiles'' ''/admin/profiles'' (Some [Administrator]),
     rbac_route GET ''/admin/profiles/{id}'' ''/admin/profiles/nonexistent-id'' (Some all_roles),
     rbac_route PUT ''/admin/profiles/{id}'' ''/admin/profiles/nonexistent-id'' (Some [Administrator]),
     rbac_route DELETE ''/admin/profiles/{id}'' ''/admin/profiles/nonexistent-id'' (Some [Administrator]),
     rbac_route GET ''/admin/accounts'' ''/admin/accounts'' (Some all_roles),
     rbac_route GET ''/admin/account/{id}'' ''/admin/account/1'' (Some all_roles),
     rbac_route POST ''/admin/account/{id}/deactivate'' ''/admin/account/1/deactivate'' (Some [Administrator]),
     rbac_route GET ''/admin/account/{id}/profile-grants'' ''/admin/account/1/profile-grants'' (Some all_roles),
     rbac_route PUT ''/admin/account/{id}/profile-grants'' ''/admin/account/1/profile-grants'' (Some [Administrator, CaOperations]),
     rbac_route DELETE ''/admin/account/{id}/profile-grants'' ''/admin/account/1/profile-grants'' (Some [Administrator])]"

definition operator_and_order_routes :: "rbac_route list" where
  "operator_and_order_routes = [
     rbac_route GET ''/admin/operators'' ''/admin/operators'' (Some [Administrator]),
     rbac_route POST ''/admin/operators'' ''/admin/operators'' (Some [Administrator]),
     rbac_route GET ''/admin/operators/{id}'' ''/admin/operators/1'' (Some [Administrator]),
     rbac_route PUT ''/admin/operators/{id}'' ''/admin/operators/1'' (Some [Administrator]),
     rbac_route PATCH ''/admin/operators/{id}'' ''/admin/operators/1'' (Some [Administrator]),
     rbac_route POST ''/admin/operators/{id}/unlock'' ''/admin/operators/1/unlock'' (Some [Administrator]),
     rbac_route GET ''/admin/audit'' ''/admin/audit'' (Some [Administrator, Auditor]),
     rbac_route GET ''/admin/orders'' ''/admin/orders'' (Some all_roles),
     rbac_route GET ''/admin/orders/{id}'' ''/admin/orders/nonexistent-order-id'' (Some all_roles),
     rbac_route GET ''/admin/delegations'' ''/admin/delegations'' (Some all_roles),
     rbac_route POST ''/admin/delegations'' ''/admin/delegations'' (Some [Administrator, CaOperations]),
     rbac_route GET ''/admin/delegations/{id}'' ''/admin/delegations/nonexistent-id'' (Some all_roles),
     rbac_route PUT ''/admin/delegations/{id}'' ''/admin/delegations/nonexistent-id'' (Some [Administrator, CaOperations]),
     rbac_route DELETE ''/admin/delegations/{id}'' ''/admin/delegations/nonexistent-id'' (Some [Administrator, CaOperations])]"

definition policy_and_ca_routes :: "rbac_route list" where
  "policy_and_ca_routes = [
     rbac_route GET ''/admin/policy/scopes'' ''/admin/policy/scopes'' (Some [Administrator, CaOperations, Auditor]),
     rbac_route GET ''/admin/policy/rules'' ''/admin/policy/rules'' (Some [Administrator, CaOperations, Auditor]),
     rbac_route POST ''/admin/policy/rules'' ''/admin/policy/rules'' (Some [Administrator, CaOperations]),
     rbac_route GET ''/admin/policy/rules/{id}'' ''/admin/policy/rules/nonexistent-id'' (Some [Administrator, CaOperations, Auditor]),
     rbac_route PUT ''/admin/policy/rules/{id}'' ''/admin/policy/rules/nonexistent-id'' (Some [Administrator, CaOperations]),
     rbac_route DELETE ''/admin/policy/rules/{id}'' ''/admin/policy/rules/nonexistent-id'' (Some [Administrator, CaOperations]),
     rbac_route GET ''/admin/config'' ''/admin/config'' (Some [Administrator]),
     rbac_route POST ''/admin/crl/force'' ''/admin/crl/force'' (Some [Administrator, CaOperations]),
     rbac_route POST ''/admin/tkauth/prune-jti'' ''/admin/tkauth/prune-jti'' (Some [Administrator, CaOperations]),
     rbac_route GET ''/admin/cas'' ''/admin/cas'' (Some [Administrator, CaOperations]),
     rbac_route GET ''/admin/cas/{id}'' ''/admin/cas/default'' (Some [Administrator, CaOperations]),
     rbac_route GET ''/admin/cas/{id}/cert'' ''/admin/cas/default/cert'' (Some [Administrator, CaOperations]),
     rbac_route POST ''/admin/ca/{id}/crl/force'' ''/admin/ca/default/crl/force'' (Some [Administrator, CaOperations]),
     rbac_route POST ''/admin/ca/{id}/cross-sign'' ''/admin/ca/default/cross-sign'' (Some [Administrator, CaOperations]),
     rbac_route GET ''/admin/cross-certs'' ''/admin/cross-certs'' (Some [Administrator, CaOperations, Auditor]),
     rbac_route GET ''/admin/cross-certs/{id}'' ''/admin/cross-certs/nonexistent-id'' (Some [Administrator, CaOperations, Auditor])]"

definition mtc_routes :: "rbac_route list" where
  "mtc_routes = [
     rbac_route GET ''/admin/mtc/tree-size'' ''/admin/mtc/tree-size'' (Some [Administrator, CaOperations, Auditor]),
     rbac_route GET ''/admin/mtc/root'' ''/admin/mtc/root'' (Some [Administrator, CaOperations, Auditor]),
     rbac_route GET ''/admin/mtc/landmarks'' ''/admin/mtc/landmarks'' (Some [Administrator, CaOperations, Auditor]),
     rbac_route GET ''/admin/mtc/landmark-list'' ''/admin/mtc/landmark-list'' (Some [Administrator, CaOperations, Auditor]),
     rbac_route GET ''/admin/mtc/inclusion-proof/{cert_id}'' ''/admin/mtc/inclusion-proof/nonexistent-cert-id'' (Some [Administrator, CaOperations, Auditor]),
     rbac_route GET ''/admin/mtc/standalone/{cert_id}'' ''/admin/mtc/standalone/nonexistent-cert-id'' (Some [Administrator, CaOperations]),
     rbac_route GET ''/admin/mtc/landmarks/{seq}/cert'' ''/admin/mtc/landmarks/0/cert'' (Some [Administrator, CaOperations]),
     rbac_route GET ''/admin/mtc/landmarks/{seq}/cert-details'' ''/admin/mtc/landmarks/0/cert-details'' (Some [Administrator, CaOperations, Auditor]),
     rbac_route GET ''/admin/mtc/consistency-proof'' ''/admin/mtc/consistency-proof'' (Some [Administrator, CaOperations, Auditor]),
     rbac_route GET ''/admin/mtc/subtree-root'' ''/admin/mtc/subtree-root'' (Some [Administrator, CaOperations, Auditor]),
     rbac_route GET ''/admin/mtc/revoked-ranges'' ''/admin/mtc/revoked-ranges'' (Some [Administrator, CaOperations, Auditor]),
     rbac_route GET ''/admin/mtc/checkpoint'' ''/admin/mtc/checkpoint'' (Some [Administrator, CaOperations, Auditor]),
     rbac_route GET ''/admin/mtc/cosignature'' ''/admin/mtc/cosignature'' (Some [Administrator, CaOperations, Auditor])]"

definition force_and_gossip_routes :: "rbac_route list" where
  "force_and_gossip_routes = [
     rbac_route POST ''/admin/ca/{id}/mtc/force-checkpoint'' ''/admin/ca/default/mtc/force-checkpoint'' (Some [Administrator, CaOperations]),
     rbac_route POST ''/admin/ca/{id}/mtc/force-landmark'' ''/admin/ca/default/mtc/force-landmark'' (Some [Administrator, CaOperations]),
     rbac_route GET ''/admin/ca/{id}/mtc/log-list-entry'' ''/admin/ca/default/mtc/log-list-entry'' (Some [Administrator, CaOperations, Auditor]),
     rbac_route GET ''/admin/gossip/status'' ''/admin/gossip/status'' (Some all_roles),
     rbac_route POST ''/admin/gossip/register'' ''/admin/gossip/register'' (Some [Administrator])]"

definition admin_rbac_table :: "rbac_route list" where
  "admin_rbac_table = session_and_cert_routes @ profile_and_account_routes @ operator_and_order_routes @
     policy_and_ca_routes @ mtc_routes @ force_and_gossip_routes"

lemmas route_defs = session_and_cert_routes_def profile_and_account_routes_def operator_and_order_routes_def
  policy_and_ca_routes_def mtc_routes_def force_and_gossip_routes_def all_roles_def

definition find_route :: "http_method \<Rightarrow> string \<Rightarrow> rbac_route option" where
  "find_route m path = find (\<lambda>r. rr_method r = m \<and> rr_route_template r = path) admin_rbac_table"

definition insufficient_role_event :: "operator_role list \<Rightarrow> operator_context \<Rightarrow> admin_audit" where
  "insufficient_role_event allowed c = \<lparr>aa_success = False, aa_event = ''AdminAction'',
     aa_principal = Some (oc_name c),
     aa_detail = ''insufficient role: required '' @ concat (map (\<lambda>r. role_as_str r @ '' '') allowed) @
       ''actual '' @ role_as_str (oc_role c)\<rparr>"

definition admin_rbac_gate ::
  "login_ext \<Rightarrow> login_io \<Rightarrow> http_method \<Rightarrow> string option \<Rightarrow> admin_request
     \<Rightarrow> (operator_context option \<Rightarrow> admin_state \<Rightarrow> 'resp \<times> admin_state)
     \<Rightarrow> admin_state \<Rightarrow> (rejection + 'resp) \<times> admin_state" where
  "admin_rbac_gate lx io m matched_path rq next_handler st =
     (case matched_path of
        None \<Rightarrow> (Inl (403, ''request did not resolve to a known route''), st)
      | Some path \<Rightarrow>
          (case find_route m path of
             None \<Rightarrow> (Inl (403, ''route not covered by RBAC table''), st)
           | Some row \<Rightarrow>
               (case rr_allowed_roles row of
                  None \<Rightarrow> apfst Inr (next_handler None st)
                | Some allowed \<Rightarrow>
                    (case resolve_operator_context lx io rq st of
                       (Inl rej, st1) \<Rightarrow> (Inl rej, st1)
                     | (Inr c, st1) \<Rightarrow>
                         if oc_role c \<notin> set allowed
                         then (Inl (403, ''insufficient role for this operation''),
                               admin_record (insufficient_role_event allowed c) st1)
                         else apfst Inr (next_handler (Some c) st1)))))"

end
