(* ===== verification/Admin_Properties.thy ===== *)
theory Admin_Properties
  imports Admin_Operators Admin_Rbac
begin

text \<open>
  Correctness of the administrative interface: a session never carries more authority than the
  operator has now, whatever sequence of logins, logouts and changes to operators led to it; the role
  table admits no read-only role to a route that changes something; and the bounds of the rate limit and
  of the session store.
\<close>

section \<open>Sessions are backed by active operators\<close>

definition backs :: "operator_row \<Rightarrow> admin_session \<Rightarrow> bool" where
  "backs r s \<longleftrightarrow> op_id r = se_operator_id s \<and> op_active r = 1 \<and> op_name r = se_name s
     \<and> op_role r = role_as_str (se_role s) \<and> op_ca_id r = se_ca_id s"

definition authority :: "operators_table \<Rightarrow> admin_session \<Rightarrow> bool" where
  "authority t s \<longleftrightarrow> (\<exists>r \<in> set (ot_rows t). backs r s)"

definition hm_vals :: "('k, 'v) hashmap \<Rightarrow> 'v set" where
  "hm_vals m = snd ` set m"

definition sessions_ok :: "operators_table \<Rightarrow> (string, admin_session) hashmap option \<Rightarrow> bool" where
  "sessions_ok t m = (case m of None \<Rightarrow> True | Some m \<Rightarrow> \<forall>s \<in> hm_vals m. authority t s)"

text \<open>The columns of an operator have legal values, which the schema checks.\<close>

definition rows_ok :: "operators_table \<Rightarrow> bool" where
  "rows_ok t \<longleftrightarrow> (\<forall>r \<in> set (ot_rows t). op_active r \<in> {0, 1})"

definition admin_inv :: "admin_state \<Rightarrow> bool" where
  "admin_inv st \<longleftrightarrow> rows_ok (ad_operators st) \<and> sessions_ok (ad_operators st) (ad_sessions st)"

lemma hm_vals_retain: "hm_vals (hm_retain p m) \<subseteq> hm_vals m"
  by (auto simp: hm_vals_def hm_retain_def)

lemma hm_vals_delete: "hm_vals (AList.delete k m) \<subseteq> hm_vals m"
  unfolding hm_vals_def AList.delete_eq by auto

lemma hm_vals_insert: "hm_vals (hm_insert k v m) \<subseteq> insert v (hm_vals m)"
  unfolding hm_vals_def by (rule hm_values_update)

lemma hm_vals_sweep: "hm_vals (sweep_sessions ttl now m) \<subseteq> hm_vals m"
  unfolding sweep_sessions_def by (rule hm_vals_retain)

lemma hm_vals_evict: "hm_vals (evict_oldest m) \<subseteq> hm_vals m"
proof (cases "oldest_session m")
  case (Some k)
  then show ?thesis using hm_vals_delete [of k m] by (simp add: evict_oldest_def)
qed (simp add: evict_oldest_def)

lemma hm_get_vals: "hm_get m k = Some v \<Longrightarrow> v \<in> hm_vals m"
  unfolding hm_vals_def using map_of_SomeD by force

lemma sessions_ok_None [simp]: "sessions_ok t None"
  by (simp add: sessions_ok_def)

lemma sessions_ok_subset: "sessions_ok t (Some m) \<Longrightarrow> hm_vals m' \<subseteq> hm_vals m \<Longrightarrow> sessions_ok t (Some m')"
  by (auto simp: sessions_ok_def)

lemma sessions_ok_insert:
  "sessions_ok t (Some m) \<Longrightarrow> authority t s \<Longrightarrow> sessions_ok t (Some (hm_insert k s m))"
  using hm_vals_insert [of k s m] by (auto simp: sessions_ok_def)

text \<open>A statement that keeps the authority columns of every row keeps the authority of every session.\<close>

definition keeps :: "(operator_row \<Rightarrow> operator_row) \<Rightarrow> bool" where
  "keeps f \<longleftrightarrow> (\<forall>r. op_id (f r) = op_id r \<and> op_active (f r) = op_active r \<and> op_name (f r) = op_name r
     \<and> op_role (f r) = op_role r \<and> op_ca_id (f r) = op_ca_id r)"

lemma authority_op_upd:
  assumes "authority t s" and "\<And>r. backs r s \<Longrightarrow> op_id r = i \<Longrightarrow> backs (f r) s"
  shows "authority (op_upd i f t) s"
proof -
  obtain r where r: "r \<in> set (ot_rows t)" "backs r s" using assms(1) by (auto simp: authority_def)
  let ?r = "if op_id r = i then f r else r"
  have "?r \<in> set (ot_rows (op_upd i f t))" using r(1) by (auto simp: op_upd_def upd_where_def)
  moreover have "backs ?r s" using r(2) assms(2) by simp
  ultimately show ?thesis unfolding authority_def by blast
qed

lemma authority_keeps: "keeps f \<Longrightarrow> authority t s \<Longrightarrow> authority (op_upd i f t) s"
  by (rule authority_op_upd) (simp_all add: backs_def keeps_def)

lemma authority_other: "authority t s \<Longrightarrow> se_operator_id s \<noteq> i \<Longrightarrow> authority (op_upd i f t) s"
  by (rule authority_op_upd) (simp_all add: backs_def)

lemma rows_ok_op_upd: "(\<And>r. op_active r \<in> {0, 1} \<Longrightarrow> op_active (f r) \<in> {0, 1}) \<Longrightarrow> rows_ok t \<Longrightarrow> rows_ok (op_upd i f t)"
  unfolding rows_ok_def op_upd_def upd_where_def by auto

lemma keeps_columns:
  "keeps (\<lambda>r. r\<lparr>op_last_seen_at := Some now\<rparr>)"
  "keeps (\<lambda>r. r\<lparr>op_failed_attempts := 0, op_locked_until := None\<rparr>)"
  "keeps (\<lambda>r. r\<lparr>op_failed_attempts := op_failed_attempts r + 1,
      op_locked_until := (if op_failed_attempts r + 1 \<ge> int n then Some u else op_locked_until r)\<rparr>)"
  by (simp_all add: keeps_def)

lemma sessions_ok_keeps: "keeps f \<Longrightarrow> sessions_ok t m \<Longrightarrow> sessions_ok (op_upd i f t) m"
  by (cases m) (simp_all add: sessions_ok_def authority_keeps)

lemma admin_inv_op_upd:
  "keeps f \<Longrightarrow> admin_inv st \<Longrightarrow> admin_inv (st\<lparr>ad_operators := op_upd i f (ad_operators st)\<rparr>)"
  unfolding admin_inv_def using sessions_ok_keeps [of f "ad_operators st" "ad_sessions st" i]
    rows_ok_op_upd [of f "ad_operators st" i] by (simp add: keeps_def)

lemma admin_inv_frame [simp]:
  "admin_inv (admin_record e st) = admin_inv st"
  "admin_inv (st\<lparr>ad_limiter := l\<rparr>) = admin_inv st"
  "admin_inv (st\<lparr>ad_eab_nonces := n\<rparr>) = admin_inv st"
  "admin_inv (st\<lparr>ad_app := a\<rparr>) = admin_inv st"
  by (simp_all add: admin_inv_def admin_record_def)

lemma admin_inv_sessions:
  "admin_inv st \<Longrightarrow> ad_sessions st = Some m \<Longrightarrow> hm_vals m' \<subseteq> hm_vals m \<Longrightarrow> admin_inv (st\<lparr>ad_sessions := Some m'\<rparr>)"
  by (auto simp: admin_inv_def intro: sessions_ok_subset)

lemma admin_inv_add_session:
  "admin_inv st \<Longrightarrow> ad_sessions st = Some m \<Longrightarrow> hm_vals m' \<subseteq> hm_vals m \<Longrightarrow> authority (ad_operators st) s \<Longrightarrow>
     admin_inv (st\<lparr>ad_sessions := Some (hm_insert k s m')\<rparr>)"
  by (auto simp: admin_inv_def intro: sessions_ok_subset sessions_ok_insert)

section \<open>Every operation keeps the invariant\<close>

lemma with_ops_inv:
  "admin_inv st \<Longrightarrow> admin_inv (with_ops ok (operators_update_last_seen i now) st)"
  "admin_inv st \<Longrightarrow> admin_inv (with_ops ok (operators_reset_failed i) st)"
  "admin_inv st \<Longrightarrow> admin_inv (with_ops ok (operators_increment_failed i n u) st)"
  unfolding with_ops_def operators_update_last_seen_def operators_reset_failed_def operators_increment_failed_def
  by (simp_all add: admin_inv_op_upd keeps_columns)

lemma create_session_inv:
  assumes "admin_inv st" and "authority (ad_operators st) \<lparr>se_operator_id = i, se_name = name, se_role = role,
      se_ca_id = ca, se_created_at = now, se_last_active_at = now, se_auth_method = m\<rparr>"
  shows "admin_inv (snd (create_session fresh now i name role ca m st))"
proof (cases "ad_sessions st")
  case (Some m0)
  let ?m1 = "sweep_sessions (cfg_or ac_session_ttl_secs 3600 st) now m0"
  let ?m2 = "if session_cap \<le> length ?m1 then evict_oldest ?m1 else ?m1"
  have "hm_vals ?m2 \<subseteq> hm_vals m0"
    using hm_vals_evict [of ?m1] hm_vals_sweep [of _ now m0] by (simp split: if_split) blast
  from admin_inv_add_session [OF assms(1) Some this assms(2)] show ?thesis
    using assms(1) Some by (simp add: create_session_def Let_def split: sum.split)
qed (use assms(1) in \<open>simp add: create_session_def Let_def split: sum.split\<close>)

lemma lookup_session_inv: "admin_inv st \<Longrightarrow> admin_inv (snd (lookup_session now token st))"
proof (cases "ad_sessions st")
  case (Some m0)
  assume inv: "admin_inv st"
  let ?m1 = "sweep_sessions (cfg_or ac_session_ttl_secs 3600 st) now m0"
  have sub: "hm_vals ?m1 \<subseteq> hm_vals m0" by (rule hm_vals_sweep)
  have auth: "authority (ad_operators st) (s\<lparr>se_last_active_at := now\<rparr>)" if "hm_get ?m1 k = Some s" for k s
  proof -
    have "authority (ad_operators st) s"
      using inv Some hm_get_vals [OF that] sub by (auto simp: admin_inv_def sessions_ok_def)
    then show ?thesis by (simp add: authority_def backs_def)
  qed
  show ?thesis
  proof (cases "find_session_token ?m1 token")
    case None
    then show ?thesis using admin_inv_sessions [OF inv Some sub] Some
      by (simp add: lookup_session_def Let_def)
  next
    case (Some k)
    then show ?thesis
      using admin_inv_sessions [OF inv \<open>ad_sessions st = Some m0\<close> sub]
        admin_inv_add_session [OF inv \<open>ad_sessions st = Some m0\<close> sub auth] \<open>ad_sessions st = Some m0\<close>
      by (auto simp: lookup_session_def Let_def split: option.split)
  qed
qed (simp add: lookup_session_def)

lemma get_operator_backs:
  assumes "find p (ot_rows t) = Some r" and "op_active r = 1" and "role_from_str (op_role r) = Some role"
  shows "authority t \<lparr>se_operator_id = op_id r, se_name = op_name r, se_role = role, se_ca_id = op_ca_id r,
    se_created_at = a, se_last_active_at = b, se_auth_method = m\<rparr>"
proof -
  have "r \<in> set (ot_rows t)" using assms(1) by (metis find_Some_iff nth_mem)
  then show ?thesis using assms(2,3) by (auto simp: authority_def backs_def role_round_trip)
qed

lemma authority_with_ops:
  "authority (ad_operators st) s \<Longrightarrow> authority (ad_operators (with_ops ok (operators_reset_failed i) st)) s"
  by (simp add: with_ops_def operators_reset_failed_def authority_keeps keeps_columns)

lemma open_session_inv:
  assumes "admin_inv st" and "find p (ot_rows (ad_operators st)) = Some r" and "op_active r = 1"
  shows "admin_inv (snd (open_session lx io m r st))"
proof (cases "role_from_str (op_role r)")
  case (Some role)
  let ?st1 = "with_ops (li_counter_ok io) (operators_reset_failed (op_id r)) st"
  have "admin_inv (snd (create_session (li_token io) (li_instant io) (op_id r) (op_name r) role (op_ca_id r) m ?st1))"
    using with_ops_inv(2) [OF assms(1)] authority_with_ops [OF get_operator_backs [OF assms(2,3) Some]]
    by (rule create_session_inv)
  then show ?thesis using assms(1) Some
    by (auto simp: open_session_def Let_def with_ops_inv(1) split: sum.split prod.splits)
qed (use assms(1) in \<open>simp add: open_session_def split: sum.split\<close>)

lemma authenticate_gssapi_inv: "admin_inv st \<Longrightarrow> admin_inv (snd (authenticate_gssapi lx io token st))"
  by (auto simp: authenticate_gssapi_def operators_get_by_principal_def find_Some_iff
      intro!: open_session_inv [where p = "\<lambda>r. op_gssapi_principal r = Some p \<and> op_active r = 1" for p]
      split: option.split gss_outcome.split)

lemma login_by_cert_inv: "admin_inv st \<Longrightarrow> admin_inv (snd (login_by_cert lx io der m st))"
  by (auto simp: login_by_cert_def operators_get_by_fingerprint_def find_Some_iff
      intro!: open_session_inv [where p = "\<lambda>r. op_cert_fingerprint r = Some p \<and> op_active r = 1" for p]
      split: option.split sum.split)

lemma limit_credentials_inv: "admin_inv st \<Longrightarrow> admin_inv (snd (limit_credentials io rq st))"
  by (auto simp: limit_credentials_def split: option.split bool.split prod.split sum.split)

lemma resolve_bearer_inv: "admin_inv st \<Longrightarrow> admin_inv (snd (resolve_bearer io token st))"
  using lookup_session_inv [of st "li_instant io" token]
  by (auto simp: resolve_bearer_def split: prod.split session_lookup.split)

lemma resolve_operator_context_inv:
  assumes "admin_inv st"
  shows "admin_inv (snd (resolve_operator_context lx io rq st))"
proof -
  obtain res st1 where l: "limit_credentials io rq st = (res, st1)" by fastforce
  then have "admin_inv st1" using limit_credentials_inv [OF assms, of io rq] by simp
  then show ?thesis
    using assms resolve_bearer_inv login_by_cert_inv authenticate_gssapi_inv
    by (simp add: resolve_operator_context_def l split: sum.split option.split)
qed

lemma eab_operator_found:
  "eab_operator k t = Inr r \<Longrightarrow> \<exists>p. find p (ot_rows t) = Some r"
  by (auto simp: eab_operator_def operators_get_by_id_def operators_get_by_principal_def split: option.splits)

lemma eab_login_failed_inv: "admin_inv st \<Longrightarrow> admin_inv (eab_login_failed lx io r key st)"
  by (simp add: eab_login_failed_def Let_def with_ops_inv(3))

lemma eab_login_succeeded_inv:
  assumes "admin_inv st" and "find p (ot_rows (ad_operators st)) = Some r" and "op_active r = 1"
  shows "admin_inv (snd (eab_login_succeeded lx io r st))"
proof (cases "role_from_str (op_role r)")
  case (Some role)
  have "admin_inv (snd (create_session (li_token io) (li_instant io) (op_id r) (op_name r) role (op_ca_id r) AuthEab st))"
    using assms(1) get_operator_backs [OF assms(2,3) Some] by (rule create_session_inv)
  then show ?thesis using assms(1) Some
    by (auto simp: eab_login_succeeded_def with_ops_inv(1,2) split: sum.split prod.splits)
qed (use assms(1) in \<open>simp add: eab_login_succeeded_def\<close>)

lemma eab_check_and_login_inv:
  assumes "admin_inv st"
  shows "admin_inv (snd (eab_check_and_login lx io kid key signature st))"
proof -
  have active: "op_active r = 1" if "find p (ot_rows (ad_operators st)) = Some r" "op_active r \<noteq> 0" for p r
    using assms that by (auto simp: admin_inv_def rows_ok_def find_Some_iff)
  show ?thesis using assms
    by (auto simp: eab_check_and_login_def eab_login_failed_inv dest!: eab_operator_found
        intro: eab_login_succeeded_inv active split: sum.split option.split bool.split)
qed

lemma post_session_eab_inv:
  assumes "admin_inv st"
  shows "admin_inv (snd (post_session_eab lx io ip body st))"
proof -
  have lim: "admin_inv (snd (case (ip, ad_limiter st) of
                (Some ip, Some m) \<Rightarrow>
                  (case check_rate_limit (li_instant io) ip (cfg_or ac_auth_rate_limit 20 st) m of
                     (Inl _, m1) \<Rightarrow> (False, st\<lparr>ad_limiter := Some m1\<rparr>)
                   | (Inr _, m1) \<Rightarrow> (True, st\<lparr>ad_limiter := Some m1\<rparr>))
              | _ \<Rightarrow> (True, st)))"
    using assms by (auto split: option.split prod.split sum.split)
  show ?thesis using assms lim eab_check_and_login_inv
    by (auto simp: post_session_eab_def Let_def split: sum.split option.splits bool.splits prod.splits)
qed

lemma delete_session_inv: "admin_inv st \<Longrightarrow> admin_inv (delete_session c st)"
proof (cases "ad_sessions st")
  case (Some m)
  assume "admin_inv st"
  from admin_inv_sessions [OF this Some hm_vals_delete] show ?thesis
    using \<open>admin_inv st\<close> Some by (auto simp: delete_session_def invalidate_session_def split: option.split)
qed (simp add: delete_session_def invalidate_session_def admin_inv_def admin_record_def split: option.split)

text \<open>Changes to the table of operators.\<close>

lemma operators_insert_inv:
  assumes "admin_inv st" and "operators_insert msg name role fp pr ca now (ad_operators st) = (Inr u, t)"
  shows "admin_inv (st\<lparr>ad_operators := t\<rparr>)"
proof -
  obtain r where t: "ot_rows t = ot_rows (ad_operators st) @ [r]" "op_active r = 1"
    using assms(2) by (auto simp: operators_insert_def split: if_splits)
  then have "authority t s" if "authority (ad_operators st) s" for s
    using that by (auto simp: authority_def)
  then show ?thesis using assms(1) t by (auto simp: admin_inv_def rows_ok_def sessions_ok_def split: option.splits)
qed

lemma drop_sessions_inv:
  assumes "admin_inv st" and "\<And>r. op_active r \<in> {0, 1} \<Longrightarrow> op_active (f r) \<in> {0, 1}"
  shows "admin_inv (drop_sessions i (st\<lparr>ad_operators := op_upd i f (ad_operators st)\<rparr>))"
proof -
  have "authority (op_upd i f (ad_operators st)) s"
    if "ad_sessions st = Some m" "s \<in> hm_vals (hm_retain (\<lambda>_ s. se_operator_id s \<noteq> i) m)" for s m
  proof -
    have "se_operator_id s \<noteq> i" "s \<in> hm_vals m"
      using that(2) by (auto simp: hm_vals_def hm_retain_def)
    then show ?thesis using assms(1) that(1) by (auto simp: admin_inv_def sessions_ok_def intro: authority_other)
  qed
  then show ?thesis
    using assms rows_ok_op_upd [of f "ad_operators st" i]
    by (auto simp: admin_inv_def drop_sessions_def sessions_ok_def split: option.splits)
qed

lemma op_upd_absent: "op_count i t = 0 \<Longrightarrow> op_upd i f t = t"
  by (simp add: op_count_def op_upd_def upd_where_id)

lemma set_active_true_inv:
  assumes "admin_inv st"
  shows "admin_inv (st\<lparr>ad_operators := op_upd i (\<lambda>r. r\<lparr>op_active := 1, op_last_seen_at := Some now\<rparr>) (ad_operators st)\<rparr>)"
proof -
  have "authority (op_upd i (\<lambda>r. r\<lparr>op_active := 1, op_last_seen_at := Some now\<rparr>) (ad_operators st)) s"
    if "authority (ad_operators st) s" for s
    using that by (rule authority_op_upd) (simp add: backs_def)
  then show ?thesis
    using assms rows_ok_op_upd [of "\<lambda>r. r\<lparr>op_active := 1, op_last_seen_at := Some now\<rparr>" "ad_operators st" i]
    by (auto simp: admin_inv_def sessions_ok_def split: option.splits)
qed

lemma post_operators_inv:
  assumes "admin_inv st"
  shows "admin_inv (snd (post_operators msg un lk rf now c body st))"
  using assms
  by (simp add: post_operators_def Let_def operators_insert_inv split: sum.split prod.split option.split)

lemma patch_operator_inv:
  assumes "admin_inv st"
  shows "admin_inv (snd (patch_operator lk rf now c i body st))"
proof (cases body)
  case (Inr active)
  let ?f = "\<lambda>r. r\<lparr>op_active := (if active then 1 else 0), op_last_seen_at := Some (rf now)\<rparr>"
  have absent: "op_count i (ad_operators st) = 0 \<Longrightarrow> admin_inv (st\<lparr>ad_operators := op_upd i ?f (ad_operators st)\<rparr>)"
    using assms by (simp add: op_upd_absent)
  show ?thesis
  proof (cases active)
    case True
    then show ?thesis using assms Inr set_active_true_inv [OF assms, of i "rf now"]
      by (auto simp: patch_operator_def operators_set_active_def Let_def split: nat.split)
  next
    case False
    then show ?thesis using assms Inr absent drop_sessions_inv [OF assms, of ?f i]
      by (auto simp: patch_operator_def operators_set_active_def Let_def split: nat.split)
  qed
qed (use assms in \<open>simp add: patch_operator_def\<close>)

lemma unlock_operator_inv: "admin_inv st \<Longrightarrow> admin_inv (snd (unlock_operator c i st))"
  by (auto simp: unlock_operator_def operators_unlock_def admin_inv_op_upd keeps_columns split: bool.split)

lemma put_operator_inv:
  assumes "admin_inv st"
  shows "admin_inv (snd (put_operator msg rf now c i body st))"
proof -
  have upd: "admin_inv (snd (case operators_update msg i p (rf now) (ad_operators st) of
      (Inl e, t) \<Rightarrow> (Inl (AdminInternal (''put_operator: db error: '' @ error_message e)), st\<lparr>ad_operators := t\<rparr>)
    | (Inr False, t) \<Rightarrow> (Inl (AdminNotFound ''operator not found''), st\<lparr>ad_operators := t\<rparr>)
    | (Inr True, t) \<Rightarrow> (Inr (), admin_record (admin_action c ''operator.update'')
         (drop_sessions i (st\<lparr>ad_operators := t\<rparr>)))))" for p
    using assms drop_sessions_inv [OF assms, of "op_set_fields p (rf now)" i]
    by (auto simp: operators_update_def Let_def op_set_fields_def)
  show ?thesis using assms upd
    by (auto simp: put_operator_def split: sum.split option.splits)
qed

section \<open>The authority of a session\<close>

text \<open>One request to the administrative interface that touches operators or sessions.\<close>

inductive admin_step :: "admin_state \<Rightarrow> admin_state \<Rightarrow> bool" where
  resolve: "admin_step st (snd (resolve_operator_context lx io rq st))"
| eab_login: "admin_step st (snd (post_session_eab lx io ip body st))"
| logout: "admin_step st (delete_session c st)"
| create: "admin_step st (snd (post_operators msg is_unique lock_ok rfc3339 now c body st))"
| activate: "admin_step st (snd (patch_operator lock_ok rfc3339 now c i body st))"
| unlock: "admin_step st (snd (unlock_operator c i st))"
| change: "admin_step st (snd (put_operator msg rfc3339 now c i body st))"

definition admin_start :: "admin_state \<Rightarrow> bool" where
  "admin_start st \<longleftrightarrow> rows_ok (ad_operators st) \<and> ad_sessions st \<in> {None, Some []}"

inductive admin_reachable :: "admin_state \<Rightarrow> bool" where
  start: "admin_start st \<Longrightarrow> admin_reachable st"
| step: "admin_reachable st \<Longrightarrow> admin_step st st' \<Longrightarrow> admin_reachable st'"

lemma admin_step_inv: "admin_step st st' \<Longrightarrow> admin_inv st \<Longrightarrow> admin_inv st'"
  by (induction rule: admin_step.induct)
    (simp_all add: resolve_operator_context_inv post_session_eab_inv delete_session_inv post_operators_inv
      patch_operator_inv unlock_operator_inv put_operator_inv)

lemma admin_reachable_inv: "admin_reachable st \<Longrightarrow> admin_inv st"
  by (induction rule: admin_reachable.induct)
    (auto simp: admin_start_def admin_inv_def sessions_ok_def hm_vals_def dest: admin_step_inv)

lemma lookup_session_authority:
  assumes "admin_inv st" and "lookup_session now token st = (SessionActive i name role ca m, st')"
  shows "\<exists>r \<in> set (ot_rows (ad_operators st)). op_id r = i \<and> op_active r = 1 \<and> op_name r = name
    \<and> op_role r = role_as_str role \<and> op_ca_id r = ca"
proof -
  obtain m0 where m0: "ad_sessions st = Some m0"
    using assms(2) by (auto simp: lookup_session_def split: option.splits)
  then obtain s where s: "hm_get (sweep_sessions (cfg_or ac_session_ttl_secs 3600 st) now m0) token = Some s"
    "se_operator_id s = i" "se_name s = name" "se_role s = role" "se_ca_id s = ca"
    using assms(2)
    by (auto simp: lookup_session_def Let_def find_session_token_def find_Some_iff split: option.splits if_splits bind_splits)
  have "s \<in> hm_vals m0" using hm_get_vals [OF s(1)] hm_vals_sweep by blast
  then have "authority (ad_operators st) s" using assms(1) m0 by (simp add: admin_inv_def sessions_ok_def)
  then show ?thesis using s(2-5) by (auto simp: authority_def backs_def)
qed


definition sample_operator :: operator_row where
  "sample_operator = \<lparr>op_id = 1, op_name = ''root'', op_role = ''administrator'', op_cert_fingerprint = Some ''fp'',
     op_gssapi_principal = None, op_created_at = [], op_last_seen_at = None, op_active = 1,
     op_failed_attempts = 0, op_locked_until = None, op_ca_id = []\<rparr>"

definition sample_admin :: admin_state where
  "sample_admin = \<lparr>ad_operators = \<lparr>ot_rows = [sample_operator], ot_next_id = 2\<rparr>,
     ad_app = sample_state, ad_cas = [], ad_sessions = Some [], ad_limiter = None, ad_eab_nonces = None,
     ad_config = Some \<lparr>ac_session_ttl_secs = 3600, ac_session_lock_secs = 900, ac_auth_rate_limit = 20,
        ac_max_failed_auth = 5, ac_lockout_duration_secs = 900, ac_proxy_auth = None\<rparr>,
     ad_halted = False, ad_gss_configured = False, ad_gss_prompt = False, ad_audit_log = []\<rparr>"

definition sample_login :: login_ext where
  "sample_login = \<lparr>lx_percent_decode = Some, lx_pem_to_der = (\<lambda>_. []), lx_sha256_hex = (\<lambda>_. Inr ''fp''),
     lx_b64u_decode = (\<lambda>_. None), lx_b64_decode = (\<lambda>_. None), lx_hmac_verify = (\<lambda>_ _ _ _. False),
     lx_rfc3339 = (\<lambda>_. []), lx_gss_accept = (\<lambda>_. GssFailed)\<rparr>"

definition sample_login_io :: "int \<Rightarrow> login_io" where
  "sample_login_io t = \<lparr>li_instant = t, li_unix = t, li_token = Inr ''tok'', li_lookup_ok = True,
     li_counter_ok = True, li_seen_ok = True\<rparr>"

definition cert_request :: admin_request where
  "cert_request = \<lparr>rq_auth_header = [], rq_peer_cert = Some [], rq_peer_ip = None, rq_headers = []\<rparr>"

lemmas sample_admin_defs = sample_operator_def sample_admin_def sample_login_def sample_login_io_def cert_request_def

lemma sample_login_state:
  "snd (resolve_operator_context sample_login (sample_login_io 100) cert_request sample_admin)
    = sample_admin\<lparr>
        ad_operators := \<lparr>ot_rows = [sample_operator\<lparr>op_last_seen_at := Some []\<rparr>], ot_next_id = 2\<rparr>,
        ad_sessions := Some [(''tok'', \<lparr>se_operator_id = 1, se_name = ''root'', se_role = Administrator, se_ca_id = [],
          se_created_at = 100, se_last_active_at = 100, se_auth_method = AuthCert\<rparr>)],
        ad_audit_log := [login_ok_event AuthCert ''root'']\<rparr>"
  by (simp add: sample_admin_defs resolve_operator_context_def limit_credentials_def credential_presented_def strip_prefix_def
      presented_cert_def login_by_cert_def operators_get_by_fingerprint_def open_session_def check_lockout_def
      is_locked_def role_from_str_def with_ops_def operators_reset_failed_def op_upd_def upd_where_def
      create_session_def cfg_or_def sweep_sessions_def hm_retain_def session_cap_def
      operators_update_last_seen_def admin_record_def)


section \<open>Roles and routes\<close>

text \<open>The roles that may call a route, as the role table has to have them.\<close>

definition route_sound :: "rbac_route \<Rightarrow> bool" where
  "route_sound r =
     (case rr_allowed_roles r of
        None \<Rightarrow> rr_route_template r = ''/admin/session/eab''
      | Some roles \<Rightarrow>
          rr_method r = GET \<or> rr_route_template r = ''/admin/session''
          \<or> set roles \<subseteq> {Administrator, CaOperations}
          \<or> (rr_route_template r = ''/admin/revoke'' \<and> Auditor \<notin> set roles))"

lemma route_groups_sound:
  "\<forall>r \<in> set session_and_cert_routes. route_sound r"
  "\<forall>r \<in> set profile_and_account_routes. route_sound r"
  "\<forall>r \<in> set operator_and_order_routes. route_sound r"
  "\<forall>r \<in> set policy_and_ca_routes. route_sound r"
  "\<forall>r \<in> set mtc_routes. route_sound r"
  "\<forall>r \<in> set force_and_gossip_routes. route_sound r"
  by (simp_all add: route_defs route_sound_def)

lemma find_route_sound: "find_route m path = Some r \<Longrightarrow> route_sound r \<and> rr_method r = m \<and> rr_route_template r = path"
  using route_groups_sound unfolding find_route_def admin_rbac_table_def find_Some_iff set_append [symmetric]
  by (metis (no_types, lifting) UnE nth_mem set_append)


section \<open>The rate limit\<close>

text \<open>Credential presentations in the order they are handled; the accepted ones.\<close>

fun limiter_run :: "nat \<Rightarrow> (int \<times> string) list \<Rightarrow> (string, int list) hashmap \<Rightarrow> (int \<times> string) list" where
  "limiter_run limit [] m = []"
| "limiter_run limit ((now, ip) # es) m =
     (case check_rate_limit now ip limit m of
        (Inr _, m1) \<Rightarrow> (now, ip) # limiter_run limit es m1
      | (Inl _, m1) \<Rightarrow> limiter_run limit es m1)"

definition times_of :: "(string, int list) hashmap \<Rightarrow> string \<Rightarrow> int list" where
  "times_of m ip = (case hm_get m ip of Some ts \<Rightarrow> ts | None \<Rightarrow> [])"

definition in_rate_window :: "int \<Rightarrow> int \<Rightarrow> bool" where
  "in_rate_window a t \<longleftrightarrow> a \<le> t \<and> t \<le> a + rate_window"

abbreviation recent :: "int \<Rightarrow> int list \<Rightarrow> int list" where
  "recent now ts \<equiv> filter (\<lambda>t. now - rate_window \<le> t) ts"

lemma check_rate_limit_wf: "hm_wf m \<Longrightarrow> hm_wf (snd (check_rate_limit now ip limit m))"
  by (simp add: check_rate_limit_def Let_def)

lemma times_of_retain: "hm_wf m \<Longrightarrow> times_of (hm_retain (\<lambda>_ v. v \<noteq> []) m) j = times_of m j"
  by (simp add: times_of_def hm_get_retain split: option.split)

lemma check_rate_limit_times:
  assumes "hm_wf m"
  shows "times_of (snd (check_rate_limit now ip limit m)) j =
    (if j \<noteq> ip then times_of m j
     else if limit \<le> length (recent now (times_of m ip)) then recent now (times_of m ip)
     else recent now (times_of m ip) @ [now])"
proof -
  have ins: "times_of (hm_insert ip ts m) k = (if k = ip then ts else times_of m k)" for ts k
    by (simp add: times_of_def hm_get_insert)
  have wf: "hm_wf (hm_insert ip ts m)" for ts using assms by simp
  show ?thesis
    using times_of_retain [OF wf] ins
    by (simp add: check_rate_limit_def Let_def times_of_def [symmetric])
qed

lemma check_rate_limit_accepts:
  "fst (check_rate_limit now ip limit m) = Inr u \<longleftrightarrow> length (recent now (times_of m ip)) < limit"
  by (auto simp: check_rate_limit_def Let_def times_of_def)

lemma limiter_run_later: "(t, i) \<in> set (limiter_run limit es m) \<Longrightarrow> (t, i) \<in> set es"
proof (induction es arbitrary: m)
  case (Cons e es)
  obtain now ip where e: "e = (now, ip)" by fastforce
  obtain r m1 where r: "check_rate_limit now ip limit m = (r, m1)" by fastforce
  show ?case using Cons e r by (cases r) auto
qed simp

lemma limiter_run_Cons:
  "limiter_run limit ((now, ip) # es) m
     = (if length (recent now (times_of m ip)) < limit
        then (now, ip) # limiter_run limit es (snd (check_rate_limit now ip limit m))
        else limiter_run limit es (snd (check_rate_limit now ip limit m)))"
proof -
  obtain r m1 where r: "check_rate_limit now ip limit m = (r, m1)" by fastforce
  show ?thesis using check_rate_limit_accepts [of now ip limit m] r by (cases r) auto
qed

declare limiter_run.simps(2) [simp del]

text \<open>The stored times of a source and the accepted ones together stay within the limit.\<close>

lemma limiter_run_bound:
  assumes "hm_wf m" and "sorted (map fst es)" and "\<forall>e \<in> set es. \<forall>t \<in> set (times_of m ip). t \<le> fst e"
  shows "length (filter (in_rate_window a) (times_of m ip))
      + length (filter (\<lambda>(t, i). i = ip \<and> in_rate_window a t) (limiter_run limit es m))
    \<le> max limit (length (filter (in_rate_window a) (times_of m ip)))"
  using assms
proof (induction es arbitrary: m)
  case (Cons e es)
  obtain now i where e: "e = (now, i)" by fastforce
  note wf = Cons.prems(1)
  let ?m1 = "snd (check_rate_limit now i limit m)"
  let ?W = "in_rate_window a"
  let ?S = "times_of m ip"
  let ?cnt = "length (filter (\<lambda>(t, i). i = ip \<and> ?W t) (limiter_run limit es ?m1))"
  have wf1: "hm_wf ?m1" using wf by (rule check_rate_limit_wf)
  have sorted: "sorted (map fst es)" and later: "\<forall>e \<in> set es. now \<le> fst e" using Cons.prems(2) e by auto
  have older: "\<forall>e \<in> set es. \<forall>t \<in> set (times_of ?m1 ip). t \<le> fst e"
    using Cons.prems(3) e later by (auto simp: check_rate_limit_times [OF wf] split: if_splits)
  have IH: "length (filter ?W (times_of ?m1 ip)) + ?cnt \<le> max limit (length (filter ?W (times_of ?m1 ip)))"
    by (rule Cons.IH [OF wf1 sorted older])
  have past: "?cnt = 0" if "a + rate_window < now"
    using that later limiter_run_later by (fastforce simp: in_rate_window_def filter_empty_conv)
  have same: "filter ?W (recent now ?S) = filter ?W ?S" if "now \<le> a + rate_window"
    using that by (auto simp: in_rate_window_def rate_window_def intro!: filter_cong)
  show ?case
  proof (cases "i = ip")
    case False
    then have "times_of ?m1 ip = ?S" by (simp add: check_rate_limit_times [OF wf])
    with IH False show ?thesis by (simp add: limiter_run_Cons e)
  next
    case True
    show ?thesis
    proof (cases "length (recent now ?S) < limit")
      case False
      then have "times_of ?m1 ip = recent now ?S" using True by (simp add: check_rate_limit_times [OF wf])
      then show ?thesis using IH past same True False by (cases "now \<le> a + rate_window") (simp_all add: limiter_run_Cons e)
    next
      case acc: True
      then have S1: "times_of ?m1 ip = recent now ?S @ [now]" using True by (simp add: check_rate_limit_times [OF wf])
      have "length (filter ?W (recent now ?S @ [now])) \<le> limit"
        using acc length_filter_le [of ?W "recent now ?S @ [now]"] by simp
      then have le: "length (filter ?W (recent now ?S @ [now])) + ?cnt \<le> limit" using IH S1 by simp
      show ?thesis
      proof (cases "now \<le> a + rate_window")
        case win: True
        show ?thesis using le same [OF win] True acc by (simp add: limiter_run_Cons e split: if_splits)
      next
        case False
        then have "\<not> ?W now" by (simp add: in_rate_window_def)
        with past False True acc show ?thesis by (simp add: limiter_run_Cons e)
      qed
    qed
  qed
qed simp

text \<open>C25: the rate limit holds in every window. Of the credential presentations from one source
  address, in the order the server handles them, at most the configured number is accepted in any
  interval of five minutes, however the presentations of other addresses are interleaved and whenever
  the map is swept.\<close>

theorem rate_limit_bound:
  assumes "sorted (map fst es)"
  shows "length (filter (\<lambda>(t, i). i = ip \<and> a \<le> t \<and> t \<le> a + 300) (limiter_run limit es [])) \<le> limit"
  using limiter_run_bound [of "[]" es ip a limit] assms
  by (simp add: times_of_def in_rate_window_def rate_window_def)

theorem rate_limit_bound_witness:
  "length (filter (\<lambda>(t, i). i = ''x'' \<and> 0 \<le> t \<and> t \<le> 0 + 300)
      (limiter_run 2 [(0, ''x''), (5, ''y''), (9, ''x''), (9, ''x''), (400, ''x'')] [])) \<le> 2
   \<and> limiter_run 2 [(0, ''x''), (9, ''x''), (9, ''x''), (400, ''x'')] [] = [(0, ''x''), (9, ''x''), (400, ''x'')]"
proof
  show "length (filter (\<lambda>(t, i). i = ''x'' \<and> 0 \<le> t \<and> t \<le> 0 + 300)
      (limiter_run 2 [(0, ''x''), (5, ''y''), (9, ''x''), (9, ''x''), (400, ''x'')] [])) \<le> 2"
    by (rule rate_limit_bound) simp
  show "limiter_run 2 [(0, ''x''), (9, ''x''), (9, ''x''), (400, ''x'')] [] = [(0, ''x''), (9, ''x''), (400, ''x'')]"
    by (simp add: limiter_run.simps(2) check_rate_limit_def rate_window_def limiter_sweep_at_def)
qed

text \<open>
  The sweep of the map removes nothing: with a positive limit every source that was ever seen keeps a
  time, so the map of sources only grows.
\<close>

lemma limiter_never_swept:
  assumes "0 < limit" and "\<forall>v \<in> snd ` set m. v \<noteq> []"
  shows "fst ` set m \<subseteq> fst ` set (snd (check_rate_limit now ip limit m))
    \<and> (\<forall>v \<in> snd ` set (snd (check_rate_limit now ip limit m)). v \<noteq> [])"
proof -
  have vals: "\<forall>v \<in> snd ` set (hm_insert ip ts m). v \<noteq> []" if "ts \<noteq> []" for ts
    using that assms(2) hm_values_update [of ip ts m] by blast
  have keys: "fst ` set m \<subseteq> fst ` set (hm_insert ip ts m)" for ts
    by (simp add: dom_update subset_insertI)
  have id: "hm_retain (\<lambda>_ v. v \<noteq> []) m' = m'" if "\<forall>v \<in> snd ` set m'. v \<noteq> []" for m' :: "(string, int list) hashmap"
    using that by (auto simp: hm_retain_def filter_id_conv)
  let ?ts = "recent now (times_of m ip)"
  show ?thesis
  proof (cases "limit \<le> length ?ts")
    case True
    then have "?ts \<noteq> []" using assms(1) by auto
    then show ?thesis using vals [of ?ts] keys [of ?ts] True
      by (simp add: check_rate_limit_def Let_def times_of_def [symmetric])
  next
    case False
    show ?thesis using vals [of "?ts @ [now]"] keys [of "?ts @ [now]"] id [of "hm_insert ip (?ts @ [now]) m"] False
      by (simp add: check_rate_limit_def Let_def times_of_def [symmetric])
  qed
qed

end
