(* ===== verification/Policy_Engine.thy ===== *)
theory Policy_Engine
  imports Json_Value "HOL-Library.Multiset"
begin

text \<open>
  The issuance policy of the crate \<^verbatim>\<open>akamu-policy\<close>: rule configurations and their translation into
  rules of the attribute-based access control library \<^verbatim>\<open>abac-rs\<close> (\<^verbatim>\<open>config.rs\<close>), the matchers the
  crate plugs into that library (\<^verbatim>\<open>matcher.rs\<close>), the request builder (\<^verbatim>\<open>request.rs\<close>) and the engine
  (\<^verbatim>\<open>engine.rs\<close>). The library itself, regular expressions, globs, timestamps, version 5 UUIDs and the
  LRU cache are the record of parameters \<open>policy_ext\<close>.
\<close>

section \<open>Rule configurations (config.rs, dimension.rs, compat.rs)\<close>

datatype policy_mode = Shadow | Enforce

datatype rule_type_config = Allow | Deny

record policy_rule_config =
  prc_name :: string
  prc_rule_type :: rule_type_config
  prc_profile :: "string list option"
  prc_ca :: "string list option"
  prc_account :: "string list option"
  prc_account_group :: "string list option"
  prc_identifier :: "string list option"
  prc_key_type :: "string list option"
  prc_valid_from :: "string option"
  prc_valid_until :: "string option"
  prc_enabled :: "bool option"

definition policy_rule_default :: policy_rule_config where
  "policy_rule_default = \<lparr>prc_name = [], prc_rule_type = Allow, prc_profile = None, prc_ca = None,
     prc_account = None, prc_account_group = None, prc_identifier = None, prc_key_type = None,
     prc_valid_from = None, prc_valid_until = None, prc_enabled = None\<rparr>"

definition dim_account :: string where "dim_account = ''account''"
definition dim_account_group :: string where "dim_account_group = ''account_group''"
definition dim_profile :: string where "dim_profile = ''profile''"
definition dim_ca :: string where "dim_ca = ''ca''"
definition dim_identifier :: string where "dim_identifier = ''identifier''"
definition dim_key_type :: string where "dim_key_type = ''key_type''"

lemmas dim_defs = dim_account_def dim_account_group_def dim_profile_def dim_ca_def
  dim_identifier_def dim_key_type_def

datatype policy_error =
    RequestError string | PolicyError string | InvalidRule string | RegexError string
  | TemporalError string | ValidationError string

text \<open>The reading of a configuration from JSON and its writing, as derived for the structure.\<close>

definition rule_type_of_json :: "json \<Rightarrow> rule_type_config option" where
  "rule_type_of_json v =
     (if v = JString ''allow'' then Some Allow else if v = JString ''deny'' then Some Deny else None)"

definition rule_type_to_json :: "rule_type_config \<Rightarrow> json" where
  "rule_type_to_json t = (case t of Allow \<Rightarrow> JString ''allow'' | Deny \<Rightarrow> JString ''deny'')"

definition json_as_bool :: "json \<Rightarrow> bool option" where
  "json_as_bool v = (case v of JBool b \<Rightarrow> Some b | _ \<Rightarrow> None)"

definition policy_rule_of_json :: "json \<Rightarrow> policy_rule_config option" where
  "policy_rule_of_json v =
     (if \<not> json_is_object v then None
      else Option.bind (Option.bind (json_get ''name'' v) json_as_str) (\<lambda>name.
       Option.bind (Option.bind (json_get ''type'' v) rule_type_of_json) (\<lambda>rule_type.
       Option.bind (json_opt_field json_string_list ''profile'' v) (\<lambda>profile.
       Option.bind (json_opt_field json_string_list ''ca'' v) (\<lambda>ca.
       Option.bind (json_opt_field json_string_list ''account'' v) (\<lambda>account.
       Option.bind (json_opt_field json_string_list ''account_group'' v) (\<lambda>account_group.
       Option.bind (json_opt_field json_string_list ''identifier'' v) (\<lambda>identifier.
       Option.bind (json_opt_field json_string_list ''key_type'' v) (\<lambda>key_type.
       Option.bind (json_opt_field json_as_str ''valid_from'' v) (\<lambda>valid_from.
       Option.bind (json_opt_field json_as_str ''valid_until'' v) (\<lambda>valid_until.
       Option.bind (json_opt_field json_as_bool ''enabled'' v) (\<lambda>enabled.
         Some \<lparr>prc_name = name, prc_rule_type = rule_type, prc_profile = profile, prc_ca = ca,
           prc_account = account, prc_account_group = account_group, prc_identifier = identifier,
           prc_key_type = key_type, prc_valid_from = valid_from, prc_valid_until = valid_until,
           prc_enabled = enabled\<rparr>))))))))))))"

definition policy_rule_to_json :: "policy_rule_config \<Rightarrow> json" where
  "policy_rule_to_json c = JObject
     [(''name'', JString (prc_name c)), (''type'', rule_type_to_json (prc_rule_type c)),
      (''profile'', json_of_opt json_of_strings (prc_profile c)),
      (''ca'', json_of_opt json_of_strings (prc_ca c)),
      (''account'', json_of_opt json_of_strings (prc_account c)),
      (''account_group'', json_of_opt json_of_strings (prc_account_group c)),
      (''identifier'', json_of_opt json_of_strings (prc_identifier c)),
      (''key_type'', json_of_opt json_of_strings (prc_key_type c)),
      (''valid_from'', json_of_opt JString (prc_valid_from c)),
      (''valid_until'', json_of_opt JString (prc_valid_until c)),
      (''enabled'', json_of_opt JBool (prc_enabled c))]"

section \<open>The access control library\<close>

datatype attribute_type = AttrString string | AttrOther

datatype attribute_value = AttrAll | AttrSpecific "attribute_type list"

text \<open>A rule as it is handed to the library: what the builder was called with.\<close>

record abac_rule =
  ar_name :: string
  ar_deny :: bool
  ar_enabled :: bool
  ar_id :: string
  ar_dimensions :: "(string \<times> attribute_type list) list"

record temporal_rule =
  tr_rule :: abac_rule
  tr_from :: "u64 option"
  tr_until :: "u64 option"

datatype abac_rule_kind = Regular abac_rule | Temporal temporal_rule

datatype decision = AllowDecision | DenyDecision

record explained_decision =
  ed_decision :: decision
  ed_matched_rules :: "string list"

type_synonym matcher = "attribute_value \<Rightarrow> attribute_type \<Rightarrow> attribute_type list \<Rightarrow> bool"

record 'q policy_ext =
  px_regex :: "string \<Rightarrow> string + (string \<Rightarrow> bool)"           \<comment> \<open>compile a pattern\<close>
  px_glob :: "string \<Rightarrow> string \<Rightarrow> bool"
  px_rfc3339 :: "string \<Rightarrow> string + int \<times> nat"                 \<comment> \<open>seconds and milliseconds\<close>
  px_uuid_v5 :: "string \<Rightarrow> string \<Rightarrow> string"
  px_temporal :: "abac_rule \<Rightarrow> u64 option \<Rightarrow> u64 option \<Rightarrow> string + unit"
  px_build :: "abac_rule list \<Rightarrow> temporal_rule list \<Rightarrow> string + unit"
  px_new_request :: "'q"
  px_add_attribute :: "'q \<Rightarrow> string \<Rightarrow> attribute_type \<Rightarrow> attribute_type list \<Rightarrow> string + 'q"
  px_evaluate :: "(string \<times> matcher) list \<Rightarrow> abac_rule list \<Rightarrow> temporal_rule list \<Rightarrow> 'q \<Rightarrow> explained_decision"

section \<open>Matchers (matcher.rs)\<close>

definition max_regex_pattern_len :: nat where "max_regex_pattern_len = 1024"
definition max_regex_patterns_per_dim :: nat where "max_regex_patterns_per_dim = 64"

definition anchored :: "string \<Rightarrow> string" where
  "anchored pattern =
     (if pattern \<noteq> [] \<and> hd pattern = CHR ''^'' \<and> last pattern = CHR ''$'' then pattern
      else ''^(?:'' @ pattern @ '')$'')"

text \<open>
  The cache of compiled patterns, with the operations of the LRU cache as parameters: \<open>lru_get\<close> may
  reorder the cache and \<open>lru_put\<close> may evict entries.
\<close>

record ('c, 'v) lru_ops =
  lru_get :: "'c \<Rightarrow> string \<Rightarrow> 'v option \<times> 'c"
  lru_put :: "'c \<Rightarrow> string \<Rightarrow> 'v \<Rightarrow> 'c"

definition get_or_compile ::
  "('c, string \<Rightarrow> bool) lru_ops \<Rightarrow> 'q policy_ext \<Rightarrow> string \<Rightarrow> 'c \<Rightarrow> (string \<Rightarrow> bool) option \<times> 'c" where
  "get_or_compile lru px pattern cache =
     (case lru_get lru cache pattern of
        (Some re, cache1) \<Rightarrow> (Some re, cache1)
      | (None, cache1) \<Rightarrow>
          (case px_regex px (anchored pattern) of
             Inr re \<Rightarrow> (Some re, lru_put lru cache1 pattern re)
           | Inl _ \<Rightarrow> (None, cache1)))"

fun regex_any ::
  "('c, string \<Rightarrow> bool) lru_ops \<Rightarrow> 'q policy_ext \<Rightarrow> attribute_type list \<Rightarrow> string \<Rightarrow> 'c \<Rightarrow> bool \<times> 'c" where
  "regex_any lru px [] s cache = (False, cache)"
| "regex_any lru px (AttrOther # ps) s cache = regex_any lru px ps s cache"
| "regex_any lru px (AttrString pat # ps) s cache =
     (case get_or_compile lru px pat cache of
        (Some re, cache1) \<Rightarrow> if re s then (True, cache1) else regex_any lru px ps s cache1
      | (None, cache1) \<Rightarrow> regex_any lru px ps s cache1)"

definition regex_check ::
  "('c, string \<Rightarrow> bool) lru_ops \<Rightarrow> 'q policy_ext \<Rightarrow> attribute_type list \<Rightarrow> attribute_type \<Rightarrow> 'c \<Rightarrow> bool \<times> 'c" where
  "regex_check lru px ps val cache =
     (case val of AttrString s \<Rightarrow> regex_any lru px ps s cache | AttrOther \<Rightarrow> (False, cache))"

fun regex_check_any ::
  "('c, string \<Rightarrow> bool) lru_ops \<Rightarrow> 'q policy_ext \<Rightarrow> attribute_type list \<Rightarrow> attribute_type list \<Rightarrow> 'c \<Rightarrow> bool \<times> 'c" where
  "regex_check_any lru px ps [] cache = (False, cache)"
| "regex_check_any lru px ps (v # vs) cache =
     (case regex_check lru px ps v cache of
        (True, cache1) \<Rightarrow> (True, cache1)
      | (False, cache1) \<Rightarrow> regex_check_any lru px ps vs cache1)"

definition regex_matches_cached ::
  "('c, string \<Rightarrow> bool) lru_ops \<Rightarrow> 'q policy_ext \<Rightarrow> attribute_value \<Rightarrow> attribute_type \<Rightarrow> attribute_type list
     \<Rightarrow> 'c \<Rightarrow> bool \<times> 'c" where
  "regex_matches_cached lru px rule_value request_value request_groups cache =
     (case rule_value of
        AttrAll \<Rightarrow> (True, cache)
      | AttrSpecific ps \<Rightarrow> regex_check_any lru px ps (request_value # request_groups) cache)"

text \<open>What the matcher decides: a pattern that does not compile matches nothing.\<close>

definition pattern_matches :: "'q policy_ext \<Rightarrow> string \<Rightarrow> string \<Rightarrow> bool" where
  "pattern_matches px pat s = (case px_regex px (anchored pat) of Inr re \<Rightarrow> re s | Inl _ \<Rightarrow> False)"

definition attr_match :: "(string \<Rightarrow> string \<Rightarrow> bool) \<Rightarrow> matcher" where
  "attr_match f rule_value request_value request_groups =
     (case rule_value of
        AttrAll \<Rightarrow> True
      | AttrSpecific ps \<Rightarrow>
          list_ex (\<lambda>val. case val of
             AttrString s \<Rightarrow> list_ex (\<lambda>p. case p of AttrString pat \<Rightarrow> f pat s | AttrOther \<Rightarrow> False) ps
           | AttrOther \<Rightarrow> False) (request_value # request_groups))"

definition regex_matches :: "'q policy_ext \<Rightarrow> matcher" where
  "regex_matches px = attr_match (pattern_matches px)"

definition glob_matches :: "'q policy_ext \<Rightarrow> matcher" where
  "glob_matches px = attr_match (px_glob px)"

fun check_patterns :: "'q policy_ext \<Rightarrow> string list \<Rightarrow> policy_error + unit" where
  "check_patterns px [] = Inr ()"
| "check_patterns px (pat # ps) =
     (if max_regex_pattern_len < length pat then
        Inl (ValidationError (''regex pattern too long ('' @ show_nat (length pat) @ '' chars, max '' @
          show_nat max_regex_pattern_len @ '')''))
      else case px_regex px pat of Inl e \<Rightarrow> Inl (RegexError e) | Inr _ \<Rightarrow> check_patterns px ps)"

definition validate_regex_patterns :: "'q policy_ext \<Rightarrow> string list \<Rightarrow> policy_error + unit" where
  "validate_regex_patterns px ps =
     (if max_regex_patterns_per_dim < length ps then
        Inl (ValidationError (''too many regex patterns ('' @ show_nat (length ps) @ '', max '' @
          show_nat max_regex_patterns_per_dim @ '')''))
      else check_patterns px ps)"

section \<open>From a configuration to a rule (config.rs)\<close>

definition parse_rfc3339_millis :: "'q policy_ext \<Rightarrow> string \<Rightarrow> policy_error + u64" where
  "parse_rfc3339_millis px s =
     (case px_rfc3339 px s of
        Inl e \<Rightarrow> Inl (InvalidRule (''invalid RFC 3339 timestamp '' @ quoted s @ '': '' @ e))
      | Inr (secs, millis) \<Rightarrow>
          if secs < 0 then Inl (InvalidRule (''timestamp '' @ quoted s @ '' is before Unix epoch''))
          else Inr (nat secs * 1000 + millis))"

definition parse_opt_millis :: "'q policy_ext \<Rightarrow> string option \<Rightarrow> policy_error + u64 option" where
  "parse_opt_millis px s =
     (case s of None \<Rightarrow> Inr None
      | Some t \<Rightarrow> (case parse_rfc3339_millis px t of Inl e \<Rightarrow> Inl e | Inr ms \<Rightarrow> Inr (Some ms)))"

definition namespace_dns :: string where
  "namespace_dns = ''6ba7b810-9dad-11d1-80b4-00c04fd430c8''"

definition rule_uuid_v5 :: "'q policy_ext \<Rightarrow> string \<Rightarrow> policy_rule_config \<Rightarrow> string" where
  "rule_uuid_v5 px scope c =
     px_uuid_v5 px (px_uuid_v5 px namespace_dns ''akamu.policy'') (scope @ ''/'' @ prc_name c)"

definition set_dimension ::
  "string \<Rightarrow> string list option \<Rightarrow> (string \<times> attribute_type list) list \<Rightarrow> (string \<times> attribute_type list) list" where
  "set_dimension dim vals ds = (case vals of Some vs \<Rightarrow> ds @ [(dim, map AttrString vs)] | None \<Rightarrow> ds)"

definition built_rule :: "'q policy_ext \<Rightarrow> string \<Rightarrow> policy_rule_config \<Rightarrow> abac_rule" where
  "built_rule px scope c =
     \<lparr>ar_name = prc_name c, ar_deny = (prc_rule_type c = Deny),
      ar_enabled = (case prc_enabled c of None \<Rightarrow> True | Some b \<Rightarrow> b),
      ar_id = rule_uuid_v5 px scope c,
      ar_dimensions =
        (set_dimension dim_key_type (prc_key_type c) \<circ>
         set_dimension dim_identifier (prc_identifier c) \<circ>
         set_dimension dim_account_group (prc_account_group c) \<circ>
         set_dimension dim_account (prc_account c) \<circ>
         set_dimension dim_ca (prc_ca c) \<circ>
         set_dimension dim_profile (prc_profile c)) []\<rparr>"

definition to_abac_rule_scoped ::
  "'q policy_ext \<Rightarrow> string \<Rightarrow> policy_rule_config \<Rightarrow> policy_error + abac_rule_kind" where
  "to_abac_rule_scoped px scope c =
     (if prc_name c = [] then Inl (InvalidRule ''rule name must not be empty'')
      else case (case prc_identifier c of None \<Rightarrow> Inr () | Some ps \<Rightarrow> validate_regex_patterns px ps) of
        Inl e \<Rightarrow> Inl e
      | Inr _ \<Rightarrow>
          (case parse_opt_millis px (prc_valid_from c) of
             Inl e \<Rightarrow> Inl e
           | Inr fr \<Rightarrow>
               (case parse_opt_millis px (prc_valid_until c) of
                  Inl e \<Rightarrow> Inl e
                | Inr til \<Rightarrow>
                    (let rule = built_rule px scope c in
                     if fr = None \<and> til = None then Inr (Regular rule)
                     else case px_temporal px rule fr til of
                       Inl e \<Rightarrow> Inl (TemporalError e)
                     | Inr _ \<Rightarrow> Inr (Temporal \<lparr>tr_rule = rule, tr_from = fr, tr_until = til\<rparr>)))))"

definition to_abac_rule :: "'q policy_ext \<Rightarrow> policy_rule_config \<Rightarrow> policy_error + abac_rule_kind" where
  "to_abac_rule px c = to_abac_rule_scoped px ''issuance'' c"

definition translate_profile_to_rule :: "string \<Rightarrow> string list \<Rightarrow> string list \<Rightarrow> bool \<Rightarrow> policy_rule_config" where
  "translate_profile_to_rule profile_name ca_ids patterns require_grant =
     (let rule = policy_rule_default\<lparr>prc_name := ''_compat_'' @ profile_name, prc_rule_type := Allow,
            prc_profile := Some [profile_name], prc_enabled := Some True\<rparr>;
          rule1 = (if ca_ids \<noteq> [] then rule\<lparr>prc_ca := Some ca_ids\<rparr> else rule);
          rule2 = (if patterns \<noteq> [] then rule1\<lparr>prc_identifier := Some patterns\<rparr> else rule1)
      in if require_grant then rule2\<lparr>prc_account_group := Some [profile_name]\<rparr> else rule2)"

section \<open>Requests (request.rs)\<close>

record 'q request_builder =
  rb_req :: 'q
  rb_error :: "policy_error option"

definition rb_new :: "'q policy_ext \<Rightarrow> 'q request_builder" where
  "rb_new px = \<lparr>rb_req = px_new_request px, rb_error = None\<rparr>"

definition try_add ::
  "'q policy_ext \<Rightarrow> string \<Rightarrow> attribute_type \<Rightarrow> attribute_type list \<Rightarrow> 'q request_builder \<Rightarrow> 'q request_builder" where
  "try_add px dim val groups b =
     (if rb_error b \<noteq> None then b
      else case px_add_attribute px (rb_req b) dim val groups of
             Inl e \<Rightarrow> b\<lparr>rb_error := Some (RequestError e)\<rparr>
           | Inr req \<Rightarrow> b\<lparr>rb_req := req\<rparr>)"

definition rb_account :: "'q policy_ext \<Rightarrow> string \<Rightarrow> 'q request_builder \<Rightarrow> 'q request_builder" where
  "rb_account px i = try_add px dim_account (AttrString i) []"

definition rb_account_groups :: "'q policy_ext \<Rightarrow> string list \<Rightarrow> 'q request_builder \<Rightarrow> 'q request_builder" where
  "rb_account_groups px groups = try_add px dim_account_group (AttrString ''_account_'') (map AttrString groups)"

definition rb_profile :: "'q policy_ext \<Rightarrow> string \<Rightarrow> 'q request_builder \<Rightarrow> 'q request_builder" where
  "rb_profile px name = try_add px dim_profile (AttrString name) []"

definition rb_ca :: "'q policy_ext \<Rightarrow> string \<Rightarrow> 'q request_builder \<Rightarrow> 'q request_builder" where
  "rb_ca px i = try_add px dim_ca (AttrString i) []"

definition rb_key_type :: "'q policy_ext \<Rightarrow> string \<Rightarrow> 'q request_builder \<Rightarrow> 'q request_builder" where
  "rb_key_type px kt = try_add px dim_key_type (AttrString kt) []"

definition rb_build :: "'q request_builder \<Rightarrow> policy_error + 'q" where
  "rb_build b = (case rb_error b of Some e \<Rightarrow> Inl e | None \<Rightarrow> Inr (rb_req b))"

definition with_identifier :: "'q policy_ext \<Rightarrow> 'q \<Rightarrow> string \<Rightarrow> string \<Rightarrow> policy_error + 'q" where
  "with_identifier px req id_type id_value =
     (case px_add_attribute px req dim_identifier (AttrString (id_type @ '':'' @ id_value)) [] of
        Inl e \<Rightarrow> Inl (RequestError e) | Inr r \<Rightarrow> Inr r)"

section \<open>The engine (engine.rs)\<close>

record abac_policy =
  ap_rules :: "abac_rule list"
  ap_temporal :: "temporal_rule list"

record issuance_policy_engine =
  ipe_policy :: abac_policy
  ipe_mode :: policy_mode
  ipe_toml_rules :: "policy_rule_config list"

fun split_rules ::
  "'q policy_ext \<Rightarrow> policy_rule_config list \<Rightarrow> abac_rule list \<Rightarrow> temporal_rule list
     \<Rightarrow> policy_error + abac_rule list \<times> temporal_rule list" where
  "split_rules px [] regs temps = Inr (regs, temps)"
| "split_rules px (c # cs) regs temps =
     (case to_abac_rule px c of
        Inl e \<Rightarrow> Inl e
      | Inr (Regular r) \<Rightarrow> split_rules px cs (regs @ [r]) temps
      | Inr (Temporal t) \<Rightarrow> split_rules px cs regs (temps @ [t]))"

definition build_policy ::
  "'q policy_ext \<Rightarrow> policy_rule_config list \<Rightarrow> policy_rule_config list \<Rightarrow> policy_error + abac_policy" where
  "build_policy px toml_rules db_rules =
     (case split_rules px (toml_rules @ db_rules) [] [] of
        Inl e \<Rightarrow> Inl e
      | Inr (regs, temps) \<Rightarrow>
          (case px_build px regs temps of
             Inl e \<Rightarrow> Inl (PolicyError e)
           | Inr _ \<Rightarrow> Inr \<lparr>ap_rules = regs, ap_temporal = temps\<rparr>))"

definition engine_new ::
  "'q policy_ext \<Rightarrow> policy_mode \<Rightarrow> policy_rule_config list \<Rightarrow> policy_rule_config list
     \<Rightarrow> policy_error + issuance_policy_engine" where
  "engine_new px mode toml_rules db_rules =
     (case build_policy px toml_rules db_rules of
        Inl e \<Rightarrow> Inl e
      | Inr p \<Rightarrow> Inr \<lparr>ipe_policy = p, ipe_mode = mode, ipe_toml_rules = toml_rules\<rparr>)"

definition engine_matchers :: "'q policy_ext \<Rightarrow> (string \<times> matcher) list" where
  "engine_matchers px = [(dim_identifier, regex_matches px), (dim_account_group, glob_matches px)]"

definition evaluate_explained :: "'q policy_ext \<Rightarrow> issuance_policy_engine \<Rightarrow> 'q \<Rightarrow> explained_decision" where
  "evaluate_explained px eng req =
     px_evaluate px (engine_matchers px) (ap_rules (ipe_policy eng)) (ap_temporal (ipe_policy eng)) req"

fun evaluate_each ::
  "'q policy_ext \<Rightarrow> issuance_policy_engine \<Rightarrow> 'q \<Rightarrow> (string \<times> string) list \<Rightarrow> policy_error + explained_decision list" where
  "evaluate_each px eng req [] = Inr []"
| "evaluate_each px eng req ((id_type, id_value) # ids) =
     (case with_identifier px req id_type id_value of
        Inl e \<Rightarrow> Inl e
      | Inr r \<Rightarrow>
          (case evaluate_each px eng req ids of
             Inl e \<Rightarrow> Inl e
           | Inr ds \<Rightarrow> Inr (evaluate_explained px eng r # ds)))"

definition evaluate_explained_identifiers ::
  "'q policy_ext \<Rightarrow> issuance_policy_engine \<Rightarrow> 'q \<Rightarrow> (string \<times> string) list \<Rightarrow> policy_error + explained_decision list" where
  "evaluate_explained_identifiers px eng req ids =
     (if ids = [] then Inr [evaluate_explained px eng req] else evaluate_each px eng req ids)"

definition engine_rebuild ::
  "'q policy_ext \<Rightarrow> policy_rule_config list \<Rightarrow> issuance_policy_engine \<Rightarrow> (policy_error + unit) \<times> issuance_policy_engine" where
  "engine_rebuild px db_rules eng =
     (case build_policy px (ipe_toml_rules eng) db_rules of
        Inl e \<Rightarrow> (Inl e, eng)
      | Inr p \<Rightarrow> (Inr (), eng\<lparr>ipe_policy := p\<rparr>))"

section \<open>Reading back a stored configuration\<close>

lemma policy_rule_json_round_trip [simp]: "policy_rule_of_json (policy_rule_to_json c) = Some c"
proof -
  let ?v = "policy_rule_to_json c"
  have obj: "json_is_object ?v" by (simp add: policy_rule_to_json_def json_is_object_def)
  have strs: "json_opt_field json_string_list k ?v = Some x"
    if "json_get k ?v = Some (json_of_opt json_of_strings x)" for k x
    using that by (rule json_opt_field_of_opt) (simp_all add: json_of_strings_def json_string_list_def)
  have one: "json_opt_field json_as_str k ?v = Some x"
    if "json_get k ?v = Some (json_of_opt JString x)" for k x
    using that by (rule json_opt_field_of_opt) (simp_all add: json_as_str_def)
  have flag: "json_opt_field json_as_bool k ?v = Some x"
    if "json_get k ?v = Some (json_of_opt JBool x)" for k x
    using that by (rule json_opt_field_of_opt) (simp_all add: json_as_bool_def)
  have g: "json_get ''name'' ?v = Some (JString (prc_name c))"
    "json_get ''type'' ?v = Some (rule_type_to_json (prc_rule_type c))"
    "json_get ''profile'' ?v = Some (json_of_opt json_of_strings (prc_profile c))"
    "json_get ''ca'' ?v = Some (json_of_opt json_of_strings (prc_ca c))"
    "json_get ''account'' ?v = Some (json_of_opt json_of_strings (prc_account c))"
    "json_get ''account_group'' ?v = Some (json_of_opt json_of_strings (prc_account_group c))"
    "json_get ''identifier'' ?v = Some (json_of_opt json_of_strings (prc_identifier c))"
    "json_get ''key_type'' ?v = Some (json_of_opt json_of_strings (prc_key_type c))"
    "json_get ''valid_from'' ?v = Some (json_of_opt JString (prc_valid_from c))"
    "json_get ''valid_until'' ?v = Some (json_of_opt JString (prc_valid_until c))"
    "json_get ''enabled'' ?v = Some (json_of_opt JBool (prc_enabled c))"
    by (simp_all add: json_get_def policy_rule_to_json_def)
  have t: "rule_type_of_json (rule_type_to_json t) = Some t" for t
    by (cases t) (simp_all add: rule_type_of_json_def rule_type_to_json_def)
  show ?thesis
    unfolding policy_rule_of_json_def
    by (simp add: obj t g(1,2) strs [OF g(3)] strs [OF g(4)] strs [OF g(5)] strs [OF g(6)] strs [OF g(7)]
        strs [OF g(8)] one [OF g(9)] one [OF g(10)] flag [OF g(11)]) (simp add: json_as_str_def)
qed

section \<open>The cache of compiled patterns is transparent\<close>

text \<open>
  What the LRU cache promises: an answer is an entry of the cache, looking up adds no entry, and
  storing adds at most the stored entry. \<open>peek\<close> is the cache's contents.
\<close>

definition lru_laws :: "('c, 'v) lru_ops \<Rightarrow> ('c \<Rightarrow> string \<Rightarrow> 'v option) \<Rightarrow> bool" where
  "lru_laws lru peek \<longleftrightarrow>
     (\<forall>c k. fst (lru_get lru c k) = peek c k) \<and>
     (\<forall>c k j v. peek (snd (lru_get lru c k)) j = Some v \<longrightarrow> peek c j = Some v) \<and>
     (\<forall>c k w j v. peek (lru_put lru c k w) j = Some v \<longrightarrow> (j = k \<and> v = w) \<or> peek c j = Some v)"

definition cache_ok :: "'q policy_ext \<Rightarrow> ('c \<Rightarrow> string \<Rightarrow> (string \<Rightarrow> bool) option) \<Rightarrow> 'c \<Rightarrow> bool" where
  "cache_ok px peek c \<longleftrightarrow> (\<forall>pat re. peek c pat = Some re \<longrightarrow> px_regex px (anchored pat) = Inr re)"

definition compiled :: "'q policy_ext \<Rightarrow> string \<Rightarrow> (string \<Rightarrow> bool) option" where
  "compiled px pat = (case px_regex px (anchored pat) of Inr re \<Rightarrow> Some re | Inl _ \<Rightarrow> None)"

lemma get_or_compile_ok:
  assumes "lru_laws lru peek" and "cache_ok px peek c"
  shows "fst (get_or_compile lru px pat c) = compiled px pat"
    and "cache_ok px peek (snd (get_or_compile lru px pat c))"
proof -
  obtain r c1 where g: "lru_get lru c pat = (r, c1)" by fastforce
  have r: "r = peek c pat" and c1: "cache_ok px peek c1"
    using assms g unfolding lru_laws_def cache_ok_def by (metis fst_conv, metis snd_conv)
  show "fst (get_or_compile lru px pat c) = compiled px pat"
    using assms(2) r by (auto simp: get_or_compile_def compiled_def g cache_ok_def split: option.split sum.split)
  have put: "cache_ok px peek (lru_put lru c1 pat re)" if "px_regex px (anchored pat) = Inr re" for re
    using assms(1) c1 that unfolding lru_laws_def cache_ok_def by metis
  show "cache_ok px peek (snd (get_or_compile lru px pat c))"
    using c1 put by (simp add: get_or_compile_def g split: option.split sum.split)
qed

lemma regex_any_ok:
  assumes "lru_laws lru peek" and "cache_ok px peek c"
  shows "fst (regex_any lru px ps s c)
           = list_ex (\<lambda>p. case p of AttrString pat \<Rightarrow> pattern_matches px pat s | AttrOther \<Rightarrow> False) ps
       \<and> cache_ok px peek (snd (regex_any lru px ps s c))"
  using assms(2)
proof (induction ps arbitrary: c)
  case (Cons p ps)
  show ?case
  proof (cases p)
    case (AttrString pat)
    obtain r c1 where g: "get_or_compile lru px pat c = (r, c1)" by fastforce
    have r: "r = compiled px pat" "cache_ok px peek c1"
      using get_or_compile_ok [OF assms(1) Cons.prems, of pat] g by simp_all
    show ?thesis using Cons.IH [OF r(2)] r AttrString g
      by (cases r) (auto simp: pattern_matches_def compiled_def split: sum.splits)
  qed (use Cons in simp)
qed simp

lemma regex_check_ok:
  assumes "lru_laws lru peek" and "cache_ok px peek c"
  shows "fst (regex_check lru px ps v c)
           = (case v of AttrString s \<Rightarrow>
                list_ex (\<lambda>p. case p of AttrString pat \<Rightarrow> pattern_matches px pat s | AttrOther \<Rightarrow> False) ps
              | AttrOther \<Rightarrow> False)
       \<and> cache_ok px peek (snd (regex_check lru px ps v c))"
  using regex_any_ok [OF assms] assms(2) by (simp add: regex_check_def split: attribute_type.split)

lemma regex_check_any_ok:
  assumes "lru_laws lru peek" and "cache_ok px peek c"
  shows "fst (regex_check_any lru px ps vs c)
           = list_ex (\<lambda>v. case v of AttrString s \<Rightarrow>
                list_ex (\<lambda>p. case p of AttrString pat \<Rightarrow> pattern_matches px pat s | AttrOther \<Rightarrow> False) ps
              | AttrOther \<Rightarrow> False) vs
       \<and> cache_ok px peek (snd (regex_check_any lru px ps vs c))"
  using assms(2)
proof (induction vs arbitrary: c)
  case (Cons v vs)
  obtain b c1 where g: "regex_check lru px ps v c = (b, c1)" by fastforce
  show ?case using regex_check_ok [OF assms(1) Cons.prems, of ps v] Cons.IH [of c1] g by (cases b) auto
qed simp

text \<open>
  The matcher with its cache decides exactly what compiling every pattern anew would, and leaves a
  cache of which this is true again.
\<close>

lemma regex_cache_transparent:
  assumes "lru_laws lru peek" and "cache_ok px peek c"
  shows "fst (regex_matches_cached lru px rv v gs c) = regex_matches px rv v gs"
    and "cache_ok px peek (snd (regex_matches_cached lru px rv v gs c))"
  using regex_check_any_ok [OF assms, of _ "v # gs"] assms(2)
  by (simp_all add: regex_matches_cached_def regex_matches_def attr_match_def split: attribute_value.split)

section \<open>Building a policy loses no rule\<close>

definition kind_rule :: "abac_rule_kind \<Rightarrow> abac_rule" where
  "kind_rule k = (case k of Regular r \<Rightarrow> r | Temporal t \<Rightarrow> tr_rule t)"

lemma to_abac_rule_kind: "to_abac_rule px c = Inr k \<Longrightarrow> kind_rule k = built_rule px ''issuance'' c"
  by (auto simp: to_abac_rule_def to_abac_rule_scoped_def kind_rule_def Let_def
      split: if_splits sum.splits option.splits)

lemma split_rules_complete:
  "split_rules px cs regs temps = Inr (rs, ts) \<Longrightarrow>
     mset (rs @ map tr_rule ts) = mset (regs @ map tr_rule temps @ map (built_rule px ''issuance'') cs)"
proof (induction px cs regs temps rule: split_rules.induct)
  case (2 px c cs regs temps)
  then show ?case
    by (auto dest!: to_abac_rule_kind simp: kind_rule_def split: sum.splits abac_rule_kind.splits)
qed simp

lemma build_policy_complete:
  "build_policy px toml db = Inr p \<Longrightarrow>
     mset (ap_rules p @ map tr_rule (ap_temporal p)) = mset (map (built_rule px ''issuance'') (toml @ db))"
  by (auto simp: build_policy_def dest!: split_rules_complete split: sum.splits)

lemma engine_rebuild_mode [simp]:
  "ipe_mode (snd (engine_rebuild px rules eng)) = ipe_mode eng"
  "ipe_toml_rules (snd (engine_rebuild px rules eng)) = ipe_toml_rules eng"
  by (simp_all add: engine_rebuild_def split: sum.split)

section \<open>Evaluation of an order, identifier by identifier\<close>

lemma evaluate_each_iff:
  "(\<exists>ds. evaluate_each px eng req ids = Inr ds \<and> (\<forall>d \<in> set ds. ed_decision d = AllowDecision)) \<longleftrightarrow>
     (\<forall>(t, v) \<in> set ids. \<exists>r. with_identifier px req t v = Inr r \<and>
        ed_decision (evaluate_explained px eng r) = AllowDecision)"
proof (induction px eng req ids rule: evaluate_each.induct)
  case (2 px eng req id_type id_value ids)
  then show ?case
    by (cases "with_identifier px req id_type id_value"; cases "evaluate_each px eng req ids") auto
qed simp

end
