(* ===== verification/Issuance_Policy.thy ===== *)
theory Issuance_Policy
  imports Policy_Engine Db_Accounts Crdt_Hooks
begin

text \<open>
  The server's use of the policy engine: the table of rules (\<^verbatim>\<open>src/db/policy_rules.rs\<close>), loading the
  rules into the engine and evaluating a request (\<^verbatim>\<open>src/policy.rs\<close>), and the two places of the gossip
  loop that touch the engine (\<^verbatim>\<open>src/gossip/gossip_loop.rs\<close>), with the part of the persisting of the
  replicated state that writes the rules (\<^verbatim>\<open>akamu-crdt/src/db.rs\<close>). Parsing and printing of JSON text
  are parameters (a text with a repeated member counts as one that does not parse), and so is the
  outcome of a read that can fail, as \<open>acme_error option\<close>. The text of a log entry is left out.
\<close>

section \<open>The table of rules\<close>

record policy_rule_row =
  pr_id :: string
  pr_scope :: string
  pr_name :: string
  pr_rule_json :: string
  pr_enabled :: i64
  pr_created_at :: string
  pr_updated_at :: string
  pr_created_by :: "string option"

record policy_rule_rec =
  prt_row :: policy_rule_row
  prt_tombstone :: bool
  prt_tombstone_at :: "i64 option"

type_synonym rule_table = "policy_rule_rec list"

abbreviation rule_live :: "policy_rule_rec \<Rightarrow> bool" where
  "rule_live r \<equiv> \<not> prt_tombstone r"

text \<open>The unique index over the live rules.\<close>

definition name_taken :: "rule_table \<Rightarrow> string \<Rightarrow> string \<Rightarrow> string \<Rightarrow> bool" where
  "name_taken t i scope name \<longleftrightarrow>
     (\<exists>r \<in> set t. rule_live r \<and> pr_id (prt_row r) \<noteq> i \<and> pr_scope (prt_row r) = scope \<and> pr_name (prt_row r) = name)"

definition policy_rules_insert :: "sql_texts \<Rightarrow> policy_rule_row \<Rightarrow> rule_table \<Rightarrow> unit result \<times> rule_table" where
  "policy_rules_insert msg row t =
     (if pr_id row \<in> set (map (pr_id \<circ> prt_row) t) \<or> name_taken t (pr_id row) (pr_scope row) (pr_name row)
      then (Inl (from_sqlx_error (msg UniqueFailed)), t)
      else (Inr (), t @ [\<lparr>prt_row = row, prt_tombstone = False, prt_tombstone_at = None\<rparr>]))"

definition policy_rules_delete :: "string \<Rightarrow> i64 \<Rightarrow> rule_table \<Rightarrow> bool result \<times> rule_table" where
  "policy_rules_delete i now t =
     (let p = (\<lambda>r. pr_id (prt_row r) = i \<and> rule_live r)
      in (Inr (0 < affected p t),
          upd_where p (\<lambda>r. r\<lparr>prt_tombstone := True, prt_tombstone_at := Some now,
             prt_row := (prt_row r)\<lparr>pr_enabled := 0\<rparr>\<rparr>) t))"

definition policy_rules_list_by_scope :: "string \<Rightarrow> rule_table \<Rightarrow> policy_rule_row list" where
  "policy_rules_list_by_scope scope t =
     sort_key pr_name (map prt_row (filter (\<lambda>r. pr_scope (prt_row r) = scope \<and> rule_live r) t))"

definition policy_rules_list_scopes :: "rule_table \<Rightarrow> string list" where
  "policy_rules_list_scopes t = sort (remdups (map (pr_scope \<circ> prt_row) (filter (\<lambda>r. rule_live r) t)))"

definition policy_rules_update ::
  "sql_texts \<Rightarrow> string \<Rightarrow> string \<Rightarrow> string \<Rightarrow> i64 \<Rightarrow> string \<Rightarrow> rule_table \<Rightarrow> bool result \<times> rule_table" where
  "policy_rules_update msg i name rule_json enabled updated_at t =
     (let p = (\<lambda>r. pr_id (prt_row r) = i \<and> rule_live r)
      in if (\<exists>r \<in> set t. p r \<and> name_taken t i (pr_scope (prt_row r)) name)
         then (Inl (from_sqlx_error (msg UniqueFailed)), t)
         else (Inr (0 < affected p t),
               upd_where p (\<lambda>r. r\<lparr>prt_row := (prt_row r)\<lparr>pr_name := name, pr_rule_json := rule_json,
                  pr_enabled := enabled, pr_updated_at := updated_at\<rparr>\<rparr>) t))"

definition policy_rules_get_by_scope_and_name :: "string \<Rightarrow> string \<Rightarrow> rule_table \<Rightarrow> policy_rule_row option" where
  "policy_rules_get_by_scope_and_name scope name t =
     map_option prt_row
       (find (\<lambda>r. pr_scope (prt_row r) = scope \<and> pr_name (prt_row r) = name \<and> rule_live r) t)"

definition policy_rules_get_by_id :: "string \<Rightarrow> rule_table \<Rightarrow> policy_rule_row option" where
  "policy_rules_get_by_id i t = map_option prt_row (find (\<lambda>r. pr_id (prt_row r) = i \<and> rule_live r) t)"

section \<open>Loading the rules (policy.rs)\<close>

record json_ext =
  jx_parse :: "string \<Rightarrow> json option"
  jx_print :: "json \<Rightarrow> string"

definition rule_of_text :: "json_ext \<Rightarrow> string \<Rightarrow> policy_rule_config option" where
  "rule_of_text jx s = Option.bind (jx_parse jx s) policy_rule_of_json"

record policy_state =
  ps_app :: app_state
  ps_rules :: rule_table
  ps_engine :: issuance_policy_engine
  ps_rebuild_needed :: bool
  ps_audit :: "(string \<times> string \<times> string) list"   \<comment> \<open>principal, action and rule of an audit event\<close>

record parsed_db_rules =
  pd_rules :: "policy_rule_config list"
  pd_skipped :: nat
  pd_skipped_ids :: "string list"

definition parse_db_rules :: "json_ext \<Rightarrow> policy_rule_row list \<Rightarrow> parsed_db_rules" where
  "parse_db_rules jx rows =
     (let on = filter (\<lambda>r. pr_enabled r \<noteq> 0) rows;
          bad = filter (\<lambda>r. rule_of_text jx (pr_rule_json r) = None) on
      in \<lparr>pd_rules = List.map_filter (\<lambda>r. rule_of_text jx (pr_rule_json r)) on,
          pd_skipped = length bad, pd_skipped_ids = map pr_id bad\<rparr>)"

datatype policy_rebuild_error = DbLoad string | CorruptRules nat "string list" | EngineError string

fun policy_error_message :: "policy_error \<Rightarrow> string" where
  "policy_error_message (RequestError e) = ''request error: '' @ e"
| "policy_error_message (PolicyError e) = ''policy error: '' @ e"
| "policy_error_message (InvalidRule e) = ''invalid rule: '' @ e"
| "policy_error_message (RegexError e) = ''regex error: '' @ e"
| "policy_error_message (TemporalError e) = ''temporal error: '' @ e"
| "policy_error_message (ValidationError e) = ''validation error: '' @ e"

definition rebuild_issuance_policy ::
  "'q policy_ext \<Rightarrow> json_ext \<Rightarrow> acme_error option \<Rightarrow> policy_state \<Rightarrow> (policy_rebuild_error + unit) \<times> policy_state" where
  "rebuild_issuance_policy px jx load st =
     (case load of
        Some e \<Rightarrow> (Inl (DbLoad (error_message e)), st)
      | None \<Rightarrow>
          (let parsed = parse_db_rules jx (policy_rules_list_by_scope ''issuance'' (ps_rules st))
           in if 0 < pd_skipped parsed \<and> ipe_mode (ps_engine st) = Enforce
              then (Inl (CorruptRules (pd_skipped parsed) (pd_skipped_ids parsed)), st)
              else case engine_rebuild px (pd_rules parsed) (ps_engine st) of
                     (Inl e, eng) \<Rightarrow> (Inl (EngineError (policy_error_message e)), st\<lparr>ps_engine := eng\<rparr>)
                   | (Inr _, eng) \<Rightarrow> (Inr (), st\<lparr>ps_engine := eng\<rparr>)))"

definition rebuild_or_defer ::
  "'q policy_ext \<Rightarrow> json_ext \<Rightarrow> acme_error option \<Rightarrow> policy_state \<Rightarrow> bool \<times> policy_state" where
  "rebuild_or_defer px jx load st =
     (case rebuild_issuance_policy px jx load st of
        (Inl _, st1) \<Rightarrow> (False, st1\<lparr>ps_rebuild_needed := True\<rparr>)
      | (Inr _, st1) \<Rightarrow> (True, st1))"

section \<open>Evaluating a request (policy.rs)\<close>

record policy_check_params =
  pcp_account_id :: string
  pcp_ca_id :: string
  pcp_effective_profile :: "string option"
  pcp_allowed :: "(string \<times> string) list"
  pcp_key_type :: "string option"

definition denied :: acme_error where
  "denied = Unauthorized ''certificate issuance denied by issuance policy''"

definition strings_of_text :: "json_ext \<Rightarrow> string \<Rightarrow> string list option" where
  "strings_of_text jx s = Option.bind (jx_parse jx s) json_string_list"

text \<open>
  The two lookups of account data: the groups they yield, or nothing when enforcement has to
  deny the request.
\<close>

definition grant_groups ::
  "json_ext \<Rightarrow> bool \<Rightarrow> acme_error option \<Rightarrow> string \<Rightarrow> db \<Rightarrow> string list result" where
  "grant_groups jx enforce io account_id d =
     (case io of
        Some _ \<Rightarrow> if enforce then Inl denied else Inr []
      | None \<Rightarrow>
          (case fst (accounts_get_profile_grants account_id d) of
             Inl _ \<Rightarrow> if enforce then Inl denied else Inr []
           | Inr (Some (Some grants_json)) \<Rightarrow>
               (case strings_of_text jx grants_json of
                  Some grants \<Rightarrow> Inr grants
                | None \<Rightarrow> if enforce then Inl denied else Inr [])
           | Inr _ \<Rightarrow> Inr []))"

definition principal_groups :: "bool \<Rightarrow> acme_error option \<Rightarrow> string \<Rightarrow> db \<Rightarrow> string list result" where
  "principal_groups enforce io account_id d =
     (case io of
        Some _ \<Rightarrow> if enforce then Inl denied else Inr []
      | None \<Rightarrow>
          (case fst (accounts_get_kerberos_principal account_id d) of
             Inl _ \<Rightarrow> if enforce then Inl denied else Inr []
           | Inr (Some p) \<Rightarrow> Inr [p]
           | Inr None \<Rightarrow> Inr []))"

definition issuance_request ::
  "'q policy_ext \<Rightarrow> policy_check_params \<Rightarrow> string list \<Rightarrow> policy_error + 'q" where
  "issuance_request px params groups =
     (let b = rb_ca px (pcp_ca_id params) (rb_account_groups px groups
                (rb_account px (pcp_account_id params) (rb_new px)));
          b1 = (case pcp_effective_profile params of Some p \<Rightarrow> rb_profile px p b | None \<Rightarrow> b);
          b2 = (case pcp_key_type params of Some kt \<Rightarrow> rb_key_type px kt b1 | None \<Rightarrow> b1)
      in rb_build b2)"

definition evaluate_issuance_policy ::
  "'q policy_ext \<Rightarrow> json_ext \<Rightarrow> acme_error option \<Rightarrow> acme_error option \<Rightarrow> policy_check_params
     \<Rightarrow> issuance_policy_engine \<Rightarrow> db \<Rightarrow> unit result" where
  "evaluate_issuance_policy px jx io_grants io_principal params eng d =
     (let enforce = (ipe_mode eng = Enforce) in
      case grant_groups jx enforce io_grants (pcp_account_id params) d of
        Inl e \<Rightarrow> Inl e
      | Inr grants \<Rightarrow>
          (case principal_groups enforce io_principal (pcp_account_id params) d of
             Inl e \<Rightarrow> Inl e
           | Inr principals \<Rightarrow>
               (case (case issuance_request px params (grants @ principals) of
                        Inl e \<Rightarrow> Inl e
                      | Inr base_req \<Rightarrow> evaluate_explained_identifiers px eng base_req (pcp_allowed params)) of
                  Inr explained_list \<Rightarrow>
                    if \<not> list_all (\<lambda>e. ed_decision e = AllowDecision) explained_list \<and> enforce
                    then Inl denied else Inr ()
                | Inl _ \<Rightarrow> if enforce then Inl denied else Inr ())))"

section \<open>Persisting the replicated rules (akamu-crdt/src/db.rs)\<close>

definition rule_row_of_entry :: "string \<Rightarrow> policy_rule_entry \<Rightarrow> policy_rule_row" where
  "rule_row_of_entry i e = \<lparr>pr_id = i, pr_scope = pre_scope e, pr_name = pre_name e,
     pr_rule_json = pre_rule_json e, pr_enabled = (if pre_enabled e then 1 else 0),
     pr_created_at = pre_created_at e, pr_updated_at = pre_updated_at e,
     pr_created_by = pre_created_by e\<rparr>"

text \<open>
  One iteration: other rows of the same scope and name are evicted for a live entry, then the row is
  inserted, or updated except for its creation.
\<close>

definition persist_rule :: "string \<times> policy_rule_entry or_entry \<Rightarrow> rule_table \<Rightarrow> rule_table" where
  "persist_rule ke t =
     (let (i, e) = ke;
          row = rule_row_of_entry i (or_value e);
          t1 = (if or_tombstone e then t
                else filter (\<lambda>r. \<not> (pr_scope (prt_row r) = pr_scope row \<and> pr_name (prt_row r) = pr_name row
                       \<and> pr_id (prt_row r) \<noteq> i)) t);
          is_i = (\<lambda>r. pr_id (prt_row r) = i)
      in if \<exists>r \<in> set t1. is_i r
         then upd_where is_i (\<lambda>r. \<lparr>prt_row = row\<lparr>pr_created_at := pr_created_at (prt_row r),
                  pr_created_by := pr_created_by (prt_row r)\<rparr>,
                prt_tombstone = or_tombstone e, prt_tombstone_at = or_tombstone_at e\<rparr>) t1
         else t1 @ [\<lparr>prt_row = row, prt_tombstone = or_tombstone e, prt_tombstone_at = or_tombstone_at e\<rparr>])"

definition persist_policy_rules :: "aka_crdt \<Rightarrow> rule_table \<Rightarrow> rule_table" where
  "persist_policy_rules c t = fold persist_rule (policy_rules c) t"

section \<open>The gossip loop's part (gossip_loop.rs)\<close>

text \<open>The periodic write of the replicated rules to the table, when it succeeds.\<close>

definition periodic_persist :: "bool \<Rightarrow> policy_state \<Rightarrow> policy_state" where
  "periodic_persist ok st =
     (if ok then st\<lparr>ps_rules := persist_policy_rules (st_crdt (ps_app st)) (ps_rules st)\<rparr> else st)"

definition retry_rebuild ::
  "'q policy_ext \<Rightarrow> json_ext \<Rightarrow> acme_error option \<Rightarrow> policy_state \<Rightarrow> policy_state" where
  "retry_rebuild px jx load st =
     (if ps_rebuild_needed st
      then snd (rebuild_or_defer px jx load (st\<lparr>ps_rebuild_needed := False\<rparr>))
      else st)"

text \<open>The peers' states are merged into one, which is merged into the live state.\<close>

fun merge_all :: "u64 \<Rightarrow> aka_crdt \<Rightarrow> aka_crdt list \<Rightarrow> u64 \<times> aka_crdt" where
  "merge_all g c [] = (g, c)"
| "merge_all g c (p # ps) = (case aka_merge g c p of (g1, c1) \<Rightarrow> merge_all g1 c1 ps)"

definition merge_peers :: "aka_crdt list \<Rightarrow> app_state \<Rightarrow> app_state" where
  "merge_peers peers st =
     (case merge_all (st_gen st) aka_default peers of
        (g, combined) \<Rightarrow>
          (case aka_merge g (st_crdt st) combined of (g1, c1) \<Rightarrow> st\<lparr>st_gen := g1, st_crdt := c1\<rparr>))"

definition merge_round ::
  "'q policy_ext \<Rightarrow> json_ext \<Rightarrow> acme_error option \<Rightarrow> bool \<Rightarrow> aka_crdt list \<Rightarrow> policy_state \<Rightarrow> policy_state" where
  "merge_round px jx load persist_ok peers st =
     (if peers = [] then st
      else let gen_before = or_max_local_gen (policy_rules (st_crdt (ps_app st)));
               st1 = st\<lparr>ps_app := merge_peers peers (ps_app st)\<rparr>;
               gen_after = or_max_local_gen (policy_rules (st_crdt (ps_app st1)))
           in if gen_after > gen_before \<and> persist_ok
              then snd (rebuild_or_defer px jx load
                     (st1\<lparr>ps_rules := persist_policy_rules (st_crdt (ps_app st1)) (ps_rules st1)\<rparr>))
              else st1)"

end
