(* ===== verification/Admin_Policy.thy ===== *)
theory Admin_Policy
  imports Issuance_Policy Admin_Operators
begin

text \<open>
  The handlers that manage policy rules (\<^verbatim>\<open>src/routes/admin/policy.rs\<close>). A request body is given as what
  parsing it yields and its length; clocks, fresh identifiers and the outcome of the reload of the rules
  are arguments.
\<close>

record create_policy_rule_payload =
  cpp_scope :: "string option"
  cpp_name :: string
  cpp_rule :: json
  cpp_enabled :: "bool option"

record update_policy_rule_payload =
  upp_name :: "string option"
  upp_rule :: json
  upp_enabled :: "bool option"

definition known_scopes :: "string list" where "known_scopes = [''issuance'']"
definition max_name_len :: nat where "max_name_len = 255"
definition max_rule_json_bytes :: nat where "max_rule_json_bytes = 65536"

definition ca_scope_visible :: "json_ext \<Rightarrow> string \<Rightarrow> string \<Rightarrow> bool" where
  "ca_scope_visible jx rule_json scope_ca =
     (case rule_of_text jx rule_json of
        Some cfg \<Rightarrow> (case prc_ca cfg of Some cas \<Rightarrow> scope_ca \<in> set cas | None \<Rightarrow> True)
      | None \<Rightarrow> False)"

definition ca_scope_mutable :: "json_ext \<Rightarrow> string \<Rightarrow> string \<Rightarrow> bool" where
  "ca_scope_mutable jx rule_json scope_ca =
     (case rule_of_text jx rule_json of
        Some cfg \<Rightarrow> (case prc_ca cfg of Some cas \<Rightarrow> cas \<noteq> [] \<and> (\<forall>c \<in> set cas. c = scope_ca) | None \<Rightarrow> False)
      | None \<Rightarrow> False)"

definition ca_scope_creatable :: "json \<Rightarrow> string \<Rightarrow> bool" where
  "ca_scope_creatable rule scope_ca =
     (case json_get ''ca'' rule of
        Some (JArray cas) \<Rightarrow> cas \<noteq> [] \<and> (\<forall>c \<in> set cas. json_as_str c = Some scope_ca)
      | _ \<Rightarrow> False)"

text \<open>The texts of a failed reading of the rule are parameters of the library.\<close>

definition validate_rule_json ::
  "'q policy_ext \<Rightarrow> (json \<Rightarrow> string) \<Rightarrow> json \<Rightarrow> admin_api_error + policy_rule_config" where
  "validate_rule_json px serde_text rule =
     (if \<not> json_is_object rule then Inl (AdminBadRequest ''rule must be a JSON object'')
      else case policy_rule_of_json rule of
        None \<Rightarrow> Inl (AdminBadRequest (''invalid rule: '' @ serde_text rule))
      | Some cfg \<Rightarrow>
          (case to_abac_rule px cfg of
             Inl e \<Rightarrow> Inl (AdminBadRequest (''invalid rule: '' @ policy_error_message e))
           | Inr _ \<Rightarrow> Inr cfg))"

record policy_io =
  pio_lock_ok :: bool
  pio_load :: "acme_error option"
  pio_rfc3339_now :: string
  pio_unix_now :: i64
  pio_uuid :: string

definition policy_audit :: "operator_context \<Rightarrow> string \<Rightarrow> string \<Rightarrow> policy_state \<Rightarrow> policy_state" where
  "policy_audit c action i st = st\<lparr>ps_audit := ps_audit st @ [(oc_name c, action, i)]\<rparr>"

definition get_policy_rules ::
  "json_ext \<Rightarrow> operator_context \<Rightarrow> string option \<Rightarrow> policy_state \<Rightarrow> policy_rule_row list" where
  "get_policy_rules jx c scope st =
     (let rows = policy_rules_list_by_scope (or_keep scope ''issuance'') (ps_rules st)
      in case ca_scope c of
           Some s \<Rightarrow> filter (\<lambda>r. ca_scope_visible jx (pr_rule_json r) s) rows
         | None \<Rightarrow> rows)"

definition get_policy_rule ::
  "json_ext \<Rightarrow> operator_context \<Rightarrow> string \<Rightarrow> policy_state \<Rightarrow> admin_api_error + policy_rule_row" where
  "get_policy_rule jx c i st =
     (case policy_rules_get_by_id i (ps_rules st) of
        None \<Rightarrow> Inl (AdminNotFound ''not found'')
      | Some row \<Rightarrow>
          (case ca_scope c of
             Some s \<Rightarrow> if \<not> ca_scope_visible jx (pr_rule_json row) s then Inl (AdminNotFound ''not found'') else Inr row
           | None \<Rightarrow> Inr row))"

definition name_conflict :: "string \<Rightarrow> string \<Rightarrow> admin_api_error" where
  "name_conflict name scope =
     AdminConflict (''rule '' @ quoted name @ '' already exists in scope '' @ quoted scope)"

definition post_policy_rule ::
  "'q policy_ext \<Rightarrow> json_ext \<Rightarrow> (json \<Rightarrow> string) \<Rightarrow> sql_texts \<Rightarrow> (string \<Rightarrow> bool) \<Rightarrow> policy_io \<Rightarrow> operator_context
     \<Rightarrow> nat \<Rightarrow> string + create_policy_rule_payload \<Rightarrow> policy_state \<Rightarrow> (admin_api_error + string \<times> bool) \<times> policy_state" where
  "post_policy_rule px jx serde_text msg is_unique io c body_len body st =
     (case body of
        Inl e \<Rightarrow> (Inl (AdminBadRequest (''invalid JSON: '' @ e)), st)
      | Inr p \<Rightarrow>
          if (case ca_scope c of Some s \<Rightarrow> \<not> ca_scope_creatable (cpp_rule p) s | None \<Rightarrow> False)
          then (Inl (AdminForbidden ''CA-scoped operator cannot create rules outside assigned CA''), st)
          else let scope = or_keep (cpp_scope p) ''issuance'' in
          if scope \<notin> set known_scopes then (Inl (AdminBadRequest (''unknown scope '' @ quoted scope)), st)
          else if cpp_name p = [] then (Inl (AdminBadRequest ''name must not be empty''), st)
          else if max_name_len < length (cpp_name p)
          then (Inl (AdminBadRequest (''name exceeds '' @ show_nat max_name_len @ '' characters'')), st)
          else if max_rule_json_bytes < body_len
          then (Inl (AdminBadRequest (''request body exceeds '' @ show_nat max_rule_json_bytes @ '' bytes'')), st)
          else if policy_rules_get_by_scope_and_name scope (cpp_name p) (ps_rules st) \<noteq> None
          then (Inl (name_conflict (cpp_name p) scope), st)
          else (case validate_rule_json px serde_text (json_insert ''name'' (JString (cpp_name p)) (cpp_rule p)) of
                  Inl e \<Rightarrow> (Inl e, st)
                | Inr cfg \<Rightarrow>
                    (let enabled = or_keep (cpp_enabled p) True;
                         row = \<lparr>pr_id = pio_uuid io, pr_scope = scope, pr_name = cpp_name p,
                                pr_rule_json = jx_print jx (policy_rule_to_json cfg),
                                pr_enabled = (if enabled then 1 else 0), pr_created_at = pio_rfc3339_now io,
                                pr_updated_at = pio_rfc3339_now io, pr_created_by = Some (oc_name c)\<rparr>
                     in case policy_rules_insert msg row (ps_rules st) of
                          (Inl e, t) \<Rightarrow>
                            (Inl (if is_unique (error_message e) then name_conflict (cpp_name p) scope
                                  else AdminDelegate e), st\<lparr>ps_rules := t\<rparr>)
                        | (Inr _, t) \<Rightarrow>
                            (let st1 = st\<lparr>ps_rules := t\<rparr>;
                                 st2 = st1\<lparr>ps_app := on_policy_rule_upsert (pio_lock_ok io) (ps_app st1)
                                    \<lparr>pup_id = pr_id row, pup_scope = pr_scope row, pup_name = pr_name row,
                                     pup_rule_json = pr_rule_json row, pup_enabled = enabled,
                                     pup_created_at = pr_created_at row, pup_updated_at = pr_updated_at row,
                                     pup_created_by = Some (oc_name c)\<rparr> (pio_unix_now io)\<rparr>
                             in case rebuild_or_defer px jx (pio_load io)
                                       (policy_audit c ''policy_rule.create'' (pr_id row) st2) of
                                  (rebuilt, st3) \<Rightarrow> (Inr (pr_id row, rebuilt), st3)))))"

definition put_policy_rule ::
  "'q policy_ext \<Rightarrow> json_ext \<Rightarrow> (json \<Rightarrow> string) \<Rightarrow> sql_texts \<Rightarrow> (string \<Rightarrow> bool) \<Rightarrow> policy_io \<Rightarrow> operator_context
     \<Rightarrow> string \<Rightarrow> nat \<Rightarrow> string + update_policy_rule_payload \<Rightarrow> policy_state \<Rightarrow> (admin_api_error + bool) \<times> policy_state" where
  "put_policy_rule px jx serde_text msg is_unique io c i body_len body st =
     (case body of
        Inl e \<Rightarrow> (Inl (AdminBadRequest (''invalid JSON: '' @ e)), st)
      | Inr p \<Rightarrow>
       (case policy_rules_get_by_id i (ps_rules st) of
          None \<Rightarrow> (Inl (AdminNotFound ''not found''), st)
        | Some existing \<Rightarrow>
          if (case ca_scope c of Some s \<Rightarrow> \<not> ca_scope_mutable jx (pr_rule_json existing) s | None \<Rightarrow> False)
          then (Inl (AdminNotFound ''not found''), st)
          else if (case ca_scope c of Some s \<Rightarrow> \<not> ca_scope_creatable (upp_rule p) s | None \<Rightarrow> False)
          then (Inl (AdminForbidden ''CA-scoped operator cannot move rule outside assigned CA''), st)
          else if upp_name p = Some [] then (Inl (AdminBadRequest ''name must not be empty''), st)
          else if (case upp_name p of Some n \<Rightarrow> max_name_len < length n | None \<Rightarrow> False)
          then (Inl (AdminBadRequest (''name exceeds '' @ show_nat max_name_len @ '' characters'')), st)
          else if max_rule_json_bytes < body_len
          then (Inl (AdminBadRequest (''request body exceeds '' @ show_nat max_rule_json_bytes @ '' bytes'')), st)
          else let name = or_keep (upp_name p) (pr_name existing) in
          if name \<noteq> pr_name existing
             \<and> policy_rules_get_by_scope_and_name (pr_scope existing) name (ps_rules st) \<noteq> None
          then (Inl (name_conflict name (pr_scope existing)), st)
          else (case validate_rule_json px serde_text (json_insert ''name'' (JString name) (upp_rule p)) of
                  Inl e \<Rightarrow> (Inl e, st)
                | Inr cfg \<Rightarrow>
                    (let enabled = or_keep (upp_enabled p) (pr_enabled existing \<noteq> 0);
                         rule_json = jx_print jx (policy_rule_to_json cfg)
                     in case policy_rules_update msg i name rule_json (if enabled then 1 else 0)
                               (pio_rfc3339_now io) (ps_rules st) of
                          (Inl e, t) \<Rightarrow>
                            (Inl (if is_unique (error_message e) then name_conflict name (pr_scope existing)
                                  else AdminDelegate e), st\<lparr>ps_rules := t\<rparr>)
                        | (Inr False, t) \<Rightarrow> (Inl (AdminNotFound ''not found''), st\<lparr>ps_rules := t\<rparr>)
                        | (Inr True, t) \<Rightarrow>
                            (let st1 = st\<lparr>ps_rules := t\<rparr>;
                                 st2 = st1\<lparr>ps_app := on_policy_rule_upsert (pio_lock_ok io) (ps_app st1)
                                    \<lparr>pup_id = i, pup_scope = pr_scope existing, pup_name = name,
                                     pup_rule_json = rule_json, pup_enabled = enabled,
                                     pup_created_at = pr_created_at existing, pup_updated_at = pio_rfc3339_now io,
                                     pup_created_by = pr_created_by existing\<rparr> (pio_unix_now io)\<rparr>
                             in case rebuild_or_defer px jx (pio_load io)
                                       (policy_audit c ''policy_rule.update'' i st2) of
                                  (rebuilt, st3) \<Rightarrow> (Inr rebuilt, st3))))))"

definition delete_policy_rule ::
  "'q policy_ext \<Rightarrow> json_ext \<Rightarrow> policy_io \<Rightarrow> operator_context \<Rightarrow> string \<Rightarrow> policy_state
     \<Rightarrow> (admin_api_error + bool) \<times> policy_state" where
  "delete_policy_rule px jx io c i st =
     (if (case ca_scope c of
            Some s \<Rightarrow> (case policy_rules_get_by_id i (ps_rules st) of
                         Some r \<Rightarrow> \<not> ca_scope_mutable jx (pr_rule_json r) s | None \<Rightarrow> True)
          | None \<Rightarrow> False)
      then (Inl (AdminNotFound ''not found''), st)
      else case policy_rules_delete i (pio_unix_now io) (ps_rules st) of
             (Inl e, t) \<Rightarrow> (Inl (AdminDelegate e), st\<lparr>ps_rules := t\<rparr>)
           | (Inr False, t) \<Rightarrow> (Inl (AdminNotFound ''not found''), st\<lparr>ps_rules := t\<rparr>)
           | (Inr True, t) \<Rightarrow>
               (let st1 = st\<lparr>ps_rules := t\<rparr>;
                    st2 = st1\<lparr>ps_app := on_policy_rule_remove (pio_lock_ok io) (ps_app st1) i (pio_unix_now io)\<rparr>
                in case rebuild_or_defer px jx (pio_load io) (policy_audit c ''policy_rule.delete'' i st2) of
                     (rebuilt, st3) \<Rightarrow> (Inr rebuilt, st3)))"

end
