(* ===== verification/Policy_Properties.thy ===== *)
theory Policy_Properties
  imports Admin_Policy
begin

text \<open>
  What the issuance policy guarantees: the decision on a request, the confinement of operators bound
  to one CA, and when a change of the rules reaches the engine.
\<close>

section \<open>The decision\<close>

text \<open>
  The condition a request has to meet: the account's data are readable, the request can be formed, and
  every identifier is allowed (or the request without identifier, when there is none).
\<close>

definition issuance_permitted ::
  "'q policy_ext \<Rightarrow> json_ext \<Rightarrow> acme_error option \<Rightarrow> acme_error option \<Rightarrow> policy_check_params
     \<Rightarrow> issuance_policy_engine \<Rightarrow> db \<Rightarrow> bool" where
  "issuance_permitted px jx io_grants io_principal params eng d \<longleftrightarrow>
     (\<exists>grants principals req.
        grant_groups jx True io_grants (pcp_account_id params) d = Inr grants \<and>
        principal_groups True io_principal (pcp_account_id params) d = Inr principals \<and>
        issuance_request px params (grants @ principals) = Inr req \<and>
        (pcp_allowed params = [] \<longrightarrow> ed_decision (evaluate_explained px eng req) = AllowDecision) \<and>
        (\<forall>(t, v) \<in> set (pcp_allowed params). \<exists>r. with_identifier px req t v = Inr r \<and>
           ed_decision (evaluate_explained px eng r) = AllowDecision))"

lemma shadow_groups:
  "\<exists>gs. grant_groups jx False io a d = Inr gs" "\<exists>gs. principal_groups False io a d = Inr gs"
  by (auto simp: grant_groups_def principal_groups_def split: option.split sum.split)

lemma enforced_groups:
  "grant_groups jx True io a d = Inl e \<Longrightarrow> e = denied" "principal_groups True io a d = Inl e \<Longrightarrow> e = denied"
  by (auto simp: grant_groups_def principal_groups_def split: option.splits sum.splits)

lemma identifiers_allowed_iff:
  "(\<exists>ds. evaluate_explained_identifiers px eng req ids = Inr ds \<and> (\<forall>d \<in> set ds. ed_decision d = AllowDecision)) \<longleftrightarrow>
     (ids = [] \<longrightarrow> ed_decision (evaluate_explained px eng req) = AllowDecision) \<and>
     (\<forall>(t, v) \<in> set ids. \<exists>r. with_identifier px req t v = Inr r \<and>
        ed_decision (evaluate_explained px eng r) = AllowDecision)"
  by (cases "ids = []") (simp_all add: evaluate_explained_identifiers_def evaluate_each_iff)


section \<open>What the handlers do to the rules\<close>

definition cfg_only_for :: "string \<Rightarrow> policy_rule_config \<Rightarrow> bool" where
  "cfg_only_for s cfg \<longleftrightarrow> map_option set (prc_ca cfg) = Some {s}"

definition rule_only_for :: "json_ext \<Rightarrow> string \<Rightarrow> policy_rule_rec \<Rightarrow> bool" where
  "rule_only_for jx s r \<longleftrightarrow>
     (\<exists>cfg. rule_of_text jx (pr_rule_json (prt_row r)) = Some cfg \<and> cfg_only_for s cfg)"

text \<open>The configurations and rules an operator may write: all, or those only for the CA it is bound to.\<close>

definition may_write :: "operator_context \<Rightarrow> (string \<Rightarrow> bool) \<Rightarrow> bool" where
  "may_write c p \<longleftrightarrow> (case ca_scope c of None \<Rightarrow> True | Some s \<Rightarrow> p s)"

inductive rule_edit :: "json_ext \<Rightarrow> operator_context \<Rightarrow> rule_table \<Rightarrow> rule_table \<Rightarrow> bool"
  for jx c where
  unchanged: "rule_edit jx c t t"
| added: "may_write c (\<lambda>s. cfg_only_for s cfg) \<Longrightarrow> pr_rule_json row = jx_print jx (policy_rule_to_json cfg) \<Longrightarrow>
     pr_id row \<notin> set (map (pr_id \<circ> prt_row) t) \<Longrightarrow>
     rule_edit jx c t (t @ [\<lparr>prt_row = row, prt_tombstone = False, prt_tombstone_at = None\<rparr>])"
| changed: "policy_rules_get_by_id i t = Some old \<Longrightarrow>
     may_write c (\<lambda>s. ca_scope_mutable jx (pr_rule_json old) s) \<Longrightarrow>
     may_write c (\<lambda>s. cfg_only_for s cfg) \<Longrightarrow> (\<And>r. pr_id (prt_row (f r)) = pr_id (prt_row r)) \<Longrightarrow>
     (\<And>r. pr_rule_json (prt_row (f r)) = jx_print jx (policy_rule_to_json cfg)) \<Longrightarrow>
     rule_edit jx c t (upd_where (\<lambda>r. pr_id (prt_row r) = i \<and> rule_live r) f t)"
| removed: "policy_rules_get_by_id i t = Some old \<Longrightarrow>
     may_write c (\<lambda>s. ca_scope_mutable jx (pr_rule_json old) s) \<Longrightarrow>
     (\<And>r. pr_id (prt_row (f r)) = pr_id (prt_row r)) \<Longrightarrow>
     (\<And>r. pr_rule_json (prt_row (f r)) = pr_rule_json (prt_row r)) \<Longrightarrow>
     rule_edit jx c t (upd_where (\<lambda>r. pr_id (prt_row r) = i \<and> rule_live r) f t)"

text \<open>
  A handler either leaves the state alone or edits the table and then rebuilds the engine.
\<close>

inductive policy_effect :: "'q policy_ext \<Rightarrow> json_ext \<Rightarrow> operator_context \<Rightarrow> policy_state \<Rightarrow> policy_state \<Rightarrow> bool"
  for px jx c st where
  refused: "policy_effect px jx c st st"
| applied: "rule_edit jx c (ps_rules st) (ps_rules st1) \<Longrightarrow> ps_engine st1 = ps_engine st \<Longrightarrow>
     ps_rebuild_needed st1 = ps_rebuild_needed st \<Longrightarrow>
     policy_effect px jx c st (snd (rebuild_or_defer px jx load st1))"

lemma json_strs_all: "(\<forall>c \<in> set vs. json_as_str c = Some s) \<Longrightarrow> json_strings vs = Some ss \<Longrightarrow> set ss \<subseteq> {s}"
  by (induction vs arbitrary: ss rule: json_strings.induct) (auto simp: json_as_str_def)

lemma json_strs_nonempty: "json_strings vs = Some ss \<Longrightarrow> ss = [] \<longleftrightarrow> vs = []"
  by (induction vs arbitrary: ss rule: json_strings.induct) auto

lemma rule_ca_field:
  "policy_rule_of_json v = Some cfg \<Longrightarrow> json_opt_field json_string_list ''ca'' v = Some (prc_ca cfg)"
  by (auto simp: policy_rule_of_json_def bind_eq_Some_conv split: if_splits)

lemma creatable_only_for:
  assumes "ca_scope_creatable rule s" and "policy_rule_of_json (json_insert ''name'' n rule) = Some cfg"
  shows "cfg_only_for s cfg"
proof -
  obtain cas where cas: "json_get ''ca'' rule = Some (JArray cas)" "cas \<noteq> []" "\<forall>c \<in> set cas. json_as_str c = Some s"
    using assms(1) by (auto simp: ca_scope_creatable_def split: option.splits json.splits)
  have "json_opt_field json_string_list ''ca'' rule = Some (prc_ca cfg)"
    using rule_ca_field [OF assms(2)] by (simp add: json_opt_field_def json_get_insert_other)
  then obtain ss where "prc_ca cfg = Some ss" "json_strings cas = Some ss"
    using cas(1) by (cases "json_strings cas"; cases "prc_ca cfg") (auto simp: json_opt_field_def json_string_list_def)
  then show ?thesis using json_strs_all [OF cas(3)] json_strs_nonempty [of cas ss] cas(2)
    by (cases ss) (auto simp: cfg_only_for_def)
qed

lemma validate_rule_cfg:
  "validate_rule_json px stx rule = Inr cfg \<Longrightarrow> policy_rule_of_json rule = Some cfg"
  by (cases "policy_rule_of_json rule"; cases "to_abac_rule px (the (policy_rule_of_json rule))")
     (simp_all add: validate_rule_json_def split: if_splits)

lemma mutable_only_for:
  "ca_scope_mutable jx (pr_rule_json (prt_row r)) s \<longleftrightarrow> rule_only_for jx s r"
proof -
  have "cas \<noteq> [] \<and> (\<forall>c \<in> set cas. c = s) \<longleftrightarrow> set cas = {s}" for cas by (cases cas) auto
  then show ?thesis
    by (simp add: ca_scope_mutable_def rule_only_for_def cfg_only_for_def split: option.split)
qed

lemma upd_where_none: "affected p rows = 0 \<Longrightarrow> upd_where p f rows = rows"
  by (simp add: upd_where_def affected_def filter_empty_conv map_idI)

lemma get_by_id_exists:
  "0 < affected (\<lambda>r. pr_id (prt_row r) = i \<and> rule_live r) t \<Longrightarrow> \<exists>old. policy_rules_get_by_id i t = Some old"
proof -
  assume "0 < affected (\<lambda>r. pr_id (prt_row r) = i \<and> rule_live r) t"
  then have "find (\<lambda>r. pr_id (prt_row r) = i \<and> rule_live r) t \<noteq> None"
    by (auto simp: affected_def find_None_iff filter_empty_conv)
  then show ?thesis by (auto simp: policy_rules_get_by_id_def)
qed

lemma created_cfg_ok:
  assumes "validate_rule_json px stx (json_insert ''name'' n rule) = Inr cfg"
    and "\<not> (case ca_scope c of Some s \<Rightarrow> \<not> ca_scope_creatable rule s | None \<Rightarrow> False)"
  shows "may_write c (\<lambda>s. cfg_only_for s cfg)"
  using assms(2) creatable_only_for [OF _ validate_rule_cfg [OF assms(1)]]
  by (auto simp: may_write_def split: option.splits)

text \<open>A rebuild that follows an edit, with the audit and the replication in between.\<close>

lemma applied_edit:
  assumes "rule_edit jx c (ps_rules st) t"
  shows "policy_effect px jx c st (snd (rebuild_or_defer px jx load
           (policy_audit o1 a i (st\<lparr>ps_rules := t, ps_app := app\<rparr>))))"
  by (rule applied) (simp_all add: assms policy_audit_def)

lemma post_policy_rule_effect:
  "policy_effect px jx c st (snd (post_policy_rule px jx stx msg iu io c len body st))"
proof (cases body)
  case (Inl e)
  then show ?thesis by (simp add: post_policy_rule_def refused)
next
  case (Inr p)
  show ?thesis
  proof (cases "validate_rule_json px stx (json_insert ''name'' (JString (cpp_name p)) (cpp_rule p))")
    case (Inl e)
    then show ?thesis using Inr by (simp add: post_policy_rule_def refused Let_def)
  next
    case v: (Inr cfg)
    show ?thesis
    proof (cases "(case ca_scope c of Some s \<Rightarrow> \<not> ca_scope_creatable (cpp_rule p) s | None \<Rightarrow> False)")
      case True
      then show ?thesis using Inr by (simp add: post_policy_rule_def refused)
    next
      case False
      note ok = added [OF created_cfg_ok [OF v False]]
      show ?thesis
        unfolding post_policy_rule_def Inr sum.case if_not_P [OF False] v Let_def
        by (auto simp: refused policy_rules_insert_def case_prod_beta intro!: applied_edit ok split: if_split)
    qed
  qed
qed

definition named_live :: "string \<Rightarrow> policy_rule_rec \<Rightarrow> bool" where
  "named_live i r \<longleftrightarrow> pr_id (prt_row r) = i \<and> rule_live r"

definition set_rule :: "string \<Rightarrow> string \<Rightarrow> i64 \<Rightarrow> string \<Rightarrow> policy_rule_rec \<Rightarrow> policy_rule_rec" where
  "set_rule name rj en ua r = r\<lparr>prt_row := (prt_row r)\<lparr>pr_name := name, pr_rule_json := rj,
     pr_enabled := en, pr_updated_at := ua\<rparr>\<rparr>"

lemma policy_rules_update_cases:
  "policy_rules_update msg i name rj en ua t = (Inl (from_sqlx_error (msg UniqueFailed)), t) \<or>
   policy_rules_update msg i name rj en ua t =
     (Inr (0 < affected (named_live i) t), upd_where (named_live i) (set_rule name rj en ua) t)"
  by (simp add: policy_rules_update_def Let_def named_live_def [abs_def] set_rule_def [abs_def])

lemma put_policy_rule_effect:
  "policy_effect px jx c st (snd (put_policy_rule px jx stx msg iu io c i len body st))"
proof (cases "body")
  case (Inl e)
  then show ?thesis by (simp add: put_policy_rule_def refused)
next
  case p: (Inr p)
  show ?thesis
  proof (cases "policy_rules_get_by_id i (ps_rules st)")
    case None
    then show ?thesis using p by (simp add: put_policy_rule_def refused)
  next
    case old: (Some old)
    let ?name = "or_keep (upp_name p) (pr_name old)"
    let ?out = "\<lambda>s. \<not> ca_scope_mutable jx (pr_rule_json old) s"
    let ?move = "\<lambda>s. \<not> ca_scope_creatable (upp_rule p) s"
    consider (bad) e where "validate_rule_json px stx (json_insert ''name'' (JString ?name) (upp_rule p)) = Inl e"
      | (out) "case ca_scope c of Some s \<Rightarrow> ?out s | None \<Rightarrow> False"
      | (move) "case ca_scope c of Some s \<Rightarrow> ?move s | None \<Rightarrow> False"
      | (ok) cfg where "validate_rule_json px stx (json_insert ''name'' (JString ?name) (upp_rule p)) = Inr cfg"
          "\<not> (case ca_scope c of Some s \<Rightarrow> ?out s | None \<Rightarrow> False)" "\<not> (case ca_scope c of Some s \<Rightarrow> ?move s | None \<Rightarrow> False)"
      by (meson sum.exhaust)
    then show ?thesis
    proof cases
      case (ok cfg)
      have mut: "may_write c (\<lambda>s. ca_scope_mutable jx (pr_rule_json old) s)"
        using ok(2) by (auto simp: may_write_def split: option.splits)
      note edit = changed [OF old mut created_cfg_ok [OF ok(1,3)]]
      let ?en = "if or_keep (upp_enabled p) (pr_enabled old \<noteq> 0) then 1 else 0 :: i64"
      note step = put_policy_rule_def p old ok(1) if_not_P [OF ok(2)] if_not_P [OF ok(3)] Let_def
      show ?thesis
        using policy_rules_update_cases [of msg i ?name "jx_print jx (policy_rule_to_json cfg)" ?en
            "pio_rfc3339_now io" "ps_rules st"]
      proof
        assume u: "policy_rules_update msg i ?name (jx_print jx (policy_rule_to_json cfg)) ?en
            (pio_rfc3339_now io) (ps_rules st) = (Inl (from_sqlx_error (msg UniqueFailed)), ps_rules st)"
        show ?thesis unfolding step sum.case option.case u by (simp add: refused)
      next
        assume u: "policy_rules_update msg i ?name (jx_print jx (policy_rule_to_json cfg)) ?en
            (pio_rfc3339_now io) (ps_rules st) =
            (Inr (0 < affected (named_live i) (ps_rules st)),
             upd_where (named_live i) (set_rule ?name (jx_print jx (policy_rule_to_json cfg)) ?en (pio_rfc3339_now io)) (ps_rules st))"
        have "rule_edit jx c (ps_rules st) (upd_where (named_live i)
            (set_rule n (jx_print jx (policy_rule_to_json cfg)) en ua) (ps_rules st))" for n en ua
          unfolding named_live_def by (rule edit) (simp_all add: set_rule_def)
        then show ?thesis unfolding step sum.case option.case u
          by (simp add: refused case_prod_beta upd_where_none applied_edit split: bool.split)
      qed
    qed (use p old in \<open>simp_all add: put_policy_rule_def refused Let_def\<close>)
  qed
qed

lemma delete_policy_rule_effect:
  "policy_effect px jx c st (snd (delete_policy_rule px jx io c i st))"
proof (cases "policy_rules_get_by_id i (ps_rules st)")
  case None
  then have "affected (\<lambda>r. pr_id (prt_row r) = i \<and> rule_live r) (ps_rules st) = 0"
    using get_by_id_exists [of i "ps_rules st"] by auto
  then show ?thesis
    by (simp add: delete_policy_rule_def policy_rules_delete_def Let_def upd_where_none refused)
next
  case (Some old)
  show ?thesis
  proof (cases "case ca_scope c of Some s \<Rightarrow> \<not> ca_scope_mutable jx (pr_rule_json old) s | None \<Rightarrow> False")
    case True
    then show ?thesis unfolding delete_policy_rule_def Some option.case by (simp add: refused)
  next
    case False
    then have "may_write c (\<lambda>s. ca_scope_mutable jx (pr_rule_json old) s)"
      by (auto simp: may_write_def split: option.splits)
    note edit = removed [OF Some this]
    show ?thesis
      unfolding delete_policy_rule_def Some option.case if_not_P [OF False] policy_rules_delete_def
      by (auto simp: Let_def refused case_prod_beta upd_where_none intro!: applied_edit edit split: if_split bool.split)
  qed
qed

section \<open>Confinement of a CA operator\<close>

datatype policy_request =
    PostRule policy_io nat "string + create_policy_rule_payload"
  | PutRule policy_io string nat "string + update_policy_rule_payload"
  | DeleteRule policy_io string

fun policy_call ::
  "'q policy_ext \<Rightarrow> json_ext \<Rightarrow> (json \<Rightarrow> string) \<Rightarrow> sql_texts \<Rightarrow> (string \<Rightarrow> bool) \<Rightarrow> operator_context
     \<Rightarrow> policy_request \<Rightarrow> policy_state \<Rightarrow> policy_state" where
  "policy_call px jx stx msg iu c (PostRule io len body) st = snd (post_policy_rule px jx stx msg iu io c len body st)"
| "policy_call px jx stx msg iu c (PutRule io i len body) st = snd (put_policy_rule px jx stx msg iu io c i len body st)"
| "policy_call px jx stx msg iu c (DeleteRule io i) st = snd (delete_policy_rule px jx io c i st)"

lemma policy_call_effect: "policy_effect px jx c st (policy_call px jx stx msg iu c call st)"
  by (cases call) (simp_all add: post_policy_rule_effect put_policy_rule_effect delete_policy_rule_effect)

lemma rebuild_keeps_rules [simp]: "ps_rules (snd (rebuild_or_defer px jx load st)) = ps_rules st"
  by (simp add: rebuild_or_defer_def rebuild_issuance_policy_def Let_def case_prod_beta
      split: option.split sum.split)

lemma policy_effect_edit: "policy_effect px jx c st st' \<Longrightarrow> rule_edit jx c (ps_rules st) (ps_rules st')"
  by (induction rule: policy_effect.induct) (simp_all add: unchanged)

text \<open>
  The table \<open>t'\<close> differs from \<open>t\<close> only in rules that are exclusively for the CA \<open>s\<close>.
\<close>

definition confined :: "json_ext \<Rightarrow> string \<Rightarrow> rule_table \<Rightarrow> rule_table \<Rightarrow> bool" where
  "confined jx s t t' \<longleftrightarrow>
     {r \<in> set t. \<not> rule_only_for jx s r} = {r \<in> set t'. \<not> rule_only_for jx s r}"

text \<open>What the library does: a rule it has printed parses to the same value.\<close>

definition prints_rules :: "json_ext \<Rightarrow> bool" where
  "prints_rules jx \<longleftrightarrow>
     (\<forall>cfg. jx_parse jx (jx_print jx (policy_rule_to_json cfg)) = Some (policy_rule_to_json cfg))"

definition ids_distinct :: "rule_table \<Rightarrow> bool" where
  "ids_distinct t \<longleftrightarrow> distinct (map (pr_id \<circ> prt_row) t)"

lemma only_for_printed:
  assumes "prints_rules jx"
    and "pr_rule_json (prt_row r) = jx_print jx (policy_rule_to_json cfg)" and "cfg_only_for s cfg"
  shows "rule_only_for jx s r"
  using assms by (simp add: rule_only_for_def rule_of_text_def prints_rules_def)

lemma get_by_id_unique:
  assumes "ids_distinct t" "policy_rules_get_by_id i t = Some old" "r \<in> set t" "pr_id (prt_row r) = i"
  shows "prt_row r = old"
proof -
  obtain q where "q \<in> set t" "pr_id (prt_row q) = i" "prt_row q = old"
    using assms(2) by (auto simp: policy_rules_get_by_id_def find_Some_iff intro: nth_mem)
  then show ?thesis using assms unfolding ids_distinct_def distinct_map inj_on_def by (metis comp_apply)
qed

lemma upd_confined:
  assumes "\<And>r. r \<in> set t \<Longrightarrow> p r \<Longrightarrow> rule_only_for jx s r \<and> rule_only_for jx s (f r)"
  shows "confined jx s t (upd_where p f t)"
  using assms by (auto simp: confined_def upd_where_def)

lemma rule_edit_confined:
  assumes "rule_edit jx c t t'" and "ids_distinct t" and "ca_scope c = Some s"
    and pp: "prints_rules jx"
  shows "confined jx s t t' \<and> ids_distinct t'"
  using assms(1)
proof cases
  case (changed i old cfg f)
  have "confined jx s t t'" unfolding changed(1)
  proof (rule upd_confined)
    fix r assume r: "r \<in> set t" "pr_id (prt_row r) = i \<and> rule_live r"
    have "prt_row r = old" using get_by_id_unique [OF assms(2) changed(2)] r by blast
    then have "rule_only_for jx s r"
      using changed(3) assms(3) mutable_only_for [of jx r s] by (simp add: may_write_def)
    moreover have "rule_only_for jx s (f r)"
      using changed(4) assms(3) by (intro only_for_printed [OF pp changed(6)]) (simp add: may_write_def)
    ultimately show "rule_only_for jx s r \<and> rule_only_for jx s (f r)" by blast
  qed
  then show ?thesis using assms(2) changed(5) unfolding changed(1) by (simp add: ids_distinct_def upd_where_map)
next
  case (removed i old f)
  have "confined jx s t t'" unfolding removed(1)
  proof (rule upd_confined)
    fix r assume r: "r \<in> set t" "pr_id (prt_row r) = i \<and> rule_live r"
    have "prt_row r = old" using get_by_id_unique [OF assms(2) removed(2)] r by blast
    then have "rule_only_for jx s r"
      using removed(3) assms(3) mutable_only_for [of jx r s] by (simp add: may_write_def)
    then show "rule_only_for jx s r \<and> rule_only_for jx s (f r)" using removed(5) by (simp add: rule_only_for_def)
  qed
  then show ?thesis using assms(2) removed(4) unfolding removed(1) by (simp add: ids_distinct_def upd_where_map)
next
  case (added cfg row)
  have "rule_only_for jx s \<lparr>prt_row = row, prt_tombstone = False, prt_tombstone_at = None\<rparr>"
    using added(2,3) assms(3) by (intro only_for_printed [OF pp]) (simp_all add: may_write_def)
  then show ?thesis using added(4) assms(2) unfolding added(1) by (auto simp: confined_def ids_distinct_def)
qed (use assms(2) in \<open>simp add: confined_def\<close>)

lemma confined_trans: "confined jx s t u \<Longrightarrow> confined jx s u w \<Longrightarrow> confined jx s t w"
  by (simp add: confined_def)

lemma calls_confined:
  assumes "ca_scope c = Some s" and "prints_rules jx"
  shows "ids_distinct (ps_rules st) \<Longrightarrow>
    confined jx s (ps_rules st) (ps_rules (fold (policy_call px jx stx msg iu c) calls st))"
proof (induction calls arbitrary: st)
  case (Cons a calls)
  have "confined jx s (ps_rules st) (ps_rules (policy_call px jx stx msg iu c a st))
      \<and> ids_distinct (ps_rules (policy_call px jx stx msg iu c a st))"
    by (rule rule_edit_confined [OF policy_effect_edit [OF policy_call_effect] Cons.prems assms])
  then show ?case using Cons.IH [of "policy_call px jx stx msg iu c a st"] by (auto intro: confined_trans)
qed (simp add: confined_def)

section \<open>A sample of the parameters\<close>

text \<open>
  An instance of the parameters for the witnesses. Lists of lists are written as one list, every element
  behind a mark \<open>m\<close> and every list ended by \<open>e\<close>; a rule is printed as the list of its fields.
\<close>

definition flatten :: "'a \<Rightarrow> 'a \<Rightarrow> 'a list list \<Rightarrow> 'a list" where
  "flatten m e xss = concat (map (\<lambda>xs. concat (map (\<lambda>x. [m, x]) xs) @ [e]) xss)"

fun unflatten :: "'a \<Rightarrow> 'a list \<Rightarrow> 'a list \<Rightarrow> 'a list list" where
  "unflatten e acc [] = []"
| "unflatten e acc [y] = (if y = e then [rev acc] else [])"
| "unflatten e acc (y # x # ys) = (if y = e then rev acc # unflatten e [] (x # ys) else unflatten e (x # acc) ys)"

lemma unflatten_end: "unflatten e acc (e # ys) = rev acc # unflatten e [] ys"
  by (cases ys) simp_all

lemma unflatten_one:
  "m \<noteq> e \<Longrightarrow> unflatten e acc (concat (map (\<lambda>x. [m, x]) xs) @ e # ys) = (rev acc @ xs) # unflatten e [] ys"
  by (induction xs arbitrary: acc) (simp_all add: unflatten_end)

lemma unflatten_flatten [simp]: "m \<noteq> e \<Longrightarrow> unflatten e [] (flatten m e xss) = xss"
  by (induction xss) (simp_all add: flatten_def unflatten_one)

definition opt_field :: "string list option \<Rightarrow> string list" where
  "opt_field x = (case x of None \<Rightarrow> [] | Some ss \<Rightarrow> [] # ss)"

definition field_opt :: "string list \<Rightarrow> string list option" where
  "field_opt f = (case f of [] \<Rightarrow> None | _ # ss \<Rightarrow> Some ss)"

definition rule_fields :: "policy_rule_config \<Rightarrow> string list list" where
  "rule_fields c = [[prc_name c], if prc_rule_type c = Deny then [] else [[]]] @
     map opt_field [prc_profile c, prc_ca c, prc_account c, prc_account_group c, prc_identifier c, prc_key_type c,
       map_option (\<lambda>s. [s]) (prc_valid_from c), map_option (\<lambda>s. [s]) (prc_valid_until c),
       map_option (\<lambda>b. if b then [[]] else []) (prc_enabled c)]"

definition fields_rule :: "string list list \<Rightarrow> policy_rule_config" where
  "fields_rule f = \<lparr>prc_name = hd (f ! 0), prc_rule_type = (if f ! 1 = [] then Deny else Allow),
     prc_profile = field_opt (f ! 2), prc_ca = field_opt (f ! 3), prc_account = field_opt (f ! 4),
     prc_account_group = field_opt (f ! 5), prc_identifier = field_opt (f ! 6), prc_key_type = field_opt (f ! 7),
     prc_valid_from = map_option hd (field_opt (f ! 8)), prc_valid_until = map_option hd (field_opt (f ! 9)),
     prc_enabled = map_option (\<lambda>x. x \<noteq> []) (field_opt (f ! 10))\<rparr>"

lemma field_opt_field [simp]: "field_opt (opt_field x) = x"
  by (cases x) (simp_all add: opt_field_def field_opt_def)

lemma fields_rule_fields [simp]: "fields_rule (rule_fields c) = c"
  by (cases c, cases "prc_rule_type c")
     (auto simp: rule_fields_def fields_rule_def map_option.compositionality comp_def map_option_case nth_Cons'
       split: option.split)

definition sample_jx :: json_ext where
  "sample_jx =
     \<lparr>jx_parse = (\<lambda>s. Some (policy_rule_to_json (fields_rule (unflatten ''.'' [] (unflatten CHR ''.'' [] s))))),
      jx_print = (\<lambda>v. case policy_rule_of_json v of
         Some c \<Rightarrow> flatten CHR ''x'' CHR ''.'' (flatten ''x'' ''.'' (rule_fields c)) | None \<Rightarrow> [])\<rparr>"

lemma sample_prints: "prints_rules sample_jx"
  by (simp add: prints_rules_def sample_jx_def)

lemma sample_reads [simp]: "rule_of_text sample_jx (jx_print sample_jx (policy_rule_to_json c)) = Some c"
  using sample_prints by (simp add: prints_rules_def rule_of_text_def)

definition sample_px :: "(string \<times> attribute_type list) list policy_ext" where
  "sample_px = \<lparr>px_regex = (\<lambda>p. Inr (\<lambda>s. s = p)), px_glob = (=), px_rfc3339 = (\<lambda>_. Inl ''no date''),
     px_uuid_v5 = (\<lambda>n s. n @ s), px_temporal = (\<lambda>_ _ _. Inr ()), px_build = (\<lambda>_ _. Inr ()),
     px_new_request = [], px_add_attribute = (\<lambda>q d v vs. Inr ((d, v # vs) # q)),
     px_evaluate = (\<lambda>_ rs _ _. \<lparr>ed_decision = (if list_ex ar_deny rs then DenyDecision else AllowDecision),
       ed_matched_rules = []\<rparr>)\<rparr>"

definition sample_rule :: "string \<Rightarrow> string \<Rightarrow> policy_rule_config" where
  "sample_rule name ca = policy_rule_default\<lparr>prc_name := name, prc_ca := Some [ca]\<rparr>"

definition sample_row :: "string \<Rightarrow> policy_rule_config \<Rightarrow> policy_rule_row" where
  "sample_row i c = \<lparr>pr_id = i, pr_scope = ''issuance'', pr_name = prc_name c,
     pr_rule_json = jx_print sample_jx (policy_rule_to_json c), pr_enabled = 1, pr_created_at = ''t'',
     pr_updated_at = ''t'', pr_created_by = Some ''op''\<rparr>"

definition sample_rec :: "string \<Rightarrow> policy_rule_config \<Rightarrow> policy_rule_rec" where
  "sample_rec i c = \<lparr>prt_row = sample_row i c, prt_tombstone = False, prt_tombstone_at = None\<rparr>"

definition sample_policy :: "rule_table \<Rightarrow> policy_state" where
  "sample_policy t = \<lparr>ps_app = sample_state, ps_rules = t,
     ps_engine = \<lparr>ipe_policy = \<lparr>ap_rules = [], ap_temporal = []\<rparr>, ipe_mode = Enforce, ipe_toml_rules = []\<rparr>,
     ps_rebuild_needed = False, ps_audit = []\<rparr>"

definition sample_ca_operator :: operator_context where
  "sample_ca_operator = \<lparr>oc_operator_id = 1, oc_name = ''op'', oc_role = CaRa, oc_ca_id = ''ca1'',
     oc_auth_method = AuthCert, oc_session_token = None\<rparr>"

definition sample_policy_io :: "acme_error option \<Rightarrow> policy_io" where
  "sample_policy_io load = \<lparr>pio_lock_ok = True, pio_load = load, pio_rfc3339_now = ''t'', pio_unix_now = 5,
     pio_uuid = ''u1''\<rparr>"

definition sample_create :: "acme_error option \<Rightarrow> policy_request" where
  "sample_create load = PostRule (sample_policy_io load) 40 (Inr \<lparr>cpp_scope = None, cpp_name = ''a'',
     cpp_rule = JObject [(''type'', JString ''allow''), (''ca'', JArray [JString ''ca1''])], cpp_enabled = None\<rparr>)"

text \<open>C27: Whatever an operator bound to one CA asks for, in any order and number of requests, every rule
  that is not exclusively for that CA (and every rule whose text cannot be read) stays in the table
  unchanged, and no other rule of that kind appears: only rules exclusively for its CA are created,
  changed or removed. The identifiers of the rules are the primary key of the table.\<close>

theorem policy_scope_confined:
  assumes "ca_scope c = Some s" and "prints_rules jx" and "ids_distinct (ps_rules st)"
  shows "confined jx s (ps_rules st) (ps_rules (fold (policy_call px jx stx msg iu c) calls st))"
  by (rule calls_confined [OF assms])

theorem policy_scope_confined_witness:
  "confined sample_jx ''ca1'' [sample_rec ''r2'' (sample_rule ''b'' ''ca2'')]
     (ps_rules (fold (policy_call sample_px sample_jx (\<lambda>_. []) (\<lambda>_. []) (\<lambda>_. True) sample_ca_operator)
        [DeleteRule (sample_policy_io None) ''r2'', sample_create None]
        (sample_policy [sample_rec ''r2'' (sample_rule ''b'' ''ca2'')])))"
proof -
  let ?st = "sample_policy [sample_rec ''r2'' (sample_rule ''b'' ''ca2'')]"
  have "ps_rules ?st = [sample_rec ''r2'' (sample_rule ''b'' ''ca2'')]" "ids_distinct (ps_rules ?st)"
    "ca_scope sample_ca_operator = Some ''ca1''"
    by (simp_all add: sample_policy_def ids_distinct_def ca_scope_def sample_ca_operator_def)
  then show ?thesis using policy_scope_confined [OF _ sample_prints, of sample_ca_operator "''ca1''" ?st] by metis
qed

lemma sample_built:
  "built_rule sample_px ''issuance'' (sample_rule n ca) =
     \<lparr>ar_name = n, ar_deny = False, ar_enabled = True,
      ar_id = namespace_dns @ ''akamu.policy'' @ ''issuance/'' @ n, ar_dimensions = [(''ca'', [AttrString ca])]\<rparr>"
  by (simp add: built_rule_def sample_rule_def policy_rule_default_def rule_uuid_v5_def sample_px_def
      set_dimension_def dim_defs)

lemma sample_translates:
  "n \<noteq> [] \<Longrightarrow> to_abac_rule sample_px (sample_rule n ca) = Inr (Regular (built_rule sample_px ''issuance'' (sample_rule n ca)))"
  by (simp add: to_abac_rule_def to_abac_rule_scoped_def sample_rule_def policy_rule_default_def Let_def
      parse_opt_millis_def)

lemma sample_cfg_read:
  "policy_rule_of_json (json_insert ''name'' (JString ''a'')
     (JObject [(''type'', JString ''allow''), (''ca'', JArray [JString ''ca1''])])) = Some (sample_rule ''a'' ''ca1'')"
  by (simp add: policy_rule_of_json_def json_insert_def json_is_object_def json_get_def json_as_str_def
      json_opt_field_def json_string_list_def rule_type_of_json_def sample_rule_def policy_rule_default_def)

lemma sample_created:
  "ps_rules (policy_call sample_px sample_jx (\<lambda>_. []) (\<lambda>_. []) (\<lambda>_. True) sample_ca_operator (sample_create load)
     (sample_policy [])) = [sample_rec ''u1'' (sample_rule ''a'' ''ca1'')]"
proof -
  have "validate_rule_json sample_px (\<lambda>_. []) (json_insert ''name'' (JString ''a'')
     (JObject [(''type'', JString ''allow''), (''ca'', JArray [JString ''ca1''])])) = Inr (sample_rule ''a'' ''ca1'')"
    unfolding validate_rule_json_def sample_cfg_read by (simp add: sample_translates) (simp add: json_is_object_def)
  moreover have "ca_scope_creatable (JObject [(''type'', JString ''allow''), (''ca'', JArray [JString ''ca1''])]) ''ca1''"
    by (simp add: ca_scope_creatable_def json_get_def json_as_str_def)
  ultimately show ?thesis
    by (simp add: sample_create_def post_policy_rule_def Let_def or_keep_def known_scopes_def max_name_len_def
        max_rule_json_bytes_def policy_rules_get_by_scope_and_name_def policy_rules_insert_def name_taken_def
        sample_policy_def policy_audit_def case_prod_beta sample_rec_def sample_row_def sample_policy_io_def
        ca_scope_def sample_ca_operator_def sample_rule_def)
qed

section \<open>When a change reaches the engine\<close>

definition stored_rules :: "json_ext \<Rightarrow> policy_state \<Rightarrow> policy_rule_config list" where
  "stored_rules jx st = pd_rules (parse_db_rules jx (policy_rules_list_by_scope ''issuance'' (ps_rules st)))"

definition policy_current :: "'q policy_ext \<Rightarrow> json_ext \<Rightarrow> policy_state \<Rightarrow> bool" where
  "policy_current px jx st \<longleftrightarrow>
     build_policy px (ipe_toml_rules (ps_engine st)) (stored_rules jx st) = Inr (ipe_policy (ps_engine st))"

definition settled :: "'q policy_ext \<Rightarrow> json_ext \<Rightarrow> policy_state \<Rightarrow> bool" where
  "settled px jx st \<longleftrightarrow> ps_rebuild_needed st \<or> policy_current px jx st"

text \<open>The table can be loaded: its rules can be translated and, under enforcement, all of them parse.\<close>

definition loadable :: "'q policy_ext \<Rightarrow> json_ext \<Rightarrow> policy_state \<Rightarrow> bool" where
  "loadable px jx st \<longleftrightarrow>
     \<not> isl (build_policy px (ipe_toml_rules (ps_engine st)) (stored_rules jx st)) \<and>
     (ipe_mode (ps_engine st) = Shadow \<or>
      pd_skipped (parse_db_rules jx (policy_rules_list_by_scope ''issuance'' (ps_rules st))) = 0)"

datatype policy_event =
    AdminCall operator_context policy_request
  | RetryTick "acme_error option"
  | RoundTick "acme_error option" bool "aka_crdt list"

fun policy_event_step ::
  "'q policy_ext \<Rightarrow> json_ext \<Rightarrow> (json \<Rightarrow> string) \<Rightarrow> sql_texts \<Rightarrow> (string \<Rightarrow> bool) \<Rightarrow> policy_event
     \<Rightarrow> policy_state \<Rightarrow> policy_state" where
  "policy_event_step px jx stx msg iu (AdminCall c req) st = policy_call px jx stx msg iu c req st"
| "policy_event_step px jx stx msg iu (RetryTick load) st = retry_rebuild px jx load st"
| "policy_event_step px jx stx msg iu (RoundTick load ok peers) st = merge_round px jx load ok peers st"

lemma rebuild_settles: "settled px jx (snd (rebuild_or_defer px jx load st))"
  by (auto simp: rebuild_or_defer_def rebuild_issuance_policy_def settled_def policy_current_def stored_rules_def
      engine_rebuild_def Let_def case_prod_beta split: option.split sum.split)

lemma settled_cong:
  "ps_rules st' = ps_rules st \<Longrightarrow> ps_engine st' = ps_engine st \<Longrightarrow> ps_rebuild_needed st' = ps_rebuild_needed st
     \<Longrightarrow> settled px jx st' = settled px jx st"
  by (simp add: settled_def policy_current_def stored_rules_def)

lemma event_settles: "settled px jx st \<Longrightarrow> settled px jx (policy_event_step px jx stx msg iu ev st)"
proof (cases ev)
  case (AdminCall c req)
  assume "settled px jx st"
  then have "settled px jx st'" if "policy_effect px jx c st st'" for st'
    using that(1) by (auto simp: rebuild_settles elim: policy_effect.cases)
  then show ?thesis using AdminCall by (simp add: policy_call_effect)
qed (auto simp: retry_rebuild_def merge_round_def Let_def rebuild_settles
       intro: settled_cong [THEN iffD2])

lemma events_settle: "settled px jx st \<Longrightarrow> settled px jx (fold (policy_event_step px jx stx msg iu) evs st)"
  by (induction evs arbitrary: st) (simp_all add: event_settles)

lemma loadable_rebuild:
  assumes "loadable px jx st"
  shows "policy_current px jx (snd (rebuild_or_defer px jx None st))"
  using assms by (auto simp: rebuild_or_defer_def rebuild_issuance_policy_def loadable_def policy_current_def
      stored_rules_def engine_rebuild_def Let_def split: sum.splits)

lemma rebuild_toml [simp]:
  "ipe_toml_rules (ps_engine (snd (rebuild_or_defer px jx load st))) = ipe_toml_rules (ps_engine st)"
  by (simp add: rebuild_or_defer_def rebuild_issuance_policy_def engine_rebuild_def Let_def
      split: option.split sum.split)

lemma retry_makes_current:
  assumes "settled px jx st" and "loadable px jx st"
  shows "policy_current px jx (retry_rebuild px jx None st)"
proof (cases "ps_rebuild_needed st")
  case True
  have "loadable px jx (st\<lparr>ps_rebuild_needed := False\<rparr>)" using assms(2) by (simp add: loadable_def stored_rules_def)
  then show ?thesis using True loadable_rebuild by (simp add: retry_rebuild_def)
qed (use assms(1) in \<open>simp add: settled_def retry_rebuild_def\<close>)

lemma retry_keeps [simp]:
  "ps_rules (retry_rebuild px jx load st) = ps_rules st"
  "ipe_toml_rules (ps_engine (retry_rebuild px jx load st)) = ipe_toml_rules (ps_engine st)"
  by (simp_all add: retry_rebuild_def)

definition enforced_rules :: "policy_state \<Rightarrow> abac_rule multiset" where
  "enforced_rules st = (let p = ipe_policy (ps_engine st) in mset (ap_rules p @ map tr_rule (ap_temporal p)))"

lemma current_enforces:
  "policy_current px jx st \<Longrightarrow>
     enforced_rules st = mset (map (built_rule px ''issuance'') (ipe_toml_rules (ps_engine st) @ stored_rules jx st))"
  by (simp only: policy_current_def enforced_rules_def Let_def build_policy_complete)


lemma effect_keeps_config:
  "policy_effect px jx c st st' \<Longrightarrow> ipe_toml_rules (ps_engine st') = ipe_toml_rules (ps_engine st)"
  by (induction rule: policy_effect.induct) simp_all


end
