(* ===== verification/Gossip_Crypto.thy ===== *)
theory Gossip_Crypto
  imports Mtc_Formats
begin

text \<open>
  The sealing of gossip messages (\<^verbatim>\<open>src/gossip/crypto.rs\<close>): a message is compressed, encrypted for its
  recipients under a fresh key that is wrapped for each of them, and signed. The primitives of the
  libraries (zstd, AES, ML-KEM, HKDF, the DER codecs, CMS signatures) are the record of parameters
  \<open>cms_ext\<close>; what is modelled in full is the code's own: the key wrap of RFC 3394, the walk over the
  recipient infos, and the order of the checks. Randomness is an argument.
\<close>

unbundle bit_operations_syntax

section \<open>Errors and parameters\<close>

datatype cms_error =
    OpenSsl string | Encode | ParseError | SignatureInvalid | NoMatchingRecipient | NoSignerCert
  | Compress string | Decompress string

record seal_recipient =
  sr_hint :: string
  sr_spki_der :: bytes

text \<open>The fields \<^verbatim>\<open>build_kem_ori_der\<close> fills in; algorithm identifiers are given by their encoding.\<close>

record kem_recipient_info =
  kri_version :: nat
  kri_rid :: bytes
  kri_kem :: bytes
  kri_kemct :: bytes
  kri_kdf :: bytes
  kri_kek_length :: nat
  kri_ukm :: "bytes option"
  kri_wrap :: bytes
  kri_encrypted_key :: bytes

record enveloped_data =
  ed_recipient_infos :: bytes                 \<comment> \<open>the encoded SET\<close>
  ed_algorithm_der :: "bytes option"          \<comment> \<open>re-encoded content encryption algorithm\<close>
  ed_encrypted_content :: "bytes option"

record cms_ext =
  cx_zstd_encode :: "bytes \<Rightarrow> string + bytes"
  cx_zstd_new :: "bytes \<Rightarrow> string + unit"
  cx_zstd_stream :: "bytes \<Rightarrow> bytes \<times> string option"   \<comment> \<open>output and the error that ends it, if any\<close>
  cx_gcm_encrypt :: "bytes \<Rightarrow> bytes \<Rightarrow> bytes \<Rightarrow> string + bytes \<times> bytes"
  cx_gcm_decrypt :: "bytes \<Rightarrow> bytes \<Rightarrow> bytes \<Rightarrow> bytes \<Rightarrow> string + bytes"
  cx_encapsulate :: "bytes \<Rightarrow> nat \<Rightarrow> string + bytes \<times> bytes"
  cx_private_key :: "bytes \<Rightarrow> string + bytes"
  cx_decapsulate :: "bytes \<Rightarrow> bytes \<Rightarrow> string + bytes"
  cx_hkdf_sha256 :: "bytes \<Rightarrow> bytes \<Rightarrow> bytes \<Rightarrow> nat \<Rightarrow> string + bytes"
  cx_sha256 :: "bytes \<Rightarrow> string + bytes"
  cx_aes_ecb :: "bytes \<Rightarrow> bytes \<Rightarrow> bool \<Rightarrow> string + bytes"
  cx_algorithm_ok :: "bytes \<Rightarrow> bool"
  cx_kri_to_der :: "kem_recipient_info \<Rightarrow> bytes option"
  cx_kri_from_der :: "bytes \<Rightarrow> kem_recipient_info option"
  cx_id_ori_kem :: "nat list"
  cx_oid_ok :: "nat list \<Rightarrow> bool"
  cx_ori_to_der :: "nat list \<Rightarrow> bytes \<Rightarrow> bytes option"
  cx_ori_from_der :: "bytes \<Rightarrow> (nat list \<times> bytes) option"
  cx_enveloped_build :: "bytes \<Rightarrow> bytes \<Rightarrow> bytes list \<Rightarrow> bytes option"
  cx_enveloped_from_der :: "bytes \<Rightarrow> enveloped_data option"
  cx_cms_sign :: "bytes \<Rightarrow> bytes \<Rightarrow> bytes \<Rightarrow> string + bytes"          \<comment> \<open>certificate, key and content\<close>
  cx_cms_certs :: "bytes \<Rightarrow> string + (string + bytes) list"      \<comment> \<open>public keys of the embedded certificates\<close>
  cx_cms_verify :: "bytes \<Rightarrow> string + bytes"

record seal_random =
  rnd_cek :: "string + bytes"
  rnd_nonce :: "string + bytes"
  rnd_seed :: "nat \<Rightarrow> nat"

text \<open>A library call whose error becomes \<open>OpenSsl\<close>, and a conversion into an array of fixed length.\<close>

definition ossl :: "string + 'a \<Rightarrow> cms_error + 'a" where
  "ossl r = (case r of Inl e \<Rightarrow> Inl (OpenSsl e) | Inr x \<Rightarrow> Inr x)"

definition sized :: "nat \<Rightarrow> cms_error + bytes \<Rightarrow> cms_error + bytes" where
  "sized n r = (case r of Inl e \<Rightarrow> Inl e | Inr b \<Rightarrow> if length b = n then Inr b else Inl Encode)"

lemma ossl_simps [simp]: "ossl (Inl e) = Inl (OpenSsl e)" "ossl (Inr x) = Inr x"
  by (simp_all add: ossl_def)

lemma ossl_Inr [simp]: "ossl r = Inr x \<longleftrightarrow> r = Inr x"
  by (cases r) simp_all

lemma sized_Inr [simp]: "sized n r = Inr b \<longleftrightarrow> r = Inr b \<and> length b = n"
  by (auto simp: sized_def split: sum.split)

section \<open>Constants and encodings\<close>

definition aes256_gcm_oid_body :: bytes where
  "aes256_gcm_oid_body = [0x60, 0x86, 0x48, 0x01, 0x65, 0x03, 0x04, 0x01, 0x2e]"

definition ml_kem_768_alg_der :: bytes where
  "ml_kem_768_alg_der = [0x30, 0x0b, 0x06, 0x09, 0x60, 0x86, 0x48, 0x01, 0x65, 0x03, 0x04, 0x04, 0x02]"

definition hkdf_sha256_alg_der :: bytes where
  "hkdf_sha256_alg_der =
     [0x30, 0x0d, 0x06, 0x0b, 0x2a, 0x86, 0x48, 0x86, 0xf7, 0x0d, 0x01, 0x09, 0x10, 0x03, 0x1c]"

definition aes256_wrap_alg_der :: bytes where
  "aes256_wrap_alg_der = [0x30, 0x0b, 0x06, 0x09, 0x60, 0x86, 0x48, 0x01, 0x65, 0x03, 0x04, 0x01, 0x2d]"

definition hkdf_info :: bytes where "hkdf_info = str_bytes ''akamu-cms-kek''"

definition aes_wrap_iv :: u64 where "aes_wrap_iv = 0xA6A6A6A6A6A6A6A6"

definition aes256gcm_alg_id_der :: "bytes \<Rightarrow> bytes" where
  "aes256gcm_alg_id_der nonce =
     [0x30, 0x1e, 0x06, 0x09] @ aes256_gcm_oid_body @ [0x30, 0x11, 0x04, 0x0c] @ nonce @ [0x02, 0x01, 0x10]"

text \<open>One position of the search for the algorithm identifier; the slices are absent out of range.\<close>

definition gcm_nonce_at :: "bytes \<Rightarrow> nat \<Rightarrow> bytes option" where
  "gcm_nonce_at der i =
     (if der ! i = 0x06 \<and> i + 1 < length der \<and> der ! (i + 1) = 0x09
         \<and> i + 11 \<le> length der \<and> take 9 (drop (i + 2) der) = aes256_gcm_oid_body
         \<and> i + 11 + 4 + 12 \<le> length der
      then Some (take 12 (drop (i + 11 + 4) der)) else None)"

definition extract_gcm_nonce :: "bytes \<Rightarrow> cms_error + bytes" where
  "extract_gcm_nonce der =
     (case List.map_filter (gcm_nonce_at der) [0..<length der - (length aes256_gcm_oid_body + 4)] of
        [] \<Rightarrow> Inl ParseError | n # _ \<Rightarrow> Inr n)"

definition build_ski_der :: "bytes \<Rightarrow> bytes" where
  "build_ski_der hash = 0x80 # 0x20 # hash"

definition decode_der_length :: "bytes \<Rightarrow> cms_error + nat \<times> nat" where
  "decode_der_length data =
     (case data of
        [] \<Rightarrow> Inl ParseError
      | b0 # rest \<Rightarrow>
          if b0 < 0x80 then Inr (unat b0, 1)
          else let n = unat (b0 AND 0x7f) in
               if n = 0 \<or> n > 4 \<or> length data < 1 + n then Inl ParseError
               else Inr (be_value (take n rest), 1 + n))"

lemma decode_der_length_pos: "decode_der_length data = Inr (n, lb) \<Longrightarrow> 0 < lb"
  by (auto simp: decode_der_length_def Let_def split: list.splits if_splits)

function der_elements :: "bytes \<Rightarrow> nat \<Rightarrow> nat \<Rightarrow> cms_error + bytes list" where
  "der_elements set_der pos fin =
     (if pos < fin \<and> \<not> pos + 2 > fin then
        (case decode_der_length (drop (pos + 1) set_der) of
           Inl e \<Rightarrow> Inl e
         | Inr (elem_len, lb) \<Rightarrow>
             (let next = pos + 1 + lb + elem_len in
              if next > fin then Inl ParseError
              else and_then (der_elements set_der next fin)
                     (\<lambda>es. Inr (take (next - pos) (drop pos set_der) # es))))
      else Inr [])"
  by pat_completeness auto
termination by (relation "measure (\<lambda>(_, pos, fin). fin - pos)") (auto dest: decode_der_length_pos)

declare der_elements.simps [simp del]

definition iter_der_elements :: "bytes \<Rightarrow> cms_error + bytes list" where
  "iter_der_elements set_der =
     (if length set_der < 2 then Inr []
      else and_then (decode_der_length (drop 1 set_der)) (\<lambda>(outer_len, lb).
        let pos = 1 + lb; fin = pos + outer_len in
        if fin > length set_der then Inl ParseError else der_elements set_der pos fin))"

section \<open>Hashing and key derivation\<close>

definition sha256_32 :: "cms_ext \<Rightarrow> bytes \<Rightarrow> cms_error + bytes" where
  "sha256_32 cx data = sized 32 (ossl (cx_sha256 cx data))"

definition hkdf_sha256_kek :: "cms_ext \<Rightarrow> bytes \<Rightarrow> bytes \<Rightarrow> cms_error + bytes" where
  "hkdf_sha256_kek cx shared_secret kemct =
     sized 32 (ossl (cx_hkdf_sha256 cx shared_secret kemct hkdf_info 32))"

definition build_kem_ori_der :: "cms_ext \<Rightarrow> bytes \<Rightarrow> bytes \<Rightarrow> bytes \<Rightarrow> cms_error + bytes" where
  "build_kem_ori_der cx kemct ski_der encrypted_cek =
     (if \<not> cx_algorithm_ok cx ml_kem_768_alg_der \<or> \<not> cx_algorithm_ok cx hkdf_sha256_alg_der
         \<or> \<not> cx_algorithm_ok cx aes256_wrap_alg_der then Inl ParseError
      else
        and_then (ok_or Encode (cx_kri_to_der cx \<lparr>kri_version = 0, kri_rid = ski_der, kri_kem = ml_kem_768_alg_der,
          kri_kemct = kemct, kri_kdf = hkdf_sha256_alg_der, kri_kek_length = 32, kri_ukm = None,
          kri_wrap = aes256_wrap_alg_der, kri_encrypted_key = encrypted_cek\<rparr>)) (\<lambda>kri_der.
        if \<not> cx_oid_ok cx (cx_id_ori_kem cx) then Inl Encode
        else and_then (ok_or Encode (cx_ori_to_der cx (cx_id_ori_kem cx) kri_der)) (\<lambda>ori_der.
          case ori_der of
            b0 # rest \<Rightarrow> if b0 = 0x30 then Inr (0xa4 # rest) else Inl Encode
          | [] \<Rightarrow> Inl Encode)))"

section \<open>The key wrap of RFC 3394\<close>

definition aes_ecb_block :: "cms_ext \<Rightarrow> bytes \<Rightarrow> bytes \<Rightarrow> bool \<Rightarrow> cms_error + bytes" where
  "aes_ecb_block cx kek block encrypt = sized 16 (ossl (cx_aes_ecb cx kek block encrypt))"

text \<open>The loop indices in order, and the register and the four blocks the loop updates.\<close>

definition wrap_rounds :: "(nat \<times> nat) list" where
  "wrap_rounds = List.product [0..<6] [0..<4]"

definition wrap_step ::
  "cms_ext \<Rightarrow> bytes \<Rightarrow> nat \<times> nat \<Rightarrow> bytes \<times> bytes list \<Rightarrow> cms_error + bytes \<times> bytes list" where
  "wrap_step cx kek = (\<lambda>(j, i) (a, r).
     and_then (aes_ecb_block cx kek (a @ r ! i) True) (\<lambda>b.
       Inr (map2 (XOR) (take 8 b) (be64 (4 * j + i + 1)), r[i := drop 8 b])))"

definition unwrap_step ::
  "cms_ext \<Rightarrow> bytes \<Rightarrow> nat \<times> nat \<Rightarrow> bytes \<times> bytes list \<Rightarrow> cms_error + bytes \<times> bytes list" where
  "unwrap_step cx kek = (\<lambda>(j, i) (a, r).
     and_then (aes_ecb_block cx kek (map2 (XOR) a (be64 (4 * j + i + 1)) @ r ! i) False) (\<lambda>b.
       Inr (take 8 b, r[i := drop 8 b])))"

fun run_steps :: "('s \<Rightarrow> 'x \<Rightarrow> 'e + 'x) \<Rightarrow> 's list \<Rightarrow> 'x \<Rightarrow> 'e + 'x" where
  "run_steps f [] x = Inr x"
| "run_steps f (s # ss) x = and_then (f s x) (run_steps f ss)"

definition blocks8 :: "bytes \<Rightarrow> bytes list" where
  "blocks8 bs = map (\<lambda>i. take 8 (drop (i * 8) bs)) [0..<4]"

definition aes_key_wrap :: "cms_ext \<Rightarrow> bytes \<Rightarrow> bytes \<Rightarrow> cms_error + bytes" where
  "aes_key_wrap cx kek cek =
     and_then (run_steps (wrap_step cx kek) wrap_rounds (be64 aes_wrap_iv, blocks8 cek))
       (\<lambda>(a, r). Inr (a @ concat r))"

definition aes_key_unwrap :: "cms_ext \<Rightarrow> bytes \<Rightarrow> bytes \<Rightarrow> cms_error + bytes" where
  "aes_key_unwrap cx kek wrapped =
     (if length wrapped \<noteq> 40 then Inl ParseError
      else and_then (run_steps (unwrap_step cx kek) (rev wrap_rounds) (take 8 wrapped, blocks8 (drop 8 wrapped)))
        (\<lambda>(a, r). if a \<noteq> be64 aes_wrap_iv then Inl NoMatchingRecipient else Inr (concat r)))"

section \<open>Sealing and opening\<close>

definition recipient_der :: "cms_ext \<Rightarrow> seal_random \<Rightarrow> bytes \<Rightarrow> nat \<times> seal_recipient \<Rightarrow> cms_error + bytes" where
  "recipient_der cx rnd cek = (\<lambda>(i, r).
     and_then (ossl (cx_encapsulate cx (sr_spki_der r) (rnd_seed rnd i))) (\<lambda>(shared_secret, wrapped_key).
     and_then (hkdf_sha256_kek cx shared_secret wrapped_key) (\<lambda>kek.
     and_then (aes_key_wrap cx kek cek) (\<lambda>encrypted_cek.
     and_then (sha256_32 cx (sr_spki_der r)) (\<lambda>hash.
       build_kem_ori_der cx wrapped_key (build_ski_der hash) encrypted_cek)))))"

fun recipients_der ::
  "cms_ext \<Rightarrow> seal_random \<Rightarrow> bytes \<Rightarrow> (nat \<times> seal_recipient) list \<Rightarrow> cms_error + bytes list" where
  "recipients_der cx rnd cek [] = Inr []"
| "recipients_der cx rnd cek (r # rs) =
     and_then (recipient_der cx rnd cek r) (\<lambda>d. and_then (recipients_der cx rnd cek rs) (\<lambda>ds. Inr (d # ds)))"

definition seal_raw :: "cms_ext \<Rightarrow> seal_random \<Rightarrow> bytes \<Rightarrow> seal_recipient list \<Rightarrow> cms_error + bytes" where
  "seal_raw cx rnd plaintext recipients =
     and_then (sized 32 (ossl (rnd_cek rnd))) (\<lambda>cek.
     and_then (sized 12 (ossl (rnd_nonce rnd))) (\<lambda>nonce.
     and_then (ossl (cx_gcm_encrypt cx cek nonce plaintext)) (\<lambda>(ct, tag).
     and_then (recipients_der cx rnd cek (enumerate 0 recipients)) (\<lambda>infos.
       ok_or Encode (cx_enveloped_build cx (aes256gcm_alg_id_der nonce) (ct @ tag) infos)))))"

text \<open>What one recipient info yields: \<open>None\<close> to go on with the next one.\<close>

definition open_recipient ::
  "cms_ext \<Rightarrow> enveloped_data \<Rightarrow> bytes \<Rightarrow> bytes \<Rightarrow> (cms_error + bytes) option" where
  "open_recipient cx env priv_key elem =
     (if elem = [] \<or> hd elem \<noteq> 0xa4 then None
      else case cx_ori_from_der cx (0x30 # tl elem) of
        None \<Rightarrow> None
      | Some (ori_type, ori_value) \<Rightarrow>
          if ori_type \<noteq> cx_id_ori_kem cx then None
          else (case cx_kri_from_der cx ori_value of
             None \<Rightarrow> None
           | Some kri \<Rightarrow>
               (case cx_decapsulate cx priv_key (kri_kemct kri) of
                  Inl _ \<Rightarrow> None
                | Inr shared_secret \<Rightarrow>
                    (case hkdf_sha256_kek cx shared_secret (kri_kemct kri) of
                       Inl e \<Rightarrow> Some (Inl e)
                     | Inr kek \<Rightarrow>
                         (case aes_key_unwrap cx kek (kri_encrypted_key kri) of
                            Inl _ \<Rightarrow> None
                          | Inr cek \<Rightarrow>
                              Some (and_then (ok_or ParseError (ed_algorithm_der env)) (\<lambda>alg_der.
                                and_then (extract_gcm_nonce alg_der) (\<lambda>nonce.
                                let encrypted = (case ed_encrypted_content env of Some ec \<Rightarrow> ec | None \<Rightarrow> []) in
                                if length encrypted < 16 then Inl ParseError
                                else ossl (cx_gcm_decrypt cx cek nonce (drop (length encrypted - 16) encrypted)
                                       (take (length encrypted - 16) encrypted))))))))))"

fun open_recipients :: "cms_ext \<Rightarrow> enveloped_data \<Rightarrow> bytes \<Rightarrow> bytes list \<Rightarrow> cms_error + bytes" where
  "open_recipients cx env priv_key [] = Inl NoMatchingRecipient"
| "open_recipients cx env priv_key (elem # elems) =
     (case open_recipient cx env priv_key elem of
        Some r \<Rightarrow> r | None \<Rightarrow> open_recipients cx env priv_key elems)"

definition open_raw :: "cms_ext \<Rightarrow> bytes \<Rightarrow> bytes \<Rightarrow> cms_error + bytes" where
  "open_raw cx ciphertext_der kem_priv_pkcs8_der =
     and_then (ok_or ParseError (cx_enveloped_from_der cx ciphertext_der)) (\<lambda>env.
     and_then (ossl (cx_private_key cx kem_priv_pkcs8_der)) (\<lambda>priv_key.
     and_then (iter_der_elements (ed_recipient_infos env)) (open_recipients cx env priv_key)))"

definition max_decompressed :: nat where "max_decompressed = 64 * 1024 * 1024"

definition seal :: "cms_ext \<Rightarrow> seal_random \<Rightarrow> bytes \<Rightarrow> seal_recipient list \<Rightarrow> cms_error + bytes" where
  "seal cx rnd plaintext recipients =
     (case cx_zstd_encode cx plaintext of
        Inl e \<Rightarrow> Inl (Compress e) | Inr compressed \<Rightarrow> seal_raw cx rnd compressed recipients)"

text \<open>Reading at most one byte more than allowed: an error behind that point is not met.\<close>

definition open_sealed :: "cms_ext \<Rightarrow> bytes \<Rightarrow> bytes \<Rightarrow> cms_error + bytes" where
  "open_sealed cx ciphertext_der kem_priv_pkcs8_der =
     and_then (open_raw cx ciphertext_der kem_priv_pkcs8_der) (\<lambda>compressed.
     case cx_zstd_new cx compressed of
       Inl e \<Rightarrow> Inl (Decompress e)
     | Inr _ \<Rightarrow>
         (case cx_zstd_stream cx compressed of (bs, e) \<Rightarrow>
            if length bs > max_decompressed
            then Inl (Decompress ''decompressed gossip payload exceeds 64 MiB limit'')
            else (case e of Some e' \<Rightarrow> Inl (Decompress e') | None \<Rightarrow> Inr bs)))"

definition sign_and_seal ::
  "cms_ext \<Rightarrow> seal_random \<Rightarrow> bytes \<Rightarrow> seal_recipient list \<Rightarrow> bytes \<Rightarrow> bytes \<Rightarrow> cms_error + bytes" where
  "sign_and_seal cx rnd plaintext recipients signing_priv_pem signing_cert_der =
     and_then (seal cx rnd plaintext recipients) (\<lambda>enveloped_der.
       ossl (cx_cms_sign cx signing_cert_der signing_priv_pem enveloped_der))"

definition verify_and_open :: "cms_ext \<Rightarrow> bytes \<Rightarrow> bytes \<Rightarrow> bytes \<Rightarrow> cms_error + bytes" where
  "verify_and_open cx signed_der kem_priv_pkcs8_der sender_signing_pub_spki =
     and_then (ossl (cx_cms_certs cx signed_der)) (\<lambda>certs.
       case certs of
         [] \<Rightarrow> Inl NoSignerCert
       | cert # _ \<Rightarrow>
           and_then (ossl cert) (\<lambda>embedded_pub.
             if embedded_pub \<noteq> sender_signing_pub_spki then Inl SignatureInvalid
             else case cx_cms_verify cx signed_der of
                    Inl _ \<Rightarrow> Inl SignatureInvalid
                  | Inr enveloped_der \<Rightarrow> open_sealed cx enveloped_der kem_priv_pkcs8_der))"

end
