(* ===== verification/Gossip_Sync.thy ===== *)
theory Gossip_Sync
  imports Gossip_Crypto Issuance_Policy Admin_Login
begin

text \<open>
  The exchange of the replicated state between nodes: the envelope (\<^verbatim>\<open>src/gossip/envelope.rs\<close>), the
  handlers (\<^verbatim>\<open>src/gossip/handlers.rs\<close>) and a round of the background loop
  (\<^verbatim>\<open>src/gossip/gossip_loop.rs\<close>). The CBOR codec and the HTTP client are parameters, clocks and random
  bytes are arguments. Where the code releases its locks, other requests may change the state: the
  handler is split there into \<open>sync_accept\<close> and \<open>sync_answer\<close>, a round into \<open>round_send\<close> and
  \<open>round_receive\<close>.
\<close>

section \<open>Configuration and envelope\<close>

record gossip_config =
  gc_peers :: "string list"
  gc_interval_secs :: u64
  gc_tombstone_ttl_secs :: u64
  gc_ownership_ttl_secs :: u64
  gc_envelope_max_age_secs :: u64
  gc_clock_skew_tolerance_secs :: u64
  gc_fan_out :: u64

definition gossip_config_default :: gossip_config where
  "gossip_config_default = \<lparr>gc_peers = [], gc_interval_secs = 15, gc_tombstone_ttl_secs = 604800,
     gc_ownership_ttl_secs = 150, gc_envelope_max_age_secs = 300, gc_clock_skew_tolerance_secs = 30, gc_fan_out = 0\<rparr>"

record gossip_envelope =
  ge_crdt :: bytes
  ge_issued_at :: i64
  ge_is_delta :: bool
  ge_my_gen :: u64
  ge_request_delta_since :: "u64 option"
  ge_nonce :: bytes

record cbor_ext =
  cb_encode_crdt :: "aka_crdt \<Rightarrow> string + bytes"
  cb_decode_crdt :: "bytes \<Rightarrow> string + aka_crdt"
  cb_encode :: "gossip_envelope \<Rightarrow> string + bytes"
  cb_decode :: "bytes \<Rightarrow> string + gossip_envelope"

record gossip_node =
  gn_policy :: policy_state                       \<comment> \<open>with the replicated state and its counter\<close>
  gn_config :: "gossip_config option"
  gn_nonce_cache :: "(bytes, i64) hashmap"
  gn_kem_priv :: bytes
  gn_signing_priv :: bytes
  gn_signing_cert :: bytes

abbreviation gn_app :: "gossip_node \<Rightarrow> app_state" where "gn_app n \<equiv> ps_app (gn_policy n)"
abbreviation gn_crdt :: "gossip_node \<Rightarrow> aka_crdt" where "gn_crdt n \<equiv> st_crdt (gn_app n)"
abbreviation gn_gen :: "gossip_node \<Rightarrow> u64" where "gn_gen n \<equiv> st_gen (gn_app n)"

definition with_app :: "(app_state \<Rightarrow> app_state) \<Rightarrow> gossip_node \<Rightarrow> gossip_node" where
  "with_app f n = n\<lparr>gn_policy := (gn_policy n)\<lparr>ps_app := f (gn_app n)\<rparr>\<rparr>"

text \<open>\<^verbatim>\<open>as i64\<close> of an unsigned number, and the two limits on the time of an envelope.\<close>

definition u64_as_i64 :: "u64 \<Rightarrow> i64" where
  "u64_as_i64 n = wrap_i64 (int n)"

definition max_age :: "gossip_config option \<Rightarrow> i64" where
  "max_age cfg = (case cfg of Some g \<Rightarrow> u64_as_i64 (gc_envelope_max_age_secs g) | None \<Rightarrow> 300)"

definition clock_skew :: "gossip_config option \<Rightarrow> i64" where
  "clock_skew cfg = (case cfg of Some g \<Rightarrow> u64_as_i64 (gc_clock_skew_tolerance_secs g) | None \<Rightarrow> 30)"

definition in_window :: "gossip_config option \<Rightarrow> i64 \<Rightarrow> i64 \<Rightarrow> bool" where
  "in_window cfg now issued_at \<longleftrightarrow>
     \<not> issued_at > wrap_i64 (now + clock_skew cfg) \<and> \<not> issued_at < wrap_i64 (now - max_age cfg)"

section \<open>Receiving a push (handlers.rs)\<close>

definition gossip_nonce_cache_max :: nat where "gossip_nonce_cache_max = 10000"

text \<open>The pinned keys of a sender, from the state before the merge.\<close>

definition pinned_keys :: "string \<Rightarrow> aka_crdt \<Rightarrow> (bytes \<times> bytes) option" where
  "pinned_keys sender c =
     (case or_get (cluster_nodes c) sender of
        Some e \<Rightarrow> if ne_gossip_signing_pub_key_der e \<noteq> [] \<and> ne_kem_public_key_der e \<noteq> []
                 then Some (ne_gossip_signing_pub_key_der e, ne_kem_public_key_der e) else None
      | None \<Rightarrow> None)"

text \<open>The record of used nonces: refusal (a status) or acceptance, and the record afterwards.\<close>

definition check_nonce ::
  "gossip_config option \<Rightarrow> i64 \<Rightarrow> bytes \<Rightarrow> (bytes, i64) hashmap \<Rightarrow> nat option \<times> (bytes, i64) hashmap" where
  "check_nonce cfg now nonce cache =
     (if nonce = [] then (None, cache)
      else if length nonce < 16 \<or> length nonce > 32 then (Some 400, cache)
      else let cache1 = hm_retain (\<lambda>_ ts. ts \<ge> wrap_i64 (now - max_age cfg)) cache in
           if length cache1 \<ge> gossip_nonce_cache_max then (Some 429, cache1)
           else (if hm_get cache1 nonce \<noteq> None then Some 400 else None, hm_insert nonce now cache1))"

record sync_ticket =
  tk_sender :: string
  tk_kem_key :: bytes
  tk_since :: "u64 option"
  tk_pre_gen :: u64
  tk_post_gen :: u64

definition sync_accept ::
  "cms_ext \<Rightarrow> cbor_ext \<Rightarrow> i64 \<Rightarrow> string option \<Rightarrow> bytes \<Rightarrow> gossip_node \<Rightarrow> (nat + sync_ticket) \<times> gossip_node" where
  "sync_accept cx cb now header body n =
     (let sender = (case header of Some h \<Rightarrow> h | None \<Rightarrow> []) in
      if sender = [] \<or> length sender > 64 then (Inl 400, n)
      else case pinned_keys sender (gn_crdt n) of
        None \<Rightarrow> (Inl 401, n)
      | Some (signing_pub, kem_key) \<Rightarrow>
          (case verify_and_open cx body (gn_kem_priv n) signing_pub of
             Inl _ \<Rightarrow> (Inl 401, n)
           | Inr plaintext \<Rightarrow>
               (case cb_decode cb plaintext of
                  Inl _ \<Rightarrow> (Inl 400, n)
                | Inr env \<Rightarrow>
                    if \<not> in_window (gn_config n) now (ge_issued_at env) then (Inl 400, n)
                    else (case check_nonce (gn_config n) now (ge_nonce env) (gn_nonce_cache n) of
                       (Some status, cache) \<Rightarrow> (Inl status, n\<lparr>gn_nonce_cache := cache\<rparr>)
                     | (None, cache) \<Rightarrow>
                         (let n1 = n\<lparr>gn_nonce_cache := cache\<rparr> in
                          case cb_decode_crdt cb (ge_crdt env) of
                            Inl _ \<Rightarrow> (Inl 400, n1)
                          | Inr peer_crdt \<Rightarrow>
                              (case aka_merge (gn_gen n1) (gn_crdt n1) peer_crdt of (g, c) \<Rightarrow>
                                 (Inr \<lparr>tk_sender = sender, tk_kem_key = kem_key,
                                    tk_since = ge_request_delta_since env, tk_pre_gen = gn_gen n1, tk_post_gen = g\<rparr>,
                                  with_app (\<lambda>a. a\<lparr>st_gen := g, st_crdt := c\<rparr>) n1)))))))"

definition sync_answer ::
  "cms_ext \<Rightarrow> cbor_ext \<Rightarrow> seal_random \<Rightarrow> (cms_error + bytes) \<Rightarrow> i64 \<Rightarrow> sync_ticket \<Rightarrow> gossip_node \<Rightarrow> nat + bytes" where
  "sync_answer cx cb rnd nonce now tk n =
     (let (state, is_delta) = (case tk_since tk of
            Some since \<Rightarrow> (aka_delta_range (gn_crdt n) since (tk_pre_gen tk), True)
          | None \<Rightarrow> (gn_crdt n, False))
      in case cb_encode_crdt cb state of
           Inl _ \<Rightarrow> Inl 500
         | Inr crdt_bytes \<Rightarrow>
             (case nonce of
                Inl _ \<Rightarrow> Inl 500
              | Inr resp_nonce \<Rightarrow>
                  (case cb_encode cb \<lparr>ge_crdt = crdt_bytes, ge_issued_at = now, ge_is_delta = is_delta,
                          ge_my_gen = tk_post_gen tk, ge_request_delta_since = None, ge_nonce = resp_nonce\<rparr> of
                     Inl _ \<Rightarrow> Inl 500
                   | Inr response_bytes \<Rightarrow>
                       (case sign_and_seal cx rnd response_bytes
                               [\<lparr>sr_hint = tk_sender tk, sr_spki_der = tk_kem_key tk\<rparr>]
                               (gn_signing_priv n) (gn_signing_cert n) of
                          Inl _ \<Rightarrow> Inl 500
                        | Inr resp_body \<Rightarrow> Inr resp_body))))"

definition gossip_sync ::
  "cms_ext \<Rightarrow> cbor_ext \<Rightarrow> seal_random \<Rightarrow> (cms_error + bytes) \<Rightarrow> i64 \<Rightarrow> i64 \<Rightarrow> string option \<Rightarrow> bytes
     \<Rightarrow> gossip_node \<Rightarrow> (nat + bytes) \<times> gossip_node" where
  "gossip_sync cx cb rnd nonce now now_resp header body n =
     (case sync_accept cx cb now header body n of
        (Inl status, n1) \<Rightarrow> (Inl status, n1)
      | (Inr tk, n1) \<Rightarrow> (sync_answer cx cb rnd nonce now_resp tk n1, n1))"

section \<open>Enrolment and status (handlers.rs)\<close>

record gossip_register_request =
  gr_node_id :: string
  gr_gossip_url :: string
  gr_kem_public_key_b64u :: string
  gr_signing_pub_key_b64u :: string
  gr_signing_cert_b64u :: string
  gr_ca_ids :: "string list"

definition bad_request :: "string \<Rightarrow> nat \<times> string" where
  "bad_request s = (400, s)"

text \<open>The persisting of the cluster table is given by its outcome; its failure comes after the change.\<close>

definition gossip_register ::
  "(string \<Rightarrow> bytes option) \<Rightarrow> bool \<Rightarrow> i64 \<Rightarrow> string + gossip_register_request \<Rightarrow> gossip_node
     \<Rightarrow> ((nat \<times> string) + i64) \<times> gossip_node" where
  "gossip_register b64u persist_ok now body n =
     (case body of
        Inl e \<Rightarrow> (Inl (bad_request (''invalid JSON body: '' @ e)), n)
      | Inr b \<Rightarrow>
          if gr_node_id b = [] then (Inl (bad_request ''node_id is required''), n)
          else if gr_node_id b = st_node_id (gn_app n) then (Inl (bad_request ''cannot register own node_id''), n)
          else if gr_gossip_url b = [] then (Inl (bad_request ''gossip_url is required''), n)
          else (case b64u (gr_kem_public_key_b64u b) of
             None \<Rightarrow> (Inl (bad_request ''kem_public_key_b64u: invalid base64url''), n)
           | Some kem_key \<Rightarrow>
          (case b64u (gr_signing_pub_key_b64u b) of
             None \<Rightarrow> (Inl (bad_request ''gossip_signing_pub_key_b64u: invalid base64url''), n)
           | Some signing_pub \<Rightarrow>
          (case b64u (gr_signing_cert_b64u b) of
             None \<Rightarrow> (Inl (bad_request ''gossip_signing_cert_b64u: invalid base64url''), n)
           | Some signing_cert \<Rightarrow>
               if kem_key = [] \<or> signing_pub = [] \<or> signing_cert = []
               then (Inl (bad_request ''kem, signing pub, and signing cert must all be non-empty''), n)
               else (let entry = \<lparr>ne_node_id = gr_node_id b, ne_gossip_url = gr_gossip_url b,
                            ne_kem_public_key_der = kem_key, ne_gossip_signing_pub_key_der = signing_pub,
                            ne_gossip_signing_cert_der = signing_cert, ne_ca_ids = gr_ca_ids b,
                            ne_registered_at = now\<rparr>;
                         (g, m, _) = or_upsert (gn_gen n) (cluster_nodes (gn_crdt n)) (gr_node_id b) entry now;
                         n1 = with_app (\<lambda>a. a\<lparr>st_gen := g, st_crdt := (st_crdt a)\<lparr>cluster_nodes := m\<rparr>\<rparr>) n
                     in if persist_ok then (Inr now, n1) else (Inl (500, []), n1))))))"

record gossip_status_reply =
  gsr_node_id :: "string option"
  gsr_ca_scope :: "string option"
  gsr_crdt_generation :: u64
  gsr_kem_enrolled :: bool
  gsr_signing_enrolled :: bool
  gsr_peers :: "string list"
  gsr_counts :: aka_crdt_scoped_counts

definition gossip_status :: "operator_context \<Rightarrow> gossip_node \<Rightarrow> gossip_status_reply" where
  "gossip_status c n =
     (let own = or_get (cluster_nodes (gn_crdt n)) (st_node_id (gn_app n)) in
      \<lparr>gsr_node_id = (if ca_scope c = None then Some (st_node_id (gn_app n)) else None),
       gsr_ca_scope = ca_scope c,
       gsr_crdt_generation = gn_gen n,
       gsr_kem_enrolled = (case own of Some e \<Rightarrow> ne_kem_public_key_der e \<noteq> [] | None \<Rightarrow> False),
       gsr_signing_enrolled = (case own of Some e \<Rightarrow> ne_gossip_signing_pub_key_der e \<noteq> [] | None \<Rightarrow> False),
       gsr_peers = (if ca_scope c = None then (case gn_config n of Some g \<Rightarrow> gc_peers g | None \<Rightarrow> []) else []),
       gsr_counts = aka_entry_counts_scoped (gn_crdt n) (ca_scope c)\<rparr>)"

section \<open>A round of the loop: choosing peers (gossip_loop.rs)\<close>

definition trim_end_slashes :: "string \<Rightarrow> string" where
  "trim_end_slashes s = rev (dropWhile (\<lambda>c. c = CHR ''/'') (rev s))"

definition urls_match :: "string \<Rightarrow> string \<Rightarrow> bool" where
  "urls_match peer_url crdt_url \<longleftrightarrow> trim_end_slashes peer_url = trim_end_slashes crdt_url"

fun keep_first :: "'a list \<Rightarrow> 'a list \<Rightarrow> 'a list" where
  "keep_first seen [] = []"
| "keep_first seen (x # xs) = (if x \<in> set seen then keep_first seen xs else x # keep_first (x # seen) xs)"

definition all_peers :: "gossip_node \<Rightarrow> string list" where
  "all_peers n =
     (let crdt_peers = filter (\<lambda>u. u \<noteq> []) (map (\<lambda>(_, e). ne_gossip_url e)
            (filter (\<lambda>(i, _). i \<noteq> st_node_id (gn_app n)) (or_live_values (cluster_nodes (gn_crdt n)))))
      in keep_first [] ((case gn_config n of Some g \<Rightarrow> gc_peers g | None \<Rightarrow> []) @ crdt_peers))"

definition fan_out_peers :: "u64 \<Rightarrow> u64 \<Rightarrow> string list \<Rightarrow> string list" where
  "fan_out_peers fan_out current_gen peers =
     (if fan_out = 0 \<or> length peers \<le> fan_out then peers
      else let n = length peers; start = current_gen mod n
           in map (\<lambda>i. peers ! ((start + i) mod n)) [0..<fan_out])"

section \<open>A round of the loop: sending\<close>

record round_maps =
  rm_last_gen :: "(string, u64) hashmap"
  rm_response_gen :: "(string, u64) hashmap"
  rm_miss_count :: "(string, nat) hashmap"

definition prune_maps :: "string list \<Rightarrow> round_maps \<Rightarrow> round_maps" where
  "prune_maps peers rm =
     \<lparr>rm_last_gen = hm_retain (\<lambda>k _. k \<in> set peers) (rm_last_gen rm),
      rm_response_gen = hm_retain (\<lambda>k _. k \<in> set peers) (rm_response_gen rm),
      rm_miss_count = hm_retain (\<lambda>k _. k \<in> set peers) (rm_miss_count rm)\<rparr>"

record prepared_peer =
  pp_url :: string
  pp_node_id :: string
  pp_kem_key :: bytes
  pp_signing_key :: bytes
  pp_envelope_bytes :: bytes
  pp_first_contact :: bool

record peer_task =
  pt_url :: string
  pt_signing_key :: bytes
  pt_first_contact :: bool
  pt_post_url :: string
  pt_header :: string
  pt_body :: bytes

definition miss_peer :: "string \<Rightarrow> round_maps \<Rightarrow> round_maps" where
  "miss_peer url rm = rm\<lparr>rm_miss_count :=
     hm_insert url (case hm_get (rm_miss_count rm) url of Some c \<Rightarrow> c + 1 | None \<Rightarrow> 1) (rm_miss_count rm)\<rparr>"

definition find_peer :: "gossip_node \<Rightarrow> string \<Rightarrow> (string \<times> bytes \<times> bytes) option" where
  "find_peer n url =
     map_option (\<lambda>(i, e). (i, ne_kem_public_key_der e, ne_gossip_signing_pub_key_der e))
       (find (\<lambda>(i, e). i \<noteq> st_node_id (gn_app n) \<and> urls_match url (ne_gossip_url e))
          (or_live_values (cluster_nodes (gn_crdt n))))"

definition prepare_peer ::
  "cbor_ext \<Rightarrow> (cms_error + bytes) \<Rightarrow> i64 \<Rightarrow> u64 \<Rightarrow> gossip_node \<Rightarrow> string \<Rightarrow> round_maps
     \<Rightarrow> prepared_peer option \<times> round_maps" where
  "prepare_peer cb nonce now current_gen n url rm =
     (let last = hm_get (rm_last_gen rm) url in
      if last = Some current_gen then (None, rm)
      else case find_peer n url of
        None \<Rightarrow> (None, miss_peer url rm)
      | Some (peer_node_id, kem_key, signing_key) \<Rightarrow>
          if kem_key = [] \<or> signing_key = [] then (None, miss_peer url rm)
          else let rm1 = rm\<lparr>rm_miss_count := hm_retain (\<lambda>k _. k \<noteq> url) (rm_miss_count rm)\<rparr>;
                   (payload, is_delta) = (case last of
                      Some since \<Rightarrow> (aka_delta_since (gn_crdt n) since, True) | None \<Rightarrow> (gn_crdt n, False))
               in case cb_encode_crdt cb payload of
                    Inl _ \<Rightarrow> (None, rm1)
                  | Inr crdt_bytes \<Rightarrow>
                      (case nonce of
                         Inl _ \<Rightarrow> (None, rm1)
                       | Inr nonce_bytes \<Rightarrow>
                           (case cb_encode cb \<lparr>ge_crdt = crdt_bytes, ge_issued_at = now, ge_is_delta = is_delta,
                                   ge_my_gen = current_gen, ge_request_delta_since = hm_get (rm_response_gen rm) url,
                                   ge_nonce = nonce_bytes\<rparr> of
                              Inl _ \<Rightarrow> (None, rm1)
                            | Inr envelope_bytes \<Rightarrow>
                                (Some \<lparr>pp_url = url, pp_node_id = peer_node_id, pp_kem_key = kem_key,
                                   pp_signing_key = signing_key, pp_envelope_bytes = envelope_bytes,
                                   pp_first_contact = (last = None)\<rparr>, rm1))))"

fun prepare_peers ::
  "cbor_ext \<Rightarrow> (string \<Rightarrow> (cms_error + bytes) \<times> i64) \<Rightarrow> u64 \<Rightarrow> gossip_node \<Rightarrow> string list \<Rightarrow> round_maps
     \<Rightarrow> prepared_peer list \<times> round_maps" where
  "prepare_peers cb io current_gen n [] rm = ([], rm)"
| "prepare_peers cb io current_gen n (url # urls) rm =
     (case prepare_peer cb (fst (io url)) (snd (io url)) current_gen n url rm of (p, rm1) \<Rightarrow>
        (case prepare_peers cb io current_gen n urls rm1 of (ps, rm2) \<Rightarrow>
           (case p of Some pp \<Rightarrow> pp # ps | None \<Rightarrow> ps, rm2)))"

definition seal_peer :: "cms_ext \<Rightarrow> seal_random \<Rightarrow> gossip_node \<Rightarrow> prepared_peer \<Rightarrow> peer_task option" where
  "seal_peer cx rnd n pp =
     (case sign_and_seal cx rnd (pp_envelope_bytes pp) [\<lparr>sr_hint = pp_node_id pp, sr_spki_der = pp_kem_key pp\<rparr>]
             (gn_signing_priv n) (gn_signing_cert n) of
        Inl _ \<Rightarrow> None
      | Inr signed_body \<Rightarrow>
          Some \<lparr>pt_url = pp_url pp, pt_signing_key = pp_signing_key pp, pt_first_contact = pp_first_contact pp,
             pt_post_url = trim_end_slashes (pp_url pp) @ ''/gossip/sync'', pt_header = st_node_id (gn_app n),
             pt_body = signed_body\<rparr>)"

definition round_send ::
  "cms_ext \<Rightarrow> cbor_ext \<Rightarrow> (string \<Rightarrow> seal_random) \<Rightarrow> (string \<Rightarrow> (cms_error + bytes) \<times> i64) \<Rightarrow> gossip_node
     \<Rightarrow> round_maps \<Rightarrow> peer_task list \<times> round_maps" where
  "round_send cx cb rnd io n rm =
     (let peers = all_peers n;
          rm1 = prune_maps peers rm;
          current_gen = gn_gen n;
          chosen = fan_out_peers (case gn_config n of Some g \<Rightarrow> gc_fan_out g | None \<Rightarrow> 0) current_gen peers;
          (prepared, rm2) = prepare_peers cb io current_gen n chosen rm1
      in (List.map_filter (\<lambda>pp. seal_peer cx (rnd (pp_url pp)) n pp) prepared, rm2))"

section \<open>A round of the loop: receiving\<close>

record validated_peer =
  vp_url :: string
  vp_my_gen :: u64
  vp_first_contact :: bool
  vp_is_delta :: bool

text \<open>The outcome of one task: its response, or nothing when the request failed.\<close>

definition validate_response ::
  "cms_ext \<Rightarrow> cbor_ext \<Rightarrow> i64 \<Rightarrow> gossip_node \<Rightarrow> peer_task \<times> bytes option \<Rightarrow> (aka_crdt \<times> validated_peer) option" where
  "validate_response cx cb now n = (\<lambda>(pt, response).
     case response of
       None \<Rightarrow> None
     | Some response_bytes \<Rightarrow>
         (case verify_and_open cx response_bytes (gn_kem_priv n) (pt_signing_key pt) of
            Inl _ \<Rightarrow> None
          | Inr plaintext \<Rightarrow>
              (case cb_decode cb plaintext of
                 Inl _ \<Rightarrow> None
               | Inr env \<Rightarrow>
                   if \<not> in_window (gn_config n) now (ge_issued_at env) then None
                   else (case cb_decode_crdt cb (ge_crdt env) of
                      Inl _ \<Rightarrow> None
                    | Inr peer_crdt \<Rightarrow>
                        Some (peer_crdt, \<lparr>vp_url = pt_url pt, vp_my_gen = ge_my_gen env,
                          vp_first_contact = pt_first_contact pt, vp_is_delta = ge_is_delta env\<rparr>)))))"

definition forget_peer :: "string \<Rightarrow> round_maps \<Rightarrow> round_maps" where
  "forget_peer url rm = rm\<lparr>rm_last_gen := hm_retain (\<lambda>k _. k \<noteq> url) (rm_last_gen rm),
     rm_response_gen := hm_retain (\<lambda>k _. k \<noteq> url) (rm_response_gen rm)\<rparr>"

fun validate_responses ::
  "cms_ext \<Rightarrow> cbor_ext \<Rightarrow> i64 \<Rightarrow> gossip_node \<Rightarrow> (peer_task \<times> bytes option) list \<Rightarrow> round_maps
     \<Rightarrow> (aka_crdt \<times> validated_peer) list \<times> round_maps" where
  "validate_responses cx cb now n [] rm = ([], rm)"
| "validate_responses cx cb now n (t # ts) rm =
     (case validate_response cx cb now n t of
        None \<Rightarrow> validate_responses cx cb now n ts (forget_peer (pt_url (fst t)) rm)
      | Some v \<Rightarrow> (case validate_responses cx cb now n ts rm of (vs, rm1) \<Rightarrow> (v # vs, rm1)))"

definition note_peer :: "u64 \<Rightarrow> validated_peer \<Rightarrow> round_maps \<Rightarrow> round_maps" where
  "note_peer post_merge_gen v rm =
     rm\<lparr>rm_last_gen := hm_insert (vp_url v) post_merge_gen (rm_last_gen rm),
        rm_response_gen := (if vp_my_gen v > 0 then hm_insert (vp_url v) (vp_my_gen v) (rm_response_gen rm)
                            else rm_response_gen rm)\<rparr>"

definition round_receive ::
  "'q policy_ext \<Rightarrow> json_ext \<Rightarrow> cms_ext \<Rightarrow> cbor_ext \<Rightarrow> acme_error option \<Rightarrow> bool \<Rightarrow> i64
     \<Rightarrow> (peer_task \<times> bytes option) list \<Rightarrow> gossip_node \<Rightarrow> round_maps \<Rightarrow> gossip_node \<times> round_maps" where
  "round_receive px jx cx cb load persist_ok now responses n rm =
     (case validate_responses cx cb now n responses rm of
        (valid, rm1) \<Rightarrow>
          (let n1 = n\<lparr>gn_policy := merge_round px jx load persist_ok (map fst valid) (gn_policy n)\<rparr>
           in (n1, fold (note_peer (gn_gen n1)) (map snd valid) rm1)))"

section \<open>What a round does before it sends\<close>

definition collect_tombstones :: "i64 \<Rightarrow> gossip_node \<Rightarrow> gossip_node" where
  "collect_tombstones now n =
     (let ttl = (case gn_config n of Some g \<Rightarrow> gc_tombstone_ttl_secs g | None \<Rightarrow> 0)
      in with_app (\<lambda>a. a\<lparr>st_crdt := aka_purge_old_tombstones (wrap_i64 (now - u64_as_i64 ttl)) (st_crdt a)\<rparr>) n)"

text \<open>
  The periodic work of a round: writing the replicated rules to the table, removing old tombstones, and
  the retry of a deferred rebuild. The flags say which of the two timers have run out.
\<close>

definition round_housekeeping ::
  "'q policy_ext \<Rightarrow> json_ext \<Rightarrow> acme_error option \<Rightarrow> bool \<Rightarrow> bool \<Rightarrow> bool \<Rightarrow> i64 \<Rightarrow> gossip_node \<Rightarrow> gossip_node" where
  "round_housekeeping px jx load persist_due persist_ok gc_due now n =
     (let n1 = (if persist_due then n\<lparr>gn_policy := periodic_persist persist_ok (gn_policy n)\<rparr> else n);
          n2 = (if gc_due then collect_tombstones now n1 else n1)
      in n2\<lparr>gn_policy := retry_rebuild px jx load (gn_policy n2)\<rparr>)"

end
