(* ===== verification/Gossip_Sealing.thy ===== *)
theory Gossip_Sealing
  imports Gossip_Crypto
begin

text \<open>
  What sealing guarantees: a wrapped key is unwrapped again, the walk over the recipient infos finds
  what the encoder wrote, and an opened message is the one that was sealed.
\<close>

section \<open>The key wrap\<close>

lemma xor_twice: "length a = length t \<Longrightarrow> map2 (XOR) (map2 (XOR) a t) t = (a :: bytes)"
  by (induction a t rule: list_induct2) (simp_all add: xor.assoc)

lemma run_steps_snoc: "run_steps f (ss @ [s]) x = and_then (run_steps f ss x) (f s)"
  by (induction ss arbitrary: x) (simp_all add: and_then_def split: sum.split)

lemma run_steps_back:
  assumes "\<And>s x y. s \<in> set ss \<Longrightarrow> P x \<Longrightarrow> f s x = Inr y \<Longrightarrow> g s y = Inr x \<and> P y"
    and "run_steps f ss x = Inr y" and "P x"
  shows "run_steps g (rev ss) y = Inr x \<and> P y"
  using assms
proof (induction ss arbitrary: x)
  case (Cons s ss)
  then obtain z where z: "f s x = Inr z" "run_steps f ss z = Inr y" by (auto simp: and_then_Inr)
  then have "g s z = Inr x" "P z" using Cons.prems(1) [of s x z] Cons.prems(3) by simp_all
  moreover have "run_steps g (rev ss) y = Inr z \<and> P y"
    by (rule Cons.IH [OF _ z(2) \<open>P z\<close>], rule Cons.prems(1)) simp_all
  ultimately show ?case by (simp add: run_steps_snoc)
qed simp

definition wrap_state :: "bytes \<times> bytes list \<Rightarrow> bool" where
  "wrap_state = (\<lambda>(a, r). length a = 8 \<and> length r = 4 \<and> (\<forall>b \<in> set r. length b = 8))"

definition aes_inverse :: "cms_ext \<Rightarrow> bool" where
  "aes_inverse cx \<longleftrightarrow> (\<forall>k b c. length b = 16 \<longrightarrow> cx_aes_ecb cx k b True = Inr c \<longrightarrow> cx_aes_ecb cx k c False = Inr b)"

lemma unwrap_wrap_step:
  assumes "aes_inverse cx" and "s \<in> set wrap_rounds" and "wrap_state x" and "wrap_step cx kek s x = Inr y"
  shows "unwrap_step cx kek s y = Inr x \<and> wrap_state y"
proof -
  obtain j i a r where s: "s = (j, i)" and x: "x = (a, r)" by fastforce
  have i: "i < 4" using assms(2) by (simp add: wrap_rounds_def s)
  have l: "length a = 8" "length r = 4" "\<forall>b \<in> set r. length b = 8" using assms(3) x by (simp_all add: wrap_state_def)
  then have ri: "length (r ! i) = 8" using i by simp
  obtain b where b: "cx_aes_ecb cx kek (a @ r ! i) True = Inr b" "length b = 16"
    and y: "y = (map2 (XOR) (take 8 b) (be64 (4 * j + i + 1)), r[i := drop 8 b])"
    using assms(4) by (auto simp: wrap_step_def s x and_then_Inr aes_ecb_block_def)
  have "cx_aes_ecb cx kek b False = Inr (a @ r ! i)" using assms(1) b(1) l ri by (simp add: aes_inverse_def)
  then have "unwrap_step cx kek s y = Inr x"
    using l ri b(2) s x i by (simp add: unwrap_step_def y xor_twice aes_ecb_block_def sized_def)
  moreover have "wrap_state y" using l b(2) unfolding y wrap_state_def
    by (auto dest!: set_update_subset_insert [THEN subsetD])
  ultimately show ?thesis by blast
qed

lemma blocks8_eq: "length bs = 32 \<Longrightarrow> blocks8 bs = [take 8 bs, take 8 (drop 8 bs), take 8 (drop 16 bs), take 8 (drop 24 bs)]"
  by (simp add: blocks8_def upt_rec)

lemma concat_blocks8:
  assumes "length bs = 32"
  shows "concat (blocks8 bs) = bs"
proof -
  have "take 8 (drop n bs) @ drop (n + 8) bs = drop n bs" for n
    using append_take_drop_id [of 8 "drop n bs"] by (simp add: add.commute)
  from this [of 0] this [of 8] this [of 16] show ?thesis using assms by (simp add: blocks8_eq)
qed

lemma blocks8_concat:
  assumes "length r = 4" "\<forall>b \<in> set r. length b = 8"
  shows "blocks8 (concat r) = r" "length (concat r) = 32"
proof -
  obtain b0 b1 b2 b3 where r: "r = [b0, b1, b2, b3]"
    using assms(1) by (auto simp: length_Suc_conv numeral_eq_Suc)
  then show len: "length (concat r) = 32" using assms(2) by simp
  show "blocks8 (concat r) = r" using assms(2) unfolding blocks8_eq [OF len] by (simp add: r)
qed

lemma aes_key_unwrap_wrap:
  assumes "aes_inverse cx" and "length cek = 32" and "aes_key_wrap cx kek cek = Inr w"
  shows "aes_key_unwrap cx kek w = Inr cek"
proof -
  obtain a r where run: "run_steps (wrap_step cx kek) wrap_rounds (be64 aes_wrap_iv, blocks8 cek) = Inr (a, r)"
    and w: "w = a @ concat r"
    using assms(3) by (auto simp: aes_key_wrap_def and_then_Inr)
  have "wrap_state (be64 aes_wrap_iv, blocks8 cek)" using assms(2) by (simp add: wrap_state_def blocks8_eq)
  then have bwd: "run_steps (unwrap_step cx kek) (rev wrap_rounds) (a, r) = Inr (be64 aes_wrap_iv, blocks8 cek)"
    and st: "wrap_state (a, r)"
    using run_steps_back [of wrap_rounds wrap_state "wrap_step cx kek" "unwrap_step cx kek", OF _ run]
      unwrap_wrap_step [OF assms(1)] by blast+
  have "length w = 40" "take 8 w = a" "drop 8 w = concat r" "blocks8 (concat r) = r"
    using st blocks8_concat [of r] by (simp_all add: w wrap_state_def)
  then show ?thesis using bwd concat_blocks8 [OF assms(2)] by (simp add: aes_key_unwrap_def)
qed

section \<open>Encodings\<close>

text \<open>The length octets of the distinguished encoding rules, for contents below four gigabytes.\<close>

definition der_octets :: "nat \<Rightarrow> bytes" where
  "der_octets n =
     (if n < 128 then [word_of_nat n]
      else if n < 2 ^ 8 then [0x81, word_of_nat n]
      else if n < 2 ^ 16 then [0x82, word_of_nat (n div 2 ^ 8), word_of_nat n]
      else if n < 2 ^ 24 then [0x83, word_of_nat (n div 2 ^ 16), word_of_nat (n div 2 ^ 8), word_of_nat n]
      else [0x84, word_of_nat (n div 2 ^ 24), word_of_nat (n div 2 ^ 16), word_of_nat (n div 2 ^ 8), word_of_nat n])"

lemma unat_byte: "unat (word_of_nat n :: 8 word) = n mod 256"
  by (simp add: unat_of_nat)

lemma decode_der_octets:
  assumes "n < 2 ^ 32"
  shows "decode_der_length (der_octets n @ rest) = Inr (n, length (der_octets n))"
proof -
  consider "n < 128" | "128 \<le> n" "n < 2 ^ 8" | "2 ^ 8 \<le> n" "n < 2 ^ 16" | "2 ^ 16 \<le> n" "n < 2 ^ 24" | "2 ^ 24 \<le> n"
    by linarith
  then show ?thesis
  proof cases
    case 1
    then have "(word_of_nat n :: 8 word) < 0x80" by (simp add: word_less_nat_alt unat_byte)
    then show ?thesis using 1 by (simp add: der_octets_def decode_der_length_def unat_byte)
  next
    case 2
    then show ?thesis by (simp add: der_octets_def decode_der_length_def unat_byte be_value_def)
  next
    case 3
    then show ?thesis by (simp add: der_octets_def decode_der_length_def unat_byte be_value_def)
  next
    case 4
    have "n mod 65536 = 256 * (n div 256 mod 256) + n mod 256" using mod_mult2_eq [of n 256 256] by simp
    then have "65536 * (n div 65536) + n div 256 mod 256 * 256 + n mod 256 = n"
      using div_mult_mod_eq [of n 65536] by linarith
    then show ?thesis using 4 by (simp add: der_octets_def decode_der_length_def unat_byte be_value_def)
  next
    case 5
    have "n mod 65536 = 256 * (n div 256 mod 256) + n mod 256" using mod_mult2_eq [of n 256 256] by simp
    moreover have "n mod 16777216 = 65536 * (n div 65536 mod 256) + n mod 65536" using mod_mult2_eq [of n 65536 256] by simp
    ultimately have "(n div 16777216 * 16777216) + n div 65536 mod 256 * 65536 + n div 256 mod 256 * 256 + n mod 256 = n"
      using div_mult_mod_eq [of n 16777216] by linarith
    then show ?thesis using assms 5 by (simp add: der_octets_def decode_der_length_def unat_byte be_value_def)
  qed
qed

lemma extract_gcm_nonce_alg:
  assumes "length nonce = 12"
  shows "extract_gcm_nonce (aes256gcm_alg_id_der nonce) = Inr nonce"
proof -
  let ?d = "aes256gcm_alg_id_der nonce"
  have len: "length ?d = 32" using assms by (simp add: aes256gcm_alg_id_der_def aes256_gcm_oid_body_def)
  have "[0..<19] = 0 # 1 # 2 # [3..<19]" by (simp add: upt_rec)
  moreover have "gcm_nonce_at ?d 0 = None" "gcm_nonce_at ?d 1 = None"
    by (simp_all add: gcm_nonce_at_def aes256gcm_alg_id_der_def)
  moreover have "gcm_nonce_at ?d 2 = Some nonce"
    using assms len by (simp add: gcm_nonce_at_def aes256gcm_alg_id_der_def aes256_gcm_oid_body_def)
  ultimately show ?thesis
    by (simp add: extract_gcm_nonce_def len aes256_gcm_oid_body_def map_filter_simps)
qed

definition tlv :: "bytes \<Rightarrow> bool" where
  "tlv e \<longleftrightarrow> (\<exists>t b. e = t # der_octets (length b) @ b \<and> length b < 2 ^ 32)"

lemma der_octets_pos: "0 < length (der_octets n)"
  by (simp add: der_octets_def)

lemma der_elements_tlv:
  assumes "\<forall>e \<in> set es. tlv e"
  shows "der_elements (pre @ concat es) (length pre) (length pre + length (concat es)) = Inr es"
  using assms
proof (induction es arbitrary: pre)
  case Nil
  then show ?case by (subst der_elements.simps) simp
next
  case (Cons e es)
  obtain t b where e: "e = t # der_octets (length b) @ b" "length b < 2 ^ 32" using Cons.prems by (auto simp: tlv_def)
  have dec: "decode_der_length (der_octets (length b) @ b @ concat es) = Inr (length b, length (der_octets (length b)))"
    using decode_der_octets [OF e(2)] by simp
  have ih: "der_elements ((pre @ e) @ concat es) (length (pre @ e)) (length (pre @ e) + length (concat es)) = Inr es"
    using Cons by (intro Cons.IH) simp
  show ?case
    using ih der_octets_pos [of "length b"]
    by (subst der_elements.simps) (simp add: e(1) dec Let_def add.assoc)
qed

lemma iter_der_elements_set:
  assumes "\<forall>e \<in> set es. tlv e" and "length (concat es) < 2 ^ 32"
  shows "iter_der_elements (0x31 # der_octets (length (concat es)) @ concat es) = Inr es"
  using der_elements_tlv [OF assms(1), of "0x31 # der_octets (length (concat es))"]
    decode_der_octets [OF assms(2)] der_octets_pos [of "length (concat es)"]
  by (simp add: iter_der_elements_def)

section \<open>Opening what was sealed\<close>

text \<open>
  What the code relies on of its libraries: decompression, decryption and the decoders invert
  compression, encryption and the encoders, structures are encoded by the distinguished rules, and a
  signature made by the library verifies and yields the signed content.
\<close>

definition cms_laws :: "cms_ext \<Rightarrow> bool" where
  "cms_laws cx \<longleftrightarrow>
     (\<forall>p c. cx_zstd_encode cx p = Inr c \<longrightarrow> cx_zstd_new cx c = Inr () \<and> cx_zstd_stream cx c = (p, None)) \<and>
     (\<forall>k n p ct tag. cx_gcm_encrypt cx k n p = Inr (ct, tag) \<longrightarrow>
        length tag = 16 \<and> cx_gcm_decrypt cx k n tag ct = Inr p) \<and>
     aes_inverse cx \<and>
     (\<forall>k d. cx_kri_to_der cx k = Some d \<longrightarrow> cx_kri_from_der cx d = Some k) \<and>
     (\<forall>t v d. cx_ori_to_der cx t v = Some d \<longrightarrow> cx_ori_from_der cx d = Some (t, v) \<and> tlv d) \<and>
     (\<forall>alg ct i d. cx_enveloped_build cx alg ct [i] = Some d \<longrightarrow> length i < 2 ^ 32 \<and>
        cx_enveloped_from_der cx d = Some \<lparr>ed_recipient_infos = 0x31 # der_octets (length i) @ i,
          ed_algorithm_der = Some alg, ed_encrypted_content = Some ct\<rparr>) \<and>
     (\<forall>c k d s. cx_cms_sign cx c k d = Inr s \<longrightarrow> cx_cms_verify cx s = Inr d)"

text \<open>A pair of keys of the encapsulation mechanism, and a signing key with its certificate.\<close>

definition kem_pair :: "cms_ext \<Rightarrow> bytes \<Rightarrow> bytes \<Rightarrow> bool" where
  "kem_pair cx spki priv \<longleftrightarrow>
     (\<exists>k. cx_private_key cx priv = Inr k \<and>
       (\<forall>seed ss ct. cx_encapsulate cx spki seed = Inr (ss, ct) \<longrightarrow> cx_decapsulate cx k ct = Inr ss))"

definition signing_pair :: "cms_ext \<Rightarrow> bytes \<Rightarrow> bytes \<Rightarrow> bytes \<Rightarrow> bool" where
  "signing_pair cx cert sk pub \<longleftrightarrow>
     (\<forall>d s. cx_cms_sign cx cert sk d = Inr s \<longrightarrow> (\<exists>rest. cx_cms_certs cx s = Inr (Inr pub # rest)))"

lemma kem_ori_read:
  assumes "cms_laws cx" and "build_kem_ori_der cx kemct ski wrapped = Inr d"
  shows "\<exists>rest kri. d = 0xa4 # rest \<and> tlv d \<and>
      cx_ori_from_der cx (0x30 # rest) = Some (cx_id_ori_kem cx, kri) \<and>
      (\<exists>k. cx_kri_from_der cx kri = Some k \<and> kri_kemct k = kemct \<and> kri_encrypted_key k = wrapped)"
proof -
  obtain kri ori where kri: "cx_kri_to_der cx \<lparr>kri_version = 0, kri_rid = ski, kri_kem = ml_kem_768_alg_der,
          kri_kemct = kemct, kri_kdf = hkdf_sha256_alg_der, kri_kek_length = 32, kri_ukm = None,
          kri_wrap = aes256_wrap_alg_der, kri_encrypted_key = wrapped\<rparr> = Some kri"
      and o: "cx_ori_to_der cx (cx_id_ori_kem cx) kri = Some ori"
      and r: "(case ori of b0 # rest \<Rightarrow> if b0 = 0x30 then Inr (0xa4 # rest) else Inl Encode | [] \<Rightarrow> Inl Encode) = Inr d"
    using assms(2) by (auto simp: build_kem_ori_der_def and_then_Inr split: if_splits)
  obtain rest where ori: "cx_ori_to_der cx (cx_id_ori_kem cx) kri = Some (0x30 # rest)" and d: "d = 0xa4 # rest"
    using o r by (cases ori) (auto split: if_splits)
  have "tlv d"
    using ori assms(1) unfolding cms_laws_def d tlv_def by (metis list.inject)
  then show ?thesis using kri ori assms(1) unfolding cms_laws_def d by fastforce
qed

lemma open_own_recipient:
  assumes laws: "cms_laws cx" and priv: "cx_private_key cx priv = Inr k"
    and kem: "\<And>seed ss ct. cx_encapsulate cx (sr_spki_der r) seed = Inr (ss, ct) \<Longrightarrow> cx_decapsulate cx k ct = Inr ss"
    and cek: "length cek = 32" and rd: "recipient_der cx rnd cek (i, r) = Inr d"
    and nonce: "length nonce = 12" and enc: "cx_gcm_encrypt cx cek nonce p = Inr (ct, tag)"
  shows "open_recipient cx \<lparr>ed_recipient_infos = x, ed_algorithm_der = Some (aes256gcm_alg_id_der nonce),
           ed_encrypted_content = Some (ct @ tag)\<rparr> k d = Some (Inr p)" and "tlv d"
proof -
  obtain ss kemct kek wrapped hash where
      e: "cx_encapsulate cx (sr_spki_der r) (rnd_seed rnd i) = Inr (ss, kemct)"
      and kek: "hkdf_sha256_kek cx ss kemct = Inr kek" and wr: "aes_key_wrap cx kek cek = Inr wrapped"
      and ori: "build_kem_ori_der cx kemct (build_ski_der hash) wrapped = Inr d"
    using rd by (auto simp: recipient_der_def and_then_Inr)
  have un: "aes_key_unwrap cx kek wrapped = Inr cek"
    using aes_key_unwrap_wrap [OF _ cek wr] laws by (simp add: cms_laws_def)
  have g: "length tag = 16" "cx_gcm_decrypt cx cek nonce tag ct = Inr p"
    using laws enc unfolding cms_laws_def by blast+
  obtain rest kri q where "d = 0xa4 # rest" "cx_ori_from_der cx (0x30 # rest) = Some (cx_id_ori_kem cx, kri)"
      "cx_kri_from_der cx kri = Some q" "kri_kemct q = kemct" "kri_encrypted_key q = wrapped" "tlv d"
    using kem_ori_read [OF laws ori] by blast
  then show "open_recipient cx \<lparr>ed_recipient_infos = x, ed_algorithm_der = Some (aes256gcm_alg_id_der nonce),
           ed_encrypted_content = Some (ct @ tag)\<rparr> k d = Some (Inr p)" and "tlv d"
    using kem [OF e] kek un g extract_gcm_nonce_alg [OF nonce] by (simp_all add: open_recipient_def)
qed

lemma open_seal_raw:
  assumes laws: "cms_laws cx" and pair: "kem_pair cx (sr_spki_der r) priv" and s: "seal_raw cx rnd p [r] = Inr d"
  shows "open_raw cx d priv = Inr p"
proof -
  obtain k where k: "cx_private_key cx priv = Inr k"
      "\<And>seed ss ct. cx_encapsulate cx (sr_spki_der r) seed = Inr (ss, ct) \<Longrightarrow> cx_decapsulate cx k ct = Inr ss"
    using pair by (auto simp: kem_pair_def)
  obtain cek nonce ct tag i where cek: "length cek = 32" and nonce: "length nonce = 12"
      and enc: "cx_gcm_encrypt cx cek nonce p = Inr (ct, tag)" and i: "recipient_der cx rnd cek (0, r) = Inr i"
      and b: "cx_enveloped_build cx (aes256gcm_alg_id_der nonce) (ct @ tag) [i] = Some d"
    using s by (auto simp: seal_raw_def and_then_Inr)
  have env: "length i < 2 ^ 32" "cx_enveloped_from_der cx d = Some \<lparr>ed_recipient_infos = 0x31 # der_octets (length i) @ i,
          ed_algorithm_der = Some (aes256gcm_alg_id_der nonce), ed_encrypted_content = Some (ct @ tag)\<rparr>"
    using laws b unfolding cms_laws_def by blast+
  note op = open_own_recipient [OF laws k cek i nonce enc]
  have "iter_der_elements (0x31 # der_octets (length i) @ i) = Inr [i]"
    using iter_der_elements_set [of "[i]"] op(2) env(1) by simp
  then show ?thesis using env(2) k(1) op(1) by (simp add: open_raw_def)
qed

lemma verify_open_seal:
  assumes "cms_laws cx" and "kem_pair cx (sr_spki_der r) priv" and "signing_pair cx cert sk pub"
    and "length p \<le> max_decompressed" and "sign_and_seal cx rnd p [r] sk cert = Inr m"
  shows "verify_and_open cx m priv pub = Inr p"
proof -
  obtain c d where c: "cx_zstd_encode cx p = Inr c" and d: "seal_raw cx rnd c [r] = Inr d"
      and m: "cx_cms_sign cx cert sk d = Inr m"
    using assms(5) by (auto simp: sign_and_seal_def seal_def and_then_Inr split: sum.splits)
  have z: "cx_zstd_new cx c = Inr ()" "cx_zstd_stream cx c = (p, None)" "cx_cms_verify cx m = Inr d"
    using assms(1) c m unfolding cms_laws_def by blast+
  obtain rest where "cx_cms_certs cx m = Inr (Inr pub # rest)" using assms(3) m by (auto simp: signing_pair_def)
  then show ?thesis using z open_seal_raw [OF assms(1,2) d] assms(4)
    by (simp add: verify_and_open_def open_sealed_def)
qed

text \<open>What an accepted message has: the pinned key first among its certificates, and a valid signature.\<close>

lemma verify_and_open_checks:
  assumes "verify_and_open cx m priv pub = Inr p"
  shows "\<exists>rest env. cx_cms_certs cx m = Inr (Inr pub # rest) \<and> cx_cms_verify cx m = Inr env
       \<and> open_sealed cx env priv = Inr p"
proof -
  obtain certs where certs: "cx_cms_certs cx m = Inr certs"
    using assms by (auto simp: verify_and_open_def and_then_Inr)
  then show ?thesis using assms
    by (cases certs; cases "cx_cms_verify cx m") (auto simp: verify_and_open_def and_then_Inr split: if_splits)
qed

section \<open>A sample of the libraries\<close>

definition sample_kri :: "bytes \<Rightarrow> kem_recipient_info" where
  "sample_kri w = \<lparr>kri_version = 0, kri_rid = build_ski_der (replicate 32 0), kri_kem = ml_kem_768_alg_der,
     kri_kemct = [7], kri_kdf = hkdf_sha256_alg_der, kri_kek_length = 32, kri_ukm = None,
     kri_wrap = aes256_wrap_alg_der, kri_encrypted_key = w\<rparr>"

text \<open>A signed message lists two certificates (a key each) and the key that signed it; it verifies
  when one of the certificates has that key.\<close>

definition sample_cms :: cms_ext where
  "sample_cms = \<lparr>cx_zstd_encode = Inr, cx_zstd_new = (\<lambda>_. Inr ()), cx_zstd_stream = (\<lambda>c. (c, None)),
     cx_gcm_encrypt = (\<lambda>_ _ p. Inr (p, replicate 16 0)), cx_gcm_decrypt = (\<lambda>_ _ _ ct. Inr ct),
     cx_encapsulate = (\<lambda>spki _. Inr (spki, [7])), cx_private_key = Inr, cx_decapsulate = (\<lambda>k _. Inr k),
     cx_hkdf_sha256 = (\<lambda>_ _ _ _. Inr (replicate 32 0)), cx_sha256 = (\<lambda>_. Inr (replicate 32 0)),
     cx_aes_ecb = (\<lambda>_ b _. Inr b), cx_algorithm_ok = (\<lambda>_. True),
     cx_kri_to_der = (\<lambda>k. if k = sample_kri (kri_encrypted_key k) then Some (kri_encrypted_key k) else None),
     cx_kri_from_der = (\<lambda>d. Some (sample_kri d)), cx_id_ori_kem = [1], cx_oid_ok = (\<lambda>_. True),
     cx_ori_to_der = (\<lambda>t v. if t = [1] \<and> length v < 2 ^ 32 then Some (0x30 # der_octets (length v) @ v) else None),
     cx_ori_from_der = (\<lambda>d. case decode_der_length (tl d) of Inr (n, lb) \<Rightarrow> Some ([1], drop lb (tl d)) | Inl _ \<Rightarrow> None),
     cx_enveloped_build = (\<lambda>alg ct is. case is of
        [i] \<Rightarrow> if length alg = 32 \<and> length i < 2 ^ 32 then Some (alg @ be64 (length i) @ i @ ct) else None | _ \<Rightarrow> None),
     cx_enveloped_from_der = (\<lambda>d. let n = be_value (take 8 (drop 32 d)) in
        Some \<lparr>ed_recipient_infos = 0x31 # der_octets n @ take n (drop 40 d), ed_algorithm_der = Some (take 32 d),
          ed_encrypted_content = Some (drop (40 + n) d)\<rparr>),
     cx_cms_sign = (\<lambda>cert sk d. if cert = sk then Inr (hd cert # hd cert # hd sk # d) else Inl ''key mismatch''),
     cx_cms_certs = (\<lambda>s. Inr [Inr [s ! 0], Inr [s ! 1]]),
     cx_cms_verify = (\<lambda>s. if s ! 2 = s ! 0 \<or> s ! 2 = s ! 1 then Inr (drop 3 s) else Inl ''no signer'')\<rparr>"

lemma sample_enveloped:
  assumes "length alg = 32" "length i < 2 ^ 32"
  shows "cx_enveloped_from_der sample_cms (alg @ be64 (length i) @ i @ ct) =
    Some \<lparr>ed_recipient_infos = 0x31 # der_octets (length i) @ i, ed_algorithm_der = Some alg, ed_encrypted_content = Some ct\<rparr>"
proof -
  have "be_value (be64 (length i)) = length i" using assms(2) by (intro be_value_be64) simp
  then show ?thesis using assms(1) by (simp add: sample_cms_def)
qed

lemma sample_ori:
  assumes "length v < 2 ^ 32"
  shows "cx_ori_from_der sample_cms (0x30 # der_octets (length v) @ v) = Some ([1], v)"
  using decode_der_octets [OF assms, of v] by (simp add: sample_cms_def)

lemma sample_cms_laws: "cms_laws sample_cms"
proof -
  have "length i < 2 ^ 32 \<and>
        cx_enveloped_from_der sample_cms d = Some \<lparr>ed_recipient_infos = 0x31 # der_octets (length i) @ i,
          ed_algorithm_der = Some alg, ed_encrypted_content = Some ct\<rparr>"
    if "cx_enveloped_build sample_cms alg ct [i] = Some d" for alg ct i d
  proof -
    have "length alg = 32" "length i < 2 ^ 32" "d = alg @ be64 (length i) @ i @ ct"
      using that by (auto simp: sample_cms_def split: if_splits)
    then show ?thesis using sample_enveloped by simp
  qed
  moreover have "cx_ori_from_der sample_cms d = Some (t, v) \<and> tlv d" if "cx_ori_to_der sample_cms t v = Some d" for t v d
  proof -
    have "t = [1]" "length v < 2 ^ 32" "d = 0x30 # der_octets (length v) @ v"
      using that by (auto simp: sample_cms_def split: if_splits)
    then show ?thesis using sample_ori by (auto simp: tlv_def)
  qed
  moreover have "cx_kri_from_der sample_cms d = Some k" if "cx_kri_to_der sample_cms k = Some d" for k d
    using that by (auto simp: sample_cms_def split: if_splits)
  moreover have "aes_inverse sample_cms" by (simp add: aes_inverse_def sample_cms_def)
  moreover have "cx_cms_verify sample_cms s = Inr d" if "cx_cms_sign sample_cms c k d = Inr s" for c k d s
    using that by (auto simp: sample_cms_def split: if_splits)
  moreover have "cx_zstd_new sample_cms c = Inr () \<and> cx_zstd_stream sample_cms c = (p, None)"
    if "cx_zstd_encode sample_cms p = Inr c" for p c
    using that by (simp add: sample_cms_def)
  moreover have "length tag = 16 \<and> cx_gcm_decrypt sample_cms k n tag ct = Inr p"
    if "cx_gcm_encrypt sample_cms k n p = Inr (ct, tag)" for k n p ct tag
    using that by (auto simp: sample_cms_def)
  ultimately show ?thesis unfolding cms_laws_def by blast
qed

lemma sample_pairs: "kem_pair sample_cms [5] [5]" "signing_pair sample_cms [k] [k] [k]"
  by (simp_all add: kem_pair_def signing_pair_def sample_cms_def)

definition sample_rnd :: seal_random where
  "sample_rnd = \<lparr>rnd_cek = Inr (replicate 32 1), rnd_nonce = Inr (replicate 12 2), rnd_seed = (\<lambda>_. 0)\<rparr>"

lemma run_steps_total:
  assumes "\<And>s x. s \<in> set ss \<Longrightarrow> P x \<Longrightarrow> \<exists>y. f s x = Inr y \<and> P y" and "P x"
  shows "\<exists>y. run_steps f ss x = Inr y \<and> P y"
  using assms
proof (induction ss arbitrary: x)
  case (Cons s ss)
  then obtain y where "f s x = Inr y" "P y" by (meson list.set_intros(1))
  then show ?case using Cons.IH [of y] Cons.prems(1) by (simp add: and_then_Inr)
qed simp

lemma sample_wrap:
  assumes "length cek = 32"
  shows "\<exists>w. aes_key_wrap sample_cms kek cek = Inr w \<and> length w = 40"
proof -
  have "\<exists>y. wrap_step sample_cms kek s x = Inr y \<and> wrap_state y" if "s \<in> set wrap_rounds" "wrap_state x" for s x
  proof -
    obtain j i a r where sx: "s = (j, i)" "x = (a, r)" by fastforce
    then have "i < 4" "length a = 8" "length r = 4" "\<forall>b \<in> set r. length b = 8"
      using that by (simp_all add: wrap_rounds_def wrap_state_def)
    then have "\<exists>y. wrap_step sample_cms kek s x = Inr y"
      by (simp add: sx wrap_step_def aes_ecb_block_def sized_def sample_cms_def)
    then show ?thesis using unwrap_wrap_step [OF _ that(1,2)] sample_cms_laws by (fastforce simp: cms_laws_def)
  qed
  moreover have "wrap_state (be64 aes_wrap_iv, blocks8 cek)" using assms by (simp add: wrap_state_def blocks8_eq)
  ultimately obtain a r where "run_steps (wrap_step sample_cms kek) wrap_rounds (be64 aes_wrap_iv, blocks8 cek) = Inr (a, r)"
      "wrap_state (a, r)"
    using run_steps_total [of wrap_rounds wrap_state "wrap_step sample_cms kek"] by fastforce
  then show ?thesis using blocks8_concat [of r] by (simp add: aes_key_wrap_def wrap_state_def)
qed

lemma sample_library [simp]:
  "cx_zstd_encode sample_cms p = Inr p" "cx_zstd_new sample_cms c = Inr ()" "cx_zstd_stream sample_cms c = (c, None)"
  "cx_gcm_encrypt sample_cms key n p = Inr (p, replicate 16 0)" "cx_encapsulate sample_cms spki seed = Inr (spki, [7])"
  "cx_cms_sign sample_cms [k] [k] d = Inr (k # k # k # d)"
  "cx_cms_certs sample_cms (x # y # z # d) = Inr [Inr [x], Inr [y]]"
  "cx_cms_verify sample_cms (x # y # y # d) = Inr d"
  by (simp_all add: sample_cms_def)

lemma sample_sealed: "\<exists>d. seal_raw sample_cms sample_rnd p [\<lparr>sr_hint = h, sr_spki_der = spki\<rparr>] = Inr d"
proof -
  obtain w where w: "aes_key_wrap sample_cms (replicate 32 0) (replicate 32 1) = Inr w" "length w = 40"
    using sample_wrap by force
  have k: "hkdf_sha256_kek sample_cms ss ct = Inr (replicate 32 0)" "sha256_32 sample_cms x = Inr (replicate 32 0)" for ss ct x
    by (simp_all add: hkdf_sha256_kek_def sha256_32_def sized_def sample_cms_def)
  have "build_kem_ori_der sample_cms [7] (build_ski_der (replicate 32 0)) w = Inr (0xa4 # der_octets 40 @ w)"
    using w(2) by (simp add: build_kem_ori_der_def sample_cms_def sample_kri_def)
  then have "recipient_der sample_cms sample_rnd (replicate 32 1) (0, \<lparr>sr_hint = h, sr_spki_der = spki\<rparr>)
      = Inr (0xa4 # der_octets 40 @ w)"
    using w(1) k by (simp add: recipient_der_def)
  moreover have "length (0xa4 # der_octets 40 @ w) < 2 ^ 32" using w(2) by (simp add: der_octets_def)
  moreover have "length (aes256gcm_alg_id_der (replicate 12 2)) = 32"
    by (simp add: aes256gcm_alg_id_der_def aes256_gcm_oid_body_def)
  ultimately show ?thesis
    by (simp add: seal_raw_def sample_rnd_def sized_def) (simp add: sample_cms_def)
qed

lemma sample_message:
  "\<exists>m. sign_and_seal sample_cms sample_rnd p [\<lparr>sr_hint = h, sr_spki_der = spki\<rparr>] [k] [k] = Inr m"
  using sample_sealed [of p h spki] by (auto simp: sign_and_seal_def seal_def)

text \<open>C32: A gossip message is opened to what was sealed. Under the laws of the libraries, whatever one node signs
  with its key and seals for the key of another node, the other node, with the first node's signing key
  pinned, opens to exactly the same bytes: the compression, the wrapping of the content key by 24 rounds
  of AES and its unwrapping in the reverse order, the encoding of the recipient info with its replaced
  tag and the search for the nonce fit together. The message is at most 64 MiB, the limit of the opener.\<close>

theorem seal_open_round_trip:
  assumes "cms_laws cx" and "kem_pair cx spki kem_priv" and "signing_pair cx cert sign_priv sign_pub"
    and "length message \<le> max_decompressed"
    and "sign_and_seal cx rnd message [\<lparr>sr_hint = hint, sr_spki_der = spki\<rparr>] sign_priv cert = Inr sealed"
  shows "verify_and_open cx sealed kem_priv sign_pub = Inr message"
  using verify_open_seal [OF assms(1) _ assms(3-5)] assms(2) by simp

theorem seal_open_round_trip_witness:
  "\<exists>m. sign_and_seal sample_cms sample_rnd [42, 43] [\<lparr>sr_hint = ''n2'', sr_spki_der = [5]\<rparr>] [1] [1] = Inr m
     \<and> verify_and_open sample_cms m [5] [1] = Inr [42, 43]"
proof -
  obtain m where m: "sign_and_seal sample_cms sample_rnd [42, 43] [\<lparr>sr_hint = ''n2'', sr_spki_der = [5]\<rparr>] [1] [1] = Inr m"
    using sample_message by blast
  have "verify_and_open sample_cms m [5] [1] = Inr [42, 43]"
    by (rule seal_open_round_trip [OF sample_cms_laws sample_pairs _ m]) (simp add: max_decompressed_def)
  with m show ?thesis by blast
qed

text \<open>
  The first certificate of a message need not be the one that signed it. In this sample, whose
  signatures verify against any certificate of the message, a message that lists the pinned key \<open>1\<close>
  first and is signed with the key \<open>9\<close> of another certificate is accepted as the pinned sender's.
\<close>

lemma foreign_signer_accepted:
  "\<exists>d. verify_and_open sample_cms (1 # 9 # 9 # d) [5] [1] = Inr message"
  if "length message \<le> max_decompressed"
proof -
  obtain d where d: "seal_raw sample_cms sample_rnd message [\<lparr>sr_hint = ''n2'', sr_spki_der = [5]\<rparr>] = Inr d"
    using sample_sealed by blast
  have "open_raw sample_cms d [5] = Inr message"
    using open_seal_raw [OF sample_cms_laws _ d] sample_pairs(1) by simp
  then have "verify_and_open sample_cms (1 # 9 # 9 # d) [5] [1] = Inr message"
    using that by (simp add: verify_and_open_def open_sealed_def)
  then show ?thesis by blast
qed

end
