(* ===== verification/Crdt_Exchange.thy ===== *)
theory Crdt_Exchange
  imports Cluster_Generations
begin

text \<open>
  The answer of a node to a push: the entries it wrote after a generation the sender has seen and up to
  its own counter before it merged the push. Together with what the sender has, they make up the
  answering node's whole state, although the merge has restamped some of the entries meanwhile.
\<close>

section \<open>Bodies that keep or take over entries\<close>

locale answering_body = forwarding_body body eview ejoin gen
  for body :: "u64 \<Rightarrow> 'e option \<Rightarrow> 'e \<Rightarrow> u64 \<times> 'e"
    and eview :: "'e option \<Rightarrow> 'w"
    and ejoin :: "'w \<Rightarrow> 'w \<Rightarrow> 'w"
    and gen :: "'e \<Rightarrow> u64" +
  assumes body_outcome: "g < 2 ^ 64 - 1 \<Longrightarrow>
      own = Some (snd (body g own e)) \<or> (own = None \<and> eview (Some (snd (body g own e))) = eview None)
      \<or> (g < gen (snd (body g own e)) \<and> eview (Some (snd (body g own e))) = eview (Some e))"
    and ejoin_below: "ejoin x y = x \<Longrightarrow> ejoin z y = y \<Longrightarrow> ejoin x z = x"
begin

lemma merge_loop_at:
  assumes "hm_wf other" and "g + length other < 2 ^ 64"
  shows "(hm_get other k = None \<and> hm_get (snd (merge_loop body g m other)) k = hm_get m k) \<or>
    (\<exists>h e. g \<le> h \<and> h < 2 ^ 64 - 1 \<and> hm_get other k = Some e \<and>
       hm_get (snd (merge_loop body g m other)) k = Some (snd (body h (hm_get m k) e)))"
  using assms
proof (induction other arbitrary: g m)
  case (Cons ko rest)
  obtain k' e where ko: "ko = (k', e)" by fastforce
  obtain g' e' where b: "body g (hm_get m k') e = (g', e')" by fastforce
  from Cons.prems ko have wf: "hm_wf rest" and notin: "k' \<notin> fst ` set rest"
    by (auto simp: hm_wf_def)
  have g: "g < 2 ^ 64 - 1" using Cons.prems by simp
  have g': "g \<le> g'" "g' \<le> Suc g" using body_counter [OF g, of "hm_get m k'" e] b by auto
  show ?case
  proof (cases "k = k'")
    case True
    have "hm_get (snd (merge_loop body g m (ko # rest))) k = Some e'"
      using merge_loop_other_key [OF notin, of body g' "hm_insert k' e' m"] by (simp add: ko b True hm_get_insert)
    then show ?thesis using g b True ko by force
  next
    case False
    have "g' + length rest < 2 ^ 64" using Cons.prems g' by simp
    from Cons.IH [OF wf this, of "hm_insert k' e' m"] False g' show ?thesis
      by (auto simp: ko b hm_get_insert intro: order_trans)
  qed
qed simp

lemma answer_complete:
  assumes wf: "hm_wf m" "hm_wf other" and g: "g0 \<le> g" "g + length other < 2 ^ 64"
    and gens: "gens_upto gen g0 m"
    and pushed: "ejoin x (eview (hm_get other k)) = x"
    and seen: "ejoin x (eview (hm_get (hm_retain (\<lambda>_ e. gen e \<le> since) m) k)) = x"
  shows "ejoin x (eview (hm_get (hm_retain (\<lambda>_ e. gen e > since \<and> gen e \<le> g0) (snd (merge_loop body g m other))) k))
    = ejoin x (eview (hm_get m k))"
proof -
  let ?m = "snd (merge_loop body g m other)"
  have wf': "hm_wf ?m" using wf(1) by (rule hm_wf_merge_loop)
  note retain = hm_get_retain [OF wf'] and retain0 = hm_get_retain [OF wf(1)]
  have kept: ?thesis if "hm_get ?m k = hm_get m k"
    using that seen gens_uptoD [OF gens, of k]
    by (auto simp: retain retain0 ejoin_absent split: option.splits if_splits)
  from merge_loop_at [OF wf(2) g(2), of k m] show ?thesis
  proof
    assume "\<exists>h e. g \<le> h \<and> h < 2 ^ 64 - 1 \<and> hm_get other k = Some e \<and> hm_get ?m k = Some (snd (body h (hm_get m k) e))"
    then obtain h e where h: "g \<le> h" "h < 2 ^ 64 - 1" "hm_get other k = Some e"
        "hm_get ?m k = Some (snd (body h (hm_get m k) e))" by blast
    from body_outcome [OF h(2), of "hm_get m k" e] consider
        "hm_get m k = Some (snd (body h (hm_get m k) e))"
      | "hm_get m k = None" "eview (Some (snd (body h (hm_get m k) e))) = eview None"
      | "h < gen (snd (body h (hm_get m k) e))" "eview (Some (snd (body h (hm_get m k) e))) = eview (Some e)"
      by metis
    then show ?thesis
    proof cases
      case 1
      then show ?thesis using kept h(4) by metis
    next
      case 2
      then show ?thesis using h(4) by (simp add: retain ejoin_absent)
    next
      case 3
      have "ejoin (eview (hm_get m k)) (eview (Some e)) = eview (Some e)" using eview_body [of h "hm_get m k" e] 3(2) by simp
      then have "ejoin x (eview (hm_get m k)) = x" using pushed h(3) ejoin_below by metis
      then show ?thesis using 3(1) h(1,4) g(1) by (simp add: retain ejoin_absent)
    qed
  qed (use kept in blast)
qed

end

interpretation or_answer: answering_body or_merge_body or_oview or_vjoin or_local_gen
proof unfold_locales
  fix g :: u64 and own :: "'a or_entry option" and e :: "'a or_entry"
  assume g: "g < 2 ^ 64 - 1"
  show "own = Some (snd (or_merge_body g own e)) \<or>
      own = None \<and> or_oview (Some (snd (or_merge_body g own e))) = or_oview None \<or>
      g < or_local_gen (snd (or_merge_body g own e)) \<and>
      or_oview (Some (snd (or_merge_body g own e))) = or_oview (Some e)"
    using g by (auto simp: or_merge_body_def next_gen_Suc split: option.split)
next
  fix x y z :: "'a or_view"
  show "or_vjoin x y = x \<Longrightarrow> or_vjoin z y = y \<Longrightarrow> or_vjoin x z = x"
    by (cases x; cases y; cases z) (auto split: if_splits)
qed

interpretation lww_answer: answering_body lww_map_merge_body lww_oview lww_join lww_local_gen
proof unfold_locales
  fix g :: u64 and own :: "'a lww_register option" and e :: "'a lww_register"
  assume g: "g < 2 ^ 64 - 1"
  show "own = Some (snd (lww_map_merge_body g own e)) \<or>
      own = None \<and> lww_oview (Some (snd (lww_map_merge_body g own e))) = lww_oview None \<or>
      g < lww_local_gen (snd (lww_map_merge_body g own e)) \<and>
      lww_oview (Some (snd (lww_map_merge_body g own e))) = lww_oview (Some e)"
    using g by (auto simp: lww_map_merge_body_def lww_merge_def lww_set_def lww_remove_def lww_entry_def lww_view_def
        lww_default_def lww_unset_def next_gen_Suc split: option.split)
next
  fix x y z :: "'a lww_view"
  show "lww_join x y = x \<Longrightarrow> lww_join z y = y \<Longrightarrow> lww_join x z = x"
    by (auto simp: lww_join_def split: if_splits)
qed

section \<open>The answer, field by field\<close>

lemma or_map_answer:
  assumes "hm_wf m" "hm_wf other" "room g0 (length other + n) g" "gens_upto or_local_gen g0 m"
    and "or_map_join x (or_map_view other) = x" "or_map_join x (or_map_view (or_map_upto m since)) = x"
    and "or_merge g m other = (g', m')"
  shows "or_map_join x (or_map_view (or_delta_range m' since g0)) = or_map_join x (or_map_view m)"
proof
  fix k
  have "snd (merge_loop or_merge_body g m other) = m'" using assms(7) by (simp add: or_merge_def)
  then show "or_map_join x (or_map_view (or_delta_range m' since g0)) k = or_map_join x (or_map_view m) k"
    using or_answer.answer_complete [OF assms(1,2) _ _ assms(4), of g "x k" k since] assms(3)
      fun_cong [OF assms(5), of k] fun_cong [OF assms(6), of k]
    by (simp add: room_def or_map_join_def or_map_view_def or_map_upto_def or_delta_range_def)
qed

lemma lww_map_range: "lww_map_delta_range m since gen = hm_retain (\<lambda>_ r. lww_local_gen r > since \<and> lww_local_gen r \<le> gen) m"
  by (induction m)
     (auto simp: lww_map_delta_range_def lww_delta_range_def hm_retain_def map_filter_def split: if_splits)

lemma lww_map_answer:
  assumes "hm_wf m" "hm_wf other" "room g0 (length other + n) g" "gens_upto lww_local_gen g0 m"
    and "lww_map_join x (lww_map_view other) = x" "lww_map_join x (lww_map_view (lww_map_upto m since)) = x"
    and "lww_map_merge g m other = (g', m')"
  shows "lww_map_join x (lww_map_view (lww_map_delta_range m' since g0)) = lww_map_join x (lww_map_view m)"
proof
  fix k
  have "snd (merge_loop lww_map_merge_body g m other) = m'" using assms(7) by (simp add: lww_map_merge_def)
  then show "lww_map_join x (lww_map_view (lww_map_delta_range m' since g0)) k = lww_map_join x (lww_map_view m) k"
    using lww_answer.answer_complete [OF assms(1,2) _ _ assms(4), of g "x k" k since] assms(3)
      fun_cong [OF assms(5), of k] fun_cong [OF assms(6), of k]
    by (simp add: room_def lww_map_join_def lww_map_view_def lww_map_upto_def lww_map_range)
qed

lemma lww_answer_register:
  assumes "room g0 1 g" "lww_local_gen r \<le> g0" "lww_join x (lww_view other) = x"
    and "lww_join x (lww_view (if lww_local_gen r \<le> since then r else lww_default)) = x"
    and "lww_merge g r other = (g', r')"
  shows "lww_join x (lww_view (case lww_delta_range r' since g0 of None \<Rightarrow> lww_default | Some q \<Rightarrow> q))
    = lww_join x (lww_view r)"
proof -
  have "r' = r \<or> (g0 < lww_local_gen r' \<and> lww_view r' = lww_view other)"
    using assms(1,5) by (auto simp: room_def lww_merge_def lww_set_def lww_remove_def lww_view_def next_gen_Suc
        split: if_splits option.splits)
  then show ?thesis
  proof
    assume "r' = r"
    then show ?thesis using assms(2,4) by (auto simp: lww_delta_range_def split: if_splits)
  next
    assume r': "g0 < lww_local_gen r' \<and> lww_view r' = lww_view other"
    have "lww_join (lww_view r) (lww_view other) = lww_view other"
      using lww_view_merge [of g r other] assms(5) r' by simp
    then have "lww_join x (lww_view r) = x" using assms(3) lww_answer.ejoin_below by blast
    then show ?thesis using r' by (simp add: lww_delta_range_def)
  qed
qed

section \<open>The answer of the whole state\<close>

lemma aka_answer_complete:
  assumes wf: "aka_wf s" "aka_wf other" and room: "g + aka_size other < 2 ^ 64" and gens: "aka_gens_upto g s"
    and pushed: "aka_join x (aka_view other) = x" and seen: "aka_join x (aka_view (aka_upto s since)) = x"
  shows "aka_join x (aka_view (aka_delta_range (snd (aka_merge g s other)) since g)) = aka_join x (aka_view s)"
proof -
  obtain g1 m1 where m1: "or_merge g (cluster_nodes s) (cluster_nodes other) = (g1, m1)" by fastforce
  obtain g2 m2 where m2: "or_merge g1 (accounts s) (accounts other) = (g2, m2)" by fastforce
  obtain g3 m3 where m3: "or_merge g2 (orders s) (orders other) = (g3, m3)" by fastforce
  obtain g4 m4 where m4: "or_merge g3 (authorizations s) (authorizations other) = (g4, m4)" by fastforce
  obtain g5 m5 where m5: "lww_map_merge g4 (challenges s) (challenges other) = (g5, m5)" by fastforce
  obtain g6 m6 where m6: "or_merge g5 (certificates s) (certificates other) = (g6, m6)" by fastforce
  obtain g7 m7 where m7: "lww_map_merge g6 (eab_keys s) (eab_keys other) = (g7, m7)" by fastforce
  obtain g8 m8 where m8: "or_merge g7 (operators s) (operators other) = (g8, m8)" by fastforce
  obtain g9 m9 where m9: "or_merge g8 (delegations s) (delegations other) = (g9, m9)" by fastforce
  obtain g10 m10 where m10: "or_merge g9 (policy_rules s) (policy_rules other) = (g10, m10)" by fastforce
  obtain g11 m11 where m11: "lww_map_merge g10 (mtc_checkpoints s) (mtc_checkpoints other) = (g11, m11)" by fastforce
  obtain g12 m12 where m12: "lww_map_merge g11 (mtc_cosignatures s) (mtc_cosignatures other) = (g12, m12)" by fastforce
  obtain g13 m13 where m13: "lww_map_merge g12 (order_owners s) (order_owners other) = (g13, m13)" by fastforce
  obtain g14 m14 where m14: "lww_merge g13 (mtc_writer s) (mtc_writer other) = (g14, m14)" by fastforce
  note w = aka_wfD [OF wf(1)] and v = aka_wfD [OF wf(2)]
  have r1: "room g (length (cluster_nodes other) + (length (accounts other) + (length (orders other)
      + (length (authorizations other) + (length (challenges other) + (length
      (certificates other) + (length (eab_keys other) + (length (operators other) +
      (length (delegations other) + (length (policy_rules other) + (length
      (mtc_checkpoints other) + (length (mtc_cosignatures other) + (length
      (order_owners other) + 1))))))))))))) g"
    using room by (simp add: room_def aka_size_def)
  note r2 = or_step_room [OF or_stepI [OF m1 r1 w(1) v(1)]]
  note r3 = or_step_room [OF or_stepI [OF m2 r2 w(2) v(2)]]
  note r4 = or_step_room [OF or_stepI [OF m3 r3 w(3) v(3)]]
  note r5 = or_step_room [OF or_stepI [OF m4 r4 w(4) v(4)]]
  note r6 = lww_map_step_room [OF lww_map_stepI [OF m5 r5 w(5) v(5)]]
  note r7 = or_step_room [OF or_stepI [OF m6 r6 w(6) v(6)]]
  note r8 = lww_map_step_room [OF lww_map_stepI [OF m7 r7 w(7) v(7)]]
  note r9 = or_step_room [OF or_stepI [OF m8 r8 w(8) v(8)]]
  note r10 = or_step_room [OF or_stepI [OF m9 r9 w(9) v(9)]]
  note r11 = or_step_room [OF or_stepI [OF m10 r10 w(10) v(10)]]
  note r12 = lww_map_step_room [OF lww_map_stepI [OF m11 r11 w(11) v(11)]]
  note r13 = lww_map_step_room [OF lww_map_stepI [OF m12 r12 w(12) v(12)]]
  note r14 = lww_map_step_room [OF lww_map_stepI [OF m13 r13 w(13) v(13)]]
  have gs: "gens_upto or_local_gen g (cluster_nodes s)" "gens_upto or_local_gen g (accounts s)"
    "gens_upto or_local_gen g (orders s)" "gens_upto or_local_gen g (authorizations s)"
    "gens_upto lww_local_gen g (challenges s)" "gens_upto or_local_gen g (certificates s)"
    "gens_upto lww_local_gen g (eab_keys s)" "gens_upto or_local_gen g (operators s)"
    "gens_upto or_local_gen g (delegations s)" "gens_upto or_local_gen g (policy_rules s)"
    "gens_upto lww_local_gen g (mtc_checkpoints s)" "gens_upto lww_local_gen g (mtc_cosignatures s)"
    "gens_upto lww_local_gen g (order_owners s)" "lww_local_gen (mtc_writer s) \<le> g"
    using gens by (simp_all add: aka_gens_upto_def)
  note p = arg_cong [OF pushed, of v_cluster_nodes] arg_cong [OF pushed, of v_accounts] arg_cong [OF pushed, of v_orders]
    arg_cong [OF pushed, of v_authorizations] arg_cong [OF pushed, of v_challenges] arg_cong [OF pushed, of v_certificates]
    arg_cong [OF pushed, of v_eab_keys] arg_cong [OF pushed, of v_operators] arg_cong [OF pushed, of v_delegations]
    arg_cong [OF pushed, of v_policy_rules] arg_cong [OF pushed, of v_mtc_checkpoints]
    arg_cong [OF pushed, of v_mtc_cosignatures] arg_cong [OF pushed, of v_order_owners] arg_cong [OF pushed, of v_mtc_writer]
  note q = arg_cong [OF seen, of v_cluster_nodes] arg_cong [OF seen, of v_accounts] arg_cong [OF seen, of v_orders]
    arg_cong [OF seen, of v_authorizations] arg_cong [OF seen, of v_challenges] arg_cong [OF seen, of v_certificates]
    arg_cong [OF seen, of v_eab_keys] arg_cong [OF seen, of v_operators] arg_cong [OF seen, of v_delegations]
    arg_cong [OF seen, of v_policy_rules] arg_cong [OF seen, of v_mtc_checkpoints]
    arg_cong [OF seen, of v_mtc_cosignatures] arg_cong [OF seen, of v_order_owners] arg_cong [OF seen, of v_mtc_writer]
  note pq = p q
  have r: "snd (aka_merge g s other) = \<lparr>cluster_nodes = m1, accounts = m2, orders = m3,
       authorizations = m4, challenges = m5, certificates = m6,
       eab_keys = m7, operators = m8, delegations = m9,
       policy_rules = m10, mtc_checkpoints = m11,
       mtc_cosignatures = m12, order_owners = m13, mtc_writer = m14\<rparr>"
    by (simp add: aka_merge_def m1 m2 m3 m4 m5 m6 m7 m8 m9 m10 m11 m12 m13 m14)
  note u = pq [unfolded aka_join_def aka_view_def aka_upto_def, simplified]
  show ?thesis
    unfolding r aka_delta_range_def aka_join_def aka_view_def
    by (simp add: or_map_answer [OF w(1) v(1) r1 gs(1) u(1) u(15) m1] or_map_answer [OF w(2) v(2) r2 gs(2) u(2) u(16) m2]
      or_map_answer [OF w(3) v(3) r3 gs(3) u(3) u(17) m3] or_map_answer [OF w(4) v(4) r4 gs(4) u(4) u(18) m4]
      lww_map_answer [OF w(5) v(5) r5 gs(5) u(5) u(19) m5] or_map_answer [OF w(6) v(6) r6 gs(6) u(6) u(20) m6]
      lww_map_answer [OF w(7) v(7) r7 gs(7) u(7) u(21) m7] or_map_answer [OF w(8) v(8) r8 gs(8) u(8) u(22) m8]
      or_map_answer [OF w(9) v(9) r9 gs(9) u(9) u(23) m9] or_map_answer [OF w(10) v(10) r10 gs(10) u(10) u(24) m10]
      lww_map_answer [OF w(11) v(11) r11 gs(11) u(11) u(25) m11] lww_map_answer [OF w(12) v(12) r12 gs(12) u(12) u(26) m12]
      lww_map_answer [OF w(13) v(13) r13 gs(13) u(13) u(27) m13] lww_answer_register [OF r14 gs(14) u(14) u(28) m14])
qed

end
