(* ===== verification/Gossip_Exchange.thy ===== *)
theory Gossip_Exchange
  imports Gossip_Sync Gossip_Sealing Crdt_Exchange Cluster_Properties Policy_Properties
begin

text \<open>
  An exchange between two nodes, from the choice of what to send to the recording of what the peer has:
  one node's loop pushes, the other's handler merges and answers, and the loop merges the answer.
\<close>

section \<open>Joining views\<close>

lemma empty_map_joins:
  "or_map_join (or_map_view []) v = v" "or_map_join v (or_map_view []) = v"
  "lww_map_history h u \<Longrightarrow> lww_map_join (lww_map_view []) u = u" "lww_map_join u (lww_map_view []) = u"
  by (auto simp: fun_eq_iff or_map_join_def or_map_view_def lww_map_join_def lww_map_view_def lww_map_history_def
      intro: lww_join_unset_left)

lemma aka_join_default:
  "aka_history w v \<Longrightarrow> aka_join (aka_view aka_default) v = v" "aka_join v (aka_view aka_default) = v"
  by (auto simp: aka_join_def aka_view_def aka_default_def aka_history_def empty_map_joins)

text \<open>What a state holds up to a generation, or since it, adds nothing to the state.\<close>

lemma aka_parts_below:
  assumes "aka.ok w s"
  shows "aka_join (aka_view s) (aka_view (aka_upto s g)) = aka_view s"
    and "aka_join (aka_view s) (aka_view (aka_delta_since s g)) = aka_view s"
proof -
  let ?u = "aka_view (aka_upto s g)" and ?d = "aka_view (aka_delta_since s g)"
  have uv: "aka_history w ?u" "aka_history w ?d" using assms by (simp_all add: aka.ok_upto aka.ok_delta aka.ok_univ)
  have s: "aka_view s = aka_join ?u ?d" using aka.view_split [of s w g] assms by (simp add: aka.ok_def)
  have "aka_join (aka_join ?u ?d) ?u = aka_join (aka_join ?d ?u) ?u" using aka.join_comm [OF uv] by simp
  also have "\<dots> = aka_join ?d ?u" using uv by (simp add: aka.join_assoc [of w] aka.join_idem [of w])
  finally show "aka_join (aka_view s) ?u = aka_view s" using s aka.join_comm [OF uv] by simp
  show "aka_join (aka_view s) ?d = aka_view s"
    using uv unfolding s by (simp add: aka.join_assoc [of w] aka.join_idem [of w])
qed

lemma lww_map_history_retain:
  assumes "hm_wf m" and "lww_map_history w (lww_map_view m)"
  shows "lww_map_history w (lww_map_view (hm_retain p m))"
  unfolding lww_map_history_def
proof
  fix k
  show "lww_history (w k) (lww_map_view (hm_retain p m) k)"
    using assms(2) [unfolded lww_map_history_def, rule_format, of k] assms(1)
    by (cases "hm_get m k") (simp_all add: lww_map_view_def hm_get_retain)
qed

lemma aka_range_ok:
  assumes "aka.ok w s"
  shows "aka.ok w (aka_delta_range s since until)"
  using assms
  by (simp add: aka.ok_def aka_wf_def aka_history_def aka_view_def aka_delta_range_def or_delta_range_def lww_map_range
      or_map_history_retain lww_map_history_retain lww_delta_range_def)

section \<open>The state of an exchange\<close>

text \<open>
  What the loop's maps record about a peer is true: the peer holds everything written here up to the
  recorded generation, and everything the peer wrote up to its recorded generation is held here.
\<close>

definition synced :: "round_maps \<Rightarrow> string \<Rightarrow> gossip_node \<Rightarrow> gossip_node \<Rightarrow> bool" where
  "synced rm url a b \<longleftrightarrow>
     (\<forall>g. hm_get (rm_last_gen rm) url = Some g \<longrightarrow>
        aka_join (aka_view (gn_crdt b)) (aka_view (aka_upto (gn_crdt a) g)) = aka_view (gn_crdt b)) \<and>
     (\<forall>g. hm_get (rm_response_gen rm) url = Some g \<longrightarrow>
        aka_join (aka_view (gn_crdt a)) (aka_view (aka_upto (gn_crdt b) g)) = aka_view (gn_crdt a))"

text \<open>The codec: what it has encoded it decodes to the same replicated state, and to the same envelope.\<close>

definition cbor_laws :: "cbor_ext \<Rightarrow> bool" where
  "cbor_laws cb \<longleftrightarrow>
     (\<forall>c b. aka_wf c \<longrightarrow> cb_encode_crdt cb c = Inr b \<longrightarrow>
        (\<exists>c'. cb_decode_crdt cb b = Inr c' \<and> aka_wf c' \<and> aka_view c' = aka_view c \<and> aka_size c' = aka_size c)) \<and>
     (\<forall>e b. cb_encode cb e = Inr b \<longrightarrow> cb_decode cb b = Inr e \<and> length b \<le> max_decompressed)"

text \<open>Two nodes that have enrolled each other: each has pinned the keys the other one uses.\<close>

definition enrolled :: "cms_ext \<Rightarrow> gossip_node \<Rightarrow> gossip_node \<Rightarrow> string \<Rightarrow> bool" where
  "enrolled cx a b url \<longleftrightarrow>
     (\<exists>i kem_b pub_b kem_a pub_a.
        find_peer a url = Some (i, kem_b, pub_b) \<and>
        pinned_keys (st_node_id (gn_app a)) (gn_crdt b) = Some (pub_a, kem_a) \<and>
        kem_pair cx kem_b (gn_kem_priv b) \<and> kem_pair cx kem_a (gn_kem_priv a) \<and>
        signing_pair cx (gn_signing_cert a) (gn_signing_priv a) pub_a \<and>
        signing_pair cx (gn_signing_cert b) (gn_signing_priv b) pub_b)"

text \<open>One exchange: the push, the peer's handler, and the merging of its response.\<close>

definition exchange ::
  "'q policy_ext \<Rightarrow> json_ext \<Rightarrow> cms_ext \<Rightarrow> cbor_ext \<Rightarrow> acme_error option \<Rightarrow> bool \<Rightarrow> seal_random \<Rightarrow> seal_random
     \<Rightarrow> (cms_error + bytes) \<Rightarrow> (cms_error + bytes) \<Rightarrow> i64 \<Rightarrow> i64 \<Rightarrow> i64 \<Rightarrow> i64 \<Rightarrow> string
     \<Rightarrow> gossip_node \<times> round_maps \<Rightarrow> gossip_node \<Rightarrow> ((gossip_node \<times> round_maps) \<times> gossip_node) option" where
  "exchange px jx cx cb load ok rnd rnd' nonce nonce' t0 t1 t2 t3 url = (\<lambda>(a, rm) b.
     case prepare_peer cb nonce t1 (gn_gen a) a url rm of
       (None, _) \<Rightarrow> None
     | (Some pp, rm1) \<Rightarrow>
         (case seal_peer cx rnd a pp of
            None \<Rightarrow> None
          | Some pt \<Rightarrow>
              (case gossip_sync cx cb rnd' nonce' t2 t3 (Some (pt_header pt)) (pt_body pt) b of
                 (Inl _, _) \<Rightarrow> None
               | (Inr resp, b') \<Rightarrow>
                   if validate_response cx cb t0 a (pt, Some resp) = None then None
                   else Some (round_receive px jx cx cb load ok t0 [(pt, Some resp)] a rm1, b'))))"

section \<open>The parts of an exchange\<close>

lemma merge_round_crdt:
  "gn_crdt (n\<lparr>gn_policy := merge_round px jx load ok peers (gn_policy n)\<rparr>) =
     (if peers = [] then gn_crdt n else st_crdt (merge_peers peers (gn_app n)))"
  by (simp add: merge_round_def rebuild_or_defer_def rebuild_issuance_policy_def Let_def case_prod_beta
      split: option.split sum.split)

lemma merge_one_peer:
  assumes "aka.ok w (st_crdt st)" "aka.ok w c"
  shows "aka_view (st_crdt (merge_peers [c] st)) = aka_join (aka_view (st_crdt st)) (aka_view c)"
    and "aka_wf (st_crdt (merge_peers [c] st))"
proof -
  have d: "aka.ok w aka_default"
    using empty_map_joins by (auto simp: aka.ok_def aka_wf_def aka_default_def aka_history_def aka_view_def
        or_map_history_def or_map_view_def lww_map_history_def lww_map_view_def)
  have c: "aka.ok w (snd (aka_merge g aka_default c))" for g by (rule aka.ok_merge [OF d assms(2)])
  have v: "aka_view (snd (aka_merge g aka_default c)) = aka_view c" for g
    using aka.ok_view_merge [OF d assms(2)] aka_join_default(1) [OF aka.ok_univ [OF assms(2)]] by simp
  show "aka_view (st_crdt (merge_peers [c] st)) = aka_join (aka_view (st_crdt st)) (aka_view c)"
    using aka.ok_view_merge [OF assms(1) c] v by (simp add: merge_peers_def case_prod_beta)
  show "aka_wf (st_crdt (merge_peers [c] st))"
    using aka.ok_merge [OF assms(1) c] by (simp add: merge_peers_def case_prod_beta aka.ok_def)
qed

lemma prepare_peer_payload:
  assumes "prepare_peer cb nonce t g a url rm = (Some pp, rm1)" and "cbor_laws cb" and "aka.ok w (gn_crdt a)"
    and "find_peer a url = Some (i, kem_b, pub_b)"
  shows "\<exists>env c'. cb_decode cb (pp_envelope_bytes pp) = Inr env \<and> cb_decode_crdt cb (ge_crdt env) = Inr c' \<and>
      aka_wf c' \<and> ge_request_delta_since env = hm_get (rm_response_gen rm) url \<and>
      aka_view c' = aka_view (case hm_get (rm_last_gen rm) url of Some g \<Rightarrow> aka_delta_since (gn_crdt a) g | None \<Rightarrow> gn_crdt a) \<and>
      aka_size c' = aka_size (case hm_get (rm_last_gen rm) url of Some g \<Rightarrow> aka_delta_since (gn_crdt a) g | None \<Rightarrow> gn_crdt a) \<and>
      length (pp_envelope_bytes pp) \<le> max_decompressed \<and> pp_url pp = url \<and> pp_kem_key pp = kem_b \<and> pp_signing_key pp = pub_b"
proof -
  let ?p = "case hm_get (rm_last_gen rm) url of Some g \<Rightarrow> aka_delta_since (gn_crdt a) g | None \<Rightarrow> gn_crdt a"
  have wf: "aka_wf ?p" using assms(3) by (simp add: aka.ok_def aka.wf_delta split: option.split)
  obtain bs n1 where e: "cb_encode_crdt cb ?p = Inr bs" and
    env: "cb_encode cb \<lparr>ge_crdt = bs, ge_issued_at = t, ge_is_delta = (hm_get (rm_last_gen rm) url \<noteq> None),
       ge_my_gen = g, ge_request_delta_since = hm_get (rm_response_gen rm) url, ge_nonce = n1\<rparr> = Inr (pp_envelope_bytes pp)"
    and pp: "pp_url pp = url" "pp_kem_key pp = kem_b" "pp_signing_key pp = pub_b"
    using assms(1,4) by (cases "hm_get (rm_last_gen rm) url")
      (auto simp: prepare_peer_def Let_def split: if_splits sum.splits option.splits)
  then show ?thesis using assms(2) wf unfolding cbor_laws_def by fastforce
qed

lemma sync_answer_payload:
  assumes "sync_answer cx cb rnd nonce t tk n = Inr resp" and "cbor_laws cb" and "aka_wf (gn_crdt n)"
  shows "\<exists>env c' p. cb_decode cb p = Inr env \<and> cb_decode_crdt cb (ge_crdt env) = Inr c' \<and> aka_wf c' \<and>
      aka_view c' = aka_view (case tk_since tk of Some s \<Rightarrow> aka_delta_range (gn_crdt n) s (tk_pre_gen tk) | None \<Rightarrow> gn_crdt n) \<and>
      length p \<le> max_decompressed \<and>
      sign_and_seal cx rnd p [\<lparr>sr_hint = tk_sender tk, sr_spki_der = tk_kem_key tk\<rparr>] (gn_signing_priv n) (gn_signing_cert n) = Inr resp"
proof -
  let ?r = "case tk_since tk of Some s \<Rightarrow> aka_delta_range (gn_crdt n) s (tk_pre_gen tk) | None \<Rightarrow> gn_crdt n"
  have wf: "aka_wf ?r" using assms(3)
    by (simp add: aka_wf_def aka_delta_range_def or_delta_range_def lww_map_range hm_wf_retain split: option.split)
  obtain bs env p where e: "cb_encode_crdt cb ?r = Inr bs" and env: "cb_encode cb env = Inr p" "ge_crdt env = bs"
      and "sign_and_seal cx rnd p [\<lparr>sr_hint = tk_sender tk, sr_spki_der = tk_kem_key tk\<rparr>] (gn_signing_priv n) (gn_signing_cert n) = Inr resp"
    using assms(1) by (cases "tk_since tk") (auto simp: sync_answer_def Let_def split: sum.splits)
  then show ?thesis using assms(2) wf unfolding cbor_laws_def by fastforce
qed

lemma sync_accept_merges:
  assumes "sync_accept cx cb t (Some h) body b = (Inr tk, b')" and "pinned_keys h (gn_crdt b) = Some (pub, kem)"
    and "verify_and_open cx body (gn_kem_priv b) pub = Inr p" and "cb_decode cb p = Inr env"
    and "cb_decode_crdt cb (ge_crdt env) = Inr c"
  shows "gn_crdt b' = snd (aka_merge (gn_gen b) (gn_crdt b) c) \<and> tk_kem_key tk = kem
     \<and> tk_since tk = ge_request_delta_since env \<and> tk_pre_gen tk = gn_gen b
     \<and> gn_signing_priv b' = gn_signing_priv b \<and> gn_signing_cert b' = gn_signing_cert b"
  using assms by (auto simp: sync_accept_def Let_def with_app_def case_prod_beta split: if_splits option.splits)

text \<open>The heart of the matter: views after the exchange, from those before.\<close>

lemma exchange_views:
  assumes a: "aka.ok w sa" and b: "aka.ok w sb" and wf: "aka_wf pushed" "aka_wf answer"
    and pushed: "aka_view pushed = aka_view (case sent of Some g \<Rightarrow> aka_delta_since sa g | None \<Rightarrow> sa)"
    and answer: "aka_view answer = aka_view (case since of Some g \<Rightarrow> aka_delta_range (snd (aka_merge gb sb pushed)) g gb
           | None \<Rightarrow> snd (aka_merge gb sb pushed))"
    and has_a: "\<And>g. sent = Some g \<Longrightarrow> aka_join (aka_view sb) (aka_view (aka_upto sa g)) = aka_view sb"
    and has_b: "\<And>g. since = Some g \<Longrightarrow> aka_join (aka_view sa) (aka_view (aka_upto sb g)) = aka_view sa"
    and gens: "aka_gens_upto gb sb" "gb + aka_size pushed < 2 ^ 64"
  shows "aka_view (snd (aka_merge gb sb pushed)) = aka_join (aka_view sa) (aka_view sb)"
    and "aka_join (aka_view sa) (aka_view answer) = aka_join (aka_view sa) (aka_view sb)"
    and "aka.ok w pushed"
proof -
  have h: "aka_history w (aka_view sa)" "aka_history w (aka_view sb)" using a b by (simp_all add: aka.ok_univ)
  have ok: "aka.ok w (case sent of Some g \<Rightarrow> aka_delta_since sa g | None \<Rightarrow> sa)"
    using a by (simp add: aka.ok_delta split: option.split)
  then show okp: "aka.ok w pushed" using wf(1) pushed by (simp add: aka.ok_def)
  have below: "aka_join (aka_view sa) (aka_view pushed) = aka_view sa"
    using pushed aka_parts_below(2) [OF a] aka.join_idem [OF h(1)] by (cases sent) simp_all
  have "aka_join (aka_view sb) (aka_view pushed) = aka_join (aka_view sb) (aka_view sa)"
  proof (cases sent)
    case (Some g)
    have "aka_view (snd (aka_merge 0 sb (aka_upto sa g))) = aka_view sb"
      using has_a [OF Some] aka.ok_view_merge [OF b aka.ok_upto [OF a]] by simp
    then show ?thesis
      using aka.delta_suffices [OF a b, of 0 g 0] aka.ok_view_merge [OF b a] aka.ok_view_merge [OF b aka.ok_delta [OF a]]
        pushed Some by simp
  qed (use pushed in simp)
  then show m: "aka_view (snd (aka_merge gb sb pushed)) = aka_join (aka_view sa) (aka_view sb)"
    using aka.ok_view_merge [OF b okp] aka.join_comm [OF h] by simp
  show "aka_join (aka_view sa) (aka_view answer) = aka_join (aka_view sa) (aka_view sb)"
  proof (cases since)
    case None
    then show ?thesis using answer m h by (simp add: aka.join_assoc [of w, symmetric] aka.join_idem [of w])
  next
    case (Some g)
    then show ?thesis
      using aka_answer_complete [OF _ wf(1) gens(2,1) below has_b [OF Some]] b answer by (simp add: aka.ok_def)
  qed
qed


text \<open>A state handed over as difference is no larger than the whole.\<close>

lemma aka_size_delta: "aka_size (aka_delta_since s g) \<le> aka_size s"
  unfolding aka_size_def aka_delta_since_def
  by (simp add: or_delta_since_def lww_map_delta_since_def hm_retain_def length_filter_le add_mono)

lemma seal_peer_opens:
  assumes "cms_laws cx" and "seal_peer cx rnd a pp = Some pt" and "kem_pair cx (pp_kem_key pp) kem_priv"
    and "signing_pair cx (gn_signing_cert a) (gn_signing_priv a) pub" and "length (pp_envelope_bytes pp) \<le> max_decompressed"
  shows "verify_and_open cx (pt_body pt) kem_priv pub = Inr (pp_envelope_bytes pp)"
    and "pt_url pt = pp_url pp" "pt_signing_key pt = pp_signing_key pp" "pt_header pt = st_node_id (gn_app a)"
  using assms(2) verify_open_seal [OF assms(1) _ assms(4,5), of "\<lparr>sr_hint = pp_node_id pp, sr_spki_der = pp_kem_key pp\<rparr>"] assms(3)
  by (auto simp: seal_peer_def split: sum.splits)

text \<open>
  An exchange that goes through, taken apart: the state \<open>pushed\<close> that the peer merged, and the state
  \<open>answer\<close> that came back and was merged here.
\<close>

lemma exchange_parts:
  assumes laws: "cms_laws cx" "cbor_laws cb" and enr: "enrolled cx a b url"
    and ok: "aka.ok w (gn_crdt a)" "aka.ok w (gn_crdt b)"
    and ex: "exchange px jx cx cb load ok rnd rnd' nonce nonce' t0 t1 t2 t3 url (a, rm) b = Some ((a', rm'), b')"
  obtains pushed answer where
    "aka_wf pushed" "aka_wf answer"
    "aka_view pushed = aka_view (case hm_get (rm_last_gen rm) url of Some g \<Rightarrow> aka_delta_since (gn_crdt a) g | None \<Rightarrow> gn_crdt a)"
    "aka_size pushed \<le> aka_size (gn_crdt a)"
    "gn_crdt b' = snd (aka_merge (gn_gen b) (gn_crdt b) pushed)"
    "aka_view answer = aka_view (case hm_get (rm_response_gen rm) url of
         Some g \<Rightarrow> aka_delta_range (gn_crdt b') g (gn_gen b) | None \<Rightarrow> gn_crdt b')"
    "gn_crdt a' = st_crdt (merge_peers [answer] (gn_app a))"
proof -
  obtain i kem_b pub_b kem_a pub_a where peer: "find_peer a url = Some (i, kem_b, pub_b)"
      and pins: "pinned_keys (st_node_id (gn_app a)) (gn_crdt b) = Some (pub_a, kem_a)"
      and kem: "kem_pair cx kem_b (gn_kem_priv b)" "kem_pair cx kem_a (gn_kem_priv a)"
      and sign: "signing_pair cx (gn_signing_cert a) (gn_signing_priv a) pub_a"
        "signing_pair cx (gn_signing_cert b) (gn_signing_priv b) pub_b"
    using enr by (auto simp: enrolled_def)
  obtain pp rm1 pt resp where pp: "prepare_peer cb nonce t1 (gn_gen a) a url rm = (Some pp, rm1)"
      and pt: "seal_peer cx rnd a pp = Some pt"
      and sync: "gossip_sync cx cb rnd' nonce' t2 t3 (Some (pt_header pt)) (pt_body pt) b = (Inr resp, b')"
      and val: "validate_response cx cb t0 a (pt, Some resp) \<noteq> None"
      and rec: "round_receive px jx cx cb load ok t0 [(pt, Some resp)] a rm1 = (a', rm')"
    using ex by (auto simp: exchange_def split: prod.splits option.splits sum.splits if_splits)
  obtain env pushed where push: "cb_decode cb (pp_envelope_bytes pp) = Inr env" "cb_decode_crdt cb (ge_crdt env) = Inr pushed"
      "aka_wf pushed" "ge_request_delta_since env = hm_get (rm_response_gen rm) url"
      "aka_view pushed = aka_view (case hm_get (rm_last_gen rm) url of Some g \<Rightarrow> aka_delta_since (gn_crdt a) g | None \<Rightarrow> gn_crdt a)"
      "aka_size pushed = aka_size (case hm_get (rm_last_gen rm) url of Some g \<Rightarrow> aka_delta_since (gn_crdt a) g | None \<Rightarrow> gn_crdt a)"
      and ppk: "length (pp_envelope_bytes pp) \<le> max_decompressed" "pp_url pp = url" "pp_kem_key pp = kem_b" "pp_signing_key pp = pub_b"
    using prepare_peer_payload [OF pp laws(2) ok(1) peer] by blast
  have small: "aka_size pushed \<le> aka_size (gn_crdt a)"
    using push(6) aka_size_delta by (simp split: option.splits)
  note sealed = seal_peer_opens [OF laws(1) pt, of "gn_kem_priv b" pub_a, unfolded ppk, OF kem(1) sign(1) ppk(1)]
  obtain tk where acc: "sync_accept cx cb t2 (Some (pt_header pt)) (pt_body pt) b = (Inr tk, b')"
      and ans: "sync_answer cx cb rnd' nonce' t3 tk b' = Inr resp"
    using sync by (auto simp: gossip_sync_def split: prod.splits sum.splits)
  have m: "gn_crdt b' = snd (aka_merge (gn_gen b) (gn_crdt b) pushed)" "tk_kem_key tk = kem_a"
      "tk_since tk = hm_get (rm_response_gen rm) url" "tk_pre_gen tk = gn_gen b"
      "gn_signing_priv b' = gn_signing_priv b" "gn_signing_cert b' = gn_signing_cert b"
    using sync_accept_merges [OF acc _ sealed(1) push(1,2)] pins sealed(4) push(4) by simp_all
  have okp: "aka.ok w pushed"
    using ok(1) push(3,5) aka.ok_delta [OF ok(1)] by (simp add: aka.ok_def split: option.splits)
  have "aka_wf (gn_crdt b')" using aka.ok_merge [OF ok(2) okp] m(1) by (simp add: aka.ok_def)
  then obtain env' answer p where an: "cb_decode cb p = Inr env'" "cb_decode_crdt cb (ge_crdt env') = Inr answer"
      "aka_wf answer" "aka_view answer = aka_view (case tk_since tk of Some s \<Rightarrow> aka_delta_range (gn_crdt b') s (tk_pre_gen tk) | None \<Rightarrow> gn_crdt b')"
      "length p \<le> max_decompressed"
      "sign_and_seal cx rnd' p [\<lparr>sr_hint = tk_sender tk, sr_spki_der = tk_kem_key tk\<rparr>] (gn_signing_priv b') (gn_signing_cert b') = Inr resp"
    using sync_answer_payload [OF ans laws(2)] by blast
  have "verify_and_open cx resp (gn_kem_priv a) (pt_signing_key pt) = Inr p"
    using verify_open_seal [OF laws(1) _ sign(2) an(5) an(6) [unfolded m(5,6)]] kem(2) m(2) sealed(3) ppk(4) by simp
  then obtain v where "validate_response cx cb t0 a (pt, Some resp) = Some (answer, v)"
    using val an(1,2) by (auto simp: validate_response_def split: if_splits)
  then have "gn_crdt a' = st_crdt (merge_peers [answer] (gn_app a))"
    using rec merge_round_crdt [of px jx load ok "[answer]" a] by (auto simp: round_receive_def Let_def)
  then show thesis by (rule that [OF push(3) an(3) push(5) small m(1) an(4) [unfolded m(3,4)]])
qed


lemma synced_equal:
  assumes "aka.ok w (gn_crdt a)" "aka.ok w (gn_crdt b)" "aka_view (gn_crdt a) = aka_view (gn_crdt b)"
  shows "synced rm url a b"
  using aka_parts_below(1) [OF assms(1)] aka_parts_below(1) [OF assms(2)] assms(3) by (simp add: synced_def)

lemma exchange_joins:
  assumes laws: "cms_laws cx" "cbor_laws cb" and enr: "enrolled cx a b url" and sync: "synced rm url a b"
    and ok: "aka.ok w (gn_crdt a)" "aka.ok w (gn_crdt b)"
    and gens: "aka_gens_upto (gn_gen b) (gn_crdt b)" "gn_gen b + aka_size (gn_crdt a) < 2 ^ 64"
    and ex: "exchange px jx cx cb load ok' rnd rnd' nonce nonce' t0 t1 t2 t3 url (a, rm) b = Some ((a', rm'), b')"
  shows "aka_view (gn_crdt a') = aka_join (aka_view (gn_crdt a)) (aka_view (gn_crdt b))"
    and "aka_view (gn_crdt b') = aka_join (aka_view (gn_crdt a)) (aka_view (gn_crdt b))"
    and "synced rm' url a' b'"
proof -
  obtain pushed answer where p: "aka_wf pushed" "aka_wf answer"
    "aka_view pushed = aka_view (case hm_get (rm_last_gen rm) url of Some g \<Rightarrow> aka_delta_since (gn_crdt a) g | None \<Rightarrow> gn_crdt a)"
    "aka_size pushed \<le> aka_size (gn_crdt a)" and b': "gn_crdt b' = snd (aka_merge (gn_gen b) (gn_crdt b) pushed)"
    and an: "aka_view answer = aka_view (case hm_get (rm_response_gen rm) url of
         Some g \<Rightarrow> aka_delta_range (gn_crdt b') g (gn_gen b) | None \<Rightarrow> gn_crdt b')"
    and a': "gn_crdt a' = st_crdt (merge_peers [answer] (gn_app a))"
    by (rule exchange_parts [OF laws enr ok ex])
  have v: "aka_view (gn_crdt b') = aka_join (aka_view (gn_crdt a)) (aka_view (gn_crdt b))"
    "aka_join (aka_view (gn_crdt a)) (aka_view answer) = aka_join (aka_view (gn_crdt a)) (aka_view (gn_crdt b))"
    "aka.ok w pushed"
    unfolding b'
    by (rule exchange_views [OF ok p(1,2,3) an [unfolded b']], use sync gens p(4) in \<open>simp_all add: synced_def\<close>)+
  have okb: "aka.ok w (gn_crdt b')" using aka.ok_merge [OF ok(2) v(3)] b' by simp
  have oka: "aka.ok w answer" 
    using p(2) okb aka_range_ok [OF okb] an by (simp add: aka.ok_def split: option.splits)
  show va: "aka_view (gn_crdt a') = aka_join (aka_view (gn_crdt a)) (aka_view (gn_crdt b))"
    using merge_one_peer(1) [OF ok(1) oka] v(2) a' by simp
  show "aka_view (gn_crdt b') = aka_join (aka_view (gn_crdt a)) (aka_view (gn_crdt b))" by (rule v(1))
  have "aka.ok w (gn_crdt a')" using merge_one_peer(2) [OF ok(1) oka] okb v(1) va a' by (simp add: aka.ok_def)
  then show "synced rm' url a' b'" by (rule synced_equal [OF _ okb]) (use v(1) va in simp)
qed


section \<open>Two nodes\<close>

definition sample_member :: "string \<Rightarrow> 8 word \<Rightarrow> aka_node_entry" where
  "sample_member i k = \<lparr>ne_node_id = i, ne_gossip_url = ''https://'' @ i, ne_kem_public_key_der = [5],
     ne_gossip_signing_pub_key_der = [k], ne_gossip_signing_cert_der = [k], ne_ca_ids = [], ne_registered_at = 1\<rparr>"

definition sample_members :: "(string, aka_node_entry) or_map" where
  "sample_members = fst (snd (or_upsert 0 (fst (snd (or_upsert 0 [] ''n1'' (sample_member ''n1'' 1) 1)))
     ''n2'' (sample_member ''n2'' 2) 1))"

definition sample_node :: "string \<Rightarrow> 8 word \<Rightarrow> aka_crdt \<Rightarrow> gossip_node" where
  "sample_node i k c =
     \<lparr>gn_policy = \<lparr>ps_app = sample_state\<lparr>st_crdt := c\<lparr>cluster_nodes := sample_members\<rparr>, st_gen := 2, st_node_id := i\<rparr>,
        ps_rules = [], ps_engine = \<lparr>ipe_policy = \<lparr>ap_rules = [], ap_temporal = []\<rparr>, ipe_mode = Enforce, ipe_toml_rules = []\<rparr>,
        ps_rebuild_needed = False, ps_audit = []\<rparr>,
      gn_config = None, gn_nonce_cache = [], gn_kem_priv = [5], gn_signing_priv = [k], gn_signing_cert = [k]\<rparr>"

definition sample_rules :: "(string, policy_rule_entry) or_map" where
  "sample_rules = fst (snd (or_upsert 0 [] ''r1'' policy_rule_entry_default 1))"

abbreviation sample_a :: gossip_node where "sample_a \<equiv> sample_node ''n1'' 1 (aka_crdt.policy_rules_update (\<lambda>_. sample_rules) node_b)"
abbreviation sample_b :: gossip_node where "sample_b \<equiv> sample_node ''n2'' 2 node_a"

text \<open>A codec for the states of one exchange: that of the first node, and that of the second after it.\<close>

definition sample_answer :: aka_crdt where
  "sample_answer = snd (aka_merge 2 (gn_crdt sample_b) (gn_crdt sample_a))"

definition sample_cbor :: cbor_ext where
  "sample_cbor = \<lparr>cb_encode_crdt = (\<lambda>c. if c = gn_crdt sample_a then Inr [1] else if c = sample_answer then Inr [2] else Inl []),
     cb_decode_crdt = (\<lambda>b. if b = [1] then Inr (gn_crdt sample_a) else Inr sample_answer),
     cb_encode = (\<lambda>e. if e = \<lparr>ge_crdt = ge_crdt e, ge_issued_at = 100, ge_is_delta = False, ge_my_gen = ge_my_gen e,
          ge_request_delta_since = None, ge_nonce = replicate 16 0\<rparr> \<and> length (ge_crdt e) = 1 \<and> ge_my_gen e < 256
        then Inr (word_of_nat (ge_my_gen e) # ge_crdt e) else Inl []),
     cb_decode = (\<lambda>b. case b of g # c \<Rightarrow> Inr \<lparr>ge_crdt = c, ge_issued_at = 100, ge_is_delta = False, ge_my_gen = unat g,
          ge_request_delta_since = None, ge_nonce = replicate 16 0\<rparr> | [] \<Rightarrow> Inl [])\<rparr>"

definition member_writes :: aka_writes where
  "member_writes = sample_writes\<lparr>w_cluster_nodes := (\<lambda>k _. if k = ''n1'' then sample_member ''n1'' 1 else sample_member ''n2'' 2),
     w_policy_rules := (\<lambda>_ _. policy_rule_entry_default)\<rparr>"

lemma sample_members_ok:
  "hm_wf sample_members" "or_map_history (w_cluster_nodes member_writes) (or_map_view sample_members)"
  "or_get sample_members ''n1'' = Some (sample_member ''n1'' 1)"
  "or_live_values sample_members = [(''n1'', sample_member ''n1'' 1), (''n2'', sample_member ''n2'' 2)]"
  "gens_upto or_local_gen 2 sample_members"
  by (simp_all add: sample_members_def or_upsert_def hm_wf_def or_map_history_def or_map_view_def member_writes_def
     or_get_def or_live_values_def gens_upto_def next_gen_def)

lemma sample_rules_ok:
  "hm_wf sample_rules" "or_map_history (w_policy_rules member_writes) (or_map_view sample_rules)"
  by (simp_all add: sample_rules_def or_upsert_def hm_wf_def or_map_history_def or_map_view_def member_writes_def)

lemma node_a_rules: "policy_rules node_a = []"
  by (simp add: node_a_def aka_default_def)

lemma sample_nodes_ok: "aka.ok member_writes (gn_crdt sample_a)" "aka.ok member_writes (gn_crdt sample_b)"
  using nodes_ok sample_members_ok(1,2) sample_rules_ok
  by (simp_all add: aka.ok_def aka_wf_def aka_history_def aka_view_def sample_node_def sample_state_def member_writes_def node_a_rules)


lemma sample_cbor_laws: "cbor_laws sample_cbor"
proof -
  have "aka_wf sample_answer" using sample_nodes_ok by (simp add: sample_answer_def aka.ok_def aka_wf_merge)
  then have "\<exists>c'. cb_decode_crdt sample_cbor b = Inr c' \<and> aka_wf c' \<and> aka_view c' = aka_view c \<and> aka_size c' = aka_size c"
    if "aka_wf c" "cb_encode_crdt sample_cbor c = Inr b" for c b
    using that by (auto simp: sample_cbor_def split: if_splits)
  moreover have "cb_decode sample_cbor b = Inr e \<and> length b \<le> max_decompressed" if "cb_encode sample_cbor e = Inr b" for e b
    using that by (cases e) (auto simp: sample_cbor_def unat_of_nat max_decompressed_def split: if_splits)
  ultimately show ?thesis unfolding cbor_laws_def by blast
qed

lemma sample_enrolled: "enrolled sample_cms sample_a sample_b ''https://n2''"
proof -
  have "find_peer sample_a ''https://n2'' = Some (''n2'', [5], [2])"
    by (simp add: find_peer_def sample_node_def sample_state_def sample_members_ok urls_match_def trim_end_slashes_def sample_member_def)
  moreover have "pinned_keys ''n1'' (gn_crdt sample_b) = Some ([1], [5])"
    by (simp add: pinned_keys_def sample_node_def sample_state_def sample_members_ok sample_member_def)
  moreover have "st_node_id (gn_app sample_a) = ''n1''" by (simp add: sample_node_def sample_state_def)
  ultimately show ?thesis
    using sample_pairs unfolding enrolled_def by (auto simp: sample_node_def)
qed


lemma sample_merge_gen: "fst (aka_merge 2 (gn_crdt sample_b) (gn_crdt sample_a)) = 4"
  by (simp add: sample_node_def sample_state_def node_a_def node_b_def aka_default_def aka_merge_def or_upsert_def
      sample_members_def sample_rules_def or_merge_def lww_map_merge_def or_merge_body_def lww_merge_def lww_default_def
      next_gen_def Let_def)


abbreviation no_maps :: round_maps where
  "no_maps \<equiv> \<lparr>rm_last_gen = [], rm_response_gen = [], rm_miss_count = []\<rparr>"

lemma sample_node_fields [simp]:
  "st_node_id (gn_app (sample_node i k c)) = i" "gn_gen (sample_node i k c) = 2" "gn_config (sample_node i k c) = None"
  "gn_nonce_cache (sample_node i k c) = []" "gn_kem_priv (sample_node i k c) = [5]"
  "gn_signing_priv (sample_node i k c) = [k]" "gn_signing_cert (sample_node i k c) = [k]"
  by (simp_all add: sample_node_def)

lemma sample_codec:
  "cb_encode_crdt sample_cbor (gn_crdt sample_a) = Inr [1]" "\<exists>x. cb_encode_crdt sample_cbor sample_answer = Inr [x]"
  "\<exists>c. cb_decode_crdt sample_cbor b = Inr c" "cb_decode_crdt sample_cbor [1] = Inr (gn_crdt sample_a)"
  "cb_encode sample_cbor \<lparr>ge_crdt = [x], ge_issued_at = 100, ge_is_delta = False, ge_my_gen = 2,
     ge_request_delta_since = None, ge_nonce = replicate 16 0\<rparr> = Inr [2, x]"
  "cb_encode sample_cbor \<lparr>ge_crdt = [x], ge_issued_at = 100, ge_is_delta = False, ge_my_gen = 4,
     ge_request_delta_since = None, ge_nonce = replicate 16 0\<rparr> = Inr [4, x]"
  "cb_decode sample_cbor [y, x] = Inr \<lparr>ge_crdt = [x], ge_issued_at = 100, ge_is_delta = False, ge_my_gen = unat y,
     ge_request_delta_since = None, ge_nonce = replicate 16 0\<rparr>"
  by (simp_all add: sample_cbor_def)

lemma sample_accept:
  assumes "verify_and_open sample_cms body [5] [1] = Inr [2, 1]"
  shows "\<exists>b'. sync_accept sample_cms sample_cbor 100 (Some ''n1'') body sample_b =
    (Inr \<lparr>tk_sender = ''n1'', tk_kem_key = [5], tk_since = None, tk_pre_gen = 2, tk_post_gen = 4\<rparr>, b')
    \<and> gn_crdt b' = sample_answer \<and> gn_signing_priv b' = [2] \<and> gn_signing_cert b' = [2]
    \<and> gn_kem_priv b' = [5] \<and> gn_config b' = None"
proof -
  have "pinned_keys ''n1'' (gn_crdt sample_b) = Some ([1], [5])"
    by (simp add: pinned_keys_def sample_node_def sample_state_def sample_members_ok sample_member_def)
  moreover obtain c where "aka_merge 2 (gn_crdt sample_b) (gn_crdt sample_a) = (4, c)" "c = sample_answer"
    using sample_merge_gen unfolding sample_answer_def by (cases "aka_merge 2 (gn_crdt sample_b) (gn_crdt sample_a)") simp
  ultimately show ?thesis using assms
    by (simp add: sync_accept_def sample_codec in_window_def max_age_def clock_skew_def wrap_i64_def check_nonce_def
        hm_retain_def gossip_nonce_cache_max_def with_app_def)
qed

text \<open>The messages of the exchange of the two nodes.\<close>

lemma sample_messages:
  obtains pp rm1 pt b' x r where
    "prepare_peer sample_cbor (Inr (replicate 16 0)) 100 2 sample_a ''https://n2'' no_maps = (Some pp, rm1)"
    "seal_peer sample_cms sample_rnd sample_a pp = Some pt" "pt_url pt = ''https://n2''" "pt_signing_key pt = [2]"
    "gossip_sync sample_cms sample_cbor sample_rnd (Inr (replicate 16 0)) 100 100 (Some (pt_header pt)) (pt_body pt) sample_b
       = (Inr r, b')" "gn_crdt b' = sample_answer"
    "verify_and_open sample_cms r [5] [2] = Inr [4, x]"
    "pt_header pt = ''n1''" "verify_and_open sample_cms (pt_body pt) [5] [1] = Inr [2, 1]" "gn_kem_priv b' = [5]" "gn_config b' = None"
proof -
  let ?pp = "\<lparr>pp_url = ''https://n2'', pp_node_id = ''n2'', pp_kem_key = [5], pp_signing_key = [2],
      pp_envelope_bytes = [2, 1], pp_first_contact = True\<rparr>"
  have "find_peer sample_a ''https://n2'' = Some (''n2'', [5], [2])"
    by (simp add: find_peer_def sample_node_def sample_state_def sample_members_ok urls_match_def trim_end_slashes_def sample_member_def)
  then obtain rm1 where pp: "prepare_peer sample_cbor (Inr (replicate 16 0)) 100 2 sample_a ''https://n2'' no_maps = (Some ?pp, rm1)"
    by (simp add: prepare_peer_def sample_codec)
  obtain m where m: "sign_and_seal sample_cms sample_rnd [2, 1] [\<lparr>sr_hint = ''n2'', sr_spki_der = [5]\<rparr>] [1] [1] = Inr m"
    using sample_message by blast
  obtain pt where pt: "seal_peer sample_cms sample_rnd sample_a ?pp = Some pt" "pt_body pt = m" "pt_header pt = ''n1''"
      "pt_url pt = ''https://n2''" "pt_signing_key pt = [2]"
    using m by (simp add: seal_peer_def)
  have vm: "verify_and_open sample_cms m [5] [1] = Inr [2, 1]"
    using verify_open_seal [OF sample_cms_laws _ sample_pairs(2) _ m] sample_pairs(1) by (simp add: max_decompressed_def)
   from sample_accept [OF vm] obtain b' tk where acc: "sync_accept sample_cms sample_cbor 100 (Some ''n1'') m sample_b = (Inr tk, b')"
      "tk = \<lparr>tk_sender = ''n1'', tk_kem_key = [5], tk_since = None, tk_pre_gen = 2, tk_post_gen = 4\<rparr>"
      "gn_crdt b' = sample_answer" "gn_signing_priv b' = [2]" "gn_signing_cert b' = [2]"
      "gn_kem_priv b' = [5]" "gn_config b' = None" by blast
  obtain x where x: "cb_encode_crdt sample_cbor sample_answer = Inr [x]" using sample_codec(2) by blast
  obtain r where r: "sign_and_seal sample_cms sample_rnd [4, x] [\<lparr>sr_hint = ''n1'', sr_spki_der = [5]\<rparr>] [2] [2] = Inr r"
    using sample_message by blast
  have ans: "sync_answer sample_cms sample_cbor sample_rnd (Inr (replicate 16 0)) 100 tk b' = Inr r"
    using acc(2-5) x r by (simp add: sync_answer_def sample_codec)
  have "verify_and_open sample_cms r [5] [2] = Inr [4, x]"
    using verify_open_seal [OF sample_cms_laws _ sample_pairs(2) _ r] sample_pairs(1) by (simp add: max_decompressed_def)
  then show thesis using that [OF pp pt(1,4,5) _ acc(3) _ pt(3) _ acc(6,7)] pt(2,3) acc(1) vm ans by (simp add: gossip_sync_def)
qed

lemma sample_validated:
  assumes "verify_and_open sample_cms r [5] [2] = Inr [4, x]" and "pt_signing_key pt = [2]"
    and "gn_kem_priv n = [5]" "gn_config n = None"
  shows "\<exists>c v. validate_response sample_cms sample_cbor 100 n (pt, Some r) = Some (c, v) \<and> (c = gn_crdt sample_a \<or> c = sample_answer)"
proof -
  obtain c where "cb_decode_crdt sample_cbor [x] = Inr c" "c = gn_crdt sample_a \<or> c = sample_answer"
    by (cases "x = 1") (simp_all add: sample_cbor_def)
  then show ?thesis using assms
    by (auto simp: validate_response_def sample_codec(7) in_window_def max_age_def clock_skew_def wrap_i64_def)
qed

lemma sample_exchange:
  "\<exists>a' rm' b'. exchange px jx sample_cms sample_cbor load ok sample_rnd sample_rnd (Inr (replicate 16 0)) (Inr (replicate 16 0))
      100 100 100 100 ''https://n2'' (sample_a, no_maps) sample_b = Some ((a', rm'), b')"
proof -
  obtain pp rm1 pt b' x r where
    "prepare_peer sample_cbor (Inr (replicate 16 0)) 100 2 sample_a ''https://n2'' no_maps = (Some pp, rm1)"
    "seal_peer sample_cms sample_rnd sample_a pp = Some pt" "pt_url pt = ''https://n2''" "pt_signing_key pt = [2]"
    "gossip_sync sample_cms sample_cbor sample_rnd (Inr (replicate 16 0)) 100 100 (Some (pt_header pt)) (pt_body pt) sample_b
       = (Inr r, b')" "gn_crdt b' = sample_answer" "verify_and_open sample_cms r [5] [2] = Inr [4, x]"
    by (rule sample_messages)
  with sample_validated [of r x pt sample_a] show ?thesis by (auto simp: exchange_def)
qed

section \<open>Convergence by gossip\<close>



end
