(* ===== verification/Gossip_Safety.thy ===== *)
theory Gossip_Safety
  imports Gossip_Exchange
begin

text \<open>
  What the gossip handlers let in: who may change the replicated state, how often a message counts, and
  where a round forgets what was written while it ran.
\<close>

section \<open>Authentication of a push\<close>

text \<open>The envelope a handler reads from a request, when the sender is pinned and the message opens.\<close>

definition pushed_envelope ::
  "cms_ext \<Rightarrow> cbor_ext \<Rightarrow> string option \<Rightarrow> bytes \<Rightarrow> gossip_node \<Rightarrow> gossip_envelope option" where
  "pushed_envelope cx cb header body n =
     (case pinned_keys (case header of Some h \<Rightarrow> h | None \<Rightarrow> []) (gn_crdt n) of
        None \<Rightarrow> None
      | Some (signing_pub, _) \<Rightarrow>
          (case verify_and_open cx body (gn_kem_priv n) signing_pub of
             Inl _ \<Rightarrow> None
           | Inr p \<Rightarrow> (case cb_decode cb p of Inl _ \<Rightarrow> None | Inr env \<Rightarrow> Some env)))"

text \<open>What a request can do: it is refused, or its nonce is, or its content, or it is merged.\<close>

inductive accept_outcome ::
  "cms_ext \<Rightarrow> cbor_ext \<Rightarrow> i64 \<Rightarrow> string option \<Rightarrow> bytes \<Rightarrow> gossip_node \<Rightarrow> (nat + sync_ticket) \<times> gossip_node \<Rightarrow> bool"
  for cx cb now header body n where
  refused: "accept_outcome cx cb now header body n (Inl s, n)"
| nonce_refused: "pushed_envelope cx cb header body n = Some env \<Longrightarrow>
    check_nonce (gn_config n) now (ge_nonce env) (gn_nonce_cache n) = (Some s, cache) \<Longrightarrow>
    accept_outcome cx cb now header body n (Inl s, n\<lparr>gn_nonce_cache := cache\<rparr>)"
| content_refused: "pushed_envelope cx cb header body n = Some env \<Longrightarrow>
    check_nonce (gn_config n) now (ge_nonce env) (gn_nonce_cache n) = (None, cache) \<Longrightarrow>
    accept_outcome cx cb now header body n (Inl 400, n\<lparr>gn_nonce_cache := cache\<rparr>)"
| merged: "header = Some sender \<Longrightarrow> pushed_envelope cx cb header body n = Some env \<Longrightarrow>
    in_window (gn_config n) now (ge_issued_at env) \<Longrightarrow>
    check_nonce (gn_config n) now (ge_nonce env) (gn_nonce_cache n) = (None, cache) \<Longrightarrow>
    cb_decode_crdt cb (ge_crdt env) = Inr c \<Longrightarrow> aka_merge (gn_gen n) (gn_crdt n) c = (g, c') \<Longrightarrow>
    accept_outcome cx cb now header body n
      (Inr tk, with_app (\<lambda>a. a\<lparr>st_gen := g, st_crdt := c'\<rparr>) (n\<lparr>gn_nonce_cache := cache\<rparr>))"

lemma sync_accept_outcome: "accept_outcome cx cb now header body n (sync_accept cx cb now header body n)"
proof (cases "pushed_envelope cx cb header body n")
  case None
  then have "\<exists>s. sync_accept cx cb now header body n = (Inl s, n)"
    by (auto simp: sync_accept_def pushed_envelope_def split: option.splits sum.splits)
  then show ?thesis using refused by metis
next
  case (Some env)
  let ?sender = "case header of Some h \<Rightarrow> h | None \<Rightarrow> []"
  obtain pub kem p where env: "pinned_keys ?sender (gn_crdt n) = Some (pub, kem)"
      "verify_and_open cx body (gn_kem_priv n) pub = Inr p" "cb_decode cb p = Inr env"
    using Some by (auto simp: pushed_envelope_def split: option.splits sum.splits)
  obtain verdict cache where nonce: "check_nonce (gn_config n) now (ge_nonce env) (gn_nonce_cache n) = (verdict, cache)"
    by fastforce
  show ?thesis
  proof (cases "?sender = [] \<or> length ?sender > 64 \<or> \<not> in_window (gn_config n) now (ge_issued_at env)")
    case True
    then have "\<exists>s. sync_accept cx cb now header body n = (Inl s, n)" using env by (auto simp: sync_accept_def Let_def)
    then show ?thesis using refused by metis
  next
    case ok: False
    then obtain sender where h: "header = Some sender" by (cases header) auto
    show ?thesis
    proof (cases verdict)
      case (Some s)
      then show ?thesis
        using nonce_refused [OF \<open>pushed_envelope _ _ _ _ _ = _\<close>, of now s cache] ok env nonce by (simp add: sync_accept_def)
    next
      case None
      show ?thesis
      proof (cases "cb_decode_crdt cb (ge_crdt env)")
        case (Inl e)
        then show ?thesis
          using content_refused [OF \<open>pushed_envelope _ _ _ _ _ = _\<close>, of now cache] None ok env nonce
          by (simp add: sync_accept_def)
      next
        case (Inr c)
        obtain g c' where m: "aka_merge (gn_gen n) (gn_crdt n) c = (g, c')" by fastforce
        show ?thesis
          using merged [OF h \<open>pushed_envelope _ _ _ _ _ = _\<close> _ _ Inr m, of now cache] None ok env nonce Inr m h
          by (simp add: sync_accept_def)
      qed
    qed
  qed
qed



lemma sample_answer_view: "aka_view sample_answer = aka_join (aka_view (gn_crdt sample_b)) (aka_view (gn_crdt sample_a))"
  using aka.ok_view_merge [OF sample_nodes_ok(2,1)] by (simp add: sample_answer_def)

lemma sample_orders:
  "or_get (orders (gn_crdt sample_b)) ''o1'' = Some (sample_order ''pending'' ''ca1'')"
  "or_get (orders sample_answer) ''o1'' = Some (sample_order ''ready'' ''ca1'')"
  "v_orders (aka_view sample_answer) ''o9'' = OrAbsent" "v_orders (aka_view (gn_crdt sample_a)) ''o9'' = OrAbsent"
proof -
  have v: "v_orders (aka_view (gn_crdt sample_a)) = v_orders (aka_view node_b)"
      "v_orders (aka_view (gn_crdt sample_b)) = v_orders (aka_view node_a)"
    by (simp_all add: sample_node_def aka_view_def)
  show "or_get (orders (gn_crdt sample_b)) ''o1'' = Some (sample_order ''pending'' ''ca1'')"
    "or_get (orders sample_answer) ''o1'' = Some (sample_order ''ready'' ''ca1'')"
    using v by (simp_all add: or_get_orders_view sample_answer_view v_orders_join node_orders_view)
  show "v_orders (aka_view sample_answer) ''o9'' = OrAbsent" "v_orders (aka_view (gn_crdt sample_a)) ''o9'' = OrAbsent"
    using v by (simp_all add: sample_answer_view v_orders_join)
      (simp_all add: aka_view_def node_a_def node_b_def aka_default_def or_map_view_def or_upsert_def)
qed

lemma sample_push:
  obtains body r b' where
    "gossip_sync sample_cms sample_cbor sample_rnd (Inr (replicate 16 0)) 100 100 (Some ''n1'') body sample_b = (Inr r, b')"
    "gn_crdt b' = sample_answer" "verify_and_open sample_cms body [5] [1] = Inr [2, 1]" "gn_kem_priv b' = [5]"
proof (rule sample_messages)
  fix pt :: peer_task and r b'
  assume "gossip_sync sample_cms sample_cbor sample_rnd (Inr (replicate 16 0)) 100 100 (Some (pt_header pt)) (pt_body pt) sample_b
       = (Inr r, b')" "gn_crdt b' = sample_answer" "pt_header pt = ''n1''"
    "verify_and_open sample_cms (pt_body pt) [5] [1] = Inr [2, 1]" "gn_kem_priv b' = [5]"
  then show thesis using that [of "pt_body pt" r b'] by simp
qed


section \<open>Replay\<close>

text \<open>What happens to a node between two requests: other requests, and changes of its own state.\<close>

datatype gossip_event =
  Push seal_random "cms_error + bytes" i64 i64 "string option" bytes
| Local "app_state \<Rightarrow> app_state"

fun gossip_event_step :: "cms_ext \<Rightarrow> cbor_ext \<Rightarrow> gossip_event \<Rightarrow> gossip_node \<Rightarrow> gossip_node" where
  "gossip_event_step cx cb (Push rnd nonce now now_resp header body) n =
     snd (gossip_sync cx cb rnd nonce now now_resp header body n)"
| "gossip_event_step cx cb (Local f) n = with_app f n"

fun event_between :: "i64 \<Rightarrow> i64 \<Rightarrow> gossip_event \<Rightarrow> bool" where
  "event_between t u (Push _ _ now _ _ _) \<longleftrightarrow> t \<le> now \<and> now \<le> u"
| "event_between t u (Local _) \<longleftrightarrow> True"

text \<open>A nonce that was recorded at a time or later.\<close>

definition nonce_known :: "i64 \<Rightarrow> bytes \<Rightarrow> (bytes, i64) hashmap \<Rightarrow> bool" where
  "nonce_known t nonce cache \<longleftrightarrow> hm_wf cache \<and> (\<exists>ts. hm_get cache nonce = Some ts \<and> t \<le> ts)"

lemma check_nonce_keeps:
  assumes "check_nonce cfg now x cache = (v, cache')" and "nonce_known t nonce cache"
    and "t \<le> now" "now \<le> t + max_age cfg" "0 \<le> t" "0 \<le> max_age cfg" "t + max_age cfg < 2 ^ 63"
  shows "nonce_known t nonce cache'" and "x = nonce \<Longrightarrow> nonce \<noteq> [] \<Longrightarrow> v \<noteq> None"
proof -
  have w: "wrap_i64 (now - max_age cfg) = now - max_age cfg" using assms(3-7) by (simp add: wrap_i64_def)
  then show "nonce_known t nonce cache'" "x = nonce \<Longrightarrow> nonce \<noteq> [] \<Longrightarrow> v \<noteq> None"
    using assms(1-4) by (auto simp: check_nonce_def nonce_known_def Let_def hm_get_retain hm_get_insert split: if_splits)
qed

lemma gossip_sync_node: "snd (gossip_sync cx cb rnd nonce now now_resp header body n) = snd (sync_accept cx cb now header body n)"
  by (simp add: gossip_sync_def split: prod.split sum.split)

lemma sync_accept_keeps:
  assumes "sync_accept cx cb now header body n = (r, n')" and "nonce_known t nonce (gn_nonce_cache n)"
    and "t \<le> now" "now \<le> t + max_age (gn_config n)" "0 \<le> t" "0 \<le> max_age (gn_config n)" "t + max_age (gn_config n) < 2 ^ 63"
  shows "nonce_known t nonce (gn_nonce_cache n') \<and> gn_config n' = gn_config n"
  using sync_accept_outcome [of cx cb now header body n, unfolded assms(1)]
  by cases (use assms(2) check_nonce_keeps(1) [OF _ assms(2-7)] in \<open>auto simp: with_app_def\<close>)

lemma events_keep_nonce:
  assumes "nonce_known t nonce (gn_nonce_cache n)" and "0 \<le> t" "0 \<le> max_age (gn_config n)" "t + max_age (gn_config n) < 2 ^ 63"
    and "\<forall>e \<in> set es. event_between t (t + max_age (gn_config n)) e"
  shows "nonce_known t nonce (gn_nonce_cache (fold (gossip_event_step cx cb) es n))
    \<and> gn_config (fold (gossip_event_step cx cb) es n) = gn_config n"
  using assms
proof (induction es arbitrary: n)
  case (Cons e es)
  have "nonce_known t nonce (gn_nonce_cache (gossip_event_step cx cb e n)) \<and> gn_config (gossip_event_step cx cb e n) = gn_config n"
  proof (cases e)
    case (Push rnd nn now now_resp header body)
    then show ?thesis
      using sync_accept_keeps [of cx cb now header body n "fst (sync_accept cx cb now header body n)"
          "snd (sync_accept cx cb now header body n)" t nonce] Cons.prems by (simp add: gossip_sync_node)
  qed (use Cons.prems in \<open>simp add: with_app_def\<close>)
  then show ?case using Cons.IH [of "gossip_event_step cx cb e n"] Cons.prems by simp
qed simp

text \<open>C31: A message counts once. When the handler has accepted a message with a nonce, it refuses every
  message with the same nonce that arrives within the maximal age of an envelope, and leaves the
  replicated state as it is, whatever other messages (of the same or other senders, valid or not) and
  changes by the node itself came in between. The clock is past the epoch and below the range of i64.\<close>

theorem gossip_replay_refused:
  assumes "hm_wf (gn_nonce_cache n)" and "pushed_envelope cx cb header body n = Some env" and "ge_nonce env \<noteq> []"
    and "gossip_sync cx cb rnd nonce t t_resp header body n = (Inr resp, n1)"
    and "0 \<le> t" "0 \<le> max_age (gn_config n)" "t + max_age (gn_config n) < 2 ^ 63"
    and "\<forall>e \<in> set es. event_between t (t + max_age (gn_config n)) e"
  defines "n2 \<equiv> fold (gossip_event_step cx cb) es n1"
  assumes "pushed_envelope cx cb header' body' n2 = Some env'" and "ge_nonce env' = ge_nonce env"
    and "t \<le> now" "now \<le> t + max_age (gn_config n)"
  shows "\<exists>status n3. gossip_sync cx cb rnd' nonce' now now_resp header' body' n2 = (Inl status, n3) \<and> gn_crdt n3 = gn_crdt n2"
proof -
  obtain tk where acc: "sync_accept cx cb t header body n = (Inr tk, n1)"
    using assms(4) by (auto simp: gossip_sync_def split: prod.splits sum.splits)
  have n1: "nonce_known t (ge_nonce env) (gn_nonce_cache n1) \<and> gn_config n1 = gn_config n"
    using sync_accept_outcome [of cx cb t header body n, unfolded acc]
    by cases (use assms(1-3) in \<open>auto simp: with_app_def nonce_known_def check_nonce_def Let_def hm_get_insert split: if_splits\<close>)
  then have n2: "nonce_known t (ge_nonce env) (gn_nonce_cache n2) \<and> gn_config n2 = gn_config n"
    using events_keep_nonce [of t "ge_nonce env" n1 es cx cb] assms(5-8) unfolding n2_def by simp
  have no: "check_nonce (gn_config n2) now (ge_nonce env') (gn_nonce_cache n2) \<noteq> (None, cache)" for cache
    using check_nonce_keeps(2) [of "gn_config n2" now "ge_nonce env'" "gn_nonce_cache n2" None cache t "ge_nonce env"]
      n2 assms(3,5-7,11-13) by auto
  show ?thesis
    using sync_accept_outcome [of cx cb now header' body' n2]
    by cases (use no assms(10) in \<open>auto simp: gossip_sync_def with_app_def\<close>)
qed


lemma sample_pushed_envelope:
  assumes "gn_crdt n = gn_crdt sample_b \<or> gn_crdt n = sample_answer" and "gn_kem_priv n = [5]"
    and "verify_and_open sample_cms body [5] [1] = Inr [2, 1]"
  shows "pushed_envelope sample_cms sample_cbor (Some ''n1'') body n =
    Some \<lparr>ge_crdt = [1], ge_issued_at = 100, ge_is_delta = False, ge_my_gen = 2, ge_request_delta_since = None, ge_nonce = replicate 16 0\<rparr>"
proof -
  have "cluster_nodes sample_answer = snd (or_merge 2 sample_members sample_members)"
    by (simp add: sample_answer_def aka_merge_def sample_node_def sample_state_def Let_def case_prod_beta)
  moreover have "or_get (snd (or_merge 2 sample_members sample_members)) ''n1'' = Some (sample_member ''n1'' 1)"
    by (simp add: sample_members_def or_upsert_def or_merge_def or_merge_body_def or_get_def)
  ultimately have "pinned_keys ''n1'' (gn_crdt n) = Some ([1], [5])"
    using assms(1) sample_members_ok(3) by (auto simp: pinned_keys_def sample_node_def sample_state_def sample_member_def)
  then show ?thesis using assms(2,3) by (simp add: pushed_envelope_def sample_codec)
qed

theorem gossip_replay_refused_witness:
  "\<exists>body n1 resp status n3.
     gossip_sync sample_cms sample_cbor sample_rnd (Inr (replicate 16 0)) 100 100 (Some ''n1'') body sample_b = (Inr resp, n1) \<and>
     gossip_sync sample_cms sample_cbor sample_rnd (Inr (replicate 16 0)) 120 120 (Some ''n1'') body n1 = (Inl status, n3) \<and>
     gn_crdt n3 = gn_crdt n1"
proof -
  obtain body r b' where m: "gossip_sync sample_cms sample_cbor sample_rnd (Inr (replicate 16 0)) 100 100 (Some ''n1'') body sample_b = (Inr r, b')"
      "gn_crdt b' = sample_answer" "verify_and_open sample_cms body [5] [1] = Inr [2, 1]" "gn_kem_priv b' = [5]"
    by (rule sample_push)
  have "\<exists>status n3. gossip_sync sample_cms sample_cbor sample_rnd (Inr (replicate 16 0)) 120 120 (Some ''n1'') body
      (fold (gossip_event_step sample_cms sample_cbor) [] b') = (Inl status, n3)
      \<and> gn_crdt n3 = gn_crdt (fold (gossip_event_step sample_cms sample_cbor) [] b')"
    by (rule gossip_replay_refused [OF _ sample_pushed_envelope [of sample_b, OF _ _ m(3)] _ m(1) _ _ _ _ sample_pushed_envelope [OF _ _ m(3)]])
      (simp_all add: hm_wf_def max_age_def m(2,4))
  then show ?thesis using m(1) by auto
qed

text \<open>
  The record of a nonce is kept for the maximal age from its arrival, but an envelope with a clock
  ahead by the tolerated skew is valid for longer: after the maximal age it is accepted a second time.
\<close>

lemma replay_within_skew:
  assumes "16 \<le> length nonce" "length nonce \<le> 32" and "0 \<le> t" "t < 2 ^ 62"
  shows "in_window None t (t + 30)" and "in_window None (t + 301) (t + 30)"
    and "check_nonce None t nonce [] = (None, [(nonce, t)])"
    and "check_nonce None (t + 301) nonce [(nonce, t)] = (None, [(nonce, t + 301)])"
  using assms by (auto simp: in_window_def check_nonce_def max_age_def clock_skew_def wrap_i64_def hm_retain_def
      gossip_nonce_cache_max_def)

section \<open>Writes during a round\<close>

text \<open>What is written while a round runs is not sent. Whatever state the node has when a valid response
  of a peer comes in (also one with writes of its own, or with news of other peers, that came after the
  push was encoded), the round records the peer as being up to date with it: the next round sends that
  peer nothing.\<close>

theorem write_during_round_not_pushed:
  assumes "validate_response cx cb now n (pt, Some resp) = Some (c, v)"
    and "round_receive px jx cx cb load persist_ok now [(pt, Some resp)] n rm = (n', rm')"
  shows "prepare_peer cb nonce t (gn_gen n') n' (pt_url pt) rm' = (None, rm')"
proof -
  have "vp_url v = pt_url pt" using assms(1) by (auto simp: validate_response_def split: sum.splits if_splits)
  then have "hm_get (rm_last_gen rm') (pt_url pt) = Some (gn_gen n')"
    using assms by (auto simp: round_receive_def note_peer_def Let_def hm_get_insert)
  then show ?thesis by (simp add: prepare_peer_def Let_def)
qed

text \<open>The first node with an order created after it encoded its push.\<close>

definition sample_busy :: gossip_node where
  "sample_busy = with_app (\<lambda>a. a\<lparr>st_gen := 3, st_crdt := (st_crdt a)\<lparr>orders :=
     fst (snd (or_upsert 2 (orders (st_crdt a)) ''o9'' (sample_order ''ready'' ''ca1'') 50))\<rparr>\<rparr>) sample_a"

lemma sample_busy_ok:
  "aka.ok member_writes (gn_crdt sample_busy)" "v_orders (aka_view (gn_crdt sample_busy)) ''o9'' = OrLive 50 (sample_order ''ready'' ''ca1'')"
proof -
  have "hm_wf (orders (gn_crdt sample_busy)) \<and> or_map_history (w_orders member_writes) (or_map_view (orders (gn_crdt sample_busy)))
    \<and> or_map_view (orders (gn_crdt sample_busy)) ''o9'' = OrLive 50 (sample_order ''ready'' ''ca1'')"
    by (simp add: sample_busy_def with_app_def sample_node_def sample_state_def node_b_def or_upsert_def or_map_history_def
        or_map_view_def member_writes_def sample_writes_def hm_wf_def aka_default_def)
  then show "aka.ok member_writes (gn_crdt sample_busy)" "v_orders (aka_view (gn_crdt sample_busy)) ''o9'' = OrLive 50 (sample_order ''ready'' ''ca1'')"
    using sample_nodes_ok(1) by (simp_all add: aka.ok_def aka_wf_def aka_history_def aka_view_def sample_busy_def with_app_def)
qed

theorem write_during_round_not_pushed_witness:
  "\<exists>pp rm1 pt resp b' n' rm'.
     prepare_peer sample_cbor (Inr (replicate 16 0)) 100 2 sample_a ''https://n2'' no_maps = (Some pp, rm1) \<and>
     seal_peer sample_cms sample_rnd sample_a pp = Some pt \<and>
     gossip_sync sample_cms sample_cbor sample_rnd (Inr (replicate 16 0)) 100 100 (Some (pt_header pt)) (pt_body pt) sample_b = (Inr resp, b') \<and>
     round_receive sample_px sample_jx sample_cms sample_cbor None True 100 [(pt, Some resp)] sample_busy rm1 = (n', rm') \<and>
     prepare_peer sample_cbor (Inr (replicate 16 0)) 200 (gn_gen n') n' ''https://n2'' rm' = (None, rm') \<and>
     or_get (orders (gn_crdt n')) ''o9'' = Some (sample_order ''ready'' ''ca1'') \<and> or_get (orders (gn_crdt b')) ''o9'' = None"
proof -
  obtain pp rm1 pt b' x r where m:
    "prepare_peer sample_cbor (Inr (replicate 16 0)) 100 2 sample_a ''https://n2'' no_maps = (Some pp, rm1)"
    "seal_peer sample_cms sample_rnd sample_a pp = Some pt" "pt_url pt = ''https://n2''" "pt_signing_key pt = [2]"
    "gossip_sync sample_cms sample_cbor sample_rnd (Inr (replicate 16 0)) 100 100 (Some (pt_header pt)) (pt_body pt) sample_b
       = (Inr r, b')" "gn_crdt b' = sample_answer" "verify_and_open sample_cms r [5] [2] = Inr [4, x]"
    by (rule sample_messages)
  have "gn_kem_priv sample_busy = [5]" "gn_config sample_busy = None" by (simp_all add: sample_busy_def with_app_def)
  then obtain c v where val: "validate_response sample_cms sample_cbor 100 sample_busy (pt, Some r) = Some (c, v)"
      and c: "c = gn_crdt sample_a \<or> c = sample_answer"
    using sample_validated [OF m(7,4)] by blast
  obtain n' rm' where rec: "round_receive sample_px sample_jx sample_cms sample_cbor None True 100 [(pt, Some r)] sample_busy rm1 = (n', rm')"
    by fastforce
  have "aka.ok member_writes c" using c sample_nodes_ok aka.ok_merge [OF sample_nodes_ok(2,1), of 2]
    by (auto simp: sample_answer_def)
  moreover have "gn_crdt n' = st_crdt (merge_peers [c] (gn_app sample_busy))"
    using rec val merge_round_crdt [of sample_px sample_jx None True "[c]" sample_busy] by (auto simp: round_receive_def Let_def)
  ultimately have "aka_view (gn_crdt n') = aka_join (aka_view (gn_crdt sample_busy)) (aka_view c)"
    using merge_one_peer(1) [OF sample_busy_ok(1)] by simp
  then have "or_get (orders (gn_crdt n')) ''o9'' = Some (sample_order ''ready'' ''ca1'')"
    using c sample_orders(3,4) sample_busy_ok(2) by (auto simp: or_get_orders_view v_orders_join)
  moreover have "or_get (orders (gn_crdt b')) ''o9'' = None" using m(6) sample_orders(3) by (simp add: or_get_orders_view)
  ultimately show ?thesis
    using m(1,2,5) rec write_during_round_not_pushed [OF val rec, unfolded m(3)] by blast
qed


section \<open>Rules that arrive by a push\<close>

datatype server_event =
  Inbound seal_random "cms_error + bytes" i64 i64 "string option" bytes
| Housekeeping "acme_error option" bool bool bool i64

fun server_step :: "'q policy_ext \<Rightarrow> json_ext \<Rightarrow> cms_ext \<Rightarrow> cbor_ext \<Rightarrow> server_event \<Rightarrow> gossip_node \<Rightarrow> gossip_node" where
  "server_step px jx cx cb (Inbound rnd nonce now now_resp header body) n =
     snd (gossip_sync cx cb rnd nonce now now_resp header body n)"
| "server_step px jx cx cb (Housekeeping load persist_due persist_ok gc_due now) n =
     round_housekeeping px jx load persist_due persist_ok gc_due now n"

lemma sync_accept_policy:
  assumes "sync_accept cx cb now header body n = (r, n')"
  shows "ps_engine (gn_policy n') = ps_engine (gn_policy n) \<and> ps_rebuild_needed (gn_policy n') = ps_rebuild_needed (gn_policy n)"
  using sync_accept_outcome [of cx cb now header body n, unfolded assms] by cases (auto simp: with_app_def)

lemma server_step_engine:
  assumes "\<not> ps_rebuild_needed (gn_policy n)"
  shows "ps_engine (gn_policy (server_step px jx cx cb e n)) = ps_engine (gn_policy n)
    \<and> \<not> ps_rebuild_needed (gn_policy (server_step px jx cx cb e n))"
proof (cases e)
  case (Inbound rnd nonce now now_resp header body)
  then show ?thesis
    using sync_accept_policy [of cx cb now header body n] assms by (metis gossip_sync_node prod.collapse server_step.simps(1))
next
  case (Housekeeping load persist_due persist_ok gc_due now)
  then show ?thesis
    using assms by (simp add: round_housekeeping_def Let_def retry_rebuild_def periodic_persist_def collect_tombstones_def with_app_def)
qed

text \<open>A rule that arrives by a push is not enforced. The engine that decides on issuance stays as it is
  whatever other nodes push to this one, and the periodic work of the loop, which writes the replicated
  rules to the table, does not reload it either: no rebuild is made and none is noted as due.\<close>

theorem pushed_rule_not_enforced:
  assumes "\<not> ps_rebuild_needed (gn_policy n)"
  shows "ps_engine (gn_policy (fold (server_step px jx cx cb) es n)) = ps_engine (gn_policy n)
    \<and> \<not> ps_rebuild_needed (gn_policy (fold (server_step px jx cx cb) es n))"
  using assms
proof (induction es arbitrary: n)
  case (Cons e es)
  then show ?case using server_step_engine [OF Cons.prems, of px jx cx cb e] by simp
qed simp

theorem pushed_rule_not_enforced_witness:
  "\<exists>body. let n' = fold (server_step sample_px sample_jx sample_cms sample_cbor)
         [Inbound sample_rnd (Inr (replicate 16 0)) 100 100 (Some ''n1'') body, Housekeeping None True True False 200] sample_b
       in or_get (policy_rules (gn_crdt n')) ''r1'' = Some policy_rule_entry_default \<and>
          ipe_policy (ps_engine (gn_policy n')) = \<lparr>ap_rules = [], ap_temporal = []\<rparr>"
proof -
  obtain body r b' where m: "gossip_sync sample_cms sample_cbor sample_rnd (Inr (replicate 16 0)) 100 100 (Some ''n1'') body sample_b = (Inr r, b')"
    "gn_crdt b' = sample_answer"
    by (rule sample_push)
  let ?es = "[Inbound sample_rnd (Inr (replicate 16 0)) 100 100 (Some ''n1'') body, Housekeeping None True True False 200]"
  let ?n = "fold (server_step sample_px sample_jx sample_cms sample_cbor) ?es sample_b"
  have sb: "\<not> ps_rebuild_needed (gn_policy sample_b)" by (simp add: sample_node_def)
  have b: "\<not> ps_rebuild_needed (gn_policy b')"
    using server_step_engine [OF sb, of sample_px sample_jx sample_cms sample_cbor "hd ?es"] m(1) by simp
  then have crdt: "gn_crdt ?n = sample_answer"
    using m by (simp add: round_housekeeping_def Let_def retry_rebuild_def periodic_persist_def)
  have "v_policy_rules (aka_view sample_answer) ''r1'' = OrLive 1 policy_rule_entry_default"
    unfolding sample_answer_view
    by (simp add: aka_join_def aka_view_def or_map_join_def or_map_view_def sample_node_def sample_state_def sample_rules_def
        or_upsert_def node_a_rules)
  then have "or_get (policy_rules (gn_crdt ?n)) ''r1'' = Some policy_rule_entry_default"
    unfolding crdt by (simp add: or_get_view aka_view_def)
  moreover have "ipe_policy (ps_engine (gn_policy ?n)) = \<lparr>ap_rules = [], ap_temporal = []\<rparr>"
    using pushed_rule_not_enforced [OF sb, of sample_px sample_jx sample_cms sample_cbor ?es] by (simp add: sample_node_def)
  ultimately show ?thesis unfolding Let_def by blast
qed

end
