(* ===== verification/Jose.thy ===== *)
theory Jose
  imports Json_Value Acme_Error Db_Model
begin

text \<open>
  Signed requests: keys (\<^verbatim>\<open>crates/akamu-jose/src/jwk.rs\<close>), signatures (\<^verbatim>\<open>jws.rs\<close>) and authority tokens
  (\<^verbatim>\<open>jwt.rs\<close>) of the JOSE crate. Base64, JSON text, the digest and the operations on keys belong to
  libraries and are the fields of \<open>jose_ext\<close>. Signing input and JSON text are strings of bytes.
\<close>

unbundle bit_operations_syntax

section \<open>Libraries\<close>

text \<open>A public key of the library, with what the code asks it for.\<close>

record backend_key =
  bk_type :: string
  bk_spki_der :: bytes
  bk_ec_curve :: "string + string option"
  bk_ec_coords :: "string + (bytes \<times> bytes) option"
  bk_rsa_n :: "string + bytes option"
  bk_rsa_e :: "string + bytes option"

record 'k jose_ext =
  jo_b64u_encode :: "bytes \<Rightarrow> string"
  jo_b64u_decode :: "string \<Rightarrow> string + bytes"
  jo_b64_decode :: "string \<Rightarrow> string + bytes"
  jo_json_parse :: "bytes \<Rightarrow> string + json"
  jo_json_text :: "json \<Rightarrow> string + string"
  jo_de_error :: "json \<Rightarrow> string"                  \<comment> \<open>the message for a value of the wrong shape\<close>
  jo_utf8 :: "string \<Rightarrow> bytes"
  jo_sha256 :: "bytes \<Rightarrow> string + bytes"
  jo_rsa_spki :: "bytes \<Rightarrow> bytes \<Rightarrow> string + bytes"
  jo_ec_spki :: "bytes \<Rightarrow> bytes \<Rightarrow> string \<Rightarrow> string + bytes"
  jo_verify :: "bytes \<Rightarrow> bytes \<Rightarrow> bytes \<Rightarrow> bytes \<Rightarrow> string + unit"      \<comment> \<open>key, message, algorithm, signature\<close>
  jo_verify_ml_dsa :: "bytes \<Rightarrow> bytes \<Rightarrow> bytes \<Rightarrow> bytes \<Rightarrow> string + unit"  \<comment> \<open>key, message, signature, context\<close>
  jo_sign :: "'k \<Rightarrow> string \<Rightarrow> bytes \<Rightarrow> string + bytes"              \<comment> \<open>key, digest, message\<close>
  jo_sign_ml_dsa :: "'k \<Rightarrow> bytes \<Rightarrow> bytes \<Rightarrow> string + bytes"       \<comment> \<open>key, message, context\<close>

definition jerr :: "(string \<Rightarrow> jose_error) \<Rightarrow> string \<Rightarrow> string + 'a \<Rightarrow> jose_error + 'a" where
  "jerr c prefix r = (case r of Inl e \<Rightarrow> Inl (c (prefix @ e)) | Inr x \<Rightarrow> Inr x)"

definition member :: "string \<Rightarrow> 'a option \<Rightarrow> jose_error + 'a" where
  "member msg x = ok_or (JoseBadRequest msg) x"

lemma jerr_simps [simp]: "jerr c p (Inl e) = Inl (c (p @ e))" "jerr c p (Inr x) = Inr x"
  by (simp_all add: jerr_def)

lemma jerr_Inr [simp]: "jerr c p r = Inr x \<longleftrightarrow> r = Inr x"
  by (cases r) simp_all

lemma member_Inr [simp]: "member m x = Inr a \<longleftrightarrow> x = Some a"
  by (cases x) (simp_all add: member_def)

section \<open>Keys (jwk.rs)\<close>

record jwk_public =
  kty :: string
  jwk_crv :: "string option"
  jwk_x :: "string option"
  jwk_y :: "string option"
  jwk_n :: "string option"
  jwk_e :: "string option"
  jwk_alg :: "string option"
  jwk_pub :: "string option"

definition jwk_of_json :: "json \<Rightarrow> jwk_public option" where
  "jwk_of_json v =
     (if \<not> json_is_object v then None
      else case (Option.bind (json_get ''kty'' v) json_as_str, json_opt_field json_as_str ''crv'' v,
                 json_opt_field json_as_str ''x'' v, json_opt_field json_as_str ''y'' v,
                 json_opt_field json_as_str ''n'' v, json_opt_field json_as_str ''e'' v,
                 json_opt_field json_as_str ''alg'' v, json_opt_field json_as_str ''pub'' v) of
        (Some t, Some crv, Some x, Some y, Some n, Some e, Some alg, Some p) \<Rightarrow>
          Some \<lparr>kty = t, jwk_crv = crv, jwk_x = x, jwk_y = y, jwk_n = n, jwk_e = e, jwk_alg = alg, jwk_pub = p\<rparr>
      | _ \<Rightarrow> None)"

definition opt_member :: "string \<Rightarrow> string option \<Rightarrow> (string \<times> json) list" where
  "opt_member k x = (case x of None \<Rightarrow> [] | Some s \<Rightarrow> [(k, JString s)])"

definition jwk_to_json :: "jwk_public \<Rightarrow> json" where
  "jwk_to_json j = JObject ((''kty'', JString (kty j)) # opt_member ''crv'' (jwk_crv j) @ opt_member ''x'' (jwk_x j)
     @ opt_member ''y'' (jwk_y j) @ opt_member ''n'' (jwk_n j) @ opt_member ''e'' (jwk_e j)
     @ opt_member ''alg'' (jwk_alg j) @ opt_member ''pub'' (jwk_pub j))"

definition missing :: "string \<Rightarrow> string \<Rightarrow> string" where
  "missing t m = t @ '' JWK missing '' @ quoted m"

abbreviation unsupported_kty :: "string \<Rightarrow> jose_error" where
  "unsupported_kty t \<equiv> JoseUnsupportedAlgorithm (''unsupported JWK key type: '' @ t)"

text \<open>The canonical form of which the thumbprint is the digest: required members in order, no blanks.\<close>

definition jwk_canonical :: "jwk_public \<Rightarrow> jose_error + string" where
  "jwk_canonical j =
     (if kty j = ''RSA'' then
        and_then (member (missing ''RSA'' ''n'') (jwk_n j)) (\<lambda>n.
        and_then (member (missing ''RSA'' ''e'') (jwk_e j)) (\<lambda>e.
          Inr (''{\"e\":\"'' @ e @ ''\",\"kty\":\"RSA\",\"n\":\"'' @ n @ ''\"}'')))
      else if kty j = ''EC'' then
        and_then (member (missing ''EC'' ''crv'') (jwk_crv j)) (\<lambda>crv.
        and_then (member (missing ''EC'' ''x'') (jwk_x j)) (\<lambda>x.
        and_then (member (missing ''EC'' ''y'') (jwk_y j)) (\<lambda>y.
          Inr (''{\"crv\":\"'' @ crv @ ''\",\"kty\":\"EC\",\"x\":\"'' @ x @ ''\",\"y\":\"'' @ y @ ''\"}''))))
      else if kty j = ''OKP'' then
        and_then (member (missing ''OKP'' ''crv'') (jwk_crv j)) (\<lambda>crv.
        and_then (member (missing ''OKP'' ''x'') (jwk_x j)) (\<lambda>x.
          Inr (''{\"crv\":\"'' @ crv @ ''\",\"kty\":\"OKP\",\"x\":\"'' @ x @ ''\"}'')))
      else if kty j = ''AKP'' then
        and_then (member (missing ''AKP'' ''alg'') (jwk_alg j)) (\<lambda>alg.
        and_then (member (missing ''AKP'' ''pub'') (jwk_pub j)) (\<lambda>p.
          Inr (''{\"alg\":\"'' @ alg @ ''\",\"kty\":\"AKP\",\"pub\":\"'' @ p @ ''\"}'')))
      else Inl (unsupported_kty (kty j)))"

definition thumbprint :: "'k jose_ext \<Rightarrow> jwk_public \<Rightarrow> jose_error + string" where
  "thumbprint jo j =
     and_then (jwk_canonical j) (\<lambda>c.
     and_then (jerr JoseCrypto ''SHA-256 thumbprint: '' (jo_sha256 jo (jo_utf8 jo c))) (\<lambda>h.
       Inr (jo_b64u_encode jo h)))"

definition b64u_member :: "'k jose_ext \<Rightarrow> string \<Rightarrow> string \<Rightarrow> jose_error + bytes" where
  "b64u_member jo name s = jerr JoseBadRequest (''JWK '' @ quoted name @ '' base64: '') (jo_b64u_decode jo s)"

definition rsa_to_spki_der :: "'k jose_ext \<Rightarrow> jwk_public \<Rightarrow> jose_error + bytes" where
  "rsa_to_spki_der jo j =
     and_then (member (missing ''RSA'' ''n'') (jwk_n j)) (\<lambda>n_b64.
     and_then (member (missing ''RSA'' ''e'') (jwk_e j)) (\<lambda>e_b64.
     and_then (b64u_member jo ''n'' n_b64) (\<lambda>n.
     and_then (b64u_member jo ''e'' e_b64) (\<lambda>e.
       jerr JoseCrypto ''RSA key from JWK: '' (jo_rsa_spki jo n e)))))"

definition ec_to_spki_der :: "'k jose_ext \<Rightarrow> jwk_public \<Rightarrow> jose_error + bytes" where
  "ec_to_spki_der jo j =
     and_then (member (missing ''EC'' ''crv'') (jwk_crv j)) (\<lambda>crv.
     and_then (member (missing ''EC'' ''x'') (jwk_x j)) (\<lambda>x_b64.
     and_then (member (missing ''EC'' ''y'') (jwk_y j)) (\<lambda>y_b64.
     and_then (b64u_member jo ''x'' x_b64) (\<lambda>x.
     and_then (b64u_member jo ''y'' y_b64) (\<lambda>y.
       if crv \<in> {''P-256'', ''P-384'', ''P-521''}
       then jerr JoseCrypto ''EC key from JWK: '' (jo_ec_spki jo x y crv)
       else Inl (JoseUnsupportedAlgorithm (''unsupported EC curve: '' @ crv)))))))"

definition okp_ed25519_spki_prefix :: bytes where
  "okp_ed25519_spki_prefix = [0x30, 0x2a, 0x30, 0x05, 0x06, 0x03, 0x2b, 0x65, 0x70, 0x03, 0x21, 0x00]"

definition okp_ed448_spki_prefix :: bytes where
  "okp_ed448_spki_prefix = [0x30, 0x43, 0x30, 0x05, 0x06, 0x03, 0x2b, 0x65, 0x71, 0x03, 0x39, 0x00]"

definition build_okp_spki :: "bytes \<Rightarrow> bytes \<Rightarrow> jose_error + bytes" where
  "build_okp_spki x_bytes prefix =
     and_then (if prefix ! 8 = 0x70 then Inr (32 :: nat) else if prefix ! 8 = 0x71 then Inr 57
               else Inl (JoseCrypto ''unknown OKP prefix'')) (\<lambda>expected_len.
       if length x_bytes \<noteq> expected_len
       then Inl (JoseBadRequest (''OKP key x has wrong length: '' @ show_nat (length x_bytes) @ '' (expected ''
              @ show_nat expected_len @ '')''))
       else Inr (prefix @ x_bytes))"

definition okp_to_spki_der :: "'k jose_ext \<Rightarrow> jwk_public \<Rightarrow> jose_error + bytes" where
  "okp_to_spki_der jo j =
     and_then (member (missing ''OKP'' ''crv'') (jwk_crv j)) (\<lambda>crv.
     and_then (member (missing ''OKP'' ''x'') (jwk_x j)) (\<lambda>x_b64.
     and_then (b64u_member jo ''x'' x_b64) (\<lambda>x.
       if crv = ''Ed25519'' then build_okp_spki x okp_ed25519_spki_prefix
       else if crv = ''Ed448'' then build_okp_spki x okp_ed448_spki_prefix
       else Inl (JoseUnsupportedAlgorithm (''unsupported OKP curve: '' @ crv)))))"

definition der_push_length :: "bytes \<Rightarrow> nat \<Rightarrow> bytes" where
  "der_push_length buf len =
     (if len < 128 then buf @ [word_of_nat len]
      else if len < 256 then buf @ [0x81, word_of_nat len]
      else buf @ [0x82, word_of_nat (len div 2 ^ 8), word_of_nat (len mod 2 ^ 8)])"

definition build_ml_dsa_spki :: "bytes \<Rightarrow> bytes \<Rightarrow> bytes" where
  "build_ml_dsa_spki oid_bytes pub_key =
     (let oid_tlv = [0x06, word_of_nat (length oid_bytes)] @ oid_bytes;
          alg_id = der_push_length [0x30] (length oid_tlv) @ oid_tlv;
          bit_string = der_push_length [0x03] (1 + length pub_key) @ [0x00] @ pub_key
      in der_push_length [0x30] (length alg_id + length bit_string) @ alg_id @ bit_string)"

definition ml_dsa_oid_prefix :: bytes where
  "ml_dsa_oid_prefix = [0x60, 0x86, 0x48, 0x01, 0x65, 0x03, 0x04, 0x03]"

definition ml_dsa_key_params :: "string \<Rightarrow> (nat \<times> bytes) option" where
  "ml_dsa_key_params alg =
     (if alg = ''ML-DSA-44'' then Some (1312, ml_dsa_oid_prefix @ [0x11])
      else if alg = ''ML-DSA-65'' then Some (1952, ml_dsa_oid_prefix @ [0x12])
      else if alg = ''ML-DSA-87'' then Some (2592, ml_dsa_oid_prefix @ [0x13])
      else None)"

definition ml_dsa_to_spki_der :: "'k jose_ext \<Rightarrow> jwk_public \<Rightarrow> jose_error + bytes" where
  "ml_dsa_to_spki_der jo j =
     and_then (member (missing ''AKP'' ''alg'') (jwk_alg j)) (\<lambda>alg.
     and_then (member (missing ''AKP'' ''pub'') (jwk_pub j)) (\<lambda>pub_b64.
     and_then (b64u_member jo ''pub'' pub_b64) (\<lambda>pub_bytes.
       case ml_dsa_key_params alg of
         None \<Rightarrow> Inl (JoseUnsupportedAlgorithm (''unsupported AKP algorithm: '' @ alg))
       | Some (expected_len, oid_bytes) \<Rightarrow>
           if length pub_bytes \<noteq> expected_len
           then Inl (JoseBadRequest (''AKP '' @ quoted alg @ '' public key has wrong length: '' @ show_nat (length pub_bytes)
                  @ '' (expected '' @ show_nat expected_len @ '')''))
           else Inr (build_ml_dsa_spki oid_bytes pub_bytes))))"

definition to_spki_der :: "'k jose_ext \<Rightarrow> jwk_public \<Rightarrow> jose_error + bytes" where
  "to_spki_der jo j =
     (if kty j = ''RSA'' then rsa_to_spki_der jo j
      else if kty j = ''EC'' then ec_to_spki_der jo j
      else if kty j = ''OKP'' then okp_to_spki_der jo j
      else if kty j = ''AKP'' then ml_dsa_to_spki_der jo j
      else Inl (unsupported_kty (kty j)))"

text \<open>\<^verbatim>\<open>pad_coord\<close>: the last bytes of the coordinate, filled up with zeros in front.\<close>

definition pad_coord :: "'k jose_ext \<Rightarrow> bytes \<Rightarrow> nat \<Rightarrow> string" where
  "pad_coord jo v n = jo_b64u_encode jo (replicate (n - length v) 0 @ drop (length v - n) v)"


abbreviation empty_jwk :: "string \<Rightarrow> jwk_public" where
  "empty_jwk t \<equiv> \<lparr>kty = t, jwk_crv = None, jwk_x = None, jwk_y = None, jwk_n = None, jwk_e = None,
     jwk_alg = None, jwk_pub = None\<rparr>"

definition ec_curve_of :: "string \<Rightarrow> jose_error + string \<times> nat" where
  "ec_curve_of crv_raw =
     (if crv_raw \<in> {''P-256'', ''prime256v1''} then Inr (''P-256'', 32)
      else if crv_raw \<in> {''P-384'', ''secp384r1''} then Inr (''P-384'', 48)
      else if crv_raw \<in> {''P-521'', ''secp521r1''} then Inr (''P-521'', 66)
      else Inl (JoseUnsupportedAlgorithm (''unsupported EC curve: '' @ crv_raw)))"

definition from_ec_key :: "'k jose_ext \<Rightarrow> backend_key \<Rightarrow> jose_error + jwk_public" where
  "from_ec_key jo key =
     and_then (jerr JoseCrypto [] (bk_ec_curve key)) (\<lambda>c.
     and_then (ok_or (JoseCrypto ''EC key has no curve name'') c) (\<lambda>crv_raw.
     and_then (ec_curve_of crv_raw) (\<lambda>(crv, coord_size).
     and_then (jerr JoseCrypto [] (bk_ec_coords key)) (\<lambda>xy.
     and_then (ok_or (JoseCrypto ''EC key has no affine coordinates'') xy) (\<lambda>(x_raw, y_raw).
       Inr ((empty_jwk ''EC'')\<lparr>jwk_crv := Some crv, jwk_x := Some (pad_coord jo x_raw coord_size),
              jwk_y := Some (pad_coord jo y_raw coord_size)\<rparr>))))))"

definition from_rsa_key :: "'k jose_ext \<Rightarrow> backend_key \<Rightarrow> jose_error + jwk_public" where
  "from_rsa_key jo key =
     and_then (jerr JoseCrypto [] (bk_rsa_n key)) (\<lambda>n.
     and_then (ok_or (JoseCrypto ''RSA key has no modulus'') n) (\<lambda>n_raw.
     and_then (jerr JoseCrypto [] (bk_rsa_e key)) (\<lambda>e.
     and_then (ok_or (JoseCrypto ''RSA key has no public exponent'') e) (\<lambda>e_raw.
       Inr ((empty_jwk ''RSA'')\<lparr>jwk_n := Some (jo_b64u_encode jo n_raw), jwk_e := Some (jo_b64u_encode jo e_raw)\<rparr>)))))"

definition from_okp_key :: "'k jose_ext \<Rightarrow> string \<Rightarrow> nat \<Rightarrow> backend_key \<Rightarrow> jose_error + jwk_public" where
  "from_okp_key jo crv key_len key =
     (if length (bk_spki_der key) < 12 + key_len then Inl (JoseCrypto (crv @ '' SPKI DER too short''))
      else Inr ((empty_jwk ''OKP'')\<lparr>jwk_crv := Some crv, jwk_x := Some (jo_b64u_encode jo (drop 12 (bk_spki_der key)))\<rparr>))"

definition spki_header :: nat where "spki_header = 22"

definition from_ml_dsa_key :: "'k jose_ext \<Rightarrow> (8 word \<Rightarrow> string) \<Rightarrow> backend_key \<Rightarrow> jose_error + jwk_public" where
  "from_ml_dsa_key jo show_hex key =
     (let spki = bk_spki_der key in
      if length spki > 17 \<and> take 8 (drop 8 spki) = ml_dsa_oid_prefix then
        and_then (if spki ! 16 = 0x11 then Inr (''ML-DSA-44'', 1312 :: nat)
                  else if spki ! 16 = 0x12 then Inr (''ML-DSA-65'', 1952)
                  else if spki ! 16 = 0x13 then Inr (''ML-DSA-87'', 2592)
                  else Inl (JoseUnsupportedAlgorithm (''unknown ML-DSA OID variant: 0x'' @ show_hex (spki ! 16))))
          (\<lambda>(alg_name, expected_pub_len).
             if length spki \<noteq> spki_header + expected_pub_len
             then Inl (JoseCrypto (''ML-DSA SPKI length '' @ show_nat (length spki) @ '' is wrong for '' @ alg_name))
             else Inr ((empty_jwk ''AKP'')\<lparr>jwk_alg := Some alg_name,
                     jwk_pub := Some (jo_b64u_encode jo (drop spki_header spki))\<rparr>))
      else Inl (JoseUnsupportedAlgorithm ''unknown public key type''))"

definition from_public_key :: "'k jose_ext \<Rightarrow> (8 word \<Rightarrow> string) \<Rightarrow> backend_key \<Rightarrow> jose_error + jwk_public" where
  "from_public_key jo show_hex key =
     (if bk_type key = ''ec'' then from_ec_key jo key
      else if bk_type key = ''rsa'' then from_rsa_key jo key
      else if bk_type key = ''ed25519'' then from_okp_key jo ''Ed25519'' 32 key
      else if bk_type key = ''ed448'' then from_okp_key jo ''Ed448'' 57 key
      else from_ml_dsa_key jo show_hex key)"

fun find_key :: "'k jose_ext \<Rightarrow> string \<Rightarrow> json list \<Rightarrow> jose_error + jwk_public" where
  "find_key jo kid [] = Inl (JoseBadRequest (''kid '' @ quoted kid @ '' not found in JWKS''))"
| "find_key jo kid (entry # keys) =
     (if Option.bind (json_get ''kid'' entry) json_as_str = Some kid
      then ok_or (JoseBadRequest (''JWKS entry for kid '' @ quoted kid @ '': '' @ jo_de_error jo entry)) (jwk_of_json entry)
      else find_key jo kid keys)"

definition find_by_kid :: "'k jose_ext \<Rightarrow> bytes \<Rightarrow> string \<Rightarrow> jose_error + jwk_public" where
  "find_by_kid jo jwks_bytes kid =
     and_then (jerr JoseBadRequest ''JWKS JSON: '' (jo_json_parse jo jwks_bytes)) (\<lambda>jwks.
     and_then (ok_or (JoseBadRequest (''JWKS missing '' @ quoted ''keys'' @ '' array''))
                (Option.bind (json_get ''keys'' jwks) json_as_array)) (\<lambda>keys.
       find_key jo kid keys))"

end
