(* ===== verification/Jose_Signature.thy ===== *)
theory Jose_Signature
  imports Jose
begin

text \<open>
  Signatures over requests (\<^verbatim>\<open>crates/akamu-jose/src/jws.rs\<close>) and authority tokens (\<^verbatim>\<open>jwt.rs\<close>): decoding of
  the protected header, signing and verification by algorithm, and the two forms of an ECDSA
  signature.
\<close>

section \<open>Encodings of an ECDSA signature (jws.rs)\<close>

text \<open>\<open>encode_asn1_length\<close> and \<open>der_push_length\<close> are the same function, written twice in the crate.\<close>

definition encode_asn1_length :: "bytes \<Rightarrow> nat \<Rightarrow> bytes" where
  "encode_asn1_length buf len =
     (if len < 128 then buf @ [word_of_nat len]
      else if len < 256 then buf @ [0x81, word_of_nat len]
      else buf @ [0x82, word_of_nat (len div 2 ^ 8), word_of_nat (len mod 2 ^ 8)])"

definition encode_asn1_integer :: "bytes \<Rightarrow> bytes" where
  "encode_asn1_integer bs =
     (let start = (if \<exists>b \<in> set bs. b \<noteq> 0 then length (takeWhile (\<lambda>b. b = 0) bs) else length bs - 1);
          trimmed = drop start bs;
          needs_zero_pad = (case trimmed of [] \<Rightarrow> False | b # _ \<Rightarrow> b AND 0x80 \<noteq> 0);
          value_len = length trimmed + (if needs_zero_pad then 1 else 0)
      in encode_asn1_length [0x02] value_len @ (if needs_zero_pad then [0x00] else []) @ trimmed)"

definition p1363_to_der :: "bytes \<Rightarrow> nat \<Rightarrow> jose_error + bytes" where
  "p1363_to_der sig half =
     (if length sig \<noteq> half * 2
      then Inl (JoseBadRequest (''ECDSA P1363 signature length '' @ show_nat (length sig) @ '' is wrong for half-size ''
             @ show_nat half))
      else let r = encode_asn1_integer (take half sig);
               s = encode_asn1_integer (drop half sig)
           in Inr (encode_asn1_length [0x30] (length r + length s) @ r @ s))"

definition decode_der_len :: "bytes \<Rightarrow> (nat \<times> bytes) option" where
  "decode_der_len buf =
     (case buf of
        [] \<Rightarrow> None
      | first # rest \<Rightarrow>
          if first < 0x80 then Some (unat first, rest)
          else if first = 0x81 then (case rest of b # rest' \<Rightarrow> Some (unat b, rest') | [] \<Rightarrow> None)
          else if first = 0x82 then
            (case rest of b # c # rest' \<Rightarrow> Some (unat b * 2 ^ 8 + unat c, rest') | _ \<Rightarrow> None)
          else None)"

definition strip_tlv :: "bytes \<Rightarrow> 8 word \<Rightarrow> bytes option" where
  "strip_tlv buf tag =
     (case buf of
        [] \<Rightarrow> None
      | t # body \<Rightarrow> if t \<noteq> tag then None
          else Option.bind (decode_der_len body) (\<lambda>(len, rest). if len \<le> length rest then Some (take len rest) else None))"

definition strip_integer :: "bytes \<Rightarrow> (bytes \<times> bytes) option" where
  "strip_integer buf =
     (case buf of
        [] \<Rightarrow> None
      | t # body \<Rightarrow> if t \<noteq> 0x02 then None
          else Option.bind (decode_der_len body) (\<lambda>(len, rest).
            if len \<le> length rest
            then Some (case take len rest of b # v \<Rightarrow> if b = 0 then v else b # v | [] \<Rightarrow> [], drop len rest)
            else None))"

definition ecdsa_der_to_p1363 :: "bytes \<Rightarrow> nat \<Rightarrow> bytes option" where
  "ecdsa_der_to_p1363 der half =
     Option.bind (strip_tlv der 0x30) (\<lambda>inner.
     Option.bind (strip_integer inner) (\<lambda>(r, rest).
     Option.bind (strip_integer rest) (\<lambda>(s, _).
       if length r > half \<or> length s > half then None
       else Some (replicate (half - length r) 0 @ r @ replicate (half - length s) 0 @ s))))"


section \<open>Algorithms (jws.rs)\<close>

definition rs256_alg_der :: bytes where
  "rs256_alg_der = [0x30, 0x0d, 0x06, 0x09, 0x2a, 0x86, 0x48, 0x86, 0xf7, 0x0d, 0x01, 0x01, 0x0b, 0x05, 0x00]"

definition rs384_alg_der :: bytes where
  "rs384_alg_der = [0x30, 0x0d, 0x06, 0x09, 0x2a, 0x86, 0x48, 0x86, 0xf7, 0x0d, 0x01, 0x01, 0x0c, 0x05, 0x00]"

definition rs512_alg_der :: bytes where
  "rs512_alg_der = [0x30, 0x0d, 0x06, 0x09, 0x2a, 0x86, 0x48, 0x86, 0xf7, 0x0d, 0x01, 0x01, 0x0d, 0x05, 0x00]"

definition pss_alg_der :: "8 word \<Rightarrow> 8 word \<Rightarrow> bytes" where
  "pss_alg_der hash salt =
     [0x30, 0x3d, 0x06, 0x09, 0x2a, 0x86, 0x48, 0x86, 0xf7, 0x0d, 0x01, 0x01, 0x0a, 0x30, 0x30, 0xa0,
      0x0d, 0x30, 0x0b, 0x06, 0x09, 0x60, 0x86, 0x48, 0x01, 0x65, 0x03, 0x04, 0x02, hash, 0xa1, 0x1a,
      0x30, 0x18, 0x06, 0x09, 0x2a, 0x86, 0x48, 0x86, 0xf7, 0x0d, 0x01, 0x01, 0x08, 0x30, 0x0b, 0x06,
      0x09, 0x60, 0x86, 0x48, 0x01, 0x65, 0x03, 0x04, 0x02, hash, 0xa2, 0x03, 0x02, 0x01, salt]"

definition ps256_alg_der :: bytes where "ps256_alg_der = pss_alg_der 0x01 0x20"
definition ps384_alg_der :: bytes where "ps384_alg_der = pss_alg_der 0x02 0x30"
definition ps512_alg_der :: bytes where "ps512_alg_der = pss_alg_der 0x03 0x40"

definition es256_alg_der :: bytes where
  "es256_alg_der = [0x30, 0x0a, 0x06, 0x08, 0x2a, 0x86, 0x48, 0xce, 0x3d, 0x04, 0x03, 0x02]"

definition es384_alg_der :: bytes where
  "es384_alg_der = [0x30, 0x0a, 0x06, 0x08, 0x2a, 0x86, 0x48, 0xce, 0x3d, 0x04, 0x03, 0x03]"

definition es512_alg_der :: bytes where
  "es512_alg_der = [0x30, 0x0a, 0x06, 0x08, 0x2a, 0x86, 0x48, 0xce, 0x3d, 0x04, 0x03, 0x04]"

definition eddsa_alg_der :: bytes where
  "eddsa_alg_der = [0x30, 0x05, 0x06, 0x03, 0x2b, 0x65, 0x70]"

definition ml_dsa_sig_len :: "string \<Rightarrow> nat option" where
  "ml_dsa_sig_len alg =
     (if alg = ''ML-DSA-44'' then Some 2420 else if alg = ''ML-DSA-65'' then Some 3309
      else if alg = ''ML-DSA-87'' then Some 4627 else None)"

definition ml_dsa_length_error :: "bytes \<Rightarrow> string \<Rightarrow> nat \<Rightarrow> jose_error" where
  "ml_dsa_length_error raw_sig alg expected =
     JoseBadRequest (''ML-DSA signature length '' @ show_nat (length raw_sig) @ '' is wrong for '' @ alg
       @ '' (expected '' @ show_nat expected @ '')'')"

text \<open>The algorithm identifier and the signature in the form the library takes.\<close>

definition sig_for_alg :: "string \<Rightarrow> bytes \<Rightarrow> jose_error + bytes \<times> bytes" where
  "sig_for_alg alg raw_sig =
     (if alg = ''RS256'' then Inr (rs256_alg_der, raw_sig)
      else if alg = ''RS384'' then Inr (rs384_alg_der, raw_sig)
      else if alg = ''RS512'' then Inr (rs512_alg_der, raw_sig)
      else if alg = ''PS256'' then Inr (ps256_alg_der, raw_sig)
      else if alg = ''PS384'' then Inr (ps384_alg_der, raw_sig)
      else if alg = ''PS512'' then Inr (ps512_alg_der, raw_sig)
      else if alg = ''ES256'' then and_then (p1363_to_der raw_sig 32) (\<lambda>s. Inr (es256_alg_der, s))
      else if alg = ''ES384'' then and_then (p1363_to_der raw_sig 48) (\<lambda>s. Inr (es384_alg_der, s))
      else if alg = ''ES512'' then and_then (p1363_to_der raw_sig 66) (\<lambda>s. Inr (es512_alg_der, s))
      else if alg = ''EdDSA'' then Inr (eddsa_alg_der, raw_sig)
      else Inl (JoseUnsupportedAlgorithm (''unsupported algorithm: '' @ alg)))"

definition verify_with_spki :: "'k jose_ext \<Rightarrow> string \<Rightarrow> bytes \<Rightarrow> bytes \<Rightarrow> bytes \<Rightarrow> jose_error + unit" where
  "verify_with_spki jo alg signing_input raw_sig spki_der =
     (case ml_dsa_sig_len alg of
        Some expected \<Rightarrow>
          if length raw_sig \<noteq> expected then Inl (ml_dsa_length_error raw_sig alg expected)
          else jerr JoseBadRequest ''ML-DSA signature invalid: '' (jo_verify_ml_dsa jo spki_der signing_input raw_sig [])
      | None \<Rightarrow>
          and_then (sig_for_alg alg raw_sig) (\<lambda>(sig_alg_der, verified_sig).
            jerr JoseBadRequest ''signature invalid: '' (jo_verify jo spki_der signing_input sig_alg_der verified_sig)))"

section \<open>Flattened JWS (jws.rs)\<close>

record jws_flattened =
  jws_protected :: string
  jws_payload :: string
  jws_signature :: string

datatype jws_key_ref = KeyJwk jwk_public | KeyKid string

record jws_protected_header =
  jh_alg :: string
  jh_nonce :: string
  jh_url :: string
  jh_key_ref :: jws_key_ref

text \<open>
  The key reference is an untagged enum inside the header: the first variant whose members are there
  and well-formed is taken, and other members are ignored.
\<close>

definition key_ref_of_json :: "json \<Rightarrow> jws_key_ref option" where
  "key_ref_of_json v =
     (case Option.bind (json_get ''jwk'' v) jwk_of_json of
        Some j \<Rightarrow> Some (KeyJwk j)
      | None \<Rightarrow> map_option KeyKid (Option.bind (json_get ''kid'' v) json_as_str))"

definition header_of_json :: "json \<Rightarrow> jws_protected_header option" where
  "header_of_json v =
     (case (Option.bind (json_get ''alg'' v) json_as_str, Option.bind (json_get ''nonce'' v) json_as_str,
            Option.bind (json_get ''url'' v) json_as_str, key_ref_of_json v) of
        (Some alg, Some nonce, Some url, Some k) \<Rightarrow> Some \<lparr>jh_alg = alg, jh_nonce = nonce, jh_url = url, jh_key_ref = k\<rparr>
      | _ \<Rightarrow> None)"

definition jws_of_json :: "json \<Rightarrow> jws_flattened option" where
  "jws_of_json v =
     (case (Option.bind (json_get ''protected'' v) json_as_str, Option.bind (json_get ''payload'' v) json_as_str,
            Option.bind (json_get ''signature'' v) json_as_str) of
        (Some p, Some d, Some s) \<Rightarrow> Some \<lparr>jws_protected = p, jws_payload = d, jws_signature = s\<rparr>
      | _ \<Rightarrow> None)"

text \<open>\<^verbatim>\<open>serde_json::from_slice\<close>: text that is no JSON, or a value of another shape, is an error.\<close>

definition from_slice :: "'k jose_ext \<Rightarrow> (json \<Rightarrow> 'a option) \<Rightarrow> bytes \<Rightarrow> string + 'a" where
  "from_slice jo f bs =
     and_then (jo_json_parse jo bs) (\<lambda>v. ok_or (jo_de_error jo v) (f v))"

definition decode_header :: "'k jose_ext \<Rightarrow> jws_flattened \<Rightarrow> jose_error + jws_protected_header" where
  "decode_header jo jws =
     and_then (jerr JoseBadRequest ''JWS protected header base64: '' (jo_b64u_decode jo (jws_protected jws))) (\<lambda>header_bytes.
       jerr JoseBadRequest ''JWS protected header JSON: '' (from_slice jo header_of_json header_bytes))"

definition decode_payload :: "'k jose_ext \<Rightarrow> jws_flattened \<Rightarrow> jose_error + bytes" where
  "decode_payload jo jws =
     (if jws_payload jws = [] then Inr []
      else jerr JoseBadRequest ''JWS payload base64: '' (jo_b64u_decode jo (jws_payload jws)))"

definition signing_input :: "'k jose_ext \<Rightarrow> string \<Rightarrow> string \<Rightarrow> bytes" where
  "signing_input jo protected payload = jo_utf8 jo (protected @ ''.'' @ payload)"

definition jws_verify :: "'k jose_ext \<Rightarrow> jws_flattened \<Rightarrow> bytes \<Rightarrow> jose_error + unit" where
  "jws_verify jo jws spki_der =
     and_then (decode_header jo jws) (\<lambda>header.
     and_then (jerr JoseBadRequest ''JWS signature base64: '' (jo_b64u_decode jo (jws_signature jws))) (\<lambda>raw_sig.
       let input = signing_input jo (jws_protected jws) (jws_payload jws) in
       case ml_dsa_sig_len (jh_alg header) of
         Some expected \<Rightarrow>
           if length raw_sig \<noteq> expected then Inl (ml_dsa_length_error raw_sig (jh_alg header) expected)
           else jerr JoseBadRequest ''JWS signature invalid: '' (jo_verify_ml_dsa jo spki_der input raw_sig [])
       | None \<Rightarrow>
           (case verify_with_spki jo (jh_alg header) input raw_sig spki_der of
              Inl (JoseUnsupportedAlgorithm a) \<Rightarrow> Inl (JoseUnsupportedAlgorithm (''unsupported JWS algorithm: '' @ a))
            | r \<Rightarrow> r)))"

definition key_ref_members :: "jws_key_ref \<Rightarrow> (string \<times> json) list" where
  "key_ref_members k = (case k of KeyJwk j \<Rightarrow> [(''jwk'', jwk_to_json j)] | KeyKid i \<Rightarrow> [(''kid'', JString i)])"

definition ecdsa_sign :: "'k jose_ext \<Rightarrow> 'k \<Rightarrow> string \<Rightarrow> string \<Rightarrow> nat \<Rightarrow> bytes \<Rightarrow> jose_error + bytes" where
  "ecdsa_sign jo key alg digest half input =
     and_then (jerr JoseCrypto [] (jo_sign jo key digest input)) (\<lambda>der.
       ok_or (JoseCrypto (''DER'' @ [CHR 0xE2, CHR 0x86, CHR 0x92] @ ''P1363 failed for '' @ alg)) (ecdsa_der_to_p1363 der half))"

definition sign_with :: "'k jose_ext \<Rightarrow> 'k \<Rightarrow> string \<Rightarrow> bytes \<Rightarrow> jose_error + bytes" where
  "sign_with jo key alg input =
     (if alg = ''ES256'' then ecdsa_sign jo key alg ''sha256'' 32 input
      else if alg = ''ES384'' then ecdsa_sign jo key alg ''sha384'' 48 input
      else if alg = ''ES512'' then ecdsa_sign jo key alg ''sha512'' 66 input
      else if alg = ''RS256'' then jerr JoseCrypto [] (jo_sign jo key ''sha256'' input)
      else if alg = ''RS384'' then jerr JoseCrypto [] (jo_sign jo key ''sha384'' input)
      else if alg = ''RS512'' then jerr JoseCrypto [] (jo_sign jo key ''sha512'' input)
      else if alg = ''PS256'' then jerr JoseCrypto [] (jo_sign jo key ''pss-sha256'' input)
      else if alg = ''PS384'' then jerr JoseCrypto [] (jo_sign jo key ''pss-sha384'' input)
      else if alg = ''PS512'' then jerr JoseCrypto [] (jo_sign jo key ''pss-sha512'' input)
      else if alg = ''EdDSA'' then jerr JoseCrypto [] (jo_sign jo key [] input)
      else if ml_dsa_sig_len alg \<noteq> None then jerr JoseCrypto [] (jo_sign_ml_dsa jo key input [])
      else Inl (JoseUnsupportedAlgorithm (''unsupported JWS algorithm for signing: '' @ alg)))"

definition jws_sign ::
  "'k jose_ext \<Rightarrow> 'k \<Rightarrow> string \<Rightarrow> string \<Rightarrow> string \<Rightarrow> jws_key_ref \<Rightarrow> bytes option \<Rightarrow> jose_error + jws_flattened" where
  "jws_sign jo key alg nonce url key_ref payload =
     and_then (jerr JoseJson [] (jo_json_text jo (JObject
         ([(''alg'', JString alg), (''nonce'', JString nonce), (''url'', JString url)] @ key_ref_members key_ref))))
     (\<lambda>header_json.
       let protected = jo_b64u_encode jo (jo_utf8 jo header_json);
           payload_b64 = (case payload of Some bs \<Rightarrow> jo_b64u_encode jo bs | None \<Rightarrow> [])
       in and_then (sign_with jo key alg (signing_input jo protected payload_b64)) (\<lambda>raw_sig.
            Inr \<lparr>jws_protected = protected, jws_payload = payload_b64, jws_signature = jo_b64u_encode jo raw_sig\<rparr>))"

section \<open>Authority tokens (jwt.rs)\<close>

record authority_token_header =
  ath_alg :: string
  ath_kid :: "string option"
  ath_x5u :: "string option"
  ath_x5c :: "string list option"

definition token_header_of_json :: "json \<Rightarrow> authority_token_header option" where
  "token_header_of_json v =
     (if \<not> json_is_object v then None
      else case (Option.bind (json_get ''alg'' v) json_as_str, json_opt_field json_as_str ''kid'' v,
                 json_opt_field json_as_str ''x5u'' v, json_opt_field json_string_list ''x5c'' v) of
        (Some alg, Some kid, Some x5u, Some x5c) \<Rightarrow> Some \<lparr>ath_alg = alg, ath_kid = kid, ath_x5u = x5u, ath_x5c = x5c\<rparr>
      | _ \<Rightarrow> None)"

text \<open>\<^verbatim>\<open>splitn(n, '.')\<close>: at most \<open>n\<close> parts, the last one with the rest of the text.\<close>

fun splitn_dot :: "nat \<Rightarrow> string \<Rightarrow> string list" where
  "splitn_dot 0 s = []"
| "splitn_dot (Suc 0) s = [s]"
| "splitn_dot (Suc (Suc n)) s =
     (let pre = takeWhile (\<lambda>c. c \<noteq> CHR ''.'') s in
      if length pre = length s then [s] else pre # splitn_dot (Suc n) (drop (Suc (length pre)) s))"

definition token_decode_header :: "'k jose_ext \<Rightarrow> string \<Rightarrow> jose_error + authority_token_header" where
  "token_decode_header jo token =
     and_then (jerr JoseBadRequest ''authority token header base64: ''
                (jo_b64u_decode jo (takeWhile (\<lambda>c. c \<noteq> CHR ''.'') token))) (\<lambda>header_bytes.
       jerr JoseBadRequest ''authority token header JSON: '' (from_slice jo token_header_of_json header_bytes))"

text \<open>The time of the check, in seconds; nothing before the epoch.\<close>

definition check_token_times :: "i64 option \<Rightarrow> json \<Rightarrow> jose_error + unit" where
  "check_token_times now claims =
     and_then (ok_or (JoseBadRequest ''system clock is before Unix epoch'') now) (\<lambda>now.
     and_then (ok_or (JoseBadRequest (''authority token: missing or non-integer '' @ quoted ''exp'' @ '' claim''))
                (Option.bind (json_get ''exp'' claims) json_as_i64)) (\<lambda>exp.
       if exp \<le> now
       then Inl (JoseBadRequest (''authority token expired: exp='' @ show_int exp @ '', now='' @ show_int now))
       else (case Option.bind (json_get ''nbf'' claims) json_as_i64 of
               Some nbf \<Rightarrow>
                 if now < nbf
                 then Inl (JoseBadRequest (''authority token not yet valid: nbf='' @ show_int nbf @ '', now='' @ show_int now))
                 else Inr ()
             | None \<Rightarrow> Inr ())))"

definition decode_and_verify ::
  "'k jose_ext \<Rightarrow> i64 option \<Rightarrow> string \<Rightarrow> bytes \<Rightarrow> jose_error + authority_token_header \<times> json" where
  "decode_and_verify jo now token spki_der =
     (case splitn_dot 4 token of
        [p0, p1, p2] \<Rightarrow>
          and_then (jerr JoseBadRequest ''authority token header base64: '' (jo_b64u_decode jo p0)) (\<lambda>header_bytes.
          and_then (jerr JoseBadRequest ''authority token header JSON: '' (from_slice jo token_header_of_json header_bytes)) (\<lambda>header.
          and_then (jerr JoseBadRequest ''authority token claims base64: '' (jo_b64u_decode jo p1)) (\<lambda>claims_bytes.
          and_then (jerr JoseBadRequest ''authority token claims JSON: '' (jo_json_parse jo claims_bytes)) (\<lambda>claims.
          and_then (jerr JoseBadRequest ''authority token signature base64: '' (jo_b64u_decode jo p2)) (\<lambda>raw_sig.
          and_then (verify_with_spki jo (ath_alg header) (signing_input jo p0 p1) raw_sig spki_der) (\<lambda>_.
          and_then (check_token_times now claims) (\<lambda>_.
            Inr (header, claims))))))))
      | parts \<Rightarrow> Inl (JoseBadRequest (''authority token: expected 3 '' @ quoted ''.'' @ '' separated parts, got ''
                  @ show_nat (length parts))))"

definition x5c_leaf_der :: "'k jose_ext \<Rightarrow> string list \<Rightarrow> jose_error + bytes" where
  "x5c_leaf_der jo x5c =
     (case x5c of
        [] \<Rightarrow> Inl (JoseBadRequest ''authority token: x5c array is empty'')
      | first # _ \<Rightarrow> jerr JoseBadRequest ''authority token: x5c[0] base64: '' (jo_b64_decode jo first))"

end
