(* ===== verification/Jose_Properties.thy ===== *)
theory Jose_Properties
  imports Jose_Signature
begin

text \<open>
  What the JOSE crate guarantees: the two forms of an ECDSA signature are converted into each other, a
  key is read back from its JSON, equal thumbprints mean equal keys, and a signed request verifies.
\<close>

section \<open>Signature forms\<close>

lemma unat_small: "n < 256 \<Longrightarrow> unat (word_of_nat n :: 8 word) = n"
  by (simp add: unat_of_nat)

lemma decode_encode_len:
  assumes "n < 2 ^ 16"
  shows "\<exists>lb. encode_asn1_length [t] n = t # lb \<and> (\<forall>rest. decode_der_len (lb @ rest) = Some (n, rest))"
proof -
  have hi: "unat (word_of_nat (n div 256) :: 8 word) = n div 256" "unat (word_of_nat (n mod 256) :: 8 word) = n mod 256"
    using assms by (simp_all add: unat_small)
  have lt: "n < 128 \<Longrightarrow> (word_of_nat n :: 8 word) < 0x80" by (simp add: word_less_nat_alt unat_small)
  show ?thesis
    using assms hi lt by (auto simp: encode_asn1_length_def decode_der_len_def unat_small)
qed

lemma strip_encoded_integer:
  assumes "0 < length bs" "length bs < 2 ^ 16 - 1"
  shows "\<exists>v. (\<forall>rest. strip_integer (encode_asn1_integer bs @ rest) = Some (v, rest)) \<and> length v \<le> length bs
    \<and> replicate (length bs - length v) 0 @ v = bs"
proof -
  let ?z = "takeWhile (\<lambda>b. b = 0) bs"
  have z: "?z = replicate (length ?z) 0" by (rule replicate_eqI [symmetric, THEN sym]) (auto dest: set_takeWhileD)
  have split: "?z @ drop (length ?z) bs = bs" by (metis takeWhile_eq_take append_take_drop_id)
  show ?thesis
  proof (cases "\<exists>b \<in> set bs. b \<noteq> 0")
    case True
    then have ne: "dropWhile (\<lambda>b. b = 0) bs \<noteq> []" by (simp add: dropWhile_eq_Nil_conv)
    then obtain b v where dw: "dropWhile (\<lambda>b. b = 0) bs = b # v" by (cases "dropWhile (\<lambda>b. b = 0) bs") simp_all
    then have d: "drop (length ?z) bs = b # v" "b \<noteq> 0"
      using hd_dropWhile [OF ne] by (simp_all add: dropWhile_eq_drop)
    let ?pad = "b AND 0x80 \<noteq> 0"
    let ?n = "length (b # v) + (if ?pad then 1 else 0)"
    have len: "length (b # v) \<le> length bs" using d(1) by (metis length_drop diff_le_self)
    then have "?n < 2 ^ 16" using assms(2) by simp
    then obtain lb where lb: "encode_asn1_length [0x02] ?n = 0x02 # lb" "\<And>rest. decode_der_len (lb @ rest) = Some (?n, rest)"
      using decode_encode_len [of ?n "0x02"] by blast
    have enc: "encode_asn1_integer bs = 0x02 # lb @ (if ?pad then [0] else []) @ b # v"
      using True d lb(1) by (simp add: encode_asn1_integer_def Let_def del: length_drop)
    have "strip_integer (encode_asn1_integer bs @ rest) = Some (b # v, rest)" for rest
      using lb(2) [of "(if ?pad then [0] else []) @ (b # v) @ rest"] d(2) by (simp add: enc strip_integer_def)
    moreover have "replicate (length bs - length (b # v)) 0 @ b # v = bs"
      using split d(1) z by (metis add_diff_cancel_right' length_append)
    ultimately show ?thesis using len by blast
  next
    case False
    then have bs: "bs = replicate (length bs) 0" by (metis replicate_eqI)
    obtain n where n: "length bs = Suc n" using assms(1) by (cases "length bs") auto
    have bsn: "bs = replicate (Suc n) 0" using bs unfolding n .
    have "drop (length bs - 1) bs = [0]"
      unfolding bsn length_replicate drop_replicate by simp
    then have enc: "encode_asn1_integer bs = [0x02, 0x01, 0x00]"
      using False by (simp add: encode_asn1_integer_def Let_def encode_asn1_length_def)
    have "strip_integer (encode_asn1_integer bs @ rest) = Some ([], rest)" for rest
      by (simp add: enc strip_integer_def decode_der_len_def)
    then show ?thesis using bs by auto
  qed
qed

lemma length_encoded_integer: "length (encode_asn1_integer bs) \<le> length bs + 6"
  by (auto simp: encode_asn1_integer_def encode_asn1_length_def Let_def split: list.split)

lemma ecdsa_forms:
  assumes "0 < half" "half < 2 ^ 14" and "p1363_to_der sig half = Inr der"
  shows "ecdsa_der_to_p1363 der half = Some sig"
proof -
  have len: "length sig = half * 2" and der: "der = encode_asn1_length [0x30]
      (length (encode_asn1_integer (take half sig)) + length (encode_asn1_integer (drop half sig)))
      @ encode_asn1_integer (take half sig) @ encode_asn1_integer (drop half sig)"
    using assms(3) by (auto simp: p1363_to_der_def Let_def split: if_splits)
  let ?r = "take half sig" and ?s = "drop half sig"
  let ?n = "length (encode_asn1_integer ?r) + length (encode_asn1_integer ?s)"
  have l: "length ?r = half" "length ?s = half" using len by simp_all
  then obtain r s where r: "\<And>rest. strip_integer (encode_asn1_integer ?r @ rest) = Some (r, rest)" "length r \<le> half"
      "replicate (half - length r) 0 @ r = ?r"
    and s: "\<And>rest. strip_integer (encode_asn1_integer ?s @ rest) = Some (s, rest)" "length s \<le> half"
      "replicate (half - length s) 0 @ s = ?s"
    using strip_encoded_integer [of ?r] strip_encoded_integer [of ?s] assms(1,2) by auto
  have "?n < 2 ^ 16" using length_encoded_integer [of ?r] length_encoded_integer [of ?s] l assms(2) by simp
  then obtain lb where lb: "encode_asn1_length [0x30] ?n = 0x30 # lb" "\<And>rest. decode_der_len (lb @ rest) = Some (?n, rest)"
    using decode_encode_len by blast
  have "strip_tlv der 0x30 = Some (encode_asn1_integer ?r @ encode_asn1_integer ?s)"
    using lb(2) by (simp add: der lb(1) strip_tlv_def)
  moreover have "strip_integer (encode_asn1_integer ?s) = Some (s, [])" using s(1) [of "[]"] by simp
  ultimately show ?thesis
    using r(1) [of "encode_asn1_integer ?s"] r(2,3) s(2,3) by (simp add: ecdsa_der_to_p1363_def) (metis append.assoc append_take_drop_id)
qed

section \<open>Keys\<close>

lemma opt_member_get:
  "j \<noteq> k \<Longrightarrow> map_of (opt_member k x @ r) j = map_of r j" "j \<noteq> k \<Longrightarrow> map_of (opt_member k x) j = None"
  "map_of r k = None \<Longrightarrow> map_of (opt_member k x @ r) k = map_option JString x"
  "map_of (opt_member k x) k = map_option JString x"
  by (cases x; simp add: opt_member_def)+

lemma json_opt_field_member:
  "map_of m k = map_option JString x \<Longrightarrow> json_opt_field json_as_str k (JObject m) = Some x"
  by (cases x) (simp_all add: json_opt_field_def json_get_def json_as_str_def)

lemma jwk_json_round_trip: "jwk_of_json (jwk_to_json j) = Some j"
proof -
  have f: "json_opt_field json_as_str ''crv'' (jwk_to_json j) = Some (jwk_crv j)" "json_opt_field json_as_str ''x'' (jwk_to_json j) = Some (jwk_x j)"
    "json_opt_field json_as_str ''y'' (jwk_to_json j) = Some (jwk_y j)" "json_opt_field json_as_str ''n'' (jwk_to_json j) = Some (jwk_n j)"
    "json_opt_field json_as_str ''e'' (jwk_to_json j) = Some (jwk_e j)" "json_opt_field json_as_str ''alg'' (jwk_to_json j) = Some (jwk_alg j)"
    "json_opt_field json_as_str ''pub'' (jwk_to_json j) = Some (jwk_pub j)"
    unfolding jwk_to_json_def by (rule json_opt_field_member, simp add: opt_member_get del: map_of_append)+
  have "json_is_object (jwk_to_json j)" "Option.bind (json_get ''kty'' (jwk_to_json j)) json_as_str = Some (kty j)"
    by (simp_all add: jwk_to_json_def json_is_object_def json_get_def json_as_str_def)
  then show ?thesis by (simp add: jwk_of_json_def f)
qed


text \<open>What is used of the encodings: they can be undone, and base64 text has no quotation mark.\<close>

definition codec_laws :: "'k jose_ext \<Rightarrow> bool" where
  "codec_laws jo \<longleftrightarrow>
     (\<forall>b. jo_b64u_decode jo (jo_b64u_encode jo b) = Inr b) \<and>
     jo_b64u_decode jo [] = Inr [] \<and>
     (\<forall>s b. jo_b64u_decode jo s = Inr b \<longrightarrow> CHR 0x22 \<notin> set s) \<and>
     inj (jo_utf8 jo) \<and>
     (\<forall>v t. jo_json_text jo v = Inr t \<longrightarrow> jo_json_parse jo (jo_utf8 jo t) = Inr v)"

lemma quote_split:
  assumes "c \<notin> set s" "c \<notin> set t"
  shows "s @ c # u = t @ c # v \<longleftrightarrow> s = t \<and> u = v"
proof
  assume eq: "s @ c # u = t @ c # v"
  have "takeWhile ((\<noteq>) c) (s @ c # u) = s" "takeWhile ((\<noteq>) c) (t @ c # v) = t"
    using assms by (auto simp: takeWhile_append)
  with eq show "s = t \<and> u = v" by auto
qed simp

lemma b64u_member_quote: "codec_laws jo \<Longrightarrow> b64u_member jo n s = Inr b \<Longrightarrow> CHR 0x22 \<notin> set s"
  by (auto simp: codec_laws_def b64u_member_def)

lemma equal_canonical:
  assumes laws: "codec_laws jo" and k: "to_spki_der jo j = Inr k" "to_spki_der jo j' = Inr k'"
    and c: "jwk_canonical j = Inr c" "jwk_canonical j' = Inr c"
  shows "k = k'"
proof -
  note q = b64u_member_quote [OF laws]
  note defs = to_spki_der_def jwk_canonical_def rsa_to_spki_der_def ec_to_spki_der_def okp_to_spki_der_def
    ml_dsa_to_spki_der_def and_then_Inr ml_dsa_key_params_def
  consider "kty j = ''RSA''" | "kty j = ''EC''" | "kty j = ''OKP''" | "kty j = ''AKP''"
    using k(1) by (auto simp: to_spki_der_def split: if_splits)
  then show ?thesis
  proof cases
    case 1
    then obtain n e where j: "jwk_n j = Some n" "jwk_e j = Some e" "CHR 0x22 \<notin> set n" "CHR 0x22 \<notin> set e"
      using k(1) by (auto simp: defs dest!: q)
    have "kty j' = ''RSA''" using c 1 j by (auto simp: defs split: if_splits)
    then obtain n' e' where "jwk_n j' = Some n'" "jwk_e j' = Some e'" "CHR 0x22 \<notin> set n'" "CHR 0x22 \<notin> set e'"
      using k(2) by (auto simp: defs dest!: q)
    then show ?thesis using k c j 1 \<open>kty j' = _\<close> by (auto simp: defs quote_split)
  next
    case 2
    then obtain crv x y where j: "jwk_crv j = Some crv" "jwk_x j = Some x" "jwk_y j = Some y"
        "CHR 0x22 \<notin> set crv" "CHR 0x22 \<notin> set x" "CHR 0x22 \<notin> set y"
      using k(1) by (auto simp: defs dest!: q split: if_splits)
    have "kty j' = ''EC'' \<or> kty j' = ''OKP''" using c 2 j by (auto simp: defs split: if_splits)
    then obtain crv' where j': "jwk_crv j' = Some crv'" "CHR 0x22 \<notin> set crv'"
      using k(2) by (auto simp: defs split: if_splits)
    have "kty j' = ''EC''" using c 2 j j' \<open>_ \<or> _\<close> by (auto simp: defs quote_split)
    then obtain x' y' where "jwk_x j' = Some x'" "jwk_y j' = Some y'" "CHR 0x22 \<notin> set x'" "CHR 0x22 \<notin> set y'"
      using k(2) by (auto simp: defs dest!: q split: if_splits)
    then show ?thesis using k c j j' 2 \<open>kty j' = ''EC''\<close> by (auto simp: defs quote_split)
  next
    case 3
    then obtain crv x where j: "jwk_crv j = Some crv" "jwk_x j = Some x" "CHR 0x22 \<notin> set crv" "CHR 0x22 \<notin> set x"
      using k(1) by (auto simp: defs dest!: q split: if_splits)
    have "kty j' = ''EC'' \<or> kty j' = ''OKP''" using c 3 j by (auto simp: defs split: if_splits)
    then obtain crv' where j': "jwk_crv j' = Some crv'" "CHR 0x22 \<notin> set crv'"
      using k(2) by (auto simp: defs split: if_splits)
    have "kty j' = ''OKP''" using c 3 j j' \<open>_ \<or> _\<close> by (auto simp: defs quote_split)
    then obtain x' where "jwk_x j' = Some x'" "CHR 0x22 \<notin> set x'"
      using k(2) by (auto simp: defs dest!: q split: if_splits)
    then show ?thesis using k c j j' 3 \<open>kty j' = ''OKP''\<close> by (auto simp: defs quote_split)
  next
    case 4
    then obtain alg p where j: "jwk_alg j = Some alg" "jwk_pub j = Some p" "CHR 0x22 \<notin> set alg" "CHR 0x22 \<notin> set p"
      using k(1) by (auto simp: defs dest!: q split: if_splits option.splits)
    have "kty j' = ''AKP''" using c 4 j by (auto simp: defs split: if_splits)
    then obtain alg' p' where "jwk_alg j' = Some alg'" "jwk_pub j' = Some p'" "CHR 0x22 \<notin> set alg'" "CHR 0x22 \<notin> set p'"
      using k(2) by (auto simp: defs dest!: q split: if_splits option.splits)
    then show ?thesis using k c j 4 \<open>kty j' = ''AKP''\<close> by (auto simp: defs quote_split)
  qed
qed


section \<open>Signing and verifying\<close>

text \<open>
  A private key that fits a public key, for one algorithm: what the library signs it verifies, ECDSA
  signatures are encoded by the distinguished rules and have the length of the curve, and an ML-DSA
  signature has the length of its parameter set.
\<close>

definition signs_as :: "'k jose_ext \<Rightarrow> 'k \<Rightarrow> bytes \<Rightarrow> string \<Rightarrow> bytes \<Rightarrow> bool" where
  "signs_as jo key spki digest alg_der \<longleftrightarrow>
     (\<forall>input sig. jo_sign jo key digest input = Inr sig \<longrightarrow> jo_verify jo spki input alg_der sig = Inr ())"

definition ecdsa_width :: "'k jose_ext \<Rightarrow> 'k \<Rightarrow> string \<Rightarrow> nat \<Rightarrow> bool" where
  "ecdsa_width jo key digest half \<longleftrightarrow>
     (\<forall>input sig. jo_sign jo key digest input = Inr sig \<longrightarrow> (\<exists>raw. p1363_to_der raw half = Inr sig))"

definition key_fits :: "'k jose_ext \<Rightarrow> 'k \<Rightarrow> bytes \<Rightarrow> string \<Rightarrow> bool" where
  "key_fits jo key spki alg \<longleftrightarrow>
     (alg = ''ES256'' \<longrightarrow> signs_as jo key spki ''sha256'' es256_alg_der \<and> ecdsa_width jo key ''sha256'' 32) \<and>
     (alg = ''ES384'' \<longrightarrow> signs_as jo key spki ''sha384'' es384_alg_der \<and> ecdsa_width jo key ''sha384'' 48) \<and>
     (alg = ''ES512'' \<longrightarrow> signs_as jo key spki ''sha512'' es512_alg_der \<and> ecdsa_width jo key ''sha512'' 66) \<and>
     (alg = ''RS256'' \<longrightarrow> signs_as jo key spki ''sha256'' rs256_alg_der) \<and>
     (alg = ''RS384'' \<longrightarrow> signs_as jo key spki ''sha384'' rs384_alg_der) \<and>
     (alg = ''RS512'' \<longrightarrow> signs_as jo key spki ''sha512'' rs512_alg_der) \<and>
     (alg = ''PS256'' \<longrightarrow> signs_as jo key spki ''pss-sha256'' ps256_alg_der) \<and>
     (alg = ''PS384'' \<longrightarrow> signs_as jo key spki ''pss-sha384'' ps384_alg_der) \<and>
     (alg = ''PS512'' \<longrightarrow> signs_as jo key spki ''pss-sha512'' ps512_alg_der) \<and>
     (alg = ''EdDSA'' \<longrightarrow> signs_as jo key spki [] eddsa_alg_der) \<and>
     (\<forall>n. ml_dsa_sig_len alg = Some n \<longrightarrow>
        (\<forall>input sig. jo_sign_ml_dsa jo key input [] = Inr sig \<longrightarrow>
           length sig = n \<and> jo_verify_ml_dsa jo spki input sig [] = Inr ()))"

lemma ecdsa_sign_verifies:
  assumes "ecdsa_sign jo key alg digest half input = Inr raw" and "signs_as jo key spki digest alg_der"
    and "ecdsa_width jo key digest half" and "0 < half" "half < 2 ^ 14"
  shows "\<exists>der. p1363_to_der raw half = Inr der \<and> jo_verify jo spki input alg_der der = Inr ()"
proof -
  obtain der where der: "jo_sign jo key digest input = Inr der" "ecdsa_der_to_p1363 der half = Some raw"
    using assms(1) by (auto simp: ecdsa_sign_def and_then_Inr)
  then obtain raw' where r: "p1363_to_der raw' half = Inr der" using assms(3) by (auto simp: ecdsa_width_def)
  then have "raw' = raw" using ecdsa_forms [OF assms(4,5) r] der(2) by simp
  then show ?thesis using r der(1) assms(2) by (auto simp: signs_as_def)
qed

lemma sign_with_verifies:
  assumes "sign_with jo key alg input = Inr raw" and "key_fits jo key spki alg"
  shows "(\<forall>n. ml_dsa_sig_len alg = Some n \<longrightarrow> length raw = n \<and> jo_verify_ml_dsa jo spki input raw [] = Inr ())
    \<and> verify_with_spki jo alg input raw spki = Inr ()"
proof -
  consider "alg = ''ES256''" | "alg = ''ES384''" | "alg = ''ES512''"
    | "alg \<in> {''RS256'', ''RS384'', ''RS512''}" | "alg \<in> {''PS256'', ''PS384'', ''PS512'', ''EdDSA''}"
    | n where "ml_dsa_sig_len alg = Some n"
    using assms(1) by (auto simp: sign_with_def split: if_splits)
  then show ?thesis
  proof cases
    case 1
    then have "\<exists>der. p1363_to_der raw 32 = Inr der \<and> jo_verify jo spki input es256_alg_der der = Inr ()"
      using ecdsa_sign_verifies [of jo key alg "''sha256''" 32 input raw spki es256_alg_der] assms by (simp add: sign_with_def key_fits_def)
    then show ?thesis using 1 by (auto simp: verify_with_spki_def ml_dsa_sig_len_def sig_for_alg_def)
  next
    case 2
    then have "\<exists>der. p1363_to_der raw 48 = Inr der \<and> jo_verify jo spki input es384_alg_der der = Inr ()"
      using ecdsa_sign_verifies [of jo key alg "''sha384''" 48 input raw spki es384_alg_der] assms by (simp add: sign_with_def key_fits_def)
    then show ?thesis using 2 by (auto simp: verify_with_spki_def ml_dsa_sig_len_def sig_for_alg_def)
  next
    case 3
    then have "\<exists>der. p1363_to_der raw 66 = Inr der \<and> jo_verify jo spki input es512_alg_der der = Inr ()"
      using ecdsa_sign_verifies [of jo key alg "''sha512''" 66 input raw spki es512_alg_der] assms by (simp add: sign_with_def key_fits_def)
    then show ?thesis using 3 by (auto simp: verify_with_spki_def ml_dsa_sig_len_def sig_for_alg_def)
  next
    case 4
    then show ?thesis using assms
      by (elim insertE) (simp_all add: sign_with_def key_fits_def verify_with_spki_def ml_dsa_sig_len_def sig_for_alg_def signs_as_def)
  next
    case 5
    then show ?thesis using assms
      by (elim insertE) (simp_all add: sign_with_def key_fits_def verify_with_spki_def ml_dsa_sig_len_def sig_for_alg_def signs_as_def)
  next
    case 6
    then have "jo_sign_ml_dsa jo key input [] = Inr raw"
      using assms(1) by (simp add: sign_with_def ml_dsa_sig_len_def split: if_splits)
    then show ?thesis using assms(2) 6 by (simp add: key_fits_def verify_with_spki_def)
  qed
qed

lemma header_of_signed:
  "header_of_json (JObject ([(''alg'', JString alg), (''nonce'', JString nonce), (''url'', JString url)] @ key_ref_members k)) =
     Some \<lparr>jh_alg = alg, jh_nonce = nonce, jh_url = url, jh_key_ref = k\<rparr>"
  by (cases k) (simp_all add: header_of_json_def json_get_def json_as_str_def key_ref_of_json_def key_ref_members_def
      jwk_json_round_trip)


definition sample_b64u :: "bytes \<Rightarrow> string" where
  "sample_b64u bs = concat (map (\<lambda>b. [char_of (97 + unat b div 16), char_of (97 + unat b mod 16)]) bs)"

fun sample_unb64u :: "string \<Rightarrow> string + bytes" where
  "sample_unb64u [] = Inr []"
| "sample_unb64u [_] = Inl ''odd''"
| "sample_unb64u (a # b # s) =
     (let x = of_char a :: nat; y = of_char b in
      if 97 \<le> x \<and> x < 113 \<and> 97 \<le> y \<and> y < 113
      then and_then (sample_unb64u s) (\<lambda>bs. Inr (word_of_nat ((x - 97) * 16 + (y - 97)) # bs)) else Inl ''digit'')"

definition sample_header :: json where
  "sample_header = JObject [(''alg'', JString ''ES256''), (''nonce'', JString ''n''), (''url'', JString ''u''), (''kid'', JString ''k'')]"

definition zero_signature :: bytes where
  "zero_signature = [0x30, 0x06, 0x02, 0x01, 0x00, 0x02, 0x01, 0x00]"

definition sample_jose :: "unit jose_ext" where
  "sample_jose = \<lparr>jo_b64u_encode = sample_b64u, jo_b64u_decode = sample_unb64u, jo_b64_decode = sample_unb64u,
     jo_json_parse = (\<lambda>_. Inr sample_header), jo_json_text = (\<lambda>v. if v = sample_header then Inr ''h'' else Inl []),
     jo_de_error = (\<lambda>_. []), jo_utf8 = map (\<lambda>c. word_of_nat (of_char c)), jo_sha256 = Inr,
     jo_rsa_spki = (\<lambda>n e. Inr (n @ e)), jo_ec_spki = (\<lambda>x y _. Inr (x @ y)),
     jo_verify = (\<lambda>_ _ _ s. if s = zero_signature then Inr () else Inl []), jo_verify_ml_dsa = (\<lambda>_ _ _ _. Inl []),
     jo_sign = (\<lambda>_ _ _. Inr zero_signature), jo_sign_ml_dsa = (\<lambda>_ _ _. Inl [])\<rparr>"

lemma sample_unb64u_enc: "sample_unb64u (sample_b64u bs) = Inr bs"
proof (induction bs)
  case (Cons b bs)
  have b: "unat b < 256" using unsigned_less [of b] by (simp add: nat_less_iff)
  then have "of_char (char_of (97 + unat b div 16) :: char) = 97 + unat b div 16"
      "of_char (char_of (97 + unat b mod 16) :: char) = (97 + unat b mod 16 :: nat)"
    by (simp_all add: of_char_of take_bit_eq_mod)
  then show ?case using Cons b by (simp add: sample_b64u_def Let_def)
qed (simp add: sample_b64u_def)

lemma sample_unb64u_quote: "sample_unb64u s = Inr b \<Longrightarrow> CHR 0x22 \<notin> set s"
  by (induction s arbitrary: b rule: sample_unb64u.induct) (auto simp: Let_def and_then_Inr split: if_splits)

lemma sample_jose_laws: "codec_laws sample_jose"
proof -
  have "inj (\<lambda>c :: char. word_of_nat (of_char c) :: 8 word)"
    by (rule injI) (metis nat_of_char_less_256 of_char_eq_iff unat_small)
  then show ?thesis
    by (auto simp: codec_laws_def sample_jose_def sample_unb64u_enc dest: sample_unb64u_quote split: if_splits)
qed

lemma zero_forms: "p1363_to_der (replicate 64 0) 32 = Inr zero_signature"
  by (simp add: p1363_to_der_def encode_asn1_integer_def encode_asn1_length_def zero_signature_def Let_def)

lemma sample_jose_fits: "key_fits sample_jose () spki ''ES256''"
proof -
  show ?thesis using zero_forms
    by (auto simp: key_fits_def signs_as_def ecdsa_width_def sample_jose_def ml_dsa_sig_len_def)
qed


section \<open>Thumbprints\<close>

text \<open>A thumbprint determines the key. When two JWKs, each of which is accepted as a public key,
  have the same thumbprint, they are the same public key, or the two different texts that were hashed
  are a collision of the digest. In particular no member can carry text that mimics another member, and
  keys of different types never share a thumbprint.\<close>

theorem thumbprint_determines_key:
  assumes "codec_laws jo" and "to_spki_der jo j = Inr k" "to_spki_der jo j' = Inr k'"
    and "thumbprint jo j = Inr t" "thumbprint jo j' = Inr t"
  shows "k = k' \<or> (\<exists>a b h. a \<noteq> b \<and> jo_sha256 jo a = Inr h \<and> jo_sha256 jo b = Inr h)"
proof -
  obtain c c' h h' where c: "jwk_canonical j = Inr c" "jwk_canonical j' = Inr c'"
      and h: "jo_sha256 jo (jo_utf8 jo c) = Inr h" "jo_sha256 jo (jo_utf8 jo c') = Inr h'"
      and t: "jo_b64u_encode jo h = jo_b64u_encode jo h'"
    using assms(4,5) by (auto simp: thumbprint_def and_then_Inr)
  have "jo_b64u_decode jo (jo_b64u_encode jo b) = Inr b" for b using assms(1) by (simp add: codec_laws_def)
  then have "h = h'" using t by (metis sum.inject(2))
  show ?thesis
  proof (cases "c = c'")
    case True
    then show ?thesis using equal_canonical [OF assms(1-3) c(1)] c(2) by simp
  next
    case False
    then have "jo_utf8 jo c \<noteq> jo_utf8 jo c'" using assms(1) by (auto simp: codec_laws_def dest: injD)
    then show ?thesis using h \<open>h = h'\<close> by blast
  qed
qed


theorem thumbprint_determines_key_witness:
  "let j = (empty_jwk ''OKP'')\<lparr>jwk_crv := Some ''Ed25519'', jwk_x := Some (sample_b64u (replicate 32 1))\<rparr> in
   to_spki_der sample_jose j = Inr (okp_ed25519_spki_prefix @ replicate 32 1)
   \<and> (\<forall>k. to_spki_der sample_jose (j\<lparr>jwk_alg := Some ''x''\<rparr>) = Inr k \<longrightarrow> k = okp_ed25519_spki_prefix @ replicate 32 1)"
proof -
  let ?j = "(empty_jwk ''OKP'')\<lparr>jwk_crv := Some ''Ed25519'', jwk_x := Some (sample_b64u (replicate 32 1))\<rparr>"
  have k: "to_spki_der sample_jose ?j = Inr (okp_ed25519_spki_prefix @ replicate 32 1)"
    by (simp add: to_spki_der_def okp_to_spki_der_def member_def b64u_member_def sample_jose_def sample_unb64u_enc
        build_okp_spki_def okp_ed25519_spki_prefix_def)
  have t: "thumbprint sample_jose (?j\<lparr>jwk_alg := Some ''x''\<rparr>) = thumbprint sample_jose ?j"
      "\<exists>t. thumbprint sample_jose ?j = Inr t"
    by (simp_all add: thumbprint_def jwk_canonical_def member_def sample_jose_def)
  have "jo_sha256 sample_jose = Inr" by (simp add: sample_jose_def)
  then show ?thesis
    using thumbprint_determines_key [OF sample_jose_laws k, of "?j\<lparr>jwk_alg := Some ''x''\<rparr>"] t k unfolding Let_def by fastforce
qed

end
