(* ===== verification/Acme_Request.thy ===== *)
theory Acme_Request
  imports Jose_Signature Validation "HOL-Library.Sublist"
begin

text \<open>
  Signed requests as the server receives them: the nonce store (\<^verbatim>\<open>src/state.rs\<close>), the resolution of
  key identifiers (\<^verbatim>\<open>src/jose/kid.rs\<close>), the parsing and verification common to all handlers and the
  helpers for responses (\<^verbatim>\<open>src/routes/mod.rs\<close>), and the nonce endpoint (\<^verbatim>\<open>src/routes/nonce.rs\<close>).
  The readings of the clock, the random bytes and the libraries are the fields of \<open>acme_env\<close>;
  instants of the monotonic clock are counted in nanoseconds.
\<close>

section \<open>The nonce store\<close>

record nonce_bucket =
  nb_inner :: "(string, i64) hashmap"
  nb_node_prefix :: string
  nb_prefix_dot :: string

definition bucket_with_prefix :: "string \<Rightarrow> nonce_bucket" where
  "bucket_with_prefix pre = \<lparr>nb_inner = [], nb_node_prefix = pre,
     nb_prefix_dot = (if pre = [] then [] else pre @ ''.'')\<rparr>"

definition bucket_new :: nonce_bucket where
  "bucket_new = \<lparr>nb_inner = [], nb_node_prefix = [], nb_prefix_dot = []\<rparr>"

definition has_local_prefix :: "nonce_bucket \<Rightarrow> string \<Rightarrow> bool" where
  "has_local_prefix b nonce = (nb_prefix_dot b = [] \<or> strip_prefix (nb_prefix_dot b) nonce \<noteq> None)"

definition bucket_insert :: "i64 \<Rightarrow> string \<Rightarrow> nonce_bucket \<Rightarrow> nonce_bucket" where
  "bucket_insert now nonce b = b\<lparr>nb_inner := hm_insert nonce now (nb_inner b)\<rparr>"

definition consume_and_insert :: "i64 \<Rightarrow> string \<Rightarrow> string \<Rightarrow> nonce_bucket \<Rightarrow> bool \<times> nonce_bucket" where
  "consume_and_insert now old_nonce next_nonce b =
     (if hm_get (nb_inner b) old_nonce = None then (False, b)
      else (True, b\<lparr>nb_inner := hm_insert next_nonce now (AList.delete old_nonce (nb_inner b))\<rparr>))"

definition sweep_expired :: "i64 \<Rightarrow> i64 \<Rightarrow> nonce_bucket \<Rightarrow> nat \<times> nonce_bucket" where
  "sweep_expired now max_age_secs b =
     (let cutoff = sat_sub now max_age_secs;
          kept = hm_retain (\<lambda>_ created. created \<ge> cutoff) (nb_inner b)
      in (length (nb_inner b) - length kept, b\<lparr>nb_inner := kept\<rparr>))"

section \<open>Configuration, environment and state\<close>

record acme_config =
  ac_base_url :: string
  ac_default_ca_id :: string
  ac_cas :: "string list"
  ac_link_headers :: "(string \<times> string) list"
  ac_account_scope :: string
  ac_terms_of_service_url :: "string option"
  ac_external_account_required :: bool
  ac_delegation_enabled :: bool
  ac_dns_persist_issuer_domains :: "string list"
  ac_tor_connectivity_enabled :: bool
  ac_tkauth_enabled :: "bool option"                    \<comment> \<open>\<^verbatim>\<open>tkauth.enabled\<close>, when there is a section\<close>
  ac_claim_encoder_types :: "string option list option" \<comment> \<open>identifier types of the registered encoders\<close>

text \<open>What the library reads out of a certificate.\<close>

record cert_view =
  cv_serial :: bytes
  cv_spki_encode :: "string + unit"
  cv_spki_finish :: "string + bytes"

record 'k acme_env =
  ev_jose :: "'k jose_ext"
  ev_now :: i64
  ev_later :: i64                     \<comment> \<open>a second reading of the clock by the same request\<close>
  ev_instant :: nat
  ev_random :: "string + bytes"
  ev_uuid :: string
  ev_lock_ok :: bool
  ev_msg :: sql_texts
  ev_io :: batch_io
  ev_header_ok :: "string \<Rightarrow> bool"
  ev_header_error :: "string \<Rightarrow> string"
  ev_hmac_verify :: "string \<Rightarrow> bytes \<Rightarrow> bytes \<Rightarrow> bytes \<Rightarrow> bool"  \<comment> \<open>hash, key, message, tag\<close>
  ev_cert :: "bytes \<Rightarrow> string + cert_view"

record cached_account =
  cac_spki_der :: bytes
  cac_jwk_thumbprint :: string
  cac_status :: string
  cac_cached_at :: nat

record audit_note =
  an_event :: string
  an_success :: bool
  an_principal :: "string option"
  an_subject :: "string option"
  an_detail :: "string option"

record revoked_range_row =
  rr_ca_id :: string
  rr_range_start :: i64
  rr_range_end :: i64
  rr_created :: i64

record acme_server =
  sv_app :: app_state
  sv_nonces :: nonce_bucket
  sv_spki_cache :: "(string, cached_account) hashmap"
  sv_audit :: "audit_note list"
  sv_revoked_ranges :: "revoked_range_row list"
  sv_crl_caches :: "(string, bytes option) hashmap"

abbreviation sv_db :: "acme_server \<Rightarrow> db" where
  "sv_db st \<equiv> st_db (sv_app st)"

definition set_db :: "db \<Rightarrow> acme_server \<Rightarrow> acme_server" where
  "set_db d st = st\<lparr>sv_app := (sv_app st)\<lparr>st_db := d\<rparr>\<rparr>"

definition record_audit :: "string \<Rightarrow> bool \<Rightarrow> string option \<Rightarrow> string option \<Rightarrow> string option \<Rightarrow> acme_server \<Rightarrow> acme_server" where
  "record_audit event success p subject detail st =
     st\<lparr>sv_audit := sv_audit st @ [\<lparr>an_event = event, an_success = success, an_principal = p,
          an_subject = subject, an_detail = detail\<rparr>]\<rparr>"

text \<open>A step of a handler, and the next one when it succeeded.\<close>

type_synonym 'a handler = "acme_server \<Rightarrow> 'a result \<times> acme_server"

definition run_then :: "'a handler \<Rightarrow> ('a \<Rightarrow> 'b handler) \<Rightarrow> 'b handler" where
  "run_then f g st = (case f st of (Inl e, st') \<Rightarrow> (Inl e, st') | (Inr x, st') \<Rightarrow> g x st')"

definition pure :: "'a result \<Rightarrow> 'a handler" where
  "pure r st = (r, st)"

definition modify :: "(acme_server \<Rightarrow> acme_server) \<Rightarrow> unit handler" where
  "modify f st = (Inr (), f st)"

definition on_db :: "'a db_op \<Rightarrow> 'a handler" where
  "on_db m st = (case m (sv_db st) of (r, d) \<Rightarrow> (r, set_db d st))"

definition jose_result :: "jose_error + 'a \<Rightarrow> 'a result" where
  "jose_result r = (case r of Inl e \<Rightarrow> Inl (from_jose_error e) | Inr x \<Rightarrow> Inr x)"

section \<open>Key identifiers (kid.rs)\<close>

definition account_id_from_kid :: "string \<Rightarrow> string \<Rightarrow> string result" where
  "account_id_from_kid base_url kid =
     (case strip_prefix (base_url @ ''/acme/account/'') kid of
        Some i \<Rightarrow> if i = [] then Inl (Unauthorized ''kid account ID is empty'') else Inr i
      | None \<Rightarrow> Inl (Unauthorized (''kid '' @ quoted kid @ '' does not match server base URL'')))"

definition account_status_error :: "string \<Rightarrow> acme_error" where
  "account_status_error s = Unauthorized (''account status is '' @ quoted s)"

definition spki_for_kid :: "string \<Rightarrow> string \<Rightarrow> bytes db_op" where
  "spki_for_kid base_url kid d =
     (case account_id_from_kid base_url kid of
        Inl e \<Rightarrow> (Inl e, d)
      | Inr account_id \<Rightarrow>
          db_then (accounts_get_by_id account_id) (\<lambda>row.
            case row of
              None \<Rightarrow> db_err (Unauthorized ''account not found'')
            | Some account \<Rightarrow>
                if account_from_str (acc_status account) \<noteq> Some AccountValid
                then db_err (account_status_error (acc_status account))
                else db_ok (acc_public_key account)) d)"

section \<open>Parsing and verifying a request\<close>

definition spki_cache_ttl :: nat where
  "spki_cache_ttl = 60 * 10 ^ 9"

record jws_ctx =
  jc_header :: jws_protected_header
  jc_payload :: bytes
  jc_spki_der :: bytes
  jc_account_id :: "string option"
  jc_jwk_thumbprint :: "string option"
  jc_next_nonce :: string

definition gen_nonce :: "'k acme_env \<Rightarrow> string \<Rightarrow> string result" where
  "gen_nonce ev pre =
     (case ev_random ev of
        Inl e \<Rightarrow> Inl (Internal (''nonce rng: '' @ e))
      | Inr bs \<Rightarrow> let random = jo_b64u_encode (ev_jose ev) bs
                  in Inr (if pre = [] then random else pre @ ''.'' @ random))"

definition new_nonce :: "'k acme_env \<Rightarrow> string handler" where
  "new_nonce ev = run_then (\<lambda>st. (gen_nonce ev (nb_node_prefix (sv_nonces st)), st)) (\<lambda>nonce.
     run_then (modify (\<lambda>st. st\<lparr>sv_nonces := bucket_insert (ev_now ev) nonce (sv_nonces st)\<rparr>)) (\<lambda>_.
     pure (Inr nonce)))"

text \<open>The nonce of the request is replaced by the next one; when it is not accepted the next one is stored too.\<close>

definition take_nonce :: "'k acme_env \<Rightarrow> string \<Rightarrow> string \<Rightarrow> unit handler" where
  "take_nonce ev nonce next_nonce st =
     (case (if has_local_prefix (sv_nonces st) nonce
            then consume_and_insert (ev_now ev) nonce next_nonce (sv_nonces st)
            else (False, sv_nonces st)) of
        (True, b) \<Rightarrow> (Inr (), st\<lparr>sv_nonces := b\<rparr>)
      | (False, b) \<Rightarrow> (Inl (BadNonce next_nonce), st\<lparr>sv_nonces := bucket_insert (ev_now ev) next_nonce b\<rparr>))"

definition cached_entry :: "'k acme_env \<Rightarrow> string \<Rightarrow> acme_server \<Rightarrow> cached_account option" where
  "cached_entry ev i st =
     (case hm_get (sv_spki_cache st) i of
        Some acc \<Rightarrow> if ev_instant ev - cac_cached_at acc \<le> spki_cache_ttl then Some acc else None
      | None \<Rightarrow> None)"

definition account_of_kid :: "'k acme_env \<Rightarrow> string \<Rightarrow> cached_account handler" where
  "account_of_kid ev i st =
     (case cached_entry ev i st of
        Some acc \<Rightarrow>
          if account_from_str (cac_status acc) \<noteq> Some AccountValid
          then (Inl (account_status_error (cac_status acc)), st)
          else (Inr acc, st)
      | None \<Rightarrow>
          run_then (on_db (accounts_get_by_id i)) (\<lambda>row.
            case row of
              None \<Rightarrow> pure (Inl (Unauthorized ''account not found''))
            | Some account \<Rightarrow>
                if account_from_str (acc_status account) \<noteq> Some AccountValid
                then pure (Inl (account_status_error (acc_status account)))
                else let entry = \<lparr>cac_spki_der = acc_public_key account,
                       cac_jwk_thumbprint = acc_jwk_thumbprint account, cac_status = acc_status account,
                       cac_cached_at = ev_instant ev\<rparr>
                     in run_then (modify (\<lambda>st. st\<lparr>sv_spki_cache := hm_insert i entry (sv_spki_cache st)\<rparr>)) (\<lambda>_.
                        pure (Inr entry))) st)"

definition signing_key ::
  "'k acme_env \<Rightarrow> acme_config \<Rightarrow> jws_key_ref \<Rightarrow> (bytes \<times> string option \<times> string option) handler" where
  "signing_key ev cf key_ref =
     (case key_ref of
        KeyJwk jwk \<Rightarrow> run_then (pure (jose_result (to_spki_der (ev_jose ev) jwk))) (\<lambda>spki. pure (Inr (spki, None, None)))
      | KeyKid kid \<Rightarrow>
          run_then (pure (account_id_from_kid (ac_base_url cf) kid)) (\<lambda>i.
          run_then (account_of_kid ev i) (\<lambda>acc.
            pure (Inr (cac_spki_der acc, Some i, Some (cac_jwk_thumbprint acc))))))"

definition verify_request :: "'k acme_env \<Rightarrow> jws_flattened \<Rightarrow> bytes \<Rightarrow> string option \<Rightarrow> unit handler" where
  "verify_request ev jws spki_der account_id st =
     (case jws_verify (ev_jose ev) jws spki_der of
        Inl e \<Rightarrow> (Inl (from_jose_error e), record_audit ''AuthJwsFail'' False
          (Some (case account_id of Some i \<Rightarrow> ''acme:'' @ i | None \<Rightarrow> ''acme:unknown'')) None None st)
      | Inr _ \<Rightarrow> (Inr (), record_audit ''AuthJwsOk'' True
          (Some (case account_id of Some i \<Rightarrow> i | None \<Rightarrow> ''new-account'')) None None st))"

definition parse_jws :: "'k acme_env \<Rightarrow> acme_config \<Rightarrow> bytes \<Rightarrow> string \<Rightarrow> jws_ctx handler" where
  "parse_jws ev cf body expected_url =
     (let jo = ev_jose ev in
      run_then (pure (case from_slice jo jws_of_json body of
                        Inl e \<Rightarrow> Inl (BadRequest (''JWS parse: '' @ e)) | Inr jws \<Rightarrow> Inr jws)) (\<lambda>jws.
      run_then (pure (jose_result (decode_header jo jws))) (\<lambda>header.
      if jh_url header \<noteq> expected_url
      then pure (Inl (Unauthorized (''JWS url mismatch: got '' @ quoted (jh_url header)
                        @ '', expected '' @ quoted expected_url)))
      else
      run_then (\<lambda>st. (gen_nonce ev (nb_node_prefix (sv_nonces st)), st)) (\<lambda>next_nonce.
      run_then (take_nonce ev (jh_nonce header) next_nonce) (\<lambda>_.
      run_then (signing_key ev cf (jh_key_ref header)) (\<lambda>(spki_der, account_id, jwk_thumbprint).
      run_then (verify_request ev jws spki_der account_id) (\<lambda>_.
      run_then (pure (jose_result (decode_payload jo jws))) (\<lambda>payload.
        pure (Inr \<lparr>jc_header = header, jc_payload = payload, jc_spki_der = spki_der,
          jc_account_id = account_id, jc_jwk_thumbprint = jwk_thumbprint, jc_next_nonce = next_nonce\<rparr>)))))))))"

section \<open>Responses and other helpers\<close>

datatype acme_body = JsonBody json | ProblemBody problem_response | TextBody string | EmptyBody

record acme_reply =
  rp_status :: nat
  rp_body :: acme_body
  rp_content_type :: "string option"
  rp_nonce :: "string option"
  rp_links :: "string list"
  rp_location :: "string option"
  rp_retry_after :: "string option"
  rp_cache_control :: "string option"

definition plain_reply :: "nat \<Rightarrow> acme_body \<Rightarrow> acme_reply" where
  "plain_reply status body = \<lparr>rp_status = status, rp_body = body, rp_content_type = None, rp_nonce = None,
     rp_links = [], rp_location = None, rp_retry_after = None, rp_cache_control = None\<rparr>"

definition problem_reply :: "'k acme_env \<Rightarrow> acme_error \<Rightarrow> acme_reply" where
  "problem_reply ev e = (let r = into_response (ev_header_ok ev) e in
     (plain_reply (resp_status r) (ProblemBody r))\<lparr>rp_content_type := Some (resp_content_type r),
        rp_nonce := resp_replay_nonce r\<rparr>)"

definition halt_check :: "bool \<Rightarrow> (acme_server \<Rightarrow> acme_reply \<times> acme_server) \<Rightarrow> acme_server \<Rightarrow> acme_reply \<times> acme_server" where
  "halt_check should_halt next_handler st =
     (if should_halt
      then ((plain_reply 503 (TextBody (''audit storage full '' @ [CHR 0xE2, CHR 0x80, CHR 0x94]
               @ '' server halted per FAU_STG.4 policy'')))\<lparr>rp_retry_after := Some ''300''\<rparr>, st)
      else next_handler st)"

text \<open>The CA of a request: the template of its route and the parameters read from its path.\<close>

definition ca_id_of_request :: "acme_config \<Rightarrow> string option \<Rightarrow> (string \<times> string) list option \<Rightarrow> string result" where
  "ca_id_of_request cf matched_path params =
     (if \<not> (case matched_path of Some mp \<Rightarrow> sublist ''{ca_id}'' mp | None \<Rightarrow> False) then Inr (ac_default_ca_id cf)
      else (case Option.bind params (\<lambda>ps. map_of ps ''ca_id'') of
              Some i \<Rightarrow> if i \<in> set (ac_cas cf) then Inr i else Inl NotFound
            | None \<Rightarrow> Inr (ac_default_ca_id cf)))"

definition acme_prefix :: "acme_config \<Rightarrow> string \<Rightarrow> string" where
  "acme_prefix cf ca_id =
     (if ca_id = ac_default_ca_id cf then ac_base_url cf @ ''/acme'' else ac_base_url cf @ ''/acme/'' @ ca_id)"

definition acme_headers :: "'k acme_env \<Rightarrow> acme_config \<Rightarrow> string \<Rightarrow> string \<Rightarrow> acme_reply \<Rightarrow> acme_reply" where
  "acme_headers ev cf ca_id nonce r =
     (let r1 = (if ev_header_ok ev nonce then r\<lparr>rp_nonce := Some nonce\<rparr> else r);
          link = (case map_of (ac_link_headers cf) ca_id of
                    Some l \<Rightarrow> Some l | None \<Rightarrow> map_of (ac_link_headers cf) (ac_default_ca_id cf))
      in case link of Some l \<Rightarrow> r1\<lparr>rp_links := [l]\<rparr> | None \<Rightarrow> r1)"

definition json_response :: "'k acme_env \<Rightarrow> acme_config \<Rightarrow> string \<Rightarrow> nat \<Rightarrow> json \<Rightarrow> string \<Rightarrow> acme_reply" where
  "json_response ev cf ca_id status body nonce =
     (acme_headers ev cf ca_id nonce (plain_reply status (JsonBody body)))\<lparr>rp_content_type := Some ''application/json''\<rparr>"

definition with_location :: "'k acme_env \<Rightarrow> string \<Rightarrow> acme_reply \<Rightarrow> acme_reply result" where
  "with_location ev url r =
     (if ev_header_ok ev url then Inr (r\<lparr>rp_location := Some url\<rparr>)
      else Inl (Internal (''invalid Location header: '' @ ev_header_error ev url)))"

definition require_payload :: "'k jose_ext \<Rightarrow> (json \<Rightarrow> 'a option) \<Rightarrow> bytes \<Rightarrow> string \<Rightarrow> 'a result" where
  "require_payload jo f payload what =
     (if payload = [] then Inl (BadRequest (what @ '': payload is required (not POST-as-GET)''))
      else case from_slice jo f payload of
             Inl e \<Rightarrow> Inl (BadRequest (what @ '' JSON: '' @ e)) | Inr x \<Rightarrow> Inr x)"

definition is_onion_domain :: "string \<Rightarrow> bool" where
  "is_onion_domain v = suffix ''.onion'' (map ascii_lower v)"

definition eligible_challenge_types :: "acme_config \<Rightarrow> string \<Rightarrow> string \<Rightarrow> string list" where
  "eligible_challenge_types cf id_type id_value =
     (let persist = ac_dns_persist_issuer_domains cf \<noteq> [];
          dns_types = (if persist then [''http-01'', ''dns-01'', ''tls-alpn-01'', ''dns-persist-01'']
                       else [''http-01'', ''dns-01'', ''tls-alpn-01'']);
          wildcard_dns_types = (if persist then [''dns-01'', ''dns-persist-01''] else [''dns-01'']);
          onion_types = (if ac_tor_connectivity_enabled cf then [''onion-csr-01'', ''http-01'', ''tls-alpn-01'']
                         else [''onion-csr-01'']);
          tkauth_dns = (ac_tkauth_enabled cf = Some True \<and>
            (case ac_claim_encoder_types cf of Some ts \<Rightarrow> Some ''dns'' \<in> set ts | None \<Rightarrow> False))
      in if id_type = ''dns'' then
           (if is_onion_domain id_value then onion_types
            else if strip_prefix ''*.'' id_value \<noteq> None then wildcard_dns_types
            else if tkauth_dns then [''tkauth-01'']
            else dns_types)
         else if id_type = ''ip'' then [''http-01'', ''tls-alpn-01'']
         else if id_type = ''email'' then [''email-reply-00'']
         else if id_type \<in> {''TNAuthList'', ''JWTClaimConstraints'', ''EnhancedJWTClaimConstraints''} then [''tkauth-01'']
         else [])"

text \<open>The nonce endpoint; an unacceptable header value is a panic there, which the server answers by closing the connection.\<close>

definition nonce_response :: "'k acme_env \<Rightarrow> nat \<Rightarrow> acme_reply option handler" where
  "nonce_response ev status =
     run_then (new_nonce ev) (\<lambda>nonce.
       pure (Inr (if ev_header_ok ev nonce
                  then Some ((plain_reply status EmptyBody)\<lparr>rp_nonce := Some nonce, rp_cache_control := Some ''no-store''\<rparr>)
                  else None)))"

definition new_nonce_head :: "'k acme_env \<Rightarrow> acme_reply option handler" where
  "new_nonce_head ev = nonce_response ev 200"

definition new_nonce_get :: "'k acme_env \<Rightarrow> acme_reply option handler" where
  "new_nonce_get ev = nonce_response ev 204"

end
