(* ===== verification/Acme_Account.thy ===== *)
theory Acme_Account
  imports Acme_Request
begin

text \<open>
  Accounts: external account bindings (\<^verbatim>\<open>src/jose/eab.rs\<close>), creation and update of accounts
  (\<^verbatim>\<open>src/routes/account.rs\<close>), the change of an account key (\<^verbatim>\<open>src/routes/key_change.rs\<close>) and the endpoint
  that hands out binding credentials (\<^verbatim>\<open>src/routes/eab_identity.rs\<close>).
\<close>

section \<open>External account binding\<close>

definition str_field :: "string \<Rightarrow> json \<Rightarrow> string option" where
  "str_field k v = Option.bind (json_get k v) json_as_str"

text \<open>\<^verbatim>\<open>serde_json::from_value\<close> and the decoding of an encoded part, with the messages of this module.\<close>

definition from_value :: "'k jose_ext \<Rightarrow> (json \<Rightarrow> 'a option) \<Rightarrow> json \<Rightarrow> string + 'a" where
  "from_value jo f v = ok_or (jo_de_error jo v) (f v)"

definition bad_request :: "string \<Rightarrow> string + 'a \<Rightarrow> 'a result" where
  "bad_request pre r = (case r of Inl e \<Rightarrow> Inl (BadRequest (pre @ e)) | Inr x \<Rightarrow> Inr x)"

definition parse_eab_kid :: "'k jose_ext \<Rightarrow> json \<Rightarrow> string result" where
  "parse_eab_kid jo eab =
     and_then (bad_request ''EAB JWS parse error: '' (from_value jo (str_field ''protected'') eab)) (\<lambda>protected.
     and_then (bad_request ''EAB protected header base64: '' (jo_b64u_decode jo protected)) (\<lambda>header_bytes.
       bad_request ''EAB protected header JSON: '' (from_slice jo (str_field ''kid'') header_bytes)))"

record eab_header =
  eh_alg :: string
  eh_kid :: string
  eh_url :: string

definition eab_header_of_json :: "json \<Rightarrow> eab_header option" where
  "eab_header_of_json v =
     (case (str_field ''alg'' v, str_field ''kid'' v, str_field ''url'' v) of
        (Some alg, Some kid, Some url) \<Rightarrow> Some \<lparr>eh_alg = alg, eh_kid = kid, eh_url = url\<rparr>
      | _ \<Rightarrow> None)"

definition hash_of_alg :: "string \<Rightarrow> string result" where
  "hash_of_alg alg =
     (if alg = ''HS256'' then Inr ''sha256''
      else if alg = ''HS384'' then Inr ''sha384''
      else if alg = ''HS512'' then Inr ''sha512''
      else Inl (BadRequest (''EAB: unsupported algorithm '' @ quoted alg @ ''; must be HS256, HS384, or HS512'')))"

definition ensure :: "bool \<Rightarrow> acme_error \<Rightarrow> unit result" where
  "ensure b e = (if b then Inr () else Inl e)"

definition verify_eab_jws ::
  "'k acme_env \<Rightarrow> json \<Rightarrow> string \<Rightarrow> string \<Rightarrow> string \<Rightarrow> bytes \<Rightarrow> unit result" where
  "verify_eab_jws ev eab expected_url expected_kid account_thumbprint hmac_key =
     (let jo = ev_jose ev in
      and_then (bad_request ''EAB JWS parse error: '' (from_value jo jws_of_json eab)) (\<lambda>jws.
      and_then (bad_request ''EAB protected header base64: '' (jo_b64u_decode jo (jws_protected jws))) (\<lambda>header_bytes.
      and_then (bad_request ''EAB protected header JSON: '' (from_slice jo eab_header_of_json header_bytes)) (\<lambda>header.
      and_then (hash_of_alg (eh_alg header)) (\<lambda>hash_alg.
      and_then (ensure (eh_kid header = expected_kid) (Unauthorized (''EAB: kid mismatch: expected ''
        @ quoted expected_kid @ '', got '' @ quoted (eh_kid header)))) (\<lambda>_.
      and_then (ensure (eh_url header = expected_url) (Unauthorized (''EAB: url mismatch: expected ''
        @ quoted expected_url @ '', got '' @ quoted (eh_url header)))) (\<lambda>_.
      and_then (bad_request ''EAB payload base64: '' (jo_b64u_decode jo (jws_payload jws))) (\<lambda>payload_bytes.
      and_then (bad_request ''EAB payload JWK JSON: '' (from_slice jo jwk_of_json payload_bytes)) (\<lambda>payload_jwk.
      and_then (jose_result (thumbprint jo payload_jwk)) (\<lambda>payload_thumbprint.
      and_then (ensure (payload_thumbprint = account_thumbprint)
        (Unauthorized ''EAB payload does not match account public key'')) (\<lambda>_.
      and_then (bad_request ''EAB signature base64: '' (jo_b64u_decode jo (jws_signature jws))) (\<lambda>raw_sig.
        ensure (ev_hmac_verify ev hash_alg hmac_key (signing_input jo (jws_protected jws) (jws_payload jws)) raw_sig)
          (Unauthorized ''EAB: MAC verification failed'')))))))))))))"

section \<open>Account objects\<close>

definition account_json :: "account_row \<Rightarrow> string list \<Rightarrow> string \<Rightarrow> bool \<Rightarrow> json" where
  "account_json row contacts pfx delegation_enabled =
     JObject ([(''status'', JString (acc_status row)), (''contact'', json_of_strings contacts),
               (''orders'', JString (pfx @ ''/orders/'' @ acc_id row))]
       @ (if delegation_enabled then [(''delegations'', JString (pfx @ ''/delegations/'' @ acc_id row))] else []))"

definition parse_contacts :: "'k jose_ext \<Rightarrow> string option \<Rightarrow> string list" where
  "parse_contacts jo contact_json =
     (case contact_json of
        None \<Rightarrow> []
      | Some s \<Rightarrow> (case from_slice jo json_string_list (jo_utf8 jo s) of Inr cs \<Rightarrow> cs | Inl _ \<Rightarrow> []))"

definition validate_contacts :: "string list \<Rightarrow> unit result" where
  "validate_contacts contacts = ensure (\<forall>c \<in> set contacts. CHR '':'' \<in> set c) UnsupportedContact"

section \<open>Creation\<close>

record new_account_payload =
  nap_contact :: "string list option"
  nap_terms_of_service_agreed :: "bool option"
  nap_only_return_existing :: bool
  nap_external_account_binding :: "json option"

definition json_as_bool :: "json \<Rightarrow> bool option" where
  "json_as_bool v = (case v of JBool b \<Rightarrow> Some b | _ \<Rightarrow> None)"

definition new_account_payload_of_json :: "json \<Rightarrow> new_account_payload option" where
  "new_account_payload_of_json v =
     (if \<not> json_is_object v then None
      else case (json_opt_field json_string_list ''contact'' v, json_opt_field json_as_bool ''termsOfServiceAgreed'' v,
                 (case json_get ''onlyReturnExisting'' v of None \<Rightarrow> Some False | Some b \<Rightarrow> json_as_bool b),
                 json_opt_field Some ''externalAccountBinding'' v) of
        (Some contact, Some tos, Some only, Some eab) \<Rightarrow>
          Some \<lparr>nap_contact = contact, nap_terms_of_service_agreed = tos, nap_only_return_existing = only,
                nap_external_account_binding = eab\<rparr>
      | _ \<Rightarrow> None)"

text \<open>The binding of a new account: the key identifier with the grants and the principal it carries.\<close>

definition verified_eab ::
  "'k acme_env \<Rightarrow> acme_config \<Rightarrow> string \<Rightarrow> string \<Rightarrow> new_account_payload
     \<Rightarrow> (string \<times> string option \<times> string option) option handler" where
  "verified_eab ev cf url tp payload =
     (if \<not> ac_external_account_required cf then pure (Inr None)
      else
      run_then (pure (ok_or ExternalAccountRequired (nap_external_account_binding payload))) (\<lambda>eab_val.
      run_then (pure (parse_eab_kid (ev_jose ev) eab_val)) (\<lambda>kid.
      run_then (on_db (eab_get_by_kid kid)) (\<lambda>row.
      run_then (pure (ok_or (Unauthorized (''EAB: unknown kid '' @ quoted kid)) row)) (\<lambda>key_row.
      run_then (pure (ensure (eab_used_at key_row = None)
        (Unauthorized (''EAB: kid '' @ quoted kid @ '' has already been used'')))) (\<lambda>_.
      run_then (pure (bad_request ''EAB: invalid HMAC key encoding: ''
        (jo_b64u_decode (ev_jose ev) (eab_hmac_key_b64u key_row)))) (\<lambda>hmac_key.
      (case verify_eab_jws ev eab_val url kid tp hmac_key of
         Inl e \<Rightarrow> run_then (modify (record_audit ''EabReject'' False None (Some kid) None)) (\<lambda>_.
                  run_then (modify (record_audit ''SecurityViolation'' False None (Some kid)
                    (Some ''EAB HMAC verification failed''))) (\<lambda>_. pure (Inl e)))
       | Inr _ \<Rightarrow> run_then (modify (record_audit ''EabUse'' True None (Some kid) None)) (\<lambda>_.
                  pure (Inr (Some (kid, eab_profile_grants key_row, eab_bound_principal key_row))))))))))))"

definition submit_new_account :: "sql_texts \<Rightarrow> batch_io \<Rightarrow> account_row \<Rightarrow> string option \<Rightarrow> i64 \<Rightarrow> unit db_op" where
  "submit_new_account msg io row kid_opt now d =
     (case coalesce_batch msg io [NewAccount row kid_opt now] d of
        ([(_, ReplyNewAccount r)], d') \<Rightarrow> (r, d')
      | (_, d') \<Rightarrow> (Inl (Database ''coalescer reply dropped''), d'))"

definition store_account :: "'k acme_env \<Rightarrow> account_row \<Rightarrow> string option \<Rightarrow> unit handler" where
  "store_account ev row kid_opt st =
     on_db (if st_coalescer (sv_app st)
            then submit_new_account (ev_msg ev) (ev_io ev) row kid_opt (ev_now ev)
            else own_tx (ev_msg ev) (ev_io ev) (exec_new_account (ev_msg ev) row kid_opt (ev_now ev))) st"

definition on_app :: "(app_state \<Rightarrow> app_state) \<Rightarrow> unit handler" where
  "on_app f = modify (\<lambda>st. st\<lparr>sv_app := f (sv_app st)\<rparr>)"

definition require_jwk :: "string \<Rightarrow> jws_key_ref \<Rightarrow> jwk_public result" where
  "require_jwk msg k = (case k of KeyJwk jwk \<Rightarrow> Inr jwk | KeyKid _ \<Rightarrow> Inl (BadRequest msg))"

definition create_account ::
  "'k acme_env \<Rightarrow> acme_config \<Rightarrow> string \<Rightarrow> jws_ctx \<Rightarrow> string \<Rightarrow> new_account_payload \<Rightarrow> acme_reply handler" where
  "create_account ev cf ca_id ctx tp payload =
     (let jo = ev_jose ev; pfx = acme_prefix cf ca_id in
      run_then (pure (validate_contacts (case nap_contact payload of Some cs \<Rightarrow> cs | None \<Rightarrow> []))) (\<lambda>_.
      run_then (verified_eab ev cf (pfx @ ''/new-account'') tp payload) (\<lambda>eab.
      run_then (pure (case nap_contact payload of
                        None \<Rightarrow> Inr None
                      | Some cs \<Rightarrow> (case jo_json_text jo (json_of_strings cs) of
                          Inr s \<Rightarrow> Inr (Some s)
                        | Inl e \<Rightarrow> Inl (Internal (''contact serialization: '' @ e))))) (\<lambda>contact_json.
      let i = ev_uuid ev; now = ev_now ev;
          row = \<lparr>acc_id = i, acc_status = account_as_str AccountValid, acc_contact = contact_json,
                 acc_public_key = jc_spki_der ctx, acc_jwk_thumbprint = tp, acc_created = now, acc_updated = now,
                 acc_profile_grants = Option.bind eab (\<lambda>(_, g, _). g), acc_ca_id = [],
                 acc_kerberos_principal = Option.bind eab (\<lambda>(_, _, p). p)\<rparr>
      in
      run_then (store_account ev row (map_option fst eab)) (\<lambda>_.
      run_then (on_app (\<lambda>app. on_account_upsert (ev_lock_ok ev) app
        \<lparr>aup_id = i, aup_status = AccountValid, aup_contact = contact_json, aup_public_key_der = jc_spki_der ctx,
         aup_jwk_thumbprint = tp, aup_created = now, aup_updated = now,
         aup_profile_grants = acc_profile_grants row, aup_ca_id = []\<rparr>)) (\<lambda>_.
      run_then (modify (record_audit ''AccountCreate'' True None (Some i) None)) (\<lambda>_.
        pure (with_location ev (pfx @ ''/account/'' @ i)
          (json_response ev cf ca_id 201
            (account_json row (case nap_contact payload of Some cs \<Rightarrow> cs | None \<Rightarrow> []) pfx (ac_delegation_enabled cf))
            (jc_next_nonce ctx))))))))))"

definition new_account :: "'k acme_env \<Rightarrow> acme_config \<Rightarrow> string \<Rightarrow> string \<Rightarrow> bytes \<Rightarrow> acme_reply handler" where
  "new_account ev cf matched ca_id body =
     (if sublist ''{ca_id}'' matched \<and> ac_account_scope cf \<noteq> ''ca'' then pure (Inl NotFound)
      else
      let jo = ev_jose ev; pfx = acme_prefix cf ca_id; url = pfx @ ''/new-account'' in
      run_then (parse_jws ev cf body url) (\<lambda>ctx.
      run_then (pure (require_jwk ''new-account must use jwk'' (jh_key_ref (jc_header ctx)))) (\<lambda>jwk.
      run_then (pure (require_payload jo new_account_payload_of_json (jc_payload ctx) ''new-account'')) (\<lambda>payload.
      run_then (pure (jose_result (thumbprint jo jwk))) (\<lambda>tp.
      run_then (on_db (accounts_get_by_thumbprint tp)) (\<lambda>found.
      case found of
        Some existing \<Rightarrow>
          pure (with_location ev (pfx @ ''/account/'' @ acc_id existing)
            (json_response ev cf ca_id 200
              (account_json existing (parse_contacts jo (acc_contact existing)) pfx (ac_delegation_enabled cf))
              (jc_next_nonce ctx)))
      | None \<Rightarrow>
      if nap_only_return_existing payload
      then pure (Inr (acme_headers ev cf ca_id (jc_next_nonce ctx) (problem_reply ev AccountDoesNotExist)))
      else
      case (case ac_terms_of_service_url cf of
              Some tos_url \<Rightarrow> if nap_terms_of_service_agreed payload \<noteq> Some True then Some tos_url else None
            | None \<Rightarrow> None) of
        Some tos_url \<Rightarrow>
          (let link = ''<'' @ tos_url @ ''>; rel=\"terms-of-service\"'';
               r = acme_headers ev cf ca_id (jc_next_nonce ctx)
                     (problem_reply ev (UserActionRequired ''you must agree to the terms of service''))
           in pure (Inr (r\<lparr>rp_links := rp_links r @ [if ev_header_ok ev link then link else []]\<rparr>)))
      | None \<Rightarrow>
      create_account ev cf ca_id ctx tp payload))))))"

section \<open>Update\<close>

record update_payload =
  upp_contact :: "string list option"
  upp_status :: "string option"

definition update_payload_of_json :: "json \<Rightarrow> update_payload option" where
  "update_payload_of_json v =
     (if \<not> json_is_object v then None
      else case (json_opt_field json_string_list ''contact'' v, json_opt_field json_as_str ''status'' v) of
        (Some contact, Some status) \<Rightarrow> Some \<lparr>upp_contact = contact, upp_status = status\<rparr>
      | _ \<Rightarrow> None)"

definition evict :: "string \<Rightarrow> unit handler" where
  "evict i = modify (\<lambda>st. st\<lparr>sv_spki_cache := AList.delete i (sv_spki_cache st)\<rparr>)"

definition account_reply :: "'k acme_env \<Rightarrow> acme_config \<Rightarrow> string \<Rightarrow> account_row \<Rightarrow> string \<Rightarrow> acme_reply" where
  "account_reply ev cf ca_id row nonce =
     json_response ev cf ca_id 200
       (account_json row (parse_contacts (ev_jose ev) (acc_contact row)) (acme_prefix cf ca_id) (ac_delegation_enabled cf)) nonce"

definition deactivate_account ::
  "'k acme_env \<Rightarrow> acme_config \<Rightarrow> string \<Rightarrow> string \<Rightarrow> account_row \<Rightarrow> string \<Rightarrow> acme_reply handler" where
  "deactivate_account ev cf ca_id i account nonce =
      run_then (on_db (accounts_update_status i AccountDeactivated (ev_now ev))) (\<lambda>_.
      run_then (evict i) (\<lambda>_.
      run_then (modify (record_audit ''AccountDeactivate'' True None (Some i) None)) (\<lambda>_.
      run_then (on_app (\<lambda>app. on_account_tombstone (ev_lock_ok ev) app i (ev_later ev))) (\<lambda>_.
        pure (Inr (account_reply ev cf ca_id (account\<lparr>acc_status := ''deactivated''\<rparr>) nonce))))))"

definition update_contact :: "'k acme_env \<Rightarrow> string \<Rightarrow> string list option \<Rightarrow> unit handler" where
  "update_contact ev i contact =
     (case contact of
        None \<Rightarrow> pure (Inr ())
      | Some new_contacts \<Rightarrow>
          run_then (pure (validate_contacts new_contacts)) (\<lambda>_.
          run_then (pure (case jo_json_text (ev_jose ev) (json_of_strings new_contacts) of
                            Inr s \<Rightarrow> Inr s | Inl e \<Rightarrow> Inl (Internal (''contact serialization: '' @ e)))) (\<lambda>contact_json.
          run_then (on_db (accounts_update_contact i (Some contact_json) (ev_now ev))) (\<lambda>_. pure (Inr ())))))"

definition update_account :: "'k acme_env \<Rightarrow> acme_config \<Rightarrow> string \<Rightarrow> string \<Rightarrow> bytes \<Rightarrow> acme_reply handler" where
  "update_account ev cf ca_id i body =
     (let jo = ev_jose ev; pfx = acme_prefix cf ca_id in
      run_then (parse_jws ev cf body (pfx @ ''/account/'' @ i)) (\<lambda>ctx.
      run_then (pure (ok_or (Unauthorized ''kid required'') (jc_account_id ctx))) (\<lambda>account_id.
      run_then (pure (ensure (account_id = i) (Unauthorized ''kid does not match account ID''))) (\<lambda>_.
      run_then (on_db (accounts_get_by_id i)) (\<lambda>row.
      run_then (pure (ok_or AccountDoesNotExist row)) (\<lambda>account.
      if jc_payload ctx = [] then pure (Inr (account_reply ev cf ca_id account (jc_next_nonce ctx)))
      else
      run_then (pure (bad_request ''update-account JSON: '' (from_slice jo update_payload_of_json (jc_payload ctx)))) (\<lambda>payload.
      if upp_status payload = Some ''deactivated'' then deactivate_account ev cf ca_id i account (jc_next_nonce ctx)
      else
      run_then (update_contact ev i (upp_contact payload)) (\<lambda>_.
      run_then (on_db (accounts_get_by_id i)) (\<lambda>row.
      run_then (pure (ok_or AccountDoesNotExist row)) (\<lambda>updated.
      run_then (pure (ok_or (Internal (''corrupt account status '' @ quoted (acc_status updated) @ '' in account '' @ acc_id updated))
        (account_from_str (acc_status updated)))) (\<lambda>updated_status.
      run_then (on_app (\<lambda>app. on_account_upsert (ev_lock_ok ev) app
        \<lparr>aup_id = acc_id updated, aup_status = updated_status, aup_contact = acc_contact updated,
         aup_public_key_der = acc_public_key updated, aup_jwk_thumbprint = acc_jwk_thumbprint updated,
         aup_created = acc_created updated, aup_updated = acc_updated updated,
         aup_profile_grants = acc_profile_grants updated, aup_ca_id = acc_ca_id updated\<rparr>)) (\<lambda>_.
        pure (Inr (account_reply ev cf ca_id updated (jc_next_nonce ctx)))))))))))))))"

section \<open>Change of the account key\<close>

definition inner_payload_of_json :: "json \<Rightarrow> (string \<times> jwk_public) option" where
  "inner_payload_of_json v =
     (case (str_field ''account'' v, Option.bind (json_get ''oldKey'' v) jwk_of_json) of
        (Some account, Some old_key) \<Rightarrow> Some (account, old_key)
      | _ \<Rightarrow> None)"

text \<open>The checks of the inner request: it is signed by the new key and names the account and its present key.\<close>

definition check_inner :: "'k jose_ext \<Rightarrow> string \<Rightarrow> bytes \<Rightarrow> bytes \<Rightarrow> (bytes \<times> string) result" where
  "check_inner jo expected_account_url current_spki payload =
     and_then (ensure (payload \<noteq> []) (BadRequest ''key-change payload is required'')) (\<lambda>_.
     and_then (bad_request ''inner JWS parse: '' (from_slice jo jws_of_json payload)) (\<lambda>inner_jws.
     and_then (jose_result (decode_header jo inner_jws)) (\<lambda>inner_header.
     and_then (require_jwk ''inner key-change JWS must use jwk (new key)'' (jh_key_ref inner_header)) (\<lambda>new_jwk.
     and_then (jose_result (to_spki_der jo new_jwk)) (\<lambda>new_spki.
     and_then (jose_result (thumbprint jo new_jwk)) (\<lambda>new_thumbprint.
     and_then (jose_result (jws_verify jo inner_jws new_spki)) (\<lambda>_.
     and_then (jose_result (decode_payload jo inner_jws)) (\<lambda>inner_payload_bytes.
     and_then (bad_request ''inner payload JSON: '' (from_slice jo inner_payload_of_json inner_payload_bytes)) (\<lambda>(account, old_key).
     and_then (ensure (account = expected_account_url) (BadRequest ''inner payload account URL does not match'')) (\<lambda>_.
     and_then (jose_result (to_spki_der jo old_key)) (\<lambda>old_spki.
     and_then (ensure (old_spki = current_spki)
       (Unauthorized ''inner payload oldKey does not match current account key'')) (\<lambda>_.
       Inr (new_spki, new_thumbprint)))))))))))))"

definition key_change :: "'k acme_env \<Rightarrow> acme_config \<Rightarrow> string \<Rightarrow> bytes \<Rightarrow> acme_reply handler" where
  "key_change ev cf ca_id body =
     (let jo = ev_jose ev; pfx = acme_prefix cf ca_id in
      run_then (parse_jws ev cf body (pfx @ ''/key-change'')) (\<lambda>ctx.
      run_then (pure (ok_or (Unauthorized ''kid required'') (jc_account_id ctx))) (\<lambda>account_id.
      run_then (pure (check_inner jo (pfx @ ''/account/'' @ account_id) (jc_spki_der ctx) (jc_payload ctx))) (\<lambda>(new_spki, new_thumbprint).
      run_then (on_db (accounts_get_by_thumbprint new_thumbprint)) (\<lambda>holder.
      run_then (pure (ensure (holder = None) (Conflict ''new key already in use by another account''))) (\<lambda>_.
      run_then (on_db (accounts_update_key (ev_msg ev) account_id new_spki new_thumbprint (ev_now ev))) (\<lambda>_.
      run_then (evict account_id) (\<lambda>_.
      run_then (modify (record_audit ''AccountKeyChange'' True
        (Some (''acme:'' @ (case jc_jwk_thumbprint ctx of Some t \<Rightarrow> t | None \<Rightarrow> []))) (Some account_id)
        (Some (''new_key='' @ new_thumbprint)))) (\<lambda>_.
      run_then (on_db (accounts_get_by_id account_id)) (\<lambda>row.
      run_then (pure (ok_or AccountDoesNotExist row)) (\<lambda>account.
        pure (Inr (json_response ev cf ca_id 200
          (JObject [(''status'', JString (acc_status account)),
                    (''contact'', json_of_strings (parse_contacts jo (acc_contact account))),
                    (''orders'', JString (pfx @ ''/orders/'' @ account_id))])
          (jc_next_nonce ctx))))))))))))))"

section \<open>Binding credentials\<close>

text \<open>The derivation from the master secret (\<^verbatim>\<open>src/eab_derivation.rs\<close>) is the parameter \<open>derived\<close>.\<close>

definition get_eab_identity ::
  "'k acme_env \<Rightarrow> bool \<Rightarrow> (string \<Rightarrow> (string \<times> string) result) \<Rightarrow> string \<Rightarrow> acme_server \<Rightarrow> acme_reply \<times> acme_server" where
  "get_eab_identity ev has_master derived pr st =
     (if \<not> has_master then (plain_reply 200 (JsonBody (JObject [(''principal'', JString pr)])), st)
      else
      case run_then (pure (derived pr)) (\<lambda>(kid, hmac_key).
           run_then (on_db (eab_insert_if_absent kid hmac_key (ev_now ev) (Some pr) ''sha256'')) (\<lambda>_.
           run_then (on_db (eab_get_by_kid kid)) (\<lambda>row.
           run_then (pure (ok_or (Internal ''EAB key vanished after insert'') row)) (\<lambda>r.
           run_then (pure (ensure (eab_used_at r = None) (Conflict (''EAB credentials for '' @ quoted pr
             @ '' have already been consumed; contact your CA administrator to reset them'')))) (\<lambda>_.
           pure (Inr (plain_reply 200 (JsonBody (JObject [(''principal'', JString pr), (''kid'', JString kid),
             (''hmac_key'', JString hmac_key), (''alg'', JString ''HS256'')])))))))) ) st of
        (Inr r, st') \<Rightarrow> (r, st')
      | (Inl e, st') \<Rightarrow> (problem_reply ev e, st'))"

end
