(* ===== verification/Acme_Revoke.thy ===== *)
theory Acme_Revoke
  imports Acme_Account
begin

text \<open>
  Revocation by a client (\<^verbatim>\<open>src/routes/revoke.rs\<close>), with the table of revoked log ranges
  (\<^verbatim>\<open>src/db/revoked_ranges.rs\<close>, without its surrogate key) and the cache of revocation lists
  (\<^verbatim>\<open>src/state.rs\<close>).
\<close>

section \<open>Revoked ranges\<close>

definition same_range :: "string \<Rightarrow> i64 \<Rightarrow> i64 \<Rightarrow> revoked_range_row \<Rightarrow> bool" where
  "same_range ca_id a b r = (rr_ca_id r = ca_id \<and> rr_range_start r = a \<and> rr_range_end r = b)"

definition revoked_ranges_insert ::
  "string \<Rightarrow> i64 \<Rightarrow> i64 \<Rightarrow> i64 \<Rightarrow> revoked_range_row list \<Rightarrow> unit result \<times> revoked_range_row list" where
  "revoked_ranges_insert ca_id a b now rs =
     (if a > b then (Inl (BadRequest ''range_start must be <= range_end''), rs)
      else (Inr (), if list_ex (same_range ca_id a b) rs then rs
                    else rs @ [\<lparr>rr_ca_id = ca_id, rr_range_start = a, rr_range_end = b, rr_created = now\<rparr>]))"

definition revoked_ranges_get_all :: "string \<Rightarrow> revoked_range_row list \<Rightarrow> revoked_range_row list" where
  "revoked_ranges_get_all ca_id rs = sort_key rr_range_start (filter (\<lambda>r. rr_ca_id r = ca_id) rs)"

definition revoked_ranges_delete ::
  "string \<Rightarrow> i64 \<Rightarrow> i64 \<Rightarrow> revoked_range_row list \<Rightarrow> bool \<times> revoked_range_row list" where
  "revoked_ranges_delete ca_id a b rs =
     (list_ex (same_range ca_id a b) rs, filter (\<lambda>r. \<not> same_range ca_id a b r) rs)"

section \<open>The handler\<close>

definition invalidate_crl_cache :: "string \<Rightarrow> acme_server \<Rightarrow> acme_server" where
  "invalidate_crl_cache ca_id st =
     (if hm_get (sv_crl_caches st) ca_id = None then st
      else st\<lparr>sv_crl_caches := hm_insert ca_id None (sv_crl_caches st)\<rparr>)"

definition revoke_payload_of_json :: "json \<Rightarrow> (string \<times> nat option) option" where
  "revoke_payload_of_json v =
     (case (str_field ''certificate'' v,
            json_opt_field (\<lambda>x. case x of JNumber n \<Rightarrow> if 0 \<le> n \<and> n < 256 then Some (nat n) else None | _ \<Rightarrow> None) ''reason'' v) of
        (Some certificate, Some reason) \<Rightarrow> Some (certificate, reason)
      | _ \<Rightarrow> None)"

definition hex_digit :: "nat \<Rightarrow> char" where
  "hex_digit n = (if n < 10 then char_of (48 + n) else char_of (87 + n))"

definition hex_of_bytes :: "bytes \<Rightarrow> string" where
  "hex_of_bytes bs = concat (map (\<lambda>b. [hex_digit (unat b div 16), hex_digit (unat b mod 16)]) bs)"

definition extract_serial_hex :: "'k acme_env \<Rightarrow> bytes \<Rightarrow> string result" where
  "extract_serial_hex ev cert_der =
     and_then (bad_request ''certificate parse: '' (ev_cert ev cert_der)) (\<lambda>cert. Inr (hex_of_bytes (cv_serial cert)))"

definition extract_spki_der :: "'k acme_env \<Rightarrow> bytes \<Rightarrow> bytes result" where
  "extract_spki_der ev cert_der =
     and_then (bad_request ''certificate parse: '' (ev_cert ev cert_der)) (\<lambda>cert.
       case cv_spki_encode cert of
         Inl e \<Rightarrow> Inl (Internal (''SPKI encode: '' @ e))
       | Inr _ \<Rightarrow> (case cv_spki_finish cert of
           Inl e \<Rightarrow> Inl (Internal (''SPKI finish: '' @ e)) | Inr spki \<Rightarrow> Inr spki))"

text \<open>Either the account that owns the certificate, or the key of the certificate as it is stored.\<close>

definition may_revoke :: "'k acme_env \<Rightarrow> jws_ctx \<Rightarrow> certificate_row \<Rightarrow> unit result" where
  "may_revoke ev ctx cert =
     (case jc_account_id ctx of
        Some account_id \<Rightarrow>
          ensure (crt_account_id cert = account_id) (Unauthorized ''certificate belongs to a different account'')
      | None \<Rightarrow>
          and_then (extract_spki_der ev (crt_der cert)) (\<lambda>cert_spki.
            ensure (cert_spki = jc_spki_der ctx) (Unauthorized ''signing key does not match certificate public key'')))"

definition record_revoked_range :: "i64 \<Rightarrow> certificate_row \<Rightarrow> acme_server \<Rightarrow> acme_server" where
  "record_revoked_range now cert st =
     (case crt_mtc_log_index cert of
        Some idx \<Rightarrow> st\<lparr>sv_revoked_ranges := snd (revoked_ranges_insert (crt_ca_id cert) idx idx now (sv_revoked_ranges st))\<rparr>
      | None \<Rightarrow> st)"

definition revoke_cert :: "'k acme_env \<Rightarrow> acme_config \<Rightarrow> string \<Rightarrow> bytes \<Rightarrow> acme_reply handler" where
  "revoke_cert ev cf ca_id body =
     (let jo = ev_jose ev in
      run_then (parse_jws ev cf body (acme_prefix cf ca_id @ ''/revoke-cert'')) (\<lambda>ctx.
      run_then (pure (require_payload jo revoke_payload_of_json (jc_payload ctx) ''revoke-cert'')) (\<lambda>(certificate, reason).
      run_then (pure (ensure (case reason of Some r \<Rightarrow> r \<le> 10 \<and> r \<noteq> 7 | None \<Rightarrow> True) BadRevocationReason)) (\<lambda>_.
      run_then (pure (bad_request ''certificate base64url: '' (jo_b64u_decode jo certificate))) (\<lambda>cert_der.
      run_then (pure (extract_serial_hex ev cert_der)) (\<lambda>serial_hex.
      run_then (on_db (certs_get_by_serial serial_hex)) (\<lambda>row.
      run_then (pure (ok_or NotFound row)) (\<lambda>cert.
      run_then (pure (ensure (crt_ca_id cert = ca_id) NotFound)) (\<lambda>_.
      run_then (pure (ok_or (Internal (''corrupt certificate status '' @ quoted (crt_status cert) @ '' in certificate '' @ crt_id cert))
        (cert_from_str (crt_status cert)))) (\<lambda>cert_status.
      run_then (pure (ensure (cert_status \<noteq> CertRevoked) AlreadyRevoked)) (\<lambda>_.
      run_then (on_db (orders_get_by_id (crt_order_id cert))) (\<lambda>order.
      run_then (pure (ensure (\<not> (case order of Some o1 \<Rightarrow> ord_star_end_date o1 \<noteq> None | None \<Rightarrow> False))
        AutoRenewalRevocationNotSupported)) (\<lambda>_.
      run_then (pure (may_revoke ev ctx cert)) (\<lambda>_.
      run_then (on_db (certs_revoke (crt_id cert) (map_option int reason) (ev_now ev) None)) (\<lambda>revoked.
      run_then (pure (ensure revoked AlreadyRevoked)) (\<lambda>_.
      run_then (modify (record_revoked_range (ev_now ev) cert)) (\<lambda>_.
      run_then (modify (record_audit ''CertRevoke'' True
        (Some (''acme:'' @ (case jc_jwk_thumbprint ctx of Some t \<Rightarrow> t | None \<Rightarrow> [])))
        (Some (crt_serial_number cert)) None)) (\<lambda>_.
      run_then (on_app (\<lambda>app. on_cert_tombstone (ev_lock_ok ev) app (crt_id cert) (ev_now ev))) (\<lambda>_.
      run_then (modify (invalidate_crl_cache (crt_ca_id cert))) (\<lambda>_.
        pure (Inr (acme_headers ev cf ca_id (jc_next_nonce ctx) (plain_reply 200 EmptyBody)))))))))))))))))))))))"

end
