(* ===== verification/Acme_Safety.thy ===== *)
theory Acme_Safety
  imports Acme_Revoke Validation_Properties
begin

text \<open>
  What signed requests guarantee: which requests are accepted, that each is accepted once, and that
  the key it is checked against is that of a valid account. A small calculus for handlers (what a
  successful run has done, what every run preserves) carries the proofs.
\<close>

section \<open>Reasoning about handlers\<close>

lemma run_then_Inr: "run_then f g st = (Inr y, t) \<longleftrightarrow> (\<exists>x s. f st = (Inr x, s) \<and> g x s = (Inr y, t))"
  by (auto simp: run_then_def split: prod.splits sum.splits)

lemma pure_Inr [simp]: "pure r st = (Inr x, t) \<longleftrightarrow> r = Inr x \<and> t = st"
  by (auto simp: pure_def)

lemma modify_Inr [simp]: "modify f st = (Inr x, t) \<longleftrightarrow> t = f st"
  by (auto simp: modify_def)

lemma on_db_Inr: "on_db m st = (Inr x, t) \<longleftrightarrow> (\<exists>d. m (sv_db st) = (Inr x, d) \<and> t = set_db d st)"
  by (auto simp: on_db_def split: prod.splits)

lemma ensure_Inr [simp]: "ensure b e = Inr u \<longleftrightarrow> b"
  by (simp add: ensure_def)

lemma jose_result_Inr [simp]: "jose_result r = Inr x \<longleftrightarrow> r = Inr x"
  by (simp add: jose_result_def split: sum.split)

lemma bad_request_Inr [simp]: "bad_request p r = Inr x \<longleftrightarrow> r = Inr x"
  by (simp add: bad_request_def split: sum.split)

lemma set_db_same [simp]: "set_db (sv_db st) st = st"
  by (simp add: set_db_def)

lemma set_db_sel [simp]:
  "sv_db (set_db d st) = d" "sv_nonces (set_db d st) = sv_nonces st" "sv_spki_cache (set_db d st) = sv_spki_cache st"
  "sv_audit (set_db d st) = sv_audit st" "sv_crl_caches (set_db d st) = sv_crl_caches st"
  "sv_revoked_ranges (set_db d st) = sv_revoked_ranges st"
  by (simp_all add: set_db_def)

lemma record_audit_sel [simp]:
  "sv_app (record_audit a b c d e st) = sv_app st" "sv_nonces (record_audit a b c d e st) = sv_nonces st"
  "sv_spki_cache (record_audit a b c d e st) = sv_spki_cache st"
  "sv_crl_caches (record_audit a b c d e st) = sv_crl_caches st"
  "sv_revoked_ranges (record_audit a b c d e st) = sv_revoked_ranges st"
  by (simp_all add: record_audit_def)

lemma on_db_reads [simp]:
  "on_db (accounts_get_by_id i) st = (Inr (find (\<lambda>r. acc_id r = i) (db_accounts (sv_db st))), st)"
  "on_db (accounts_get_by_thumbprint tp) st = (Inr (find (\<lambda>r. acc_jwk_thumbprint r = tp) (db_accounts (sv_db st))), st)"
  "on_db (eab_get_by_kid kid) st = (Inr (find (\<lambda>r. eab_kid r = kid) (db_eab_keys (sv_db st))), st)"
  "on_db (orders_get_by_id oid) st = (Inr (find (\<lambda>r. ord_id r = oid) (db_orders (sv_db st))), st)"
  "on_db (certs_get_by_serial s) st = (Inr (map_option cert_of (find (\<lambda>r. crt_serial_number r = s) (db_certs (sv_db st)))), st)"
  by (simp_all add: on_db_def accounts_get_by_id_def accounts_get_by_thumbprint_def eab_get_by_kid_def orders_get_by_id_def
      certs_get_by_serial_def)

lemmas handler_ok = run_then_Inr on_db_Inr

named_theorems maintains_intros

definition maintains :: "(acme_server \<Rightarrow> bool) \<Rightarrow> 'a handler \<Rightarrow> bool" where
  "maintains I h \<longleftrightarrow> (\<forall>st. I st \<longrightarrow> I (snd (h st)))"

lemma maintainsD: "maintains I h \<Longrightarrow> I st \<Longrightarrow> I (snd (h st))"
  by (simp add: maintains_def)

lemma maintains_then [maintains_intros]:
  assumes f: "maintains I f" and g: "\<And>x. maintains I (g x)"
  shows "maintains I (run_then f g)"
  unfolding maintains_def
proof (intro allI impI)
  fix st assume "I st"
  obtain r s where fs: "f st = (r, s)" by fastforce
  with maintainsD [OF f \<open>I st\<close>] have "I s" by simp
  then show "I (snd (run_then f g st))"
    using fs maintainsD [OF g] by (simp add: run_then_def split: sum.split)
qed

lemma maintains_pure [maintains_intros]: "maintains I (pure r)"
  by (simp add: maintains_def pure_def)

lemma maintains_if [maintains_intros]:
  "maintains I f \<Longrightarrow> maintains I g \<Longrightarrow> maintains I (if b then f else g)"
  by simp

lemma maintains_case_option [maintains_intros]:
  "maintains I f \<Longrightarrow> (\<And>x. maintains I (g x)) \<Longrightarrow> maintains I (case v of None \<Rightarrow> f | Some x \<Rightarrow> g x)"
  by (simp split: option.split)

lemma maintains_case_sum [maintains_intros]:
  "(\<And>x. maintains I (f x)) \<Longrightarrow> (\<And>x. maintains I (g x)) \<Longrightarrow> maintains I (case v of Inl x \<Rightarrow> f x | Inr x \<Rightarrow> g x)"
  by (simp split: sum.split)

lemma maintains_case_prod [maintains_intros]:
  "(\<And>x y. maintains I (f x y)) \<Longrightarrow> maintains I (case v of (x, y) \<Rightarrow> f x y)"
  by (simp split: prod.split)

lemma maintains_case_prod_app [maintains_intros]:
  "(\<And>x y. maintains I (f x y)) \<Longrightarrow> maintains I (\<lambda>st. (case v of (x, y) \<Rightarrow> f x y) st)"
  by (simp split: prod.split)

lemma maintains_read [maintains_intros]: "maintains I (\<lambda>st. (f st, st))"
  by (simp add: maintains_def)

section \<open>Accepted requests\<close>

lemma take_nonce_ok:
  assumes "take_nonce ev n next_nonce st = (Inr (), t)"
  shows "has_local_prefix (sv_nonces st) n" and "hm_get (nb_inner (sv_nonces st)) n \<noteq> None"
    and "t = st\<lparr>sv_nonces := (sv_nonces st)\<lparr>nb_inner :=
           hm_insert next_nonce (ev_now ev) (AList.delete n (nb_inner (sv_nonces st)))\<rparr>\<rparr>"
  using assms by (auto simp: take_nonce_def consume_and_insert_def split: if_splits)

text \<open>The key an account is known by, at the time of the request or in an entry of the cache that is not too old.\<close>

definition known_key :: "'k acme_env \<Rightarrow> acme_server \<Rightarrow> string \<Rightarrow> bytes \<Rightarrow> string \<Rightarrow> bool" where
  "known_key ev st i spki tp =
     ((\<exists>acc. cached_entry ev i st = Some acc \<and> account_from_str (cac_status acc) = Some AccountValid
        \<and> cac_spki_der acc = spki \<and> cac_jwk_thumbprint acc = tp)
      \<or> (cached_entry ev i st = None \<and> (\<exists>row. find (\<lambda>r. acc_id r = i) (db_accounts (sv_db st)) = Some row
          \<and> account_from_str (acc_status row) = Some AccountValid \<and> acc_public_key row = spki
          \<and> acc_jwk_thumbprint row = tp)))"

lemma account_of_kid_ok:
  assumes "account_of_kid ev i st = (Inr acc, t)"
  shows "known_key ev st i (cac_spki_der acc) (cac_jwk_thumbprint acc)"
    and "sv_app t = sv_app st" and "sv_nonces t = sv_nonces st"
  using assms
  by (auto simp: account_of_kid_def known_key_def handler_ok accounts_get_by_id_def Let_def
      split: option.splits if_splits)

lemma account_id_from_kid_ok:
  assumes "account_id_from_kid base kid = Inr i"
  shows "kid = base @ ''/acme/account/'' @ i" and "i \<noteq> []"
proof -
  have "strip_prefix p s = Some j \<Longrightarrow> s = p @ j" for p s j :: string
    by (auto simp: strip_prefix_def split: if_splits) (metis append_take_drop_id)
  then show "kid = base @ ''/acme/account/'' @ i" and "i \<noteq> []"
    using assms by (fastforce simp: account_id_from_kid_def split: option.splits if_splits)+
qed

definition signer_ok :: "'k acme_env \<Rightarrow> acme_config \<Rightarrow> acme_server \<Rightarrow> jws_ctx \<Rightarrow> bool" where
  "signer_ok ev cf st ctx =
     (case jh_key_ref (jc_header ctx) of
        KeyJwk jwk \<Rightarrow> jc_account_id ctx = None \<and> jc_jwk_thumbprint ctx = None
          \<and> to_spki_der (ev_jose ev) jwk = Inr (jc_spki_der ctx)
      | KeyKid kid \<Rightarrow> (\<exists>i tp. kid = ac_base_url cf @ ''/acme/account/'' @ i \<and> jc_account_id ctx = Some i
          \<and> jc_jwk_thumbprint ctx = Some tp \<and> known_key ev st i (jc_spki_der ctx) tp))"

lemma signing_key_ok:
  assumes "signing_key ev cf k st = (Inr (spki, i, tp), t)"
  shows "case k of
        KeyJwk jwk \<Rightarrow> i = None \<and> tp = None \<and> to_spki_der (ev_jose ev) jwk = Inr spki
      | KeyKid kid \<Rightarrow> (\<exists>j p. kid = ac_base_url cf @ ''/acme/account/'' @ j \<and> i = Some j \<and> tp = Some p
          \<and> known_key ev st j spki p)"
    and "sv_app t = sv_app st" and "sv_nonces t = sv_nonces st"
proof -
  have "(\<exists>jwk. k = KeyJwk jwk \<and> i = None \<and> tp = None \<and> to_spki_der (ev_jose ev) jwk = Inr spki \<and> t = st)
    \<or> (\<exists>kid j acc. k = KeyKid kid \<and> account_id_from_kid (ac_base_url cf) kid = Inr j \<and> account_of_kid ev j st = (Inr acc, t)
          \<and> i = Some j \<and> tp = Some (cac_jwk_thumbprint acc) \<and> spki = cac_spki_der acc)"
    using assms by (auto simp: signing_key_def handler_ok split: jws_key_ref.splits)
  then consider "\<exists>jwk. k = KeyJwk jwk \<and> i = None \<and> tp = None \<and> to_spki_der (ev_jose ev) jwk = Inr spki \<and> t = st"
    | kid j acc where "k = KeyKid kid" "account_id_from_kid (ac_base_url cf) kid = Inr j" "account_of_kid ev j st = (Inr acc, t)"
        "i = Some j" "tp = Some (cac_jwk_thumbprint acc)" "spki = cac_spki_der acc"
    by blast
  note cases = this
  show "case k of
        KeyJwk jwk \<Rightarrow> i = None \<and> tp = None \<and> to_spki_der (ev_jose ev) jwk = Inr spki
      | KeyKid kid \<Rightarrow> (\<exists>j p. kid = ac_base_url cf @ ''/acme/account/'' @ j \<and> i = Some j \<and> tp = Some p
          \<and> known_key ev st j spki p)"
    by (rule cases) (auto dest: account_id_from_kid_ok(1) account_of_kid_ok(1))
  show "sv_app t = sv_app st" "sv_nonces t = sv_nonces st"
    by (rule cases; auto dest: account_of_kid_ok(2,3))+
qed

lemma known_key_cong:
  "sv_app s = sv_app t \<Longrightarrow> sv_spki_cache s = sv_spki_cache t \<Longrightarrow> known_key ev s = known_key ev t"
  by (simp add: known_key_def cached_entry_def fun_eq_iff)

lemma parse_jws_ok:
  assumes "parse_jws ev cf body url st = (Inr ctx, t)"
  obtains jws where "from_slice (ev_jose ev) jws_of_json body = Inr jws"
    and "decode_header (ev_jose ev) jws = Inr (jc_header ctx)"
    and "jh_url (jc_header ctx) = url"
    and "gen_nonce ev (nb_node_prefix (sv_nonces st)) = Inr (jc_next_nonce ctx)"
    and "has_local_prefix (sv_nonces st) (jh_nonce (jc_header ctx))"
    and "hm_get (nb_inner (sv_nonces st)) (jh_nonce (jc_header ctx)) \<noteq> None"
    and "signer_ok ev cf st ctx"
    and "jws_verify (ev_jose ev) jws (jc_spki_der ctx) = Inr ()"
    and "decode_payload (ev_jose ev) jws = Inr (jc_payload ctx)"
    and "sv_app t = sv_app st"
    and "sv_nonces t = (sv_nonces st)\<lparr>nb_inner := hm_insert (jc_next_nonce ctx) (ev_now ev)
           (AList.delete (jh_nonce (jc_header ctx)) (nb_inner (sv_nonces st)))\<rparr>"
proof -
  let ?jo = "ev_jose ev"
  from assms obtain jws header next_nonce s1 spki i tp s2 s3 payload where
    jws: "from_slice ?jo jws_of_json body = Inr jws"
    and h: "decode_header ?jo jws = Inr header" and url: "jh_url header = url"
    and g: "gen_nonce ev (nb_node_prefix (sv_nonces st)) = Inr next_nonce"
    and n: "take_nonce ev (jh_nonce header) next_nonce st = (Inr (), s1)"
    and k: "signing_key ev cf (jh_key_ref header) s1 = (Inr (spki, i, tp), s2)"
    and v: "verify_request ev jws spki i s2 = (Inr (), s3)"
    and p: "decode_payload ?jo jws = Inr payload"
    and ctx: "ctx = \<lparr>jc_header = header, jc_payload = payload, jc_spki_der = spki, jc_account_id = i,
       jc_jwk_thumbprint = tp, jc_next_nonce = next_nonce\<rparr>" and t: "t = s3"
    by (auto simp: parse_jws_def Let_def handler_ok split: sum.splits if_splits)
  note n = take_nonce_ok [OF n] note k = signing_key_ok [OF k]
  have v1: "jws_verify ?jo jws spki = Inr ()" and s3: "sv_app s3 = sv_app s2" "sv_nonces s3 = sv_nonces s2"
    using v by (auto simp: verify_request_def split: sum.splits)
  have "known_key ev s1 = known_key ev st" using n(3) by (intro known_key_cong) simp_all
  then have sg: "signer_ok ev cf st ctx"
    using k(1) by (simp add: signer_ok_def ctx split: jws_key_ref.splits)
  show thesis
    by (rule that [of jws]) (use jws h url g n k v1 s3 p sg t in \<open>simp_all add: ctx\<close>)
qed

end
