(* ===== verification/Acme_Authority.thy ===== *)
theory Acme_Authority
  imports Acme_Safety
begin

text \<open>
  Runs of the server: a request is accepted once, and the key a request is checked against belongs to
  an account that is valid, at once when accounts change only on this node and within the lifetime of
  a cache entry when they also change by gossip.
\<close>

section \<open>Steps\<close>

text \<open>
  A request to another handler is parsed here and may then change everything but the accounts, the
  nonces and the cached keys.
\<close>

inductive acme_step :: "'k acme_env \<Rightarrow> acme_config \<Rightarrow> acme_server \<Rightarrow> acme_server \<Rightarrow> bool" for ev cf where
  step_nonce: "acme_step ev cf st (snd (nonce_response ev status st))"
| step_new_account: "acme_step ev cf st (snd (new_account ev cf matched ca_id body st))"
| step_update_account: "acme_step ev cf st (snd (update_account ev cf ca_id i body st))"
| step_key_change: "acme_step ev cf st (snd (key_change ev cf ca_id body st))"
| step_revoke_cert: "acme_step ev cf st (snd (revoke_cert ev cf ca_id body st))"
| step_eab_identity: "acme_step ev cf st (snd (get_eab_identity ev has_master derived pr st))"
| step_sweep: "acme_step ev cf st (st\<lparr>sv_nonces := snd (sweep_expired (ev_now ev) max_age_secs (sv_nonces st))\<rparr>)"
| step_other: "db_accounts (st_db app) = db_accounts (sv_db (snd (parse_jws ev cf body url st))) \<Longrightarrow>
    acme_step ev cf st ((snd (parse_jws ev cf body url st))\<lparr>sv_app := app, sv_audit := audit,
      sv_revoked_ranges := ranges, sv_crl_caches := crls\<rparr>)"

lemma maintains_modify [maintains_intros]: "(\<And>st. I st \<Longrightarrow> I (f st)) \<Longrightarrow> maintains I (modify f)"
  by (simp add: maintains_def modify_def)

lemma maintains_on_db: "(\<And>st. I st \<Longrightarrow> I (set_db (snd (m (sv_db st))) st)) \<Longrightarrow> maintains I (on_db m)"
  by (simp add: maintains_def on_db_def case_prod_beta)

lemma maintains_gen:
  assumes "\<And>x st. I st \<Longrightarrow> gen_nonce ev (nb_node_prefix (sv_nonces st)) = Inr x \<Longrightarrow> maintains I (g x)"
  shows "maintains I (run_then (\<lambda>st. (gen_nonce ev (nb_node_prefix (sv_nonces st)), st)) g)"
  using assms by (auto simp: maintains_def run_then_def split: sum.split)

section \<open>Nonces are used once\<close>

definition nonce_gone :: "string \<Rightarrow> string \<Rightarrow> acme_server \<Rightarrow> bool" where
  "nonce_gone p n st = (nb_node_prefix (sv_nonces st) = p \<and> hm_get (nb_inner (sv_nonces st)) n = None)"

lemma nonce_gone_cong: "sv_nonces s = sv_nonces t \<Longrightarrow> nonce_gone p n s = nonce_gone p n t"
  by (simp add: nonce_gone_def)

lemma nonce_gone_db [maintains_intros]: "maintains (nonce_gone p n) (on_db m)"
  by (rule maintains_on_db) (simp add: nonce_gone_def)

lemma nonce_gone_take: "x \<noteq> n \<Longrightarrow> maintains (nonce_gone p n) (take_nonce ev k x)"
  by (auto simp: maintains_def take_nonce_def nonce_gone_def consume_and_insert_def bucket_insert_def
      AList.update_conv' AList.delete_conv')

lemma nonce_gone_key: "maintains (nonce_gone p n) (account_of_kid ev i)"
proof -
  have "maintains (nonce_gone p n) (run_then (on_db (accounts_get_by_id i)) (\<lambda>row.
            case row of
              None \<Rightarrow> pure (Inl (Unauthorized ''account not found''))
            | Some account \<Rightarrow>
                if account_from_str (acc_status account) \<noteq> Some AccountValid
                then pure (Inl (account_status_error (acc_status account)))
                else let entry = \<lparr>cac_spki_der = acc_public_key account,
                       cac_jwk_thumbprint = acc_jwk_thumbprint account, cac_status = acc_status account,
                       cac_cached_at = ev_instant ev\<rparr>
                     in run_then (modify (\<lambda>st. st\<lparr>sv_spki_cache := hm_insert i entry (sv_spki_cache st)\<rparr>)) (\<lambda>_.
                        pure (Inr entry))))"
    unfolding Let_def by (intro maintains_intros) (simp add: nonce_gone_def)
  then show ?thesis
    by (auto simp: maintains_def account_of_kid_def split: option.split)
qed

lemma nonce_gone_parse [maintains_intros]:
  assumes "gen_nonce ev p \<noteq> Inr n"
  shows "maintains (nonce_gone p n) (parse_jws ev cf body url)"
proof -
  have x: "x \<noteq> n" if "nonce_gone p n st" "gen_nonce ev (nb_node_prefix (sv_nonces st)) = Inr x" for x st
    using that assms by (auto simp: nonce_gone_def)
  have v: "maintains (nonce_gone p n) (verify_request ev jws spki i)" for jws spki i
    by (auto simp: maintains_def verify_request_def nonce_gone_def split: sum.split)
  have k: "maintains (nonce_gone p n) (signing_key ev cf k)" for k
    unfolding signing_key_def by (cases k) (auto intro!: maintains_intros nonce_gone_key)
  show ?thesis
    unfolding parse_jws_def Let_def
    by (intro maintains_intros maintains_gen nonce_gone_take v k) (drule (1) x, simp)
qed


lemma nonce_gone_handlers:
  assumes "gen_nonce ev p \<noteq> Inr n"
  shows "maintains (nonce_gone p n) (new_account ev cf matched ca_id body)"
    and "maintains (nonce_gone p n) (update_account ev cf ca_id i body)"
    and "maintains (nonce_gone p n) (key_change ev cf ca_id body)"
    and "maintains (nonce_gone p n) (revoke_cert ev cf ca_id body)"
    and "maintains (nonce_gone p n) (nonce_response ev status)"
proof -
  note intros = maintains_intros nonce_gone_parse [OF assms]
  have s: "maintains (nonce_gone p n) (store_account ev row k)" for row k
    using nonce_gone_db by (auto simp: maintains_def store_account_def)
  have e: "maintains (nonce_gone p n) (verified_eab ev cf url tp payload)" for url tp payload
    unfolding verified_eab_def by (intro intros) (simp_all add: nonce_gone_def)
  show "maintains (nonce_gone p n) (new_account ev cf matched ca_id body)"
    unfolding new_account_def create_account_def Let_def on_app_def by (intro intros s e) (simp_all add: nonce_gone_def)
  show "maintains (nonce_gone p n) (update_account ev cf ca_id i body)"
    unfolding update_account_def deactivate_account_def update_contact_def evict_def on_app_def Let_def
    by (intro intros) (simp_all add: nonce_gone_def)
  show "maintains (nonce_gone p n) (key_change ev cf ca_id body)"
    unfolding key_change_def evict_def Let_def by (intro intros) (simp_all add: nonce_gone_def)
  show "maintains (nonce_gone p n) (revoke_cert ev cf ca_id body)"
    unfolding revoke_cert_def on_app_def Let_def
    by (intro intros) (simp_all add: nonce_gone_def record_revoked_range_def invalidate_crl_cache_def split: option.split)
  show "maintains (nonce_gone p n) (nonce_response ev status)"
    unfolding nonce_response_def new_nonce_def
    by (intro intros maintains_gen) (use assms in \<open>auto simp: nonce_gone_def bucket_insert_def AList.update_conv'\<close>)
qed


lemma nonce_gone_eab: "nonce_gone p n st \<Longrightarrow> nonce_gone p n (snd (get_eab_identity ev has_master derived pr st))"
proof -
  let ?h = "run_then (pure (derived pr)) (\<lambda>(kid, hmac_key).
           run_then (on_db (eab_insert_if_absent kid hmac_key (ev_now ev) (Some pr) ''sha256'')) (\<lambda>_.
           run_then (on_db (eab_get_by_kid kid)) (\<lambda>row.
           run_then (pure (ok_or (Internal ''EAB key vanished after insert'') row)) (\<lambda>r.
           run_then (pure (ensure (eab_used_at r = None) (Conflict (''EAB credentials for '' @ quoted pr
             @ '' have already been consumed; contact your CA administrator to reset them'')))) (\<lambda>_.
           pure (Inr (plain_reply 200 (JsonBody (JObject [(''principal'', JString pr), (''kid'', JString kid),
             (''hmac_key'', JString hmac_key), (''alg'', JString ''HS256'')])))))))))"
  have "maintains (nonce_gone p n) ?h" by (intro maintains_intros)
  moreover assume "nonce_gone p n st"
  ultimately have "nonce_gone p n (snd (?h st))" by (rule maintainsD)
  then show ?thesis using \<open>nonce_gone p n st\<close>
    by (simp add: get_eab_identity_def split: prod.split sum.split) (auto split: prod.split sum.split)
qed

lemma nonce_gone_sweep:
  "nonce_gone p n st \<Longrightarrow> nonce_gone p n (st\<lparr>sv_nonces := snd (sweep_expired now age (sv_nonces st))\<rparr>)"
  by (auto simp: nonce_gone_def sweep_expired_def Let_def hm_retain_def map_of_eq_None_iff)

lemma nonce_gone_step:
  assumes "acme_step ev cf st st'" and "nonce_gone p n st" and "gen_nonce ev p \<noteq> Inr n"
  shows "nonce_gone p n st'"
  using assms
proof cases
  case step_other
  then show ?thesis
    using maintainsD [OF nonce_gone_parse [OF assms(3)] assms(2)] by (simp add: nonce_gone_def)
qed (auto intro: nonce_gone_eab nonce_gone_sweep maintainsD nonce_gone_handlers)

text \<open>A run in which the nonce \<open>n\<close> is not drawn again; the rest of the state may change by gossip in between.\<close>

inductive serves :: "'k jose_ext \<Rightarrow> acme_config \<Rightarrow> string \<Rightarrow> acme_server \<Rightarrow> acme_server \<Rightarrow> bool" for jo cf n st where
  serves_refl: "serves jo cf n st st"
| serves_step: "serves jo cf n st s \<Longrightarrow> ev_jose ev = jo \<Longrightarrow> gen_nonce ev (nb_node_prefix (sv_nonces s)) \<noteq> Inr n \<Longrightarrow>
    acme_step ev cf s s' \<Longrightarrow> serves jo cf n st s'"
| serves_gossip: "serves jo cf n st s \<Longrightarrow> serves jo cf n st (s\<lparr>sv_app := app\<rparr>)"

lemma serves_nonce_gone: "serves jo cf n st s \<Longrightarrow> nonce_gone p n st \<Longrightarrow> nonce_gone p n s"
proof (induction rule: serves.induct)
  case (serves_step s ev s')
  then show ?case by (metis nonce_gone_def nonce_gone_step)
qed (simp_all add: nonce_gone_def)

text \<open>C34: A request is accepted once. Once a request with some nonce has been accepted, the nonce is not
  accepted again, neither with the same body nor with another one, whatever requests are served and
  whatever is received by gossip in the meantime, as long as the generator does not draw the same
  nonce again; the refusal says so and hands out a nonce that is good for the next request.\<close>

theorem request_accepted_once:
  assumes "parse_jws ev cf body url st = (Inr ctx, st1)" and "jc_next_nonce ctx \<noteq> jh_nonce (jc_header ctx)"
    and "serves (ev_jose ev) cf (jh_nonce (jc_header ctx)) st1 st2"
    and "from_slice (ev_jose ev') jws_of_json body' = Inr jws'" and "decode_header (ev_jose ev') jws' = Inr header'"
    and "jh_nonce header' = jh_nonce (jc_header ctx)" and "jh_url header' = url'"
    and "gen_nonce ev' (nb_node_prefix (sv_nonces st2)) = Inr fresh"
  shows "\<exists>st3. parse_jws ev' cf body' url' st2 = (Inl (BadNonce fresh), st3)
    \<and> hm_get (nb_inner (sv_nonces st3)) fresh = Some (ev_now ev') \<and> sv_app st3 = sv_app st2"
proof -
  let ?n = "jh_nonce (jc_header ctx)"
  have "nonce_gone (nb_node_prefix (sv_nonces st)) ?n st1"
    by (rule parse_jws_ok [OF assms(1)])
      (use assms(2) in \<open>simp add: nonce_gone_def AList.update_conv' AList.delete_conv'\<close>)
  then have "nonce_gone (nb_node_prefix (sv_nonces st)) ?n st2" using assms(3) serves_nonce_gone by blast
  then have "take_nonce ev' ?n fresh st2
      = (Inl (BadNonce fresh), st2\<lparr>sv_nonces := bucket_insert (ev_now ev') fresh (sv_nonces st2)\<rparr>)"
    by (simp add: take_nonce_def nonce_gone_def consume_and_insert_def)
  then show ?thesis
    using assms(4-8) by (simp add: parse_jws_def Let_def run_then_def pure_def jose_result_def bucket_insert_def hm_get_insert)
qed


section \<open>The cache of account keys\<close>

definition entry_of_row :: "db \<Rightarrow> string \<Rightarrow> cached_account \<Rightarrow> bool" where
  "entry_of_row d i acc \<longleftrightarrow> (\<exists>row. find (\<lambda>r. acc_id r = i) (db_accounts d) = Some row
     \<and> acc_public_key row = cac_spki_der acc \<and> acc_jwk_thumbprint row = cac_jwk_thumbprint acc
     \<and> acc_status row = cac_status acc)"

text \<open>Every entry was there before or has just been read, and is as good for the present accounts as it was before.\<close>

definition cache_follows :: "nat \<Rightarrow> acme_server \<Rightarrow> acme_server \<Rightarrow> bool" where
  "cache_follows now st0 st \<longleftrightarrow> (\<forall>i acc. hm_get (sv_spki_cache st) i = Some acc \<longrightarrow>
     (hm_get (sv_spki_cache st0) i = Some acc \<or> (cac_cached_at acc = now \<and> entry_of_row (sv_db st0) i acc))
     \<and> (entry_of_row (sv_db st0) i acc \<longrightarrow> entry_of_row (sv_db st) i acc))"

lemma entry_of_row_cong: "db_accounts d = db_accounts d' \<Longrightarrow> entry_of_row d = entry_of_row d'"
  by (simp add: entry_of_row_def fun_eq_iff)

lemma cache_follows_refl: "cache_follows now st st"
  by (simp add: cache_follows_def)

lemma cache_follows_same:
  "sv_spki_cache s = sv_spki_cache t \<Longrightarrow> db_accounts (sv_db s) = db_accounts (sv_db t) \<Longrightarrow>
     cache_follows now st0 s = cache_follows now st0 t"
  using entry_of_row_cong [of "sv_db s" "sv_db t"] by (simp add: cache_follows_def)

text \<open>A change of the accounts that leaves keys and status of every account but one as they are.\<close>

definition keys_kept :: "string set \<Rightarrow> db \<Rightarrow> db \<Rightarrow> bool" where
  "keys_kept touched d d' \<longleftrightarrow> (\<forall>i acc. i \<notin> touched \<longrightarrow> entry_of_row d i acc \<longrightarrow> entry_of_row d' i acc)"

lemma keys_kept_same [simp]: "db_accounts d = db_accounts d' \<Longrightarrow> keys_kept T d d'"
  using entry_of_row_cong [of d d'] by (simp add: keys_kept_def)

lemma keys_kept_append: "db_accounts d' = db_accounts d @ rows \<Longrightarrow> keys_kept T d d'"
proof -
  have "find P (xs @ ys) = Some x" if "find P xs = Some x" for P :: "account_row \<Rightarrow> bool" and xs ys x
    using that by (induction xs) (auto split: if_splits)
  then show "db_accounts d' = db_accounts d @ rows \<Longrightarrow> keys_kept T d d'"
    by (fastforce simp: keys_kept_def entry_of_row_def)
qed

lemma keys_kept_upd:
  assumes "db_accounts d' = upd_where p f (db_accounts d)" and "\<And>r. acc_id (f r) = acc_id r"
    and "\<And>r. acc_id r \<notin> T \<Longrightarrow> p r \<Longrightarrow> acc_public_key (f r) = acc_public_key r
          \<and> acc_jwk_thumbprint (f r) = acc_jwk_thumbprint r \<and> acc_status (f r) = acc_status r"
  shows "keys_kept T d d'"
  unfolding keys_kept_def
proof (intro allI impI)
  fix i acc assume i: "i \<notin> T" and "entry_of_row d i acc"
  then obtain row where row: "find (\<lambda>r. acc_id r = i) (db_accounts d) = Some row"
    and acc: "acc_public_key row = cac_spki_der acc" "acc_jwk_thumbprint row = cac_jwk_thumbprint acc" "acc_status row = cac_status acc"
    by (auto simp: entry_of_row_def)
  have "acc_id row = i" using row by (auto simp: find_Some_iff)
  then show "entry_of_row d' i acc"
    using row acc assms(3) [of row] i by (auto simp: entry_of_row_def assms(1) find_upd_where [of acc_id, OF assms(2)])
qed

lemma cache_follows_db:
  assumes "\<And>d. keys_kept {} d (snd (m d))"
  shows "maintains (cache_follows now st0) (on_db m)"
  using assms by (intro maintains_on_db) (auto simp: cache_follows_def keys_kept_def)

text \<open>A change of one account followed by the eviction of its entry.\<close>

lemma cache_follows_evict:
  assumes m: "\<And>d. keys_kept {i} d (snd (m d))" and e: "\<And>d e d'. m d = (Inl e, d') \<Longrightarrow> d' = d"
    and g: "\<And>x. maintains (cache_follows now st0) (g x)"
  shows "maintains (cache_follows now st0) (run_then (on_db m) (\<lambda>x. run_then (evict i) (\<lambda>_. g x)))"
  unfolding maintains_def
proof (intro allI impI)
  fix st assume I: "cache_follows now st0 st"
  obtain r d where md: "m (sv_db st) = (r, d)" by fastforce
  show "cache_follows now st0 (snd (run_then (on_db m) (\<lambda>x. run_then (evict i) (\<lambda>_. g x)) st))"
  proof (cases r)
    case (Inl x)
    with md e have "d = sv_db st" by blast
    then show ?thesis using I md Inl by (simp add: run_then_def on_db_def)
  next
    case (Inr x)
    let ?s = "(set_db d st)\<lparr>sv_spki_cache := AList.delete i (sv_spki_cache st)\<rparr>"
    have k: "keys_kept {i} (sv_db st) d" using m [of "sv_db st"] md by simp
    have "sv_db ?s = d" by (simp add: set_db_def)
    then have "cache_follows now st0 ?s"
      using I k by (auto simp: cache_follows_def keys_kept_def AList.delete_conv' split: if_splits)
    then have "cache_follows now st0 (snd (g x ?s))" using g maintainsD by blast
    then show ?thesis using md Inr by (simp add: run_then_def on_db_def evict_def modify_def)
  qed
qed


definition reads_follow :: "nat \<Rightarrow> acme_server \<Rightarrow> acme_server \<Rightarrow> bool" where
  "reads_follow now st0 st \<longleftrightarrow> sv_app st = sv_app st0 \<and> cache_follows now st0 st"

lemma reads_follow_parse: "maintains (reads_follow (ev_instant ev) st0) (parse_jws ev cf body url)"
proof -
  let ?J = "reads_follow (ev_instant ev) st0"
  have t: "maintains ?J (take_nonce ev n x)" for n x
    by (auto simp: maintains_def take_nonce_def reads_follow_def cache_follows_def split: if_splits prod.splits bool.splits)
  have v: "maintains ?J (verify_request ev jws spki i)" for jws spki i
    by (auto simp: maintains_def verify_request_def reads_follow_def cache_follows_def split: sum.split)
  have a: "maintains ?J (account_of_kid ev i)" for i
    unfolding maintains_def
  proof (intro allI impI)
    fix st assume J: "?J st"
    show "?J (snd (account_of_kid ev i st))"
    proof (cases "cached_entry ev i st")
      case None
      show ?thesis
      proof (cases "find (\<lambda>r. acc_id r = i) (db_accounts (sv_db st))")
        case (Some row)
        then show ?thesis using J None
          by (auto simp: account_of_kid_def run_then_def pure_def modify_def Let_def
              reads_follow_def cache_follows_def hm_get_insert entry_of_row_def)
      qed (use J None in \<open>simp add: account_of_kid_def run_then_def pure_def\<close>)
    qed (use J in \<open>simp add: account_of_kid_def\<close>)
  qed
  have k: "maintains ?J (signing_key ev cf k)" for k
    unfolding signing_key_def by (cases k) (auto intro!: maintains_intros a)
  show ?thesis
    unfolding parse_jws_def Let_def by (intro maintains_intros maintains_gen t v k)
qed

lemma parse_follows: "cache_follows (ev_instant ev) st (snd (parse_jws ev cf body url st))"
  and parse_app: "sv_app (snd (parse_jws ev cf body url st)) = sv_app st"
proof -
  have "reads_follow (ev_instant ev) st (snd (parse_jws ev cf body url st))"
    by (rule maintainsD [OF reads_follow_parse]) (simp add: reads_follow_def cache_follows_refl)
  then show "cache_follows (ev_instant ev) st (snd (parse_jws ev cf body url st))"
      "sv_app (snd (parse_jws ev cf body url st)) = sv_app st"
    by (simp_all add: reads_follow_def)
qed

lemma after_parse_follows:
  assumes "\<And>ctx. maintains (cache_follows (ev_instant ev) st) (g ctx)"
  shows "cache_follows (ev_instant ev) st (snd (run_then (parse_jws ev cf body url) g st))"
proof -
  obtain r s where p: "parse_jws ev cf body url st = (r, s)" by fastforce
  with parse_follows [of ev st cf body url] have "cache_follows (ev_instant ev) st s" by simp
  then show ?thesis using p maintainsD [OF assms] by (simp add: run_then_def split: sum.split)
qed


lemma exec_new_account_rows:
  "\<exists>rows. db_accounts (snd (exec_new_account msg row k now d)) = db_accounts d @ rows"
  by (auto simp: exec_new_account_def db_then_def accounts_insert_def sql_insert_def eab_mark_used_def db_ok_def Let_def
      split: option.split)

lemma submit_new_account_db:
  "snd (submit_new_account msg io row k now d) \<in> {d, snd (exec_new_account msg row k now d)}"
  using single_batch_db [of msg io "NewAccount row k now" d]
  by (auto simp: submit_new_account_def split: prod.splits list.splits write_reply.splits)

lemma cache_follows_store: "maintains (cache_follows now st0) (store_account ev row k)"
proof -
  have "keys_kept {} d (snd (submit_new_account (ev_msg ev) (ev_io ev) row k (ev_now ev) d))"
    "keys_kept {} d (snd (own_tx (ev_msg ev) (ev_io ev) (exec_new_account (ev_msg ev) row k (ev_now ev)) d))" for d
    using submit_new_account_db [of "ev_msg ev" "ev_io ev" row k "ev_now ev" d]
      own_tx_db [of "ev_msg ev" "ev_io ev" "exec_new_account (ev_msg ev) row k (ev_now ev)" d]
      exec_new_account_rows [of "ev_msg ev" row k "ev_now ev" d]
    by (auto intro: keys_kept_append)
  then have "maintains (cache_follows now st0) (on_db (submit_new_account (ev_msg ev) (ev_io ev) row k (ev_now ev)))"
    "maintains (cache_follows now st0) (on_db (own_tx (ev_msg ev) (ev_io ev) (exec_new_account (ev_msg ev) row k (ev_now ev))))"
    by (blast intro: cache_follows_db)+
  then show ?thesis by (simp add: maintains_def store_account_def)
qed

lemma cache_follows_reads [maintains_intros]:
  "maintains (cache_follows now st0) (on_db (accounts_get_by_id i))"
  "maintains (cache_follows now st0) (on_db (accounts_get_by_thumbprint tp))"
  "maintains (cache_follows now st0) (on_db (eab_get_by_kid kid))"
  "maintains (cache_follows now st0) (on_db (orders_get_by_id oid))"
  "maintains (cache_follows now st0) (on_db (certs_get_by_serial s))"
  by (simp_all add: maintains_def)

lemma cache_follows_audit [simp]: "cache_follows now st0 (record_audit a b c d e st) = cache_follows now st0 st"
  by (simp add: cache_follows_def)

lemma cache_follows_hooks [maintains_intros]:
  "maintains (cache_follows now st0) (on_app (\<lambda>app. on_account_upsert l app prm))"
  "maintains (cache_follows now st0) (on_app (\<lambda>app. on_account_tombstone l app i t))"
  "maintains (cache_follows now st0) (on_app (\<lambda>app. on_cert_tombstone l app i t))"
  by (simp_all add: maintains_def on_app_def modify_def cache_follows_def on_account_upsert_def on_account_tombstone_def
      on_cert_tombstone_def)

lemma cache_follows_eab [maintains_intros]: "maintains (cache_follows now st0) (verified_eab ev cf url tp payload)"
  unfolding verified_eab_def by (intro maintains_intros) simp_all

lemma update_contact_follows [maintains_intros]: "maintains (cache_follows now st0) (update_contact ev i c)"
  unfolding update_contact_def
  by (intro maintains_intros cache_follows_db) (auto simp: accounts_update_contact_def Let_def intro: keys_kept_upd)

lemma deactivate_follows [maintains_intros]: "maintains (cache_follows now st0) (deactivate_account ev cf ca_id i account nonce)"
  unfolding deactivate_account_def
proof (intro cache_follows_evict maintains_intros)
  show "keys_kept {i} d (snd (accounts_update_status i AccountDeactivated (ev_now ev) d))" for d
    by (auto simp: accounts_update_status_def Let_def intro: keys_kept_upd)
qed (simp_all add: accounts_update_status_def Let_def)

lemma new_account_follows: "cache_follows (ev_instant ev) st (snd (new_account ev cf matched ca_id body st))"
proof (cases "sublist ''{ca_id}'' matched \<and> ac_account_scope cf \<noteq> ''ca''")
  case False
  then show ?thesis
    unfolding new_account_def create_account_def Let_def if_not_P [OF False]
    by (intro after_parse_follows maintains_intros cache_follows_store) simp_all
qed (simp add: new_account_def pure_def cache_follows_refl)

lemma update_account_follows: "cache_follows (ev_instant ev) st (snd (update_account ev cf ca_id i body st))"
  unfolding update_account_def Let_def by (intro after_parse_follows maintains_intros)

lemma key_change_follows: "cache_follows (ev_instant ev) st (snd (key_change ev cf ca_id body st))"
  unfolding key_change_def Let_def
proof (intro after_parse_follows cache_follows_evict maintains_intros)
  show "keys_kept {i} d (snd (accounts_update_key (ev_msg ev) i k tp (ev_now ev) d))" for i k tp d
    by (auto simp: accounts_update_key_def Let_def intro: keys_kept_upd)
qed (auto simp: accounts_update_key_def Let_def split: if_splits)

lemma revoke_cert_follows: "cache_follows (ev_instant ev) st (snd (revoke_cert ev cf ca_id body st))"
  unfolding revoke_cert_def Let_def
proof (intro after_parse_follows maintains_intros cache_follows_db)
  show "keys_kept {} d (snd (certs_revoke i r t c d))" for i r t c d
    by (rule keys_kept_same) (simp add: certs_revoke_def Let_def)
  show "cache_follows (ev_instant ev) st (record_revoked_range t cert s)"
    if "cache_follows (ev_instant ev) st s" for t cert s
    using that by (simp add: record_revoked_range_def cache_follows_def split: option.split)
  show "cache_follows (ev_instant ev) st (invalidate_crl_cache c s)" if "cache_follows (ev_instant ev) st s" for c s
    using that by (simp add: invalidate_crl_cache_def cache_follows_def)
qed simp


lemma nonce_response_follows: "cache_follows now st (snd (nonce_response ev status st))"
proof -
  have "maintains (cache_follows now st) (nonce_response ev status)"
    unfolding nonce_response_def new_nonce_def
    by (intro maintains_intros) (simp add: cache_follows_def)
  then show ?thesis by (rule maintainsD) (rule cache_follows_refl)
qed

lemma eab_identity_follows: "cache_follows now st (snd (get_eab_identity ev has_master derived pr st))"
proof -
  have "sv_spki_cache (snd (get_eab_identity ev has_master derived pr st)) = sv_spki_cache st
    \<and> db_accounts (sv_db (snd (get_eab_identity ev has_master derived pr st))) = db_accounts (sv_db st)"
    by (auto simp: get_eab_identity_def run_then_def pure_def on_db_def eab_insert_if_absent_def eab_get_by_kid_def
        eab_add_def ensure_def ok_or_def split: sum.splits prod.splits option.splits)
  then show ?thesis using cache_follows_same cache_follows_refl by blast
qed

lemma step_follows: "acme_step ev cf st st' \<Longrightarrow> cache_follows (ev_instant ev) st st'"
proof (induction rule: acme_step.induct)
  case (step_other app body url st audit ranges crls)
  have "cache_follows (ev_instant ev) st (snd (parse_jws ev cf body url st))" by (rule parse_follows)
  then show ?case
    using step_other entry_of_row_cong [OF step_other] by (simp add: cache_follows_def)
qed (simp_all add: nonce_response_follows new_account_follows update_account_follows key_change_follows revoke_cert_follows
    eab_identity_follows, simp add: cache_follows_def)

section \<open>The authority behind a request\<close>

definition local_step :: "'k jose_ext \<Rightarrow> acme_config \<Rightarrow> acme_server \<Rightarrow> acme_server \<Rightarrow> bool" where
  "local_step jo cf st st' \<longleftrightarrow> (\<exists>ev :: 'k acme_env. ev_jose ev = jo \<and> acme_step ev cf st st')"

definition cache_current :: "acme_server \<Rightarrow> bool" where
  "cache_current st \<longleftrightarrow> (\<forall>i acc. hm_get (sv_spki_cache st) i = Some acc \<longrightarrow> entry_of_row (sv_db st) i acc)"

lemma cache_current_step: "local_step jo cf st st' \<Longrightarrow> cache_current st \<Longrightarrow> cache_current st'"
  using step_follows by (fastforce simp: local_step_def cache_current_def cache_follows_def)

lemma cache_current_run: "(local_step jo cf)\<^sup>*\<^sup>* st st' \<Longrightarrow> cache_current st \<Longrightarrow> cache_current st'"
  by (induction rule: rtranclp_induct) (auto intro: cache_current_step)

lemma account_from_valid: "account_from_str s = Some AccountValid \<longleftrightarrow> s = ''valid''"
  by (auto simp: account_from_str_def split: if_splits)

lemma known_key_entry:
  assumes "known_key ev st i spki tp" and "\<And>acc. cached_entry ev i st = Some acc \<Longrightarrow> entry_of_row d i acc"
    and "cached_entry ev i st = None \<Longrightarrow> d = sv_db st"
  shows "\<exists>row. find (\<lambda>r. acc_id r = i) (db_accounts d) = Some row \<and> acc_status row = ''valid''
    \<and> acc_public_key row = spki \<and> acc_jwk_thumbprint row = tp"
  using assms by (fastforce simp: known_key_def entry_of_row_def account_from_valid)

lemma cached_entry_get: "cached_entry ev i st = Some acc \<Longrightarrow> hm_get (sv_spki_cache st) i = Some acc"
  by (simp add: cached_entry_def split: option.splits if_splits)



text \<open>
  Runs with gossip: the instants so far, latest first, with the databases of those instants. A request
  sees the database it found and leaves the one it made.
\<close>

inductive history :: "'k jose_ext \<Rightarrow> acme_config \<Rightarrow> (nat \<times> db) list \<Rightarrow> acme_server \<Rightarrow> bool" for jo cf where
  history_start: "sv_spki_cache st = [] \<Longrightarrow> history jo cf [(t, sv_db st)] st"
| history_step: "history jo cf h st \<Longrightarrow> ev_jose ev = jo \<Longrightarrow> fst (hd h) \<le> ev_instant ev \<Longrightarrow> acme_step ev cf st st' \<Longrightarrow>
    history jo cf ((ev_instant ev, sv_db st') # (ev_instant ev, sv_db st) # h) st'"
| history_gossip: "history jo cf h st \<Longrightarrow> fst (hd h) \<le> t \<Longrightarrow>
    history jo cf ((t, st_db app) # h) (st\<lparr>sv_app := app\<rparr>)"

lemma history_cache:
  "history jo cf h st \<Longrightarrow> hm_get (sv_spki_cache st) i = Some acc \<Longrightarrow>
     \<exists>d. (cac_cached_at acc, d) \<in> set h \<and> entry_of_row d i acc"
proof (induction rule: history.induct)
  case (history_step h st ev st')
  then show ?case using step_follows [OF history_step(4)] by (fastforce simp: cache_follows_def)
qed auto

text \<open>C35: A stale key lives at most sixty seconds. When accounts also change by gossip, behind the back of the
  cache, every accepted request that names an account is signed with the key which that account had,
  being valid, at some moment of the last sixty seconds.\<close>

theorem stale_key_bounded:
  assumes "history (ev_jose ev) cf h st" and "parse_jws ev cf body url st = (Inr ctx, st')"
    and "jc_account_id ctx = Some i"
  shows "\<exists>t d row. (t, d) \<in> set ((ev_instant ev, sv_db st) # h) \<and> ev_instant ev - t \<le> 60 * 10 ^ 9
    \<and> find (\<lambda>r. acc_id r = i) (db_accounts d) = Some row \<and> acc_status row = ''valid''
    \<and> acc_public_key row = jc_spki_der ctx \<and> jc_jwk_thumbprint ctx = Some (acc_jwk_thumbprint row)"
proof -
  from parse_jws_ok [OF assms(2)] have "signer_ok ev cf st ctx" by metis
  with assms(3) obtain tp where k: "known_key ev st i (jc_spki_der ctx) tp" and tp: "jc_jwk_thumbprint ctx = Some tp"
    by (auto simp: signer_ok_def split: jws_key_ref.splits)
  show ?thesis
  proof (cases "cached_entry ev i st")
    case None
    then show ?thesis using known_key_entry [OF k, of "sv_db st"] tp by fastforce
  next
    case (Some acc)
    then have age: "ev_instant ev - cac_cached_at acc \<le> 60 * 10 ^ 9"
      by (simp add: cached_entry_def spki_cache_ttl_def split: option.splits if_splits)
    obtain d where d: "(cac_cached_at acc, d) \<in> set h" "entry_of_row d i acc"
      using history_cache [OF assms(1) cached_entry_get [OF Some]] by blast
    have "\<exists>row. find (\<lambda>r. acc_id r = i) (db_accounts d) = Some row \<and> acc_status row = ''valid''
        \<and> acc_public_key row = jc_spki_der ctx \<and> acc_jwk_thumbprint row = tp"
      using known_key_entry [OF k, of d] d(2) Some by auto
    then show ?thesis using age d(1) tp by (metis list.set_intros(2))
  qed
qed

section \<open>A sample request\<close>

definition sample_body :: bytes where "sample_body = [1]"

definition sample_request_json :: json where
  "sample_request_json = JObject [(''protected'', JString ''h''), (''payload'', JString []), (''signature'', JString ''s'')]"

definition sample_kid_header :: json where
  "sample_kid_header = JObject [(''alg'', JString ''EdDSA''), (''nonce'', JString ''n1''), (''url'', JString ''u''),
     (''kid'', JString ''b/acme/account/a1'')]"

definition sample_acme_jose :: "unit jose_ext" where
  "sample_acme_jose = \<lparr>jo_b64u_encode = (\<lambda>bs. map (\<lambda>b. char_of (unat b)) bs), jo_b64u_decode = (\<lambda>s. Inr (map (\<lambda>c. word_of_nat (of_char c)) s)),
     jo_b64_decode = (\<lambda>s. Inr []), jo_json_parse = (\<lambda>bs. Inr (if bs = sample_body then sample_request_json else sample_kid_header)),
     jo_json_text = (\<lambda>v. Inr []), jo_de_error = (\<lambda>_. []), jo_utf8 = map (\<lambda>c. word_of_nat (of_char c)), jo_sha256 = Inr,
     jo_rsa_spki = (\<lambda>n e. Inr (n @ e)), jo_ec_spki = (\<lambda>x y _. Inr (x @ y)),
     jo_verify = (\<lambda>_ _ _ s. Inr ()), jo_verify_ml_dsa = (\<lambda>_ _ _ _. Inl []),
     jo_sign = (\<lambda>_ _ _. Inr []), jo_sign_ml_dsa = (\<lambda>_ _ _. Inl [])\<rparr>"

definition sample_env :: "8 word \<Rightarrow> unit acme_env" where
  "sample_env b = \<lparr>ev_jose = sample_acme_jose, ev_now = 5, ev_later = 5, ev_instant = 7, ev_random = Inr [b], ev_uuid = ''a9'',
     ev_lock_ok = True, ev_msg = (\<lambda>_. []), ev_io = \<lparr>begin_ok = True, savepoint_ok = \<lambda>_. True, rollback_to_ok = \<lambda>_. True, commit_ok = True\<rparr>,
     ev_header_ok = (\<lambda>_. True), ev_header_error = (\<lambda>_. []), ev_hmac_verify = (\<lambda>_ _ _ _. True), ev_cert = (\<lambda>_. Inl [])\<rparr>"

definition sample_config :: acme_config where
  "sample_config = \<lparr>ac_base_url = ''b'', ac_default_ca_id = ''ca'', ac_cas = [''ca''], ac_link_headers = [], ac_account_scope = ''server'',
     ac_terms_of_service_url = None, ac_external_account_required = False, ac_delegation_enabled = False,
     ac_dns_persist_issuer_domains = [], ac_tor_connectivity_enabled = False, ac_tkauth_enabled = None, ac_claim_encoder_types = None\<rparr>"

definition sample_server :: acme_server where
  "sample_server = \<lparr>sv_app = sample_state\<lparr>st_db := empty_db\<lparr>db_accounts := [sample_account ''a1'']\<rparr>\<rparr>,
     sv_nonces = bucket_insert 1 ''n1'' bucket_new, sv_spki_cache = [], sv_audit = [], sv_revoked_ranges = [], sv_crl_caches = []\<rparr>"

lemmas sample_acme_defs = sample_acme_jose_def sample_env_def sample_config_def sample_server_def sample_body_def
  sample_request_json_def sample_kid_header_def

lemma sample_chars: "(char_of (65 :: nat) :: char) = CHR ''A''" "(char_of (66 :: nat) :: char) = CHR ''B''"
  by code_simp+

lemma sample_parsed:
  "from_slice sample_acme_jose jws_of_json sample_body = Inr \<lparr>jws_protected = ''h'', jws_payload = [], jws_signature = ''s''\<rparr>"
  by (simp add: sample_acme_defs from_slice_def jws_of_json_def json_get_def json_as_str_def)

lemma sample_header_decoded:
  "decode_header sample_acme_jose \<lparr>jws_protected = ''h'', jws_payload = [], jws_signature = s\<rparr>
     = Inr \<lparr>jh_alg = ''EdDSA'', jh_nonce = ''n1'', jh_url = ''u'', jh_key_ref = KeyKid ''b/acme/account/a1''\<rparr>"
  by (simp add: sample_acme_defs decode_header_def from_slice_def header_of_json_def key_ref_of_json_def json_get_def json_as_str_def)

lemma sample_verifies:
  "jws_verify sample_acme_jose \<lparr>jws_protected = ''h'', jws_payload = [], jws_signature = s\<rparr> k = Inr ()"
  unfolding jws_verify_def sample_header_decoded
  by (simp add: ml_dsa_sig_len_def verify_with_spki_def sig_for_alg_def sample_acme_jose_def)

lemma sample_accepted:
  "\<exists>ctx st'. parse_jws (sample_env 65) sample_config sample_body ''u'' sample_server = (Inr ctx, st')
     \<and> jc_account_id ctx = Some ''a1'' \<and> jc_next_nonce ctx = ''A'' \<and> jh_nonce (jc_header ctx) = ''n1''"
proof -
  let ?s1 = "sample_server\<lparr>sv_nonces := \<lparr>nb_inner = [(''A'', 5)], nb_node_prefix = [], nb_prefix_dot = []\<rparr>\<rparr>"
  let ?jws = "\<lparr>jws_protected = ''h'', jws_payload = [], jws_signature = ''s''\<rparr>"
  have j: "ev_jose (sample_env 65) = sample_acme_jose" by (simp add: sample_env_def)
  have g: "gen_nonce (sample_env 65) (nb_node_prefix (sv_nonces sample_server)) = Inr ''A''"
    by (simp add: gen_nonce_def sample_acme_defs sample_chars bucket_insert_def bucket_new_def)
  have t: "take_nonce (sample_env 65) ''n1'' ''A'' sample_server = (Inr (), ?s1)"
    by (simp add: take_nonce_def sample_server_def bucket_insert_def bucket_new_def has_local_prefix_def consume_and_insert_def
        sample_env_def)
  have "account_id_from_kid ''b'' ''b/acme/account/a1'' = Inr ''a1''" by (simp add: account_id_from_kid_def strip_prefix_def)
  moreover have "\<exists>s2. account_of_kid (sample_env 65) ''a1'' ?s1 = (Inr \<lparr>cac_spki_der = [], cac_jwk_thumbprint = ''a1'', cac_status = ''valid'',
      cac_cached_at = 7\<rparr>, s2)"
    by (simp add: account_of_kid_def cached_entry_def sample_server_def sample_account_def run_then_def pure_def modify_def
        sample_env_def account_from_valid Let_def)
  ultimately obtain s2 where k: "signing_key (sample_env 65) sample_config (KeyKid ''b/acme/account/a1'') ?s1
      = (Inr ([], Some ''a1'', Some ''a1''), s2)"
    by (auto simp: signing_key_def run_then_def pure_def sample_config_def)
  obtain s3 where v: "verify_request (sample_env 65) ?jws [] (Some ''a1'') s2 = (Inr (), s3)"
    by (simp add: verify_request_def j sample_verifies)
  have d: "decode_payload sample_acme_jose ?jws = Inr []" by (simp add: decode_payload_def)
  show ?thesis
    using g t k v by (simp add: parse_jws_def Let_def j sample_parsed run_then_def pure_def jose_result_def sample_header_decoded d)
qed

theorem request_accepted_once_witness:
  "\<exists>ctx st1 st3. parse_jws (sample_env 65) sample_config sample_body ''u'' sample_server = (Inr ctx, st1)
     \<and> serves sample_acme_jose sample_config ''n1'' st1 (st1\<lparr>sv_app := sample_state\<rparr>)
     \<and> parse_jws (sample_env 66) sample_config sample_body ''u'' (st1\<lparr>sv_app := sample_state\<rparr>) = (Inl (BadNonce ''B''), st3)"
proof -
  obtain ctx st1 where p: "parse_jws (sample_env 65) sample_config sample_body ''u'' sample_server = (Inr ctx, st1)"
    and c: "jc_next_nonce ctx = ''A''" "jh_nonce (jc_header ctx) = ''n1''"
    using sample_accepted by metis
  have j: "ev_jose (sample_env b) = sample_acme_jose" for b by (simp add: sample_env_def)
  have s: "serves sample_acme_jose sample_config ''n1'' st1 (st1\<lparr>sv_app := sample_state\<rparr>)"
    by (rule serves_gossip [OF serves_refl])
  have "nb_node_prefix (sv_nonces st1) = []"
    by (rule parse_jws_ok [OF p]) (simp add: sample_server_def bucket_insert_def bucket_new_def)
  then have g: "gen_nonce (sample_env 66) (nb_node_prefix (sv_nonces (st1\<lparr>sv_app := sample_state\<rparr>))) = Inr ''B''"
    by (simp add: gen_nonce_def sample_acme_defs sample_chars)
  show ?thesis
  proof -
    have "\<exists>st3. parse_jws (sample_env 66) sample_config sample_body ''u'' (st1\<lparr>sv_app := sample_state\<rparr>) = (Inl (BadNonce ''B''), st3)
      \<and> hm_get (nb_inner (sv_nonces st3)) ''B'' = Some (ev_now (sample_env 66)) \<and> sv_app st3 = sv_app (st1\<lparr>sv_app := sample_state\<rparr>)"
    proof (rule request_accepted_once [OF p _ _ _ _ _ _ g])
      show "from_slice (ev_jose (sample_env 66)) jws_of_json sample_body
          = Inr \<lparr>jws_protected = ''h'', jws_payload = [], jws_signature = ''s''\<rparr>" by (simp add: j sample_parsed)
      show "decode_header (ev_jose (sample_env 66)) \<lparr>jws_protected = ''h'', jws_payload = [], jws_signature = ''s''\<rparr>
          = Inr \<lparr>jh_alg = ''EdDSA'', jh_nonce = ''n1'', jh_url = ''u'', jh_key_ref = KeyKid ''b/acme/account/a1''\<rparr>"
        by (simp add: j sample_header_decoded)
    qed (use c s j in simp_all)
    with p s show ?thesis by blast
  qed
qed


theorem stale_key_bounded_witness:
  "\<exists>ctx st' row. parse_jws (sample_env 65) sample_config sample_body ''u'' sample_server = (Inr ctx, st')
     \<and> history sample_acme_jose sample_config [(7, sv_db sample_server)] sample_server
     \<and> find (\<lambda>r. acc_id r = ''a1'') (db_accounts (sv_db sample_server)) = Some row \<and> acc_status row = ''valid''
     \<and> acc_public_key row = jc_spki_der ctx"
proof -
  obtain ctx st1 where p: "parse_jws (sample_env 65) sample_config sample_body ''u'' sample_server = (Inr ctx, st1)"
    and c: "jc_account_id ctx = Some ''a1''"
    using sample_accepted by metis
  have h: "history sample_acme_jose sample_config [(7, sv_db sample_server)] sample_server"
    by (rule history_start) (simp add: sample_server_def)
  have h': "history (ev_jose (sample_env 65)) sample_config [(7, sv_db sample_server)] sample_server"
    using h by (simp add: sample_env_def)
  from stale_key_bounded [OF h' p c] p h show ?thesis by auto
qed

end
