(* ===== verification/Acme_Effects.thy ===== *)
theory Acme_Effects
  imports Acme_Authority
begin

text \<open>
  What an accepted request may do: who can revoke a certificate, change the key of an account or
  create one, and that a refused request changes nothing in the database.
\<close>

section \<open>Refusals\<close>

definition refuses :: "(acme_server \<Rightarrow> bool) \<Rightarrow> 'a handler \<Rightarrow> bool" where
  "refuses I h \<longleftrightarrow> (\<forall>st e st'. I st \<longrightarrow> h st = (Inl e, st') \<longrightarrow> I st')"

named_theorems refuses_intros

lemma refusesD: "refuses I h \<Longrightarrow> h st = (Inl e, st') \<Longrightarrow> I st \<Longrightarrow> I st'"
  by (simp add: refuses_def)

lemma refuses_then [refuses_intros]:
  assumes "maintains I f" and "\<And>x. refuses I (g x)"
  shows "refuses I (run_then f g)"
  unfolding refuses_def
proof (intro allI impI)
  fix st e st' assume "I st" and r: "run_then f g st = (Inl e, st')"
  obtain x s where fs: "f st = (x, s)" by fastforce
  have "I s" using maintainsD [OF assms(1) \<open>I st\<close>] fs by simp
  then show "I st'" using r fs assms(2) by (auto simp: run_then_def refuses_def split: sum.splits)
qed

lemma refuses_case_prod [refuses_intros]:
  "(\<And>x y. refuses I (f x y)) \<Longrightarrow> refuses I (case v of (x, y) \<Rightarrow> f x y)"
  by (simp split: prod.split)

lemma refuses_pure [refuses_intros]: "refuses I (pure r)"
  by (simp add: refuses_def pure_def)

text \<open>The database is the one the request found.\<close>

definition db_is :: "db \<Rightarrow> acme_server \<Rightarrow> bool" where
  "db_is d st \<longleftrightarrow> sv_db st = d"

lemma db_is_reads [maintains_intros]:
  "maintains (db_is d) (on_db (accounts_get_by_id i))"
  "maintains (db_is d) (on_db (accounts_get_by_thumbprint tp))"
  "maintains (db_is d) (on_db (eab_get_by_kid kid))"
  "maintains (db_is d) (on_db (orders_get_by_id oid))"
  "maintains (db_is d) (on_db (certs_get_by_serial s))"
  by (simp_all add: maintains_def)

lemma db_is_audit [simp]: "db_is d (record_audit a b c e f st) = db_is d st"
  by (simp add: db_is_def)

lemma db_is_parse [maintains_intros]: "maintains (db_is d) (parse_jws ev cf body url)"
  using parse_app by (metis (mono_tags, lifting) db_is_def maintains_def)

section \<open>Revocation\<close>

lemma upd_where_untouched: "affected p rs = 0 \<Longrightarrow> upd_where p f rs = rs"
  by (induction rs) (auto simp: affected_def upd_where_def split: if_splits)

definition revoked_row :: "i64 \<Rightarrow> nat option \<Rightarrow> cert_rec \<Rightarrow> cert_rec" where
  "revoked_row now reason r =
     r\<lparr>crt_status := ''revoked'', crt_revoked_at := Some now, crt_revocation_reason := map_option int reason\<rparr>"

definition revoke_where :: "string \<Rightarrow> cert_rec \<Rightarrow> bool" where
  "revoke_where i r \<longleftrightarrow> crt_id r = i \<and> crt_status r = ''valid''"

lemma certs_revoke_rows:
  "certs_revoke i (map_option int reason) now None d =
     (Inr (affected (revoke_where i) (db_certs d) > 0),
      d\<lparr>db_certs := upd_where (revoke_where i) (revoked_row now reason) (db_certs d)\<rparr>)"
  by (simp add: certs_revoke_def Let_def revoke_where_def [abs_def] revoked_row_def [abs_def])

lemma refuses_revoke:
  assumes "\<And>st e t. g st \<noteq> (Inl e, t)"
  shows "refuses (db_is d) (run_then (on_db (certs_revoke i (map_option int r) now None)) (\<lambda>revoked.
           run_then (pure (ensure revoked AlreadyRevoked)) (\<lambda>_. g)))"
proof -
  have "upd_where (revoke_where i) f (db_certs d) = db_certs d" if "\<not> 0 < affected (revoke_where i) (db_certs d)" for f
    using that by (simp add: upd_where_untouched)
  then show ?thesis
    using assms
    by (auto simp: refuses_def run_then_def on_db_def certs_revoke_rows pure_def ensure_def db_is_def
        split: sum.splits prod.splits if_splits)
qed

text \<open>What a revocation needs: an accepted request for the endpoint of the CA, a certificate of that CA that is
  valid and not renewed automatically, an admissible reason, and the account that owns the certificate
  or the key in it.\<close>

definition revocation_granted ::
  "'k acme_env \<Rightarrow> acme_config \<Rightarrow> string \<Rightarrow> bytes \<Rightarrow> acme_server \<Rightarrow> cert_rec \<Rightarrow> nat option \<Rightarrow> bool" where
  "revocation_granted ev cf ca_id body st cert reason \<longleftrightarrow>
     (\<exists>ctx st1. parse_jws ev cf body (acme_prefix cf ca_id @ ''/revoke-cert'') st = (Inr ctx, st1)
        \<and> (case jc_account_id ctx of
             Some i \<Rightarrow> crt_account_id cert = i
           | None \<Rightarrow> extract_spki_der ev (crt_der cert) = Inr (jc_spki_der ctx)))
     \<and> cert \<in> set (db_certs (sv_db st)) \<and> crt_ca_id cert = ca_id \<and> crt_status cert = ''valid''
     \<and> (\<forall>ord. find (\<lambda>r. ord_id r = crt_order_id cert) (db_orders (sv_db st)) = Some ord \<longrightarrow> ord_star_end_date ord = None)
     \<and> (case reason of Some r \<Rightarrow> r \<le> 10 \<and> r \<noteq> 7 | None \<Rightarrow> True)"

lemma cert_of_sel [simp]:
  "crt_id (cert_of r) = crt_id r" "crt_ca_id (cert_of r) = crt_ca_id r" "crt_status (cert_of r) = crt_status r"
  "crt_order_id (cert_of r) = crt_order_id r" "crt_account_id (cert_of r) = crt_account_id r" "crt_der (cert_of r) = crt_der r"
  "crt_serial_number (cert_of r) = crt_serial_number r" "crt_mtc_log_index (cert_of r) = crt_mtc_log_index r"
  by (simp_all add: certificate_row.defs)

lemma cert_from_valid: "cert_from_str s = Some c \<Longrightarrow> c \<noteq> CertRevoked \<Longrightarrow> s = ''valid''"
  by (auto simp: cert_from_str_def split: if_splits)

lemma revoke_cert_ok:
  assumes "revoke_cert ev cf ca_id body st = (Inr reply, st')"
  shows "\<exists>cert reason. revocation_granted ev cf ca_id body st cert reason
    \<and> sv_db st' = (sv_db st)\<lparr>db_certs := upd_where (revoke_where (crt_id cert)) (revoked_row (ev_now ev) reason) (db_certs (sv_db st))\<rparr>
    \<and> \<not> (\<exists>crl. hm_get (sv_crl_caches st') ca_id = Some (Some crl))
    \<and> (case crt_mtc_log_index cert of Some idx \<Rightarrow> list_ex (same_range ca_id idx idx) (sv_revoked_ranges st') | None \<Rightarrow> True)"
proof -
  from assms obtain ctx st1 cert reason s where
    p: "parse_jws ev cf body (acme_prefix cf ca_id @ ''/revoke-cert'') st = (Inr ctx, st1)"
    and r: "case reason of Some r \<Rightarrow> r \<le> 10 \<and> r \<noteq> 7 | None \<Rightarrow> True"
    and f: "find (\<lambda>r. crt_serial_number r = s) (db_certs (sv_db st1)) = Some cert"
    and ca: "crt_ca_id cert = ca_id" and stt: "crt_status cert = ''valid''"
    and star: "\<not> (case find (\<lambda>r. ord_id r = crt_order_id cert) (db_orders (sv_db st1)) of Some o1 \<Rightarrow> ord_star_end_date o1 \<noteq> None | None \<Rightarrow> False)"
    and may: "may_revoke ev ctx (cert_of cert) = Inr ()"
    and st': "st' = invalidate_crl_cache (crt_ca_id cert)
       ((\<lambda>s. s\<lparr>sv_app := on_cert_tombstone (ev_lock_ok ev) (sv_app s) (crt_id cert) (ev_now ev)\<rparr>)
         (record_audit ''CertRevoke'' True (Some (''acme:'' @ (case jc_jwk_thumbprint ctx of Some t \<Rightarrow> t | None \<Rightarrow> []))) (Some (crt_serial_number cert)) None
           (record_revoked_range (ev_now ev) (cert_of cert)
             (set_db ((sv_db st1)\<lparr>db_certs := upd_where (revoke_where (crt_id cert)) (revoked_row (ev_now ev) reason) (db_certs (sv_db st1))\<rparr>) st1))))"
    by (auto simp: revoke_cert_def Let_def handler_ok certs_revoke_rows on_app_def split: prod.splits dest: cert_from_valid)
  have app: "sv_app st1 = sv_app st" using parse_app [of ev cf body "acme_prefix cf ca_id @ ''/revoke-cert''" st] p by simp
  have "revocation_granted ev cf ca_id body st cert reason"
    unfolding revocation_granted_def
    using p r find_SomeD [OF f] ca stt star may app
    by (auto simp: may_revoke_def and_then_Inr split: option.splits)
  moreover have "sv_db st' = (sv_db st)\<lparr>db_certs := upd_where (revoke_where (crt_id cert)) (revoked_row (ev_now ev) reason) (db_certs (sv_db st))\<rparr>"
    using st' app by (simp add: invalidate_crl_cache_def record_revoked_range_def on_cert_tombstone_def split: option.split)
  moreover have "\<not> (\<exists>crl. hm_get (sv_crl_caches st') ca_id = Some (Some crl))"
    using st' ca by (simp add: invalidate_crl_cache_def hm_get_insert)
  moreover have "case crt_mtc_log_index cert of Some idx \<Rightarrow> list_ex (same_range ca_id idx idx) (sv_revoked_ranges st') | None \<Rightarrow> True"
    using st' ca by (simp add: invalidate_crl_cache_def record_revoked_range_def revoked_ranges_insert_def same_range_def split: option.split)
  ultimately show ?thesis by blast
qed


lemma revoke_cert_refused: "refuses (db_is d) (revoke_cert ev cf ca_id body)"
  unfolding revoke_cert_def Let_def
  by (intro refuses_revoke refuses_intros maintains_intros) (simp add: run_then_def modify_def on_app_def pure_def)

text \<open>C38: Who can revoke. A revocation that succeeds was requested at the endpoint of the CA of the certificate, by
  the account that owns it or with the key in the certificate as it is stored (never with a key the
  request brings along); it changes exactly the rows of that certificate that are valid, drops the
  cached revocation list of the CA and records the log index of the certificate. A refused request
  leaves the database as it was.\<close>

theorem revocation_authorized:
  "case revoke_cert ev cf ca_id body st of
     (Inl e, st') \<Rightarrow> sv_db st' = sv_db st
   | (Inr reply, st') \<Rightarrow> (\<exists>cert reason. revocation_granted ev cf ca_id body st cert reason
       \<and> sv_db st' = (sv_db st)\<lparr>db_certs := upd_where (\<lambda>r. crt_id r = crt_id cert \<and> crt_status r = ''valid'')
            (\<lambda>r. r\<lparr>crt_status := ''revoked'', crt_revoked_at := Some (ev_now ev), crt_revocation_reason := map_option int reason\<rparr>)
            (db_certs (sv_db st))\<rparr>
       \<and> \<not> (\<exists>crl. hm_get (sv_crl_caches st') ca_id = Some (Some crl))
       \<and> (case crt_mtc_log_index cert of Some idx \<Rightarrow> list_ex (same_range ca_id idx idx) (sv_revoked_ranges st') | None \<Rightarrow> True))"
proof (cases "revoke_cert ev cf ca_id body st")
  case (Pair r st')
  show ?thesis
  proof (cases r)
    case (Inl e)
    have "db_is (sv_db st) st'"
      by (rule refusesD [OF revoke_cert_refused]) (use Pair Inl in \<open>simp_all add: db_is_def\<close>)
    then show ?thesis using Pair Inl by (simp add: db_is_def)
  next
    case (Inr reply)
    with Pair have "revoke_cert ev cf ca_id body st = (Inr reply, st')" by simp
    from revoke_cert_ok [OF this] show ?thesis
      unfolding Pair Inr prod.case sum.case revoke_where_def [abs_def] revoked_row_def [abs_def] .
  qed
qed

section \<open>Change of key\<close>

text \<open>The inner request: signed by the new key, naming the account and the key it is to replace.\<close>

definition rollover_signed :: "'k jose_ext \<Rightarrow> string \<Rightarrow> jws_ctx \<Rightarrow> bytes \<Rightarrow> string \<Rightarrow> bool" where
  "rollover_signed jo account_url ctx new_spki new_tp \<longleftrightarrow>
     (\<exists>inner header new_jwk bs old_key. from_slice jo jws_of_json (jc_payload ctx) = Inr inner
        \<and> decode_header jo inner = Inr header \<and> jh_key_ref header = KeyJwk new_jwk
        \<and> to_spki_der jo new_jwk = Inr new_spki \<and> thumbprint jo new_jwk = Inr new_tp
        \<and> jws_verify jo inner new_spki = Inr ()
        \<and> decode_payload jo inner = Inr bs \<and> from_slice jo inner_payload_of_json bs = Inr (account_url, old_key)
        \<and> to_spki_der jo old_key = Inr (jc_spki_der ctx))"

lemma require_jwk_Inr [simp]: "require_jwk m k = Inr jwk \<longleftrightarrow> k = KeyJwk jwk"
  by (auto simp: require_jwk_def split: jws_key_ref.splits)

lemma check_inner_ok:
  "check_inner jo url (jc_spki_der ctx) (jc_payload ctx) = Inr (k, tp) \<Longrightarrow> rollover_signed jo url ctx k tp"
  by (auto simp: check_inner_def and_then_Inr rollover_signed_def)

definition key_where :: "string \<Rightarrow> account_row \<Rightarrow> bool" where
  "key_where i r \<longleftrightarrow> acc_id r = i \<and> acc_status r = ''valid''"

definition rekeyed :: "bytes \<Rightarrow> string \<Rightarrow> i64 \<Rightarrow> account_row \<Rightarrow> account_row" where
  "rekeyed k tp now r = r\<lparr>acc_public_key := k, acc_jwk_thumbprint := tp, acc_updated := now\<rparr>"

lemma key_change_ok:
  assumes "key_change ev cf ca_id body st = (Inr reply, st')"
  shows "\<exists>ctx st1 i k tp. parse_jws ev cf body (acme_prefix cf ca_id @ ''/key-change'') st = (Inr ctx, st1)
    \<and> jc_account_id ctx = Some i \<and> rollover_signed (ev_jose ev) (acme_prefix cf ca_id @ ''/account/'' @ i) ctx k tp
    \<and> find (\<lambda>r. acc_jwk_thumbprint r = tp) (db_accounts (sv_db st)) = None
    \<and> sv_db st' = (sv_db st)\<lparr>db_accounts := upd_where (key_where i) (rekeyed k tp (ev_now ev)) (db_accounts (sv_db st))\<rparr>
    \<and> hm_get (sv_spki_cache st') i = None"
proof -
  from assms obtain ctx st1 i k tp where
    p: "parse_jws ev cf body (acme_prefix cf ca_id @ ''/key-change'') st = (Inr ctx, st1)"
    and i: "jc_account_id ctx = Some i"
    and c: "check_inner (ev_jose ev) (acme_prefix cf ca_id @ ''/account/'' @ i) (jc_spki_der ctx) (jc_payload ctx) = Inr (k, tp)"
    and f: "find (\<lambda>r. acc_jwk_thumbprint r = tp) (db_accounts (sv_db st1)) = None"
    and st': "sv_db st' = (sv_db st1)\<lparr>db_accounts := upd_where (key_where i) (rekeyed k tp (ev_now ev)) (db_accounts (sv_db st1))\<rparr>"
      "sv_spki_cache st' = AList.delete i (sv_spki_cache st1)"
    by (auto simp: key_change_def Let_def handler_ok accounts_update_key_def evict_def key_where_def [abs_def] rekeyed_def [abs_def]
        split: prod.splits if_splits)
  have app: "sv_app st1 = sv_app st" using parse_app [of ev cf body "acme_prefix cf ca_id @ ''/key-change''" st] p by simp
  show ?thesis using p i check_inner_ok [OF c] f st' app by (auto simp: AList.delete_conv')
qed


lemma refuses_rekey:
  "refuses (db_is d) (run_then (on_db (accounts_update_key msg i k tp now)) (\<lambda>_. run_then (evict i) (\<lambda>_.
     run_then (modify (record_audit a b c e f)) (\<lambda>_. run_then (on_db (accounts_get_by_id i)) (\<lambda>row.
     run_then (pure (ok_or AccountDoesNotExist row)) (\<lambda>account. pure (Inr (g account))))))))"
proof -
  have same: "upd_where p f rs = rs" if "find (\<lambda>r. acc_id r = i) (upd_where p f rs) = None" "\<And>r. p r \<Longrightarrow> acc_id (f r) = i"
    for p :: "account_row \<Rightarrow> bool" and f rs
    using that by (induction rs) (auto simp: upd_where_def split: if_splits)
  show ?thesis
    unfolding refuses_def
    by (auto simp: db_is_def run_then_def on_db_def [of "accounts_update_key msg i k tp now"] accounts_update_key_def Let_def
        evict_def modify_def pure_def ok_or_def set_db_def split: if_splits option.splits dest!: same)
qed

lemma key_change_refused: "refuses (db_is d) (key_change ev cf ca_id body)"
  unfolding key_change_def Let_def by (intro refuses_rekey refuses_intros maintains_intros)

text \<open>C37: A key is changed by both its holders. A change of key that succeeds was requested by the account with its
  present key, and the request contains one that is signed with the new key and names the account and
  the present key; no account had the new key. It changes the key of that account and nothing else in
  the database, and leaves no cached key for the account. A refused request leaves the database as it was.\<close>

theorem key_change_needs_both_keys:
  "case key_change ev cf ca_id body st of
     (Inl e, st') \<Rightarrow> sv_db st' = sv_db st
   | (Inr reply, st') \<Rightarrow> (\<exists>ctx st1 i k tp.
       parse_jws ev cf body (acme_prefix cf ca_id @ ''/key-change'') st = (Inr ctx, st1) \<and> jc_account_id ctx = Some i
       \<and> rollover_signed (ev_jose ev) (acme_prefix cf ca_id @ ''/account/'' @ i) ctx k tp
       \<and> find (\<lambda>r. acc_jwk_thumbprint r = tp) (db_accounts (sv_db st)) = None
       \<and> sv_db st' = (sv_db st)\<lparr>db_accounts := upd_where (\<lambda>r. acc_id r = i \<and> acc_status r = ''valid'')
            (\<lambda>r. r\<lparr>acc_public_key := k, acc_jwk_thumbprint := tp, acc_updated := ev_now ev\<rparr>) (db_accounts (sv_db st))\<rparr>
       \<and> hm_get (sv_spki_cache st') i = None)"
proof (cases "key_change ev cf ca_id body st")
  case (Pair r st')
  show ?thesis
  proof (cases r)
    case (Inl e)
    have "db_is (sv_db st) st'"
      by (rule refusesD [OF key_change_refused]) (use Pair Inl in \<open>simp_all add: db_is_def\<close>)
    then show ?thesis using Pair Inl by (simp add: db_is_def)
  next
    case (Inr reply)
    with Pair have "key_change ev cf ca_id body st = (Inr reply, st')" by simp
    from key_change_ok [OF this] show ?thesis
      unfolding Pair Inr prod.case sum.case key_where_def [abs_def] rekeyed_def [abs_def] .
  qed
qed

section \<open>Creation of accounts\<close>

lemma store_account_ok:
  assumes "store_account ev row k st = (Inr (), st')"
  shows "\<exists>d. exec_new_account (ev_msg ev) row k (ev_now ev) (sv_db st) = (Inr (), d) \<and> st' = set_db d st"
proof -
  have "exec_new_account msg row k now d = (Inr (), d')" if "submit_new_account msg io row k now d = (Inr (), d')" for msg io now d d'
    using that by (auto simp: submit_new_account_def coalesce_batch_def map_prod_def send_error_def split: prod.splits if_splits sum.splits)
  moreover have "exec_new_account msg row k now d = (Inr (), d')" if "own_tx msg io (exec_new_account msg row k now) d = (Inr (), d')" for msg io now d d'
    using that by (auto simp: own_tx_def split: prod.splits if_splits sum.splits)
  ultimately show ?thesis using assms by (auto simp: store_account_def on_db_Inr split: if_splits)
qed


text \<open>A binding that was honoured: a key of the table that was not used, with a valid authentication code over the
  key of the new account.\<close>

definition binding_honoured ::
  "'k acme_env \<Rightarrow> string \<Rightarrow> string \<Rightarrow> db \<Rightarrow> string \<times> string option \<times> string option \<Rightarrow> bool" where
  "binding_honoured ev url tp d b \<longleftrightarrow>
     (\<exists>key_row eab hmac_key. find (\<lambda>r. eab_kid r = fst b) (db_eab_keys d) = Some key_row \<and> eab_used_at key_row = None
        \<and> jo_b64u_decode (ev_jose ev) (eab_hmac_key_b64u key_row) = Inr hmac_key
        \<and> verify_eab_jws ev eab url (fst b) tp hmac_key = Inr ()
        \<and> snd b = (eab_profile_grants key_row, eab_bound_principal key_row))"

lemma no_error_iff: "(\<forall>x. r \<noteq> Inl x) \<longleftrightarrow> r = Inr ()"
  by (cases r) auto

lemma verified_eab_ok:
  assumes "verified_eab ev cf url tp payload st = (Inr b, st')"
  shows "if ac_external_account_required cf then \<exists>x. b = Some x \<and> binding_honoured ev url tp (sv_db st) x else b = None"
    and "sv_app st' = sv_app st"
  using assms
  by (auto simp: verified_eab_def handler_ok binding_honoured_def no_error_iff split: if_splits sum.splits)

lemma exec_new_account_ok:
  assumes "exec_new_account msg row k now d = (Inr (), d')"
  shows "d' = d\<lparr>db_accounts := db_accounts d @ [row], db_eab_keys := (case k of
      None \<Rightarrow> db_eab_keys d
    | Some kid \<Rightarrow> upd_where (\<lambda>r. eab_kid r = kid \<and> eab_used_at r = None) (\<lambda>r. r\<lparr>eab_used_at := Some now\<rparr>) (db_eab_keys d))\<rparr>"
    and "acc_jwk_thumbprint row \<notin> set (map acc_jwk_thumbprint (db_accounts d))"
  using assms
  by (auto simp: exec_new_account_def db_then_def accounts_insert_def sql_insert_def eab_mark_used_def db_ok_def Let_def
      split: option.splits if_splits)

lemma problem_reply_status: "400 \<le> rp_status (acme_headers ev cf ca n (problem_reply ev e))"
  using http_status_range [of e]
  by (auto simp: acme_headers_def problem_reply_def plain_reply_def into_response_def Let_def split: option.splits)

lemma json_response_status [simp]: "rp_status (json_response ev cf ca s b n) = s"
  by (simp add: json_response_def acme_headers_def plain_reply_def Let_def split: option.split)

lemma with_location_Inr: "with_location ev u r = Inr r' \<Longrightarrow> rp_status r' = rp_status r"
  by (auto simp: with_location_def split: if_splits)

text \<open>What a new account looks like.\<close>

definition created_account ::
  "'k acme_env \<Rightarrow> acme_config \<Rightarrow> string \<Rightarrow> jws_ctx \<Rightarrow> string \<Rightarrow> db \<Rightarrow> db \<Rightarrow> bool" where
  "created_account ev cf url ctx tp d d' \<longleftrightarrow>
     (\<exists>row b. acc_status row = ''valid'' \<and> acc_public_key row = jc_spki_der ctx \<and> acc_jwk_thumbprint row = tp
        \<and> tp \<notin> set (map acc_jwk_thumbprint (db_accounts d))
        \<and> (if ac_external_account_required cf then \<exists>x. b = Some x \<and> binding_honoured ev url tp d x else b = None)
        \<and> acc_profile_grants row = Option.bind b (\<lambda>(_, g, _). g)
        \<and> d' = d\<lparr>db_accounts := db_accounts d @ [row], db_eab_keys := (case b of
            None \<Rightarrow> db_eab_keys d
          | Some (kid, _) \<Rightarrow> upd_where (\<lambda>r. eab_kid r = kid \<and> eab_used_at r = None)
              (\<lambda>r. r\<lparr>eab_used_at := Some (ev_now ev)\<rparr>) (db_eab_keys d))\<rparr>)"


lemma create_account_ok:
  assumes "create_account ev cf ca_id ctx tp payload st = (Inr reply, st')"
  shows "rp_status reply = 201"
    and "created_account ev cf (acme_prefix cf ca_id @ ''/new-account'') ctx tp (sv_db st) (sv_db st')"
proof -
  let ?url = "acme_prefix cf ca_id @ ''/new-account''"
  let ?row = "\<lambda>b contact. \<lparr>acc_id = ev_uuid ev, acc_status = account_as_str AccountValid, acc_contact = contact,
      acc_public_key = jc_spki_der ctx, acc_jwk_thumbprint = tp, acc_created = ev_now ev, acc_updated = ev_now ev,
      acc_profile_grants = Option.bind b (\<lambda>(_, g, _). g), acc_ca_id = [],
      acc_kerberos_principal = Option.bind b (\<lambda>(_, _, p). p)\<rparr>"
  show "rp_status reply = 201"
    using assms by (auto simp: create_account_def Let_def handler_ok dest: with_location_Inr)
  have "\<exists>b s1. verified_eab ev cf ?url tp payload st = (Inr b, s1) \<and> (\<exists>contact u s2.
      store_account ev (?row b contact) (map_option fst b) s1 = (Inr u, s2) \<and> sv_db st' = sv_db s2)"
    using assms unfolding create_account_def Let_def run_then_Inr pure_Inr on_app_def modify_Inr
    by - (clarify, intro exI conjI, assumption, assumption, simp add: on_account_upsert_def)
  then obtain b s1 contact s2 where b: "verified_eab ev cf ?url tp payload st = (Inr b, s1)"
    and s: "store_account ev (?row b contact) (map_option fst b) s1 = (Inr (), s2)" and d: "sv_db st' = sv_db s2"
    by auto
  note b = verified_eab_ok [OF b]
  from store_account_ok [OF s] obtain d' where
    e: "exec_new_account (ev_msg ev) (?row b contact) (map_option fst b) (ev_now ev) (sv_db s1) = (Inr (), d')" and s2: "s2 = set_db d' s1"
    by blast
  show "created_account ev cf ?url ctx tp (sv_db st) (sv_db st')"
    unfolding created_account_def using b exec_new_account_ok [OF e] d s2
    by (intro exI [of _ "?row b contact"] exI [of _ b]) (auto split: option.splits)
qed

lemma new_account_ok:
  assumes "new_account ev cf matched ca_id body st = (Inr reply, st')"
  shows "\<exists>ctx st1 jwk payload tp. parse_jws ev cf body (acme_prefix cf ca_id @ ''/new-account'') st = (Inr ctx, st1)
    \<and> jh_key_ref (jc_header ctx) = KeyJwk jwk \<and> thumbprint (ev_jose ev) jwk = Inr tp
    \<and> ((\<exists>existing. find (\<lambda>r. acc_jwk_thumbprint r = tp) (db_accounts (sv_db st1)) = Some existing
          \<and> rp_status reply = 200 \<and> st' = st1)
       \<or> create_account ev cf ca_id ctx tp payload st1 = (Inr reply, st')
       \<or> (400 \<le> rp_status reply \<and> st' = st1))"
proof -
  let ?url = "acme_prefix cf ca_id @ ''/new-account''"
  from assms obtain ctx st1 where p: "parse_jws ev cf body ?url st = (Inr ctx, st1)"
    by (auto simp: new_account_def Let_def handler_ok split: if_splits)
  from assms p obtain jwk payload tp where k: "jh_key_ref (jc_header ctx) = KeyJwk jwk"
    and pl: "require_payload (ev_jose ev) new_account_payload_of_json (jc_payload ctx) ''new-account'' = Inr payload"
    and tp: "thumbprint (ev_jose ev) jwk = Inr tp"
    by (auto simp: new_account_def Let_def handler_ok split: if_splits)
  have "(\<exists>existing. find (\<lambda>r. acc_jwk_thumbprint r = tp) (db_accounts (sv_db st1)) = Some existing
          \<and> rp_status reply = 200 \<and> st' = st1)
       \<or> create_account ev cf ca_id ctx tp payload st1 = (Inr reply, st')
       \<or> (400 \<le> rp_status reply \<and> st' = st1)"
  proof (cases "find (\<lambda>r. acc_jwk_thumbprint r = tp) (db_accounts (sv_db st1))")
    case (Some existing)
    then show ?thesis
      using assms p k pl tp
      by (auto simp: new_account_def Let_def handler_ok split: if_splits dest: with_location_Inr)
  next
    case None
    then show ?thesis
      using assms p k pl tp problem_reply_status [of ev cf ca_id "jc_next_nonce ctx" AccountDoesNotExist]
        problem_reply_status [of ev cf ca_id "jc_next_nonce ctx" "UserActionRequired ''you must agree to the terms of service''"]
      by (auto simp: new_account_def Let_def handler_ok split: if_splits option.splits)
  qed
  with p k tp show ?thesis by blast
qed


text \<open>Where an account of a CA other than the default one lives, and that a request signed in its name is refused.\<close>

lemma per_ca_kid_refused:
  assumes "ca_id \<noteq> ac_default_ca_id cf" and "ca_id \<noteq> ''account''" and "CHR ''/'' \<notin> set ca_id"
  shows "signing_key ev cf (KeyKid (acme_prefix cf ca_id @ ''/account/'' @ i)) st
    = (Inl (Unauthorized (''kid '' @ quoted (acme_prefix cf ca_id @ ''/account/'' @ i) @ '' does not match server base URL'')), st)"
proof -
  have "take 8 (ca_id @ ''/account/'' @ i) \<noteq> ''account/''"
  proof
    assume t: "take 8 (ca_id @ ''/account/'' @ i) = ''account/''"
    have "takeWhile (\<lambda>c. c \<noteq> CHR ''/'') (ca_id @ rest) = ca_id @ takeWhile (\<lambda>c. c \<noteq> CHR ''/'') rest" for rest
      using assms(3) by (intro takeWhile_append2) auto
    from this [of "''/account/'' @ i"]
    have "takeWhile (\<lambda>c. c \<noteq> CHR ''/'') (ca_id @ ''/account/'' @ i) = ca_id" by simp
    moreover have "ca_id @ ''/account/'' @ i = ''account/'' @ drop 8 (ca_id @ ''/account/'' @ i)"
      using t append_take_drop_id [of 8 "ca_id @ ''/account/'' @ i"] by simp
    then have "takeWhile (\<lambda>c. c \<noteq> CHR ''/'') (ca_id @ ''/account/'' @ i)
        = takeWhile (\<lambda>c. c \<noteq> CHR ''/'') (''account/'' @ drop 8 (ca_id @ ''/account/'' @ i))" by simp
    then have "takeWhile (\<lambda>c. c \<noteq> CHR ''/'') (ca_id @ ''/account/'' @ i) = ''account''" by simp
    ultimately show False using assms(2) by simp
  qed
  then have "strip_prefix (ac_base_url cf @ ''/acme/account/'') (acme_prefix cf ca_id @ ''/account/'' @ i) = None"
    using assms(1) by (simp add: strip_prefix_def acme_prefix_def numeral_eq_Suc)
  then show ?thesis by (simp add: signing_key_def account_id_from_kid_def run_then_def pure_def)
qed


lemma created_location:
  assumes "new_account ev cf matched ca_id body st = (Inr reply, st')" and "rp_status reply = 201"
  shows "rp_location reply = Some (acme_prefix cf ca_id @ ''/account/'' @ ev_uuid ev)"
proof -
  have loc: "rp_location r' = Some u" if "with_location ev u r = Inr r'" for u r r'
    using that by (auto simp: with_location_def split: if_splits)
  obtain ctx tp payload s where "create_account ev cf ca_id ctx tp payload s = (Inr reply, st')"
    using new_account_ok [OF assms(1)] assms(2) by auto
  then show ?thesis by (auto simp: create_account_def Let_def handler_ok dest: loc)
qed

text \<open>C39: An account of a CA of its own cannot be used. When accounts are scoped to CAs, an account that is created at a
  CA other than the default one is given the URL of that CA, and every request that is signed in its
  name, as the protocol prescribes with that URL, is refused, at every endpoint and in every state.\<close>

theorem per_ca_account_refused:
  assumes "new_account ev cf matched ca_id body st = (Inr reply, st')" and "rp_status reply = 201"
    and "ca_id \<noteq> ac_default_ca_id cf" and "ca_id \<noteq> ''account''" and "CHR ''/'' \<notin> set ca_id"
  shows "\<exists>kid. rp_location reply = Some kid
    \<and> (\<forall>jws header ev2 body2 url2 st2. from_slice (ev_jose (ev2 :: 'k acme_env)) jws_of_json body2 = Inr jws
         \<longrightarrow> decode_header (ev_jose ev2) jws = Inr header \<longrightarrow> jh_key_ref header = KeyKid kid
         \<longrightarrow> (\<exists>e. fst (parse_jws ev2 cf body2 url2 st2) = Inl e))"
proof -
  let ?kid = "acme_prefix cf ca_id @ ''/account/'' @ ev_uuid ev"
  have refused: "\<exists>e. fst (parse_jws ev2 cf body2 url2 st2) = Inl e"
    if h: "from_slice (ev_jose ev2) jws_of_json body2 = Inr jws" "decode_header (ev_jose ev2) jws = Inr header"
    "jh_key_ref header = KeyKid ?kid" for jws header body2 url2 st2 and ev2 :: "'k acme_env"
  proof (rule ccontr)
    assume "\<nexists>e. fst (parse_jws ev2 cf body2 url2 st2) = Inl e"
    then obtain ctx t where p: "parse_jws ev2 cf body2 url2 st2 = (Inr ctx, t)"
      by (metis old.sum.exhaust prod.collapse)
    then obtain s1 s2 x where "signing_key ev2 cf (KeyKid ?kid) s1 = (Inr x, s2)"
      using h by (auto simp: parse_jws_def Let_def handler_ok split: if_splits)
    then show False using per_ca_kid_refused [OF assms(3-5), of ev2 "ev_uuid ev" s1] by simp
  qed
  show ?thesis
    by (rule exI [of _ ?kid]) (use created_location [OF assms(1,2)] refused in blast)
qed


section \<open>A sample account\<close>

definition sample_jwk_header :: json where
  "sample_jwk_header = JObject [(''alg'', JString ''EdDSA''), (''nonce'', JString ''n1''), (''url'', JString ''b/acme/x/new-account''),
     (''jwk'', JObject [(''kty'', JString ''RSA''), (''n'', JString ''n''), (''e'', JString ''e'')])]"

definition sample_new_account_json :: json where
  "sample_new_account_json = JObject [(''protected'', JString ''h''), (''payload'', JString ''p''), (''signature'', JString ''s'')]"

definition sample_jwk_env :: "unit acme_env" where
  "sample_jwk_env = (sample_env 65)\<lparr>ev_jose := sample_acme_jose\<lparr>jo_sha256 := \<lambda>_. Inr [],
     jo_json_parse := \<lambda>bs. Inr (if bs = sample_body then sample_new_account_json
                                 else if bs = [112] then JObject [] else sample_jwk_header)\<rparr>\<rparr>"

definition sample_ca_config :: acme_config where
  "sample_ca_config = sample_config\<lparr>ac_cas := [''ca'', ''x''], ac_account_scope := ''ca''\<rparr>"

lemmas sample_account_defs = sample_jwk_header_def sample_new_account_json_def sample_jwk_env_def sample_ca_config_def
  sample_acme_defs

lemma sample_account_created:
  "\<exists>reply st'. new_account sample_jwk_env sample_ca_config ''/acme/{ca_id}/new-account'' ''x'' sample_body sample_server = (Inr reply, st')
     \<and> rp_status reply = 201"
proof -
  let ?jo = "ev_jose sample_jwk_env"
  let ?jwk = "\<lparr>kty = ''RSA'', jwk_crv = None, jwk_x = None, jwk_y = None, jwk_n = Some ''n'', jwk_e = Some ''e'', jwk_alg = None, jwk_pub = None\<rparr>"
  let ?jws = "\<lparr>jws_protected = ''h'', jws_payload = ''p'', jws_signature = ''s''\<rparr>"
  let ?h = "\<lparr>jh_alg = ''EdDSA'', jh_nonce = ''n1'', jh_url = ''b/acme/x/new-account'', jh_key_ref = KeyJwk ?jwk\<rparr>"
  have jws: "from_slice ?jo jws_of_json sample_body = Inr ?jws"
    by (simp add: sample_account_defs from_slice_def jws_of_json_def json_get_def json_as_str_def)
  have h: "decode_header ?jo ?jws = Inr ?h"
    by (simp add: sample_account_defs decode_header_def from_slice_def header_of_json_def key_ref_of_json_def json_get_def
        json_as_str_def jwk_of_json_def json_opt_field_def json_is_object_def)
  have v: "jws_verify ?jo ?jws k = Inr ()" for k
    unfolding jws_verify_def h
    by (simp add: ml_dsa_sig_len_def verify_with_spki_def sig_for_alg_def sample_account_defs)
  have p: "decode_payload ?jo ?jws = Inr [112]"
    by (simp add: decode_payload_def sample_account_defs)
  have url: "acme_prefix sample_ca_config ''x'' @ ''/new-account'' = ''b/acme/x/new-account''"
    by (simp add: acme_prefix_def sample_account_defs)
  have g: "gen_nonce sample_jwk_env (nb_node_prefix (sv_nonces sample_server)) = Inr ''A''"
    by (simp add: gen_nonce_def sample_account_defs sample_chars bucket_insert_def bucket_new_def)
  let ?s1 = "sample_server\<lparr>sv_nonces := \<lparr>nb_inner = [(''A'', 5)], nb_node_prefix = [], nb_prefix_dot = []\<rparr>\<rparr>"
  have t: "take_nonce sample_jwk_env ''n1'' ''A'' sample_server = (Inr (), ?s1)"
    by (simp add: take_nonce_def sample_account_defs bucket_insert_def bucket_new_def has_local_prefix_def consume_and_insert_def)
  obtain spki where spki: "to_spki_der ?jo ?jwk = Inr spki"
    by (simp add: to_spki_der_def rsa_to_spki_der_def b64u_member_def member_def sample_account_defs)
  have k: "signing_key sample_jwk_env sample_ca_config (KeyJwk ?jwk) s = (Inr (spki, None, None), s)" for s
    by (simp add: signing_key_def run_then_def pure_def jose_result_def spki)
  let ?s2 = "record_audit ''AuthJwsOk'' True (Some ''new-account'') None None ?s1"
  have r: "verify_request sample_jwk_env ?jws spki None ?s1 = (Inr (), ?s2)"
    by (simp add: verify_request_def v)
  obtain ctx where parsed: "parse_jws sample_jwk_env sample_ca_config sample_body ''b/acme/x/new-account'' sample_server = (Inr ctx, ?s2)"
    and ctx: "jc_header ctx = ?h" "jc_payload ctx = [112]"
    using g t k r by (simp add: parse_jws_def Let_def jws h p run_then_def pure_def jose_result_def)
  have tp: "thumbprint ?jo ?jwk = Inr []"
    by (simp add: thumbprint_def jwk_canonical_def member_def sample_account_defs)
  have pl: "require_payload ?jo new_account_payload_of_json [112] ''new-account''
      = Inr \<lparr>nap_contact = None, nap_terms_of_service_agreed = None, nap_only_return_existing = False,
             nap_external_account_binding = None\<rparr>"
    by (simp add: require_payload_def from_slice_def sample_account_defs new_account_payload_of_json_def json_is_object_def
        json_opt_field_def json_get_def)
  have none: "find (\<lambda>r. acc_jwk_thumbprint r = []) (db_accounts (sv_db ?s2)) = None"
    by (simp add: sample_server_def sample_account_def)
  have store: "\<exists>s. store_account sample_jwk_env row None ?s2 = (Inr (), s)"
    if "acc_id row = ''a9''" "acc_jwk_thumbprint row = []" "acc_status row = ''valid''" for row
    using that
    by (simp add: store_account_def sample_account_defs sample_state_def on_db_def own_tx_def exec_new_account_def db_then_def accounts_insert_def
        sql_insert_def account_from_str_def account_exists_def sample_account_def db_ok_def)
  have create: "\<exists>reply st'. create_account sample_jwk_env sample_ca_config ''x'' ctx []
      \<lparr>nap_contact = None, nap_terms_of_service_agreed = None, nap_only_return_existing = False, nap_external_account_binding = None\<rparr> ?s2
      = (Inr reply, st')"
  proof -
    have "verified_eab sample_jwk_env sample_ca_config u t pl s = (Inr None, s)" for u t pl s
      by (simp add: verified_eab_def sample_ca_config_def sample_config_def pure_def)
    moreover have "ev_uuid sample_jwk_env = ''a9''" "ev_header_ok sample_jwk_env = (\<lambda>_. True)" by (simp_all add: sample_jwk_env_def sample_env_def)
    moreover obtain s0 where "store_account sample_jwk_env \<lparr>acc_id = ''a9'', acc_status = ''valid'', acc_contact = None,
        acc_public_key = jc_spki_der ctx, acc_jwk_thumbprint = [], acc_created = ev_now sample_jwk_env, acc_updated = ev_now sample_jwk_env,
        acc_profile_grants = None, acc_ca_id = [], acc_kerberos_principal = None\<rparr> None ?s2 = (Inr (), s0)"
      using store by (metis account_row.select_convs(1,2,5))
    ultimately show ?thesis
      by (simp add: create_account_def Let_def run_then_def pure_def validate_contacts_def ensure_def on_app_def modify_def with_location_def)
  qed
  then obtain reply st' where c: "create_account sample_jwk_env sample_ca_config ''x'' ctx []
      \<lparr>nap_contact = None, nap_terms_of_service_agreed = None, nap_only_return_existing = False, nap_external_account_binding = None\<rparr> ?s2
      = (Inr reply, st')" by blast
  have "new_account sample_jwk_env sample_ca_config ''/acme/{ca_id}/new-account'' ''x'' sample_body sample_server = (Inr reply, st')"
    using c none parsed pl tp ctx
    by (simp add: new_account_def Let_def url run_then_def pure_def require_jwk_def jose_result_def)
      (simp add: sample_ca_config_def sample_config_def)
  then show ?thesis using create_account_ok(1) [OF c] by blast
qed



definition sample_ca_kid_env :: "unit acme_env" where
  "sample_ca_kid_env = (sample_env 66)\<lparr>ev_jose := sample_acme_jose\<lparr>jo_json_parse := \<lambda>bs. Inr (if bs = sample_body then sample_request_json
     else JObject [(''alg'', JString ''EdDSA''), (''nonce'', JString ''A''), (''url'', JString ''u''),
       (''kid'', JString ''b/acme/x/account/a9'')])\<rparr>\<rparr>"

theorem per_ca_account_refused_witness:
  "\<exists>reply st' e. new_account sample_jwk_env sample_ca_config ''/acme/{ca_id}/new-account'' ''x'' sample_body sample_server
       = (Inr reply, st') \<and> rp_status reply = 201 \<and> rp_location reply = Some ''b/acme/x/account/a9''
     \<and> fst (parse_jws sample_ca_kid_env sample_ca_config sample_body ''u'' st') = Inl e"
proof -
  let ?jws = "\<lparr>jws_protected = ''h'', jws_payload = [], jws_signature = ''s''\<rparr>"
  let ?header = "\<lparr>jh_alg = ''EdDSA'', jh_nonce = ''A'', jh_url = ''u'', jh_key_ref = KeyKid ''b/acme/x/account/a9''\<rparr>"
  obtain reply st' where n: "new_account sample_jwk_env sample_ca_config ''/acme/{ca_id}/new-account'' ''x'' sample_body sample_server
      = (Inr reply, st')" and r: "rp_status reply = 201"
    using sample_account_created by blast
  have "''x'' \<noteq> ac_default_ca_id sample_ca_config" by (simp add: sample_ca_config_def sample_config_def)
  note refused = per_ca_account_refused [OF n r this, where ?'k = unit]
  have loc: "rp_location reply = Some ''b/acme/x/account/a9''"
    using created_location [OF n r] by (simp add: sample_account_defs acme_prefix_def)
  have j: "from_slice (ev_jose sample_ca_kid_env) jws_of_json sample_body = Inr ?jws"
    by (simp add: sample_ca_kid_env_def sample_acme_defs from_slice_def jws_of_json_def json_get_def json_as_str_def)
  have h: "decode_header (ev_jose sample_ca_kid_env) ?jws = Inr ?header"
    by (simp add: sample_ca_kid_env_def sample_acme_defs decode_header_def from_slice_def header_of_json_def key_ref_of_json_def
        json_get_def json_as_str_def)
  have "\<exists>e. fst (parse_jws sample_ca_kid_env sample_ca_config sample_body ''u'' st') = Inl e"
    using refused loc j h by fastforce
  with n r loc show ?thesis by blast
qed

end
