(* ===== verification/Order_Dates.thy ===== *)
theory Order_Dates
  imports Rust_Text Acme_Error
begin

text \<open>
  The dates of an order request: the reading of RFC 3339 texts and the count of days since 1970-01-01
  (\<^verbatim>\<open>src/routes/order.rs\<close>), and the agreement of both with the Gregorian calendar.
\<close>

section \<open>Days since the epoch\<close>

definition is_leap :: "int \<Rightarrow> bool" where
  "is_leap year \<longleftrightarrow> (year mod 4 = 0 \<and> year mod 100 \<noteq> 0) \<or> year mod 400 = 0"

definition max_day :: "int \<Rightarrow> int \<Rightarrow> int" where
  "max_day year month =
     (if month \<in> {1, 3, 5, 7, 8, 10, 12} then 31
      else if month \<in> {4, 6, 9, 11} then 30
      else if is_leap year then 29 else 28)"

definition days_since_epoch :: "i64 \<Rightarrow> i64 \<Rightarrow> i64 \<Rightarrow> i64 option" where
  "days_since_epoch year month day =
     (if \<not> (1 \<le> month \<and> month \<le> 12) \<or> day < 1 \<or> \<not> (1970 \<le> year \<and> year \<le> 9999) then None
      else if day > max_day year month then None
      else
        let m = (if month \<le> 2 then month + 12 else month);
            y = (if month \<le> 2 then year - 1 else year)
        in Some (day + (153 * m - 457) div 5 + 365 * y + y div 4 - y div 100 + y div 400 - 719469))"

section \<open>RFC 3339\<close>

text \<open>
  The two parts of a text around its time zone: the position is searched from the eleventh byte on, and
  a text with fewer than ten bytes, or with a character across that place, is a panic (\<^const>\<open>None\<close>).
\<close>

definition split_zone :: "string \<Rightarrow> (string \<times> string) option option" where
  "split_zone s =
     (case slice_from 10 s of
        None \<Rightarrow> None
      | Some rest \<Rightarrow>
          (case find_char (CHR ''+'') rest of
             Some pos \<Rightarrow> Some (Some (take (10 + pos) s, drop (10 + pos + 1) s))
           | None \<Rightarrow>
               (case rfind_char (CHR ''-'') rest of
                  Some pos \<Rightarrow> Some (Some (take (10 + pos) s, drop (10 + pos + 1) s))
                | None \<Rightarrow> Some None)))"

definition date_fields :: "string \<Rightarrow> (i64 \<times> i64 \<times> i64 \<times> i64 \<times> i64 \<times> i64) option" where
  "date_fields date_time =
     (case split_once (CHR ''T'') date_time of
        None \<Rightarrow> None
      | Some (date, time) \<Rightarrow>
          (case (split_on (CHR ''-'') date, split_on (CHR '':'') time) of
             ([ys, ms, ds], [hs, mins, ss]) \<Rightarrow>
               (case (parse_i64 ys, parse_i64 ms, parse_i64 ds, parse_i64 hs, parse_i64 mins,
                      parse_i64 (hd (split_on (CHR ''.'') ss))) of
                  (Some year, Some month, Some day, Some hour, Some minute, Some second) \<Rightarrow>
                    Some (year, month, day, hour, minute, second)
                | _ \<Rightarrow> None)
           | _ \<Rightarrow> None))"

definition or_zero :: "i64 option \<Rightarrow> i64" where
  "or_zero x = (case x of None \<Rightarrow> 0 | Some n \<Rightarrow> n)"

definition zone_fields :: "string \<Rightarrow> i64 \<times> i64" where
  "zone_fields tz =
     (case split_on (CHR '':'') tz of
        h # m # _ \<Rightarrow> (or_zero (parse_i64 h), or_zero (parse_i64 m))
      | [h] \<Rightarrow> (or_zero (parse_i64 h), 0)
      | [] \<Rightarrow> (0, 0))"

definition parse_rfc3339 :: "string \<Rightarrow> i64 result option" where
  "parse_rfc3339 text0 =
     (let s0 = utf8_trim text0;
          s = (if s0 \<noteq> [] \<and> last s0 \<in> {CHR ''Z'', CHR ''z''} then butlast s0 @ ''+00:00'' else s0);
          err = Inl (BadRequest (''invalid RFC 3339 date: '' @ quoted s))
      in case split_zone s of
           None \<Rightarrow> None
         | Some None \<Rightarrow> Some err
         | Some (Some (date_time, tz)) \<Rightarrow>
             Some (case date_fields date_time of
               None \<Rightarrow> err
             | Some (year, month, day, hour, minute, second) \<Rightarrow>
                 if hour > 23 \<or> minute > 59 \<or> second > 60 then err
                 else
                 let (tz_hours, tz_mins) = zone_fields tz in
                 if tz_hours > 23 \<or> tz_mins > 59 then err
                 else
                 let tz_sign = (if length date_time < length s \<and> s ! length date_time = CHR ''-'' then - 1 else 1);
                     tz_offset_secs = wrap_i64 (tz_sign * wrap_i64 (tz_hours * 3600 + tz_mins * 60))
                 in
                 case days_since_epoch year month day of
                   None \<Rightarrow> err
                 | Some days \<Rightarrow>
                     ok_or (BadRequest (''invalid RFC 3339 date: '' @ quoted s))
                       (Option.bind (checked_i64 (days * 86400)) (\<lambda>d.
                        Option.bind (checked_i64 (d + wrap_i64 (hour * 3600 + minute * 60 + second))) (\<lambda>t.
                        checked_i64 (t - tz_offset_secs))))))"

section \<open>The calendar\<close>

text \<open>The reference: the lengths of the years and months that have passed.\<close>

definition year_length :: "int \<Rightarrow> int" where
  "year_length y = (if is_leap y then 366 else 365)"

definition calendar_days :: "int \<Rightarrow> int \<Rightarrow> int \<Rightarrow> int" where
  "calendar_days year month day =
     (\<Sum>y \<leftarrow> [1970 .. year - 1]. year_length y) + (\<Sum>m \<leftarrow> [1 .. month - 1]. max_day year m) + (day - 1)"

definition valid_date :: "int \<Rightarrow> int \<Rightarrow> int \<Rightarrow> bool" where
  "valid_date year month day \<longleftrightarrow>
     1970 \<le> year \<and> year \<le> 9999 \<and> 1 \<le> month \<and> month \<le> 12 \<and> 1 \<le> day \<and> day \<le> max_day year month"

text \<open>The day count of a year's first of January.\<close>

definition year_start :: "int \<Rightarrow> int" where
  "year_start y = 365 * (y - 1970) + (y - 1) div 4 - (y - 1) div 100 + (y - 1) div 400 - 477"

lemma div_step:
  assumes "0 < (k :: int)"
  shows "y div k = (y - 1) div k + (if y mod k = 0 then 1 else 0)"
proof -
  have r: "0 \<le> y mod k" "y mod k < k" using assms by simp_all
  have y: "y = k * (y div k) + y mod k" by simp
  show ?thesis
  proof (cases "y mod k = 0")
    case True
    have "y - 1 = k * (y div k - 1) + (k - 1)" using y True by (simp add: algebra_simps)
    then have "(y - 1) div k = y div k - 1" using assms int_div_pos_eq by fastforce
    then show ?thesis using True by simp
  next
    case False
    have "y - 1 = k * (y div k) + (y mod k - 1)" using y by simp
    moreover have "0 \<le> y mod k - 1" "y mod k - 1 < k" using r False by linarith+
    ultimately have "(y - 1) div k = y div k" by (rule int_div_pos_eq)
    then show ?thesis using False by simp
  qed
qed

lemma year_start_step: "year_start (y + 1) = year_start y + year_length y"
proof -
  have "y mod 100 mod 4 = y mod 4" "y mod 400 mod 100 = y mod 100" by (simp_all add: mod_mod_cancel)
  then have m: "y mod 400 = 0 \<longrightarrow> y mod 100 = 0" "y mod 100 = 0 \<longrightarrow> y mod 4 = 0" by auto
  obtain a b c where abc: "(y - 1) div 4 = a" "(y - 1) div 100 = b" "(y - 1) div 400 = c" by blast
  have d: "y div 4 = a + (if y mod 4 = 0 then 1 else 0)" "y div 100 = b + (if y mod 100 = 0 then 1 else 0)"
    "y div 400 = c + (if y mod 400 = 0 then 1 else 0)"
    unfolding abc [symmetric] by (rule div_step; simp)+
  show ?thesis
    unfolding year_start_def year_length_def is_leap_def add_diff_cancel_right' abc d using m by simp
qed

lemma year_start_sum: "1970 \<le> y \<Longrightarrow> (\<Sum>i \<leftarrow> [1970 .. y - 1]. year_length i) = year_start y"
proof (induction y rule: int_ge_induct)
  case base
  then show ?case by (simp add: year_start_def)
next
  case (step y)
  then show ?case using upto_rec2 [of 1970 y] by (simp add: year_start_step)
qed

lemma month_cases:
  assumes "1 \<le> (m :: int)" "m \<le> 12"
  shows "m = 1 \<or> m = 2 \<or> m = 3 \<or> m = 4 \<or> m = 5 \<or> m = 6 \<or> m = 7 \<or> m = 8 \<or> m = 9 \<or> m = 10 \<or> m = 11 \<or> m = 12"
  using assms by presburger

lemma upto_small: 
  "[1 .. (0::int)] = []" "[1 .. (1::int)] = [1]" "[1 .. (2::int)] = [1, 2]" "[1 .. (3::int)] = [1, 2, 3]"
  "[1 .. (4::int)] = [1, 2, 3, 4]" "[1 .. (5::int)] = [1, 2, 3, 4, 5]" "[1 .. (6::int)] = [1, 2, 3, 4, 5, 6]"
  "[1 .. (7::int)] = [1, 2, 3, 4, 5, 6, 7]" "[1 .. (8::int)] = [1, 2, 3, 4, 5, 6, 7, 8]"
  "[1 .. (9::int)] = [1, 2, 3, 4, 5, 6, 7, 8, 9]" "[1 .. (10::int)] = [1, 2, 3, 4, 5, 6, 7, 8, 9, 10]"
  "[1 .. (11::int)] = [1, 2, 3, 4, 5, 6, 7, 8, 9, 10, 11]"
  by (simp_all add: upto.simps)

text \<open>The month offsets of the formula are those of a calendar whose year begins in March.\<close>

lemma march_start: "year_start (y + 1) = 307 + 365 * y + y div 4 - y div 100 + y div 400 - 719469"
  by (simp add: year_start_def)

lemma max_day_simps [simp]:
  "max_day y 1 = 31" "max_day y 2 = year_length y - 337" "max_day y 3 = 31" "max_day y 4 = 30" "max_day y 5 = 31"
  "max_day y 6 = 30" "max_day y 7 = 31" "max_day y 8 = 31" "max_day y 9 = 30" "max_day y 10 = 31" "max_day y 11 = 30"
  by (simp_all add: max_day_def year_length_def)

lemma month_sum:
  assumes "1 \<le> month" "month \<le> 12"
  shows "year_start year + (\<Sum>m \<leftarrow> [1 .. month - 1]. max_day year m)
    = (if month \<le> 2 then year_start year + 31 * (month - 1)
       else year_start (year + 1) - 306 + (153 * month - 457) div 5)"
  using month_cases [OF assms] year_start_step [of year]
  by (elim disjE) (simp_all add: upto_small)

lemma days_since_epoch_calendar:
  "days_since_epoch year month day = (if valid_date year month day then Some (calendar_days year month day) else None)"
proof (cases "valid_date year month day")
  case True
  then have v: "1 \<le> month" "month \<le> 12" "1970 \<le> year" by (simp_all add: valid_date_def)
  have c: "calendar_days year month day
    = (if month \<le> 2 then year_start year + 31 * (month - 1) else year_start (year + 1) - 306 + (153 * month - 457) div 5)
      + day - 1"
    using month_sum [OF v(1,2), of year] year_start_sum [OF v(3)] by (simp add: calendar_days_def)
  have s: "year_start year = 307 + 365 * (year - 1) + (year - 1) div 4 - (year - 1) div 100 + (year - 1) div 400 - 719469"
    using march_start [of "year - 1"] by simp
  have "month = 1 \<or> month = 2 \<or> 3 \<le> month" using v by presburger
  moreover have "days_since_epoch year month day
      = (let m = (if month \<le> 2 then month + 12 else month); y = (if month \<le> 2 then year - 1 else year)
         in Some (day + (153 * m - 457) div 5 + 365 * y + y div 4 - y div 100 + y div 400 - 719469))"
    using True by (simp add: days_since_epoch_def valid_date_def)
  ultimately show ?thesis
    using True unfolding c s march_start by (elim disjE) (simp_all add: Let_def)
next
  case False
  then show ?thesis by (auto simp: days_since_epoch_def valid_date_def)
qed

section \<open>Reading a date text back\<close>

text \<open>The text of an instant as \<^verbatim>\<open>unix_to_rfc3339\<close> prints its fields, with any time zone.\<close>

definition zero_padded :: "nat \<Rightarrow> nat \<Rightarrow> string" where
  "zero_padded w n = replicate (w - length (show_nat n)) (CHR ''0'') @ show_nat n"

datatype zone = Zulu | East nat nat | West nat nat

fun zone_text :: "zone \<Rightarrow> string" where
  "zone_text Zulu = ''Z''"
| "zone_text (East h m) = ''+'' @ zero_padded 2 h @ '':'' @ zero_padded 2 m"
| "zone_text (West h m) = ''-'' @ zero_padded 2 h @ '':'' @ zero_padded 2 m"

fun zone_secs :: "zone \<Rightarrow> int" where
  "zone_secs Zulu = 0"
| "zone_secs (East h m) = int h * 3600 + int m * 60"
| "zone_secs (West h m) = - (int h * 3600 + int m * 60)"

fun zone_ok :: "zone \<Rightarrow> bool" where
  "zone_ok Zulu = True"
| "zone_ok (East h m) = (h \<le> 23 \<and> m \<le> 59)"
| "zone_ok (West h m) = (h \<le> 23 \<and> m \<le> 59)"

definition date_time_text :: "nat \<Rightarrow> nat \<Rightarrow> nat \<Rightarrow> nat \<Rightarrow> nat \<Rightarrow> nat \<Rightarrow> string" where
  "date_time_text year month day hour minute second =
     (zero_padded 4 year @ ''-'' @ zero_padded 2 month @ ''-'' @ zero_padded 2 day) @ ''T''
     @ (zero_padded 2 hour @ '':'' @ zero_padded 2 minute @ '':'' @ zero_padded 2 second)"

lemma zero_padded_digits:
  "list_all is_digit (zero_padded w n)" "digits_value (zero_padded w n) = n" "zero_padded w n \<noteq> []"
  using show_nat_digits [of n] by (auto simp: zero_padded_def digits_value_zeros list_all_iff is_digit_def)

lemma length_zero_padded: "n < 10 ^ w \<Longrightarrow> 0 < w \<Longrightarrow> length (zero_padded w n) = w"
  using length_show_nat_le [of n "w - 1"] by (simp add: zero_padded_def)

lemma digits_notin: "list_all is_digit s \<Longrightarrow> \<not> is_digit c \<Longrightarrow> c \<notin> set s"
  by (auto simp: list_all_iff)

lemma separators_not_digits [simp]:
  "\<not> is_digit CHR ''-''" "\<not> is_digit CHR '':''" "\<not> is_digit CHR ''T''" "\<not> is_digit CHR ''Z''" "\<not> is_digit CHR ''z''"
  "\<not> is_digit CHR ''+''" "\<not> is_digit CHR ''.''"
  by (simp_all add: is_digit_def)

lemma padded_notin [simp]: "\<not> is_digit c \<Longrightarrow> c \<notin> set (zero_padded w n)"
  by (rule digits_notin [OF zero_padded_digits(1)])

lemma parse_i64_padded: "n < 2 ^ 63 \<Longrightarrow> parse_i64 (zero_padded w n) = Some (int n)"
proof -
  assume n: "n < 2 ^ 63"
  obtain c r where z: "zero_padded w n = c # r" using zero_padded_digits(3) [of w n] by (cases "zero_padded w n") auto
  then have "is_digit c" using zero_padded_digits(1) [of w n] by simp
  then have "c \<noteq> CHR ''-''" "c \<noteq> CHR ''+''" by auto
  moreover have "int n < 2 ^ 63" using n by simp
  ultimately show ?thesis
    using zero_padded_digits [of w n] n
    by (simp add: parse_i64_def z checked_i64_def i64_min_def i64_max_def)
qed

lemma date_fields_text:
  assumes "year < 10000" "month < 100" "day < 100" "hour < 100" "minute < 100" "second < 100"
  shows "date_fields (date_time_text year month day hour minute second)
    = Some (int year, int month, int day, int hour, int minute, int second)"
proof -
  have "split_once (CHR ''T'') (date_time_text year month day hour minute second)
    = Some (zero_padded 4 year @ ''-'' @ zero_padded 2 month @ ''-'' @ zero_padded 2 day,
            zero_padded 2 hour @ '':'' @ zero_padded 2 minute @ '':'' @ zero_padded 2 second)"
    by (simp add: split_once_def date_time_text_def takeWhile_append dropWhile_append)
  then show ?thesis
    using assms by (simp add: date_fields_def split_on_append split_on_absent parse_i64_padded)
qed

lemma white_space_range:
  "list_all (\<lambda>w. w = [] \<or> of_char (hd w) < (33 :: nat) \<or> 128 \<le> (of_char (hd w) :: nat)) (white_space @ map rev white_space)"
  by code_simp

lemma printable_kept:
  assumes "33 \<le> (of_char c :: nat)" "(of_char c :: nat) < 128"
  shows "strip_while white_space (c # s) = c # s" "strip_while (map rev white_space) (c # s) = c # s"
  by (rule strip_while_keep, use white_space_range assms in \<open>auto simp: list_all_iff\<close>)+

lemma utf8_trim_printable:
  assumes "33 \<le> (of_char (hd s) :: nat)" "(of_char (hd s) :: nat) < 128"
    and "33 \<le> (of_char (last s) :: nat)" "(of_char (last s) :: nat) < 128" and "s \<noteq> []"
  shows "utf8_trim s = s"
proof -
  have "strip_while white_space s = s" using printable_kept(1) [OF assms(1,2), of "tl s"] assms(5) by simp
  moreover have "strip_while (map rev white_space) (rev s) = rev s"
  proof -
    have "rev s = last s # rev (butlast s)" using assms(5) by (metis append_butlast_last_id rev_eq_Cons_iff rev_rev_ident)
    then show ?thesis using printable_kept(2) [OF assms(3,4)] by metis
  qed
  ultimately show ?thesis by (simp add: utf8_trim_def)
qed

lemma find_char_append [simp]: "d \<notin> set s \<Longrightarrow> find_char d (s @ d # t) = Some (length s)"
  by (simp add: find_char_def takeWhile_append)

lemma find_char_None [simp]: "d \<notin> set s \<Longrightarrow> find_char d s = None"
  by (simp add: find_char_def)

lemma rfind_char_append: "d \<notin> set t \<Longrightarrow> rfind_char d (s @ d # t) = Some (length s)"
  by (simp add: rfind_char_def takeWhile_append)

lemma date_time_text_split:
  assumes "year < 10000" "month < 100" "day < 100"
  obtains date time where "date_time_text year month day hour minute second = date @ CHR ''T'' # time"
    and "length date = 10" and "CHR ''+'' \<notin> set time" "CHR ''-'' \<notin> set time"
proof
  let ?d = "zero_padded 4 year @ ''-'' @ zero_padded 2 month @ ''-'' @ zero_padded 2 day"
  let ?t = "zero_padded 2 hour @ '':'' @ zero_padded 2 minute @ '':'' @ zero_padded 2 second"
  show "date_time_text year month day hour minute second = ?d @ CHR ''T'' # ?t" by (simp add: date_time_text_def)
  have "length (zero_padded 4 year) = 4" "length (zero_padded 2 month) = 2" "length (zero_padded 2 day) = 2"
    using assms by (simp_all add: length_zero_padded)
  then show "length ?d = 10" by simp
  show "CHR ''+'' \<notin> set ?t" "CHR ''-'' \<notin> set ?t" by simp_all
qed

lemma split_zone_text:
  assumes "year < 10000" "month < 100" "day < 100" and tz: "CHR ''+'' \<notin> set tz" "CHR ''-'' \<notin> set tz"
    and c: "c = CHR ''+'' \<or> c = CHR ''-''"
  shows "split_zone (date_time_text year month day hour minute second @ c # tz)
    = Some (Some (date_time_text year month day hour minute second, tz))"
proof -
  obtain date time where dt: "date_time_text year month day hour minute second = date @ CHR ''T'' # time"
    and l: "length date = 10" and t: "CHR ''+'' \<notin> set time" "CHR ''-'' \<notin> set time"
    by (rule date_time_text_split [OF assms(1-3)])
  have sl: "slice_from 10 (date @ CHR ''T'' # time @ c # tz) = Some ((CHR ''T'' # time) @ c # tz)"
    using l by (simp add: slice_from_def is_continuation_def)
  show ?thesis
  proof (cases "c = CHR ''+''")
    case True
    then have "find_char (CHR ''+'') ((CHR ''T'' # time) @ c # tz) = Some (length (CHR ''T'' # time))"
      using t find_char_append [of "CHR ''+''" "CHR ''T'' # time" tz] by simp
    then show ?thesis using sl l True by (simp add: split_zone_def dt)
  next
    case False
    then have c: "c = CHR ''-''" using c by simp
    have "find_char (CHR ''+'') ((CHR ''T'' # time) @ c # tz) = None" using t tz c by simp
    moreover have "rfind_char (CHR ''-'') ((CHR ''T'' # time) @ c # tz) = Some (length (CHR ''T'' # time))"
      using tz rfind_char_append [of "CHR ''-''" tz "CHR ''T'' # time"] c by simp
    ultimately show ?thesis using sl l c by (simp add: split_zone_def dt)
  qed
qed

lemma padded_hd_last:
  "is_digit (hd (zero_padded w n))" "is_digit (last (zero_padded w n))"
  using zero_padded_digits [of w n] by (simp_all add: list_all_iff)

lemma hd_date_time_text: "is_digit (hd (date_time_text year month day hour minute second @ z))"
  using padded_hd_last(1) [of 4 year] zero_padded_digits(3) [of 4 year] by (simp add: date_time_text_def)

lemma last_zone_text: "is_digit (last (zone_text z)) \<or> last (zone_text z) = CHR ''Z''" "zone_text z \<noteq> []"
  using padded_hd_last(2) [of 2] zero_padded_digits(3) [of 2] by (cases z; simp)+

lemma utf8_trim_date_text:
  "utf8_trim (date_time_text year month day hour minute second @ zone_text z)
     = date_time_text year month day hour minute second @ zone_text z"
  using hd_date_time_text [of year month day hour minute second "zone_text z"] last_zone_text [of z]
  by (intro utf8_trim_printable) (auto simp: is_digit_def)

text \<open>The zone as it is read: with its sign, after \<^verbatim>\<open>Z\<close> was replaced.\<close>

definition zone_sign :: "zone \<Rightarrow> char" where
  "zone_sign z = (case z of West _ _ \<Rightarrow> CHR ''-'' | _ \<Rightarrow> CHR ''+'')"

definition zone_digits :: "zone \<Rightarrow> string" where
  "zone_digits z = (case z of Zulu \<Rightarrow> ''00:00'' | East h m \<Rightarrow> zero_padded 2 h @ '':'' @ zero_padded 2 m
     | West h m \<Rightarrow> zero_padded 2 h @ '':'' @ zero_padded 2 m)"

lemma zone_normalised:
  "(if t @ zone_text z \<noteq> [] \<and> last (t @ zone_text z) \<in> {CHR ''Z'', CHR ''z''}
    then butlast (t @ zone_text z) @ ''+00:00'' else t @ zone_text z) = t @ zone_sign z # zone_digits z"
proof (cases z)
  case Zulu
  then show ?thesis by (simp add: zone_sign_def zone_digits_def butlast_append)
next
  case (East h m)
  then show ?thesis using padded_hd_last(2) [of 2 m] zero_padded_digits(3) [of 2 m]
    by (auto simp: zone_sign_def zone_digits_def)
next
  case (West h m)
  then show ?thesis using padded_hd_last(2) [of 2 m] zero_padded_digits(3) [of 2 m]
    by (auto simp: zone_sign_def zone_digits_def)
qed

lemma zone_fields_text:
  assumes "zone_ok z"
  obtains h m where "zone_fields (zone_digits z) = (int h, int m)" and "h \<le> 23" "m \<le> 59"
    and "zone_secs z = (if zone_sign z = CHR ''-'' then - 1 else 1) * (int h * 3600 + int m * 60)"
    and "CHR ''+'' \<notin> set (zone_digits z)" "CHR ''-'' \<notin> set (zone_digits z)"
proof (cases z)
  case Zulu
  have "zone_fields ''00:00'' = (0, 0)" by code_simp
  then show thesis using Zulu by (intro that [of 0 0]) (simp_all add: zone_sign_def zone_digits_def)
next
  case (East h m)
  then show thesis using assms
    by (intro that [of h m])
       (simp_all add: zone_sign_def zone_digits_def zone_fields_def split_on_append split_on_absent parse_i64_padded or_zero_def)
next
  case (West h m)
  then show thesis using assms
    by (intro that [of h m])
       (simp_all add: zone_sign_def zone_digits_def zone_fields_def split_on_append split_on_absent parse_i64_padded or_zero_def)
qed

lemma year_start_bounds: "1970 \<le> y \<Longrightarrow> 0 \<le> year_start y \<and> year_start y \<le> 366 * (y - 1970)"
proof (induction y rule: int_ge_induct)
  case base
  then show ?case by (simp add: year_start_def)
next
  case (step y)
  then show ?case by (simp add: year_start_step year_length_def)
qed

lemma calendar_days_bounds:
  assumes "valid_date year month day"
  shows "0 \<le> calendar_days year month day" "calendar_days year month day \<le> 3000000"
proof -
  have d: "max_day year m \<le> 31" "0 \<le> max_day year m" for m by (simp_all add: max_day_def)
  have v: "1970 \<le> year" "year \<le> 9999" "1 \<le> day" "month \<le> 12" "1 \<le> month" "day \<le> 31"
    using assms d(1) [of month] by (auto simp: valid_date_def)
  have "(\<Sum>m \<leftarrow> [1 .. month - 1]. max_day year m) \<le> (\<Sum>m \<leftarrow> [1 .. month - 1]. 31)" by (rule sum_list_mono) (rule d)
  also have "\<dots> = 31 * int (length [1 .. month - 1])" by (simp add: sum_list_triv)
  finally have "(\<Sum>m \<leftarrow> [1 .. month - 1]. max_day year m) \<le> 31 * 11" using v by simp
  moreover have "0 \<le> (\<Sum>m \<leftarrow> [1 .. month - 1]. max_day year m)" by (rule sum_list_nonneg) (auto simp: d)
  ultimately show "0 \<le> calendar_days year month day" "calendar_days year month day \<le> 3000000"
    using year_start_bounds [OF v(1)] year_start_sum [OF v(1)] v by (simp_all add: calendar_days_def)
qed


text \<open>C17: Date texts are read back. The RFC 3339 text of any valid date and time of day, in UTC or with an offset of
  less than a day, is read as the number of seconds since the epoch that the calendar gives, without an
  error, a panic or an overflow.\<close>

theorem rfc3339_read_back:
  assumes "valid_date (int year) (int month) (int day)" and "hour \<le> 23" "minute \<le> 59" "second \<le> 60" and "zone_ok z"
  shows "parse_rfc3339 (date_time_text year month day hour minute second @ zone_text z)
    = Some (Inr (calendar_days (int year) (int month) (int day) * 86400
        + int hour * 3600 + int minute * 60 + int second - zone_secs z))"
proof -
  let ?t = "date_time_text year month day hour minute second"
  let ?c = "calendar_days (int year) (int month) (int day)"
  obtain h m where z: "zone_fields (zone_digits z) = (int h, int m)" "h \<le> 23" "m \<le> 59"
    "zone_secs z = (if zone_sign z = CHR ''-'' then - 1 else 1) * (int h * 3600 + int m * 60)"
    "CHR ''+'' \<notin> set (zone_digits z)" "CHR ''-'' \<notin> set (zone_digits z)"
    by (rule zone_fields_text [OF assms(5)])
  have d: "max_day (int year) (int month) \<le> 31" by (simp add: max_day_def)
  have b: "year < 10000" "month < 100" "day < 100" using assms(1) d by (auto simp: valid_date_def)
  have sg: "zone_sign z = CHR ''+'' \<or> zone_sign z = CHR ''-''" by (cases z) (simp_all add: zone_sign_def)
  note norm = zone_normalised [of ?t z] utf8_trim_date_text [of year month day hour minute second z]
  note sp = split_zone_text [OF b z(5,6) sg, of hour minute second]
  have f: "date_fields ?t = Some (int year, int month, int day, int hour, int minute, int second)"
    using b assms by (intro date_fields_text) simp_all
  define off where "off = (if zone_sign z = CHR ''-'' then - 1 else 1) * (int h * 3600 + int m * 60)"
  have off: "- 90000 \<le> off" "off \<le> 90000" using z(2,3) by (simp_all add: off_def)
  have w: "wrap_i64 (int h * 3600 + int m * 60) = int h * 3600 + int m * 60" "wrap_i64 off = off"
    "wrap_i64 (int hour * 3600 + int minute * 60 + int second) = int hour * 3600 + int minute * 60 + int second"
    using z(2,3) off assms(2-4) by (intro wrap_i64_id; simp add: i64_min_def i64_max_def)+
  have k: "checked_i64 (?c * 86400) = Some (?c * 86400)"
    "checked_i64 (?c * 86400 + (int hour * 3600 + int minute * 60 + int second))
       = Some (?c * 86400 + (int hour * 3600 + int minute * 60 + int second))"
    "checked_i64 (?c * 86400 + (int hour * 3600 + int minute * 60 + int second) - off)
       = Some (?c * 86400 + (int hour * 3600 + int minute * 60 + int second) - off)"
    using calendar_days_bounds [OF assms(1)] assms(2-4) off by (simp_all add: checked_i64_def i64_min_def i64_max_def)
  have days: "days_since_epoch (int year) (int month) (int day) = Some ?c"
    using assms(1) by (simp add: days_since_epoch_calendar)
  show ?thesis
    unfolding parse_rfc3339_def Let_def norm sp
    using assms(2-4) z(1-4) w k by (simp add: f days off_def nth_append)
qed

theorem rfc3339_read_back_witness:
  "parse_rfc3339 (date_time_text 2024 2 29 23 59 60 @ zone_text (West 5 30))
     = Some (Inr (calendar_days 2024 2 29 * 86400 + 23 * 3600 + 59 * 60 + 60 + 19800))"
  using rfc3339_read_back [of 2024 2 29 23 59 60 "West 5 30"] by (simp add: valid_date_def max_day_def is_leap_def)

end
