(* ===== verification/Rust_Net.thy ===== *)
theory Rust_Net
  imports Rust_Text
begin

text \<open>
  The texts of Rust's \<^verbatim>\<open>std::net::IpAddr\<close>: the readers of the standard library, each of which answers with what
  it has read and the text that is left, and the printing of addresses. An IPv4 address is the list of its four octets, an IPv6 address the list of its eight groups.
\<close>

section \<open>Reading\<close>

definition is_hex_digit :: "char \<Rightarrow> bool" where
  "is_hex_digit c \<longleftrightarrow> is_digit c \<or> (CHR ''a'' \<le> c \<and> c \<le> CHR ''f'') \<or> (CHR ''A'' \<le> c \<and> c \<le> CHR ''F'')"

definition hex_digit_value :: "char \<Rightarrow> nat" where
  "hex_digit_value c =
     (let n = of_char c in if n \<le> 57 then n - 48 else if n \<le> 70 then n - 55 else n - 87)"

definition hex_value :: "string \<Rightarrow> nat" where
  "hex_value s = foldl (\<lambda>a c. a * 16 + hex_digit_value c) 0 s"

text \<open>A decimal number below 256 of at most three digits without a leading zero, and a hexadecimal one of at most four.\<close>

definition read_octet :: "string \<Rightarrow> (nat \<times> string) option" where
  "read_octet s =
     (let d = takeWhile is_digit s
      in if d \<noteq> [] \<and> length d \<le> 3 \<and> digits_value d \<le> 255 \<and> (hd d = CHR ''0'' \<longrightarrow> length d = 1)
         then Some (digits_value d, drop (length d) s) else None)"

definition read_hex_group :: "string \<Rightarrow> (nat \<times> string) option" where
  "read_hex_group s =
     (let d = takeWhile is_hex_digit s
      in if d \<noteq> [] \<and> length d \<le> 4 then Some (hex_value d, drop (length d) s) else None)"

definition read_given :: "char \<Rightarrow> string \<Rightarrow> string option" where
  "read_given c s = (case s of x # r \<Rightarrow> if x = c then Some r else None | [] \<Rightarrow> None)"

definition read_separated :: "char \<Rightarrow> nat \<Rightarrow> (string \<Rightarrow> 'a option) \<Rightarrow> string \<Rightarrow> 'a option" where
  "read_separated sep i inner s = (if i = 0 then inner s else Option.bind (read_given sep s) inner)"

definition read_ipv4_addr :: "string \<Rightarrow> (nat list \<times> string) option" where
  "read_ipv4_addr s =
     Option.bind (read_octet s) (\<lambda>(a, r1).
     Option.bind (read_separated (CHR ''.'') 1 read_octet r1) (\<lambda>(b, r2).
     Option.bind (read_separated (CHR ''.'') 2 read_octet r2) (\<lambda>(c, r3).
     Option.bind (read_separated (CHR ''.'') 3 read_octet r3) (\<lambda>(d, r4). Some ([a, b, c, d], r4)))))"

fun groups_of_octets :: "nat list \<Rightarrow> nat list" where
  "groups_of_octets (a # b # r) = (a * 256 + b) # groups_of_octets r"
| "groups_of_octets _ = []"

text \<open>Up to \<open>k\<close> further groups after the first \<open>i\<close>: the groups, whether they end in an IPv4 address, the rest.\<close>

fun read_groups :: "nat \<Rightarrow> nat \<Rightarrow> string \<Rightarrow> nat list \<times> bool \<times> string" where
  "read_groups 0 i s = ([], False, s)"
| "read_groups (Suc k) i s =
     (case (if 0 < k then read_separated (CHR '':'') i read_ipv4_addr s else None) of
        Some (os, r) \<Rightarrow> (groups_of_octets os, True, r)
      | None \<Rightarrow>
          (case read_separated (CHR '':'') i read_hex_group s of
             Some (g, r) \<Rightarrow> (case read_groups k (Suc i) r of (gs, v4, r') \<Rightarrow> (g # gs, v4, r'))
           | None \<Rightarrow> ([], False, s)))"

definition read_ipv6_addr :: "string \<Rightarrow> (nat list \<times> string) option" where
  "read_ipv6_addr s =
     (case read_groups 8 0 s of (head, head_ipv4, r) \<Rightarrow>
        if length head = 8 then Some (head, r)
        else if head_ipv4 then None
        else Option.bind (read_given (CHR '':'') r) (\<lambda>r1.
             Option.bind (read_given (CHR '':'') r1) (\<lambda>r2.
             case read_groups (8 - (length head + 1)) 0 r2 of (tail, _, r3) \<Rightarrow>
               Some (head @ replicate (8 - (length head + length tail)) 0 @ tail, r3))))"

datatype ip_addr = IpV4 "nat list" | IpV6 "nat list"

definition parse_ip_addr :: "string \<Rightarrow> ip_addr option" where
  "parse_ip_addr s =
     (case (case read_ipv4_addr s of
              Some (os, r) \<Rightarrow> Some (IpV4 os, r)
            | None \<Rightarrow> map_option (\<lambda>(gs, r). (IpV6 gs, r)) (read_ipv6_addr s)) of
        Some (a, []) \<Rightarrow> Some a
      | _ \<Rightarrow> None)"

definition is_ip_addr :: "string \<Rightarrow> bool" where
  "is_ip_addr s \<longleftrightarrow> parse_ip_addr s \<noteq> None"

section \<open>Printing\<close>

definition show_ipv4 :: "nat list \<Rightarrow> string" where
  "show_ipv4 os = show_nat (os ! 0) @ ''.'' @ show_nat (os ! 1) @ ''.'' @ show_nat (os ! 2) @ ''.'' @ show_nat (os ! 3)"

definition hex_char :: "nat \<Rightarrow> char" where
  "hex_char n = (if n < 10 then digit_char n else char_of (87 + n))"

fun show_hex :: "nat \<Rightarrow> string" where
  "show_hex n = (if n < 16 then [hex_char n] else show_hex (n div 16) @ [hex_char (n mod 16)])"

declare show_hex.simps [simp del]

text \<open>The first of the longest runs of zero groups, as start and length.\<close>

fun zero_run :: "nat \<Rightarrow> nat \<times> nat \<Rightarrow> nat \<times> nat \<Rightarrow> nat list \<Rightarrow> nat \<times> nat" where
  "zero_run i longest current [] = longest"
| "zero_run i longest current (g # gs) =
     (if g = 0
      then let c = (if snd current = 0 then i else fst current, snd current + 1)
           in zero_run (Suc i) (if snd c > snd longest then c else longest) c gs
      else zero_run (Suc i) longest (0, 0) gs)"

fun show_groups :: "nat list \<Rightarrow> string" where
  "show_groups [] = []"
| "show_groups [g] = show_hex g"
| "show_groups (g # h # gs) = show_hex g @ CHR '':'' # show_groups (h # gs)"

definition ipv4_mapped :: "nat list \<Rightarrow> bool" where
  "ipv4_mapped gs \<longleftrightarrow> take 5 gs = replicate 5 0 \<and> gs ! 5 = 65535"

definition show_ipv6 :: "nat list \<Rightarrow> string" where
  "show_ipv6 gs =
     (if ipv4_mapped gs
      then ''::ffff:'' @ show_ipv4 [gs ! 6 div 256, gs ! 6 mod 256, gs ! 7 div 256, gs ! 7 mod 256]
      else case zero_run 0 (0, 0) (0, 0) gs of (start, len) \<Rightarrow>
             if len > 1 then show_groups (take start gs) @ ''::'' @ show_groups (drop (start + len) gs)
             else show_groups gs)"

end
