(* ===== verification/Db_Delegations.thy ===== *)
theory Db_Delegations
  imports Db_Accounts Db_Orders Acme_Lifecycle
begin

text \<open>
  The operations on the table of delegations (\<^verbatim>\<open>src/db/delegations.rs\<close>). An order refers to its delegation by a
  foreign key, so a delegation in use cannot be deleted.
\<close>

definition delegations_insert :: "sql_texts \<Rightarrow> delegation_row \<Rightarrow> unit db_op" where
  "delegations_insert msg row d =
     sql_insert msg True (\<not> delegation_exists d (dlg_id row)) (account_exists d (dlg_account_id row))
       (\<lambda>d. d\<lparr>db_delegations := db_delegations d @ [row]\<rparr>) d"

definition delegations_get_by_id :: "string \<Rightarrow> delegation_row option db_op" where
  "delegations_get_by_id i d = (Inr (find (\<lambda>r. dlg_id r = i) (db_delegations d)), d)"

definition delegations_list_for_account :: "string \<Rightarrow> delegation_row list db_op" where
  "delegations_list_for_account account_id d =
     (Inr (take 1000 (order_by_desc dlg_created (filter (\<lambda>r. dlg_account_id r = account_id) (db_delegations d)))), d)"

definition delegations_update :: "string \<Rightarrow> string \<Rightarrow> string option \<Rightarrow> i64 \<Rightarrow> bool db_op" where
  "delegations_update i csr_template cname_map now d =
     (let p = (\<lambda>r. dlg_id r = i)
      in (Inr (affected p (db_delegations d) > 0),
          d\<lparr>db_delegations := upd_where p (\<lambda>r. r\<lparr>dlg_csr_template := csr_template, dlg_cname_map := cname_map,
              dlg_updated := now\<rparr>) (db_delegations d)\<rparr>))"

definition delegations_delete :: "sql_texts \<Rightarrow> string \<Rightarrow> bool db_op" where
  "delegations_delete msg i d =
     (let n = affected (\<lambda>r. dlg_id r = i) (db_delegations d)
      in if n > 0 \<and> (\<exists>r \<in> set (db_orders d). ord_delegation_id r = Some i)
         then (Inl (from_sqlx_error (msg ForeignKeyFailed)), d)
         else (Inr (n > 0), d\<lparr>db_delegations := filter (\<lambda>r. dlg_id r \<noteq> i) (db_delegations d)\<rparr>))"

definition delegation_filter :: "string option \<Rightarrow> string option \<Rightarrow> db \<Rightarrow> delegation_row \<Rightarrow> bool" where
  "delegation_filter account_id ca_id d r \<longleftrightarrow>
     (\<exists>a \<in> set (db_accounts d). dlg_account_id r = acc_id a \<and> opt_eq ca_id (acc_ca_id a)) \<and> opt_eq account_id (dlg_account_id r)"

definition delegations_list ::
  "string option \<Rightarrow> string option \<Rightarrow> i64 \<Rightarrow> i64 \<Rightarrow> delegation_row list db_op" where
  "delegations_list account_id ca_id limit offset d =
     (Inr (sql_page limit offset
        (order_by_desc dlg_created (filter (delegation_filter account_id ca_id d) (db_delegations d)))), d)"

definition delegations_count_list :: "string option \<Rightarrow> string option \<Rightarrow> i64 db_op" where
  "delegations_count_list account_id ca_id d =
     (Inr (int (length (filter (delegation_filter account_id ca_id d) (db_delegations d)))), d)"

section \<open>Integrity\<close>

lemma delegations_refs:
  assumes "db_wf d" and "\<And>i. delegation_exists d i \<Longrightarrow> \<exists>r \<in> set (db_orders d). ord_delegation_id r = Some i \<Longrightarrow> delegation_exists (d\<lparr>db_delegations := ds\<rparr>) i"
  shows "db_wf (d\<lparr>db_delegations := ds\<rparr>)"
proof -
  have "opt_ref (delegation_exists (d\<lparr>db_delegations := ds\<rparr>)) (ord_delegation_id r)" if "r \<in> set (db_orders d)" for r
  proof (cases "ord_delegation_id r")
    case None
    then show ?thesis by (simp add: opt_ref_def)
  next
    case (Some i)
    then have "delegation_exists d i" using that assms(1) by (force simp: wf_defs opt_ref_def)
    then show ?thesis using Some that assms(2) by (auto simp: opt_ref_def)
  qed
  moreover have "account_exists (d\<lparr>db_delegations := ds\<rparr>) = account_exists d" "order_exists (d\<lparr>db_delegations := ds\<rparr>) = order_exists d"
    "authz_exists (d\<lparr>db_delegations := ds\<rparr>) = authz_exists d"
    by (simp_all add: account_exists_def order_exists_def authz_exists_def fun_eq_iff)
  ultimately show ?thesis
    using assms(1) by (simp add: wf_defs)
qed

lemma delegations_wf:
  "preserves db_wf (delegations_insert msg row)"
  "preserves db_wf (delegations_update i t c now)"
  "preserves db_wf (delegations_delete msg i)"
proof -
  show "preserves db_wf (delegations_insert msg row)" "preserves db_wf (delegations_update i t c now)"
    by (auto simp: delegations_insert_def sql_insert_def delegations_update_def Let_def
        delegation_exists_def upd_where_map intro!: preservesI delegations_refs)
  show "preserves db_wf (delegations_delete msg i)"
    by (force simp: delegations_delete_def Let_def delegation_exists_def affected_0_iff intro!: preservesI delegations_refs)
qed

end
