(* ===== verification/Acme_Order.thy ===== *)
theory Acme_Order
  imports Acme_Revoke Order_Dates Rust_Net Db_Delegations
begin

text \<open>
  Orders: the creation of an order with its authorizations and challenges, the reading of an order and
  the cancellation of its automatic renewal (\<^verbatim>\<open>src/routes/order.rs\<close>). The identifiers and tokens drawn at
  random are the fields of \<open>order_fresh\<close>, indexed by the position of the identifier in the request; the
  fields of an instant come from the ASN.1 library (\<open>of_time_fields\<close>).
\<close>

section \<open>Requests\<close>

record new_order_identifier =
  noi_type :: string
  noi_value :: string
  noi_ancestor_domain :: "string option"

record auto_renewal_request =
  arr_start_date :: "string option"
  arr_end_date :: string
  arr_lifetime :: u64
  arr_lifetime_adjust :: i64
  arr_allow_certificate_get :: bool

record new_order_payload =
  nop_identifiers :: "new_order_identifier list"
  nop_not_before :: "string option"
  nop_not_after :: "string option"
  nop_replaces :: "string option"
  nop_auto_renewal :: "auto_renewal_request option"
  nop_profile :: "string option"
  nop_delegation :: "string option"
  nop_allow_certificate_get :: bool

text \<open>A member with a default value, and a list of objects.\<close>

definition json_default :: "(json \<Rightarrow> 'a option) \<Rightarrow> 'a \<Rightarrow> string \<Rightarrow> json \<Rightarrow> 'a option" where
  "json_default f x k v = (case json_get k v of None \<Rightarrow> Some x | Some y \<Rightarrow> f y)"

definition json_as_u64 :: "json \<Rightarrow> u64 option" where
  "json_as_u64 v = (case v of JNumber n \<Rightarrow> if 0 \<le> n \<and> n < 2 ^ 64 then Some (nat n) else None | _ \<Rightarrow> None)"

fun json_all :: "(json \<Rightarrow> 'a option) \<Rightarrow> json list \<Rightarrow> 'a list option" where
  "json_all f [] = Some []"
| "json_all f (v # vs) = (case (f v, json_all f vs) of (Some x, Some xs) \<Rightarrow> Some (x # xs) | _ \<Rightarrow> None)"

definition identifier_of_json :: "json \<Rightarrow> new_order_identifier option" where
  "identifier_of_json v =
     (case (str_field ''type'' v, str_field ''value'' v, json_opt_field json_as_str ''ancestorDomain'' v) of
        (Some t, Some x, Some a) \<Rightarrow> Some \<lparr>noi_type = t, noi_value = x, noi_ancestor_domain = a\<rparr>
      | _ \<Rightarrow> None)"

definition auto_renewal_of_json :: "json \<Rightarrow> auto_renewal_request option" where
  "auto_renewal_of_json v =
     (case (json_opt_field json_as_str ''start-date'' v, str_field ''end-date'' v,
            Option.bind (json_get ''lifetime'' v) json_as_u64, json_default json_as_i64 0 ''lifetime-adjust'' v,
            json_default json_as_bool False ''allow-certificate-get'' v) of
        (Some s, Some e, Some l, Some a, Some g) \<Rightarrow>
          Some \<lparr>arr_start_date = s, arr_end_date = e, arr_lifetime = l, arr_lifetime_adjust = a, arr_allow_certificate_get = g\<rparr>
      | _ \<Rightarrow> None)"

definition new_order_payload_of_json :: "json \<Rightarrow> new_order_payload option" where
  "new_order_payload_of_json v =
     (case (Option.bind (Option.bind (json_get ''identifiers'' v) json_as_array) (json_all identifier_of_json),
            json_opt_field json_as_str ''not_before'' v, json_opt_field json_as_str ''not_after'' v,
            json_opt_field json_as_str ''replaces'' v, json_opt_field auto_renewal_of_json ''auto-renewal'' v,
            json_opt_field json_as_str ''profile'' v, json_opt_field json_as_str ''delegation'' v,
            json_default json_as_bool False ''allow-certificate-get'' v) of
        (Some ids, Some nb, Some na, Some rep, Some ar, Some prof, Some dlg, Some acg) \<Rightarrow>
          Some \<lparr>nop_identifiers = ids, nop_not_before = nb, nop_not_after = na, nop_replaces = rep, nop_auto_renewal = ar,
                nop_profile = prof, nop_delegation = dlg, nop_allow_certificate_get = acg\<rparr>
      | _ \<Rightarrow> None)"

section \<open>Configuration and libraries\<close>

record order_config =
  oc_order_expiry_secs :: u64
  oc_authz_expiry_secs :: u64
  oc_star_min_lifetime_secs :: "u64 option"
  oc_star_max_duration_secs :: "u64 option"
  oc_allow_certificate_get :: bool
  oc_allow_subdomain_auth :: bool
  oc_email_enabled :: bool                         \<comment> \<open>\<^verbatim>\<open>email_challenge.enabled\<close> of the section, if any\<close>
  oc_token_authority_url :: "string option"        \<comment> \<open>\<^verbatim>\<open>tkauth.token_authority_url\<close> of the section, if any\<close>
  oc_profiles :: "(string \<times> string list) list"    \<comment> \<open>the profiles in the cache with their \<^verbatim>\<open>ca_ids\<close>\<close>

record time_fields =
  tf_year :: nat
  tf_month :: nat
  tf_day :: nat
  tf_hour :: nat
  tf_minute :: nat
  tf_second :: nat

record order_fresh =
  of_order_id :: string
  of_authz_id :: "nat \<Rightarrow> string"
  of_token :: "nat \<Rightarrow> string + bytes"
  of_challenge_id :: "nat \<Rightarrow> nat \<Rightarrow> string"
  of_time_fields :: "i64 \<Rightarrow> time_fields option"
  of_epoch_fields :: time_fields                   \<comment> \<open>the fields of the instant zero, which is in range\<close>

definition unix_to_rfc3339 :: "order_fresh \<Rightarrow> i64 \<Rightarrow> string" where
  "unix_to_rfc3339 fr unix =
     (let gt = (case of_time_fields fr unix of Some f \<Rightarrow> f | None \<Rightarrow> of_epoch_fields fr)
      in date_time_text (tf_year gt) (tf_month gt) (tf_day gt) (tf_hour gt) (tf_minute gt) (tf_second gt) @ ''Z'')"

text \<open>Whether a profile is in the cache and open to the CA.\<close>

definition resolve_for_ca :: "order_config \<Rightarrow> string \<Rightarrow> string \<Rightarrow> bool" where
  "resolve_for_ca oc name ca_id =
     (case map_of (oc_profiles oc) name of None \<Rightarrow> False | Some ca_ids \<Rightarrow> ca_ids = [] \<or> ca_id \<in> set ca_ids)"

section \<open>Checks of the request\<close>

definition is_valid_email :: "string \<Rightarrow> bool" where
  "is_valid_email value =
     (length value \<le> 320 \<and> \<not> (\<exists>b \<in> set value. (of_char b :: nat) < 32 \<or> (of_char b :: nat) = 127) \<and>
      (case split_once (CHR ''@'') value of
         Some (local, domain) \<Rightarrow>
           local \<noteq> [] \<and> length local \<le> 64 \<and> domain \<noteq> [] \<and> CHR ''@'' \<notin> set domain \<and> CHR ''.'' \<in> set domain
       | None \<Rightarrow> False))"

definition validate_onion_v3 :: "string \<Rightarrow> bool" where
  "validate_onion_v3 domain =
     (suffix ''.onion'' domain \<and>
      (let label = last (split_on (CHR ''.'') (take (length domain - 6) domain))
       in length label = 56 \<and> list_all (\<lambda>b. (CHR ''a'' \<le> b \<and> b \<le> CHR ''z'') \<or> (CHR ''2'' \<le> b \<and> b \<le> CHR ''7'')) label))"

definition tkauth_types :: "string set" where
  "tkauth_types = {''TNAuthList'', ''JWTClaimConstraints'', ''EnhancedJWTClaimConstraints''}"

definition check_identifier_type ::
  "'k acme_env \<Rightarrow> acme_config \<Rightarrow> order_config \<Rightarrow> bool \<Rightarrow> new_order_identifier \<Rightarrow> unit result" where
  "check_identifier_type ev cf oc is_star i =
     (if noi_type i = ''dns'' then Inr ()
      else if noi_type i = ''ip'' then
        ensure (is_ip_addr (noi_value i)) (BadRequest (''invalid IP address identifier: '' @ quoted (noi_value i)))
      else if noi_type i = ''email'' then
        and_then (ensure (oc_email_enabled oc) (UnsupportedIdentifier ''email'')) (\<lambda>_.
        and_then (ensure (\<not> is_star) (RejectedIdentifier ''email identifiers are not supported in STAR orders'')) (\<lambda>_.
        and_then (ensure (strip_prefix ''*.'' (noi_value i) = None)
          (RejectedIdentifier ''wildcard email identifiers are not permitted'')) (\<lambda>_.
        ensure (is_valid_email (noi_value i)) (BadRequest (''invalid email identifier: '' @ quoted (noi_value i))))))
      else if noi_type i \<in> tkauth_types then
        and_then (ensure (ac_tkauth_enabled cf = Some True) (UnsupportedIdentifier (noi_type i))) (\<lambda>_.
        and_then (ensure (noi_value i \<noteq> []) (BadRequest (noi_type i @ '' identifier value must not be empty''))) (\<lambda>_.
        ensure (\<not> isl (jo_b64u_decode (ev_jose ev) (noi_value i)))
          (BadRequest (noi_type i @ '' value is not valid base64url: '' @ quoted (noi_value i)))))
      else Inl (UnsupportedIdentifier (noi_type i)))"

definition check_ancestor :: "new_order_identifier \<Rightarrow> unit result" where
  "check_ancestor i =
     (case noi_ancestor_domain i of
        None \<Rightarrow> Inr ()
      | Some ancestor \<Rightarrow>
          ensure (suffix (''.'' @ map ascii_lower ancestor) (map ascii_lower (noi_value i)))
            (BadRequest ''ancestorDomain is not an ancestor of the identifier''))"

fun check_identifiers ::
  "'k acme_env \<Rightarrow> acme_config \<Rightarrow> order_config \<Rightarrow> bool \<Rightarrow> new_order_identifier list \<Rightarrow> unit result" where
  "check_identifiers ev cf oc is_star [] = Inr ()"
| "check_identifiers ev cf oc is_star (i # is) =
     and_then (check_identifier_type ev cf oc is_star i) (\<lambda>_.
     and_then (check_ancestor i) (\<lambda>_.
     check_identifiers ev cf oc is_star is))"

text \<open>The certificate an order replaces: of the same account, not replaced yet, and with a common identifier.\<close>

definition b64u_option :: "'k jose_ext \<Rightarrow> string \<Rightarrow> bytes option" where
  "b64u_option jo s = (case jo_b64u_decode jo s of Inr bs \<Rightarrow> Some bs | Inl _ \<Rightarrow> None)"

definition overlaps :: "'k jose_ext \<Rightarrow> string \<Rightarrow> new_order_identifier list \<Rightarrow> bool" where
  "overlaps jo pred_identifiers ids =
     (case from_slice jo json_as_array (jo_utf8 jo pred_identifiers) of
        Inl _ \<Rightarrow> True
      | Inr vs \<Rightarrow> list_ex (\<lambda>i. list_ex (\<lambda>v. str_field ''type'' v = Some (noi_type i) \<and> str_field ''value'' v = Some (noi_value i)) vs) ids)"

definition check_replaces :: "'k acme_env \<Rightarrow> string \<Rightarrow> new_order_payload \<Rightarrow> unit handler" where
  "check_replaces ev account_id payload =
     (case nop_replaces payload of
        None \<Rightarrow> pure (Inr ())
      | Some cert_id \<Rightarrow>
          run_then (on_db (certs_get_by_cert_id (b64u_option (ev_jose ev)) hex_of_bytes cert_id)) (\<lambda>row.
          run_then (pure (ok_or NotFound row)) (\<lambda>pred.
          run_then (pure (ensure (crt_account_id pred = account_id)
            (Unauthorized ''replaces certificate belongs to different account''))) (\<lambda>_.
          run_then (pure (ensure (crt_replaced_by pred = None) CertAlreadyReplaced)) (\<lambda>_.
          run_then (on_db (orders_get_by_id (crt_order_id pred))) (\<lambda>pred_order.
          case pred_order of
            None \<Rightarrow> pure (Inr ())
          | Some po \<Rightarrow> pure (ensure (overlaps (ev_jose ev) (ord_identifiers po) (nop_identifiers payload))
              (BadRequest ''replaces: new order identifiers do not overlap with predecessor certificate'')))))))
     )"

definition order_profile :: "order_config \<Rightarrow> string \<Rightarrow> new_order_payload \<Rightarrow> string option result" where
  "order_profile oc ca_id payload =
     (case nop_profile payload of
        Some p \<Rightarrow>
          if oc_profiles oc \<noteq> [] \<and> \<not> resolve_for_ca oc p ca_id
          then Inl (InvalidProfile (''profile '' @ quoted p @ '' is not available for CA '' @ quoted ca_id))
          else Inr (Some p)
      | None \<Rightarrow> Inr (if oc_profiles oc \<noteq> [] \<and> resolve_for_ca oc ''default'' ca_id then Some ''default'' else None))"

definition delegation_id_from_url :: "string \<Rightarrow> string \<Rightarrow> string result" where
  "delegation_id_from_url pfx url =
     (case strip_prefix (pfx @ ''/delegation/'') url of
        Some i \<Rightarrow> if i \<noteq> [] \<and> CHR ''/'' \<notin> set i then Inr i else Inl UnknownDelegation
      | None \<Rightarrow> Inl UnknownDelegation)"

definition has_validity :: "new_order_payload \<Rightarrow> bool" where
  "has_validity p \<longleftrightarrow> nop_not_before p \<noteq> None \<or> nop_not_after p \<noteq> None"

definition order_delegation ::
  "acme_config \<Rightarrow> order_config \<Rightarrow> string \<Rightarrow> string \<Rightarrow> new_order_payload \<Rightarrow> (string option \<times> i64) handler" where
  "order_delegation cf oc pfx account_id payload =
     (case nop_delegation payload of
        None \<Rightarrow> pure (Inr (None, 0))
      | Some url \<Rightarrow>
          run_then (pure (ensure (ac_delegation_enabled cf) UnknownDelegation)) (\<lambda>_.
          run_then (pure (delegation_id_from_url pfx url)) (\<lambda>dlg_id.
          run_then (on_db (delegations_get_by_id dlg_id)) (\<lambda>row.
          run_then (pure (ok_or UnknownDelegation row)) (\<lambda>dlg.
          run_then (pure (ensure (dlg_account_id dlg = account_id) UnknownDelegation)) (\<lambda>_.
          run_then (pure (ensure (\<not> has_validity payload)
            (BadRequest ''notBefore and notAfter MUST NOT be present in a delegation order''))) (\<lambda>_.
          pure (Inr (Some dlg_id, if nop_allow_certificate_get payload \<and> oc_allow_certificate_get oc then 1 else 0))))))))
     )"

section \<open>Automatic renewal\<close>

record star_terms =
  stt_start :: "i64 option"
  stt_end :: "i64 option"
  stt_lifetime :: "i64 option"
  stt_adjust :: i64
  stt_allow_get :: i64

definition no_star :: star_terms where
  "no_star = \<lparr>stt_start = None, stt_end = None, stt_lifetime = None, stt_adjust = 0, stt_allow_get = 0\<rparr>"

text \<open>A date with the message of its field; a panic stays a panic.\<close>

definition star_date :: "string \<Rightarrow> string \<Rightarrow> i64 result option" where
  "star_date what s =
     map_option (\<lambda>r. case r of Inl _ \<Rightarrow> Inl (BadRequest (''auto-renewal '' @ what @ '' is not valid RFC 3339'')) | Inr t \<Rightarrow> Inr t)
       (parse_rfc3339 s)"

text \<open>A sequence of steps each of which may panic, fail or succeed.\<close>

definition panic_then :: "('e + 'a) option \<Rightarrow> ('a \<Rightarrow> ('e + 'b) option) \<Rightarrow> ('e + 'b) option" where
  "panic_then m f = (case m of None \<Rightarrow> None | Some (Inl e) \<Rightarrow> Some (Inl e) | Some (Inr x) \<Rightarrow> f x)"

definition check_star_limits :: "order_config \<Rightarrow> i64 \<Rightarrow> i64 \<Rightarrow> i64 option \<Rightarrow> u64 \<Rightarrow> unit result" where
  "check_star_limits oc now end_ts start_ts lifetime =
     and_then (ensure (lifetime \<noteq> 0) (BadRequest ''auto-renewal lifetime must be > 0'')) (\<lambda>_.
     and_then (case oc_star_min_lifetime_secs oc of
        Some min_secs \<Rightarrow> ensure (min_secs \<le> lifetime) (BadRequest (''STAR lifetime '' @ show_nat lifetime
          @ ''s is below server minimum '' @ show_nat min_secs @ ''s''))
      | None \<Rightarrow> Inr ()) (\<lambda>_.
     and_then (case oc_star_max_duration_secs oc of
        Some max_dur \<Rightarrow>
          (let reference_ts = (case start_ts of Some t \<Rightarrow> t | None \<Rightarrow> now);
               total_secs = nat (max (wrap_i64 (end_ts - reference_ts)) 0)
           in ensure (total_secs \<le> max_dur) (BadRequest (''STAR renewal period '' @ show_nat total_secs
                @ ''s exceeds server maximum '' @ show_nat max_dur @ ''s'')))
      | None \<Rightarrow> Inr ()) (\<lambda>_.
     ensure (int lifetime \<le> i64_max) (BadRequest ''auto-renewal lifetime out of range''))))"

definition order_star_terms :: "order_config \<Rightarrow> i64 \<Rightarrow> new_order_payload \<Rightarrow> star_terms result option" where
  "order_star_terms oc now payload =
     (case nop_auto_renewal payload of
        None \<Rightarrow> Some (Inr no_star)
      | Some ar \<Rightarrow>
          if has_validity payload then Some (Inl (BadRequest ''notBefore and notAfter MUST NOT be present in a STAR order''))
          else
          panic_then (star_date ''endDate'' (arr_end_date ar)) (\<lambda>end_ts.
          panic_then (case arr_start_date ar of
                        None \<Rightarrow> Some (Inr None)
                      | Some s \<Rightarrow> map_option (map_sum (\<lambda>e. e) Some) (star_date ''startDate'' s)) (\<lambda>start_ts.
          panic_then (Some (check_star_limits oc now end_ts start_ts (arr_lifetime ar))) (\<lambda>_.
          Some (Inr \<lparr>stt_start = start_ts, stt_end = Some end_ts, stt_lifetime = Some (int (arr_lifetime ar)),
                     stt_adjust = arr_lifetime_adjust ar, stt_allow_get = (if arr_allow_certificate_get ar then 1 else 0)\<rparr>)))))"

definition optional_date :: "string option \<Rightarrow> i64 option result option" where
  "optional_date s = (case s of None \<Rightarrow> Some (Inr None) | Some x \<Rightarrow> map_option (map_sum (\<lambda>e. e) Some) (parse_rfc3339 x))"

section \<open>Authorizations\<close>

record order_plan =
  opl_authz_id :: string
  opl_identifier_json :: string
  opl_wildcard :: bool
  opl_subdomain_auth_allowed :: bool
  opl_challenges :: "(string \<times> string) list"
  opl_token :: string

definition gen_token :: "'k acme_env \<Rightarrow> order_fresh \<Rightarrow> nat \<Rightarrow> string result" where
  "gen_token ev fr k =
     (case of_token fr k of
        Inl e \<Rightarrow> Inl (Internal (''CSPRNG failure: '' @ e))
      | Inr bs \<Rightarrow> Inr (jo_b64u_encode (ev_jose ev) bs))"

definition identifier_text :: "'k jose_ext \<Rightarrow> string \<Rightarrow> string \<Rightarrow> string + string" where
  "identifier_text jo t v = jo_json_text jo (JObject [(''type'', JString t), (''value'', JString v)])"

definition plan_authz_new ::
  "'k acme_env \<Rightarrow> acme_config \<Rightarrow> order_fresh \<Rightarrow> nat \<Rightarrow> string \<Rightarrow> string \<Rightarrow> bool \<Rightarrow> order_plan result" where
  "plan_authz_new ev cf fr k authz_type authz_value subdomain =
     and_then (case identifier_text (ev_jose ev) authz_type authz_value of
                 Inl e \<Rightarrow> Inl (Internal (''serialize identifier: '' @ e)) | Inr s \<Rightarrow> Inr s) (\<lambda>identifier_json.
     and_then (gen_token ev fr k) (\<lambda>token.
     Inr \<lparr>opl_authz_id = of_authz_id fr k, opl_identifier_json = identifier_json,
          opl_wildcard = (strip_prefix ''*.'' authz_value \<noteq> None), opl_subdomain_auth_allowed = subdomain,
          opl_challenges = map (\<lambda>(j, t). (of_challenge_id fr k j, t)) (enumerate 0 (eligible_challenge_types cf authz_type authz_value)),
          opl_token = token\<rparr>))"

text \<open>One identifier: an existing authorization of an ancestor, by its id, or a new one.\<close>

definition plan_identifier ::
  "'k acme_env \<Rightarrow> acme_config \<Rightarrow> order_config \<Rightarrow> order_fresh \<Rightarrow> string \<Rightarrow> string \<Rightarrow> nat \<Rightarrow> new_order_identifier
     \<Rightarrow> (string + order_plan) db_op" where
  "plan_identifier ev cf oc fr account_id ca_id k i =
     (let authz_type = noi_type i;
          authz_value = (case noi_ancestor_domain i of Some a \<Rightarrow> a | None \<Rightarrow> noi_value i);
          subdomain = (noi_ancestor_domain i \<noteq> None);
          fresh_plan = (\<lambda>d. (map_sum (\<lambda>e. e) Inr (plan_authz_new ev cf fr k authz_type authz_value subdomain), d))
      in if authz_type = ''dns'' \<and> is_onion_domain authz_value \<and> \<not> validate_onion_v3 authz_value
         then db_err (RejectedIdentifier (''only v3 .onion addresses are supported (56-char base32 label); got: '' @ authz_value))
         else if authz_type = ''dns'' \<and> noi_ancestor_domain i = None \<and> \<not> is_onion_domain authz_value \<and> oc_allow_subdomain_auth oc
         then db_then (authz_find_valid_subdomain_ancestor (ev_msg ev) (identifier_text (ev_jose ev) ''dns'') account_id authz_value
                ca_id (ev_now ev)) (\<lambda>found.
              case found of Some row \<Rightarrow> db_ok (Inl (az_id row)) | None \<Rightarrow> fresh_plan)
         else fresh_plan)"

fun plan_identifiers ::
  "'k acme_env \<Rightarrow> acme_config \<Rightarrow> order_config \<Rightarrow> order_fresh \<Rightarrow> string \<Rightarrow> string \<Rightarrow> nat \<Rightarrow> new_order_identifier list
     \<Rightarrow> (string + order_plan) list db_op" where
  "plan_identifiers ev cf oc fr account_id ca_id k [] = db_ok []"
| "plan_identifiers ev cf oc fr account_id ca_id k (i # is) =
     db_then (plan_identifier ev cf oc fr account_id ca_id k i) (\<lambda>p.
     db_then (plan_identifiers ev cf oc fr account_id ca_id (Suc k) is) (\<lambda>ps. db_ok (p # ps)))"

definition new_plans :: "(string + order_plan) list \<Rightarrow> order_plan list" where
  "new_plans ps = List.map_filter (\<lambda>p. case p of Inr q \<Rightarrow> Some q | Inl _ \<Rightarrow> None) ps"

definition planned_id :: "string + order_plan \<Rightarrow> string" where
  "planned_id p = (case p of Inl i \<Rightarrow> i | Inr q \<Rightarrow> opl_authz_id q)"

definition initial_order_status :: "string option \<Rightarrow> (string + order_plan) list \<Rightarrow> order_status" where
  "initial_order_status delegation_id ps =
     (if delegation_id \<noteq> None then OrderReady
      else if new_plans ps = [] \<and> ps \<noteq> [] then OrderReady else OrderPending)"

definition plan_row :: "string \<Rightarrow> string \<Rightarrow> string \<Rightarrow> i64 \<Rightarrow> i64 \<Rightarrow> order_plan \<Rightarrow> authz_plan" where
  "plan_row order_id account_id ca_id now authz_expiry p =
     \<lparr>plan_authz = \<lparr>az_id = opl_authz_id p, az_order_id = order_id, az_account_id = account_id,
        az_status = authz_as_str AuthzPending, az_identifier = opl_identifier_json p, az_expires = Some authz_expiry,
        az_wildcard = (if opl_wildcard p then 1 else 0),
        az_subdomain_auth_allowed = (if opl_subdomain_auth_allowed p then 1 else 0),
        az_created = now, az_updated = now, az_ca_id = ca_id\<rparr>,
      plan_challenges = opl_challenges p, plan_token = opl_token p\<rparr>"

section \<open>The object of an order\<close>

definition some_member :: "string \<Rightarrow> json option \<Rightarrow> (string \<times> json) list" where
  "some_member k x = (case x of None \<Rightarrow> [] | Some v \<Rightarrow> [(k, v)])"

definition raw_json :: "'k jose_ext \<Rightarrow> string \<Rightarrow> json option" where
  "raw_json jo s = (case jo_json_parse jo (jo_utf8 jo s) of Inr v \<Rightarrow> Some v | Inl _ \<Rightarrow> None)"

definition auto_renewal_json :: "order_fresh \<Rightarrow> order_row \<Rightarrow> json option" where
  "auto_renewal_json fr r =
     map_option (\<lambda>end_ts. JObject
       (some_member ''start-date'' (map_option (\<lambda>t. JString (unix_to_rfc3339 fr t)) (ord_star_start_date r))
        @ [(''end-date'', JString (unix_to_rfc3339 fr end_ts)),
           (''lifetime'', JNumber (case ord_star_lifetime_secs r of Some l \<Rightarrow> l | None \<Rightarrow> 0))]
        @ some_member ''lifetime-adjust''
            (if ord_star_lifetime_adjust_secs r \<noteq> 0 then Some (JNumber (ord_star_lifetime_adjust_secs r)) else None)
        @ some_member ''allow-certificate-get'' (if ord_star_allow_cert_get r \<noteq> 0 then Some (JBool True) else None)))
       (ord_star_end_date r)"

definition is_valid_order :: "order_row \<Rightarrow> bool" where
  "is_valid_order r \<longleftrightarrow> order_from_str (ord_status r) = Some OrderValid"

definition star_certificate_url :: "string \<Rightarrow> order_row \<Rightarrow> string option" where
  "star_certificate_url pfx r =
     (if ord_star_end_date r \<noteq> None \<and> is_valid_order r
      then (case ord_upstream_cert_url r of Some u \<Rightarrow> Some u | None \<Rightarrow> Some (pfx @ ''/cert/star/'' @ ord_id r))
      else None)"

definition certificate_url :: "string \<Rightarrow> order_row \<Rightarrow> string option" where
  "certificate_url pfx r =
     (if is_valid_order r \<and> ord_star_end_date r = None
      then (case ord_certificate_id r of Some c \<Rightarrow> Some (pfx @ ''/cert/'' @ c) | None \<Rightarrow> ord_upstream_cert_url r)
      else None)"

definition order_json :: "'k jose_ext \<Rightarrow> order_fresh \<Rightarrow> order_row \<Rightarrow> string list \<Rightarrow> string \<Rightarrow> json" where
  "order_json jo fr r authz_urls pfx =
     (let time = map_option (\<lambda>t. JString (unix_to_rfc3339 fr t)) in
      JObject ([(''status'', JString (ord_status r))]
        @ some_member ''expires'' (time (ord_expires r))
        @ some_member ''notBefore'' (time (ord_not_before r))
        @ some_member ''notAfter'' (time (ord_not_after r))
        @ [(''identifiers'', case raw_json jo (ord_identifiers r) of Some v \<Rightarrow> v | None \<Rightarrow> JArray []),
           (''authorizations'', json_of_strings authz_urls),
           (''finalize'', JString (pfx @ ''/order/'' @ ord_id r @ ''/finalize''))]
        @ some_member ''certificate'' (map_option JString (certificate_url pfx r))
        @ some_member ''star-certificate'' (map_option JString (star_certificate_url pfx r))
        @ some_member ''error'' (Option.bind (ord_error r) (raw_json jo))
        @ some_member ''replaces'' (map_option JString (ord_replaces r))
        @ some_member ''auto-renewal'' (auto_renewal_json fr r)
        @ some_member ''profile'' (map_option JString (ord_profile r))
        @ some_member ''delegation'' (map_option (\<lambda>i. JString (pfx @ ''/delegation/'' @ i)) (ord_delegation_id r))
        @ some_member ''allow-certificate-get''
            (if ord_delegation_id r \<noteq> None \<and> ord_allow_cert_get r \<noteq> 0 then Some (JBool True) else None)))"

section \<open>Creation\<close>

text \<open>A step that may panic; the rest of the handler is not run then, and there is no reply.\<close>

definition or_panic :: "'a result option \<Rightarrow> ('a \<Rightarrow> 'b option handler) \<Rightarrow> 'b option handler" where
  "or_panic m f = (case m of None \<Rightarrow> pure (Inr None) | Some r \<Rightarrow> run_then (pure r) f)"

definition submit_new_order ::
  "sql_texts \<Rightarrow> batch_io \<Rightarrow> order_row \<Rightarrow> authz_plan list \<Rightarrow> string option \<Rightarrow> unit db_op" where
  "submit_new_order msg io row plans tkauth_url d =
     (case coalesce_batch msg io [NewOrder row plans tkauth_url] d of
        ([(_, ReplyNewOrder r)], d') \<Rightarrow> (r, d')
      | (_, d') \<Rightarrow> (Inl (Database ''coalescer reply dropped''), d'))"

definition store_order ::
  "'k acme_env \<Rightarrow> order_config \<Rightarrow> order_row \<Rightarrow> authz_plan list \<Rightarrow> unit handler" where
  "store_order ev oc row plans st =
     on_db (if st_coalescer (sv_app st)
            then submit_new_order (ev_msg ev) (ev_io ev) row plans (oc_token_authority_url oc)
            else own_tx (ev_msg ev) (ev_io ev) (exec_new_order (ev_msg ev) row plans (oc_token_authority_url oc))) st"

definition replicate_plan :: "bool \<Rightarrow> authz_plan \<Rightarrow> app_state \<Rightarrow> app_state" where
  "replicate_plan lock_ok p app =
     (let a = plan_authz p; now = az_created a in
      fold (\<lambda>(challenge_id, challenge_type) s. on_challenge_set lock_ok s
          \<lparr>chp_id = challenge_id, chp_authz_id = az_id a, chp_challenge_type = challenge_type, chp_status = ChallPending,
           chp_token = plan_token p, chp_validated = None, chp_error = None, chp_created = now, chp_updated = now\<rparr>)
        (plan_challenges p)
        (on_authz_upsert lock_ok app
          \<lparr>zup_id = az_id a, zup_order_id = az_order_id a, zup_account_id = az_account_id a, zup_status = AuthzPending,
           zup_identifier = az_identifier a, zup_expires = az_expires a, zup_wildcard = (az_wildcard a \<noteq> 0),
           zup_created = now, zup_updated = now, zup_ca_id = az_ca_id a\<rparr>))"

definition replicate_order :: "bool \<Rightarrow> order_row \<Rightarrow> order_status \<Rightarrow> authz_plan list \<Rightarrow> app_state \<Rightarrow> app_state" where
  "replicate_order lock_ok r status plans app =
     fold (replicate_plan lock_ok) plans
       (on_order_upsert lock_ok app
         \<lparr>oup_id = ord_id r, oup_account_id = ord_account_id r, oup_status = status, oup_expires = ord_expires r,
          oup_identifiers = ord_identifiers r, oup_not_before = ord_not_before r, oup_not_after = ord_not_after r,
          oup_error = None, oup_certificate_id = None, oup_created = ord_created r, oup_updated = ord_updated r,
          oup_ca_id = ord_ca_id r\<rparr>)"

definition identifiers_text :: "'k jose_ext \<Rightarrow> new_order_identifier list \<Rightarrow> string result" where
  "identifiers_text jo ids =
     (case jo_json_text jo (JArray (map (\<lambda>i. JObject [(''type'', JString (noi_type i)), (''value'', JString (noi_value i))]) ids)) of
        Inl e \<Rightarrow> Inl (Internal (''serialize identifiers: '' @ e)) | Inr s \<Rightarrow> Inr s)"

definition new_order_row ::
  "order_fresh \<Rightarrow> string \<Rightarrow> order_status \<Rightarrow> i64 \<Rightarrow> i64 \<Rightarrow> string \<Rightarrow> i64 option \<Rightarrow> i64 option \<Rightarrow> string option \<Rightarrow> star_terms
     \<Rightarrow> string option \<Rightarrow> string \<Rightarrow> string option \<Rightarrow> i64 \<Rightarrow> order_row" where
  "new_order_row fr account_id status now expiry identifiers_json nb na replaces star profile ca_id dlg acg =
     \<lparr>ord_id = of_order_id fr, ord_account_id = account_id, ord_status = order_as_str status, ord_expires = Some expiry,
      ord_identifiers = identifiers_json, ord_not_before = nb, ord_not_after = na, ord_error = None,
      ord_certificate_id = None, ord_replaces = replaces, ord_created = now, ord_updated = now,
      ord_star_start_date = stt_start star, ord_star_end_date = stt_end star, ord_star_lifetime_secs = stt_lifetime star,
      ord_star_lifetime_adjust_secs = stt_adjust star, ord_star_allow_cert_get = stt_allow_get star,
      ord_star_canceled_at = None, ord_star_csr_der = None, ord_profile = profile, ord_ca_id = ca_id,
      ord_delegation_id = dlg, ord_allow_cert_get = acg, ord_upstream_order_url = None, ord_upstream_cert_url = None\<rparr>"

definition new_order_reply ::
  "'k acme_env \<Rightarrow> acme_config \<Rightarrow> order_fresh \<Rightarrow> string \<Rightarrow> order_row \<Rightarrow> string list \<Rightarrow> string \<Rightarrow> acme_reply result" where
  "new_order_reply ev cf fr ca_id row authz_urls nonce =
     (let pfx = acme_prefix cf ca_id; url = pfx @ ''/order/'' @ ord_id row;
          r = json_response ev cf ca_id 201 (order_json (ev_jose ev) fr row authz_urls pfx) nonce
      in if ev_header_ok ev url then Inr (r\<lparr>rp_location := Some url\<rparr>)
         else Inl (Internal ''base_url contains non-ASCII characters''))"

definition new_order ::
  "'k acme_env \<Rightarrow> acme_config \<Rightarrow> order_config \<Rightarrow> order_fresh \<Rightarrow> string \<Rightarrow> bytes \<Rightarrow> acme_reply option handler" where
  "new_order ev cf oc fr ca_id body =
     (let jo = ev_jose ev; pfx = acme_prefix cf ca_id; now = ev_now ev in
      run_then (parse_jws ev cf body (pfx @ ''/new-order'')) (\<lambda>ctx.
      run_then (pure (ok_or (Unauthorized ''kid required'') (jc_account_id ctx))) (\<lambda>account_id.
      run_then (pure (require_payload jo new_order_payload_of_json (jc_payload ctx) ''new-order'')) (\<lambda>payload.
      run_then (pure (ensure (nop_identifiers payload \<noteq> []) (BadRequest ''identifiers must not be empty''))) (\<lambda>_.
      run_then (pure (check_identifiers ev cf oc (nop_auto_renewal payload \<noteq> None) (nop_identifiers payload))) (\<lambda>_.
      run_then (check_replaces ev account_id payload) (\<lambda>_.
      run_then (pure (order_profile oc ca_id payload)) (\<lambda>profile.
      run_then (order_delegation cf oc pfx account_id payload) (\<lambda>(delegation_id, allow_cert_get).
      or_panic (order_star_terms oc now payload) (\<lambda>star.
      run_then (pure (identifiers_text jo (nop_identifiers payload))) (\<lambda>identifiers_json.
      run_then (on_db (plan_identifiers ev cf oc fr account_id ca_id 0
        (if delegation_id = None then nop_identifiers payload else []))) (\<lambda>ps.
      or_panic (optional_date (nop_not_before payload)) (\<lambda>nb.
      or_panic (optional_date (nop_not_after payload)) (\<lambda>na.
      let status = initial_order_status delegation_id ps;
          row = new_order_row fr account_id status now (wrap_i64 (now + int (oc_order_expiry_secs oc))) identifiers_json nb na
            (nop_replaces payload) star profile ca_id delegation_id allow_cert_get;
          rows = map (plan_row (of_order_id fr) account_id ca_id now (wrap_i64 (now + int (oc_authz_expiry_secs oc)))) (new_plans ps)
      in
      run_then (store_order ev oc row rows) (\<lambda>_.
      run_then (modify (record_audit ''OrderCreate'' True
        (Some (''acme:'' @ (case jc_jwk_thumbprint ctx of Some t \<Rightarrow> t | None \<Rightarrow> []))) (Some (of_order_id fr)) None)) (\<lambda>_.
      run_then (on_app (replicate_order (ev_lock_ok ev) row status rows)) (\<lambda>_.
      run_then (pure (new_order_reply ev cf fr ca_id row (map (\<lambda>p. pfx @ ''/authz/'' @ planned_id p) ps) (jc_next_nonce ctx))) (\<lambda>reply.
        pure (Inr (Some reply))))))))))))))))))))"

section \<open>Reading and cancelling\<close>

definition order_update_of_json :: "json \<Rightarrow> string option option" where
  "order_update_of_json v = (if json_is_object v then json_opt_field json_as_str ''status'' v else None)"

definition cancel_order :: "'k acme_env \<Rightarrow> string \<Rightarrow> order_row \<Rightarrow> order_row handler" where
  "cancel_order ev i order =
     run_then (pure (ensure (ord_star_end_date order \<noteq> None)
       (BadRequest ''cancellation is only valid for STAR (auto-renewal) orders''))) (\<lambda>_.
     run_then (pure (ensure (is_valid_order order) AutoRenewalCancellationInvalid)) (\<lambda>_.
     run_then (on_db (orders_cancel_star i (ev_now ev))) (\<lambda>_.
     pure (Inr (order\<lparr>ord_star_canceled_at := Some (ev_now ev), ord_status := order_as_str OrderCanceled, ord_updated := ev_now ev\<rparr>)))))"

definition get_order ::
  "'k acme_env \<Rightarrow> acme_config \<Rightarrow> order_fresh \<Rightarrow> string \<Rightarrow> string \<Rightarrow> bytes \<Rightarrow> acme_reply handler" where
  "get_order ev cf fr ca_id i body =
     (let jo = ev_jose ev; pfx = acme_prefix cf ca_id in
      run_then (parse_jws ev cf body (pfx @ ''/order/'' @ i)) (\<lambda>ctx.
      run_then (pure (ok_or (Unauthorized ''kid required'') (jc_account_id ctx))) (\<lambda>account_id.
      run_then (on_db (orders_get_with_authz_ids i)) (\<lambda>found.
      run_then (pure (ok_or NotFound found)) (\<lambda>(order, authz_ids).
      run_then (pure (ensure (ord_ca_id order = ca_id) NotFound)) (\<lambda>_.
      run_then (pure (ensure (ord_account_id order = account_id) (Unauthorized ''order belongs to different account''))) (\<lambda>_.
      run_then (if jc_payload ctx = [] then pure (Inr order)
                else run_then (pure (bad_request ''order update JSON: '' (from_slice jo order_update_of_json (jc_payload ctx)))) (\<lambda>status.
                     if status = Some ''canceled'' then cancel_order ev i order else pure (Inr order))) (\<lambda>shown.
        pure (Inr (json_response ev cf ca_id 200
          (order_json jo fr shown (map (\<lambda>a. pfx @ ''/authz/'' @ a) authz_ids) pfx) (jc_next_nonce ctx)))))))))))"

end
