(* ===== verification/Acme_Samples.thy ===== *)
theory Acme_Samples
  imports Acme_Authority
begin

text \<open>
  A concrete request of an account, for any endpoint and payload: the libraries of the sample environment
  accept every signature, and answer the three texts that occur with the request, its header and its
  payload.
\<close>

definition kid_env :: "string \<Rightarrow> json \<Rightarrow> unit acme_env" where
  "kid_env url payload = (sample_env 65)\<lparr>ev_jose := sample_acme_jose\<lparr>
     jo_json_text := \<lambda>_. Inr ''j'',
     jo_json_parse := \<lambda>bs. Inr (if bs = sample_body
         then JObject [(''protected'', JString ''h''), (''payload'', JString ''p''), (''signature'', JString ''s'')]
       else if bs = [112] then payload
       else JObject [(''alg'', JString ''EdDSA''), (''nonce'', JString ''n1''), (''url'', JString url),
         (''kid'', JString ''b/acme/account/a1'')])\<rparr>\<rparr>"

definition sample_ready :: "acme_server \<Rightarrow> bool" where
  "sample_ready st \<longleftrightarrow> sv_nonces st = bucket_insert 1 ''n1'' bucket_new \<and> sv_spki_cache st = []
     \<and> find (\<lambda>r. acc_id r = ''a1'') (db_accounts (sv_db st)) = Some (sample_account ''a1'')"

lemma kid_env_sel [simp]:
  "ev_now (kid_env url p) = 5" "ev_header_ok (kid_env url p) = (\<lambda>_. True)" "ev_lock_ok (kid_env url p) = True"
  "ev_io (kid_env url p) = \<lparr>begin_ok = True, savepoint_ok = \<lambda>_. True, rollback_to_ok = \<lambda>_. True, commit_ok = True\<rparr>"
  by (simp_all add: kid_env_def sample_env_def)

lemma kid_env_parse: "from_slice (ev_jose (kid_env url p)) f [112] = ok_or [] (f p)"
  by (simp add: kid_env_def sample_acme_defs from_slice_def)

lemma kid_accepted:
  assumes "sample_ready st"
  obtains ctx st1 where "parse_jws (kid_env url p) sample_config sample_body url st = (Inr ctx, st1)"
    and "jc_account_id ctx = Some ''a1''" and "jc_payload ctx = [112]" and "sv_app st1 = sv_app st"
proof -
  let ?ev = "kid_env url p" and ?jo = "ev_jose (kid_env url p)"
  let ?jws = "\<lparr>jws_protected = ''h'', jws_payload = ''p'', jws_signature = ''s''\<rparr>"
  let ?h = "\<lparr>jh_alg = ''EdDSA'', jh_nonce = ''n1'', jh_url = url, jh_key_ref = KeyKid ''b/acme/account/a1''\<rparr>"
  have jws: "from_slice ?jo jws_of_json sample_body = Inr ?jws"
    by (simp add: kid_env_def sample_acme_defs from_slice_def jws_of_json_def json_get_def json_as_str_def)
  have h: "decode_header ?jo ?jws = Inr ?h"
    by (simp add: kid_env_def sample_acme_defs decode_header_def from_slice_def header_of_json_def key_ref_of_json_def json_get_def json_as_str_def)
  have v: "jws_verify ?jo ?jws k = Inr ()" for k
    unfolding jws_verify_def h by (simp add: ml_dsa_sig_len_def verify_with_spki_def sig_for_alg_def kid_env_def sample_acme_defs)
  have d: "decode_payload ?jo ?jws = Inr [112]" by (simp add: decode_payload_def kid_env_def sample_acme_defs)
  let ?s1 = "st\<lparr>sv_nonces := \<lparr>nb_inner = [(''A'', 5)], nb_node_prefix = [], nb_prefix_dot = []\<rparr>\<rparr>"
  have g: "gen_nonce ?ev (nb_node_prefix (sv_nonces st)) = Inr ''A''"
    using assms by (simp add: gen_nonce_def kid_env_def sample_acme_defs sample_chars bucket_insert_def bucket_new_def sample_ready_def)
  have t: "take_nonce ?ev ''n1'' ''A'' st = (Inr (), ?s1)"
    using assms by (simp add: take_nonce_def sample_ready_def bucket_insert_def bucket_new_def has_local_prefix_def consume_and_insert_def)
  have "account_id_from_kid ''b'' ''b/acme/account/a1'' = Inr ''a1''" by (simp add: account_id_from_kid_def strip_prefix_def)
  moreover have "\<exists>s2. account_of_kid ?ev ''a1'' ?s1 = (Inr \<lparr>cac_spki_der = [], cac_jwk_thumbprint = ''a1'', cac_status = ''valid'',
      cac_cached_at = 7\<rparr>, s2) \<and> sv_app s2 = sv_app st"
    using assms by (simp add: account_of_kid_def cached_entry_def sample_ready_def sample_account_def run_then_def pure_def modify_def
        kid_env_def sample_env_def account_from_valid Let_def)
  ultimately obtain s2 where k: "signing_key ?ev sample_config (KeyKid ''b/acme/account/a1'') ?s1 = (Inr ([], Some ''a1'', Some ''a1''), s2)"
    and app: "sv_app s2 = sv_app st"
    by (auto simp: signing_key_def run_then_def pure_def sample_config_def)
  obtain s3 where r: "verify_request ?ev ?jws [] (Some ''a1'') s2 = (Inr (), s3)" and app3: "sv_app s3 = sv_app s2"
    by (simp add: verify_request_def v)
  obtain ctx where "parse_jws ?ev sample_config sample_body url st = (Inr ctx, s3)" "jc_account_id ctx = Some ''a1''" "jc_payload ctx = [112]"
    using g t k r by (simp add: parse_jws_def Let_def jws run_then_def pure_def jose_result_def h d)
  then show thesis by (rule that) (use app app3 in simp)
qed

end
