(* ===== verification/Order_Properties.thy ===== *)
theory Order_Properties
  imports Acme_Order Acme_Effects Acme_Samples
begin

text \<open>
  What an order request does: which authorizations the new order has, when it may be finalized at
  once, that a refused request stores nothing, and who can read and cancel an order.
\<close>

section \<open>Authorizations of a new order\<close>

text \<open>A valid authorization of the account for a domain above the name, that may be used for subdomains.\<close>

definition ancestor_authorized :: "'k jose_ext \<Rightarrow> string \<Rightarrow> string \<Rightarrow> i64 \<Rightarrow> db \<Rightarrow> string \<Rightarrow> string \<Rightarrow> bool" where
  "ancestor_authorized jo account_id ca_id now d domain authz_id \<longleftrightarrow>
     (\<exists>a ancestor. a \<in> set (db_authzs d) \<and> suffix (CHR ''.'' # ancestor) domain \<and> az_id (azt_row a) = authz_id
        \<and> az_account_id (azt_row a) = account_id \<and> identifier_text jo ''dns'' ancestor = Inr (az_identifier (azt_row a))
        \<and> az_subdomain_auth_allowed (azt_row a) = 1 \<and> az_ca_id (azt_row a) \<in> {ca_id, ''default'', []}
        \<and> az_status (azt_row a) = ''valid'' \<and> authz_unexpired now (azt_row a))"

declare authz_find_valid_subdomain_ancestor.simps [simp del]

lemma after_dot_Some: "after_dot s = Some r \<Longrightarrow> \<exists>l. s = l @ CHR ''.'' # r"
proof -
  assume a: "after_dot s = Some r"
  then obtain c where c: "dropWhile (\<lambda>c. c \<noteq> CHR ''.'') s = c # r" by (auto simp: after_dot_def split: list.splits)
  have "c = CHR ''.''" using hd_dropWhile [of "\<lambda>c. c \<noteq> CHR ''.''" s] c by simp
  then show ?thesis
    using takeWhile_dropWhile_id [of "\<lambda>c. c \<noteq> CHR ''.''" s] c by (intro exI [of _ "takeWhile (\<lambda>c. c \<noteq> CHR ''.'') s"]) simp
qed

lemma db_then_step: "m d = (r, e) \<Longrightarrow> db_then m f d = (case r of Inl x \<Rightarrow> (Inl x, e) | Inr x \<Rightarrow> f x e)"
  by (simp add: db_then_def)

lemma authz_fetch_optional_db: "snd (authz_fetch_optional msg p d) = d"
  by (auto simp: authz_fetch_optional_def split: option.splits sum.splits)

lemma authz_fetch_optional_Some:
  assumes "authz_fetch_optional msg p d = (Inr (Some row), d')"
  obtains a where "a \<in> set (db_authzs d)" "p a" "az_id (azt_row a) = az_id row"
proof -
  obtain a where f: "find p (db_authzs d) = Some a" and r: "authz_decode msg a = Inr row"
    using assms by (auto simp: authz_fetch_optional_def split: option.splits sum.splits)
  have "az_id (azt_row a) = az_id row" using r by (auto simp: authz_decode_def split: option.splits)
  then show thesis using that [of a] find_SomeD [OF f] by simp
qed

lemma ancestor_lookup:
  "snd (authz_find_valid_subdomain_ancestor msg (identifier_text jo ''dns'') account_id domain ca_id now d) = d
   \<and> (fst (authz_find_valid_subdomain_ancestor msg (identifier_text jo ''dns'') account_id domain ca_id now d) = Inr (Some row)
      \<longrightarrow> ancestor_authorized jo account_id ca_id now d domain (az_id row))"
proof (induction domain rule: length_induct)
  case (1 domain)
  let ?f = "\<lambda>x. authz_find_valid_subdomain_ancestor msg (identifier_text jo ''dns'') account_id x ca_id now d"
  show ?case
  proof (cases "after_dot domain")
    case None
    then show ?thesis by (simp add: authz_find_valid_subdomain_ancestor.simps [of _ _ _ domain])
  next
    case (Some r)
    then obtain l where l: "domain = l @ CHR ''.'' # r" using after_dot_Some by blast
    have ih: "snd (?f r) = d" "fst (?f r) = Inr (Some row) \<Longrightarrow> ancestor_authorized jo account_id ca_id now d r (az_id row)"
      using 1 after_dot_shorter [OF Some] by blast+
    have up: "ancestor_authorized jo account_id ca_id now d r i \<Longrightarrow> ancestor_authorized jo account_id ca_id now d domain i" for i
      unfolding ancestor_authorized_def l by (blast intro: suffix_appendI suffix_ConsI)
    show ?thesis
    proof (cases "identifier_text jo ''dns'' r")
      case (Inl e)
      then show ?thesis using Some by (simp add: authz_find_valid_subdomain_ancestor.simps [of _ _ _ domain])
    next
      case (Inr j)
      let ?p = "\<lambda>a. let r = azt_row a in az_account_id r = account_id \<and> az_identifier r = j \<and>
          az_subdomain_auth_allowed r = 1 \<and> (az_ca_id r = ca_id \<or> az_ca_id r = ''default'' \<or> az_ca_id r = []) \<and>
          az_status r = ''valid'' \<and> authz_unexpired now r"
      have here: "ancestor_authorized jo account_id ca_id now d domain (az_id row)"
        if "authz_fetch_optional msg ?p d = (Inr (Some row), d)"
      proof (rule authz_fetch_optional_Some [OF that])
        fix a assume a: "a \<in> set (db_authzs d)" "?p a" "az_id (azt_row a) = az_id row"
        have "suffix (CHR ''.'' # r) domain" unfolding l by (rule suffixI) simp
        then show ?thesis using a Inr unfolding ancestor_authorized_def Let_def
          by (intro exI [of _ a] exI [of _ r]) simp
      qed
      obtain v where v: "authz_fetch_optional msg ?p d = (v, d)"
        by (rule that [of "fst (authz_fetch_optional msg ?p d)"]) (rule prod_eqI; simp only: fst_conv snd_conv authz_fetch_optional_db)
      have unfold: "?f domain = (if CHR ''.'' \<notin> set r then (Inr None, d)
          else case v of Inl e \<Rightarrow> (Inl e, d) | Inr (Some row) \<Rightarrow> (Inr (Some row), d) | Inr None \<Rightarrow> ?f r)"
        by (subst authz_find_valid_subdomain_ancestor.simps)
          (simp only: Some Inr option.case sum.case v prod.case if_cancel)
      show ?thesis
        using ih up here v unfolding unfold by (auto split: sum.split option.split)
    qed
  qed
qed

text \<open>The new authorization an identifier gets.\<close>

definition authorized_value :: "new_order_identifier \<Rightarrow> string" where
  "authorized_value i = (case noi_ancestor_domain i of Some a \<Rightarrow> a | None \<Rightarrow> noi_value i)"

definition planned ::
  "'k acme_env \<Rightarrow> acme_config \<Rightarrow> string \<Rightarrow> string \<Rightarrow> db \<Rightarrow> new_order_identifier \<Rightarrow> string + order_plan \<Rightarrow> bool" where
  "planned ev cf account_id ca_id d i p =
     (case p of
        Inl authz_id \<Rightarrow> noi_type i = ''dns'' \<and> noi_ancestor_domain i = None
          \<and> ancestor_authorized (ev_jose ev) account_id ca_id (ev_now ev) d (noi_value i) authz_id
      | Inr q \<Rightarrow> identifier_text (ev_jose ev) (noi_type i) (authorized_value i) = Inr (opl_identifier_json q)
          \<and> map snd (opl_challenges q) = eligible_challenge_types cf (noi_type i) (authorized_value i))"

lemma plan_authz_new_ok:
  assumes "plan_authz_new ev cf fr k t v sub = Inr q"
  shows "identifier_text (ev_jose ev) t v = Inr (opl_identifier_json q)"
    and "map snd (opl_challenges q) = eligible_challenge_types cf t v"
proof -
  have "map snd (map (\<lambda>(j, t). (f j, t)) (enumerate n xs)) = xs" for f n and xs :: "string list"
    by (induction xs arbitrary: n) simp_all
  then show "identifier_text (ev_jose ev) t v = Inr (opl_identifier_json q)"
    and "map snd (opl_challenges q) = eligible_challenge_types cf t v"
    using assms by (auto simp: plan_authz_new_def and_then_Inr split: sum.splits)
qed

lemma plan_identifier_ok:
  "snd (plan_identifier ev cf oc fr account_id ca_id k i d) = d"
  "fst (plan_identifier ev cf oc fr account_id ca_id k i d) = Inr p \<Longrightarrow> planned ev cf account_id ca_id d i p"
proof -
  let ?v = "authorized_value i"
  let ?new = "map_sum (\<lambda>e. e) Inr (plan_authz_new ev cf fr k (noi_type i) ?v (noi_ancestor_domain i \<noteq> None))"
  let ?find = "authz_find_valid_subdomain_ancestor (ev_msg ev) (identifier_text (ev_jose ev) ''dns'') account_id ?v ca_id (ev_now ev) d"
  obtain x where x: "?find = (x, d)" using ancestor_lookup by (metis prod.collapse)
  have new: "planned ev cf account_id ca_id d i q" if "?new = Inr q" for q
    using that plan_authz_new_ok by (cases "plan_authz_new ev cf fr k (noi_type i) ?v (noi_ancestor_domain i \<noteq> None)")
      (auto simp: planned_def)
  have old: "ancestor_authorized (ev_jose ev) account_id ca_id (ev_now ev) d ?v (az_id row)" if "x = Inr (Some row)" for row
    using ancestor_lookup [of "ev_msg ev" "ev_jose ev" account_id ?v ca_id "ev_now ev" d row] x that by simp
  have def: "plan_identifier ev cf oc fr account_id ca_id k i d =
      (if noi_type i = ''dns'' \<and> is_onion_domain ?v \<and> \<not> validate_onion_v3 ?v
       then (Inl (RejectedIdentifier (''only v3 .onion addresses are supported (56-char base32 label); got: '' @ ?v)), d)
       else if noi_type i = ''dns'' \<and> noi_ancestor_domain i = None \<and> \<not> is_onion_domain ?v \<and> oc_allow_subdomain_auth oc
       then (case x of Inl e \<Rightarrow> (Inl e, d) | Inr (Some row) \<Rightarrow> (Inr (Inl (az_id row)), d) | Inr None \<Rightarrow> (?new, d))
       else (?new, d))"
    using x by (simp add: plan_identifier_def authorized_value_def [symmetric] Let_def db_err_def db_then_def db_ok_def
        split: sum.split option.split)
  show "snd (plan_identifier ev cf oc fr account_id ca_id k i d) = d"
    unfolding def by (simp split: sum.split option.split)
  show "planned ev cf account_id ca_id d i p" if "fst (plan_identifier ev cf oc fr account_id ca_id k i d) = Inr p"
    using that new old unfolding def
    by (auto simp: planned_def authorized_value_def split: if_splits sum.splits option.splits)
qed

lemma plan_identifiers_ok:
  "snd (plan_identifiers ev cf oc fr account_id ca_id k is d) = d
   \<and> (\<forall>ps. fst (plan_identifiers ev cf oc fr account_id ca_id k is d) = Inr ps \<longrightarrow> list_all2 (planned ev cf account_id ca_id d) is ps)"
proof (induction "is" arbitrary: k)
  case Nil
  show ?case by (simp add: db_ok_def)
next
  case (Cons i "is")
  obtain r where r: "plan_identifier ev cf oc fr account_id ca_id k i d = (r, d)"
    using plan_identifier_ok(1) by (metis prod.collapse)
  obtain rs where rs: "plan_identifiers ev cf oc fr account_id ca_id (Suc k) is d = (rs, d)"
    using Cons by (metis prod.collapse)
  show ?case
    using plan_identifier_ok(2) [of ev cf oc fr account_id ca_id k i d] Cons [of "Suc k"] r rs
    by (auto simp: db_then_step [of _ d r d] db_then_step [of _ d rs d] db_ok_def split: sum.splits)
qed

section \<open>What is stored\<close>

definition opened_authz :: "authz_plan \<Rightarrow> authz_rec" where
  "opened_authz p = \<lparr>azt_order_id = Some (az_order_id (plan_authz p)), azt_row = plan_authz p\<rparr>"

definition opened_challenges :: "i64 \<Rightarrow> string option \<Rightarrow> authz_plan \<Rightarrow> challenge_row list" where
  "opened_challenges now url p = map (new_challenge_row (az_id (plan_authz p)) (plan_token p) now url) (plan_challenges p)"

lemma insert_authz_plans_ok:
  "insert_authz_plans msg now url plans d = (Inr (), d') \<Longrightarrow>
     d' = d\<lparr>db_authzs := db_authzs d @ map opened_authz plans,
            db_challenges := db_challenges d @ concat (map (opened_challenges now url) plans)\<rparr>"
proof (induction plans arbitrary: d)
  case Nil
  then show ?case by (simp add: db_ok_def)
next
  case (Cons p plans)
  from Cons.prems obtain d1 d2 where a: "authz_insert msg (plan_authz p) d = (Inr (), d1)"
    and c: "challenges_insert_batch msg (az_id (plan_authz p)) (plan_challenges p) (plan_token p) now url d1 = (Inr (), d2)"
    and r: "insert_authz_plans msg now url plans d2 = (Inr (), d')"
    by (auto simp: db_then_def split: prod.splits sum.splits)
  have "d1 = d\<lparr>db_authzs := db_authzs d @ [opened_authz p]\<rparr>"
    using a by (auto simp: authz_insert_def sql_insert_def opened_authz_def split: if_splits)
  moreover have "d2 = d1\<lparr>db_challenges := db_challenges d1 @ opened_challenges now url p\<rparr>"
    using c by (auto simp: challenges_insert_batch_def sql_insert_def opened_challenges_def split: if_splits)
  ultimately show ?case using Cons.IH [OF r] by simp
qed

lemma exec_new_order_ok:
  assumes "exec_new_order msg row plans url d = (Inr (), d')"
  shows "d' = d\<lparr>db_orders := db_orders d @ [row], db_authzs := db_authzs d @ map opened_authz plans,
      db_challenges := db_challenges d @ concat (map (opened_challenges (ord_created row) url) plans)\<rparr>"
proof -
  from assms obtain d1 where o: "orders_insert msg row d = (Inr (), d1)"
    and r: "insert_authz_plans msg (ord_created row) url plans d1 = (Inr (), d')"
    by (auto simp: exec_new_order_def db_then_def split: prod.splits sum.splits)
  have "d1 = d\<lparr>db_orders := db_orders d @ [row]\<rparr>"
    using o by (auto simp: orders_insert_def sql_insert_def split: if_splits)
  then show ?thesis using insert_authz_plans_ok [OF r] by simp
qed

lemma own_tx_ok: "own_tx msg io m d = (Inr x, d') \<Longrightarrow> m d = (Inr x, d')"
  by (auto simp: own_tx_def split: prod.splits if_splits sum.splits)

lemma submit_new_order_ok: "submit_new_order msg io row plans url d = (Inr (), d') \<Longrightarrow> exec_new_order msg row plans url d = (Inr (), d')"
  by (auto simp: submit_new_order_def coalesce_batch_def map_prod_def send_error_def split: prod.splits if_splits sum.splits)

lemma store_order_ok:
  assumes "store_order ev oc row plans st = (Inr (), st')"
  shows "\<exists>d. exec_new_order (ev_msg ev) row plans (oc_token_authority_url oc) (sv_db st) = (Inr (), d) \<and> st' = set_db d st"
  using assms by (auto simp: store_order_def on_db_Inr split: if_splits dest: own_tx_ok submit_new_order_ok)

lemma fold_db: "(\<And>x s. st_db (h x s) = st_db s) \<Longrightarrow> st_db (fold h xs s) = st_db s"
  by (induction xs arbitrary: s) simp_all

lemma replicate_plan_db [simp]: "st_db (replicate_plan l p app) = st_db app"
  unfolding replicate_plan_def Let_def by (subst fold_db) (auto simp: on_authz_upsert_def on_challenge_set_def)

lemma replicate_order_db [simp]: "st_db (replicate_order l r s ps app) = st_db app"
  unfolding replicate_order_def by (subst fold_db) (simp_all add: on_order_upsert_def)

lemma or_panic_Some: "or_panic m f st = (Inr (Some y), t) \<longleftrightarrow> (\<exists>x. m = Some (Inr x) \<and> f x st = (Inr (Some y), t))"
  by (auto simp: or_panic_def run_then_Inr split: option.splits)

section \<open>Creation\<close>

lemma order_reads [simp]:
  "on_db (delegations_get_by_id i) st = (Inr (find (\<lambda>r. dlg_id r = i) (db_delegations (sv_db st))), st)"
  "on_db (certs_get_by_cert_id f h c) st = (fst (certs_get_by_cert_id f h c (sv_db st)), st)"
proof -
  have "snd (certs_get_by_cert_id f h c d) = d" for d
    by (auto simp: certs_get_by_cert_id_def certs_get_by_serial_def split: list.split option.split)
  then show "on_db (certs_get_by_cert_id f h c) st = (fst (certs_get_by_cert_id f h c (sv_db st)), st)"
    by (simp add: on_db_def split: prod.split) (metis snd_conv set_db_same)
qed (simp add: on_db_def delegations_get_by_id_def)

lemma check_replaces_state: "check_replaces ev i payload st = (r, t) \<Longrightarrow> t = st"
  by (auto simp: check_replaces_def run_then_def pure_def split: option.splits sum.splits)

text \<open>The delegation of an order belongs to the account that orders.\<close>

definition delegated_to :: "db \<Rightarrow> string \<Rightarrow> string \<Rightarrow> bool" where
  "delegated_to d account_id i \<longleftrightarrow> (\<exists>r \<in> set (db_delegations d). dlg_id r = i \<and> dlg_account_id r = account_id)"

lemma order_delegation_ok:
  assumes "order_delegation cf oc pfx i payload st = (Inr (dlg, acg), t)"
  shows "t = st" and "dlg = None \<longleftrightarrow> nop_delegation payload = None" and "dlg = Some x \<Longrightarrow> delegated_to (sv_db st) i x"
proof -
  show "t = st" "dlg = None \<longleftrightarrow> nop_delegation payload = None"
    using assms by (auto simp: order_delegation_def run_then_Inr split: option.splits)
  assume "dlg = Some x"
  then obtain r where f: "find (\<lambda>r. dlg_id r = x) (db_delegations (sv_db st)) = Some r" and a: "dlg_account_id r = i"
    using assms by (auto simp: order_delegation_def run_then_Inr split: option.splits)
  show "delegated_to (sv_db st) i x" using find_SomeD [OF f] a unfolding delegated_to_def by blast
qed

lemma on_db_plan:
  assumes "on_db (plan_identifiers ev cf oc fr i ca_id k is) st = (Inr ps, t)"
  shows "t = st" and "list_all2 (planned ev cf i ca_id (sv_db st)) is ps"
  using plan_identifiers_ok [of ev cf oc fr i ca_id k "is" "sv_db st"] assms by (auto simp: on_db_Inr)

lemma new_order_ok:
  assumes "new_order ev cf oc fr ca_id body st = (Inr (Some reply), st')"
  obtains ctx st1 i payload profile dlg acg star idj ps nb na where
    "parse_jws ev cf body (acme_prefix cf ca_id @ ''/new-order'') st = (Inr ctx, st1)" "jc_account_id ctx = Some i"
    "require_payload (ev_jose ev) new_order_payload_of_json (jc_payload ctx) ''new-order'' = Inr payload"
    "nop_identifiers payload \<noteq> []"
    "check_identifiers ev cf oc (nop_auto_renewal payload \<noteq> None) (nop_identifiers payload) = Inr ()"
    "order_delegation cf oc (acme_prefix cf ca_id) i payload st1 = (Inr (dlg, acg), st1)"
    "identifiers_text (ev_jose ev) (nop_identifiers payload) = Inr idj"
    "list_all2 (planned ev cf i ca_id (sv_db st)) (if dlg = None then nop_identifiers payload else []) ps"
    "exec_new_order (ev_msg ev)
       (new_order_row fr i (initial_order_status dlg ps) (ev_now ev) (wrap_i64 (ev_now ev + int (oc_order_expiry_secs oc))) idj nb na
          (nop_replaces payload) star profile ca_id dlg acg)
       (map (plan_row (of_order_id fr) i ca_id (ev_now ev) (wrap_i64 (ev_now ev + int (oc_authz_expiry_secs oc)))) (new_plans ps))
       (oc_token_authority_url oc) (sv_db st) = (Inr (), sv_db st')"
proof -
  from assms obtain ctx st1 i payload st2 profile dlg acg st3 star idj ps st4 nb na st5 where
    p: "parse_jws ev cf body (acme_prefix cf ca_id @ ''/new-order'') st = (Inr ctx, st1)" and c: "jc_account_id ctx = Some i"
    and q: "require_payload (ev_jose ev) new_order_payload_of_json (jc_payload ctx) ''new-order'' = Inr payload"
    and ne: "nop_identifiers payload \<noteq> []"
    and ci: "check_identifiers ev cf oc (nop_auto_renewal payload \<noteq> None) (nop_identifiers payload) = Inr ()"
    and rp: "check_replaces ev i payload st1 = (Inr (), st2)"
    and dl: "order_delegation cf oc (acme_prefix cf ca_id) i payload st2 = (Inr (dlg, acg), st3)"
    and idj: "identifiers_text (ev_jose ev) (nop_identifiers payload) = Inr idj"
    and ps: "on_db (plan_identifiers ev cf oc fr i ca_id 0 (if dlg = None then nop_identifiers payload else [])) st3 = (Inr ps, st4)"
    and so: "store_order ev oc (new_order_row fr i (initial_order_status dlg ps) (ev_now ev)
          (wrap_i64 (ev_now ev + int (oc_order_expiry_secs oc))) idj nb na (nop_replaces payload) star profile ca_id dlg acg)
       (map (plan_row (of_order_id fr) i ca_id (ev_now ev) (wrap_i64 (ev_now ev + int (oc_authz_expiry_secs oc)))) (new_plans ps)) st4
       = (Inr (), st5)"
    and db: "sv_db st' = sv_db st5"
    by (auto simp: new_order_def Let_def run_then_Inr or_panic_Some on_app_def split: prod.splits)
  have app: "sv_app st1 = sv_app st" by (rule parse_jws_ok [OF p]) simp
  have s: "st2 = st1" "st3 = st1" using check_replaces_state [OF rp] order_delegation_ok(1) [OF dl] by simp_all
  note s4 = on_db_plan [OF ps, unfolded s]
  obtain d where d: "exec_new_order (ev_msg ev) (new_order_row fr i (initial_order_status dlg ps) (ev_now ev)
          (wrap_i64 (ev_now ev + int (oc_order_expiry_secs oc))) idj nb na (nop_replaces payload) star profile ca_id dlg acg)
       (map (plan_row (of_order_id fr) i ca_id (ev_now ev) (wrap_i64 (ev_now ev + int (oc_authz_expiry_secs oc)))) (new_plans ps))
       (oc_token_authority_url oc) (sv_db st4) = (Inr (), d)" and st5: "st5 = set_db d st4"
    using store_order_ok [OF so] by blast
  show thesis
    by (rule that [OF p c q ne ci _ idj]) (use dl s d st5 db app s4 in simp_all)
qed

text \<open>An open authorization of the order for the identifier, with a challenge of every eligible type.\<close>

definition authz_opened :: "'k acme_env \<Rightarrow> acme_config \<Rightarrow> db \<Rightarrow> order_row \<Rightarrow> new_order_identifier \<Rightarrow> bool" where
  "authz_opened ev cf d row i \<longleftrightarrow>
     (\<exists>a \<in> set (db_authzs d). azt_order_id a = Some (ord_id row) \<and> az_account_id (azt_row a) = ord_account_id row
        \<and> az_status (azt_row a) = ''pending''
        \<and> identifier_text (ev_jose ev) (noi_type i) (authorized_value i) = Inr (az_identifier (azt_row a))
        \<and> (\<forall>t \<in> set (eligible_challenge_types cf (noi_type i) (authorized_value i)).
             \<exists>c \<in> set (db_challenges d). ch_authz_id c = az_id (azt_row a) \<and> ch_type c = t \<and> ch_status c = ''pending''))"

definition ancestor_covers :: "'k acme_env \<Rightarrow> db \<Rightarrow> order_row \<Rightarrow> new_order_identifier \<Rightarrow> bool" where
  "ancestor_covers ev d row i \<longleftrightarrow> noi_type i = ''dns'' \<and>
     (\<exists>authz_id. ancestor_authorized (ev_jose ev) (ord_account_id row) (ord_ca_id row) (ev_now ev) d (noi_value i) authz_id)"

lemma opened_by_plan:
  assumes "identifier_text (ev_jose ev) (noi_type i) (authorized_value i) = Inr (opl_identifier_json q)"
    and "map snd (opl_challenges q) = eligible_challenge_types cf (noi_type i) (authorized_value i)"
    and "opened_authz (plan_row (ord_id row) (ord_account_id row) ca now x q) \<in> set (db_authzs d)"
    and "set (opened_challenges now' url (plan_row (ord_id row) (ord_account_id row) ca now x q)) \<subseteq> set (db_challenges d)"
  shows "authz_opened ev cf d row i"
proof -
  let ?p = "plan_row (ord_id row) (ord_account_id row) ca now x q"
  have "\<exists>c \<in> set (db_challenges d). ch_authz_id c = az_id (azt_row (opened_authz ?p)) \<and> ch_type c = t \<and> ch_status c = ''pending''"
    if t: "t \<in> set (eligible_challenge_types cf (noi_type i) (authorized_value i))" for t
  proof -
    from t obtain c where "(c, t) \<in> set (opl_challenges q)" unfolding assms(2) [symmetric] by auto
    then have "new_challenge_row (opl_authz_id q) (opl_token q) now' url (c, t) \<in> set (opened_challenges now' url ?p)"
      by (auto simp: opened_challenges_def plan_row_def)
    then show ?thesis using assms(4) by (intro bexI) (auto simp: new_challenge_row_def opened_authz_def plan_row_def)
  qed
  then show ?thesis
    unfolding authz_opened_def using assms(1,3) by (intro bexI [OF _ assms(3)]) (simp add: opened_authz_def plan_row_def)
qed

lemma planned_covers:
  assumes "list_all2 (planned ev cf (ord_account_id row) (ord_ca_id row) d) is ps"
    and "d' = d\<lparr>db_orders := os, db_authzs := db_authzs d @ map (opened_authz \<circ> plan_row oid acct ca now x) (new_plans ps),
           db_challenges := db_challenges d @
             concat (map (opened_challenges now' url \<circ> plan_row oid acct ca now x) (new_plans ps))\<rparr>"
    and "i \<in> set is" and [simp]: "oid = ord_id row" "acct = ord_account_id row"
  shows "ancestor_covers ev d row i \<or> (authz_opened ev cf d' row i \<and> new_plans ps \<noteq> [])"
proof -
  obtain p where pp: "p \<in> set ps" and pl: "planned ev cf (ord_account_id row) (ord_ca_id row) d i p"
    using assms(1,3) by (metis in_set_conv_nth list_all2_conv_all_nth)
  show ?thesis
  proof (cases p)
    case (Inl authz_id)
    then show ?thesis using pl by (auto simp: planned_def ancestor_covers_def)
  next
    case (Inr q)
    have q: "q \<in> set (new_plans ps)" using pp Inr unfolding new_plans_def List.map_filter_def by force
    have "authz_opened ev cf d' row i"
      by (rule opened_by_plan [of ev i q cf row ca now x d' now' url])
        (use pl q in \<open>auto simp: planned_def Inr assms(2)\<close>)
    then show ?thesis using q by auto
  qed
qed


section \<open>Refusals\<close>

text \<open>A handler that answers with an error, or does not answer, and keeps the database.\<close>

definition quiet :: "(acme_server \<Rightarrow> bool) \<Rightarrow> 'a option handler \<Rightarrow> bool" where
  "quiet I h \<longleftrightarrow> (\<forall>st r t. I st \<longrightarrow> h st = (r, t) \<longrightarrow> (\<forall>y. r \<noteq> Inr (Some y)) \<longrightarrow> I t)"

named_theorems quiet_intros

lemma quiet_then [quiet_intros]:
  assumes "maintains I f" and "\<And>x. quiet I (g x)"
  shows "quiet I (run_then f g)"
  unfolding quiet_def
proof (intro allI impI)
  fix st r t assume "I st" and h: "run_then f g st = (r, t)" and n: "\<forall>y. r \<noteq> Inr (Some y)"
  obtain x s where fs: "f st = (x, s)" by fastforce
  have "I s" using maintainsD [OF assms(1) \<open>I st\<close>] fs by simp
  then show "I t" using h n fs assms(2) by (auto simp: run_then_def quiet_def split: sum.splits)
qed

lemma quiet_pure [quiet_intros]: "quiet I (pure r)"
  by (simp add: quiet_def pure_def)

lemma quiet_or_panic [quiet_intros]: "(\<And>x. quiet I (f x)) \<Longrightarrow> quiet I (or_panic m f)"
  unfolding or_panic_def by (cases m) (auto intro: quiet_intros maintains_pure)

lemma quiet_case_prod [quiet_intros]: "(\<And>x y. quiet I (f x y)) \<Longrightarrow> quiet I (case v of (x, y) \<Rightarrow> f x y)"
  by (simp split: prod.split)

lemma store_order_refused:
  assumes "store_order ev oc row plans st = (Inl e, t)" and "rollback_to_ok (ev_io ev) 0"
  shows "sv_db t = sv_db st"
proof -
  have tx: "d' = d" if "own_tx msg io m d = (Inl x, d')" for msg io d d' x and m :: "unit db_op"
    using that by (auto simp: own_tx_def split: prod.splits if_splits sum.splits)
  have sub: "d' = d" if "submit_new_order msg (ev_io ev) row plans url d = (Inl x, d')" for msg url d d' x
    using that assms(2)
    by (auto simp: submit_new_order_def coalesce_batch_def map_prod_def send_error_def split: prod.splits if_splits sum.splits)
  show ?thesis using assms(1) by (auto simp: store_order_def on_db_def split: if_splits prod.splits dest: tx sub)
qed

lemma quiet_store:
  assumes "rollback_to_ok (ev_io ev) 0" and "\<And>st. \<exists>y t. g st = (Inr (Some y), t)"
  shows "quiet (db_is d) (run_then (store_order ev oc row plans) (\<lambda>_. g))"
  unfolding quiet_def
proof (intro allI impI)
  fix st r t assume "db_is d st" and h: "run_then (store_order ev oc row plans) (\<lambda>_. g) st = (r, t)" and n: "\<forall>y. r \<noteq> Inr (Some y)"
  show "db_is d t"
  proof (cases "fst (store_order ev oc row plans st)")
    case (Inl e)
    then have "store_order ev oc row plans st = (Inl e, t)" using h by (auto simp: run_then_def split: prod.splits sum.splits)
    then show ?thesis using store_order_refused [OF _ assms(1)] \<open>db_is d st\<close> by (simp add: db_is_def)
  next
    case (Inr u)
    then obtain s where "g s = (r, t)" using h by (auto simp: run_then_def split: prod.splits sum.splits)
    then show ?thesis using n assms(2) [of s] by auto
  qed
qed

lemma db_is_order_reads [maintains_intros]:
  "maintains (db_is d) (check_replaces ev i payload)"
  "maintains (db_is d) (order_delegation cf oc pfx i payload)"
  "maintains (db_is d) (on_db (plan_identifiers ev cf oc fr i ca_id k is))"
proof -
  show "maintains (db_is d) (check_replaces ev i payload)"
    unfolding maintains_def using check_replaces_state by (metis prod.collapse)
  show "maintains (db_is d) (order_delegation cf oc pfx i payload)"
    by (auto simp: maintains_def order_delegation_def run_then_def pure_def split: option.splits sum.splits)
  show "maintains (db_is d) (on_db (plan_identifiers ev cf oc fr i ca_id k is))"
    using plan_identifiers_ok [of ev cf oc fr i ca_id k "is", THEN conjunct1]
    by (auto simp: maintains_def on_db_def db_is_def split: prod.splits) (metis snd_conv)
qed

text \<open>C14: A refused order leaves nothing behind. A request for an order that ends in an error, or in the panic of a date that is
  too short, leaves the tables as they were: no order, authorization or challenge of it is stored. (The
  database rolls a failed operation back when asked to, and the URL of the order can be sent as a header.)\<close>

theorem refused_order_stores_nothing:
  assumes "new_order ev cf oc fr ca_id body st = (r, st')" and "\<nexists>reply. r = Inr (Some reply)"
    and "rollback_to_ok (ev_io ev) 0" and "ev_header_ok ev (acme_prefix cf ca_id @ ''/order/'' @ of_order_id fr)"
  shows "sv_db st' = sv_db st"
proof -
  have "quiet (db_is d) (new_order ev cf oc fr ca_id body)" for d
    unfolding new_order_def Let_def
    by (intro quiet_store [OF assms(3)] quiet_intros maintains_intros db_is_parse)
      (use assms(4) in \<open>simp add: run_then_def modify_def on_app_def pure_def new_order_reply_def Let_def new_order_row_def\<close>)
  then show ?thesis using assms(1,2) unfolding quiet_def by (metis db_is_def)
qed

section \<open>Reading and cancelling\<close>

lemma orders_with_authz_ids_db: "snd (orders_get_with_authz_ids i d) = d"
  by (simp add: orders_get_with_authz_ids_def split: list.split prod.split)

lemma orders_with_authz_ids_row:
  assumes "fst (orders_get_with_authz_ids i d) = Inr (Some (row, zs))"
  shows "row \<in> set (db_orders d)" "ord_id row = i"
proof -
  obtain x rest where "order_authz_rows i d = (row, x) # rest"
    using assms by (auto simp: orders_get_with_authz_ids_def split: list.splits)
  then have "(row, x) \<in> set (order_authz_rows i d)" by simp
  then obtain r where r: "r \<in> set (db_orders d)" "ord_id r = i"
    and x: "(row, x) \<in> set (case sort (map (az_id \<circ> azt_row) (filter (\<lambda>a. azt_order_id a = Some (ord_id r)) (db_authzs d))) of
        [] \<Rightarrow> [(r, None)] | y # ys \<Rightarrow> map (\<lambda>i. (r, Some i)) (y # ys))"
    unfolding order_authz_rows_def set_concat set_map set_filter by blast
  have "row = r" using x
    by (cases "sort (map (az_id \<circ> azt_row) (filter (\<lambda>a. azt_order_id a = Some (ord_id r)) (db_authzs d)))") auto
  then show "row \<in> set (db_orders d)" "ord_id row = i" using r by simp_all
qed

lemma orders_with_authz_ids_read:
  "on_db (orders_get_with_authz_ids i) st = (fst (orders_get_with_authz_ids i (sv_db st)), st)"
  using orders_with_authz_ids_db [of i "sv_db st"] by (simp add: on_db_def split: prod.split) (metis snd_conv set_db_same)

definition stop_renewal :: "i64 \<Rightarrow> order_row \<Rightarrow> order_row" where
  "stop_renewal now r = r\<lparr>ord_star_canceled_at := Some now, ord_updated := now\<rparr>"

lemma cancel_order_ok:
  assumes "cancel_order ev i order st = (Inr shown, st')"
  shows "ord_star_end_date order \<noteq> None" "is_valid_order order" "ord_status shown = ''canceled''"
    "sv_db st' = (sv_db st)\<lparr>db_orders := upd_where (\<lambda>r. ord_id r = i \<and> ord_star_canceled_at r = None) (stop_renewal (ev_now ev)) (db_orders (sv_db st))\<rparr>"
  using assms by (auto simp: cancel_order_def handler_ok orders_cancel_star_def stop_renewal_def [abs_def])

definition reply_status :: "acme_reply \<Rightarrow> string option" where
  "reply_status r = (case rp_body r of JsonBody v \<Rightarrow> str_field ''status'' v | _ \<Rightarrow> None)"

lemma reply_status_order [simp]:
  "reply_status (json_response ev cf ca n (order_json jo fr row urls pfx) nonce) = Some (ord_status row)"
  by (simp add: reply_status_def json_response_def acme_headers_def Let_def plain_reply_def order_json_def str_field_def json_get_def
      json_as_str_def split: option.split)

text \<open>C15: Who reads and cancels an order. An order is shown only to the account that owns it, at the endpoint of its CA. The request
  changes the database only when it asks for cancellation, the order renews itself and is valid; then
  renewal is stopped and the answer says that the order is canceled, but the stored status of every
  order stays what it was, so that the order reads as valid again afterwards.\<close>

theorem order_read_by_owner:
  assumes "get_order ev cf fr ca_id i body st = (Inr reply, st')"
  shows "\<exists>ctx st1 row. parse_jws ev cf body (acme_prefix cf ca_id @ ''/order/'' @ i) st = (Inr ctx, st1)
    \<and> row \<in> set (db_orders (sv_db st)) \<and> ord_id row = i \<and> ord_ca_id row = ca_id \<and> jc_account_id ctx = Some (ord_account_id row)
    \<and> (sv_db st' = sv_db st \<and> reply_status reply = Some (ord_status row)
       \<or> from_slice (ev_jose ev) order_update_of_json (jc_payload ctx) = Inr (Some ''canceled'')
         \<and> ord_star_end_date row \<noteq> None \<and> ord_status row = ''valid'' \<and> reply_status reply = Some ''canceled''
         \<and> sv_db st' = (sv_db st)\<lparr>db_orders := upd_where (\<lambda>r. ord_id r = i \<and> ord_star_canceled_at r = None)
              (stop_renewal (ev_now ev)) (db_orders (sv_db st))\<rparr>
         \<and> map ord_status (db_orders (sv_db st')) = map ord_status (db_orders (sv_db st)))"
proof -
  from assms obtain ctx st1 row zs shown where
    p: "parse_jws ev cf body (acme_prefix cf ca_id @ ''/order/'' @ i) st = (Inr ctx, st1)"
    and f: "fst (orders_get_with_authz_ids i (sv_db st1)) = Inr (Some (row, zs))"
    and ca: "ord_ca_id row = ca_id" and ow: "jc_account_id ctx = Some (ord_account_id row)"
    and sh: "(if jc_payload ctx = [] then pure (Inr row)
                else run_then (pure (bad_request ''order update JSON: '' (from_slice (ev_jose ev) order_update_of_json (jc_payload ctx)))) (\<lambda>status.
                     if status = Some ''canceled'' then cancel_order ev i row else pure (Inr row))) st1 = (Inr shown, st')"
    and r: "reply_status reply = Some (ord_status shown)"
    by (auto simp: get_order_def Let_def run_then_Inr orders_with_authz_ids_read)
  have app: "sv_db st1 = sv_db st" by (rule parse_jws_ok [OF p]) simp
  have row: "row \<in> set (db_orders (sv_db st))" "ord_id row = i" using orders_with_authz_ids_row [OF f] app by simp_all
  consider "shown = row" "st' = st1"
    | "from_slice (ev_jose ev) order_update_of_json (jc_payload ctx) = Inr (Some ''canceled'')" "cancel_order ev i row st1 = (Inr shown, st')"
    using sh by (auto simp: run_then_Inr split: if_splits)
  then show ?thesis
  proof cases
    case 1
    then show ?thesis using p row ca ow r app by blast
  next
    case 2
    note c = cancel_order_ok [OF 2(2)]
    have "ord_status row = ''valid''" using c(2) by (auto simp: is_valid_order_def order_from_str_def split: if_splits)
    moreover have "map ord_status (db_orders (sv_db st')) = map ord_status (db_orders (sv_db st))"
      unfolding c(4) app by (simp add: upd_where_map stop_renewal_def)
    ultimately show ?thesis using p row ca ow r 2(1) c app by metis
  qed
qed

section \<open>A sample order\<close>

definition sample_order_config :: order_config where
  "sample_order_config = \<lparr>oc_order_expiry_secs = 100, oc_authz_expiry_secs = 50, oc_star_min_lifetime_secs = None,
     oc_star_max_duration_secs = None, oc_allow_certificate_get = False, oc_allow_subdomain_auth = False,
     oc_email_enabled = False, oc_token_authority_url = None, oc_profiles = []\<rparr>"

definition sample_fresh :: order_fresh where
  "sample_fresh = \<lparr>of_order_id = ''o1'', of_authz_id = (\<lambda>k. ''z1''), of_token = (\<lambda>k. Inr []),
     of_challenge_id = (\<lambda>k j. if j = 0 then ''c0'' else if j = 1 then ''c1'' else ''c2''), of_time_fields = (\<lambda>_. None),
     of_epoch_fields = \<lparr>tf_year = 1970, tf_month = 1, tf_day = 1, tf_hour = 0, tf_minute = 0, tf_second = 0\<rparr>\<rparr>"

definition sample_order_json :: json where
  "sample_order_json = JObject [(''identifiers'', JArray [JObject [(''type'', JString ''dns''), (''value'', JString ''e.x'')]])]"

definition sample_identifier :: new_order_identifier where
  "sample_identifier = \<lparr>noi_type = ''dns'', noi_value = ''e.x'', noi_ancestor_domain = None\<rparr>"

definition sample_order_payload :: new_order_payload where
  "sample_order_payload = \<lparr>nop_identifiers = [sample_identifier], nop_not_before = None, nop_not_after = None, nop_replaces = None,
     nop_auto_renewal = None, nop_profile = None, nop_delegation = None, nop_allow_certificate_get = False\<rparr>"

lemma sample_order_parsed: "new_order_payload_of_json sample_order_json = Some sample_order_payload"
  by (simp add: new_order_payload_of_json_def sample_order_json_def json_get_def json_as_array_def identifier_of_json_def
      str_field_def json_as_str_def json_opt_field_def json_default_def sample_order_payload_def sample_identifier_def)

abbreviation sample_order_env :: "unit acme_env" where
  "sample_order_env \<equiv> kid_env ''b/acme/new-order'' sample_order_json"

lemma sample_server_ready: "sample_ready sample_server"
  by (simp add: sample_ready_def sample_server_def sample_account_def)

lemma sample_identifier_planned:
  "\<exists>q. plan_identifiers sample_order_env sample_config sample_order_config sample_fresh ''a1'' ''ca'' 0 [sample_identifier] d
     = (Inr [Inr q], d) \<and> opl_authz_id q = ''z1'' \<and> opl_challenges q = [(''c0'', ''http-01''), (''c1'', ''dns-01''), (''c2'', ''tls-alpn-01'')]"
proof -
  have "is_onion_domain ''e.x'' = False" by code_simp
  moreover have "eligible_challenge_types sample_config ''dns'' ''e.x'' = [''http-01'', ''dns-01'', ''tls-alpn-01'']" by code_simp
  ultimately show ?thesis
    by (simp add: plan_identifier_def sample_identifier_def sample_order_config_def plan_authz_new_def identifier_text_def gen_token_def
        sample_fresh_def db_then_def db_ok_def Let_def kid_env_def)
qed

lemma sample_order_stored:
  assumes "sv_db s = sv_db sample_server" "\<not> st_coalescer (sv_app s)" "ord_id row = ''o1''" "ord_account_id row = ''a1''" "ord_status row = ''pending''"
    "ord_delegation_id row = None" "opl_authz_id q = ''z1''" "opl_challenges q = [(''c0'', x), (''c1'', y), (''c2'', z)]"
  shows "\<exists>s'. store_order sample_order_env sample_order_config row [plan_row ''o1'' ''a1'' ca now e q] s = (Inr (), s')"
proof -
  have db: "sv_db s = empty_db\<lparr>db_accounts := [sample_account ''a1'']\<rparr>" using assms(1) by (simp add: sample_server_def)
  show ?thesis
    using assms(2-)
    by (simp add: store_order_def on_db_def own_tx_def db exec_new_order_def db_then_def orders_insert_def sql_insert_def order_from_str_def
        order_exists_def account_exists_def opt_ref_def authz_insert_def plan_row_def authz_from_str_def authz_exists_def
        challenges_insert_batch_def challenge_exists_def db_ok_def sample_defs)
qed

lemma sample_order_created:
  "\<exists>reply st'. new_order sample_order_env sample_config sample_order_config sample_fresh ''ca'' sample_body sample_server
     = (Inr (Some reply), st')"
proof -
  let ?ev = sample_order_env and ?pfx = "''b/acme''"
  obtain ctx st1 where p: "parse_jws ?ev sample_config sample_body ''b/acme/new-order'' sample_server = (Inr ctx, st1)"
    and c: "jc_account_id ctx = Some ''a1''" "jc_payload ctx = [112]" and app: "sv_app st1 = sv_app sample_server"
    by (rule kid_accepted [OF sample_server_ready])
  have pfx: "acme_prefix sample_config ''ca'' = ?pfx" by (simp add: acme_prefix_def sample_config_def)
  have pl: "require_payload (ev_jose ?ev) new_order_payload_of_json [112] w = Inr sample_order_payload" for w
    by (simp add: require_payload_def kid_env_parse sample_order_parsed)
  obtain q where q: "plan_identifiers ?ev sample_config sample_order_config sample_fresh ''a1'' ''ca'' 0 [sample_identifier] (sv_db st1)
      = (Inr [Inr q], sv_db st1)" "opl_authz_id q = ''z1''"
    "opl_challenges q = [(''c0'', ''http-01''), (''c1'', ''dns-01''), (''c2'', ''tls-alpn-01'')]"
    using sample_identifier_planned by blast
  have pid: "on_db (plan_identifiers ?ev sample_config sample_order_config sample_fresh ''a1'' ''ca'' 0 [sample_identifier]) st1 = (Inr [Inr q], st1)"
    using q(1) by (simp only: on_db_def prod.case set_db_same)
  have f: "of_order_id sample_fresh = ''o1''" by (simp add: sample_fresh_def)
  have np: "new_plans [Inr q] = [q]" "initial_order_status None [Inr q] = OrderPending"
    by (simp_all add: new_plans_def initial_order_status_def List.map_filter_def)
  have st: "\<exists>s'. store_order ?ev sample_order_config (new_order_row sample_fresh ''a1'' OrderPending now e idj nb na rep star prof ca None acg)
      [plan_row ''o1'' ''a1'' ca now' e' q] st1 = (Inr (), s')" for now e idj nb na rep star prof ca acg now' e'
    by (rule sample_order_stored) (use app q in \<open>simp_all add: new_order_row_def f sample_server_def sample_state_def\<close>)
  have dl: "order_delegation sample_config sample_order_config pfx i sample_order_payload s = (Inr (None, 0), s)"
    and rp: "check_replaces ?ev i sample_order_payload s = (Inr (), s)"
    and pr: "order_profile sample_order_config ca sample_order_payload = Inr None"
    and sr: "order_star_terms sample_order_config now sample_order_payload = Some (Inr no_star)" for pfx i s ca now
    by (simp_all add: order_delegation_def check_replaces_def order_profile_def order_star_terms_def sample_order_payload_def pure_def
        sample_order_config_def)
  have ids: "nop_identifiers sample_order_payload = [sample_identifier]" "nop_not_before sample_order_payload = None"
    "nop_not_after sample_order_payload = None" by (simp_all add: sample_order_payload_def)
  have ck: "check_identifiers ?ev sample_config sample_order_config b [sample_identifier] = Inr ()" for b
    by (simp add: check_identifier_type_def check_ancestor_def sample_identifier_def)
  obtain idj where idj: "identifiers_text (ev_jose ?ev) [sample_identifier] = Inr idj"
    by (simp add: identifiers_text_def kid_env_def)
  obtain s' where s': "store_order ?ev sample_order_config (new_order_row sample_fresh ''a1'' OrderPending 5 (wrap_i64 (5 + int (oc_order_expiry_secs sample_order_config)))
      idj None None (nop_replaces sample_order_payload) no_star None ''ca'' None 0)
      [plan_row ''o1'' ''a1'' ''ca'' 5 (wrap_i64 (5 + int (oc_authz_expiry_secs sample_order_config))) q] st1 = (Inr (), s')"
    using st by blast
  show ?thesis
    using p c s'
    by (simp add: new_order_def Let_def pfx run_then_def pure_def pl ids ensure_def ck rp pr dl sr or_panic_def idj pid optional_date_def np f
        modify_def on_app_def new_order_reply_def del: check_identifiers.simps plan_identifiers.simps)
qed


theorem refused_order_stores_nothing_witness:
  "\<exists>st'. new_order (kid_env ''b/acme/new-order'' (JObject [(''identifiers'', JArray [])])) sample_config sample_order_config sample_fresh ''ca''
       sample_body sample_server = (Inl (BadRequest ''identifiers must not be empty''), st') \<and> sv_db st' = sv_db sample_server"
proof -
  let ?ev = "kid_env ''b/acme/new-order'' (JObject [(''identifiers'', JArray [])])"
  obtain ctx st1 where p: "parse_jws ?ev sample_config sample_body ''b/acme/new-order'' sample_server = (Inr ctx, st1)"
    and c: "jc_account_id ctx = Some ''a1''" "jc_payload ctx = [112]"
    by (rule kid_accepted [OF sample_server_ready])
  have pfx: "acme_prefix sample_config ''ca'' = ''b/acme''" by (simp add: acme_prefix_def sample_config_def)
  have n: "new_order ?ev sample_config sample_order_config sample_fresh ''ca'' sample_body sample_server
      = (Inl (BadRequest ''identifiers must not be empty''), st1)"
    using p c by (simp add: new_order_def Let_def pfx run_then_def pure_def require_payload_def kid_env_parse new_order_payload_of_json_def
        json_get_def json_as_array_def json_opt_field_def json_default_def ensure_def)
  then show ?thesis using refused_order_stores_nothing [OF n] by simp
qed

definition sample_star_server :: acme_server where
  "sample_star_server = set_db ((sv_db sample_server)\<lparr>db_orders := [(sample_order_row ''o1'' ''valid'')\<lparr>ord_star_end_date := Some 90, ord_ca_id := ''ca''\<rparr>]\<rparr>) sample_server"

theorem order_read_by_owner_witness:
  "\<exists>reply st'. get_order (kid_env ''b/acme/order/o1'' (JObject [(''status'', JString ''canceled'')])) sample_config sample_fresh ''ca'' ''o1''
       sample_body sample_star_server = (Inr reply, st')
     \<and> reply_status reply = Some ''canceled'' \<and> map ord_status (db_orders (sv_db st')) = [''valid'']"
proof -
  let ?ev = "kid_env ''b/acme/order/o1'' (JObject [(''status'', JString ''canceled'')])"
  let ?row = "(sample_order_row ''o1'' ''valid'')\<lparr>ord_star_end_date := Some 90, ord_ca_id := ''ca''\<rparr>"
  have ready: "sample_ready sample_star_server"
    using sample_server_ready by (simp add: sample_ready_def sample_star_server_def)
  have url: "acme_prefix sample_config ''ca'' @ ''/order/'' @ ''o1'' = ''b/acme/order/o1''" by (simp add: acme_prefix_def sample_config_def)
  obtain ctx st1 where p: "parse_jws ?ev sample_config sample_body ''b/acme/order/o1'' sample_star_server = (Inr ctx, st1)"
    and c: "jc_account_id ctx = Some ''a1''" "jc_payload ctx = [112]" and app: "sv_app st1 = sv_app sample_star_server"
    by (rule kid_accepted [OF ready])
  have db: "db_orders (sv_db st1) = [?row]" "db_authzs (sv_db st1) = []"
    by (simp_all add: app sample_star_server_def sample_server_def empty_db_def)
  have f: "fst (orders_get_with_authz_ids ''o1'' (sv_db st1)) = Inr (Some (?row, []))"
    by (simp add: orders_get_with_authz_ids_def order_authz_rows_def db sample_order_row_def List.map_filter_def)
  have u: "from_slice (ev_jose ?ev) order_update_of_json [112] = Inr (Some ''canceled'')"
    by (simp add: kid_env_parse order_update_of_json_def json_is_object_def json_opt_field_def json_get_def json_as_str_def)
  have v: "order_from_str ''valid'' = Some OrderValid" by code_simp
  obtain shown s where cn: "cancel_order ?ev ''o1'' ?row st1 = (Inr shown, s)"
    by (simp add: cancel_order_def run_then_def pure_def ensure_def is_valid_order_def sample_order_row_def v on_db_def orders_cancel_star_def)
  have g: "\<exists>reply. get_order ?ev sample_config sample_fresh ''ca'' ''o1'' sample_body sample_star_server = (Inr reply, s)"
    unfolding get_order_def Let_def url
    using p c f u cn by (simp add: run_then_def pure_def orders_with_authz_ids_read ensure_def sample_order_row_def bad_request_def)
  then obtain reply where g: "get_order ?ev sample_config sample_fresh ''ca'' ''o1'' sample_body sample_star_server = (Inr reply, s)" by blast
  have st: "db_orders (sv_db sample_star_server) = [?row]" by (simp add: sample_star_server_def)
  have "map ord_star_canceled_at (db_orders (sv_db s)) = [Some 5]"
    unfolding cancel_order_ok(4) [OF cn] by (simp add: db upd_where_def stop_renewal_def sample_order_row_def)
  then have "sv_db s \<noteq> sv_db sample_star_server" using st by (auto simp: sample_order_row_def)
  then show ?thesis
    using order_read_by_owner [OF g] g st by (auto simp: sample_order_row_def)
qed

end
