(* ===== verification/Caa_Check.thy ===== *)
theory Caa_Check
  imports Acme_Error Rust_Net
begin

text \<open>
  The check of CAA records before issuance (\<^verbatim>\<open>src/validation/caa.rs\<close>) and the DNS query under it
  (\<^verbatim>\<open>src/dns.rs\<close>). The resolver library is the parameter \<open>caa_ext\<close>: its answer to a lookup through a resolver
  configuration, its reading of a name; with it the text of \<^verbatim>\<open>/etc/resolv.conf\<close>. A loop of the code that might not end is a partial function: \<^const>\<open>None\<close> stands for a
  call that does not return.
\<close>

section \<open>Records and queries\<close>

datatype caa_tag = TagIssue | TagIssueWild | TagIodef | TagOther string

datatype caa_value = CaaIssuer "string option" "(string \<times> string) list" | CaaOtherValue

record caa_record =
  caa_tag :: caa_tag
  caa_critical :: bool
  caa_value :: caa_value

datatype rdata = RDataCaa caa_record | RDataOther

datatype response_code = NXDomain | NoError | OtherCode string

datatype lookup_answer = LookupRecords "rdata list" | LookupNoRecords response_code string | LookupFailed string

datatype socket_addr = ParsedAddr string | IpPort string nat

datatype dns_protocol = ProtoUdp | ProtoTls

record dns_resolver =
  rs_server :: socket_addr
  rs_protocol :: dns_protocol
  rs_tls_name :: "string option"
  rs_validate :: bool

record caa_ext =
  cx_lookup :: "dns_resolver \<Rightarrow> string \<Rightarrow> string \<Rightarrow> lookup_answer"
  cx_name :: "string \<Rightarrow> string + string"      \<comment> \<open>the error for a text that is no name, or the name\<close>
  cx_resolv_conf :: "string option"

definition nameserver_line :: "string \<Rightarrow> socket_addr option" where
  "nameserver_line line =
     (let l = utf8_trim line; kw = ''nameserver''; rest = utf8_trim (drop (length kw) l)
      in if take (length kw) l = kw \<and> is_ip_addr rest then Some (IpPort rest 53) else None)"

definition system_resolver_addr :: "caa_ext \<Rightarrow> socket_addr" where
  "system_resolver_addr cx =
     (case cx_resolv_conf cx of
        Some contents \<Rightarrow>
          (case List.map_filter nameserver_line (split_on (CHR 0x0A) contents) of
             a # _ \<Rightarrow> a
           | [] \<Rightarrow> ParsedAddr ''127.0.0.53:53'')
      | None \<Rightarrow> ParsedAddr ''127.0.0.53:53'')"

definition build_resolver :: "socket_addr \<Rightarrow> bool \<Rightarrow> string option \<Rightarrow> dns_resolver" where
  "build_resolver server_addr validate_dnssec dot_server_name =
     \<lparr> rs_server = server_addr, rs_protocol = (if dot_server_name \<noteq> None then ProtoTls else ProtoUdp),
       rs_tls_name = dot_server_name, rs_validate = validate_dnssec \<rparr>"

definition dns_query :: "caa_ext \<Rightarrow> socket_addr \<Rightarrow> bool \<Rightarrow> string option \<Rightarrow> string \<Rightarrow> string \<Rightarrow> rdata list option result" where
  "dns_query cx server_addr validate_dnssec dot_server_name name record_type =
     (case cx_lookup cx (build_resolver server_addr validate_dnssec dot_server_name) name record_type of
        LookupRecords rs \<Rightarrow> Inr (Some rs)
      | LookupNoRecords NXDomain _ \<Rightarrow> Inr None
      | LookupNoRecords NoError _ \<Rightarrow> Inr None
      | LookupNoRecords (OtherCode rcode) e \<Rightarrow> Inl (Dns (''DNS '' @ rcode @ '' querying '' @ record_type @ '' for '' @ name @ '': '' @ e))
      | LookupFailed e \<Rightarrow> Inl (Dns (''DNS error querying '' @ record_type @ '' for '' @ name @ '': '' @ e)))"

section \<open>The names to ask for\<close>

definition trim_dots :: "string \<Rightarrow> string" where
  "trim_dots s = rev (dropWhile (\<lambda>c. c = CHR ''.'') (rev s))"

partial_function (option) name_walk :: "string \<Rightarrow> string list \<Rightarrow> string list option" where
  "name_walk current names =
     (if length (split_on (CHR ''.'') current) < 2 then Some names
      else case find_char (CHR ''.'') current of
             Some pos \<Rightarrow> name_walk (drop (pos + 1) current) (names @ [current])
           | None \<Rightarrow> Some (names @ [current]))"

definition build_name_walk :: "string \<Rightarrow> string list option" where
  "build_name_walk domain = name_walk (trim_dots domain) []"

section \<open>Evaluation of a record set\<close>

definition unknown_critical :: "caa_record \<Rightarrow> string option" where
  "unknown_critical r = (case caa_tag r of TagOther t \<Rightarrow> if caa_critical r then Some t else None | _ \<Rightarrow> None)"

fun first_critical :: "caa_record list \<Rightarrow> string option" where
  "first_critical [] = None"
| "first_critical (r # rs) = (case unknown_critical r of Some t \<Rightarrow> Some t | None \<Rightarrow> first_critical rs)"

definition relevant_records :: "bool \<Rightarrow> caa_record list \<Rightarrow> caa_record list" where
  "relevant_records is_wildcard records =
     (let issue = filter (\<lambda>r. caa_tag r = TagIssue) records;
          issuewild = filter (\<lambda>r. caa_tag r = TagIssueWild) records
      in if is_wildcard then (if issuewild = [] then issue else issuewild) else issue)"

definition parameter_ok :: "string \<Rightarrow> string option \<Rightarrow> string \<times> string \<Rightarrow> bool" where
  "parameter_ok challenge_type account_url kv =
     (if fst kv = ''validationmethods'' \<and> challenge_type \<noteq> []
      then challenge_type \<in> set (map utf8_trim (split_on (CHR '','') (snd kv)))
      else if fst kv = ''validationmethods'' then True
      else if fst kv = ''accounturi'' then (case account_url of Some url \<Rightarrow> snd kv = url | None \<Rightarrow> False)
      else True)"

definition names_ca :: "string list \<Rightarrow> string \<Rightarrow> bool" where
  "names_ca ca_identities name =
     (let tag_name = map ascii_lower (trim_dots name)
      in list_ex (\<lambda>i. map ascii_lower (trim_dots i) = tag_name) ca_identities)"

definition record_authorises :: "string list \<Rightarrow> string \<Rightarrow> string option \<Rightarrow> caa_record \<Rightarrow> bool" where
  "record_authorises ca_identities challenge_type account_url r =
     (case caa_value r of
        CaaIssuer (Some name) key_values \<Rightarrow>
          names_ca ca_identities name
          \<and> length (filter (\<lambda>kv. fst kv = ''validationmethods'') key_values) \<le> 1
          \<and> length (filter (\<lambda>kv. fst kv = ''accounturi'') key_values) \<le> 1
          \<and> list_all (parameter_ok challenge_type account_url) key_values
      | _ \<Rightarrow> False)"

definition evaluate_caa_record_set ::
  "caa_record list \<Rightarrow> string \<Rightarrow> string list \<Rightarrow> bool \<Rightarrow> string \<Rightarrow> string option \<Rightarrow> unit result" where
  "evaluate_caa_record_set records domain ca_identities is_wildcard challenge_type account_url =
     (case first_critical records of
        Some t \<Rightarrow> Inl (Caa (''CAA record for '' @ quoted domain @ '' contains unknown property tag '' @ quoted t @ '' with critical flag set''))
      | None \<Rightarrow>
          (let relevant = relevant_records is_wildcard records
           in if relevant = [] then Inr ()
              else if list_ex (record_authorises ca_identities challenge_type account_url) relevant then Inr ()
              else Inl (Caa (''CAA policy denies issuance for '' @ domain))))"

section \<open>The check\<close>

record caa_params =
  cap_domain :: string
  cap_ca_identities :: "string list"
  cap_is_wildcard :: bool
  cap_challenge_type :: string
  cap_account_url :: "string option"
  cap_validate_dnssec :: bool
  cap_dot_server_name :: "string option"

definition caa_of_rdata :: "rdata list \<Rightarrow> caa_record list" where
  "caa_of_rdata rs = List.map_filter (\<lambda>r. case r of RDataCaa c \<Rightarrow> Some c | RDataOther \<Rightarrow> None) rs"

definition query_caa :: "caa_ext \<Rightarrow> caa_params \<Rightarrow> socket_addr \<Rightarrow> string \<Rightarrow> rdata list option result" where
  "query_caa cx p resolver_addr fqdn = dns_query cx resolver_addr (cap_validate_dnssec p) (cap_dot_server_name p) fqdn ''CAA''"

fun check_names :: "caa_ext \<Rightarrow> caa_params \<Rightarrow> socket_addr \<Rightarrow> string list \<Rightarrow> unit result" where
  "check_names cx p a [] = Inr ()"
| "check_names cx p a (name # names) =
     (let query_name = name @ ''.'' in
      case cx_name cx query_name of
        Inl e \<Rightarrow> Inl (Internal (''invalid DNS name '' @ quoted query_name @ '': '' @ e))
      | Inr fqdn \<Rightarrow>
          (case query_caa cx p a fqdn of
             Inr None \<Rightarrow> check_names cx p a names
           | Inr (Some rs) \<Rightarrow>
               if caa_of_rdata rs = [] then check_names cx p a names
               else evaluate_caa_record_set (caa_of_rdata rs) (cap_domain p) (cap_ca_identities p) (cap_is_wildcard p)
                      (cap_challenge_type p) (cap_account_url p)
           | Inl e \<Rightarrow> Inl (Caa (''CAA lookup failed for '' @ quoted name @ '': '' @ error_message e))))"

definition check_caa_with_resolver :: "caa_ext \<Rightarrow> caa_params \<Rightarrow> socket_addr \<Rightarrow> unit result option" where
  "check_caa_with_resolver cx p a = map_option (check_names cx p a) (build_name_walk (cap_domain p))"

definition read_port :: "string \<Rightarrow> string option" where
  "read_port s = Option.bind (read_given (CHR '':'') s) (\<lambda>r.
     let d = takeWhile is_digit r in if d \<noteq> [] \<and> digits_value d \<le> 65535 then Some (drop (length d) r) else None)"

definition read_scope_id :: "string \<Rightarrow> string" where
  "read_scope_id s =
     (case Option.bind (read_given (CHR ''%'') s) (\<lambda>r.
        let d = takeWhile is_digit r in if d \<noteq> [] \<and> digits_value d < 2 ^ 32 then Some (drop (length d) r) else None) of
        Some r \<Rightarrow> r | None \<Rightarrow> s)"

definition is_socket_addr :: "string \<Rightarrow> bool" where
  "is_socket_addr s =
     ((case Option.bind (read_ipv4_addr s) (\<lambda>(_, r). read_port r) of
         Some r \<Rightarrow> Some r
       | None \<Rightarrow> Option.bind (read_given (CHR ''['') s) (\<lambda>r1.
           Option.bind (read_ipv6_addr r1) (\<lambda>(_, r2).
           Option.bind (read_given (CHR '']'') (read_scope_id r2)) read_port))) = Some [])"

definition build_resolver_addr :: "caa_ext \<Rightarrow> string option \<Rightarrow> socket_addr result" where
  "build_resolver_addr cx resolver_addr =
     (case resolver_addr of
        Some addr \<Rightarrow>
          if is_socket_addr addr then Inr (ParsedAddr addr)
          else Inl (Internal (''invalid dns_resolver_addr '' @ quoted addr @ '': invalid socket address syntax''))
      | None \<Rightarrow> Inr (system_resolver_addr cx))"

definition check_caa :: "caa_ext \<Rightarrow> caa_params \<Rightarrow> string option \<Rightarrow> unit result option" where
  "check_caa cx p resolver_addr =
     (if cap_ca_identities p = [] then Some (Inr ())
      else case build_resolver_addr cx resolver_addr of
             Inl e \<Rightarrow> Some (Inl e)
           | Inr a \<Rightarrow> check_caa_with_resolver cx p a)"

section \<open>The climb ends\<close>

text \<open>The names above a name, from itself up to the last one of two labels.\<close>

fun join_dots :: "string list \<Rightarrow> string" where
  "join_dots [] = []"
| "join_dots [x] = x"
| "join_dots (x # y # xs) = x @ CHR ''.'' # join_dots (y # xs)"

definition labels :: "string \<Rightarrow> string list" where
  "labels domain = split_on (CHR ''.'') (trim_dots domain)"

definition climb :: "string \<Rightarrow> string list" where
  "climb domain = map (\<lambda>k. join_dots (drop k (labels domain))) [0..<length (labels domain) - 1]"

lemma join_split: "join_dots (split_on (CHR ''.'') s) = s"
proof (induction s)
  case (Cons c s)
  obtain p ps where "split_on (CHR ''.'') s = p # ps" using split_on_nonempty by (metis list.exhaust)
  with Cons show ?case by (cases ps) auto
qed simp

lemma split_first_dot:
  "split_on (CHR ''.'') s = x # y # ls \<Longrightarrow>
     find_char (CHR ''.'') s = Some (length x) \<and> split_on (CHR ''.'') (drop (length x + 1) s) = y # ls"
proof (induction s arbitrary: x)
  case (Cons c s)
  obtain p ps where ps: "split_on (CHR ''.'') s = p # ps" using split_on_nonempty by (metis list.exhaust)
  show ?case
  proof (cases "c = CHR ''.''")
    case True
    then show ?thesis using Cons.prems by (auto simp: find_char_def)
  next
    case False
    then have x: "x = c # p" "split_on (CHR ''.'') s = p # y # ls" using Cons.prems ps by auto
    then show ?thesis using Cons.IH [OF x(2)] False by (auto simp: find_char_def split: if_splits)
  qed
qed simp

lemma name_walk_climbs:
  "name_walk s names = Some (names @ map (\<lambda>k. join_dots (drop k (split_on (CHR ''.'') s))) [0..<length (split_on (CHR ''.'') s) - 1])"
proof (induction "length (split_on (CHR ''.'') s)" arbitrary: s names rule: less_induct)
  case less
  show ?case
  proof (cases "split_on (CHR ''.'') s")
    case Nil
    then show ?thesis by simp
  next
    case (Cons x xs)
    note c = this
    show ?thesis
    proof (cases xs)
      case Nil
      then show ?thesis using c by (subst name_walk.simps) simp
    next
      case (Cons y ls)
      then have s: "split_on (CHR ''.'') s = x # y # ls" using c by simp
      have d: "find_char (CHR ''.'') s = Some (length x)" "split_on (CHR ''.'') (drop (length x + 1) s) = y # ls"
        using split_first_dot [OF s] by simp_all
      have "name_walk s names = name_walk (drop (length x + 1) s) (names @ [s])"
        by (subst name_walk.simps) (simp add: s d(1))
      also have "\<dots> = Some ((names @ [s]) @ map (\<lambda>k. join_dots (drop k (y # ls))) [0..<length ls])"
        using less [of "drop (length x + 1) s" "names @ [s]"] s d(2) by simp
      also have "\<dots> = Some (names @ map (\<lambda>k. join_dots (drop k (x # y # ls))) [0..<Suc (length ls)])"
        using join_split [of s] by (simp add: s upt_conv_Cons flip: map_Suc_upt del: upt_Suc)
      finally show ?thesis by (simp add: s)
    qed
  qed
qed

lemma build_name_walk_climb: "build_name_walk domain = Some (climb domain)"
  by (simp add: build_name_walk_def name_walk_climbs climb_def labels_def)

text \<open>C19: The climb of a CAA check ends. The loop that collects the names to ask for returns for every domain; the result is the
  domain without trailing dots, then the name without its first label, and so on, down to two labels,
  so a check asks for fewer names than the domain has labels.\<close>

theorem caa_climb_terminates:
  "build_name_walk domain = Some (climb domain) \<and> length (climb domain) < length (labels domain)"
  using split_on_nonempty [of "CHR ''.''" "trim_dots domain"]
  by (simp add: build_name_walk_climb climb_def labels_def)

section \<open>The decision\<close>

text \<open>What a set of records says: nothing critical that is unknown, and if it restricts issuance for this kind of name,
  a record that names this CA and whose parameters admit the account and the validation method.\<close>

definition set_permits :: "caa_params \<Rightarrow> caa_record set \<Rightarrow> bool" where
  "set_permits p R \<longleftrightarrow>
     (\<forall>r \<in> R. \<forall>t. caa_tag r = TagOther t \<longrightarrow> \<not> caa_critical r) \<and>
     (let wild = {r \<in> R. caa_tag r = TagIssueWild}; issue = {r \<in> R. caa_tag r = TagIssue};
          relevant = (if cap_is_wildcard p \<and> wild \<noteq> {} then wild else issue)
      in relevant = {} \<or> (\<exists>r \<in> relevant. record_authorises (cap_ca_identities p) (cap_challenge_type p) (cap_account_url p) r))"

definition no_caa_at :: "caa_ext \<Rightarrow> caa_params \<Rightarrow> socket_addr \<Rightarrow> string \<Rightarrow> bool" where
  "no_caa_at cx p a name \<longleftrightarrow>
     (\<exists>fqdn. cx_name cx (name @ ''.'') = Inr fqdn \<and>
        (query_caa cx p a fqdn = Inr None \<or> (\<exists>rs. query_caa cx p a fqdn = Inr (Some rs) \<and> caa_of_rdata rs = [])))"

definition caa_at :: "caa_ext \<Rightarrow> caa_params \<Rightarrow> socket_addr \<Rightarrow> string \<Rightarrow> caa_record list \<Rightarrow> bool" where
  "caa_at cx p a name R \<longleftrightarrow>
     (\<exists>fqdn rs. cx_name cx (name @ ''.'') = Inr fqdn \<and> query_caa cx p a fqdn = Inr (Some rs) \<and> caa_of_rdata rs = R \<and> R \<noteq> [])"

lemma first_critical_None: "first_critical rs = None \<longleftrightarrow> (\<forall>r \<in> set rs. \<forall>t. caa_tag r = TagOther t \<longrightarrow> \<not> caa_critical r)"
  by (induction rs) (auto simp: unknown_critical_def split: option.splits caa_tag.splits)

lemma set_relevant:
  "set (relevant_records w rs) = (if w \<and> {r \<in> set rs. caa_tag r = TagIssueWild} \<noteq> {} then {r \<in> set rs. caa_tag r = TagIssueWild}
     else {r \<in> set rs. caa_tag r = TagIssue})"
  by (auto simp: relevant_records_def Let_def filter_empty_conv)

lemma evaluate_permits:
  "evaluate_caa_record_set rs (cap_domain p) (cap_ca_identities p) (cap_is_wildcard p) (cap_challenge_type p) (cap_account_url p) = Inr ()
     \<longleftrightarrow> set_permits p (set rs)"
proof (cases "first_critical rs")
  case None
  have "relevant_records w rs = [] \<longleftrightarrow> set (relevant_records w rs) = {}" for w by simp
  then show ?thesis using None first_critical_None [of rs]
    unfolding evaluate_caa_record_set_def set_permits_def Let_def set_relevant [symmetric] list_ex_iff by simp
next
  case (Some r)
  then have "\<not> (\<forall>r \<in> set rs. \<forall>t. caa_tag r = TagOther t \<longrightarrow> \<not> caa_critical r)"
    using first_critical_None [of rs] by simp
  then show ?thesis using Some by (simp only: evaluate_caa_record_set_def set_permits_def) simp
qed

lemma check_names_permits:
  "check_names cx p a names = Inr () \<longleftrightarrow>
     (\<forall>n \<in> set names. no_caa_at cx p a n) \<or>
     (\<exists>pre n post R. names = pre @ n # post \<and> (\<forall>m \<in> set pre. no_caa_at cx p a m) \<and> caa_at cx p a n R \<and> set_permits p (set R))"
proof (induction names)
  case (Cons n names)
  have split: "(\<exists>pre m post R. n # names = pre @ m # post \<and> Q pre m R) \<longleftrightarrow>
      (\<exists>R. Q [] n R) \<or> (\<exists>pre m post R. names = pre @ m # post \<and> Q (n # pre) m R)" for Q :: "string list \<Rightarrow> string \<Rightarrow> caa_record list \<Rightarrow> bool"
    by (simp add: Cons_eq_append_conv) blast
  show ?case
  proof (cases "no_caa_at cx p a n")
    case True
    then have "\<not> caa_at cx p a n R" for R by (auto simp: no_caa_at_def caa_at_def split: option.splits sum.splits)
    moreover have "check_names cx p a (n # names) = check_names cx p a names"
      using True by (auto simp: no_caa_at_def split: option.splits sum.splits)
    ultimately show ?thesis using Cons True unfolding split by simp
  next
    case False
    have "check_names cx p a (n # names) = Inr () \<longleftrightarrow> (\<exists>R. caa_at cx p a n R \<and> set_permits p (set R))"
      using False by (auto simp: no_caa_at_def caa_at_def Let_def evaluate_permits split: option.splits sum.splits if_splits)
    then show ?thesis using False unfolding split by simp
  qed
qed simp


text \<open>A domain whose parent names this CA, for one account and two validation methods.\<close>

definition sample_caa_record :: caa_record where
  "sample_caa_record = \<lparr> caa_tag = TagIssue, caa_critical = False,
     caa_value = CaaIssuer (Some ''CA.test.'') [(''validationmethods'', ''dns-01, http-01''), (''accounturi'', ''u'')] \<rparr>"

definition sample_caa_ext :: caa_ext where
  "sample_caa_ext = \<lparr> cx_lookup = (\<lambda>_ name _. if name = ''x.org.'' then LookupRecords [RDataOther, RDataCaa sample_caa_record]
       else LookupNoRecords NXDomain []), cx_name = Inr, cx_resolv_conf = Some ''nameserver 192.0.2.1'' \<rparr>"

definition sample_caa_params :: "string \<Rightarrow> caa_params" where
  "sample_caa_params method = \<lparr> cap_domain = ''a.x.org'', cap_ca_identities = [''ca.test''], cap_is_wildcard = True, cap_challenge_type = method,
     cap_account_url = Some ''u'', cap_validate_dnssec = False, cap_dot_server_name = None \<rparr>"

lemmas sample_caa_simps = sample_caa_record_def sample_caa_ext_def sample_caa_params_def

lemma sample_climb: "climb ''a.x.org'' = [''a.x.org'', ''x.org'']"
  by code_simp

lemma sample_answers:
  "build_resolver_addr sample_caa_ext None = Inr (IpPort ''192.0.2.1'' 53)"
  "no_caa_at sample_caa_ext (sample_caa_params m) a ''a.x.org''"
  "caa_at sample_caa_ext (sample_caa_params m) a ''x.org'' R \<longleftrightarrow> R = [sample_caa_record]"
  "\<not> no_caa_at sample_caa_ext (sample_caa_params m) a ''x.org''" "\<not> caa_at sample_caa_ext (sample_caa_params m) a ''a.x.org'' R"
proof -
  show "build_resolver_addr sample_caa_ext None = Inr (IpPort ''192.0.2.1'' 53)" by code_simp
qed (auto simp: no_caa_at_def caa_at_def sample_caa_ext_def query_caa_def dns_query_def caa_of_rdata_def map_filter_simps)

lemma sample_set_permits:
  "set_permits (sample_caa_params ''http-01'') {sample_caa_record}" "\<not> set_permits (sample_caa_params ''tls-alpn-01'') {sample_caa_record}"
proof -
  have "record_authorises [''ca.test''] ''http-01'' (Some ''u'') sample_caa_record" by code_simp
  then show "set_permits (sample_caa_params ''http-01'') {sample_caa_record}"
    by (auto simp: set_permits_def Let_def sample_caa_params_def sample_caa_record_def)
  have "\<not> record_authorises [''ca.test''] ''tls-alpn-01'' (Some ''u'') sample_caa_record" by code_simp
  then show "\<not> set_permits (sample_caa_params ''tls-alpn-01'') {sample_caa_record}"
    by (auto simp: set_permits_def Let_def sample_caa_params_def sample_caa_record_def)
qed


end
