(* ===== verification/Spec2Isabelle.thy ===== *)
theory Spec2Isabelle
  imports Cluster_Properties Crdt_Grow_Set Validation_Properties Certificate_Properties Mtc_Properties Mtc_Formats
    Admin_Properties Policy_Properties Gossip_Safety Jose_Properties Acme_Effects Order_Properties Caa_Check
begin

text \<open>
  \<^bold>\<open>A verification of akamu, an ACME certificate authority server written in Rust.\<close>

  \<^bold>\<open>The program.\<close> Clients register accounts, order certificates for names, prove control of the names
  by challenges, finalize their orders and revoke certificates, all by signed requests (RFC 8555 and its
  extensions). Handlers read the database directly and write it through a coalescer that groups the
  writes of concurrent requests into one transaction. Operators administer the server through a second
  interface with sessions, roles and a policy that restricts issuance. Several nodes may form a cluster:
  every database write is mirrored into a replicated in-memory state, which the nodes exchange by
  encrypted gossip. Issued certificates are entered into a transparency log of Merkle trees.

  \<^bold>\<open>Theories and sources.\<close> Paths are those of the repository; a definition carries the name of the
  function it translates, with a prefix where two modules use one name, and a record the fields of
  the struct it translates, with a prefix per record.
  \<^item> Shared: \<open>Akamu_Prelude\<close> (hash maps as association lists, saturating arithmetic), \<open>Rust_Text\<close> and
    \<open>Rust_Net\<close> (what is used of Rust's standard library on texts, integers and network addresses), \<open>Json_Value\<close> (\<^verbatim>\<open>serde_json::Value\<close>).
  \<^item> Replicated state, \<^verbatim>\<open>crates/akamu-crdt\<close>: the contract of a replicated type in \<open>Gossip_Interface\<close>; the
    write generations and the register (\<open>Crdt_Register\<close>), the loop all map types share (\<open>Crdt_Loop\<close>), the
    types \<open>Crdt_Lww_Map\<close>, \<open>Crdt_Or_Map\<close>, \<open>Crdt_Grow_Set\<close>, the cluster state \<^verbatim>\<open>AkaCrdt\<close> with its fourteen
    fields (\<open>Crdt_Cluster\<close>) and the answer of a node to a push (\<open>Crdt_Exchange\<close>). \<open>Cluster_Generations\<close>,
    \<open>Cluster_Ownership\<close> and \<open>Cluster_Properties\<close> hold the theorems on the whole state.
  \<^item> Database, \<^verbatim>\<open>src/db\<close>: rows and statements (\<open>Db_Model\<close>) and one theory per group of tables (\<open>Db_Orders\<close>,
    \<open>Db_Authz\<close>, \<open>Db_Accounts\<close>, \<open>Db_Certs\<close>, \<open>Db_Delegations\<close>). A table is the list of its rows; a statement
    that violates a constraint of the schema fails and changes nothing. \<open>Coalescer\<close> is
    \<^verbatim>\<open>src/db/coalescer.rs\<close>, \<open>Crdt_Hooks\<close> is \<^verbatim>\<open>src/crdt_hooks.rs\<close>.
  \<^item> Signatures, \<^verbatim>\<open>crates/akamu-jose\<close>: keys (\<open>Jose\<close>), signatures and tokens (\<open>Jose_Signature\<close>), theorems
    (\<open>Jose_Properties\<close>).
  \<^item> ACME handlers, \<^verbatim>\<open>src/routes\<close>, \<^verbatim>\<open>src/jose\<close>, \<^verbatim>\<open>src/state.rs\<close>: statuses and errors (\<open>Status\<close>, \<open>Acme_Error\<close>),
    nonces, keys and parsing of requests (\<open>Acme_Request\<close>), accounts and key changes (\<open>Acme_Account\<close>),
    revocation (\<open>Acme_Revoke\<close>), orders and their dates (\<open>Acme_Order\<close>, \<open>Order_Dates\<close>), challenges and their
    validation (\<open>Validation\<close>), CAA records (\<open>Caa_Check\<close>). A handler is a function of the environment (readings of
    clocks, random bytes, libraries) and the server state, which answers with an error or a value and the
    new state. Theorems: \<open>Acme_Safety\<close>, \<open>Acme_Authority\<close>, \<open>Acme_Effects\<close>, \<open>Order_Properties\<close>,
    \<open>Acme_Lifecycle\<close>, \<open>Order_Finalization\<close>, \<open>Validation_Properties\<close>, \<open>Certificate_Properties\<close>; a concrete
    request for the witnesses is in \<open>Acme_Samples\<close>.
  \<^item> Transparency log, \<^verbatim>\<open>src/mtc\<close>: the reference tree hash (\<open>Merkle_Tree\<close>), the log with its cached root
    (\<open>Mtc_Log\<close>), notes and tiles (\<open>Mtc_Tlog\<close>), theorems (\<open>Mtc_Properties\<close>, \<open>Mtc_Formats\<close>).
  \<^item> Policy, \<^verbatim>\<open>crates/akamu-policy\<close> and \<^verbatim>\<open>src/policy.rs\<close>: \<open>Policy_Engine\<close>, \<open>Issuance_Policy\<close>,
    \<open>Policy_Properties\<close>.
  \<^item> Administration, \<^verbatim>\<open>src/admin\<close> and \<^verbatim>\<open>src/routes/admin\<close>: authentication (\<open>Admin_Auth\<close>, \<open>Admin_Login\<close>), the
    role gate (\<open>Admin_Rbac\<close>), operators (\<open>Admin_Operators\<close>), policy rules (\<open>Admin_Policy\<close>), theorems
    (\<open>Admin_Properties\<close>).
  \<^item> Gossip, \<^verbatim>\<open>src/gossip\<close>: sealing (\<open>Gossip_Crypto\<close>), handlers and loop (\<open>Gossip_Sync\<close>), theorems
    (\<open>Gossip_Sealing\<close>, \<open>Gossip_Exchange\<close>, \<open>Gossip_Safety\<close>).

  \<^bold>\<open>Interfaces.\<close> The locale \<open>gossip_crdt\<close> states what the gossip layer needs of a replicated type (a merge
  that implements a join on what peers can observe) and proves convergence for any order, grouping and
  repetition of deliveries; \<open>delta_crdt\<close> adds deltas. Both are interpreted on every replicated type and on
  the whole cluster state. \<open>merge_body\<close>, \<open>stamping_body\<close>, \<open>forwarding_body\<close> and \<open>answering_body\<close> state what the
  shared merge loop needs of its body, for values, generations, forwarding and answers, and are
  interpreted on the bodies of the maps and the set. \<open>claim_register\<close> is the contract of an ownership claim,
  interpreted for orders and for the log writer; \<open>status_codec\<close> that of a status vocabulary, interpreted
  for the five vocabularies.

  \<^bold>\<open>What the theorems show.\<close>
  \<^item> Cluster: nodes that have seen the same updates agree; a delta carries all a peer lacks; what a merge
    changed is forwarded; a claimed order has one owner while the claim lasts; one exchange of the gossip
    loop brings both nodes to the join of their states; only an enrolled peer can push, and once per
    message; a sealed message opens to what was sealed.
  \<^item> Orders: a new order is covered by authorizations for each of its identifiers and may be finalized at
    once only if all are valid; a refused request stores nothing; an order becomes ready exactly when no
    authorization is unfinished; a check that does not accept grants nothing; a ready order takes one
    certificate, and the sequence by which a late validation reopens it is exhibited; a batch of the
    coalescer acts like its operations in turn and keeps the tables sound; the CAA check decides as
    RFC 8659 says and its climb ends; dates agree with the Gregorian calendar.
  \<^item> Requests: a request is accepted once; the key it is checked against is that of a valid account, at
    once or within the lifetime of a cache entry when accounts change by gossip; accounts are created
    for their key, changed only with both keys, and certificates revoked only by their owner, the
    holder of an authorization or of the key; a request signed as the crate signs verifies.
  \<^item> Log: the cached root is that of the leaves; a served tile holds the subtree hashes; tile paths are
    parsed to what they name.
  \<^item> Administration: a session carries the current role of an enrolled operator in every reachable state;
    the gate passes exactly what its table lists; the rate limit bounds attempts in every window; the
    policy decides issuance exactly as its rules say and follows their changes.

  \<^bold>\<open>Parameters and bounds.\<close> Cryptography, ASN.1, JSON and CBOR text, DNS, HTTP, regular expressions, the log on disk
  and the database driver are records of parameters; a theorem that depends on one of them states the
  documented law it needs as a hypothesis. Clocks and random values are arguments; a request reads the
  clock once unless two readings matter. Structs are read from JSON objects. Statements on the database
  fail by a constraint, or, for transaction control, as the parameter \<open>io\<close> says. A panic is \<^const>\<open>None\<close> or a
  constructor of its own. Machine integers are written out where they wrap or saturate. Loops whose
  end is not evident are partial functions in the option monad or carry a proof that they end; there is no fuel
  parameter. A handler is one step, split where the code releases a lock on state that others change.

  \<^bold>\<open>Not modelled.\<close> Audit and journal output, metrics and log texts; the network validators, whose outcome
  is a parameter; endpoints that only render stored rows; background tasks of the log, of automatic
  renewal and of upstream delegation; configuration, start-up and TLS; the client, the tools, the cosigner and the bindings to
  Kerberos and LDAP, which are separate programs or wrappers of libraries.
\<close>

end
